(* ===== verification/Prelude.thy ===== *)
theory Prelude
  imports Complex_Main "HOL-Library.AList"
begin

text \<open>
  Shared vocabulary of the development: computations that thread a state and may throw
  (an \<open>async\<close> function running on one database client), the invariant rules for them,
  JSON values and plain JavaScript objects as association lists, and the insertion-ordered
  JavaScript \<open>Map\<close> with the interface its clients rely on.
\<close>

section \<open>Collections\<close>

named_theorems comp_simps \<open>evaluation rules of the computation combinators\<close>
named_theorems keeps_intros \<open>rules that a computation keeps a state predicate\<close>
named_theorems reads_intros \<open>rules that a computation leaves the state as it is\<close>

section \<open>Computations with state and errors\<close>

text \<open>
  A computation takes the state and either throws (\<open>Inl e\<close>; the caller's transaction is
  then rolled back, so no state is returned) or returns a value with the new state.
\<close>

type_synonym ('s, 'e, 'a) comp = "'s \<Rightarrow> 'e + ('a \<times> 's)"

definition return :: "'a \<Rightarrow> ('s, 'e, 'a) comp" where
  "return x = (\<lambda>s. Inr (x, s))"

definition throw :: "'e \<Rightarrow> ('s, 'e, 'a) comp" where
  "throw e = (\<lambda>s. Inl e)"

definition bnd :: "('s, 'e, 'a) comp \<Rightarrow> ('a \<Rightarrow> ('s, 'e, 'b) comp) \<Rightarrow> ('s, 'e, 'b) comp" where
  "bnd m f = (\<lambda>s. case m s of Inl e \<Rightarrow> Inl e | Inr (x, s') \<Rightarrow> f x s')"

definition andThen :: "('s, 'e, 'a) comp \<Rightarrow> ('s, 'e, 'b) comp \<Rightarrow> ('s, 'e, 'b) comp" where
  "andThen m n = bnd m (\<lambda>_. n)"

text \<open>\<open>gets\<close> is a query, \<open>modify\<close> a statement that always succeeds.\<close>

definition gets :: "('s \<Rightarrow> 'a) \<Rightarrow> ('s, 'e, 'a) comp" where
  "gets f = (\<lambda>s. Inr (f s, s))"

definition modify :: "('s \<Rightarrow> 's) \<Rightarrow> ('s, 'e, unit) comp" where
  "modify f = (\<lambda>s. Inr ((), f s))"

definition ofSum :: "'e + 'a \<Rightarrow> ('s, 'e, 'a) comp" where
  "ofSum r = (case r of Inl e \<Rightarrow> throw e | Inr x \<Rightarrow> return x)"

text \<open>\<open>try { m } catch (err) { h(err) }\<close>, where \<open>h\<close> rethrows or answers.\<close>

definition catchC :: "('s, 'e, 'a) comp \<Rightarrow> ('e \<Rightarrow> ('s, 'e, 'a) comp) \<Rightarrow> ('s, 'e, 'a) comp" where
  "catchC m h = (\<lambda>s. case m s of Inl e \<Rightarrow> h e s | Inr r \<Rightarrow> Inr r)"

definition whenC :: "bool \<Rightarrow> ('s, 'e, unit) comp \<Rightarrow> ('s, 'e, unit) comp" where
  "whenC b m = (if b then m else return ())"

primrec forEach :: "'a list \<Rightarrow> ('a \<Rightarrow> ('s, 'e, unit) comp) \<Rightarrow> ('s, 'e, unit) comp" where
  "forEach [] f = return ()"
| "forEach (x # xs) f = andThen (f x) (forEach xs f)"

primrec mapC :: "('a \<Rightarrow> ('s, 'e, 'b) comp) \<Rightarrow> 'a list \<Rightarrow> ('s, 'e, 'b list) comp" where
  "mapC f [] = return []"
| "mapC f (x # xs) = bnd (f x) (\<lambda>y. bnd (mapC f xs) (\<lambda>ys. return (y # ys)))"

primrec foldC :: "('a \<Rightarrow> 'b \<Rightarrow> ('s, 'e, 'b) comp) \<Rightarrow> 'a list \<Rightarrow> 'b \<Rightarrow> ('s, 'e, 'b) comp" where
  "foldC f [] acc = return acc"
| "foldC f (x # xs) acc = bnd (f x acc) (foldC f xs)"

lemma return_apply [comp_simps]: "return x s = Inr (x, s)"
  by (simp add: return_def)

lemma throw_apply [comp_simps]: "throw e s = Inl e"
  by (simp add: throw_def)

lemma gets_apply [comp_simps]: "gets f s = Inr (f s, s)"
  by (simp add: gets_def)

lemma modify_apply [comp_simps]: "modify f s = Inr ((), f s)"
  by (simp add: modify_def)

lemma bnd_return [comp_simps]: "bnd (return x) f = f x"
  by (simp add: bnd_def return_def)

lemma bnd_throw [comp_simps]: "bnd (throw e) f = throw e"
  by (simp add: bnd_def throw_def)

lemma bnd_gets_apply [comp_simps]: "bnd (gets g) f s = f (g s) s"
  by (simp add: bnd_def gets_def)

lemma bnd_modify_apply [comp_simps]: "bnd (modify g) f s = f () (g s)"
  by (simp add: bnd_def modify_def)

lemma andThen_modify_apply [comp_simps]: "andThen (modify g) n s = n (g s)"
  by (simp add: andThen_def comp_simps)

lemma bnd_Inl: "m s = Inl e \<Longrightarrow> bnd m f s = Inl e"
  by (simp add: bnd_def)

lemma bnd_Inr: "m s = Inr (x, s') \<Longrightarrow> bnd m f s = f x s'"
  by (simp add: bnd_def)

lemma andThen_Inl: "m s = Inl e \<Longrightarrow> andThen m n s = Inl e"
  by (simp add: andThen_def bnd_Inl)

lemma andThen_Inr: "m s = Inr (x, s') \<Longrightarrow> andThen m n s = n s'"
  by (simp add: andThen_def bnd_Inr)

lemma bnd_InrE:
  assumes "bnd m f s = Inr (y, t)"
  obtains x s' where "m s = Inr (x, s')" and "f x s' = Inr (y, t)"
  using assms by (auto simp: bnd_def split: sum.splits)

lemma andThen_InrE:
  assumes "andThen m n s = Inr (y, t)"
  obtains x s' where "m s = Inr (x, s')" and "n s' = Inr (y, t)"
  using assms unfolding andThen_def by (elim bnd_InrE)

lemma ofSum_simps [simp, comp_simps]: "ofSum (Inl e) = throw e" "ofSum (Inr x) = return x"
  by (simp_all add: ofSum_def)

lemma whenC_simps [simp, comp_simps]: "whenC True m = m" "whenC False m = return ()"
  by (simp_all add: whenC_def)

subsection \<open>State predicates kept by a computation\<close>

definition keeps :: "('s \<Rightarrow> bool) \<Rightarrow> ('s, 'e, 'a) comp \<Rightarrow> bool" where
  "keeps I m \<longleftrightarrow> (\<forall>s x t. I s \<longrightarrow> m s = Inr (x, t) \<longrightarrow> I t)"

definition readsOnly :: "('s, 'e, 'a) comp \<Rightarrow> bool" where
  "readsOnly m \<longleftrightarrow> (\<forall>s x t. m s = Inr (x, t) \<longrightarrow> t = s)"

lemma keepsI: "(\<And>s x t. I s \<Longrightarrow> m s = Inr (x, t) \<Longrightarrow> I t) \<Longrightarrow> keeps I m"
  by (auto simp: keeps_def)

lemma keepsD: "keeps I m \<Longrightarrow> I s \<Longrightarrow> m s = Inr (x, t) \<Longrightarrow> I t"
  by (auto simp: keeps_def)

lemma readsOnlyI: "(\<And>s x t. m s = Inr (x, t) \<Longrightarrow> t = s) \<Longrightarrow> readsOnly m"
  by (auto simp: readsOnly_def)

lemma readsOnlyD: "readsOnly m \<Longrightarrow> m s = Inr (x, t) \<Longrightarrow> t = s"
  by (auto simp: readsOnly_def)

lemma readsOnly_keeps: "readsOnly m \<Longrightarrow> keeps I m"
  by (auto simp: readsOnly_def keeps_def)

lemma readsOnly_return [reads_intros]: "readsOnly (return x)"
  by (auto simp: readsOnly_def comp_simps)

lemma readsOnly_throw [reads_intros]: "readsOnly (throw e)"
  by (auto simp: readsOnly_def comp_simps)

lemma readsOnly_gets [reads_intros]: "readsOnly (gets f)"
  by (auto simp: readsOnly_def comp_simps)

lemma readsOnly_bnd [reads_intros]: "readsOnly m \<Longrightarrow> (\<And>x. readsOnly (f x)) \<Longrightarrow> readsOnly (bnd m f)"
  unfolding readsOnly_def by (metis bnd_InrE)

lemma readsOnly_andThen [reads_intros]: "readsOnly m \<Longrightarrow> readsOnly n \<Longrightarrow> readsOnly (andThen m n)"
  by (simp add: andThen_def readsOnly_bnd)

lemma readsOnly_ofSum [reads_intros]: "readsOnly (ofSum r)"
  by (cases r) (auto intro: reads_intros)

lemma readsOnly_whenC [reads_intros]: "readsOnly m \<Longrightarrow> readsOnly (whenC b m)"
  by (cases b) (auto intro: reads_intros)

lemma readsOnly_if [reads_intros]: "(b \<Longrightarrow> readsOnly m) \<Longrightarrow> (\<not> b \<Longrightarrow> readsOnly n) \<Longrightarrow> readsOnly (if b then m else n)"
  by simp

lemma readsOnly_option [reads_intros]:
  "(z = None \<Longrightarrow> readsOnly m) \<Longrightarrow> (\<And>x. z = Some x \<Longrightarrow> readsOnly (f x)) \<Longrightarrow>
     readsOnly (case z of None \<Rightarrow> m | Some x \<Rightarrow> f x)"
  by (cases z) auto

lemma readsOnly_catchC [reads_intros]: "readsOnly m \<Longrightarrow> (\<And>e. readsOnly (h e)) \<Longrightarrow> readsOnly (catchC m h)"
  unfolding readsOnly_def catchC_def by (auto split: sum.splits)

lemma readsOnly_list [reads_intros]:
  "(xs = [] \<Longrightarrow> readsOnly m) \<Longrightarrow> (\<And>y ys. xs = y # ys \<Longrightarrow> readsOnly (f y ys)) \<Longrightarrow>
     readsOnly (case xs of [] \<Rightarrow> m | y # ys \<Rightarrow> f y ys)"
  by (cases xs) auto

lemma readsOnly_mapC [reads_intros]: "(\<And>x. x \<in> set xs \<Longrightarrow> readsOnly (f x)) \<Longrightarrow> readsOnly (mapC f xs)"
  by (induction xs) (auto intro!: reads_intros)

lemma readsOnly_forEach [reads_intros]: "(\<And>x. x \<in> set xs \<Longrightarrow> readsOnly (f x)) \<Longrightarrow> readsOnly (forEach xs f)"
  by (induction xs) (auto intro!: reads_intros)

lemma keeps_return [keeps_intros]: "keeps I (return x)"
  by (auto simp: keeps_def comp_simps)

lemma keeps_throw [keeps_intros]: "keeps I (throw e)"
  by (auto simp: keeps_def comp_simps)

lemma keeps_gets [keeps_intros]: "keeps I (gets f)"
  by (auto simp: keeps_def comp_simps)

lemma keeps_ofSum [keeps_intros]: "keeps I (ofSum r)"
  by (rule readsOnly_keeps) (rule readsOnly_ofSum)

lemma keeps_modify: "(\<And>s. I s \<Longrightarrow> I (g s)) \<Longrightarrow> keeps I (modify g)"
  by (auto simp: keeps_def comp_simps)

lemma keeps_bnd [keeps_intros]: "keeps I m \<Longrightarrow> (\<And>x. keeps I (f x)) \<Longrightarrow> keeps I (bnd m f)"
  unfolding keeps_def by (metis bnd_InrE)

lemma keeps_andThen [keeps_intros]: "keeps I m \<Longrightarrow> keeps I n \<Longrightarrow> keeps I (andThen m n)"
  by (simp add: andThen_def keeps_bnd)

lemma keeps_whenC [keeps_intros]: "keeps I m \<Longrightarrow> keeps I (whenC b m)"
  by (cases b) (auto intro: keeps_intros)

lemma keeps_if [keeps_intros]: "(b \<Longrightarrow> keeps I m) \<Longrightarrow> (\<not> b \<Longrightarrow> keeps I n) \<Longrightarrow> keeps I (if b then m else n)"
  by simp

lemma keeps_option [keeps_intros]:
  "(z = None \<Longrightarrow> keeps I m) \<Longrightarrow> (\<And>x. z = Some x \<Longrightarrow> keeps I (f x)) \<Longrightarrow>
     keeps I (case z of None \<Rightarrow> m | Some x \<Rightarrow> f x)"
  by (cases z) auto

lemma keeps_catchC [keeps_intros]: "keeps I m \<Longrightarrow> (\<And>e. keeps I (h e)) \<Longrightarrow> keeps I (catchC m h)"
proof (rule keepsI)
  fix s x t
  assume m: "keeps I m" and h: "\<And>e. keeps I (h e)" and s: "I s" and run: "catchC m h s = Inr (x, t)"
  show "I t"
  proof (cases "m s")
    case (Inl e)
    with run have "h e s = Inr (x, t)" by (simp add: catchC_def)
    with h s show ?thesis by (blast intro: keepsD)
  next
    case (Inr r)
    with run have "m s = Inr (x, t)" by (simp add: catchC_def)
    with m s show ?thesis by (blast intro: keepsD)
  qed
qed

lemma keeps_list [keeps_intros]:
  "(xs = [] \<Longrightarrow> keeps I m) \<Longrightarrow> (\<And>y ys. xs = y # ys \<Longrightarrow> keeps I (f y ys)) \<Longrightarrow>
     keeps I (case xs of [] \<Rightarrow> m | y # ys \<Rightarrow> f y ys)"
  by (cases xs) auto

lemma keeps_sum [keeps_intros]:
  "(\<And>e. z = Inl e \<Longrightarrow> keeps I (g e)) \<Longrightarrow> (\<And>x. z = Inr x \<Longrightarrow> keeps I (f x)) \<Longrightarrow>
     keeps I (case z of Inl e \<Rightarrow> g e | Inr x \<Rightarrow> f x)"
  by (cases z) auto

lemma keeps_forEach [keeps_intros]: "(\<And>x. x \<in> set xs \<Longrightarrow> keeps I (f x)) \<Longrightarrow> keeps I (forEach xs f)"
  by (induction xs) (auto intro!: keeps_intros)

lemma keeps_foldC [keeps_intros]:
  "(\<And>x acc. x \<in> set xs \<Longrightarrow> keeps I (f x acc)) \<Longrightarrow> keeps I (foldC f xs acc)"
  by (induction xs arbitrary: acc) (auto intro!: keeps_intros)

lemma bnd_readsOnly_InrE:
  assumes "bnd m f s = Inr (y, t)" and "readsOnly m"
  obtains x where "m s = Inr (x, s)" and "f x s = Inr (y, t)"
  using assms by (metis bnd_InrE readsOnlyD)

lemma andThen_readsOnly_InrE:
  assumes "andThen m n s = Inr (y, t)" and "readsOnly m"
  obtains x where "m s = Inr (x, s)" and "n s = Inr (y, t)"
  using assms by (metis andThen_InrE readsOnlyD)

section \<open>JSON values and plain objects\<close>

text \<open>
  An \<open>unknown\<close> value read from a \<open>jsonb\<close> column. Objects are association lists, in key
  order; a missing key is \<open>None\<close> (JavaScript's \<open>undefined\<close>). Numbers are exact
  rationals: nothing modelled here depends on floating-point rounding.
\<close>

datatype json =
    JNull
  | JBool bool
  | JNum rat
  | JStr string
  | JArr "json list"
  | JObj "(string \<times> json) list"

type_synonym obj = "(string \<times> json) list"

text \<open>\<open>typeof v === "string" ? v : null\<close>, the narrowing the code applies all over.\<close>

definition asStr :: "json option \<Rightarrow> string option" where
  "asStr v = (case v of Some (JStr s) \<Rightarrow> Some s | _ \<Rightarrow> None)"

text \<open>\<open>Object.hasOwn\<close>, property assignment, and \<open>{ ...a, ...b }\<close> (also \<open>jsonb || jsonb\<close>).\<close>

definition hasOwn :: "obj \<Rightarrow> string \<Rightarrow> bool" where
  "hasOwn m k \<longleftrightarrow> map_of m k \<noteq> None"

definition setProp :: "string \<Rightarrow> json \<Rightarrow> obj \<Rightarrow> obj" where
  "setProp k v m = AList.update k v m"

definition spread :: "obj \<Rightarrow> obj \<Rightarrow> obj" where
  "spread a b = fold (\<lambda>(k, v) m. setProp k v m) b a"

definition keysOf :: "('k \<times> 'v) list \<Rightarrow> 'k list" where
  "keysOf m = map fst m"

lemma map_of_setProp [simp]: "map_of (setProp k v m) = (map_of m)(k \<mapsto> v)"
  by (simp add: setProp_def update_conv')

lemma map_of_spread_gen: "map_of (fold (\<lambda>(k, v) m. setProp k v m) b a) k =
  (case map_of (rev b) k of None \<Rightarrow> map_of a k | Some v \<Rightarrow> Some v)"
  by (induction b arbitrary: a) (auto simp: map_add_def split: option.splits)

lemma map_of_rev_distinct:
  assumes "distinct (keysOf b)"
  shows "map_of (rev b) k = map_of b k"
proof -
  from assms have d: "distinct (map fst b)" "distinct (map fst (rev b))"
    by (simp_all add: keysOf_def flip: rev_map)
  show ?thesis
  proof (cases "map_of b k")
    case None
    then have "k \<notin> fst ` set (rev b)" by (simp add: map_of_eq_None_iff)
    with None show ?thesis by (metis map_of_eq_None_iff)
  next
    case (Some v)
    with d show ?thesis by (simp add: map_of_eq_Some_iff)
  qed
qed

lemma map_of_spread:
  "distinct (keysOf b) \<Longrightarrow>
     map_of (spread a b) k = (case map_of b k of None \<Rightarrow> map_of a k | Some v \<Rightarrow> Some v)"
  by (simp add: spread_def map_of_spread_gen map_of_rev_distinct)

lemma distinct_setProp: "distinct (keysOf m) \<Longrightarrow> distinct (keysOf (setProp k v m))"
  by (simp add: keysOf_def setProp_def distinct_update)

lemma distinct_spread: "distinct (keysOf a) \<Longrightarrow> distinct (keysOf (spread a b))"
  unfolding spread_def by (induction b arbitrary: a) (auto simp: distinct_setProp)

text \<open>A JavaScript \<open>Set\<close> built from a list, in insertion order: first occurrences stay.\<close>

definition jsSet :: "'a list \<Rightarrow> 'a list" where
  "jsSet xs = rev (remdups (rev xs))"

lemma set_jsSet [simp]: "set (jsSet xs) = set xs"
  by (simp add: jsSet_def)

lemma distinct_jsSet [simp]: "distinct (jsSet xs)"
  by (simp add: jsSet_def)

section \<open>UUID texts\<close>

text \<open>\<open>/^[0-9a-f]{8}-[0-9a-f]{4}-[0-9a-f]{4}-[0-9a-f]{4}-[0-9a-f]{12}$/i\<close>.\<close>

definition isHexDigit :: "char \<Rightarrow> bool" where
  "isHexDigit c \<longleftrightarrow> c \<in> set ''0123456789abcdefABCDEF''"

fun uuidGroups :: "nat list \<Rightarrow> string \<Rightarrow> bool" where
  "uuidGroups [] s = (s = [])"
| "uuidGroups [n] s = (length s = n \<and> list_all isHexDigit s)"
| "uuidGroups (n # ns) s =
     (length (take n s) = n \<and> list_all isHexDigit (take n s) \<and>
      (case drop n s of [] \<Rightarrow> False | c # rest \<Rightarrow> c = CHR ''-'' \<and> uuidGroups ns rest))"

definition isUuid :: "string \<Rightarrow> bool" where
  "isUuid s = uuidGroups [8, 4, 4, 4, 12] s"

text \<open>JavaScript's truthiness of an optional string.\<close>

definition truthy :: "string option \<Rightarrow> bool" where
  "truthy s \<longleftrightarrow> s \<noteq> None \<and> s \<noteq> Some ''''"

text \<open>The decimal text of a natural number: \<open>String(n)\<close>, also a \<open>bigint\<close> the driver reads.\<close>

definition digitChar :: "nat \<Rightarrow> char" where
  "digitChar n = ''0123456789'' ! (n mod 10)"

fun natText :: "nat \<Rightarrow> string" where
  "natText n = (if n < 10 then [digitChar n] else natText (n div 10) @ [digitChar n])"

declare natText.simps [simp del]

lemma mapC_ofSum_Inr:
  "mapC (\<lambda>r. ofSum (g r)) rows c = Inr (ys, c') \<Longrightarrow> map g rows = map Inr ys \<and> c' = c"
proof (induction rows arbitrary: ys)
  case (Cons row rows)
  then show ?case by (cases "g row") (auto simp: comp_simps elim!: bnd_InrE)
qed (auto simp: comp_simps)

lemma list_all2_in2:
  "list_all2 P xs ys \<Longrightarrow> y \<in> set ys \<Longrightarrow> \<exists>x \<in> set xs. P x y"
  by (induction rule: list_all2_induct) auto

lemma list_all2_in1:
  "list_all2 P xs ys \<Longrightarrow> x \<in> set xs \<Longrightarrow> \<exists>y \<in> set ys. P x y"
  by (induction rule: list_all2_induct) auto

text \<open>The row of a key.\<close>

lemma filter_by_key:
  assumes "distinct (map key xs)" and "x \<in> set xs"
  shows "filter (\<lambda>y. key y = key x \<and> Q y) xs = (if Q x then [x] else [])"
  using assms by (induction xs) (auto simp: filter_empty_conv image_iff)

end
