(* ===== verification/Errors.thy ===== *)
theory Errors
  imports Prelude
begin

text \<open>
  The error categories of the data layer (\<open>errors.ts\<close>). Each \<open>ChokePointError\<close>
  subclass is a constructor; \<open>status\<close> and \<open>code\<close> are what its constructor passes to
  \<open>super\<close>. Messages are left out; of \<open>details\<close> the model keeps the \<open>field\<close>
  that names the offending input, or the identifiers the code's callers read back.
  \<open>PlainError\<close> is a bare \<open>Error\<close> (an invariant violation, not a client error),
  \<open>DbError\<close> an error raised by Postgres with its SQLSTATE.
\<close>

datatype PasswordResetTokenErrorReason = ResetInvalid | ResetExpired | ResetConsumed

datatype error =
    ValidationError "string option"
  | ForbiddenError string "string option"
  | ConflictError "string option"
  | CardinalityViolationError string string string
  | NotFoundError
  | HistoryNotRetainedError string int
  | UnauthorizedError
  | SchemaLockedError "string option"
  | PropertyLockedError "string option"
  | ApprovalRequiredError string string
  | HeartbeatEventTriggeredError
  | PasswordResetTokenError PasswordResetTokenErrorReason
  | PlainError string
  | DbError string

fun reasonName :: "PasswordResetTokenErrorReason \<Rightarrow> string" where
  "reasonName ResetInvalid = ''invalid''"
| "reasonName ResetExpired = ''expired''"
| "reasonName ResetConsumed = ''consumed''"

text \<open>\<open>ForbiddenError\<close>'s third constructor argument defaults to \<open>forbidden\<close>.\<close>

definition forbidden :: "string option \<Rightarrow> error" where
  "forbidden field = ForbiddenError ''forbidden'' field"

fun errorStatus :: "error \<Rightarrow> nat option" where
  "errorStatus (ValidationError _) = Some 400"
| "errorStatus (ForbiddenError _ _) = Some 403"
| "errorStatus (ConflictError _) = Some 409"
| "errorStatus (CardinalityViolationError _ _ _) = Some 409"
| "errorStatus NotFoundError = Some 404"
| "errorStatus (HistoryNotRetainedError _ _) = Some 410"
| "errorStatus UnauthorizedError = Some 401"
| "errorStatus (SchemaLockedError _) = Some 403"
| "errorStatus (PropertyLockedError _) = Some 403"
| "errorStatus (ApprovalRequiredError _ _) = Some 403"
| "errorStatus HeartbeatEventTriggeredError = Some 409"
| "errorStatus (PasswordResetTokenError _) = Some 400"
| "errorStatus (PlainError _) = None"
| "errorStatus (DbError _) = None"

fun errorCode :: "error \<Rightarrow> string option" where
  "errorCode (ValidationError _) = Some ''validation_failed''"
| "errorCode (ForbiddenError c _) = Some c"
| "errorCode (ConflictError _) = Some ''version_conflict''"
| "errorCode (CardinalityViolationError _ _ _) = Some ''cardinality_violation''"
| "errorCode NotFoundError = Some ''not_found''"
| "errorCode (HistoryNotRetainedError _ _) = Some ''history_not_retained''"
| "errorCode UnauthorizedError = Some ''unauthorized''"
| "errorCode (SchemaLockedError _) = Some ''schema_locked''"
| "errorCode (PropertyLockedError _) = Some ''property_locked''"
| "errorCode (ApprovalRequiredError _ _) = Some ''approval_required''"
| "errorCode HeartbeatEventTriggeredError = Some ''heartbeat_event_triggered''"
| "errorCode (PasswordResetTokenError r) = Some (''password_reset_token_'' @ reasonName r)"
| "errorCode (PlainError _) = None"
| "errorCode (DbError _) = None"

end
