(* ===== verification/Tables.thy ===== *)
theory Tables
  imports Errors "HOL-Library.Char_ord" "HOL-Library.List_Lexorder"
begin

text \<open>
  The rows the data layer reads and writes (\<open>types.ts\<close> and the \<open>*DbRow\<close> types of the
  stores) and the tables one connection sees: the rows row-level security shows to the
  tenant in scope. A table is the list of its rows; a \<open>SELECT\<close> without \<open>ORDER BY\<close>
  returns them in the list's order. Timestamps are integers: microseconds since the epoch in a
  column (\<open>timestamptz\<close>), milliseconds in a mapped row (a JavaScript \<open>Date\<close>).
\<close>

type_synonym id = string

section \<open>Mapped rows\<close>

datatype PropertyOwner = OwnerUser | OwnerSystem
datatype MigrationStatus = MsStable | MsPending | MsRunning | MsDone | MsPartial
datatype CreatedBy = ByUser | ByAiAgent | BySystem

datatype PropertyType =
    PtText | PtNumber | PtSelect | PtMultiSelect | PtDate | PtRelation | PtRollup | PtFiles
  | PtTitle | PtCheckbox | PtTime | PtLongText | PtColor | PtFile | PtUrl | PtImage | PtJson

definition PROPERTY_TYPES :: "(string \<times> PropertyType) list" where
  "PROPERTY_TYPES =
     [(''text'', PtText), (''number'', PtNumber), (''select'', PtSelect),
      (''multi_select'', PtMultiSelect), (''date'', PtDate), (''relation'', PtRelation),
      (''rollup'', PtRollup), (''files'', PtFiles), (''title'', PtTitle),
      (''checkbox'', PtCheckbox), (''time'', PtTime), (''longText'', PtLongText),
      (''color'', PtColor), (''file'', PtFile), (''url'', PtUrl), (''image'', PtImage),
      (''json'', PtJson)]"

record DatabaseRow =
  db_id :: id
  db_key :: "string option"
  db_name :: "string option"
  db_parentItemId :: "id option"
  db_ownerProjectItemId :: "id option"
  db_ownerModuleId :: "string option"
  db_schemaLocked :: bool
  db_system :: bool
  db_archivedAt :: "int option"

record PropertyRow =
  pr_id :: id
  pr_databaseId :: id
  pr_key :: string
  pr_name :: "string option"
  pr_type :: PropertyType
  pr_config :: obj
  pr_locked :: bool
  pr_owner :: PropertyOwner
  pr_ownerProcess :: "string option"
  pr_migrationStatus :: MigrationStatus

datatype Cardinality = OneToOne | OneToMany | ManyToMany

record RelationDefinitionRow =
  rd_id :: id
  rd_propertyIdA :: id
  rd_propertyIdB :: "id option"
  rd_cardinality :: Cardinality

record ItemRow =
  it_id :: id
  it_databaseId :: id
  it_properties :: obj
  it_computed :: obj
  it_updatedAt :: int
  it_deletedAt :: "int option"

record ItemRelationRow =
  ir_id :: id
  ir_relationDefinitionId :: id
  ir_itemA :: id
  ir_itemB :: id
  ir_metadata :: obj

record ViewRow =
  vw_id :: id
  vw_databaseId :: "id option"
  vw_type :: string
  vw_name :: string
  vw_config :: obj
  vw_isDefault :: bool
  vw_ownerModuleId :: "string option"
  vw_createdBy :: CreatedBy
  vw_creatorProjectItemId :: "id option"

record ViewItemRow =
  vir_viewId :: id
  vir_itemId :: id
  vir_position :: int

section \<open>Raw rows\<close>

record DatabaseDbRow =
  rdb_id :: id
  rdb_name :: "string option"
  rdb_key :: "string option"
  rdb_parent_item_id :: "id option"
  rdb_owner_project_item_id :: "id option"
  rdb_owner_module_id :: "string option"
  rdb_schema_locked :: bool
  rdb_system :: bool
  rdb_archived_at :: "int option"

record PropertyDbRow =
  rpr_id :: id
  rpr_database_id :: id
  rpr_key :: string
  rpr_name :: "string option"
  rpr_type :: string
  rpr_config :: obj
  rpr_locked :: bool
  rpr_owner :: string
  rpr_owner_process :: "string option"
  rpr_migration_status :: string
  rpr_migration_dropped_values :: bool

record RelationDefinitionDbRow =
  rrd_id :: id
  rrd_property_id_a :: id
  rrd_property_id_b :: "id option"
  rrd_cardinality :: string

record ItemDbRow =
  rit_id :: id
  rit_database_id :: id
  rit_properties :: obj
  rit_computed :: obj
  rit_updated_at :: int
  rit_deleted_at :: "int option"

record ItemRelationDbRow =
  rir_id :: id
  rir_relation_definition_id :: id
  rir_item_a :: id
  rir_item_b :: id
  rir_metadata :: obj

record RollupDependencyDbRow =
  rud_rollup_property_id :: id
  rud_relation_definition_id :: id
  rud_source_database_id :: id
  rud_source_property_key :: "string option"

record IdempotencyRow =
  ik_key :: string
  ik_database_id :: id
  ik_item_id :: id

record ViewDbRow =
  rvw_id :: id
  rvw_database_id :: "id option"
  rvw_type :: string
  rvw_name :: string
  rvw_config :: obj
  rvw_is_default :: bool
  rvw_owner_module_id :: "string option"
  rvw_created_by :: string
  rvw_creator_project_item_id :: "id option"

record ViewItemDbRow =
  rvi_view_id :: id
  rvi_item_id :: id
  rvi_position :: int

record HeartbeatDbRow =
  hb_id :: id
  hb_project_item_id :: id
  hb_name :: string
  hb_rule :: obj
  hb_action_id :: string
  hb_action_config :: obj
  hb_enabled :: bool
  hb_next_fire_at :: "int option"
  hb_last_fired_at :: "int option"
  hb_last_error :: "string option"

record OccurrenceDbRow =
  roc_id :: id
  roc_heartbeat_id :: id
  roc_scheduled_for :: int
  roc_rule_snapshot :: obj
  roc_first_started_at :: "int option"
  roc_status :: string
  roc_last_error :: "string option"
  roc_generation :: nat

record UserDbRow =
  usr_id :: id
  usr_tenant_id :: id
  usr_locale :: string

record AgentRunDbRow =
  rar_id :: id
  rar_project_item_id :: "id option"
  rar_parent_run_id :: "id option"
  rar_heartbeat_id :: "id option"
  rar_triggered_by :: string
  rar_unit :: string
  rar_task :: string
  rar_status :: string
  rar_result :: "string option"
  rar_started_at :: int
  rar_finished_at :: "int option"
  rar_actor_user_id :: id
  rar_wake_seq :: nat

record AgentRunEventDbRow =
  rev_id :: nat
  rev_agent_run_id :: id
  rev_kind :: string
  rev_payload :: json
  rev_at :: int

record NotificationDbRow =
  ntf_id :: id
  ntf_user_id :: id
  ntf_kind :: string
  ntf_title :: string
  ntf_link_href :: "string option"
  ntf_source_table :: string
  ntf_source_id :: id
  ntf_transition_instance :: string
  ntf_payload :: obj
  ntf_created_at :: int
  ntf_read_at :: "int option"

record ApprovalResourceSnapshot =
  asn_kind :: string
  asn_resourceId :: id
  asn_sha256 :: "string option"

text \<open>The two payload shapes of an approval request; only one has the key \<open>operationName\<close>.\<close>

datatype ApprovalRequestPayload =
    McpInvokePayload (ap_mcpToolRegistrationId: id) (ap_mcpServerItemId: id) (ap_args: obj)
  | GenericOperationPayload (ap_operationName: string) (ap_canonicalInput: json)
      (ap_runId: id) (ap_agentProjectItemId: id) (ap_userId: id)
      (ap_resourceSnapshot: ApprovalResourceSnapshot)

record ApprovalRequestDbRow =
  raq_id :: id
  raq_agent_run_id :: id
  raq_tool_name :: string
  raq_risk_class :: string
  raq_payload :: ApprovalRequestPayload
  raq_status :: string
  raq_requested_at :: int
  raq_decided_at :: "int option"
  raq_decided_by :: "id option"
  raq_resource_snapshot :: ApprovalResourceSnapshot
  raq_execution_status :: string
  raq_executed_at :: "int option"
  raq_execution_error :: "bool option"
  raq_execution_result :: "json option"

record McpToolRegistrationDbRow =
  rmt_id :: id
  rmt_mcp_server_item_id :: id
  rmt_tool_name :: string
  rmt_tool_schema :: json
  rmt_requires_approval :: bool
  rmt_risk_class :: string
  rmt_active :: bool
  rmt_updated_at :: int

record McpGrantDbRow =
  rmg_project_item_id :: id
  rmg_mcp_tool_registration_id :: id
  rmg_granted :: bool

text \<open>\<open>toISOString\<close> of a \<open>timestamptz\<close>: the driver's \<open>Date\<close> keeps milliseconds.\<close>

definition toISOString :: "int \<Rightarrow> int" where
  "toISOString us = us div 1000"

section \<open>Queue jobs and realtime events\<close>

datatype TenantScope = ScopeTenant id | ScopeSystem string

record job =
  job_identifier :: string
  job_payload :: obj
  job_traceId :: string
  job_tenantId :: "id option"
  job_queueName :: "string option"
  job_maxAttempts :: "nat option"
  job_key :: "string option"
  job_keyMode :: string

datatype ItemOp = OpCreate | OpUpdate | OpDelete

datatype InvalidationEvent =
    InvItem (inv_databaseId: id) (inv_itemId: id) (inv_op: ItemOp) (inv_updatedAt: int)
      (inv_userId: "id option")
  | InvSchema (inv_databaseId: id) (inv_userId: "id option")
  | NotifCreated id id
  | NotifReadState id "id list"
  | AgentRunEventAdded id nat

section \<open>The database one connection sees\<close>

text \<open>
  \<open>t_partitions\<close> are the databases with an \<open>items\<close> partition; \<open>t_jobs\<close> the calls to
  the queue's \<open>add_job\<close>, in order. The tables the purge only deletes from are kept as
  the item ids (or, for \<open>item_search_index\<close>, item and database ids) of their rows.
  \<open>t_wake_seq\<close> and \<open>t_event_seq\<close> are the last values of the \<open>bigserial\<close> sequences.
\<close>

record db =
  t_databases :: "DatabaseDbRow list"
  t_partitions :: "id list"
  t_properties :: "PropertyDbRow list"
  t_relation_definitions :: "RelationDefinitionDbRow list"
  t_items :: "ItemDbRow list"
  t_item_relations :: "ItemRelationDbRow list"
  t_idempotency_keys :: "IdempotencyRow list"
  t_rollup_dependencies :: "RollupDependencyDbRow list"
  t_heartbeats :: "HeartbeatDbRow list"
  t_views :: "ViewDbRow list"
  t_view_items :: "ViewItemDbRow list"
  t_docs :: "(id \<times> id) list"
  t_task_recurrence :: "id list"
  t_item_automation :: "id list"
  t_item_search_index :: "(id \<times> id) list"
  t_blobs :: "(id \<times> string) list"
  t_mail_attachments :: "id list"
  t_occurrences :: "OccurrenceDbRow list"
  t_users :: "UserDbRow list"
  t_agent_runs :: "AgentRunDbRow list"
  t_agent_run_events :: "AgentRunEventDbRow list"
  t_wake_seq :: nat
  t_event_seq :: nat
  t_notifications :: "NotificationDbRow list"
  t_approval_requests :: "ApprovalRequestDbRow list"
  t_mcp_tool_registrations :: "McpToolRegistrationDbRow list"
  t_project_mcp_grants :: "McpGrantDbRow list"
  t_jobs :: "job list"

end
