(* ===== verification/Transactions.thy ===== *)
theory Transactions
  imports Tables
begin

text \<open>
  Transactions on one pooled client (\<open>db/pool.ts\<close>), the tenant scope every access is
  checked against (\<open>shared/tenantScope.ts\<close>), the invalidation events deferred to the
  commit (\<open>realtimeHook.ts\<close>) and the transactional enqueue (\<open>queue/index.ts\<close>).

  A client inside a transaction carries the tables as this transaction sees them, the
  \<open>runAfterCommit\<close> callbacks parked on it, and what stays fixed while the transaction runs:
  Postgres' \<open>now()\<close>, the tenant scope, the value of \<open>SEMPREC_TENANT_SCOPE\<close> and the
  trace id.
\<close>

record client =
  cl_db :: db
  cl_after :: "InvalidationEvent list"
  cl_now :: int
  cl_scope :: "TenantScope option"
  cl_mode :: "string option"
  cl_traceId :: string

type_synonym 'a op = "(client, error, 'a) comp"

definition query :: "(db \<Rightarrow> 'a) \<Rightarrow> 'a op" where
  "query q = gets (\<lambda>c. q (cl_db c))"

definition statement :: "(db \<Rightarrow> db) \<Rightarrow> unit op" where
  "statement f = modify (\<lambda>c. c\<lparr>cl_db := f (cl_db c)\<rparr>)"

lemma query_apply [comp_simps]: "query q c = Inr (q (cl_db c), c)"
  by (simp add: query_def comp_simps)

lemma bnd_query_apply [comp_simps]: "bnd (query q) f c = f (q (cl_db c)) c"
  by (simp add: query_def comp_simps)

lemma statement_apply [comp_simps]: "statement f c = Inr ((), c\<lparr>cl_db := f (cl_db c)\<rparr>)"
  by (simp add: statement_def comp_simps)

lemma readsOnly_query [reads_intros]: "readsOnly (query q)"
  by (simp add: query_def readsOnly_gets)

lemma keeps_query [keeps_intros]: "keeps I (query q)"
  by (simp add: query_def keeps_gets)

lemma keeps_statement: "(\<And>c. I c \<Longrightarrow> I (c\<lparr>cl_db := f (cl_db c)\<rparr>)) \<Longrightarrow> keeps I (statement f)"
  by (simp add: statement_def keeps_modify)

text \<open>\<open>requireSingleRow\<close> and \<open>requireAffectedRows\<close>: a missing row is a plain error.\<close>

definition requireSingleRow :: "'a list \<Rightarrow> string \<Rightarrow> 'a op" where
  "requireSingleRow rows context =
     (case rows of [] \<Rightarrow> throw (PlainError context) | row # _ \<Rightarrow> return row)"

definition requireAffectedRows :: "nat \<Rightarrow> string \<Rightarrow> nat op" where
  "requireAffectedRows rowCount context =
     (if rowCount = 0 then throw (PlainError context) else return rowCount)"

lemma readsOnly_requireSingleRow [reads_intros]: "readsOnly (requireSingleRow rows ctx)"
  by (auto simp: requireSingleRow_def intro: reads_intros split: list.splits)

lemma readsOnly_requireAffectedRows [reads_intros]: "readsOnly (requireAffectedRows n ctx)"
  by (auto simp: requireAffectedRows_def intro: reads_intros)

section \<open>Tenant scope\<close>

definition enforceTenantScope :: "TenantScope option \<Rightarrow> string option \<Rightarrow> error + TenantScope option" where
  "enforceTenantScope scope mode =
     (case scope of
        Some sc \<Rightarrow> Inr (Some sc)
      | None \<Rightarrow>
          (case mode of
             None \<Rightarrow> Inl (PlainError ''TenantScopeMissingError'')
           | Some m \<Rightarrow>
               if m = '''' \<or> m = ''strict'' then Inl (PlainError ''TenantScopeMissingError'')
               else if m \<noteq> ''warn'' then Inl (PlainError ''Unknown SEMPREC_TENANT_SCOPE'')
               else Inr None))"

text \<open>\<open>tenantLane\<close>: \<open><lane>:<tenantId>\<close> inside a tenant, undefined otherwise.\<close>

definition tenantLane :: "TenantScope option \<Rightarrow> string \<Rightarrow> string option" where
  "tenantLane scope lane =
     (case scope of Some (ScopeTenant t) \<Rightarrow> Some (lane @ '':'' @ t) | _ \<Rightarrow> None)"

section \<open>Enqueueing in the caller's transaction\<close>

definition enqueueJobMode ::
  "string \<Rightarrow> string \<Rightarrow> obj \<Rightarrow> string option \<Rightarrow> nat option \<Rightarrow> string option \<Rightarrow> unit op" where
  "enqueueJobMode jobKeyMode identifier payload jobKey maxAttempts queueName =
     bnd (gets id) (\<lambda>c.
     bnd (ofSum (case cl_scope c of
                   Some sc \<Rightarrow> Inr (Some sc)
                 | None \<Rightarrow> enforceTenantScope (cl_scope c) (cl_mode c))) (\<lambda>scope.
     statement (\<lambda>d. d\<lparr>t_jobs := t_jobs d @
       [\<lparr>job_identifier = identifier, job_payload = payload, job_traceId = cl_traceId c,
         job_tenantId = (case scope of Some (ScopeTenant t) \<Rightarrow> Some t | _ \<Rightarrow> None),
         job_queueName = queueName, job_maxAttempts = maxAttempts, job_key = jobKey,
         job_keyMode = jobKeyMode\<rparr>]\<rparr>)))"

text \<open>\<open>options.jobKeyMode ?? "replace"\<close>.\<close>

definition enqueueJob ::
  "string \<Rightarrow> obj \<Rightarrow> string option \<Rightarrow> nat option \<Rightarrow> string option \<Rightarrow> unit op" where
  "enqueueJob = enqueueJobMode ''replace''"

section \<open>Deferred events and the transaction itself\<close>

definition runAfterCommit :: "InvalidationEvent \<Rightarrow> unit op" where
  "runAfterCommit ev = modify (\<lambda>c. c\<lparr>cl_after := cl_after c @ [ev]\<rparr>)"

text \<open>
  What is visible outside a transaction: the committed tables, the callbacks parked on the
  pooled client, and the events handed to the invalidation hook. The hook is the parameter
  \<open>deliverable\<close>: a callback that throws is logged, and the next one still runs.
\<close>

record world =
  w_db :: db
  w_parked :: "InvalidationEvent list"
  w_notified :: "InvalidationEvent list"

record txenv =
  tx_now :: int
  tx_scope :: "TenantScope option"
  tx_mode :: "string option"
  tx_traceId :: string
  tx_commitOk :: bool

definition beginTx :: "txenv \<Rightarrow> TenantScope option \<Rightarrow> world \<Rightarrow> client" where
  "beginTx env scope w =
     \<lparr>cl_db = w_db w, cl_after = w_parked w, cl_now = tx_now env, cl_scope = scope,
      cl_mode = tx_mode env, cl_traceId = tx_traceId env\<rparr>"

fun runCallbacks :: "(InvalidationEvent \<Rightarrow> bool) \<Rightarrow> InvalidationEvent list \<Rightarrow> InvalidationEvent list" where
  "runCallbacks deliverable [] = []"
| "runCallbacks deliverable (ev # evs) =
     (if deliverable ev then ev # runCallbacks deliverable evs else runCallbacks deliverable evs)"

definition withTransaction ::
  "txenv \<Rightarrow> (InvalidationEvent \<Rightarrow> bool) \<Rightarrow> 'a op \<Rightarrow> world \<Rightarrow> (error + 'a) \<times> world" where
  "withTransaction env deliverable fn w =
     (case enforceTenantScope (tx_scope env) (tx_mode env) of
        Inl e \<Rightarrow> (Inl e, w)
      | Inr scope \<Rightarrow>
          (case fn (beginTx env scope w) of
             Inl e \<Rightarrow> (Inl e, w\<lparr>w_parked := []\<rparr>)
           | Inr (result, c) \<Rightarrow>
               if tx_commitOk env then
                 (Inr result,
                  w\<lparr>w_db := cl_db c, w_parked := [],
                    w_notified := w_notified w @ runCallbacks deliverable (cl_after c)\<rparr>)
               else (Inl (DbError ''COMMIT''), w\<lparr>w_parked := []\<rparr>)))"

subsection \<open>Atomicity\<close>

lemma runCallbacks_filter: "runCallbacks p evs = filter p evs"
  by (induction evs) auto

lemma withTransaction_cases:
  obtains
    (refused) e where "withTransaction env p fn w = (Inl e, w)"
      and "enforceTenantScope (tx_scope env) (tx_mode env) = Inl e"
  | (rolledBack) e where "withTransaction env p fn w = (Inl e, w\<lparr>w_parked := []\<rparr>)"
  | (committed) scope x c where "fn (beginTx env scope w) = Inr (x, c)"
      and "enforceTenantScope (tx_scope env) (tx_mode env) = Inr scope"
      and "withTransaction env p fn w = (Inr x, w\<lparr>w_db := cl_db c, w_parked := [],
             w_notified := w_notified w @ filter p (cl_after c)\<rparr>)"
proof (cases "enforceTenantScope (tx_scope env) (tx_mode env)")
  case (Inl e)
  then show thesis by (intro refused) (simp_all add: withTransaction_def)
next
  case scope: (Inr scope)
  show thesis
  proof (cases "fn (beginTx env scope w)")
    case (Inl e)
    with scope show thesis by (intro rolledBack) (simp add: withTransaction_def)
  next
    case (Inr r)
    then obtain x c where r: "fn (beginTx env scope w) = Inr (x, c)" by (cases r) auto
    show thesis
    proof (cases "tx_commitOk env")
      case True
      with scope r show thesis
        by (intro committed) (simp_all add: withTransaction_def runCallbacks_filter)
    next
      case False
      with scope r show thesis by (intro rolledBack) (simp add: withTransaction_def)
    qed
  qed
qed

lemma withTransaction_InrE:
  assumes "withTransaction env p fn w = (Inr x, w')"
  obtains scope c where "enforceTenantScope (tx_scope env) (tx_mode env) = Inr scope"
    and "fn (beginTx env scope w) = Inr (x, c)" and "w_db w' = cl_db c" and "w_parked w' = []"
    and "w_notified w' = w_notified w @ filter p (cl_after c)"
  using assms
  by (cases rule: withTransaction_cases [where env = env and p = p and fn = fn and w = w]) auto

lemma withTransaction_Inl_db:
  "withTransaction env p fn w = (Inl e, w') \<Longrightarrow> w_db w' = w_db w \<and> w_notified w' = w_notified w"
  by (cases rule: withTransaction_cases [where env = env and p = p and fn = fn and w = w]) auto

lemma withTransaction_parked:
  "w_parked w = [] \<Longrightarrow> w_parked (snd (withTransaction env p fn w)) = []"
  by (cases rule: withTransaction_cases [where env = env and p = p and fn = fn and w = w]) auto

lemma withTransaction_failed:
  assumes "w_parked w = []" and "fst (withTransaction env p fn w) = Inl e"
  shows "snd (withTransaction env p fn w) = w"
  using assms
  by (cases rule: withTransaction_cases [where env = env and p = p and fn = fn and w = w]) auto

text \<open>Transactions run one after the other on the pool, and those of them that commit.\<close>

fun runAll :: "(InvalidationEvent \<Rightarrow> bool) \<Rightarrow> (txenv \<times> 'a op) list \<Rightarrow> world \<Rightarrow> world" where
  "runAll p [] w = w"
| "runAll p ((env, fn) # txs) w = runAll p txs (snd (withTransaction env p fn w))"

fun committing :: "(InvalidationEvent \<Rightarrow> bool) \<Rightarrow> (txenv \<times> 'a op) list \<Rightarrow> world \<Rightarrow> (txenv \<times> 'a op) list" where
  "committing p [] w = []"
| "committing p ((env, fn) # txs) w =
     (case withTransaction env p fn w of
        (Inl e, w') \<Rightarrow> committing p txs w'
      | (Inr x, w') \<Rightarrow> (env, fn) # committing p txs w')"


section \<open>Example data\<close>

text \<open>
  A small tenant for the concrete instances of the theorems: a live database \<open>d1\<close> with one
  item and a used idempotency key, an archived database \<open>d2\<close>.
\<close>

definition emptyDb :: db where
  "emptyDb = \<lparr>t_databases = [], t_partitions = [], t_properties = [], t_relation_definitions = [],
     t_items = [], t_item_relations = [], t_idempotency_keys = [], t_rollup_dependencies = [],
     t_heartbeats = [], t_views = [], t_view_items = [], t_docs = [], t_task_recurrence = [],
     t_item_automation = [], t_item_search_index = [], t_blobs = [], t_mail_attachments = [],
     t_occurrences = [], t_users = [], t_agent_runs = [], t_agent_run_events = [], t_wake_seq = 0, t_event_seq = 0, t_notifications = [],
     t_approval_requests = [], t_mcp_tool_registrations = [], t_project_mcp_grants = [],
     t_jobs = []\<rparr>"

definition exampleDatabase :: "id \<Rightarrow> int option \<Rightarrow> DatabaseDbRow" where
  "exampleDatabase databaseId archivedAt =
     \<lparr>rdb_id = databaseId, rdb_name = Some databaseId, rdb_key = None, rdb_parent_item_id = None,
      rdb_owner_project_item_id = None, rdb_owner_module_id = None, rdb_schema_locked = False,
      rdb_system = False, rdb_archived_at = archivedAt\<rparr>"

definition exampleProperty :: "id \<Rightarrow> id \<Rightarrow> string \<Rightarrow> string \<Rightarrow> obj \<Rightarrow> string \<Rightarrow> PropertyDbRow" where
  "exampleProperty propertyId databaseId key ty config own =
     \<lparr>rpr_id = propertyId, rpr_database_id = databaseId, rpr_key = key, rpr_name = None,
      rpr_type = ty, rpr_config = config, rpr_locked = False, rpr_owner = own,
      rpr_owner_process = None, rpr_migration_status = ''stable'',
      rpr_migration_dropped_values = False\<rparr>"

definition exampleItem :: "id \<Rightarrow> id \<Rightarrow> obj \<Rightarrow> int option \<Rightarrow> ItemDbRow" where
  "exampleItem databaseId itemId properties deletedAt =
     \<lparr>rit_id = itemId, rit_database_id = databaseId, rit_properties = properties, rit_computed = [],
      rit_updated_at = 1000, rit_deleted_at = deletedAt\<rparr>"

definition exampleDb :: db where
  "exampleDb = emptyDb
     \<lparr>t_databases := [exampleDatabase ''d1'' None, exampleDatabase ''d2'' (Some 7)],
      t_partitions := [''d1'', ''d2''],
      t_properties :=
        [exampleProperty ''p1'' ''d1'' ''name'' ''title'' [] ''user'',
         exampleProperty ''p2'' ''d1'' ''size'' ''number'' [(''default'', JNum 3)] ''user'',
         exampleProperty ''p3'' ''d1'' ''hash'' ''text'' [] ''system'',
         exampleProperty ''p4'' ''d1'' ''sum'' ''rollup'' [] ''user''],
      t_items :=
        [exampleItem ''d1'' ''i1'' [(''name'', JStr ''one''), (''hash'', JStr ''h'')] None,
         exampleItem ''d2'' ''i2'' [] None],
      t_idempotency_keys := [\<lparr>ik_key = ''k1'', ik_database_id = ''d1'', ik_item_id = ''i1''\<rparr>]\<rparr>"

definition exampleTx :: txenv where
  "exampleTx = \<lparr>tx_now = 9000, tx_scope = Some (ScopeTenant ''t1''), tx_mode = None,
     tx_traceId = ''trace'', tx_commitOk = True\<rparr>"

definition exampleWorld :: world where
  "exampleWorld = \<lparr>w_db = exampleDb, w_parked = [], w_notified = []\<rparr>"

definition exampleClient :: client where
  "exampleClient = beginTx exampleTx (Some (ScopeTenant ''t1'')) exampleWorld"

lemmas example_defs = emptyDb_def exampleDatabase_def exampleProperty_def exampleItem_def
  exampleDb_def exampleTx_def exampleWorld_def exampleClient_def beginTx_def


end
