(* ===== verification/ItemsStore.thy ===== *)
theory ItemsStore
  imports Transactions
begin

text \<open>
  \<open>chokePoint/itemsStore.ts\<close>: every statement the data layer runs on \<open>items\<close> and
  \<open>idempotency_keys\<close>. \<open>items\<close> is partitioned by database and keyed by
  \<open>(database_id, id)\<close>; each function here is one function of the file, its SQL written as
  an operation on the table.
\<close>

definition mapItemRow :: "ItemDbRow \<Rightarrow> ItemRow" where
  "mapItemRow row =
     \<lparr>it_id = rit_id row, it_databaseId = rit_database_id row, it_properties = rit_properties row,
      it_computed = rit_computed row, it_updatedAt = toISOString (rit_updated_at row),
      it_deletedAt = map_option toISOString (rit_deleted_at row)\<rparr>"

definition isItem :: "id \<Rightarrow> id \<Rightarrow> ItemDbRow \<Rightarrow> bool" where
  "isItem databaseId itemId row \<longleftrightarrow> rit_database_id row = databaseId \<and> rit_id row = itemId"

definition firstRow :: "('a \<Rightarrow> 'b) \<Rightarrow> 'a list \<Rightarrow> 'b option" where
  "firstRow f rows = (case rows of [] \<Rightarrow> None | row # _ \<Rightarrow> Some (f row))"

text \<open>
  \<open>UPDATE items SET ... WHERE ... RETURNING *\<close> and \<open>SELECT * FROM items WHERE ...\<close>.
\<close>

definition selectItems :: "(ItemDbRow \<Rightarrow> bool) \<Rightarrow> ItemDbRow list op" where
  "selectItems p = query (\<lambda>d. filter p (t_items d))"

definition updateItemsReturning ::
  "(ItemDbRow \<Rightarrow> bool) \<Rightarrow> (ItemDbRow \<Rightarrow> ItemDbRow) \<Rightarrow> ItemDbRow list op" where
  "updateItemsReturning p f =
     bnd (query (\<lambda>d. map f (filter p (t_items d)))) (\<lambda>rows.
     andThen (statement (\<lambda>d. d\<lparr>t_items := map (\<lambda>r. if p r then f r else r) (t_items d)\<rparr>))
       (return rows))"

definition visibleDatabaseIds :: "id list op" where
  "visibleDatabaseIds = query (\<lambda>d. map rdb_id (t_databases d))"

definition getItemById :: "id \<Rightarrow> id \<Rightarrow> ItemRow option op" where
  "getItemById databaseId itemId =
     bnd (selectItems (isItem databaseId itemId)) (\<lambda>rows. return (firstRow mapItemRow rows))"

text \<open>
  \<open>SELECT ... FOR UPDATE\<close>: the same read; the row lock only orders concurrent transactions,
  and one transaction's steps are all this model runs.
\<close>

definition lockItemById :: "id \<Rightarrow> id \<Rightarrow> ItemRow option op" where
  "lockItemById databaseId itemId =
     bnd (selectItems (isItem databaseId itemId)) (\<lambda>rows. return (firstRow mapItemRow rows))"

record InsertItemInput =
  ii_databaseId :: id
  ii_properties :: obj
  ii_idempotencyKey :: "string option"

record InsertItemResult =
  ins_item :: ItemRow
  ins_created :: bool

text \<open>
  \<open>INSERT INTO items\<close>: rejected by Postgres when the database has no partition (23514) or the
  key \<open>(database_id, id)\<close> is taken (23505); \<open>updated_at\<close> defaults to \<open>now()\<close>.
\<close>

definition insertItemsRow :: "id \<Rightarrow> id \<Rightarrow> obj \<Rightarrow> ItemDbRow list op" where
  "insertItemsRow itemId databaseId properties =
     bnd (gets id) (\<lambda>c.
     let row = \<lparr>rit_id = itemId, rit_database_id = databaseId, rit_properties = properties,
                rit_computed = [], rit_updated_at = cl_now c, rit_deleted_at = None\<rparr> in
     if databaseId \<notin> set (t_partitions (cl_db c)) then throw (DbError ''23514'')
     else if \<exists>r \<in> set (t_items (cl_db c)). isItem databaseId itemId r then throw (DbError ''23505'')
     else andThen (statement (\<lambda>d. d\<lparr>t_items := t_items d @ [row]\<rparr>)) (return [row]))"

text \<open>
  \<open>INSERT INTO idempotency_keys ... ON CONFLICT DO NOTHING RETURNING item_id\<close>: the number of
  rows inserted. Inside one tenant the key alone is the conflict target.
\<close>

definition reserveKey :: "string \<Rightarrow> id \<Rightarrow> id \<Rightarrow> nat op" where
  "reserveKey key databaseId itemId =
     bnd (query (\<lambda>d. \<exists>r \<in> set (t_idempotency_keys d). ik_key r = key)) (\<lambda>taken.
     if taken then return 0
     else andThen (statement (\<lambda>d. d\<lparr>t_idempotency_keys := t_idempotency_keys d @
            [\<lparr>ik_key = key, ik_database_id = databaseId, ik_item_id = itemId\<rparr>]\<rparr>))
          (return 1))"

definition deleteKey :: "string \<Rightarrow> nat op" where
  "deleteKey key =
     bnd (query (\<lambda>d. length (filter (\<lambda>r. ik_key r = key) (t_idempotency_keys d)))) (\<lambda>n.
     andThen (statement (\<lambda>d. d\<lparr>t_idempotency_keys :=
                filter (\<lambda>r. ik_key r \<noteq> key) (t_idempotency_keys d)\<rparr>))
       (return n))"

text \<open>
  \<open>insertItemWithReplay\<close>. \<open>generatedId\<close> is the value of \<open>randomUUID()\<close>;
  \<open>resolveCreateProperties\<close> the optional callback that computes the defaults. The
  reservation part answers \<open>Some item\<close> for a replay.
\<close>

definition reserveOrReplay :: "string \<Rightarrow> id \<Rightarrow> id \<Rightarrow> ItemRow option op" where
  "reserveOrReplay key databaseId generatedId =
     bnd (reserveKey key databaseId generatedId) (\<lambda>rowCount.
     if rowCount \<noteq> 0 then return None
     else bnd (query (\<lambda>d. filter (\<lambda>r. ik_key r = key) (t_idempotency_keys d))) (\<lambda>rows.
       case rows of
         [] \<Rightarrow> throw (ConflictError (Some ''key''))
       | reserved # _ \<Rightarrow>
           if ik_database_id reserved \<noteq> databaseId then throw (ConflictError (Some ''key''))
           else bnd (getItemById databaseId (ik_item_id reserved)) (\<lambda>existing.
             case existing of
               Some item \<Rightarrow>
                 if it_deletedAt item = None then return (Some item)
                 else bnd (bnd (deleteKey key) (\<lambda>n. requireAffectedRows n ''idempotency_keys'')) (\<lambda>_.
                      bnd (bnd (reserveKey key databaseId generatedId)
                             (\<lambda>n. requireAffectedRows n ''idempotency_keys'')) (\<lambda>_. return None))
             | None \<Rightarrow>
                 bnd (bnd (deleteKey key) (\<lambda>n. requireAffectedRows n ''idempotency_keys'')) (\<lambda>_.
                 bnd (bnd (reserveKey key databaseId generatedId)
                        (\<lambda>n. requireAffectedRows n ''idempotency_keys'')) (\<lambda>_. return None)))))"

definition insertItemWithReplay ::
  "id \<Rightarrow> InsertItemInput \<Rightarrow> obj op option \<Rightarrow> InsertItemResult op" where
  "insertItemWithReplay generatedId input resolveCreateProperties =
     bnd (case ii_idempotencyKey input of
            None \<Rightarrow> return None
          | Some key \<Rightarrow>
              if key = '''' then return None
              else reserveOrReplay key (ii_databaseId input) generatedId) (\<lambda>replay.
     case replay of
       Some item \<Rightarrow> return \<lparr>ins_item = item, ins_created = False\<rparr>
     | None \<Rightarrow>
         bnd (case resolveCreateProperties of
                None \<Rightarrow> return (ii_properties input) | Some resolve \<Rightarrow> resolve) (\<lambda>properties.
         bnd (insertItemsRow generatedId (ii_databaseId input) properties) (\<lambda>rows.
         bnd (requireSingleRow rows ''items row'') (\<lambda>row.
         return \<lparr>ins_item = mapItemRow row, ins_created = True\<rparr>))))"

definition insertItem :: "id \<Rightarrow> InsertItemInput \<Rightarrow> ItemRow op" where
  "insertItem generatedId input =
     bnd (insertItemWithReplay generatedId input None) (\<lambda>r. return (ins_item r))"

definition findIdempotentReplay :: "id \<Rightarrow> string \<Rightarrow> bool \<Rightarrow> ItemRow option op" where
  "findIdempotentReplay databaseId idempotencyKey requireLive =
     bnd (query (\<lambda>d. filter (\<lambda>r. ik_key r = idempotencyKey) (t_idempotency_keys d))) (\<lambda>rows.
     case rows of
       [] \<Rightarrow> return None
     | reserved # _ \<Rightarrow>
         if ik_database_id reserved \<noteq> databaseId then return None
         else bnd (getItemById databaseId (ik_item_id reserved)) (\<lambda>found.
           case found of
             None \<Rightarrow> return None
           | Some item \<Rightarrow>
               if requireLive \<and> it_deletedAt item \<noteq> None then return None
               else return (Some item)))"

record UpdateItemInput =
  ui_databaseId :: id
  ui_itemId :: id
  ui_propertiesPatch :: obj
  ui_ifVersion :: "int option"

record UpdateItemResult =
  ur_item :: ItemRow
  ur_previous :: "(string \<times> json) list"

definition updateItemProperties :: "UpdateItemInput \<Rightarrow> UpdateItemResult op" where
  "updateItemProperties input =
     bnd (gets cl_now) (\<lambda>now.
     bnd (lockItemById (ui_databaseId input) (ui_itemId input)) (\<lambda>found.
     case found of
       None \<Rightarrow> throw NotFoundError
     | Some current \<Rightarrow>
         if it_deletedAt current \<noteq> None then throw NotFoundError
         else if ui_ifVersion input \<noteq> None \<and> ui_ifVersion input \<noteq> Some (it_updatedAt current)
         then throw (ConflictError None)
         else
           bnd (updateItemsReturning (isItem (ui_databaseId input) (ui_itemId input))
                  (\<lambda>r. r\<lparr>rit_properties := spread (rit_properties r) (ui_propertiesPatch input),
                         rit_updated_at := now\<rparr>)) (\<lambda>rows.
           bnd (requireSingleRow rows ''items row'') (\<lambda>row.
           return \<lparr>ur_item = mapItemRow row,
                   ur_previous = map (\<lambda>key. (key,
                      if hasOwn (it_properties current) key
                      then the (map_of (it_properties current) key) else JNull))
                     (keysOf (ui_propertiesPatch input))\<rparr>))))"

definition softDeleteItem :: "id \<Rightarrow> id \<Rightarrow> ItemRow option op" where
  "softDeleteItem databaseId itemId =
     bnd (gets cl_now) (\<lambda>now.
     bnd (updateItemsReturning (\<lambda>r. isItem databaseId itemId r \<and> rit_deleted_at r = None)
            (\<lambda>r. r\<lparr>rit_deleted_at := Some now\<rparr>)) (\<lambda>rows.
     return (firstRow mapItemRow rows)))"

definition restoreItem :: "id \<Rightarrow> id \<Rightarrow> ItemRow option op" where
  "restoreItem databaseId itemId =
     bnd (updateItemsReturning (\<lambda>r. isItem databaseId itemId r \<and> rit_deleted_at r \<noteq> None)
            (\<lambda>r. r\<lparr>rit_deleted_at := None\<rparr>)) (\<lambda>rows.
     return (firstRow mapItemRow rows))"

definition getAllItemsInDatabase :: "id \<Rightarrow> ItemRow list op" where
  "getAllItemsInDatabase databaseId =
     bnd (selectItems (\<lambda>r. rit_database_id r = databaseId)) (\<lambda>rows. return (map mapItemRow rows))"

text \<open>\<open>properties -> 'file' ->> 'blobId' = $2\<close>, for a blob id (a UUID text).\<close>

definition fileBlobIdIs :: "string \<Rightarrow> obj \<Rightarrow> bool" where
  "fileBlobIdIs blobId properties =
     (case map_of properties ''file'' of
        Some (JObj file) \<Rightarrow> map_of file ''blobId'' = Some (JStr blobId)
      | _ \<Rightarrow> False)"

definition findFileItemByBlobId :: "id \<Rightarrow> id \<Rightarrow> ItemRow option op" where
  "findFileItemByBlobId databaseId blobId =
     bnd (selectItems (\<lambda>r. rit_database_id r = databaseId \<and> rit_deleted_at r = None \<and>
            fileBlobIdIs blobId (rit_properties r))) (\<lambda>rows.
     return (firstRow mapItemRow (take 1 (sort_key rit_id rows))))"

text \<open>
  One keyset page, \<open>olderThan\<close> in milliseconds; \<open>after\<close> is the last row of the page before.
\<close>

definition findItemsDeletedBefore :: "int \<Rightarrow> (id \<times> id) option \<Rightarrow> nat \<Rightarrow> ItemRow list op" where
  "findItemsDeletedBefore olderThan after limit =
     bnd visibleDatabaseIds (\<lambda>databaseIds.
     bnd (selectItems (\<lambda>r.
            (case rit_deleted_at r of None \<Rightarrow> False | Some deleted \<Rightarrow> deleted < olderThan * 1000) \<and>
            rit_database_id r \<in> set databaseIds \<and>
            (case after of
               None \<Rightarrow> True
             | Some (dbId, itemId) \<Rightarrow> rit_database_id r > dbId \<or>
                 (rit_database_id r = dbId \<and> rit_id r > itemId)))) (\<lambda>rows.
     return (map mapItemRow
       (take limit (sort_key rit_database_id (sort_key rit_id rows))))))"

definition hardDeleteItem :: "id \<Rightarrow> id \<Rightarrow> bool op" where
  "hardDeleteItem databaseId itemId =
     bnd (query (\<lambda>d. length (filter (\<lambda>r. isItem databaseId itemId r \<and> rit_deleted_at r \<noteq> None)
                              (t_items d)))) (\<lambda>rowCount.
     andThen (statement (\<lambda>d. d\<lparr>t_items :=
                filter (\<lambda>r. \<not> (isItem databaseId itemId r \<and> rit_deleted_at r \<noteq> None)) (t_items d)\<rparr>))
       (return (rowCount > 0)))"

text \<open>
  \<open>listItems\<close>. The pushed-down filter and the custom order arrive as compiled SQL: here a
  predicate on rows and the key a row has under the order expression. A keyset replaces the
  \<open>id > cursor\<close> predicate by its own and encodes the next cursor itself.
\<close>

record 'k ListItemsOptions =
  lo_limit :: "nat option"
  lo_cursor :: "string option"
  lo_includeDeleted :: bool
  lo_filter :: "(ItemDbRow \<Rightarrow> bool) option"
  lo_orderBy :: "(ItemDbRow \<Rightarrow> 'k) option"
  lo_keyset :: "((ItemDbRow \<Rightarrow> bool) option \<times> (ItemRow \<Rightarrow> string)) option"

definition listItems :: "id \<Rightarrow> ('k :: linorder) ListItemsOptions \<Rightarrow> (ItemRow list \<times> string option) op" where
  "listItems databaseId options =
     (let limit = min (case lo_limit options of None \<Rightarrow> 50 | Some n \<Rightarrow> n) 200;
          live = (\<lambda>r. lo_includeDeleted options \<or> rit_deleted_at r = None);
          matches = (case lo_filter options of None \<Rightarrow> (\<lambda>_. True) | Some p \<Rightarrow> p);
          after = (case lo_keyset options of
              Some (afterSql, _) \<Rightarrow> (case afterSql of None \<Rightarrow> (\<lambda>_. True) | Some p \<Rightarrow> p)
            | None \<Rightarrow> (case lo_cursor options of
                  None \<Rightarrow> (\<lambda>_. True)
                | Some cursor \<Rightarrow> if cursor = '''' then (\<lambda>_. True) else (\<lambda>r. rit_id r > cursor)));
          ordered = (\<lambda>rows. case lo_orderBy options of
              None \<Rightarrow> sort_key rit_id rows
            | Some rank \<Rightarrow> sort_key rank (sort_key rit_id rows))
      in bnd (selectItems (\<lambda>r. rit_database_id r = databaseId \<and> live r \<and> matches r \<and> after r)) (\<lambda>selected.
         let rows = take (limit + 1) (ordered selected);
             hasMore = length rows > limit;
             items = map mapItemRow (if hasMore then take limit rows else rows);
             nextCursor = (if hasMore \<and> items \<noteq> []
               then Some (case lo_keyset options of
                      Some (_, encodeCursor) \<Rightarrow> encodeCursor (last items) | None \<Rightarrow> it_id (last items))
               else None)
         in return (items, nextCursor)))"

definition countItems :: "id \<Rightarrow> bool \<Rightarrow> (ItemDbRow \<Rightarrow> bool) option \<Rightarrow> nat op" where
  "countItems databaseId includeDeleted buildFilterSql =
     bnd (selectItems (\<lambda>r. rit_database_id r = databaseId \<and>
            (includeDeleted \<or> rit_deleted_at r = None) \<and>
            (case buildFilterSql of None \<Rightarrow> True | Some p \<Rightarrow> p r))) (\<lambda>rows.
     return (length rows))"

definition getItemsByIds :: "id list \<Rightarrow> ItemRow list op" where
  "getItemsByIds itemIds =
     (if itemIds = [] then return []
      else bnd visibleDatabaseIds (\<lambda>visible.
        bnd (selectItems (\<lambda>r. rit_id r \<in> set itemIds \<and> rit_database_id r \<in> set visible \<and>
               rit_deleted_at r = None)) (\<lambda>rows. return (map mapItemRow rows))))"

definition getItemsByIdsIncludingDeleted :: "id list \<Rightarrow> ItemRow list op" where
  "getItemsByIdsIncludingDeleted itemIds =
     (if itemIds = [] then return []
      else bnd visibleDatabaseIds (\<lambda>visible.
        bnd (selectItems (\<lambda>r. rit_id r \<in> set itemIds \<and> rit_database_id r \<in> set visible)) (\<lambda>rows.
        return (map mapItemRow rows))))"

definition getItemsByIdsInDatabaseIncludingDeleted :: "id \<Rightarrow> id list \<Rightarrow> ItemRow list op" where
  "getItemsByIdsInDatabaseIncludingDeleted databaseId itemIds =
     (if itemIds = [] then return []
      else bnd (selectItems (\<lambda>r. rit_database_id r = databaseId \<and> rit_id r \<in> set itemIds)) (\<lambda>rows.
        return (map mapItemRow rows)))"

text \<open>\<open>writeComputed\<close> leaves \<open>properties\<close> and \<open>updated_at\<close> alone.\<close>

definition writeComputed :: "id \<Rightarrow> id \<Rightarrow> string \<Rightarrow> json \<Rightarrow> int op" where
  "writeComputed databaseId itemId key value =
     bnd (updateItemsReturning (isItem databaseId itemId)
            (\<lambda>r. r\<lparr>rit_computed := setProp key value (rit_computed r)\<rparr>)) (\<lambda>rows.
     bnd (requireAffectedRows (length rows) ''computed key'') (\<lambda>_.
     bnd (requireSingleRow rows ''items row'') (\<lambda>row.
     return (toISOString (rit_updated_at row)))))"

end
