(* ===== verification/DatabasesStore.thy ===== *)
theory DatabasesStore
  imports ItemsStore
begin

text \<open>
  \<open>chokePoint/databasesStore.ts\<close> (the statements on \<open>databases\<close>, the partition of
  \<open>items\<close> each database owns) and the archived-database guard of
  \<open>chokePoint/databaseGuards.ts\<close>, with the guard's contract as a locale.
\<close>

definition mapDatabaseRow :: "DatabaseDbRow \<Rightarrow> DatabaseRow" where
  "mapDatabaseRow row =
     \<lparr>db_id = rdb_id row, db_key = rdb_key row, db_name = rdb_name row,
      db_parentItemId = rdb_parent_item_id row,
      db_ownerProjectItemId = rdb_owner_project_item_id row,
      db_ownerModuleId = rdb_owner_module_id row,
      db_schemaLocked = rdb_schema_locked row, db_system = rdb_system row,
      db_archivedAt = map_option toISOString (rdb_archived_at row)\<rparr>"

definition selectDatabases :: "(DatabaseDbRow \<Rightarrow> bool) \<Rightarrow> DatabaseDbRow list op" where
  "selectDatabases p = query (\<lambda>d. filter p (t_databases d))"

definition updateDatabasesReturning ::
  "(DatabaseDbRow \<Rightarrow> bool) \<Rightarrow> (DatabaseDbRow \<Rightarrow> DatabaseDbRow) \<Rightarrow> DatabaseDbRow list op" where
  "updateDatabasesReturning p f =
     bnd (query (\<lambda>d. map f (filter p (t_databases d)))) (\<lambda>rows.
     andThen (statement (\<lambda>d. d\<lparr>t_databases := map (\<lambda>r. if p r then f r else r) (t_databases d)\<rparr>))
       (return rows))"

record CreateDatabaseInput =
  cd_name :: "string option"
  cd_key :: "string option"
  cd_parentItemId :: "id option"
  cd_ownerProjectItemId :: "id option"
  cd_ownerModuleId :: "string option"
  cd_schemaLocked :: "bool option"
  cd_system :: "bool option"

text \<open>
  \<open>INSERT INTO databases ... RETURNING\<close>: \<open>databases_key_unique\<close> is the index on the
  tenant's keys. A generated id that is already taken is Postgres' own 23505.
\<close>

definition insertDatabaseRow :: "id \<Rightarrow> CreateDatabaseInput \<Rightarrow> DatabaseDbRow list op" where
  "insertDatabaseRow newId input =
     bnd (query t_databases) (\<lambda>existing.
     let row = \<lparr>rdb_id = newId, rdb_name = cd_name input, rdb_key = cd_key input,
                rdb_parent_item_id = cd_parentItemId input,
                rdb_owner_project_item_id = cd_ownerProjectItemId input,
                rdb_owner_module_id = cd_ownerModuleId input,
                rdb_schema_locked = (case cd_schemaLocked input of None \<Rightarrow> False | Some b \<Rightarrow> b),
                rdb_system = (case cd_system input of None \<Rightarrow> False | Some b \<Rightarrow> b),
                rdb_archived_at = None\<rparr> in
     if cd_key input \<noteq> None \<and> (\<exists>r \<in> set existing. rdb_key r = cd_key input)
     then throw (ConflictError (Some ''key''))
     else if \<exists>r \<in> set existing. rdb_id r = newId then throw (DbError ''23505'')
     else andThen (statement (\<lambda>d. d\<lparr>t_databases := t_databases d @ [row]\<rparr>)) (return [row]))"

definition createItemsPartition :: "id \<Rightarrow> unit op" where
  "createItemsPartition databaseId =
     bnd (query (\<lambda>d. (databaseId \<in> set (map rdb_id (t_databases d)),
                     databaseId \<in> set (t_partitions d)))) (\<lambda>(visible, exists).
     if \<not> visible then throw (DbError ''P0002'')
     else if exists then throw (DbError ''42P07'')
     else statement (\<lambda>d. d\<lparr>t_partitions := t_partitions d @ [databaseId]\<rparr>))"

definition createDatabase :: "id \<Rightarrow> CreateDatabaseInput \<Rightarrow> DatabaseRow op" where
  "createDatabase newId input =
     (let system = (cd_system input = Some True) in
      if \<not> system \<and> \<not> truthy (cd_name input) then throw (ValidationError (Some ''name''))
      else if truthy (cd_key input) \<and> \<not> system then throw (ValidationError (Some ''key''))
      else if system \<and> \<not> truthy (cd_name input) \<and> \<not> truthy (cd_key input)
      then throw (ValidationError (Some ''key''))
      else
        bnd (case cd_parentItemId input of
               None \<Rightarrow> return True
             | Some parent \<Rightarrow>
                 if isUuid parent then bnd (getItemsByIds [parent]) (\<lambda>items. return (items \<noteq> []))
                 else return False) (\<lambda>parentExists.
        if \<not> parentExists then throw (ValidationError (Some ''parentItemId''))
        else
          bnd (insertDatabaseRow newId input) (\<lambda>rows.
          bnd (requireSingleRow rows ''databases row'') (\<lambda>row.
          if \<not> isUuid (rdb_id row) then throw (PlainError ''Generated database id is not a UUID'')
          else andThen (createItemsPartition (rdb_id row)) (return (mapDatabaseRow row))))))"

definition getDatabase :: "id \<Rightarrow> DatabaseRow option op" where
  "getDatabase databaseId =
     bnd (selectDatabases (\<lambda>r. rdb_id r = databaseId)) (\<lambda>rows. return (firstRow mapDatabaseRow rows))"

definition getDatabaseByModuleId :: "string \<Rightarrow> DatabaseRow option op" where
  "getDatabaseByModuleId ownerModuleId =
     bnd (selectDatabases (\<lambda>r. rdb_owner_module_id r = Some ownerModuleId \<and> rdb_system r)) (\<lambda>rows.
     if length rows > 1 then throw (PlainError ''module id resolves to several system databases'')
     else return (firstRow mapDatabaseRow rows))"

text \<open>\<open>ORDER BY key, name\<close>: ascending, nulls last, here in code-point order.\<close>

definition nullsLast :: "('r \<Rightarrow> string option) \<Rightarrow> 'r list \<Rightarrow> 'r list" where
  "nullsLast f rows =
     sort_key (\<lambda>r. if f r = None then (1 :: nat) else 0)
       (sort_key (\<lambda>r. case f r of None \<Rightarrow> '''' | Some s \<Rightarrow> s) rows)"

definition listAllDatabases :: "DatabaseRow list op" where
  "listAllDatabases =
     bnd (selectDatabases (\<lambda>r. rdb_archived_at r = None)) (\<lambda>rows.
     return (map mapDatabaseRow (nullsLast rdb_key (nullsLast rdb_name rows))))"

definition requireDatabase :: "id \<Rightarrow> DatabaseRow op" where
  "requireDatabase databaseId =
     bnd (getDatabase databaseId) (\<lambda>found.
     case found of None \<Rightarrow> throw NotFoundError | Some database \<Rightarrow> return database)"

definition archiveDatabase :: "id \<Rightarrow> DatabaseRow op" where
  "archiveDatabase databaseId =
     bnd (requireDatabase databaseId) (\<lambda>database.
     if db_system database then throw (forbidden None)
     else
       bnd (gets cl_now) (\<lambda>now.
       bnd (updateDatabasesReturning (\<lambda>r. rdb_id r = databaseId) (\<lambda>r. r\<lparr>rdb_archived_at := Some now\<rparr>))
         (\<lambda>rows.
       bnd (requireSingleRow rows ''databases row'') (\<lambda>row. return (mapDatabaseRow row)))))"

definition renameDatabase :: "id \<Rightarrow> string \<Rightarrow> DatabaseRow op" where
  "renameDatabase databaseId name =
     andThen (requireDatabase databaseId)
       (bnd (updateDatabasesReturning (\<lambda>r. rdb_id r = databaseId) (\<lambda>r. r\<lparr>rdb_name := Some name\<rparr>))
         (\<lambda>rows.
        bnd (requireSingleRow rows ''databases row'') (\<lambda>row. return (mapDatabaseRow row))))"

definition listDatabasesByParentItem :: "id \<Rightarrow> DatabaseRow list op" where
  "listDatabasesByParentItem itemId =
     bnd (selectDatabases (\<lambda>r. rdb_parent_item_id r = Some itemId)) (\<lambda>rows.
     return (map mapDatabaseRow rows))"

definition restoreDatabase :: "id \<Rightarrow> DatabaseRow op" where
  "restoreDatabase databaseId =
     andThen (requireDatabase databaseId)
       (bnd (updateDatabasesReturning (\<lambda>r. rdb_id r = databaseId) (\<lambda>r. r\<lparr>rdb_archived_at := None\<rparr>))
         (\<lambda>rows.
        bnd (requireSingleRow rows ''databases row'') (\<lambda>row. return (mapDatabaseRow row))))"

text \<open>
  \<open>dropDatabaseWithPartition\<close>. Dropping the partition drops the items left in it; the
  \<open>DELETE\<close> on \<open>databases\<close> cascades to \<open>properties\<close> and \<open>views\<close>, from there to
  \<open>relation_definitions\<close>, \<open>item_relations\<close>, \<open>rollup_dependencies\<close> and
  \<open>view_items\<close> (the \<open>ON DELETE CASCADE\<close> keys of the migrations).
\<close>

definition deleteRollupDependenciesBySourceDatabase :: "id \<Rightarrow> unit op" where
  "deleteRollupDependenciesBySourceDatabase databaseId =
     statement (\<lambda>d. d\<lparr>t_rollup_dependencies :=
       filter (\<lambda>r. rud_source_database_id r \<noteq> databaseId) (t_rollup_dependencies d)\<rparr>)"

definition dropItemsPartition :: "id \<Rightarrow> unit op" where
  "dropItemsPartition databaseId =
     bnd (query (\<lambda>d. databaseId \<in> set (map rdb_id (t_databases d)))) (\<lambda>visible.
     if \<not> visible then throw (DbError ''P0002'')
     else statement (\<lambda>d. d\<lparr>t_partitions := filter (\<lambda>p. p \<noteq> databaseId) (t_partitions d),
            t_items := filter (\<lambda>r. rit_database_id r \<noteq> databaseId) (t_items d)\<rparr>))"

definition cascadeDatabaseDelete :: "id \<Rightarrow> db \<Rightarrow> db" where
  "cascadeDatabaseDelete databaseId d =
     (let props = map rpr_id (filter (\<lambda>p. rpr_database_id p = databaseId) (t_properties d));
          goneDef = (\<lambda>r. rrd_property_id_a r \<in> set props \<or>
                       (case rrd_property_id_b r of None \<Rightarrow> False | Some b \<Rightarrow> b \<in> set props));
          defs = map rrd_id (filter goneDef (t_relation_definitions d));
          views = map rvw_id (filter (\<lambda>v. rvw_database_id v = Some databaseId) (t_views d))
      in d\<lparr>t_databases := filter (\<lambda>r. rdb_id r \<noteq> databaseId) (t_databases d),
           t_properties := filter (\<lambda>p. rpr_database_id p \<noteq> databaseId) (t_properties d),
           t_relation_definitions := filter (\<lambda>r. \<not> goneDef r) (t_relation_definitions d),
           t_item_relations :=
             filter (\<lambda>e. rir_relation_definition_id e \<notin> set defs) (t_item_relations d),
           t_rollup_dependencies :=
             filter (\<lambda>r. rud_rollup_property_id r \<notin> set props \<and>
                         rud_relation_definition_id r \<notin> set defs) (t_rollup_dependencies d),
           t_views := filter (\<lambda>v. rvw_database_id v \<noteq> Some databaseId) (t_views d),
           t_view_items := filter (\<lambda>vi. rvi_view_id vi \<notin> set views) (t_view_items d)\<rparr>)"

definition dropDatabaseWithPartition :: "id \<Rightarrow> unit op" where
  "dropDatabaseWithPartition databaseId =
     andThen (deleteRollupDependenciesBySourceDatabase databaseId)
    (andThen (statement (\<lambda>d. d\<lparr>t_item_search_index :=
                filter (\<lambda>r. snd r \<noteq> databaseId) (t_item_search_index d)\<rparr>))
    (andThen (dropItemsPartition databaseId)
    (bnd (query (\<lambda>d. length (filter (\<lambda>r. rdb_id r = databaseId) (t_databases d)))) (\<lambda>rowCount.
     andThen (statement (cascadeDatabaseDelete databaseId))
       (bnd (requireAffectedRows rowCount ''delete of databases row'') (\<lambda>_. return ()))))))"

section \<open>The archived-database guard\<close>

definition assertDatabaseNotArchived :: "id \<Rightarrow> unit op" where
  "assertDatabaseNotArchived databaseId =
     bnd (getDatabase databaseId) (\<lambda>found.
     case found of
       None \<Rightarrow> throw NotFoundError
     | Some database \<Rightarrow>
         if db_archivedAt database \<noteq> None
         then throw (ForbiddenError ''database_archived'' (Some ''databaseId''))
         else return ())"

end
