(* ===== verification/PropertiesStore.thy ===== *)
theory PropertiesStore
  imports DatabasesStore
begin

text \<open>
  The reads of \<open>chokePoint/propertiesStore.ts\<close> and its validation of a property's config.
  A row whose string columns fall outside their declared sets makes the read throw
  (\<open>assertKnownValue\<close> of \<open>dbRowValidation.ts\<close>).
\<close>

definition assertKnownValue :: "(string \<times> 'a) list \<Rightarrow> string \<Rightarrow> string \<Rightarrow> error + 'a" where
  "assertKnownValue allowed value label =
     (case map_of allowed value of None \<Rightarrow> Inl (PlainError label) | Some v \<Rightarrow> Inr v)"

definition PROPERTY_OWNERS :: "(string \<times> PropertyOwner) list" where
  "PROPERTY_OWNERS = [(''user'', OwnerUser), (''system'', OwnerSystem)]"

definition MIGRATION_STATUSES :: "(string \<times> MigrationStatus) list" where
  "MIGRATION_STATUSES =
     [(''stable'', MsStable), (''pending'', MsPending), (''running'', MsRunning),
      (''done'', MsDone), (''partial'', MsPartial)]"

definition mapPropertyRow :: "PropertyDbRow \<Rightarrow> error + PropertyRow" where
  "mapPropertyRow row =
     (case assertKnownValue PROPERTY_TYPES (rpr_type row) ''property type'' of
        Inl e \<Rightarrow> Inl e
      | Inr ty \<Rightarrow>
     (case assertKnownValue PROPERTY_OWNERS (rpr_owner row) ''property owner'' of
        Inl e \<Rightarrow> Inl e
      | Inr own \<Rightarrow>
     (case assertKnownValue MIGRATION_STATUSES (rpr_migration_status row) ''migration status'' of
        Inl e \<Rightarrow> Inl e
      | Inr status \<Rightarrow> Inr
          \<lparr>pr_id = rpr_id row, pr_databaseId = rpr_database_id row, pr_key = rpr_key row,
           pr_name = rpr_name row, pr_type = ty, pr_config = rpr_config row,
           pr_locked = rpr_locked row, pr_owner = own, pr_ownerProcess = rpr_owner_process row,
           pr_migrationStatus = status\<rparr>)))"

definition selectProperties :: "(PropertyDbRow \<Rightarrow> bool) \<Rightarrow> PropertyDbRow list op" where
  "selectProperties p = query (\<lambda>d. filter p (t_properties d))"

definition firstProperty :: "PropertyDbRow list \<Rightarrow> PropertyRow option op" where
  "firstProperty rows =
     (case rows of
        [] \<Rightarrow> return None
      | row # _ \<Rightarrow> bnd (ofSum (mapPropertyRow row)) (\<lambda>p. return (Some p)))"

definition getProperty :: "id \<Rightarrow> PropertyRow option op" where
  "getProperty propertyId = bnd (selectProperties (\<lambda>r. rpr_id r = propertyId)) firstProperty"

definition getPropertyForUpdate :: "id \<Rightarrow> PropertyRow option op" where
  "getPropertyForUpdate propertyId =
     bnd (selectProperties (\<lambda>r. rpr_id r = propertyId)) firstProperty"

definition getPropertyByKey :: "id \<Rightarrow> string \<Rightarrow> PropertyRow option op" where
  "getPropertyByKey databaseId key =
     bnd (selectProperties (\<lambda>r. rpr_database_id r = databaseId \<and> rpr_key r = key)) firstProperty"

definition findPropertiesByKey :: "id \<Rightarrow> string \<Rightarrow> string option \<Rightarrow> PropertyRow list op" where
  "findPropertiesByKey databaseId key ty =
     bnd (selectProperties (\<lambda>r. rpr_database_id r = databaseId \<and> rpr_key r = key \<and>
            (ty = None \<or> ty = Some (rpr_type r)))) (\<lambda>rows.
     mapC (\<lambda>r. ofSum (mapPropertyRow r)) (sort_key rpr_id rows))"

definition listPropertiesByDatabase :: "id \<Rightarrow> PropertyRow list op" where
  "listPropertiesByDatabase databaseId =
     bnd (selectProperties (\<lambda>r. rpr_database_id r = databaseId)) (\<lambda>rows.
     mapC (\<lambda>r. ofSum (mapPropertyRow r)) (sort_key rpr_key rows))"

section \<open>Property configuration\<close>

definition isJArr :: "json option \<Rightarrow> bool" where
  "isJArr v = (case v of Some (JArr _) \<Rightarrow> True | _ \<Rightarrow> False)"

definition assertValidSelectOption :: "json \<Rightarrow> error + unit" where
  "assertValidSelectOption option =
     (case option of
        JObj flds \<Rightarrow>
          (case map_of flds ''key'' of
             Some (JStr key) \<Rightarrow>
               if key = '''' then Inl (ValidationError (Some ''config''))
               else (case map_of flds ''label'' of
                       None \<Rightarrow> Inr ()
                     | Some (JStr _) \<Rightarrow> Inr ()
                     | Some _ \<Rightarrow> Inl (ValidationError (Some ''config'')))
           | _ \<Rightarrow> Inl (ValidationError (Some ''config'')))
      | _ \<Rightarrow> Inl (ValidationError (Some ''config'')))"

fun firstError :: "('a \<Rightarrow> error + unit) \<Rightarrow> 'a list \<Rightarrow> error + unit" where
  "firstError f [] = Inr ()"
| "firstError f (x # xs) = (case f x of Inl e \<Rightarrow> Inl e | Inr _ \<Rightarrow> firstError f xs)"

definition assertValidSelectOptions :: "PropertyType \<Rightarrow> obj option \<Rightarrow> error + unit" where
  "assertValidSelectOptions ty config =
     (if ty \<noteq> PtSelect \<and> ty \<noteq> PtMultiSelect then Inr ()
      else case (case config of None \<Rightarrow> None | Some c \<Rightarrow> map_of c ''options'') of
             None \<Rightarrow> Inr ()
           | Some (JArr options) \<Rightarrow> firstError assertValidSelectOption options
           | Some _ \<Rightarrow> Inl (ValidationError (Some ''config'')))"

text \<open>JavaScript truthiness of a JSON value that may be missing.\<close>

fun jsTruthy :: "json option \<Rightarrow> bool" where
  "jsTruthy None = False"
| "jsTruthy (Some JNull) = False"
| "jsTruthy (Some (JBool b)) = b"
| "jsTruthy (Some (JNum n)) = (n \<noteq> 0)"
| "jsTruthy (Some (JStr s)) = (s \<noteq> '''')"
| "jsTruthy (Some (JArr _)) = True"
| "jsTruthy (Some (JObj _)) = True"

definition validDefault :: "PropertyType \<Rightarrow> obj \<Rightarrow> json \<Rightarrow> bool" where
  "validDefault ty config v =
     (case ty of
        PtSelect \<Rightarrow> (case (v, map_of config ''options'') of
            (JStr key, Some (JArr options)) \<Rightarrow>
              (\<exists>option \<in> set options. case option of
                 JObj flds \<Rightarrow> map_of flds ''key'' = Some (JStr key) | _ \<Rightarrow> False)
          | _ \<Rightarrow> False)
      | PtMultiSelect \<Rightarrow> (case (v, map_of config ''options'') of
            (JStr key, Some (JArr options)) \<Rightarrow>
              (\<exists>option \<in> set options. case option of
                 JObj flds \<Rightarrow> map_of flds ''key'' = Some (JStr key) | _ \<Rightarrow> False)
          | _ \<Rightarrow> False)
      | PtCheckbox \<Rightarrow> (case v of JBool _ \<Rightarrow> True | _ \<Rightarrow> False)
      | PtNumber \<Rightarrow> (case v of JNum _ \<Rightarrow> True | _ \<Rightarrow> False)
      | PtText \<Rightarrow> (case v of JStr _ \<Rightarrow> True | _ \<Rightarrow> False)
      | PtDate \<Rightarrow> v = JStr ''today'' \<and> \<not> jsTruthy (map_of config ''includeTime'')
      | _ \<Rightarrow> False)"

definition assertValidDefault :: "PropertyType \<Rightarrow> obj option \<Rightarrow> error + unit" where
  "assertValidDefault ty config =
     (case config of
        None \<Rightarrow> Inr ()
      | Some c \<Rightarrow>
          (case map_of c ''default'' of
             None \<Rightarrow> Inr ()
           | Some v \<Rightarrow> if validDefault ty c v then Inr ()
                       else Inl (ValidationError (Some ''config''))))"

definition assertValidPropertyConfig :: "PropertyType \<Rightarrow> obj option \<Rightarrow> error + unit" where
  "assertValidPropertyConfig ty config =
     (case assertValidSelectOptions ty config of
        Inl e \<Rightarrow> Inl e | Inr _ \<Rightarrow> assertValidDefault ty config)"

end
