(* ===== verification/RelationsStore.thy ===== *)
theory RelationsStore
  imports PropertiesStore
begin

text \<open>
  \<open>chokePoint/relationsStore.ts\<close>: relation definitions and the edges of
  \<open>item_relations\<close>, with the \<open>enforce_relation_cardinality\<close> trigger of migration 0013,
  which guards every insert of an edge.
\<close>

definition CARDINALITIES :: "(string \<times> Cardinality) list" where
  "CARDINALITIES =
     [(''one_to_one'', OneToOne), (''one_to_many'', OneToMany), (''many_to_many'', ManyToMany)]"

definition cardinalityName :: "Cardinality \<Rightarrow> string" where
  "cardinalityName c =
     (case c of OneToOne \<Rightarrow> ''one_to_one'' | OneToMany \<Rightarrow> ''one_to_many''
              | ManyToMany \<Rightarrow> ''many_to_many'')"

definition mapRelationDefinitionRow :: "RelationDefinitionDbRow \<Rightarrow> error + RelationDefinitionRow" where
  "mapRelationDefinitionRow row =
     (case assertKnownValue CARDINALITIES (rrd_cardinality row) ''cardinality'' of
        Inl e \<Rightarrow> Inl e
      | Inr c \<Rightarrow> Inr \<lparr>rd_id = rrd_id row, rd_propertyIdA = rrd_property_id_a row,
                      rd_propertyIdB = rrd_property_id_b row, rd_cardinality = c\<rparr>)"

definition mapItemRelationRow :: "ItemRelationDbRow \<Rightarrow> ItemRelationRow" where
  "mapItemRelationRow row =
     \<lparr>ir_id = rir_id row, ir_relationDefinitionId = rir_relation_definition_id row,
      ir_itemA = rir_item_a row, ir_itemB = rir_item_b row, ir_metadata = rir_metadata row\<rparr>"

definition selectDefinitions :: "(RelationDefinitionDbRow \<Rightarrow> bool) \<Rightarrow> RelationDefinitionDbRow list op" where
  "selectDefinitions p = query (\<lambda>d. filter p (t_relation_definitions d))"

definition firstDefinition :: "RelationDefinitionDbRow list \<Rightarrow> RelationDefinitionRow option op" where
  "firstDefinition rows =
     (case rows of
        [] \<Rightarrow> return None
      | row # _ \<Rightarrow> bnd (ofSum (mapRelationDefinitionRow row)) (\<lambda>r. return (Some r)))"

definition selectEdges :: "(ItemRelationDbRow \<Rightarrow> bool) \<Rightarrow> ItemRelationDbRow list op" where
  "selectEdges p = query (\<lambda>d. filter p (t_item_relations d))"

text \<open>
  \<open>createRelationDefinition\<close>: \<open>property_id_a\<close> and \<open>property_id_b\<close> are unique columns
  that reference \<open>properties\<close>.
\<close>

definition createRelationDefinition ::
  "id \<Rightarrow> id \<Rightarrow> id option \<Rightarrow> Cardinality option \<Rightarrow> RelationDefinitionRow op" where
  "createRelationDefinition newId propertyIdA propertyIdB cardinality =
     bnd (gets cl_db) (\<lambda>d.
     let card = (case cardinality of None \<Rightarrow> ManyToMany | Some c \<Rightarrow> c);
         row = \<lparr>rrd_id = newId, rrd_property_id_a = propertyIdA, rrd_property_id_b = propertyIdB,
                rrd_cardinality = cardinalityName card\<rparr> in
     if \<exists>r \<in> set (t_relation_definitions d). rrd_id r = newId \<or> rrd_property_id_a r = propertyIdA \<or>
          (propertyIdB \<noteq> None \<and> rrd_property_id_b r = propertyIdB)
     then throw (DbError ''23505'')
     else if propertyIdA \<notin> rpr_id ` set (t_properties d) \<or>
          (case propertyIdB of None \<Rightarrow> False | Some b \<Rightarrow> b \<notin> rpr_id ` set (t_properties d))
     then throw (DbError ''23503'')
     else andThen (statement (\<lambda>d. d\<lparr>t_relation_definitions := t_relation_definitions d @ [row]\<rparr>))
            (bnd (requireSingleRow [row] ''relation row'') (\<lambda>r. ofSum (mapRelationDefinitionRow r))))"

definition getRelationDefinition :: "id \<Rightarrow> RelationDefinitionRow option op" where
  "getRelationDefinition defId = bnd (selectDefinitions (\<lambda>r. rrd_id r = defId)) firstDefinition"

definition getRelationDefinitionByPropertyId :: "id \<Rightarrow> RelationDefinitionRow option op" where
  "getRelationDefinitionByPropertyId propertyId =
     bnd (selectDefinitions (\<lambda>r. rrd_property_id_a r = propertyId \<or>
            rrd_property_id_b r = Some propertyId)) firstDefinition"

definition indexDefinition ::
  "id list \<Rightarrow> RelationDefinitionRow \<Rightarrow> (id \<times> RelationDefinitionRow) list \<Rightarrow> (id \<times> RelationDefinitionRow) list" where
  "indexDefinition requested definition m =
     (let m1 = (if rd_propertyIdA definition \<in> set requested
                then AList.update (rd_propertyIdA definition) definition m else m)
      in case rd_propertyIdB definition of
           None \<Rightarrow> m1
         | Some b \<Rightarrow> if b \<noteq> '''' \<and> b \<in> set requested then AList.update b definition m1 else m1)"

definition getRelationDefinitionsByPropertyIds :: "id list \<Rightarrow> (id \<times> RelationDefinitionRow) list op" where
  "getRelationDefinitionsByPropertyIds propertyIds =
     (if propertyIds = [] then return []
      else bnd (selectDefinitions (\<lambda>r. rrd_property_id_a r \<in> set propertyIds \<or>
             (case rrd_property_id_b r of None \<Rightarrow> False | Some b \<Rightarrow> b \<in> set propertyIds))) (\<lambda>rows.
        bnd (mapC (\<lambda>r. ofSum (mapRelationDefinitionRow r)) rows) (\<lambda>defs.
        return (fold (indexDefinition propertyIds) defs []))))"

section \<open>Edges\<close>

definition isEdge :: "id \<Rightarrow> id \<Rightarrow> id \<Rightarrow> ItemRelationDbRow \<Rightarrow> bool" where
  "isEdge defId itemA itemB e \<longleftrightarrow>
     rir_relation_definition_id e = defId \<and> rir_item_a e = itemA \<and> rir_item_b e = itemB"

text \<open>
  The trigger: another edge of the same definition conflicts when it shares either item
  (\<open>one_to_one\<close>) or the item on side B (\<open>one_to_many\<close>); the tuple being written again
  is not a conflict.
\<close>

definition cardinalityConflict :: "string \<Rightarrow> id \<Rightarrow> id \<Rightarrow> id \<Rightarrow> ItemRelationDbRow list \<Rightarrow> bool" where
  "cardinalityConflict cardinality defId itemA itemB edges =
     (if cardinality = ''one_to_one'' then
        (\<exists>e \<in> set edges. rir_relation_definition_id e = defId \<and>
           (rir_item_a e = itemA \<or> rir_item_b e = itemB) \<and>
           \<not> (rir_item_a e = itemA \<and> rir_item_b e = itemB))
      else if cardinality = ''one_to_many'' then
        (\<exists>e \<in> set edges. rir_relation_definition_id e = defId \<and> rir_item_b e = itemB \<and>
           \<not> (rir_item_a e = itemA \<and> rir_item_b e = itemB))
      else False)"

definition enforce_relation_cardinality :: "id \<Rightarrow> id \<Rightarrow> id \<Rightarrow> unit op" where
  "enforce_relation_cardinality defId itemA itemB =
     bnd (gets cl_db) (\<lambda>d.
     case filter (\<lambda>r. rrd_id r = defId) (t_relation_definitions d) of
       [] \<Rightarrow> throw (DbError ''P0001'')
     | r # _ \<Rightarrow>
         if cardinalityConflict (rrd_cardinality r) defId itemA itemB (t_item_relations d)
         then throw (DbError ''SC001'') else return ())"

text \<open>\<open>INSERT ... ON CONFLICT (relation_definition_id, item_a, item_b) DO UPDATE SET metadata\<close>.\<close>

definition upsertEdge :: "id \<Rightarrow> id \<Rightarrow> id \<Rightarrow> id \<Rightarrow> obj \<Rightarrow> ItemRelationDbRow list op" where
  "upsertEdge newId defId itemA itemB metadata =
     andThen (enforce_relation_cardinality defId itemA itemB)
     (bnd (selectEdges (isEdge defId itemA itemB)) (\<lambda>existing.
      if existing \<noteq> [] then
        andThen (statement (\<lambda>d. d\<lparr>t_item_relations :=
            map (\<lambda>e. if isEdge defId itemA itemB e then e\<lparr>rir_metadata := metadata\<rparr> else e)
              (t_item_relations d)\<rparr>))
          (return (map (\<lambda>e. e\<lparr>rir_metadata := metadata\<rparr>) existing))
      else
        (let row = \<lparr>rir_id = newId, rir_relation_definition_id = defId, rir_item_a = itemA,
                    rir_item_b = itemB, rir_metadata = metadata\<rparr>
         in andThen (statement (\<lambda>d. d\<lparr>t_item_relations := t_item_relations d @ [row]\<rparr>))
              (return [row]))))"

definition createItemRelation :: "id \<Rightarrow> id \<Rightarrow> id \<Rightarrow> id \<Rightarrow> obj option \<Rightarrow> ItemRelationRow op" where
  "createItemRelation newId defId itemA itemB metadata =
     bnd (getRelationDefinition defId) (\<lambda>definition.
     case definition of
       None \<Rightarrow> throw NotFoundError
     | Some _ \<Rightarrow>
         catchC
           (bnd (upsertEdge newId defId itemA itemB
                  (case metadata of None \<Rightarrow> [] | Some m \<Rightarrow> m)) (\<lambda>rows.
            bnd (requireSingleRow rows ''relation row'') (\<lambda>row. return (mapItemRelationRow row))))
           (\<lambda>err. if err = DbError ''SC001''
                  then throw (CardinalityViolationError defId itemA itemB) else throw err))"

definition updateItemRelationMetadata :: "id \<Rightarrow> id \<Rightarrow> id \<Rightarrow> obj \<Rightarrow> ItemRelationRow option op" where
  "updateItemRelationMetadata defId itemA itemB metadata =
     bnd (query (\<lambda>d. map (\<lambda>e. e\<lparr>rir_metadata := metadata\<rparr>)
                       (filter (isEdge defId itemA itemB) (t_item_relations d)))) (\<lambda>rows.
     andThen (statement (\<lambda>d. d\<lparr>t_item_relations :=
                map (\<lambda>e. if isEdge defId itemA itemB e then e\<lparr>rir_metadata := metadata\<rparr> else e)
                  (t_item_relations d)\<rparr>))
       (return (firstRow mapItemRelationRow rows)))"

definition getItemRelationByTuple :: "id \<Rightarrow> id \<Rightarrow> id \<Rightarrow> ItemRelationRow option op" where
  "getItemRelationByTuple defId itemA itemB =
     bnd (selectEdges (isEdge defId itemA itemB)) (\<lambda>rows. return (firstRow mapItemRelationRow rows))"

definition deleteItemRelation :: "id \<Rightarrow> id \<Rightarrow> id \<Rightarrow> ItemRelationRow option op" where
  "deleteItemRelation defId itemA itemB =
     bnd (selectEdges (isEdge defId itemA itemB)) (\<lambda>rows.
     andThen (statement (\<lambda>d. d\<lparr>t_item_relations :=
                filter (\<lambda>e. \<not> isEdge defId itemA itemB e) (t_item_relations d)\<rparr>))
       (return (firstRow mapItemRelationRow rows)))"

definition listRelationsForItem :: "id \<Rightarrow> id \<Rightarrow> ItemRelationRow list op" where
  "listRelationsForItem defId itemId =
     bnd (selectEdges (\<lambda>e. rir_relation_definition_id e = defId \<and>
            (rir_item_a e = itemId \<or> rir_item_b e = itemId))) (\<lambda>rows.
     return (map mapItemRelationRow rows))"

definition listRelationsForItems :: "id \<Rightarrow> id list \<Rightarrow> ItemRelationRow list op" where
  "listRelationsForItems defId itemIds =
     (if itemIds = [] then return []
      else bnd (selectEdges (\<lambda>e. rir_relation_definition_id e = defId \<and>
             (rir_item_a e \<in> set itemIds \<or> rir_item_b e \<in> set itemIds))) (\<lambda>rows.
        return (map mapItemRelationRow rows)))"

definition listAllRelationsForItem :: "id \<Rightarrow> ItemRelationRow list op" where
  "listAllRelationsForItem itemId =
     bnd (selectEdges (\<lambda>e. rir_item_a e = itemId \<or> rir_item_b e = itemId)) (\<lambda>rows.
     return (map mapItemRelationRow rows))"

definition otherSide :: "ItemRelationRow \<Rightarrow> id \<Rightarrow> error + id" where
  "otherSide relation itemId =
     (if ir_itemA relation = itemId then Inr (ir_itemB relation)
      else if ir_itemB relation = itemId then Inr (ir_itemA relation)
      else Inl (ValidationError None))"

end
