(* ===== verification/Scheduler.thy ===== *)
theory Scheduler
  imports RelationsStore
begin

text \<open>
  The scheduler as the choke point uses it: heartbeat rules (\<open>scheduler/rule.ts\<close>), the
  next-fire computation (\<open>scheduler/nextFireAt.ts\<close>), the job an item event enqueues and the
  recomputation after a timezone change (\<open>scheduler/schedulerStore.ts\<close>,
  \<open>scheduler/actions.ts\<close>), and the settings they read (\<open>systemSettings.ts\<close>).

  Calendar arithmetic in a zone is the Luxon library, not part of the repository: the record
  \<open>luxon\<close> is what the code calls of it. A Luxon \<open>DateTime\<close> is an instant
  (milliseconds) together with the zone it is read in.
\<close>

record luxon =
  lx_validZone :: "string \<Rightarrow> bool"
  lx_set :: "string \<Rightarrow> int \<Rightarrow> nat \<Rightarrow> nat \<Rightarrow> int"
  lx_plusDays :: "string \<Rightarrow> int \<Rightarrow> int \<Rightarrow> int"
  lx_weekday :: "string \<Rightarrow> int \<Rightarrow> nat"
  lx_isoDate :: "string \<Rightarrow> int \<Rightarrow> string"

text \<open>A calendar without time zones, for the concrete instances of the theorems.\<close>

definition utcCalendar :: luxon where
  "utcCalendar =
     \<lparr>lx_validZone = (\<lambda>zone. zone \<noteq> ''''),
      lx_set = (\<lambda>zone t hour minute. (t div 86400000) * 86400000 + int hour * 3600000 + int minute * 60000),
      lx_plusDays = (\<lambda>zone t n. t + n * 86400000),
      lx_weekday = (\<lambda>zone t. nat ((t div 86400000 + 3) mod 7) + 1),
      lx_isoDate = (\<lambda>zone t. ''1970-01-01'')\<rparr>"

section \<open>Rules\<close>

datatype Weekday = Mon | Tue | Wed | Thu | Fri | Sat | Sun

datatype HeartbeatRule =
    DailyTime string
  | Weekly "Weekday list" string
  | EveryNDays int string
  | Interval int
  | OnItemEvent id ItemOp

text \<open>A rule after parsing: one of the core kinds, or a module's kind with its parsed data.\<close>

datatype AnyHeartbeatRule = CoreRule HeartbeatRule | ModuleRule string obj

record HeartbeatRuleKindHandler =
  rk_safeParse :: "obj \<Rightarrow> string + obj"
  rk_nextFireAt :: "obj \<Rightarrow> string \<Rightarrow> int \<Rightarrow> int option"

type_synonym HeartbeatRuleKindRegistry = "(string \<times> HeartbeatRuleKindHandler) list"

definition CORE_HEARTBEAT_RULE_KINDS :: "string list" where
  "CORE_HEARTBEAT_RULE_KINDS =
     [''dailyTime'', ''weekly'', ''everyNDays'', ''interval'', ''onItemEvent'']"

definition isCoreHeartbeatRuleKind :: "string \<Rightarrow> bool" where
  "isCoreHeartbeatRuleKind kind \<longleftrightarrow> kind \<in> set CORE_HEARTBEAT_RULE_KINDS"

definition isDigit :: "char \<Rightarrow> bool" where
  "isDigit c \<longleftrightarrow> c \<in> set ''0123456789''"

definition digitVal :: "char \<Rightarrow> nat" where
  "digitVal c = of_char c - 48"

text \<open>\<open>/^([01]\d|2[0-3]):([0-5]\d)$/\<close>.\<close>

definition timeOfDay :: "string \<Rightarrow> bool" where
  "timeOfDay s =
     (case s of
        [h1, h2, c, m1, m2] \<Rightarrow>
          ((h1 \<in> set ''01'' \<and> isDigit h2) \<or> (h1 = CHR ''2'' \<and> h2 \<in> set ''0123'')) \<and>
          c = CHR '':'' \<and> m1 \<in> set ''012345'' \<and> isDigit m2
      | _ \<Rightarrow> False)"

definition weekdays :: "(string \<times> Weekday) list" where
  "weekdays = [(''mon'', Mon), (''tue'', Tue), (''wed'', Wed), (''thu'', Thu), (''fri'', Fri),
               (''sat'', Sat), (''sun'', Sun)]"

definition itemEvents :: "(string \<times> ItemOp) list" where
  "itemEvents = [(''create'', OpCreate), (''update'', OpUpdate), (''delete'', OpDelete)]"

text \<open>The fields of the zod schemas: a time of day, weekdays, a positive integer.\<close>

definition atField :: "obj \<Rightarrow> string option" where
  "atField raw = (case map_of raw ''at'' of
       Some (JStr s) \<Rightarrow> if timeOfDay s then Some s else None | _ \<Rightarrow> None)"

fun weekdayList :: "json list \<Rightarrow> Weekday list option" where
  "weekdayList [] = Some []"
| "weekdayList (JStr s # vs) =
     (case map_of weekdays s of
        None \<Rightarrow> None | Some w \<Rightarrow> map_option ((#) w) (weekdayList vs))"
| "weekdayList (_ # vs) = None"

definition daysField :: "obj \<Rightarrow> Weekday list option" where
  "daysField raw = (case map_of raw ''days'' of
       Some (JArr vs) \<Rightarrow> if vs = [] then None else weekdayList vs | _ \<Rightarrow> None)"

definition positiveIntField :: "string \<Rightarrow> obj \<Rightarrow> int option" where
  "positiveIntField key raw = (case map_of raw key of
       Some (JNum q) \<Rightarrow> if of_int (floor q) = q \<and> q > 0 then Some (floor q) else None | _ \<Rightarrow> None)"

definition heartbeatRuleSchema :: "obj \<Rightarrow> HeartbeatRule option" where
  "heartbeatRuleSchema raw =
     (case asStr (map_of raw ''kind'') of
        None \<Rightarrow> None
      | Some kind \<Rightarrow>
          if kind = ''dailyTime'' then map_option DailyTime (atField raw)
          else if kind = ''weekly'' then
            (case (daysField raw, atField raw) of
               (Some days, Some time) \<Rightarrow> Some (Weekly days time) | _ \<Rightarrow> None)
          else if kind = ''everyNDays'' then
            (case (positiveIntField ''n'' raw, atField raw) of
               (Some n, Some time) \<Rightarrow> Some (EveryNDays n time) | _ \<Rightarrow> None)
          else if kind = ''interval'' then map_option Interval (positiveIntField ''minutes'' raw)
          else if kind = ''onItemEvent'' then
            (case (map_of raw ''databaseId'', asStr (map_of raw ''event'')) of
               (Some (JStr databaseId), Some ev) \<Rightarrow>
                 if isUuid databaseId then map_option (OnItemEvent databaseId) (map_of itemEvents ev)
                 else None
             | _ \<Rightarrow> None)
          else None)"

definition parseHeartbeatRule :: "obj \<Rightarrow> HeartbeatRuleKindRegistry \<Rightarrow> error + AnyHeartbeatRule" where
  "parseHeartbeatRule raw moduleRuleKinds =
     (let core = (case heartbeatRuleSchema raw of
                    None \<Rightarrow> Inl (PlainError ''ZodError'') | Some r \<Rightarrow> Inr (CoreRule r))
      in case asStr (map_of raw ''kind'') of
           None \<Rightarrow> core
         | Some kind \<Rightarrow>
             if isCoreHeartbeatRuleKind kind then core
             else (case map_of moduleRuleKinds kind of
                     None \<Rightarrow> Inl (PlainError ''Unknown heartbeat rule kind'')
                   | Some handler \<Rightarrow>
                       (case rk_safeParse handler raw of
                          Inl message \<Rightarrow> Inl (PlainError message)
                        | Inr data \<Rightarrow> Inr (ModuleRule kind data))))"

fun isFixedRule :: "HeartbeatRule \<Rightarrow> bool" where
  "isFixedRule (DailyTime _) = True"
| "isFixedRule (Weekly _ _) = True"
| "isFixedRule _ = False"

fun isFloatingRule :: "HeartbeatRule \<Rightarrow> bool" where
  "isFloatingRule (EveryNDays _ _) = True"
| "isFloatingRule (Interval _) = True"
| "isFloatingRule _ = False"

definition isFloatingRuleKind :: "string \<Rightarrow> bool" where
  "isFloatingRuleKind kind \<longleftrightarrow> kind = ''everyNDays'' \<or> kind = ''interval''"

section \<open>The next fire time\<close>

fun weekdayToLuxon :: "Weekday \<Rightarrow> nat" where
  "weekdayToLuxon Mon = 1"
| "weekdayToLuxon Tue = 2"
| "weekdayToLuxon Wed = 3"
| "weekdayToLuxon Thu = 4"
| "weekdayToLuxon Fri = 5"
| "weekdayToLuxon Sat = 6"
| "weekdayToLuxon Sun = 7"

text \<open>\<open>at.split(":").map(Number)\<close> of a validated time; other texts never reach it.\<close>

fun hourMinute :: "string \<Rightarrow> nat \<times> nat" where
  "hourMinute [h1, h2, c, m1, m2] =
     (10 * digitVal h1 + digitVal h2, 10 * digitVal m1 + digitVal m2)"
| "hourMinute _ = (0, 0)"

definition atLocalTime :: "luxon \<Rightarrow> string \<Rightarrow> int \<Rightarrow> string \<Rightarrow> int" where
  "atLocalTime lx zone day time =
     (case hourMinute time of (hour, minute) \<Rightarrow> lx_set lx zone day hour minute)"

text \<open>The loop over \<open>offset = 0..7\<close>; \<open>None\<close> is its fall-through \<open>throw\<close>.\<close>

fun weeklyFrom :: "luxon \<Rightarrow> string \<Rightarrow> Weekday list \<Rightarrow> string \<Rightarrow> int \<Rightarrow> nat list \<Rightarrow> int option" where
  "weeklyFrom lx zone days time reference [] = None"
| "weeklyFrom lx zone days time reference (offset # offsets) =
     (let day = lx_plusDays lx zone reference (int offset);
          candidate = atLocalTime lx zone day time
      in if lx_weekday lx zone day \<notin> set (map weekdayToLuxon days)
         then weeklyFrom lx zone days time reference offsets
         else if candidate > reference then Some candidate
         else weeklyFrom lx zone days time reference offsets)"

fun coreNextFireAt :: "luxon \<Rightarrow> HeartbeatRule \<Rightarrow> string \<Rightarrow> int \<Rightarrow> error + int option" where
  "coreNextFireAt lx (DailyTime time) zone reference =
     (let candidate = atLocalTime lx zone reference time
      in Inr (Some (if candidate \<le> reference then lx_plusDays lx zone candidate 1 else candidate)))"
| "coreNextFireAt lx (Weekly days time) zone reference =
     (case weeklyFrom lx zone days time reference [0..<8] of
        None \<Rightarrow> Inl (PlainError ''weekly rule has no matching weekday'')
      | Some candidate \<Rightarrow> Inr (Some candidate))"
| "coreNextFireAt lx (EveryNDays n time) zone reference =
     Inr (Some (atLocalTime lx zone (lx_plusDays lx zone reference n) time))"
| "coreNextFireAt lx (Interval minutes) zone reference = Inr (Some (reference + minutes * 60000))"
| "coreNextFireAt lx (OnItemEvent _ _) zone reference = Inr None"

definition computeNextFireAt ::
  "luxon \<Rightarrow> AnyHeartbeatRule \<Rightarrow> string \<Rightarrow> int \<Rightarrow> HeartbeatRuleKindRegistry \<Rightarrow> error + int option" where
  "computeNextFireAt lx rule zone after moduleRuleKinds =
     (case rule of
        CoreRule r \<Rightarrow> coreNextFireAt lx r zone after
      | ModuleRule kind data \<Rightarrow>
          (case map_of moduleRuleKinds kind of
             None \<Rightarrow> Inl (PlainError ''No next-fire calculator registered'')
           | Some handler \<Rightarrow> Inr (rk_nextFireAt handler data zone after)))"

section \<open>Settings\<close>

definition SYSTEM_SETTINGS_MODULE_ID :: string where
  "SYSTEM_SETTINGS_MODULE_ID = ''systemSettings''"

definition DEFAULT_TIMEZONE :: string where
  "DEFAULT_TIMEZONE = ''Europe/Prague''"

definition assertValidTimezone :: "luxon \<Rightarrow> string \<Rightarrow> error + unit" where
  "assertValidTimezone lx zone =
     (if lx_validZone lx zone then Inr () else Inl (ValidationError (Some ''timezone'')))"

definition getSystemSettingsDatabaseId :: "id op" where
  "getSystemSettingsDatabaseId =
     bnd (selectDatabases (\<lambda>r. rdb_owner_module_id r = Some SYSTEM_SETTINGS_MODULE_ID \<and> rdb_system r))
       (\<lambda>rows. case rows of [] \<Rightarrow> throw NotFoundError | row # _ \<Rightarrow> return (rdb_id row))"

definition getSystemSettingsItemId :: "id op" where
  "getSystemSettingsItemId =
     bnd getSystemSettingsDatabaseId (\<lambda>databaseId.
     bnd (selectItems (\<lambda>r. rit_database_id r = databaseId)) (\<lambda>rows.
     case rows of [] \<Rightarrow> throw NotFoundError | row # _ \<Rightarrow> return (rit_id row)))"

definition toSettingsProperties :: "obj \<Rightarrow> error + string option" where
  "toSettingsProperties raw =
     (case map_of raw ''timezone'' of
        None \<Rightarrow> Inr None
      | Some (JStr s) \<Rightarrow> Inr (Some s)
      | Some _ \<Rightarrow> Inl (PlainError ''system settings properties''))"

definition getSystemTimezone :: "string op" where
  "getSystemTimezone =
     bnd (catchC (bnd getSystemSettingsDatabaseId (\<lambda>i. return (Some i)))
            (\<lambda>err. if err = NotFoundError then return None else throw err)) (\<lambda>databaseId.
     case databaseId of
       None \<Rightarrow> return DEFAULT_TIMEZONE
     | Some i \<Rightarrow>
         bnd (selectItems (\<lambda>r. rit_database_id r = i)) (\<lambda>rows.
         case rows of
           [] \<Rightarrow> return DEFAULT_TIMEZONE
         | row # _ \<Rightarrow>
             bnd (ofSum (toSettingsProperties (rit_properties row))) (\<lambda>timezone.
             return (case timezone of None \<Rightarrow> DEFAULT_TIMEZONE | Some z \<Rightarrow> z))))"

section \<open>Heartbeats\<close>

definition recordHeartbeatSuccess :: "id \<Rightarrow> unit op" where
  "recordHeartbeatSuccess heartbeatId =
     statement (\<lambda>d. d\<lparr>t_heartbeats :=
       map (\<lambda>h. if hb_id h = heartbeatId then h\<lparr>hb_last_error := None\<rparr> else h) (t_heartbeats d)\<rparr>)"

definition recordHeartbeatFailure :: "id \<Rightarrow> string \<Rightarrow> unit op" where
  "recordHeartbeatFailure heartbeatId err =
     statement (\<lambda>d. d\<lparr>t_heartbeats :=
       map (\<lambda>h. if hb_id h = heartbeatId then h\<lparr>hb_last_error := Some err\<rparr> else h) (t_heartbeats d)\<rparr>)"

definition errorMessage :: "error \<Rightarrow> string" where
  "errorMessage e = (case e of PlainError m \<Rightarrow> m | _ \<Rightarrow> ''error'')"

text \<open>
  \<open>recomputeAllForTimezoneChange\<close>: \<open>clock\<close> is \<open>new Date()\<close>. A row whose rule no longer
  parses records the failure and keeps its \<open>next_fire_at\<close>.
\<close>

definition recomputeHeartbeat ::
  "luxon \<Rightarrow> int \<Rightarrow> string \<Rightarrow> HeartbeatRuleKindRegistry \<Rightarrow> HeartbeatDbRow \<Rightarrow> unit op" where
  "recomputeHeartbeat lx clock newTimezone moduleRuleKinds row =
     (case (case parseHeartbeatRule (hb_rule row) moduleRuleKinds of
              Inl e \<Rightarrow> Inl e
            | Inr rule \<Rightarrow> computeNextFireAt lx rule newTimezone clock moduleRuleKinds) of
        Inl err \<Rightarrow> recordHeartbeatFailure (hb_id row) (errorMessage err)
      | Inr nextFireAt \<Rightarrow>
          statement (\<lambda>d. d\<lparr>t_heartbeats :=
            map (\<lambda>h. if hb_id h = hb_id row
                     then h\<lparr>hb_next_fire_at := map_option (\<lambda>ms. ms * 1000) nextFireAt\<rparr> else h)
              (t_heartbeats d)\<rparr>))"

definition recomputeAllForTimezoneChange ::
  "luxon \<Rightarrow> int \<Rightarrow> string \<Rightarrow> HeartbeatRuleKindRegistry \<Rightarrow> unit op" where
  "recomputeAllForTimezoneChange lx clock newTimezone moduleRuleKinds =
     bnd (query (\<lambda>d. filter (\<lambda>h. hb_enabled h \<and> hb_next_fire_at h \<noteq> None) (t_heartbeats d))) (\<lambda>rows.
     forEach rows (recomputeHeartbeat lx clock newTimezone moduleRuleKinds))"

definition heartbeatFireJobKey :: "id \<Rightarrow> string option \<Rightarrow> string" where
  "heartbeatFireJobKey heartbeatId suffix =
     (if truthy suffix then ''heartbeat-fire:'' @ heartbeatId @ '':'' @ the suffix
      else ''heartbeat-fire:'' @ heartbeatId)"

definition CORE_AGENT_RUN_ACTION_ID :: string where
  "CORE_AGENT_RUN_ACTION_ID = ''core.agentRun''"

definition resolveHeartbeatFireTaskName :: "string \<Rightarrow> string" where
  "resolveHeartbeatFireTaskName actionId =
     (if actionId = CORE_AGENT_RUN_ACTION_ID then ''heartbeatFireAgent'' else ''heartbeatFireCore'')"

definition resolveAgentRunLane :: "TenantScope option \<Rightarrow> string \<Rightarrow> string option" where
  "resolveAgentRunLane scope actionId =
     (if resolveHeartbeatFireTaskName actionId = ''heartbeatFireAgent''
      then tenantLane scope ''agent-run'' else None)"

type_synonym ActionQueueAffinity = "(string \<times> string) list"

definition createActionQueueAffinity :: ActionQueueAffinity where
  "createActionQueueAffinity = [(''semprec.tick'', ''semprec-tick'')]"

definition itemOpName :: "ItemOp \<Rightarrow> string" where
  "itemOpName ev = (case ev of OpCreate \<Rightarrow> ''create'' | OpUpdate \<Rightarrow> ''update'' | OpDelete \<Rightarrow> ''delete'')"

definition watchesEvent :: "id \<Rightarrow> ItemOp \<Rightarrow> HeartbeatDbRow \<Rightarrow> bool" where
  "watchesEvent databaseId ev h \<longleftrightarrow>
     hb_enabled h \<and> asStr (map_of (hb_rule h) ''kind'') = Some ''onItemEvent'' \<and>
     asStr (map_of (hb_rule h) ''databaseId'') = Some databaseId \<and>
     asStr (map_of (hb_rule h) ''event'') = Some (itemOpName ev)"

definition triggerOnItemEventHeartbeats ::
  "id \<Rightarrow> ItemOp \<Rightarrow> id \<Rightarrow> ActionQueueAffinity option \<Rightarrow> unit op" where
  "triggerOnItemEventHeartbeats databaseId ev itemId queueAffinity =
     (let affinity = (case queueAffinity of None \<Rightarrow> createActionQueueAffinity | Some a \<Rightarrow> a) in
      bnd (gets cl_scope) (\<lambda>scope.
      bnd (query (\<lambda>d. filter (watchesEvent databaseId ev) (t_heartbeats d))) (\<lambda>rows.
      forEach rows (\<lambda>row.
        enqueueJob (resolveHeartbeatFireTaskName (hb_action_id row))
          [(''heartbeatId'', JStr (hb_id row)), (''itemId'', JStr itemId)]
          (Some (heartbeatFireJobKey (hb_id row) (Some itemId))) (Some 3)
          (case resolveAgentRunLane scope (hb_action_id row) of
             Some lane \<Rightarrow> Some lane
           | None \<Rightarrow>
               (case map_of affinity (hb_action_id row) of
                  None \<Rightarrow> None
                | Some baseLane \<Rightarrow>
                    (case tenantLane scope baseLane of
                       Some lane \<Rightarrow> Some lane | None \<Rightarrow> Some baseLane)))))))"

end
