(* ===== verification/Rollup.thy ===== *)
theory Rollup
  imports Scheduler
begin

text \<open>
  Rollups: the dependency rows (\<open>rollup/dependencies.ts\<close>), a rollup's configuration
  (\<open>rollup/config.ts\<close>), the guards on what a rollup depends on (\<open>rollup/mirror.ts\<close>) and
  the scheduling and execution of recomputes (\<open>rollup/recompute.ts\<close>).

  Postgres' parsing of a \<open>timestamptz\<close> text and the ISO text the driver's \<open>Date\<close> prints
  depend on the server's settings; the record \<open>pgTime\<close> holds both. A cast that Postgres
  refuses is \<open>None\<close>. Floating-point results are their exact rational values.
\<close>

record pgTime =
  pt_parse :: "string \<Rightarrow> int option"
  pt_iso :: "int \<Rightarrow> string"

section \<open>Dependencies\<close>

record RollupDependencyRow =
  rdp_rollupPropertyId :: id
  rdp_relationDefinitionId :: id
  rdp_sourceDatabaseId :: id
  rdp_sourcePropertyKey :: "string option"

definition mapDependencyRow :: "RollupDependencyDbRow \<Rightarrow> RollupDependencyRow" where
  "mapDependencyRow row =
     \<lparr>rdp_rollupPropertyId = rud_rollup_property_id row,
      rdp_relationDefinitionId = rud_relation_definition_id row,
      rdp_sourceDatabaseId = rud_source_database_id row,
      rdp_sourcePropertyKey = rud_source_property_key row\<rparr>"

text \<open>
  \<open>INSERT ... ON CONFLICT (rollup_property_id) DO UPDATE\<close>. The property, the definition and
  the source database are foreign keys of the table.
\<close>

definition upsertRollupDependency :: "RollupDependencyRow \<Rightarrow> unit op" where
  "upsertRollupDependency input =
     bnd (gets cl_db) (\<lambda>d.
     let row = \<lparr>rud_rollup_property_id = rdp_rollupPropertyId input,
                rud_relation_definition_id = rdp_relationDefinitionId input,
                rud_source_database_id = rdp_sourceDatabaseId input,
                rud_source_property_key = rdp_sourcePropertyKey input\<rparr> in
     if rdp_rollupPropertyId input \<notin> rpr_id ` set (t_properties d) \<or>
        rdp_relationDefinitionId input \<notin> rrd_id ` set (t_relation_definitions d) \<or>
        rdp_sourceDatabaseId input \<notin> rdb_id ` set (t_databases d)
     then throw (DbError ''23503'')
     else if rdp_rollupPropertyId input \<in> rud_rollup_property_id ` set (t_rollup_dependencies d)
     then statement (\<lambda>d. d\<lparr>t_rollup_dependencies :=
            map (\<lambda>r. if rud_rollup_property_id r = rdp_rollupPropertyId input then row else r)
              (t_rollup_dependencies d)\<rparr>)
     else statement (\<lambda>d. d\<lparr>t_rollup_dependencies := t_rollup_dependencies d @ [row]\<rparr>))"

definition selectDependencies :: "(RollupDependencyDbRow \<Rightarrow> bool) \<Rightarrow> RollupDependencyRow list op" where
  "selectDependencies p = query (\<lambda>d. map mapDependencyRow (filter p (t_rollup_dependencies d)))"

definition findDependenciesByRelationDefinition :: "id \<Rightarrow> RollupDependencyRow list op" where
  "findDependenciesByRelationDefinition defId =
     selectDependencies (\<lambda>r. rud_relation_definition_id r = defId)"

definition findDependenciesBySource :: "id \<Rightarrow> string \<Rightarrow> RollupDependencyRow list op" where
  "findDependenciesBySource databaseId key =
     selectDependencies (\<lambda>r. rud_source_database_id r = databaseId \<and>
       rud_source_property_key r = Some key)"

definition getRollupDependency :: "id \<Rightarrow> RollupDependencyRow option op" where
  "getRollupDependency propertyId =
     bnd (selectDependencies (\<lambda>r. rud_rollup_property_id r = propertyId)) (\<lambda>rows.
     return (firstRow id rows))"

section \<open>Configuration\<close>

datatype RollupAggregation =
    AggCount | AggCountFilled | AggCountEmpty | AggPercentFilled | AggPercentEmpty
  | AggSum | AggAvg | AggMin | AggMax | AggEarliest | AggLatest

definition ROLLUP_AGGREGATIONS :: "(string \<times> RollupAggregation) list" where
  "ROLLUP_AGGREGATIONS =
     [(''count'', AggCount), (''count_filled'', AggCountFilled), (''count_empty'', AggCountEmpty),
      (''percent_filled'', AggPercentFilled), (''percent_empty'', AggPercentEmpty),
      (''sum'', AggSum), (''avg'', AggAvg), (''min'', AggMin), (''max'', AggMax),
      (''earliest'', AggEarliest), (''latest'', AggLatest)]"

record RollupConfig =
  rc_relationPropertyKey :: string
  rc_targetPropertyKey :: "string option"
  rc_aggregation :: RollupAggregation

definition NUMBER_ONLY :: "RollupAggregation list" where
  "NUMBER_ONLY = [AggSum, AggAvg, AggMin, AggMax]"

definition DATE_ONLY :: "RollupAggregation list" where
  "DATE_ONLY = [AggEarliest, AggLatest]"

definition NO_TARGET :: "RollupAggregation list" where
  "NO_TARGET = [AggCount]"

definition parseRollupConfig :: "obj \<Rightarrow> error + RollupConfig" where
  "parseRollupConfig raw =
     (case asStr (map_of raw ''relationPropertyKey'') of
        None \<Rightarrow> Inl (ValidationError (Some ''relationPropertyKey''))
      | Some relationKey \<Rightarrow>
          if relationKey = '''' then Inl (ValidationError (Some ''relationPropertyKey''))
          else (case (case asStr (map_of raw ''aggregation'') of
                        None \<Rightarrow> None | Some a \<Rightarrow> map_of ROLLUP_AGGREGATIONS a) of
                  None \<Rightarrow> Inl (ValidationError (Some ''aggregation''))
                | Some aggregation \<Rightarrow>
                    (case map_of raw ''targetPropertyKey'' of
                       None \<Rightarrow> Inr \<lparr>rc_relationPropertyKey = relationKey,
                                   rc_targetPropertyKey = None, rc_aggregation = aggregation\<rparr>
                     | Some (JStr key) \<Rightarrow> Inr \<lparr>rc_relationPropertyKey = relationKey,
                                   rc_targetPropertyKey = Some key, rc_aggregation = aggregation\<rparr>
                     | Some _ \<Rightarrow> Inl (ValidationError (Some ''targetPropertyKey'')))))"

definition assertTargetTypeCompatible :: "RollupAggregation \<Rightarrow> PropertyType \<Rightarrow> error + unit" where
  "assertTargetTypeCompatible aggregation targetType =
     (if aggregation \<in> set NUMBER_ONLY \<and> targetType \<noteq> PtNumber
      then Inl (ValidationError (Some ''targetPropertyKey''))
      else if aggregation \<in> set DATE_ONLY \<and> targetType \<noteq> PtDate
      then Inl (ValidationError (Some ''targetPropertyKey''))
      else Inr ())"

record ValidatedRollupConfig =
  vr_config :: RollupConfig
  vr_relationProperty :: PropertyRow
  vr_targetProperty :: "PropertyRow option"

definition validateRollupConfig ::
  "obj \<Rightarrow> PropertyRow list \<Rightarrow> PropertyRow list \<Rightarrow> error + ValidatedRollupConfig" where
  "validateRollupConfig raw sameDatabaseProperties targetDatabaseProperties =
     (case parseRollupConfig raw of
        Inl e \<Rightarrow> Inl e
      | Inr config \<Rightarrow>
     (case find (\<lambda>p. pr_key p = rc_relationPropertyKey config) sameDatabaseProperties of
        None \<Rightarrow> Inl (ValidationError (Some ''relationPropertyKey''))
      | Some relationProperty \<Rightarrow>
          if pr_type relationProperty \<noteq> PtRelation
          then Inl (ValidationError (Some ''relationPropertyKey''))
          else if rc_aggregation config \<in> set NO_TARGET
          then Inr \<lparr>vr_config = config, vr_relationProperty = relationProperty,
                    vr_targetProperty = None\<rparr>
          else if \<not> truthy (rc_targetPropertyKey config)
          then Inl (ValidationError (Some ''targetPropertyKey''))
          else (case find (\<lambda>p. Some (pr_key p) = rc_targetPropertyKey config) targetDatabaseProperties of
                  None \<Rightarrow> Inl (ValidationError (Some ''targetPropertyKey''))
                | Some target \<Rightarrow>
                    if pr_type target = PtRollup \<or> pr_type target = PtRelation
                    then Inl (ValidationError (Some ''targetPropertyKey''))
                    else (case assertTargetTypeCompatible (rc_aggregation config) (pr_type target) of
                            Inl e \<Rightarrow> Inl e
                          | Inr _ \<Rightarrow> Inr \<lparr>vr_config = config, vr_relationProperty = relationProperty,
                                           vr_targetProperty = Some target\<rparr>))))"

definition assertAggregationCompatibleWithType :: "RollupAggregation \<Rightarrow> PropertyType \<Rightarrow> error + unit" where
  "assertAggregationCompatibleWithType aggregation newType =
     (if newType = PtRollup \<or> newType = PtRelation then Inl (ValidationError (Some ''type''))
      else assertTargetTypeCompatible aggregation newType)"

definition applyRollupConfig :: "PropertyRow \<Rightarrow> unit op" where
  "applyRollupConfig property =
     bnd (listPropertiesByDatabase (pr_databaseId property)) (\<lambda>sameDatabaseProperties.
     let relationProperty = (case asStr (map_of (pr_config property) ''relationPropertyKey'') of
             None \<Rightarrow> None | Some key \<Rightarrow> find (\<lambda>p. pr_key p = key) sameDatabaseProperties);
         targetDatabaseId = (case relationProperty of
             None \<Rightarrow> None | Some p \<Rightarrow> asStr (map_of (pr_config p) ''targetDatabaseId''))
     in bnd (if truthy targetDatabaseId then listPropertiesByDatabase (the targetDatabaseId)
             else return []) (\<lambda>targetDatabaseProperties.
        bnd (ofSum (validateRollupConfig (pr_config property) sameDatabaseProperties
                      targetDatabaseProperties)) (\<lambda>validated.
        bnd (getRelationDefinitionByPropertyId (pr_id (vr_relationProperty validated))) (\<lambda>found.
        case found of
          None \<Rightarrow> throw (ValidationError (Some ''relationPropertyKey''))
        | Some reldef \<Rightarrow>
            if \<not> truthy targetDatabaseId then throw (ValidationError (Some ''relationPropertyKey''))
            else upsertRollupDependency
                   \<lparr>rdp_rollupPropertyId = pr_id property, rdp_relationDefinitionId = rd_id reldef,
                    rdp_sourceDatabaseId = the targetDatabaseId,
                    rdp_sourcePropertyKey = map_option pr_key (vr_targetProperty validated)\<rparr>))))"

section \<open>Guards on a rollup's sources\<close>

definition assertRelationDeletable :: "id \<Rightarrow> unit op" where
  "assertRelationDeletable defId =
     bnd (findDependenciesByRelationDefinition defId) (\<lambda>dependents.
     if dependents \<noteq> [] then throw (ValidationError None) else return ())"

definition assertSourceDeletable :: "id \<Rightarrow> string \<Rightarrow> unit op" where
  "assertSourceDeletable databaseId key =
     bnd (findDependenciesBySource databaseId key) (\<lambda>dependents.
     if dependents \<noteq> [] then throw (ValidationError None) else return ())"

definition incompatibleRollup :: "PropertyType \<Rightarrow> RollupDependencyRow \<Rightarrow> id list op" where
  "incompatibleRollup newType dependency =
     bnd (getProperty (rdp_rollupPropertyId dependency)) (\<lambda>found.
     case found of
       None \<Rightarrow> return []
     | Some rollupProperty \<Rightarrow>
         bnd (ofSum (parseRollupConfig (pr_config rollupProperty))) (\<lambda>config.
         case assertAggregationCompatibleWithType (rc_aggregation config) newType of
           Inl _ \<Rightarrow> return [rdp_rollupPropertyId dependency]
         | Inr _ \<Rightarrow> return []))"

definition assertSourceRetypeAllowed :: "id \<Rightarrow> string \<Rightarrow> PropertyType \<Rightarrow> unit op" where
  "assertSourceRetypeAllowed databaseId key newType =
     bnd (findDependenciesBySource databaseId key) (\<lambda>dependents.
     if dependents = [] then return ()
     else bnd (mapC (incompatibleRollup newType) dependents) (\<lambda>incompatible.
          if concat incompatible \<noteq> [] then throw (ValidationError None) else return ()))"

end
