(* ===== verification/RollupRecompute.thy ===== *)
theory RollupRecompute
  imports Rollup
begin

text \<open>
  \<open>rollup/recompute.ts\<close>: the job keys, the enqueues, the recompute of one cell, the backfill
  that walks a database in keyset pages, and the fan-out of one relation edge to the rollups
  that depend on its definition.
\<close>

section \<open>Enqueueing\<close>

definition rollupRecomputeJobKey :: "id \<Rightarrow> id \<Rightarrow> string" where
  "rollupRecomputeJobKey propertyId itemId = ''rollup-recompute:'' @ propertyId @ '':'' @ itemId"

definition rollupRecomputeFullJobKey :: "id \<Rightarrow> string" where
  "rollupRecomputeFullJobKey propertyId = ''rollup-recompute:'' @ propertyId @ '':full''"

definition enqueueRollupRecompute :: "id \<Rightarrow> id \<Rightarrow> unit op" where
  "enqueueRollupRecompute propertyId itemId =
     bnd (gets cl_scope) (\<lambda>scope.
     enqueueJob ''rollupRecompute''
       [(''rollupPropertyId'', JStr propertyId), (''itemId'', JStr itemId)]
       (Some (rollupRecomputeJobKey propertyId itemId)) (Some 3)
       (tenantLane scope ''rollup-recompute''))"

definition enqueueRollupBackfill :: "id \<Rightarrow> unit op" where
  "enqueueRollupBackfill propertyId =
     bnd (gets cl_scope) (\<lambda>scope.
     enqueueJob ''rollupRecomputeFull'' [(''rollupPropertyId'', JStr propertyId)]
       (Some (rollupRecomputeFullJobKey propertyId)) (Some 3)
       (tenantLane scope ''rollup-backfill''))"

section \<open>The aggregation\<close>

text \<open>
  The \<open>SELECT\<close> list of each aggregation over the joined rows. A missing key (SQL \<open>NULL\<close>
  for \<open>$3\<close>) satisfies neither filter. Texts count as numbers when they match
  \<open>^-?[0-9]+(\.[0-9]+)?$\<close>, as instants when they match the ISO pattern; anything else
  contributes nothing.
\<close>

definition digitsValue :: "string \<Rightarrow> nat" where
  "digitsValue ds = fold (\<lambda>c n. 10 * n + digitVal c) ds 0"

definition unsignedDecimal :: "string \<Rightarrow> rat option" where
  "unsignedDecimal s =
     (let whole = takeWhile isDigit s; rest = dropWhile isDigit s in
      if whole = [] then None
      else case rest of
             [] \<Rightarrow> Some (of_nat (digitsValue whole))
           | c # decimals \<Rightarrow>
               if c = CHR ''.'' \<and> decimals \<noteq> [] \<and> list_all isDigit decimals
               then Some (of_nat (digitsValue whole) + of_nat (digitsValue decimals) / 10 ^ length decimals)
               else None)"

definition decimalText :: "string \<Rightarrow> rat option" where
  "decimalText s =
     (case s of
        [] \<Rightarrow> None
      | c # rest \<Rightarrow> if c = CHR ''-'' then map_option uminus (unsignedDecimal rest)
                    else unsignedDecimal s)"

definition isoDateText :: "string \<Rightarrow> bool" where
  "isoDateText s =
     (list_all isDigit (take 4 s) \<and> take 1 (drop 4 s) = ''-'' \<and> list_all isDigit (take 2 (drop 5 s)) \<and>
      take 1 (drop 7 s) = ''-'' \<and> length (take 2 (drop 8 s)) = 2 \<and> list_all isDigit (take 2 (drop 8 s)) \<and>
      (case drop 10 s of
         [] \<Rightarrow> True
       | c # rest \<Rightarrow> c = CHR ''T'' \<and> list_all (\<lambda>x. isDigit x \<or> x \<in> set '':.+-Z'') rest))"

definition cellValue :: "string option \<Rightarrow> ItemDbRow \<Rightarrow> json option" where
  "cellValue key t = (case key of None \<Rightarrow> None | Some k \<Rightarrow> map_of (rit_properties t) k)"

definition cellFilled :: "string option \<Rightarrow> ItemDbRow \<Rightarrow> bool" where
  "cellFilled key t \<longleftrightarrow> cellValue key t \<noteq> None \<and> cellValue key t \<noteq> Some JNull"

definition cellEmpty :: "string option \<Rightarrow> ItemDbRow \<Rightarrow> bool" where
  "cellEmpty key t \<longleftrightarrow> key \<noteq> None \<and> (cellValue key t = None \<or> cellValue key t = Some JNull)"

definition cellNumber :: "string option \<Rightarrow> ItemDbRow \<Rightarrow> rat option" where
  "cellNumber key t =
     (case cellValue key t of
        Some (JNum q) \<Rightarrow> Some q | Some (JStr s) \<Rightarrow> decimalText s | _ \<Rightarrow> None)"

definition somes :: "'a option list \<Rightarrow> 'a list" where
  "somes xs = map the (filter (\<lambda>x. x \<noteq> None) xs)"

definition cellInstant :: "pgTime \<Rightarrow> string option \<Rightarrow> ItemDbRow \<Rightarrow> error + int option" where
  "cellInstant ts key t =
     (case cellValue key t of
        Some (JStr s) \<Rightarrow>
          if isoDateText s then
            (case pt_parse ts s of None \<Rightarrow> Inl (DbError ''22007'') | Some v \<Rightarrow> Inr (Some v))
          else Inr None
      | _ \<Rightarrow> Inr None)"

fun cellInstants :: "pgTime \<Rightarrow> string option \<Rightarrow> ItemDbRow list \<Rightarrow> error + int list" where
  "cellInstants ts key [] = Inr []"
| "cellInstants ts key (t # rows) =
     (case cellInstant ts key t of
        Inl e \<Rightarrow> Inl e
      | Inr v \<Rightarrow>
          (case cellInstants ts key rows of
             Inl e \<Rightarrow> Inl e
           | Inr vs \<Rightarrow> Inr (case v of None \<Rightarrow> vs | Some i \<Rightarrow> i # vs)))"

definition listMin :: "'a::linorder list \<Rightarrow> 'a option" where
  "listMin xs = (case xs of [] \<Rightarrow> None | y # ys \<Rightarrow> Some (fold min ys y))"

definition listMax :: "'a::linorder list \<Rightarrow> 'a option" where
  "listMax xs = (case xs of [] \<Rightarrow> None | y # ys \<Rightarrow> Some (fold max ys y))"

definition percentOf :: "(ItemDbRow \<Rightarrow> bool) \<Rightarrow> ItemDbRow list \<Rightarrow> rat" where
  "percentOf p rows =
     (if rows = [] then 0 else of_nat (length (filter p rows)) / of_nat (length rows))"

definition countJson :: "nat \<Rightarrow> json option" where
  "countJson n = Some (JNum (of_nat n))"

text \<open>The query's \<open>value\<close> column; \<open>None\<close> is SQL \<open>NULL\<close>.\<close>

definition aggregationSql ::
  "pgTime \<Rightarrow> RollupAggregation \<Rightarrow> string option \<Rightarrow> ItemDbRow list \<Rightarrow> error + json option" where
  "aggregationSql ts aggregation key rows =
     (let numbers = somes (map (cellNumber key) rows);
          isoOf = map_option (\<lambda>us. JStr (pt_iso ts (toISOString us)))
      in case aggregation of
           AggCount \<Rightarrow> Inr (countJson (length rows))
         | AggCountFilled \<Rightarrow> Inr (countJson (length (filter (cellFilled key) rows)))
         | AggCountEmpty \<Rightarrow> Inr (countJson (length (filter (cellEmpty key) rows)))
         | AggPercentFilled \<Rightarrow> Inr (Some (JNum (percentOf (cellFilled key) rows)))
         | AggPercentEmpty \<Rightarrow> Inr (Some (JNum (percentOf (cellEmpty key) rows)))
         | AggSum \<Rightarrow> Inr (if numbers = [] then None else Some (JNum (sum_list numbers)))
         | AggAvg \<Rightarrow> Inr (if numbers = [] then None
                        else Some (JNum (sum_list numbers / of_nat (length numbers))))
         | AggMin \<Rightarrow> Inr (map_option JNum (listMin numbers))
         | AggMax \<Rightarrow> Inr (map_option JNum (listMax numbers))
         | AggEarliest \<Rightarrow> (case cellInstants ts key rows of
                            Inl e \<Rightarrow> Inl e | Inr vs \<Rightarrow> Inr (isoOf (listMin vs)))
         | AggLatest \<Rightarrow> (case cellInstants ts key rows of
                          Inl e \<Rightarrow> Inl e | Inr vs \<Rightarrow> Inr (isoOf (listMax vs))))"

section \<open>Recomputing one cell\<close>

text \<open>\<open>item_relations ir JOIN items t\<close> on the other end of each edge of the item.\<close>

definition relatedRows :: "id \<Rightarrow> id \<Rightarrow> id \<Rightarrow> db \<Rightarrow> ItemDbRow list" where
  "relatedRows defId itemId sourceDatabaseId d =
     concat (map (\<lambda>e. filter (\<lambda>t. rit_database_id t = sourceDatabaseId \<and>
                 rit_id t = (if rir_item_a e = itemId then rir_item_b e else rir_item_a e) \<and>
                 rit_deleted_at t = None) (t_items d))
       (filter (\<lambda>e. rir_relation_definition_id e = defId \<and>
                    (rir_item_a e = itemId \<or> rir_item_b e = itemId)) (t_item_relations d)))"

definition recomputeRollupCell :: "pgTime \<Rightarrow> id \<Rightarrow> id \<Rightarrow> unit op" where
  "recomputeRollupCell ts propertyId itemId =
     bnd (getProperty propertyId) (\<lambda>found.
     case found of
       None \<Rightarrow> return ()
     | Some rollupProperty \<Rightarrow>
     bnd (lockItemById (pr_databaseId rollupProperty) itemId) (\<lambda>target.
     case target of
       None \<Rightarrow> return ()
     | Some locked \<Rightarrow>
     bnd (getRollupDependency propertyId) (\<lambda>dep.
     case dep of
       None \<Rightarrow> return ()
     | Some dependency \<Rightarrow>
     bnd (ofSum (parseRollupConfig (pr_config rollupProperty))) (\<lambda>config.
     bnd (query (relatedRows (rdp_relationDefinitionId dependency) itemId
                   (rdp_sourceDatabaseId dependency))) (\<lambda>rows.
     bnd (ofSum (aggregationSql ts (rc_aggregation config) (rc_targetPropertyKey config) rows)) (\<lambda>value.
     andThen (bnd (writeComputed (pr_databaseId rollupProperty) itemId (pr_key rollupProperty)
               (case value of
                  Some v \<Rightarrow> v
                | None \<Rightarrow> if rc_aggregation config = AggCount then JNum 0 else JNull)) (\<lambda>_. return ()))
       (runAfterCommit
          (InvItem (pr_databaseId rollupProperty) itemId OpUpdate (it_updatedAt locked) None))))))))"

definition handleRollupRecomputeTask ::
  "txenv \<Rightarrow> (InvalidationEvent \<Rightarrow> bool) \<Rightarrow> pgTime \<Rightarrow> id \<Rightarrow> id \<Rightarrow> world \<Rightarrow> (error + unit) \<times> world" where
  "handleRollupRecomputeTask env deliverable ts propertyId itemId w =
     withTransaction env deliverable (recomputeRollupCell ts propertyId itemId) w"

section \<open>The backfill walk\<close>

text \<open>
  \<open>backfillRollup\<close> runs outside a transaction: each page's \<open>SELECT\<close> and each enqueue is a
  statement of its own, here executed one after the other. \<open>fuel\<close> bounds the \<open>for (;;)\<close>.
\<close>

definition backfillPageSize :: nat where
  "backfillPageSize = 500"

definition afterCursor :: "string option \<Rightarrow> id \<Rightarrow> bool" where
  "afterCursor cursor i \<longleftrightarrow> (\<not> truthy cursor \<or> i > the cursor)"

definition backfillPage :: "id \<Rightarrow> string option \<Rightarrow> db \<Rightarrow> id list" where
  "backfillPage databaseId cursor d =
     take backfillPageSize (sort (map rit_id (filter (\<lambda>r. rit_database_id r = databaseId \<and>
       rit_deleted_at r = None \<and> afterCursor cursor (rit_id r)) (t_items d))))"

fun backfillLoop :: "nat \<Rightarrow> id \<Rightarrow> id \<Rightarrow> string option \<Rightarrow> unit op" where
  "backfillLoop 0 propertyId databaseId cursor = throw (PlainError ''out of fuel'')"
| "backfillLoop (Suc fuel) propertyId databaseId cursor =
     bnd (query (backfillPage databaseId cursor)) (\<lambda>rows.
     if rows = [] then return ()
     else andThen (forEach rows (enqueueRollupRecompute propertyId))
            (if length rows < backfillPageSize then return ()
             else backfillLoop fuel propertyId databaseId (Some (last rows))))"

definition backfillRollup :: "nat \<Rightarrow> id \<Rightarrow> unit op" where
  "backfillRollup fuel propertyId =
     bnd (getProperty propertyId) (\<lambda>found.
     case found of
       None \<Rightarrow> return ()
     | Some rollupProperty \<Rightarrow> backfillLoop fuel propertyId (pr_databaseId rollupProperty) None)"

definition handleRollupRecomputeFullTask :: "nat \<Rightarrow> id \<Rightarrow> unit op" where
  "handleRollupRecomputeFullTask fuel propertyId = backfillRollup fuel propertyId"

section \<open>The fan-out of an edge\<close>

definition rollupTarget :: "PropertyRow \<Rightarrow> id \<Rightarrow> id \<Rightarrow> RollupDependencyRow \<Rightarrow> (id \<times> id) list op" where
  "rollupTarget propertyA itemA itemB dependency =
     bnd (getProperty (rdp_rollupPropertyId dependency)) (\<lambda>found.
     case found of
       None \<Rightarrow> return []
     | Some rollupProperty \<Rightarrow>
         return [(rdp_rollupPropertyId dependency,
                  if pr_databaseId rollupProperty = pr_databaseId propertyA then itemA else itemB)])"

definition resolveRollupRecomputeTargets :: "id \<Rightarrow> id \<Rightarrow> id \<Rightarrow> (id \<times> id) list op" where
  "resolveRollupRecomputeTargets defId itemA itemB =
     bnd (findDependenciesByRelationDefinition defId) (\<lambda>dependencies.
     if dependencies = [] then return []
     else bnd (getRelationDefinition defId) (\<lambda>found.
       case found of
         None \<Rightarrow> return []
       | Some reldef \<Rightarrow>
           bnd (getProperty (rd_propertyIdA reldef)) (\<lambda>foundA.
           case foundA of
             None \<Rightarrow> return []
           | Some propertyA \<Rightarrow>
               bnd (mapC (rollupTarget propertyA itemA itemB) dependencies) (\<lambda>targets.
               return (concat targets)))))"

definition enqueueRollupRecomputeForEdge :: "id \<Rightarrow> id \<Rightarrow> id \<Rightarrow> unit op" where
  "enqueueRollupRecomputeForEdge defId itemA itemB =
     bnd (resolveRollupRecomputeTargets defId itemA itemB) (\<lambda>targets.
     forEach targets (\<lambda>(propertyId, itemId). enqueueRollupRecompute propertyId itemId))"

end
