(* ===== verification/Hooks.thy ===== *)
theory Hooks
  imports RollupRecompute
begin

text \<open>
  A relation edge's context and its guards (\<open>chokePoint/relationEdgeContext.ts\<close>) and the
  per-process registries of domain write hooks (\<open>chokePoint/hooks.ts\<close>).

  A hook is a function of another module; the registries are ordered sets of functions, here
  lists of a function with the name that identifies it, so that adding a function that is
  already there changes nothing. What the registered functions do is a parameter.
\<close>

section \<open>Relation edge context\<close>

record RelationEdgeContext =
  ec_reldef :: RelationDefinitionRow
  ec_property :: PropertyRow
  ec_targetDatabaseId :: id

text \<open>A \<open>SystemRelationWriteContext\<close> is the identity of the owning process.\<close>

type_synonym SystemRelationWriteContext = "string option"

definition assertRelationDatabasesNotArchived :: "RelationEdgeContext \<Rightarrow> unit op" where
  "assertRelationDatabasesNotArchived context =
     andThen (assertDatabaseNotArchived (pr_databaseId (ec_property context)))
       (assertDatabaseNotArchived (ec_targetDatabaseId context))"

definition loadRelationEdgeContext :: "id \<Rightarrow> RelationEdgeContext op" where
  "loadRelationEdgeContext propertyId =
     bnd (getProperty propertyId) (\<lambda>found.
     case found of
       None \<Rightarrow> throw (ValidationError (Some ''relationPropertyId''))
     | Some property \<Rightarrow>
         if pr_type property \<noteq> PtRelation
         then throw (ValidationError (Some ''relationPropertyId''))
         else (case (asStr (map_of (pr_config property) ''relationDefinitionId''),
                     asStr (map_of (pr_config property) ''targetDatabaseId'')) of
                 (Some defId, Some targetDatabaseId) \<Rightarrow>
                   bnd (getRelationDefinition defId) (\<lambda>foundDef.
                   case foundDef of
                     None \<Rightarrow> throw (ValidationError (Some ''relationPropertyId''))
                   | Some reldef \<Rightarrow>
                       if rd_propertyIdA reldef \<noteq> propertyId \<and> rd_propertyIdB reldef \<noteq> Some propertyId
                       then throw (ValidationError (Some ''relationPropertyId''))
                       else return \<lparr>ec_reldef = reldef, ec_property = property,
                                    ec_targetDatabaseId = targetDatabaseId\<rparr>)
               | _ \<Rightarrow> throw (ValidationError (Some ''relationPropertyId''))))"

text \<open>The pair \<open>(itemA, itemB)\<close>.\<close>

definition normalizeRelationSides :: "RelationDefinitionRow \<Rightarrow> id \<Rightarrow> id \<Rightarrow> id \<Rightarrow> id \<times> id" where
  "normalizeRelationSides reldef propertyId callerItemId targetItemId =
     (if rd_propertyIdA reldef = propertyId then (callerItemId, targetItemId)
      else (targetItemId, callerItemId))"

definition assertRelationPropertyWritable ::
  "PropertyRow \<Rightarrow> SystemRelationWriteContext \<Rightarrow> error + unit" where
  "assertRelationPropertyWritable property context =
     (if pr_owner property \<noteq> OwnerSystem then Inr ()
      else if context = None \<or> context \<noteq> pr_ownerProcess property
      then Inl (ForbiddenError ''owner_violation'' (Some ''relationPropertyId''))
      else Inr ())"

section \<open>Hook registries\<close>

record ItemCreateHookContext =
  ch_database :: DatabaseRow
  ch_item :: ItemRow
  ch_properties :: obj
  ch_humanWriterUserId :: "id option"

record ItemUpdateHookContext =
  uh_database :: DatabaseRow
  uh_item :: ItemRow
  uh_propertiesPatch :: obj
  uh_humanWriterUserId :: "id option"
  uh_skipMailDesiredStateRecording :: bool

record RelationEdgeWriteHookContext =
  eh_edgeContext :: RelationEdgeContext
  eh_callerItemId :: id
  eh_targetItemId :: id
  eh_metadata :: "obj option"

record hookRegistry =
  hr_itemCreate :: "(string \<times> (ItemCreateHookContext \<Rightarrow> unit op)) list"
  hr_itemUpdate :: "(string \<times> (ItemUpdateHookContext \<Rightarrow> unit op)) list"
  hr_relationEdgeWrite :: "(string \<times> (RelationEdgeWriteHookContext \<Rightarrow> unit op)) list"

definition noHooks :: hookRegistry where
  "noHooks = \<lparr>hr_itemCreate = [], hr_itemUpdate = [], hr_relationEdgeWrite = []\<rparr>"

definition setAdd :: "string \<Rightarrow> 'h \<Rightarrow> (string \<times> 'h) list \<Rightarrow> (string \<times> 'h) list" where
  "setAdd name hook hooks = (if name \<in> fst ` set hooks then hooks else hooks @ [(name, hook)])"

definition registerItemCreateHook ::
  "string \<Rightarrow> (ItemCreateHookContext \<Rightarrow> unit op) \<Rightarrow> hookRegistry \<Rightarrow> hookRegistry" where
  "registerItemCreateHook name hook reg =
     reg\<lparr>hr_itemCreate := setAdd name hook (hr_itemCreate reg)\<rparr>"

definition registerItemUpdateHook ::
  "string \<Rightarrow> (ItemUpdateHookContext \<Rightarrow> unit op) \<Rightarrow> hookRegistry \<Rightarrow> hookRegistry" where
  "registerItemUpdateHook name hook reg =
     reg\<lparr>hr_itemUpdate := setAdd name hook (hr_itemUpdate reg)\<rparr>"

definition registerRelationEdgeWriteHook ::
  "string \<Rightarrow> (RelationEdgeWriteHookContext \<Rightarrow> unit op) \<Rightarrow> hookRegistry \<Rightarrow> hookRegistry" where
  "registerRelationEdgeWriteHook name hook reg =
     reg\<lparr>hr_relationEdgeWrite := setAdd name hook (hr_relationEdgeWrite reg)\<rparr>"

definition runItemCreateHooks :: "hookRegistry \<Rightarrow> ItemCreateHookContext \<Rightarrow> unit op" where
  "runItemCreateHooks reg context = forEach (hr_itemCreate reg) (\<lambda>(name, hook). hook context)"

definition runItemUpdateHooks :: "hookRegistry \<Rightarrow> ItemUpdateHookContext \<Rightarrow> unit op" where
  "runItemUpdateHooks reg context = forEach (hr_itemUpdate reg) (\<lambda>(name, hook). hook context)"

definition runRelationEdgeWriteHooks :: "hookRegistry \<Rightarrow> RelationEdgeWriteHookContext \<Rightarrow> unit op" where
  "runRelationEdgeWriteHooks reg context =
     forEach (hr_relationEdgeWrite reg) (\<lambda>(name, hook). hook context)"

definition clearHooksForTests :: "string option \<Rightarrow> hookRegistry \<Rightarrow> error + hookRegistry" where
  "clearHooksForTests nodeEnv reg =
     (if nodeEnv \<noteq> Some ''test''
      then Inl (PlainError ''clearHooksForTests() must only be called in tests'')
      else Inr (reg\<lparr>hr_itemCreate := [], hr_itemUpdate := [], hr_relationEdgeWrite := []\<rparr>))"

lemma setAdd_registered: "name \<in> fst ` set hooks \<Longrightarrow> setAdd name hook hooks = hooks"
  by (simp add: setAdd_def)

lemma distinct_setAdd: "distinct (map fst hooks) \<Longrightarrow> distinct (map fst (setAdd name hook hooks))"
  by (auto simp: setAdd_def)

text \<open>What a registry's functions must keep, for the writes that run them to keep it.\<close>

definition hooksKeep :: "(client \<Rightarrow> bool) \<Rightarrow> hookRegistry \<Rightarrow> bool" where
  "hooksKeep I reg \<longleftrightarrow>
     (\<forall>h \<in> set (hr_itemCreate reg). \<forall>ctx. keeps I (snd h ctx)) \<and>
     (\<forall>h \<in> set (hr_itemUpdate reg). \<forall>ctx. keeps I (snd h ctx)) \<and>
     (\<forall>h \<in> set (hr_relationEdgeWrite reg). \<forall>ctx. keeps I (snd h ctx))"

lemma hooksKeep_noHooks [simp]: "hooksKeep I noHooks"
  by (simp add: hooksKeep_def noHooks_def)

lemma keeps_runHooks [keeps_intros]:
  assumes "hooksKeep I reg"
  shows "keeps I (runItemCreateHooks reg c)" "keeps I (runItemUpdateHooks reg u)"
    "keeps I (runRelationEdgeWriteHooks reg e)"
  using assms
  by (auto simp: hooksKeep_def runItemCreateHooks_def runItemUpdateHooks_def
      runRelationEdgeWriteHooks_def intro!: keeps_forEach)

end
