(* ===== verification/RelationOps.thy ===== *)
theory RelationOps
  imports Hooks
begin

text \<open>
  \<open>chokePoint/relationOps.ts\<close>: linking, re-linking and unlinking two items.
\<close>

record CreateRelationInput =
  cr_relationPropertyId :: id
  cr_callerItemId :: id
  cr_targetItemId :: id
  cr_metadata :: "obj option"

record UpdateRelationInput =
  urel_relationPropertyId :: id
  urel_callerItemId :: id
  urel_targetItemId :: id
  urel_metadata :: obj

record DeleteRelationInput =
  dr_relationPropertyId :: id
  dr_callerItemId :: id
  dr_targetItemId :: id

definition assertRelationEndpointValid :: "id \<Rightarrow> id \<Rightarrow> string \<Rightarrow> unit op" where
  "assertRelationEndpointValid databaseId itemId field =
     bnd (getItemById databaseId itemId) (\<lambda>found.
     case found of
       None \<Rightarrow> throw (ValidationError (Some field))
     | Some item \<Rightarrow>
         if it_deletedAt item \<noteq> None then throw (ValidationError (Some field)) else return ())"

definition assertRelationEndpointsValid :: "RelationEdgeContext \<Rightarrow> id \<Rightarrow> id \<Rightarrow> unit op" where
  "assertRelationEndpointsValid context callerItemId targetItemId =
     andThen (assertRelationEndpointValid (pr_databaseId (ec_property context)) callerItemId
                ''callerItemId'')
       (assertRelationEndpointValid (ec_targetDatabaseId context) targetItemId ''targetItemId'')"

definition loadCreatableRelationEdgeContext ::
  "CreateRelationInput \<Rightarrow> SystemRelationWriteContext \<Rightarrow> RelationEdgeContext op" where
  "loadCreatableRelationEdgeContext input context =
     bnd (loadRelationEdgeContext (cr_relationPropertyId input)) (\<lambda>edgeContext.
     andThen (assertRelationDatabasesNotArchived edgeContext)
     (andThen (ofSum (assertRelationPropertyWritable (ec_property edgeContext) context))
     (andThen (assertRelationEndpointsValid edgeContext (cr_callerItemId input) (cr_targetItemId input))
        (return edgeContext))))"

definition createHookContext :: "RelationEdgeContext \<Rightarrow> CreateRelationInput \<Rightarrow> RelationEdgeWriteHookContext" where
  "createHookContext edgeContext input =
     \<lparr>eh_edgeContext = edgeContext, eh_callerItemId = cr_callerItemId input,
      eh_targetItemId = cr_targetItemId input, eh_metadata = cr_metadata input\<rparr>"

definition assertRelationCreatableWithClient ::
  "hookRegistry \<Rightarrow> CreateRelationInput \<Rightarrow> SystemRelationWriteContext \<Rightarrow> unit op" where
  "assertRelationCreatableWithClient reg input context =
     bnd (loadCreatableRelationEdgeContext input context) (\<lambda>edgeContext.
     runRelationEdgeWriteHooks reg (createHookContext edgeContext input))"

text \<open>\<open>newId\<close> is the id Postgres generates for a new edge row.\<close>

definition createRelationWithClient ::
  "hookRegistry \<Rightarrow> id \<Rightarrow> CreateRelationInput \<Rightarrow> SystemRelationWriteContext \<Rightarrow> ItemRelationRow op" where
  "createRelationWithClient reg newId input context =
     bnd (loadCreatableRelationEdgeContext input context) (\<lambda>edgeContext.
     andThen (runRelationEdgeWriteHooks reg (createHookContext edgeContext input))
     (case normalizeRelationSides (ec_reldef edgeContext) (cr_relationPropertyId input)
             (cr_callerItemId input) (cr_targetItemId input) of (itemA, itemB) \<Rightarrow>
      bnd (createItemRelation newId (rd_id (ec_reldef edgeContext)) itemA itemB (cr_metadata input)) (\<lambda>edge.
      andThen (enqueueRollupRecomputeForEdge (rd_id (ec_reldef edgeContext)) itemA itemB)
        (return edge))))"

definition updateRelationWithClient ::
  "hookRegistry \<Rightarrow> UpdateRelationInput \<Rightarrow> SystemRelationWriteContext \<Rightarrow> ItemRelationRow op" where
  "updateRelationWithClient reg input context =
     bnd (loadRelationEdgeContext (urel_relationPropertyId input)) (\<lambda>edgeContext.
     andThen (assertRelationDatabasesNotArchived edgeContext)
     (andThen (ofSum (assertRelationPropertyWritable (ec_property edgeContext) context))
     (andThen (assertRelationEndpointsValid edgeContext (urel_callerItemId input) (urel_targetItemId input))
     (andThen (runRelationEdgeWriteHooks reg
                 \<lparr>eh_edgeContext = edgeContext, eh_callerItemId = urel_callerItemId input,
                  eh_targetItemId = urel_targetItemId input, eh_metadata = Some (urel_metadata input)\<rparr>)
     (case normalizeRelationSides (ec_reldef edgeContext) (urel_relationPropertyId input)
             (urel_callerItemId input) (urel_targetItemId input) of (itemA, itemB) \<Rightarrow>
      bnd (updateItemRelationMetadata (rd_id (ec_reldef edgeContext)) itemA itemB (urel_metadata input))
        (\<lambda>found.
      case found of
        None \<Rightarrow> throw NotFoundError
      | Some edge \<Rightarrow>
          andThen (enqueueRollupRecomputeForEdge (rd_id (ec_reldef edgeContext)) itemA itemB)
            (return edge)))))))"

definition deleteRelationWithClient ::
  "DeleteRelationInput \<Rightarrow> SystemRelationWriteContext \<Rightarrow> ItemRelationRow option op" where
  "deleteRelationWithClient input context =
     bnd (loadRelationEdgeContext (dr_relationPropertyId input)) (\<lambda>edgeContext.
     andThen (assertRelationDatabasesNotArchived edgeContext)
     (andThen (ofSum (assertRelationPropertyWritable (ec_property edgeContext) context))
     (case normalizeRelationSides (ec_reldef edgeContext) (dr_relationPropertyId input)
             (dr_callerItemId input) (dr_targetItemId input) of (itemA, itemB) \<Rightarrow>
      bnd (deleteItemRelation (rd_id (ec_reldef edgeContext)) itemA itemB) (\<lambda>edge.
      andThen (enqueueRollupRecomputeForEdge (rd_id (ec_reldef edgeContext)) itemA itemB)
        (return edge)))))"

section \<open>The public operations\<close>

text \<open>\<open>createRelationOps\<close>: each in a transaction of its own, with no system context.\<close>

definition createRelation ::
  "txenv \<Rightarrow> (InvalidationEvent \<Rightarrow> bool) \<Rightarrow> hookRegistry \<Rightarrow> id \<Rightarrow> CreateRelationInput \<Rightarrow> world \<Rightarrow>
     (error + ItemRelationRow) \<times> world" where
  "createRelation env deliverable reg newId input =
     withTransaction env deliverable (createRelationWithClient reg newId input None)"

definition updateRelation ::
  "txenv \<Rightarrow> (InvalidationEvent \<Rightarrow> bool) \<Rightarrow> hookRegistry \<Rightarrow> UpdateRelationInput \<Rightarrow> world \<Rightarrow>
     (error + ItemRelationRow) \<times> world" where
  "updateRelation env deliverable reg input =
     withTransaction env deliverable (updateRelationWithClient reg input None)"

definition deleteRelation ::
  "txenv \<Rightarrow> (InvalidationEvent \<Rightarrow> bool) \<Rightarrow> DeleteRelationInput \<Rightarrow> world \<Rightarrow>
     (error + ItemRelationRow option) \<times> world" where
  "deleteRelation env deliverable input =
     withTransaction env deliverable (deleteRelationWithClient input None)"

end
