(* ===== verification/ItemWrites.thy ===== *)
theory ItemWrites
  imports RelationOps
begin

text \<open>
  \<open>chokePoint/itemWrites.ts\<close> and \<open>tasks/deriveTaskTime.ts\<close>: creating and updating items.

  \<open>writeEnv\<close> is what the process supplies: the hook registries, Luxon, the wall clock
  (\<open>Date.now()\<close>, read at most once by an operation) and the queue affinity of its actions.
\<close>

record writeEnv =
  we_hooks :: hookRegistry
  we_luxon :: luxon
  we_clock :: int

definition exampleWriteEnv :: writeEnv where
  "exampleWriteEnv = \<lparr>we_hooks = noHooks, we_luxon = utcCalendar, we_clock = 5\<rparr>"

section \<open>The derived time of a task\<close>

definition padStart2 :: "string \<Rightarrow> string" where
  "padStart2 s = replicate (2 - length s) (CHR ''0'') @ s"

definition shortDigits :: "string \<Rightarrow> bool" where
  "shortDigits s \<longleftrightarrow> 1 \<le> length s \<and> length s \<le> 2 \<and> list_all isDigit s"

definition formatTaskTime :: "string \<Rightarrow> string" where
  "formatTaskTime value =
     (let h = takeWhile isDigit value in
      case dropWhile isDigit value of
        [] \<Rightarrow> value
      | c # m \<Rightarrow>
          if c = CHR '':'' \<and> shortDigits h \<and> shortDigits m
          then padStart2 h @ '':'' @ padStart2 m else value)"

text \<open>The separator is an en dash, in UTF-8.\<close>

definition enDash :: string where
  "enDash = [CHR 0xE2, CHR 0x80, CHR 0x93]"

definition deriveTaskTime :: "string option \<Rightarrow> string option \<Rightarrow> string option" where
  "deriveTaskTime timeFrom timeTo =
     (case (timeFrom, timeTo) of
        (Some f, Some t) \<Rightarrow> Some (formatTaskTime f @ enDash @ formatTaskTime t)
      | (Some f, None) \<Rightarrow> Some (formatTaskTime f)
      | (None, Some t) \<Rightarrow> Some (formatTaskTime t)
      | (None, None) \<Rightarrow> None)"

definition strOrNull :: "string option \<Rightarrow> json" where
  "strOrNull v = (case v of None \<Rightarrow> JNull | Some s \<Rightarrow> JStr s)"

definition backfillTaskTimeProperties :: "obj \<Rightarrow> obj" where
  "backfillTaskTimeProperties properties =
     (let time = strOrNull (deriveTaskTime (asStr (map_of properties ''timeFrom''))
                                           (asStr (map_of properties ''timeTo'')));
          current = (case map_of properties ''time'' of None \<Rightarrow> JNull | Some v \<Rightarrow> v)
      in if current = time then properties else setProp ''time'' time properties)"

section \<open>Writability\<close>

record WriteOptions =
  wo_allowedSystemKeys :: "string list option"
  wo_systemOwnerProcess :: "string option"
  wo_queueAffinity :: "ActionQueueAffinity option"
  wo_actingUserId :: "id option"
  wo_humanWriterUserId :: "id option"
  wo_skipMailDesiredStateRecording :: bool

definition noOptions :: WriteOptions where
  "noOptions = \<lparr>wo_allowedSystemKeys = None, wo_systemOwnerProcess = None, wo_queueAffinity = None,
     wo_actingUserId = None, wo_humanWriterUserId = None, wo_skipMailDesiredStateRecording = False\<rparr>"

definition assertKeyWritable :: "PropertyRow list \<Rightarrow> WriteOptions \<Rightarrow> string \<Rightarrow> error + unit" where
  "assertKeyWritable properties options key =
     (case map_of (rev (map (\<lambda>p. (pr_key p, p)) properties)) key of
        None \<Rightarrow> Inl (ValidationError (Some key))
      | Some property \<Rightarrow>
          if pr_type property = PtRollup then Inl (ForbiddenError ''computed_readonly'' (Some key))
          else if pr_type property = PtRelation then Inl (ValidationError (Some key))
          else if pr_owner property = OwnerSystem then
            (if (case wo_allowedSystemKeys options of None \<Rightarrow> True | Some ks \<Rightarrow> key \<notin> set ks)
             then Inl (forbidden (Some key))
             else if truthy (wo_systemOwnerProcess options) \<and>
                     pr_ownerProcess property \<noteq> wo_systemOwnerProcess options
             then Inl (ForbiddenError ''owner_violation'' (Some key))
             else Inr ())
          else Inr ())"

definition assertWritableProperties :: "PropertyRow list \<Rightarrow> string list \<Rightarrow> WriteOptions \<Rightarrow> error + unit" where
  "assertWritableProperties properties patchKeys options =
     firstError (assertKeyWritable properties options) patchKeys"

definition assertDatabaseWritableForCreate :: "id \<Rightarrow> string option \<Rightarrow> ItemRow option op" where
  "assertDatabaseWritableForCreate databaseId idempotencyKey =
     bnd (getDatabase databaseId) (\<lambda>found.
     case found of
       None \<Rightarrow> throw NotFoundError
     | Some database \<Rightarrow>
         if db_archivedAt database = None then return None
         else bnd (if truthy idempotencyKey
                   then findIdempotentReplay databaseId (the idempotencyKey) True
                   else return None) (\<lambda>replay.
              case replay of
                Some item \<Rightarrow> return (Some item)
              | None \<Rightarrow> throw (ForbiddenError ''database_archived'' (Some ''databaseId''))))"

section \<open>Creating an item\<close>

definition TASKS_MODULE_ID :: string where
  "TASKS_MODULE_ID = ''tasks''"

record CreateItemInput =
  ci_databaseId :: id
  ci_properties :: "obj option"
  ci_idempotencyKey :: "string option"

text \<open>
  The callback that fills in defaults: the accumulator is the properties so far and
  \<open>today\<close>, computed once.
\<close>

definition applyDefault ::
  "writeEnv \<Rightarrow> obj \<Rightarrow> PropertyRow \<Rightarrow> obj \<times> string option \<Rightarrow> (obj \<times> string option) op" where
  "applyDefault we inputProperties property acc =
     (case acc of (itemProperties, today) \<Rightarrow>
      case map_of (pr_config property) ''default'' of
        None \<Rightarrow> return acc
      | Some value \<Rightarrow>
          if hasOwn inputProperties (pr_key property) then return acc
          else if pr_type property = PtDate \<and> value = JStr ''today'' then
            bnd (case today of
                   Some t \<Rightarrow> return t
                 | None \<Rightarrow>
                     bnd getSystemTimezone (\<lambda>timezone.
                     andThen (ofSum (assertValidTimezone (we_luxon we) timezone))
                       (return (lx_isoDate (we_luxon we) timezone (we_clock we))))) (\<lambda>t.
            return (setProp (pr_key property) (JStr t) itemProperties, Some t))
          else return (setProp (pr_key property) value itemProperties, today))"

definition resolveCreateProperties :: "writeEnv \<Rightarrow> PropertyRow list \<Rightarrow> obj \<Rightarrow> obj \<Rightarrow> obj op" where
  "resolveCreateProperties we properties inputProperties itemProperties =
     bnd (foldC (applyDefault we inputProperties) properties (itemProperties, None)) (\<lambda>acc.
     return (fst acc))"

definition createProperties :: "DatabaseRow \<Rightarrow> obj \<Rightarrow> obj" where
  "createProperties database inputProperties =
     (if db_ownerModuleId database = Some TASKS_MODULE_ID
      then setProp ''time'' (strOrNull (deriveTaskTime (asStr (map_of inputProperties ''timeFrom''))
                                                      (asStr (map_of inputProperties ''timeTo''))))
             inputProperties
      else inputProperties)"

text \<open>
  \<open>createItemWithClient\<close>. After a real insert the hooks see the properties that were
  inserted, which the row read back carries.
\<close>

definition createItemWithClient ::
  "writeEnv \<Rightarrow> id \<Rightarrow> CreateItemInput \<Rightarrow> WriteOptions \<Rightarrow> ItemRow op" where
  "createItemWithClient we generatedId input options =
     bnd (assertDatabaseWritableForCreate (ci_databaseId input) (ci_idempotencyKey input)) (\<lambda>replay.
     case replay of
       Some item \<Rightarrow> return item
     | None \<Rightarrow>
     (let inputProperties = (case ci_properties input of None \<Rightarrow> [] | Some p \<Rightarrow> p) in
     bnd (listPropertiesByDatabase (ci_databaseId input)) (\<lambda>properties.
     andThen (ofSum (assertWritableProperties properties (keysOf inputProperties) options))
     (bnd (getDatabase (ci_databaseId input)) (\<lambda>found.
      case found of
        None \<Rightarrow> throw NotFoundError
      | Some database \<Rightarrow>
      (let itemProperties = createProperties database inputProperties in
      bnd (insertItemWithReplay generatedId
             \<lparr>ii_databaseId = ci_databaseId input, ii_properties = itemProperties,
              ii_idempotencyKey = ci_idempotencyKey input\<rparr>
             (Some (resolveCreateProperties we properties inputProperties itemProperties))) (\<lambda>result.
      let item = ins_item result in
      if \<not> ins_created result then return item
      else
        andThen (runItemCreateHooks (we_hooks we)
                   \<lparr>ch_database = database, ch_item = item, ch_properties = it_properties item,
                    ch_humanWriterUserId = wo_humanWriterUserId options\<rparr>)
       (andThen (triggerOnItemEventHeartbeats (ci_databaseId input) OpCreate (it_id item)
                   (wo_queueAffinity options))
       (andThen (runAfterCommit (InvItem (it_databaseId item) (it_id item) OpCreate
                   (it_updatedAt item) (wo_actingUserId options)))
          (return item))))))))))"

definition writeComputedAndAnnounce :: "id \<Rightarrow> id \<Rightarrow> string \<Rightarrow> json \<Rightarrow> unit op" where
  "writeComputedAndAnnounce databaseId itemId key value =
     bnd (writeComputed databaseId itemId key value) (\<lambda>updatedAt.
     runAfterCommit (InvItem databaseId itemId OpUpdate updatedAt None))"

section \<open>Updating an item\<close>

text \<open>The patch with the derived \<open>time\<close> of a task whose times it changes.\<close>

definition updatePatch :: "DatabaseRow \<Rightarrow> UpdateItemInput \<Rightarrow> obj op" where
  "updatePatch database input =
     (let patch = ui_propertiesPatch input in
      if db_ownerModuleId database = Some TASKS_MODULE_ID \<and>
         (hasOwn patch ''timeFrom'' \<or> hasOwn patch ''timeTo'') then
        bnd (lockItemById (ui_databaseId input) (ui_itemId input)) (\<lambda>found.
        case found of
          None \<Rightarrow> throw NotFoundError
        | Some current \<Rightarrow>
            if it_deletedAt current \<noteq> None then throw NotFoundError
            else (let effective = (\<lambda>key. if hasOwn patch key then map_of patch key
                                        else map_of (it_properties current) key) in
                  return (setProp ''time'' (strOrNull (deriveTaskTime
                    (asStr (effective ''timeFrom'')) (asStr (effective ''timeTo'')))) patch)))
      else return patch)"

definition enqueueDependentRollups :: "id \<Rightarrow> id \<Rightarrow> string \<Rightarrow> unit op" where
  "enqueueDependentRollups databaseId itemId key =
     bnd (findDependenciesBySource databaseId key) (\<lambda>dependencies.
     forEach dependencies (\<lambda>dependency.
       bnd (listRelationsForItem (rdp_relationDefinitionId dependency) itemId) (\<lambda>edges.
       forEach edges (\<lambda>edge.
         bnd (ofSum (otherSide edge itemId)) (\<lambda>other.
         enqueueRollupRecompute (rdp_rollupPropertyId dependency) other)))))"

definition settingsItemIdOrNull :: "id option op" where
  "settingsItemIdOrNull =
     catchC (bnd getSystemSettingsItemId (\<lambda>i. return (Some i)))
       (\<lambda>err. if err = NotFoundError then return None else throw err)"

text \<open>
  The timezone step: the module rule kinds are the default argument of
  \<open>recomputeAllForTimezoneChange\<close>, an empty map.
\<close>

definition applyTimezoneChange :: "writeEnv \<Rightarrow> id \<Rightarrow> obj \<Rightarrow> unit op" where
  "applyTimezoneChange we itemId patch =
     bnd settingsItemIdOrNull (\<lambda>settingsItemId.
     case (if settingsItemId = Some itemId then asStr (map_of patch ''timezone'') else None) of
       None \<Rightarrow> return ()
     | Some timezone \<Rightarrow>
         andThen (ofSum (assertValidTimezone (we_luxon we) timezone))
           (recomputeAllForTimezoneChange (we_luxon we) (we_clock we) timezone []))"

definition updateItemWithClient ::
  "writeEnv \<Rightarrow> UpdateItemInput \<Rightarrow> WriteOptions \<Rightarrow> UpdateItemResult op" where
  "updateItemWithClient we input options =
     (let patchKeys = keysOf (ui_propertiesPatch input) in
      andThen (assertDatabaseNotArchived (ui_databaseId input))
     (bnd (listPropertiesByDatabase (ui_databaseId input)) (\<lambda>properties.
      andThen (ofSum (assertWritableProperties properties patchKeys options))
     (bnd (getDatabase (ui_databaseId input)) (\<lambda>found.
      case found of
        None \<Rightarrow> throw NotFoundError
      | Some database \<Rightarrow>
      bnd (updatePatch database input) (\<lambda>propertiesPatch.
      bnd (updateItemProperties (input\<lparr>ui_propertiesPatch := propertiesPatch\<rparr>)) (\<lambda>updated.
      let item = ur_item updated in
      andThen (runItemUpdateHooks (we_hooks we)
                 \<lparr>uh_database = database, uh_item = item, uh_propertiesPatch = propertiesPatch,
                  uh_humanWriterUserId = wo_humanWriterUserId options,
                  uh_skipMailDesiredStateRecording = wo_skipMailDesiredStateRecording options\<rparr>)
     (andThen (triggerOnItemEventHeartbeats (ui_databaseId input) OpUpdate (it_id item)
                 (wo_queueAffinity options))
     (andThen (forEach patchKeys (enqueueDependentRollups (ui_databaseId input) (it_id item)))
     (andThen (applyTimezoneChange we (it_id item) (ui_propertiesPatch input))
     (andThen (runAfterCommit (InvItem (it_databaseId item) (it_id item) OpUpdate
                 (it_updatedAt item) (wo_actingUserId options)))
       (return \<lparr>ur_item = item,
                ur_previous = map (\<lambda>key. (key, case map_of (ur_previous updated) key of
                    None \<Rightarrow> JNull | Some v \<Rightarrow> v)) patchKeys\<rparr>))))))))))))"

definition convergeObservedEmailFlagsWithClient ::
  "writeEnv \<Rightarrow> id \<Rightarrow> id \<Rightarrow> (string \<times> bool) list \<Rightarrow> ItemRow op" where
  "convergeObservedEmailFlagsWithClient we databaseId itemId flags =
     bnd (updateItemWithClient we
            \<lparr>ui_databaseId = databaseId, ui_itemId = itemId,
             ui_propertiesPatch = map (\<lambda>(k, b). (k, JBool b)) flags, ui_ifVersion = None\<rparr>
            (noOptions\<lparr>wo_skipMailDesiredStateRecording := True\<rparr>)) (\<lambda>r.
     return (ur_item r))"

definition lockItemForObservedMailFlags :: "id \<Rightarrow> id \<Rightarrow> ItemRow option op" where
  "lockItemForObservedMailFlags databaseId itemId = lockItemById databaseId itemId"

section \<open>The public operations\<close>

definition createItem ::
  "txenv \<Rightarrow> (InvalidationEvent \<Rightarrow> bool) \<Rightarrow> writeEnv \<Rightarrow> ActionQueueAffinity \<Rightarrow> id \<Rightarrow> CreateItemInput \<Rightarrow>
     id option \<Rightarrow> id option \<Rightarrow> world \<Rightarrow> (error + ItemRow) \<times> world" where
  "createItem env deliverable we affinity generatedId input actingUserId humanWriterUserId =
     withTransaction env deliverable (createItemWithClient we generatedId input
       (noOptions\<lparr>wo_queueAffinity := Some affinity, wo_actingUserId := actingUserId,
                  wo_humanWriterUserId := humanWriterUserId\<rparr>))"

definition updateItem ::
  "txenv \<Rightarrow> (InvalidationEvent \<Rightarrow> bool) \<Rightarrow> writeEnv \<Rightarrow> ActionQueueAffinity \<Rightarrow> UpdateItemInput \<Rightarrow>
     id option \<Rightarrow> id option \<Rightarrow> world \<Rightarrow> (error + UpdateItemResult) \<times> world" where
  "updateItem env deliverable we affinity input actingUserId humanWriterUserId =
     withTransaction env deliverable (updateItemWithClient we input
       (noOptions\<lparr>wo_queueAffinity := Some affinity, wo_actingUserId := actingUserId,
                  wo_humanWriterUserId := humanWriterUserId\<rparr>))"

end
