(* ===== verification/ItemTrash.thy ===== *)
theory ItemTrash
  imports ItemWrites
begin

text \<open>
  \<open>chokePoint/itemTrash.ts\<close>: soft delete and restore of an item with its subtree of inline
  databases, and the permanent purge of an expired subtree; the sweep over all expired trash
  (\<open>trash/purgeExpiredTrash.ts\<close>); the deletes in the stores of an item's dependents.
\<close>

section \<open>The subtree walk\<close>

text \<open>
  \<open>collectItemSubtree\<close>. Every statement of the walk is a read of the same transaction's
  tables \<open>d\<close>: \<open>listDatabasesByParentItem\<close> and \<open>getAllItemsInDatabase\<close>. The visited set
  is a list in insertion order.
\<close>

definition childDatabaseIds :: "db \<Rightarrow> id \<Rightarrow> id list" where
  "childDatabaseIds d parentItemId =
     map rdb_id (filter (\<lambda>r. rdb_parent_item_id r = Some parentItemId) (t_databases d))"

definition databaseRows :: "db \<Rightarrow> id \<Rightarrow> ItemRow list" where
  "databaseRows d databaseId = map mapItemRow (filter (\<lambda>r. rit_database_id r = databaseId) (t_items d))"

fun walkDatabases ::
  "db \<Rightarrow> (ItemRow \<Rightarrow> bool) \<Rightarrow> id list \<Rightarrow> id list \<times> ItemRow list \<Rightarrow> id list \<times> ItemRow list" where
  "walkDatabases d incl [] acc = acc"
| "walkDatabases d incl (databaseId # ids) (visited, rows) =
     (if databaseId \<in> set visited then walkDatabases d incl ids (visited, rows)
      else walkDatabases d incl ids
             (visited @ [databaseId], rows @ filter incl (databaseRows d databaseId)))"

fun walkFrontier ::
  "db \<Rightarrow> (ItemRow \<Rightarrow> bool) \<Rightarrow> id list \<Rightarrow> id list \<times> ItemRow list \<Rightarrow> id list \<times> ItemRow list" where
  "walkFrontier d incl [] acc = acc"
| "walkFrontier d incl (parentItemId # frontier) acc =
     walkFrontier d incl frontier (walkDatabases d incl (childDatabaseIds d parentItemId) acc)"

text \<open>A level that visits no new database finds no row, so the next frontier is empty.\<close>

definition unvisited :: "db \<Rightarrow> id list \<Rightarrow> nat" where
  "unvisited d visited = card (set (map rdb_id (t_databases d)) - set visited)"

lemma walkDatabases_progress:
  assumes "walkDatabases d incl ids (visited, rows) = (visited', rows')"
    and "set ids \<subseteq> set (map rdb_id (t_databases d))"
  shows "set visited \<subseteq> set visited' \<and> (set visited' \<subseteq> set visited \<longrightarrow> rows' = rows) \<and>
         set visited' \<subseteq> set visited \<union> set (map rdb_id (t_databases d))"
  using assms
proof (induction ids arbitrary: visited rows)
  case (Cons i ids)
  have ids: "set ids \<subseteq> set (map rdb_id (t_databases d))" "i \<in> set (map rdb_id (t_databases d))"
    using Cons.prems(2) by auto
  show ?case
  proof (cases "i \<in> set visited")
    case True
    with Cons.prems(1) have "walkDatabases d incl ids (visited, rows) = (visited', rows')" by simp
    from Cons.IH [OF this ids(1)] show ?thesis .
  next
    case False
    with Cons.prems(1) have "walkDatabases d incl ids
        (visited @ [i], rows @ filter incl (databaseRows d i)) = (visited', rows')" by simp
    from Cons.IH [OF this ids(1)] ids(2) False show ?thesis
      by (simp only: set_append list.set) blast
  qed
qed simp

lemma childDatabaseIds_subset: "set (childDatabaseIds d p) \<subseteq> set (map rdb_id (t_databases d))"
  by (auto simp: childDatabaseIds_def)

lemma walkFrontier_progress:
  assumes "walkFrontier d incl frontier (visited, rows) = (visited', rows')"
  shows "set visited \<subseteq> set visited' \<and> (set visited' \<subseteq> set visited \<longrightarrow> rows' = rows) \<and>
         set visited' \<subseteq> set visited \<union> set (map rdb_id (t_databases d))"
  using assms
proof (induction frontier arbitrary: visited rows)
  case (Cons p frontier)
  obtain v r where step: "walkDatabases d incl (childDatabaseIds d p) (visited, rows) = (v, r)"
    by fastforce
  with Cons.prems have "walkFrontier d incl frontier (v, r) = (visited', rows')" by simp
  from Cons.IH [OF this] walkDatabases_progress [OF step childDatabaseIds_subset]
  show ?case by blast
qed simp

lemma unvisited_decreases:
  assumes "set visited \<subset> set visited'"
    and "set visited' \<subseteq> set visited \<union> set (map rdb_id (t_databases d))"
  shows "unvisited d visited' < unvisited d visited"
  unfolding unvisited_def using assms by (intro psubset_card_mono) auto

function walkLevels ::
  "db \<Rightarrow> (ItemRow \<Rightarrow> bool) \<Rightarrow> id list \<Rightarrow> id list \<Rightarrow> ItemRow list \<Rightarrow> ItemRow list" where
  "walkLevels d incl frontier visited subtree =
     (if frontier = [] then subtree
      else case walkFrontier d incl frontier (visited, []) of (visited', found) \<Rightarrow>
             walkLevels d incl (map it_id found) visited' (subtree @ found))"
  by pat_completeness auto

termination
proof (relation "measure (\<lambda>(d, incl, frontier, visited, subtree).
    2 * unvisited d visited + (if frontier = [] then 0 else 1))", goal_cases)
  case (2 d incl frontier visited subtree visited' found)
  then have step: "walkFrontier d incl frontier (visited, []) = (visited', found)" by simp
  note progress = walkFrontier_progress [OF step]
  show ?case
  proof (cases "set visited' \<subseteq> set visited")
    case True
    with progress have "set visited' = set visited" "found = []" by auto
    with 2(1) show ?thesis by (simp add: unvisited_def)
  next
    case False
    with progress have "set visited \<subset> set visited'" by blast
    with progress unvisited_decreases have "unvisited d visited' < unvisited d visited" by metis
    with 2(1) show ?thesis by simp
  qed
qed simp

declare walkLevels.simps [simp del]

definition collectItemSubtree :: "ItemRow \<Rightarrow> (ItemRow \<Rightarrow> bool) option \<Rightarrow> ItemRow list op" where
  "collectItemSubtree rootRow incl =
     query (\<lambda>d. walkLevels d (case incl of None \<Rightarrow> (\<lambda>_. True) | Some p \<Rightarrow> p) [it_id rootRow] [] [rootRow])"

section \<open>Soft delete\<close>

record DeleteOptions =
  do_queueAffinity :: ActionQueueAffinity
  do_actingUserId :: "id option"

definition enqueueRollupsOfItem :: "id \<Rightarrow> unit op" where
  "enqueueRollupsOfItem itemId =
     bnd (listAllRelationsForItem itemId) (\<lambda>edges.
     forEach edges (\<lambda>edge.
       enqueueRollupRecomputeForEdge (ir_relationDefinitionId edge) (ir_itemA edge) (ir_itemB edge)))"

definition deleteSubtreeRow :: "id \<Rightarrow> DeleteOptions \<Rightarrow> ItemRow \<Rightarrow> ItemRow option \<Rightarrow> ItemRow option op" where
  "deleteSubtreeRow itemId options row rootResult =
     bnd (softDeleteItem (it_databaseId row) (it_id row)) (\<lambda>deleted.
     case deleted of
       None \<Rightarrow> return rootResult
     | Some item \<Rightarrow>
         andThen (triggerOnItemEventHeartbeats (it_databaseId row) OpDelete (it_id row)
                    (Some (do_queueAffinity options)))
        (andThen (enqueueRollupsOfItem (it_id row))
        (andThen (runAfterCommit (InvItem (it_databaseId item) (it_id item) OpDelete
                    (it_updatedAt item) (do_actingUserId options)))
           (return (if it_id row = itemId then Some item else rootResult)))))"

definition itemDeleteWithClient :: "id \<Rightarrow> id \<Rightarrow> DeleteOptions \<Rightarrow> ItemRow option op" where
  "itemDeleteWithClient databaseId itemId options =
     andThen (assertDatabaseNotArchived databaseId)
    (bnd (lockItemById databaseId itemId) (\<lambda>found.
     case found of
       None \<Rightarrow> return None
     | Some before \<Rightarrow>
         if map_of (it_properties before) ''systemActive'' = Some (JBool True)
         then throw (forbidden (Some ''systemActive''))
         else if it_deletedAt before \<noteq> None then return (Some before)
         else bnd (collectItemSubtree before None) (\<lambda>subtree.
              andThen (forEach subtree (\<lambda>row. assertDatabaseNotArchived (it_databaseId row)))
                (foldC (deleteSubtreeRow itemId options) subtree None))))"

section \<open>Restore\<close>

definition restoreSubtreeRow ::
  "id \<Rightarrow> int option \<Rightarrow> id option \<Rightarrow> ItemRow \<Rightarrow> ItemRow option \<Rightarrow> ItemRow option op" where
  "restoreSubtreeRow itemId cascadeEpoch actingUserId row rootResult =
     (if it_deletedAt row \<noteq> cascadeEpoch then return rootResult
      else bnd (restoreItem (it_databaseId row) (it_id row)) (\<lambda>restored.
        case restored of
          None \<Rightarrow> return rootResult
        | Some item \<Rightarrow>
            andThen (enqueueRollupsOfItem (it_id row))
           (andThen (runAfterCommit (InvItem (it_databaseId item) (it_id item) OpUpdate
                       (it_updatedAt item) actingUserId))
              (return (if it_id row = itemId then Some item else rootResult)))))"

definition restoreItemWithClient :: "id \<Rightarrow> id \<Rightarrow> id option \<Rightarrow> ItemRow option op" where
  "restoreItemWithClient databaseId itemId actingUserId =
     andThen (assertDatabaseNotArchived databaseId)
    (bnd (lockItemById databaseId itemId) (\<lambda>found.
     case found of
       None \<Rightarrow> return None
     | Some before \<Rightarrow>
         if it_deletedAt before = None then return (Some before)
         else bnd (collectItemSubtree before None) (\<lambda>subtree.
              andThen (forEach subtree (\<lambda>row. assertDatabaseNotArchived (it_databaseId row)))
                (foldC (restoreSubtreeRow itemId (it_deletedAt before) actingUserId) subtree None))))"

section \<open>An item's dependents\<close>

text \<open>
  \<open>blobs.id\<close> and \<open>mail_attachments.blob_id\<close> are \<open>uuid\<close> columns, compared without regard
  to the letters' case and kept here in lower case; \<open>properties @> ...\<close> compares text.
\<close>

definition lowerHexDigit :: "char \<Rightarrow> char" where
  "lowerHexDigit c = (case map_of (zip ''ABCDEF'' ''abcdef'') c of None \<Rightarrow> c | Some l \<Rightarrow> l)"

definition uuidValue :: "string \<Rightarrow> id" where
  "uuidValue s = map lowerHexDigit s"

definition deleteDocByItemId :: "id \<Rightarrow> unit op" where
  "deleteDocByItemId itemId =
     statement (\<lambda>d. d\<lparr>t_docs := filter (\<lambda>r. snd r \<noteq> itemId) (t_docs d)\<rparr>)"

definition deleteTaskRecurrence :: "id \<Rightarrow> unit op" where
  "deleteTaskRecurrence itemId =
     statement (\<lambda>d. d\<lparr>t_task_recurrence := filter (\<lambda>i. i \<noteq> itemId) (t_task_recurrence d)\<rparr>)"

definition deleteItemAutomation :: "id \<Rightarrow> unit op" where
  "deleteItemAutomation itemId =
     statement (\<lambda>d. d\<lparr>t_item_automation := filter (\<lambda>i. i \<noteq> itemId) (t_item_automation d)\<rparr>)"

definition blobReferenced :: "id list \<Rightarrow> string \<Rightarrow> db \<Rightarrow> bool" where
  "blobReferenced visible blobId d \<longleftrightarrow>
     (\<exists>r \<in> set (t_databases d). rdb_id r \<notin> set visible) \<or>
     (\<exists>r \<in> set (t_items d). rit_database_id r \<in> set visible \<and> fileBlobIdIs blobId (rit_properties r)) \<or>
     uuidValue blobId \<in> set (t_mail_attachments d)"

definition deleteBlobIfUnreferenced :: "string \<Rightarrow> string option op" where
  "deleteBlobIfUnreferenced blobId =
     bnd visibleDatabaseIds (\<lambda>visible.
     bnd (query (\<lambda>d. if blobReferenced visible blobId d then []
                     else filter (\<lambda>b. fst b = uuidValue blobId) (t_blobs d))) (\<lambda>rows.
     andThen (statement (\<lambda>d. d\<lparr>t_blobs := filter (\<lambda>b. b \<notin> set rows) (t_blobs d)\<rparr>))
       (return (firstRow snd rows))))"

definition fileBlobId :: "ItemRow \<Rightarrow> string option" where
  "fileBlobId row =
     (case map_of (it_properties row) ''file'' of
        Some (JObj file) \<Rightarrow>
          (case asStr (map_of file ''blobId'') of
             Some blobId \<Rightarrow> if isUuid blobId then Some blobId else None
           | None \<Rightarrow> None)
      | _ \<Rightarrow> None)"

definition deleteItemDependents :: "ItemRow \<Rightarrow> string option op" where
  "deleteItemDependents row =
     andThen (statement (\<lambda>d. d\<lparr>t_item_relations :=
                filter (\<lambda>e. rir_item_a e \<noteq> it_id row \<and> rir_item_b e \<noteq> it_id row) (t_item_relations d)\<rparr>))
    (andThen (statement (\<lambda>d. d\<lparr>t_view_items := filter (\<lambda>v. rvi_item_id v \<noteq> it_id row) (t_view_items d)\<rparr>))
    (andThen (statement (\<lambda>d. d\<lparr>t_idempotency_keys :=
                filter (\<lambda>k. \<not> (ik_item_id k = it_id row \<and> ik_database_id k = it_databaseId row))
                  (t_idempotency_keys d)\<rparr>))
    (andThen (deleteDocByItemId (it_id row))
    (andThen (deleteTaskRecurrence (it_id row))
    (andThen (deleteItemAutomation (it_id row))
    (andThen (statement (\<lambda>d. d\<lparr>t_item_search_index :=
                filter (\<lambda>s. fst s \<noteq> it_id row) (t_item_search_index d)\<rparr>))
       (case fileBlobId row of
          None \<Rightarrow> return None
        | Some blobId \<Rightarrow> deleteBlobIfUnreferenced blobId)))))))"

section \<open>The permanent purge\<close>

record purgeResult =
  pu_purgedItemIds :: "id list"
  pu_blobStorageKeys :: "string list"

definition expired :: "int \<Rightarrow> ItemRow \<Rightarrow> bool" where
  "expired cutoff row \<longleftrightarrow> (case it_deletedAt row of None \<Rightarrow> False | Some deleted \<Rightarrow> deleted < cutoff)"

definition purgeRow :: "ItemRow \<Rightarrow> purgeResult \<Rightarrow> purgeResult op" where
  "purgeRow row acc =
     bnd (hardDeleteItem (it_databaseId row) (it_id row)) (\<lambda>removed.
     if \<not> removed then return acc
     else bnd (deleteItemDependents row) (\<lambda>blobStorageKey.
          return \<lparr>pu_purgedItemIds = pu_purgedItemIds acc @ [it_id row],
                  pu_blobStorageKeys = pu_blobStorageKeys acc @
                    (case blobStorageKey of None \<Rightarrow> [] | Some k \<Rightarrow> [k])\<rparr>))"

definition databaseEmpty :: "id \<Rightarrow> bool op" where
  "databaseEmpty databaseId =
     query (\<lambda>d. \<not> (\<exists>r \<in> set (t_items d). rit_database_id r = databaseId))"

definition dropIfEmpty :: "id \<Rightarrow> id \<Rightarrow> unit op" where
  "dropIfEmpty rootDatabaseId databaseId =
     (if databaseId = rootDatabaseId then return ()
      else bnd (databaseEmpty databaseId) (\<lambda>isEmpty.
           whenC isEmpty (dropDatabaseWithPartition databaseId)))"

definition ownedDatabaseIds :: "id list \<Rightarrow> id list op" where
  "ownedDatabaseIds purgedItemIds =
     bnd (mapC (\<lambda>itemId. bnd (listDatabasesByParentItem itemId) (\<lambda>dbs. return (map db_id dbs)))
            purgedItemIds) (\<lambda>owned.
     return (jsSet (concat owned)))"

definition purgeExpiredTrashSubtreeTx :: "id \<Rightarrow> int \<Rightarrow> purgeResult op" where
  "purgeExpiredTrashSubtreeTx rootItemId cutoff =
     bnd (getItemsByIdsIncludingDeleted [rootItemId]) (\<lambda>rows.
     case rows of
       [] \<Rightarrow> return \<lparr>pu_purgedItemIds = [], pu_blobStorageKeys = []\<rparr>
     | rootRow # _ \<Rightarrow>
         if \<not> expired cutoff rootRow then return \<lparr>pu_purgedItemIds = [], pu_blobStorageKeys = []\<rparr>
         else
           bnd (collectItemSubtree rootRow (Some (expired cutoff))) (\<lambda>subtree.
           andThen (forEach (jsSet (map it_databaseId subtree)) assertDatabaseNotArchived)
          (bnd (foldC purgeRow subtree \<lparr>pu_purgedItemIds = [], pu_blobStorageKeys = []\<rparr>) (\<lambda>result.
           bnd (ownedDatabaseIds (pu_purgedItemIds result)) (\<lambda>owned.
           andThen (forEach owned (dropIfEmpty (it_databaseId rootRow)))
             (return result))))))"

section \<open>The public operations\<close>

definition softDeleteItemOp ::
  "txenv \<Rightarrow> (InvalidationEvent \<Rightarrow> bool) \<Rightarrow> ActionQueueAffinity \<Rightarrow> id \<Rightarrow> id \<Rightarrow> id option \<Rightarrow> world \<Rightarrow>
     (error + ItemRow option) \<times> world" where
  "softDeleteItemOp env deliverable affinity databaseId itemId actingUserId =
     withTransaction env deliverable (itemDeleteWithClient databaseId itemId
       \<lparr>do_queueAffinity = affinity, do_actingUserId = actingUserId\<rparr>)"

definition restoreItemOp ::
  "txenv \<Rightarrow> (InvalidationEvent \<Rightarrow> bool) \<Rightarrow> id \<Rightarrow> id \<Rightarrow> id option \<Rightarrow> world \<Rightarrow>
     (error + ItemRow option) \<times> world" where
  "restoreItemOp env deliverable databaseId itemId actingUserId =
     withTransaction env deliverable (restoreItemWithClient databaseId itemId actingUserId)"

definition purgeExpiredTrashSubtree ::
  "txenv \<Rightarrow> (InvalidationEvent \<Rightarrow> bool) \<Rightarrow> id \<Rightarrow> int \<Rightarrow> world \<Rightarrow> (error + purgeResult) \<times> world" where
  "purgeExpiredTrashSubtree env deliverable rootItemId cutoff =
     withTransaction env deliverable (purgeExpiredTrashSubtreeTx rootItemId cutoff)"

section \<open>The sweep\<close>

text \<open>
  \<open>purgeExpiredTrash\<close>. \<open>envOf\<close> is the environment of each root's transaction; a root whose
  transaction fails is skipped. The storage keys handed to \<open>storage.delete\<close> are collected in
  order (a failing delete is only logged). The candidates' \<open>SELECT\<close> reads the committed
  tables. \<open>fuel\<close> bounds the number of pages.
\<close>

definition CANDIDATE_PAGE_SIZE :: nat where
  "CANDIDATE_PAGE_SIZE = 500"

record sweepState =
  sw_world :: world
  sw_purgedInPage :: "id list"
  sw_purgedCount :: nat
  sw_deletedKeys :: "string list"

definition sweepCandidate ::
  "(id \<Rightarrow> txenv) \<Rightarrow> (InvalidationEvent \<Rightarrow> bool) \<Rightarrow> int \<Rightarrow> ItemRow \<Rightarrow> sweepState \<Rightarrow> sweepState" where
  "sweepCandidate envOf deliverable cutoff candidate s =
     (if it_id candidate \<in> set (sw_purgedInPage s) then s
      else case purgeExpiredTrashSubtree (envOf (it_id candidate)) deliverable (it_id candidate) cutoff
                  (sw_world s) of
             (Inl err, w) \<Rightarrow> s\<lparr>sw_world := w\<rparr>
           | (Inr result, w) \<Rightarrow>
               s\<lparr>sw_world := w, sw_purgedInPage := sw_purgedInPage s @ pu_purgedItemIds result,
                 sw_purgedCount := sw_purgedCount s + length (pu_purgedItemIds result),
                 sw_deletedKeys := sw_deletedKeys s @ pu_blobStorageKeys result\<rparr>)"

definition candidatesPage :: "txenv \<Rightarrow> int \<Rightarrow> (id \<times> id) option \<Rightarrow> world \<Rightarrow> error + ItemRow list" where
  "candidatesPage env cutoff after w =
     (case findItemsDeletedBefore cutoff after CANDIDATE_PAGE_SIZE (beginTx env (tx_scope env) w) of
        Inl e \<Rightarrow> Inl e | Inr (rows, _) \<Rightarrow> Inr rows)"

fun sweepPages ::
  "nat \<Rightarrow> txenv \<Rightarrow> (id \<Rightarrow> txenv) \<Rightarrow> (InvalidationEvent \<Rightarrow> bool) \<Rightarrow> int \<Rightarrow> (id \<times> id) option \<Rightarrow>
     sweepState \<Rightarrow> sweepState option" where
  "sweepPages 0 env envOf deliverable cutoff after s = None"
| "sweepPages (Suc fuel) env envOf deliverable cutoff after s =
     (case candidatesPage env cutoff after (sw_world s) of
        Inl e \<Rightarrow> Some s
      | Inr candidates \<Rightarrow>
          (let s' = fold (sweepCandidate envOf deliverable cutoff) candidates (s\<lparr>sw_purgedInPage := []\<rparr>)
           in if candidates = [] \<or> length candidates < CANDIDATE_PAGE_SIZE then Some s'
              else sweepPages fuel env envOf deliverable cutoff
                     (Some (it_databaseId (last candidates), it_id (last candidates))) s'))"

definition purgeExpiredTrash ::
  "nat \<Rightarrow> txenv \<Rightarrow> (id \<Rightarrow> txenv) \<Rightarrow> (InvalidationEvent \<Rightarrow> bool) \<Rightarrow> int \<Rightarrow> int \<Rightarrow> world \<Rightarrow> sweepState option" where
  "purgeExpiredTrash fuel env envOf deliverable clock retentionDays w =
     sweepPages fuel env envOf deliverable (clock - retentionDays * 24 * 60 * 60 * 1000) None
       \<lparr>sw_world = w, sw_purgedInPage = [], sw_purgedCount = 0, sw_deletedKeys = []\<rparr>"

end
