(* ===== verification/ItemReads.thy ===== *)
theory ItemReads
  imports ItemTrash
begin

text \<open>
  The item lookups and the breadcrumb walk of \<open>chokePoint/itemReads.ts\<close>, the database
  operations of \<open>chokePoint/databaseOps.ts\<close> and the authorization of agents in
  \<open>chokePoint/authorization.ts\<close>.
\<close>

section \<open>Item lookups\<close>

definition findItemTx :: "id \<Rightarrow> ItemRow option op" where
  "findItemTx itemId = bnd (getItemsByIds [itemId]) (\<lambda>rows. return (firstRow id rows))"

definition findItemIncludingDeletedTx :: "id \<Rightarrow> ItemRow option op" where
  "findItemIncludingDeletedTx itemId =
     bnd (getItemsByIdsIncludingDeleted [itemId]) (\<lambda>rows. return (firstRow id rows))"

text \<open>
  \<open>getItemPath\<close>, a walk of reads of the same tables \<open>d\<close>: \<open>lookupItem\<close> is
  \<open>getItemsByIds\<close> on one id, \<open>parentItemOf\<close> the parent item of \<open>getDatabase\<close>'s answer.
\<close>

definition lookupItem :: "db \<Rightarrow> id \<Rightarrow> ItemRow option" where
  "lookupItem d itemId =
     firstRow mapItemRow (filter (\<lambda>r. rit_id r = itemId \<and>
       rit_database_id r \<in> set (map rdb_id (t_databases d)) \<and> rit_deleted_at r = None) (t_items d))"

definition parentItemOf :: "db \<Rightarrow> id \<Rightarrow> id option" where
  "parentItemOf d databaseId =
     (case filter (\<lambda>r. rdb_id r = databaseId) (t_databases d) of
        [] \<Rightarrow> None | r # _ \<Rightarrow> rdb_parent_item_id r)"

lemma lookupItem_database:
  "lookupItem d i = Some item \<Longrightarrow> it_databaseId item \<in> set (map rdb_id (t_databases d))"
  by (auto simp: lookupItem_def firstRow_def mapItemRow_def filter_eq_Cons_iff split: list.splits)

function pathFrom :: "db \<Rightarrow> id option \<Rightarrow> id list \<Rightarrow> ItemRow list \<Rightarrow> ItemRow list" where
  "pathFrom d currentId visited chain =
     (if \<not> truthy currentId then chain
      else case lookupItem d (the currentId) of
             None \<Rightarrow> chain
           | Some item \<Rightarrow>
               if it_databaseId item \<in> set visited then item # chain
               else pathFrom d (parentItemOf d (it_databaseId item)) (it_databaseId item # visited)
                      (item # chain))"
  by pat_completeness auto

termination
proof (relation "measure (\<lambda>(d, currentId, visited, chain). unvisited d visited)", goal_cases)
  case (2 d currentId visited chain item)
  have "it_databaseId item \<in> set (map rdb_id (t_databases d))"
    by (rule lookupItem_database [OF 2(2)])
  with 2(3) have "unvisited d (it_databaseId item # visited) < unvisited d visited"
    by (intro unvisited_decreases) auto
  then show ?case by simp
qed simp

declare pathFrom.simps [simp del]

definition getItemPathTx :: "id \<Rightarrow> ItemRow list op" where
  "getItemPathTx itemId = query (\<lambda>d. pathFrom d (Some itemId) [] [])"

section \<open>Database operations\<close>

definition announceSchema :: "id option \<Rightarrow> DatabaseRow op \<Rightarrow> DatabaseRow op" where
  "announceSchema actingUserId m =
     bnd m (\<lambda>database.
     andThen (runAfterCommit (InvSchema (db_id database) actingUserId)) (return database))"

definition databaseArchiveWithClient :: "id \<Rightarrow> id option \<Rightarrow> DatabaseRow op" where
  "databaseArchiveWithClient databaseId actingUserId =
     announceSchema actingUserId (archiveDatabase databaseId)"

definition createDatabaseTx :: "id \<Rightarrow> CreateDatabaseInput \<Rightarrow> id option \<Rightarrow> DatabaseRow op" where
  "createDatabaseTx newId input actingUserId = announceSchema actingUserId (createDatabase newId input)"

definition restoreDatabaseTx :: "id \<Rightarrow> id option \<Rightarrow> DatabaseRow op" where
  "restoreDatabaseTx databaseId actingUserId =
     announceSchema actingUserId (restoreDatabase databaseId)"

definition renameDatabaseTx :: "id \<Rightarrow> string \<Rightarrow> id option \<Rightarrow> DatabaseRow op" where
  "renameDatabaseTx databaseId name actingUserId =
     announceSchema actingUserId (renameDatabase databaseId name)"

record InlineDatabaseInput =
  id_name :: string
  id_parentItemId :: id
  id_ownerProjectItemId :: "id option"
  id_ownerModuleId :: "string option"

definition createInlineDatabaseTx :: "id \<Rightarrow> InlineDatabaseInput \<Rightarrow> id option \<Rightarrow> DatabaseRow op" where
  "createInlineDatabaseTx newId input actingUserId =
     announceSchema actingUserId (createDatabase newId
       \<lparr>cd_name = Some (id_name input), cd_key = None, cd_parentItemId = Some (id_parentItemId input),
        cd_ownerProjectItemId = id_ownerProjectItemId input,
        cd_ownerModuleId = id_ownerModuleId input, cd_schemaLocked = None, cd_system = Some False\<rparr>)"

section \<open>Authorization of agents\<close>

record Actor =
  ac_type :: CreatedBy
  ac_agentProjectItemId :: "id option"

definition PROJECTS_MODULE_ID :: string where
  "PROJECTS_MODULE_ID = ''projects''"

definition ownerViolation :: error where
  "ownerViolation = ForbiddenError ''owner_violation'' (Some ''creatorProjectItemId'')"

definition assertAuthenticatedAgentIdentity :: "Actor \<Rightarrow> unit op" where
  "assertAuthenticatedAgentIdentity actor =
     (let refuse = throw (ForbiddenError ''owner_violation'' (Some ''agentProjectItemId'')) in
      if ac_type actor \<noteq> ByAiAgent then return ()
      else if \<not> truthy (ac_agentProjectItemId actor) then refuse
      else bnd (getDatabaseByModuleId PROJECTS_MODULE_ID) (\<lambda>found.
        case found of
          None \<Rightarrow> refuse
        | Some projectsDatabase \<Rightarrow>
            bnd (getItemById (db_id projectsDatabase) (the (ac_agentProjectItemId actor))) (\<lambda>projectItem.
            case projectItem of
              None \<Rightarrow> refuse
            | Some item \<Rightarrow> if it_deletedAt item \<noteq> None then refuse else return ())))"

definition assertViewWritable :: "ViewRow \<Rightarrow> Actor \<Rightarrow> error + unit" where
  "assertViewWritable view actor =
     (if ac_type actor \<noteq> ByAiAgent then Inr ()
      else case vw_createdBy view of
             BySystem \<Rightarrow> Inl ownerViolation
           | ByUser \<Rightarrow> Inl ownerViolation
           | ByAiAgent \<Rightarrow>
               if vw_creatorProjectItemId view = None then Inl ownerViolation
               else if vw_creatorProjectItemId view \<noteq> ac_agentProjectItemId actor
               then Inl ownerViolation else Inr ())"

end
