(* ===== verification/StoreFacts.thy ===== *)
theory StoreFacts
  imports ItemWrites
begin

text \<open>
  Frame facts of the choke point: which operations only read, and the interface
  \<open>quiet\<close> of a property of the tables that scheduling cannot break. Every write of the choke
  point also enqueues jobs, reschedules heartbeats and parks events; a property that does not
  look at the queue or at the heartbeats survives all of that.
\<close>

section \<open>Reads\<close>

lemmas reads_rules = reads_intros

lemma readsOnly_selects [reads_intros]:
  "readsOnly (selectItems p)" "readsOnly (selectDatabases q)" "readsOnly (selectProperties r)"
  "readsOnly (selectDefinitions s)" "readsOnly (selectEdges t)" "readsOnly (selectDependencies u)"
  by (auto simp: selectItems_def selectDatabases_def selectProperties_def selectDefinitions_def
      selectEdges_def selectDependencies_def intro!: reads_rules)

lemma readsOnly_items [reads_intros]:
  "readsOnly (getItemById databaseId itemId)" "readsOnly (lockItemById databaseId itemId)"
  "readsOnly (findIdempotentReplay databaseId key requireLive)"
  by (auto simp: getItemById_def lockItemById_def findIdempotentReplay_def intro!: reads_intros)

lemma readsOnly_databases [reads_intros]:
  "readsOnly (getDatabase databaseId)" "readsOnly (assertDatabaseNotArchived databaseId)"
  "readsOnly (assertDatabaseWritableForCreate databaseId key)"
  by (auto simp: getDatabase_def assertDatabaseNotArchived_def assertDatabaseWritableForCreate_def
      intro!: reads_intros)

lemma readsOnly_properties [reads_intros]:
  "readsOnly (listPropertiesByDatabase databaseId)" "readsOnly (getProperty propertyId)"
  by (auto simp: listPropertiesByDatabase_def getProperty_def firstProperty_def intro!: reads_intros)

lemma readsOnly_relations [reads_intros]:
  "readsOnly (getRelationDefinition defId)" "readsOnly (listRelationsForItem defId itemId)"
  by (auto simp: getRelationDefinition_def firstDefinition_def listRelationsForItem_def intro!: reads_intros)

lemma readsOnly_edgeContext [reads_intros]:
  "readsOnly (loadRelationEdgeContext propertyId)"
  "readsOnly (assertRelationDatabasesNotArchived context)"
  "readsOnly (assertRelationEndpointsValid context callerItemId targetItemId)"
  by (auto simp: loadRelationEdgeContext_def assertRelationDatabasesNotArchived_def
      assertRelationEndpointsValid_def assertRelationEndpointValid_def
      intro!: reads_intros split: option.split)

lemma readsOnly_creatable [reads_intros]: "readsOnly (loadCreatableRelationEdgeContext input context)"
  by (auto simp: loadCreatableRelationEdgeContext_def intro!: reads_intros)

lemma readsOnly_dependencies [reads_intros]:
  "readsOnly (findDependenciesBySource databaseId key)"
  "readsOnly (findDependenciesByRelationDefinition defId)"
  "readsOnly (getRollupDependency propertyId)"
  by (auto simp: findDependenciesBySource_def findDependenciesByRelationDefinition_def
      getRollupDependency_def intro!: reads_intros)

lemma readsOnly_targets [reads_intros]: "readsOnly (resolveRollupRecomputeTargets defId itemA itemB)"
  by (auto simp: resolveRollupRecomputeTargets_def rollupTarget_def intro!: reads_intros)

lemma readsOnly_settings [reads_intros]:
  "readsOnly getSystemSettingsDatabaseId" "readsOnly getSystemSettingsItemId" "readsOnly settingsItemIdOrNull"
  by (auto simp: getSystemSettingsDatabaseId_def getSystemSettingsItemId_def settingsItemIdOrNull_def
      intro!: reads_intros)

lemma readsOnly_timezone [reads_intros]: "readsOnly getSystemTimezone"
  by (auto simp: getSystemTimezone_def intro!: reads_intros)

lemma readsOnly_foldC [reads_intros]:
  "(\<And>x acc. readsOnly (f x acc)) \<Longrightarrow> readsOnly (foldC f xs acc)"
  by (induction xs arbitrary: acc) (auto intro!: reads_intros)

lemma readsOnly_resolve [reads_intros]:
  "readsOnly (resolveCreateProperties we properties inputProperties itemProperties)"
  by (auto simp: resolveCreateProperties_def applyDefault_def intro!: reads_intros split: prod.split)

lemma readsOnly_updatePatch [reads_intros]: "readsOnly (updatePatch database input)"
  by (auto simp: updatePatch_def Let_def intro!: reads_intros)

section \<open>Properties that scheduling keeps\<close>

text \<open>The property of the tables, on a client.\<close>

definition onDb :: "(db \<Rightarrow> bool) \<Rightarrow> client \<Rightarrow> bool" where
  "onDb P c = P (cl_db c)"

lemma keeps_onDb_statement: "(\<And>d. P d \<Longrightarrow> P (f d)) \<Longrightarrow> keeps (onDb P) (statement f)"
  by (rule keeps_statement) (simp add: onDb_def)

lemma keeps_runAfterCommit [keeps_intros]: "keeps (onDb P) (runAfterCommit ev)"
  unfolding runAfterCommit_def by (rule keeps_modify) (simp add: onDb_def)

locale quiet =
  fixes P :: "db \<Rightarrow> bool"
  assumes jobs: "P d \<Longrightarrow> P (d\<lparr>t_jobs := js\<rparr>)"
    and heartbeats: "P d \<Longrightarrow> P (d\<lparr>t_heartbeats := hs\<rparr>)"
begin

lemma keeps_enqueueJobMode [keeps_intros]:
  "keeps (onDb P) (enqueueJobMode mode ident payload jobKey attempts queue)"
  unfolding enqueueJobMode_def
  by (intro keeps_intros keeps_onDb_statement jobs)

lemma keeps_enqueueJob [keeps_intros]: "keeps (onDb P) (enqueueJob ident payload jobKey attempts queue)"
  unfolding enqueueJob_def by (rule keeps_enqueueJobMode)

lemma keeps_trigger [keeps_intros]: "keeps (onDb P) (triggerOnItemEventHeartbeats databaseId ev itemId affinity)"
  unfolding triggerOnItemEventHeartbeats_def Let_def
  by (intro keeps_intros)

lemma keeps_rollupEnqueues [keeps_intros]:
  "keeps (onDb P) (enqueueRollupRecompute propertyId itemId)"
  "keeps (onDb P) (enqueueRollupBackfill propertyId)"
  unfolding enqueueRollupRecompute_def enqueueRollupBackfill_def by (intro keeps_intros)+

lemma keeps_edgeFanOut [keeps_intros]: "keeps (onDb P) (enqueueRollupRecomputeForEdge defId itemA itemB)"
  unfolding enqueueRollupRecomputeForEdge_def
  by (intro keeps_bnd keeps_forEach readsOnly_keeps [OF readsOnly_targets])
    (auto intro: keeps_rollupEnqueues)

lemma keeps_dependents [keeps_intros]: "keeps (onDb P) (enqueueDependentRollups databaseId itemId key)"
  unfolding enqueueDependentRollups_def
  by (intro keeps_intros readsOnly_keeps reads_intros)

lemma keeps_recompute [keeps_intros]:
  "keeps (onDb P) (recomputeAllForTimezoneChange lx clock timezone kinds)"
proof -
  have "keeps (onDb P) (recomputeHeartbeat lx clock timezone kinds row)" for row
    unfolding recomputeHeartbeat_def recordHeartbeatFailure_def
    by (auto split: sum.split intro!: keeps_onDb_statement heartbeats)
  then show ?thesis unfolding recomputeAllForTimezoneChange_def by (intro keeps_intros)
qed

lemma keeps_timezone [keeps_intros]: "keeps (onDb P) (applyTimezoneChange we itemId patch)"
  unfolding applyTimezoneChange_def
  by (intro keeps_intros readsOnly_keeps reads_intros)

end

text \<open>
  A committed transaction whose operation keeps a property of the tables keeps it of the pool's
  tables; one that does not commit leaves them alone.
\<close>

lemma withTransaction_keeps:
  assumes "keeps (onDb P) fn" and "P (w_db w)"
  shows "P (w_db (snd (withTransaction env deliverable fn w)))"
proof (cases rule: withTransaction_cases [where env = env and p = deliverable and fn = fn and w = w])
  case (committed scope x c)
  then have "onDb P c" using keepsD [OF assms(1) _ committed(1)] assms(2) by (simp add: onDb_def beginTx_def)
  with committed show ?thesis by (simp add: onDb_def)
qed (use assms in simp_all)

lemma listProperties_rows:
  assumes "listPropertiesByDatabase databaseId c = Inr (properties, c')"
  shows "map mapPropertyRow (sort_key rpr_key (filter (\<lambda>r. rpr_database_id r = databaseId)
      (t_properties (cl_db c)))) = map Inr properties"
  using assms
  by (auto simp: listPropertiesByDatabase_def selectProperties_def comp_simps dest!: mapC_ofSum_Inr)

text \<open>A transaction that is let in and whose commit succeeds.\<close>

definition willCommit :: "txenv \<Rightarrow> bool" where
  "willCommit env \<longleftrightarrow> tx_commitOk env \<and> \<not> isl (enforceTenantScope (tx_scope env) (tx_mode env))"

lemma willCommit_tx:
  assumes "willCommit env" and "\<And>scope. \<exists>c. fn (beginTx env scope w) = Inr (x, c) \<and> cl_db c = d"
  obtains w' where "withTransaction env p fn w = (Inr x, w')" and "w_db w' = d"
proof -
  from assms(1) obtain scope where "enforceTenantScope (tx_scope env) (tx_mode env) = Inr scope"
    by (cases "enforceTenantScope (tx_scope env) (tx_mode env)") (auto simp: willCommit_def)
  moreover obtain c where "fn (beginTx env scope w) = Inr (x, c)" "cl_db c = d" using assms(2) by blast
  ultimately show thesis
    using assms(1) by (intro that) (auto simp: withTransaction_def willCommit_def)
qed

end
