(* ===== verification/ChokeInvariant.thy ===== *)
theory ChokeInvariant
  imports StoreFacts ItemReads
begin

text \<open>
  What every choke-point operation keeps true of the tables: primary keys are unique, an item
  lies in an existing database's partition, an idempotency key names one item, and the edges of
  a relation respect its cardinality.
\<close>

section \<open>The invariant\<close>

definition databasesOk :: "DatabaseDbRow list \<Rightarrow> id list \<Rightarrow> bool" where
  "databasesOk databases partitions \<longleftrightarrow>
     distinct (map rdb_id databases) \<and> set partitions = rdb_id ` set databases"

definition itemsOk :: "id list \<Rightarrow> ItemDbRow list \<Rightarrow> bool" where
  "itemsOk partitions items \<longleftrightarrow>
     distinct (map (\<lambda>r. (rit_database_id r, rit_id r)) items) \<and>
     (\<forall>r \<in> set items. rit_database_id r \<in> set partitions)"

definition keysOk :: "IdempotencyRow list \<Rightarrow> bool" where
  "keysOk ks \<longleftrightarrow> distinct (map ik_key ks)"

text \<open>Two edges of one definition, as its cardinality allows them together.\<close>

definition compatible :: "string \<Rightarrow> ItemRelationDbRow \<Rightarrow> ItemRelationDbRow \<Rightarrow> bool" where
  "compatible cardinality e f \<longleftrightarrow>
     (cardinality = ''one_to_one'' \<longrightarrow> (rir_item_a e = rir_item_a f \<longleftrightarrow> rir_item_b e = rir_item_b f)) \<and>
     (cardinality = ''one_to_many'' \<longrightarrow> rir_item_b e = rir_item_b f \<longrightarrow> rir_item_a e = rir_item_a f)"

definition edgeTuple :: "ItemRelationDbRow \<Rightarrow> id \<times> id \<times> id" where
  "edgeTuple e = (rir_relation_definition_id e, rir_item_a e, rir_item_b e)"

definition edgesOk :: "RelationDefinitionDbRow list \<Rightarrow> ItemRelationDbRow list \<Rightarrow> bool" where
  "edgesOk defs edges \<longleftrightarrow>
     distinct (map rrd_id defs) \<and> distinct (map edgeTuple edges) \<and>
     (\<forall>e \<in> set edges. rir_relation_definition_id e \<in> rrd_id ` set defs) \<and>
     (\<forall>r \<in> set defs. \<forall>e \<in> set edges. \<forall>f \<in> set edges.
        rir_relation_definition_id e = rrd_id r \<longrightarrow> rir_relation_definition_id f = rrd_id r \<longrightarrow>
        compatible (rrd_cardinality r) e f)"

definition dbOk :: "db \<Rightarrow> bool" where
  "dbOk d \<longleftrightarrow>
     databasesOk (t_databases d) (t_partitions d) \<and> itemsOk (t_partitions d) (t_items d) \<and>
     keysOk (t_idempotency_keys d) \<and> edgesOk (t_relation_definitions d) (t_item_relations d)"

interpretation ok: quiet dbOk
  by unfold_locales (simp_all add: dbOk_def)

section \<open>Edges\<close>

lemma edgesOkI:
  assumes "distinct (map rrd_id defs)" and "distinct (map edgeTuple edges)"
    and "\<And>e. e \<in> set edges \<Longrightarrow> rir_relation_definition_id e \<in> rrd_id ` set defs"
    and "\<And>r e f. r \<in> set defs \<Longrightarrow> e \<in> set edges \<Longrightarrow> f \<in> set edges \<Longrightarrow>
      rir_relation_definition_id e = rrd_id r \<Longrightarrow> rir_relation_definition_id f = rrd_id r \<Longrightarrow>
      compatible (rrd_cardinality r) e f"
  shows "edgesOk defs edges"
  using assms unfolding edgesOk_def by simp

lemma edgesOkD:
  assumes "edgesOk defs edges"
  shows "distinct (map rrd_id defs)" "distinct (map edgeTuple edges)"
    "e \<in> set edges \<Longrightarrow> rir_relation_definition_id e \<in> rrd_id ` set defs"
    "r \<in> set defs \<Longrightarrow> e \<in> set edges \<Longrightarrow> f \<in> set edges \<Longrightarrow>
      rir_relation_definition_id e = rrd_id r \<Longrightarrow> rir_relation_definition_id f = rrd_id r \<Longrightarrow>
      compatible (rrd_cardinality r) e f"
  using assms unfolding edgesOk_def by simp_all

lemma edgesOk_filter_defs:
  assumes "edgesOk defs edges"
    and "\<And>e. e \<in> set edges \<Longrightarrow> q e \<Longrightarrow> rir_relation_definition_id e \<in> rrd_id ` set (filter p defs)"
  shows "edgesOk (filter p defs) (filter q edges)"
proof (rule edgesOkI)
  show "distinct (map rrd_id (filter p defs))" "distinct (map edgeTuple (filter q edges))"
    using edgesOkD(1,2) [OF assms(1)] by (simp_all add: distinct_map_filter)
qed (use assms(2) edgesOkD(4) [OF assms(1)] in auto)

lemma edgesOk_filter: "edgesOk defs edges \<Longrightarrow> edgesOk defs (filter p edges)"
  using edgesOk_filter_defs [of defs edges p "\<lambda>_. True"] edgesOkD(3) by simp

lemma edgesOk_map:
  assumes "edgesOk defs edges" and "\<And>e. rir_relation_definition_id (f e) = rir_relation_definition_id e"
    and "\<And>e. rir_item_a (f e) = rir_item_a e" and "\<And>e. rir_item_b (f e) = rir_item_b e"
  shows "edgesOk defs (map f edges)"
proof (rule edgesOkI)
  have "edgeTuple (f e) = edgeTuple e" for e by (simp add: edgeTuple_def assms(2-4))
  then show "distinct (map edgeTuple (map f edges))"
    using edgesOkD(2) [OF assms(1)] by (simp add: comp_def)
  have "compatible c (f e) (f e') = compatible c e e'" for c e e'
    by (simp add: compatible_def assms(3,4))
  then show "compatible (rrd_cardinality r) e e'"
    if "r \<in> set defs" "e \<in> set (map f edges)" "e' \<in> set (map f edges)"
      "rir_relation_definition_id e = rrd_id r" "rir_relation_definition_id e' = rrd_id r" for r e e'
    using that edgesOkD(4) [OF assms(1) that(1)] assms(2) by fastforce
qed (use edgesOkD(1,3) [OF assms(1)] assms(2) in auto)

lemma edgesOk_add:
  assumes ok: "edgesOk defs edges" and r: "filter (\<lambda>r. rrd_id r = defId) defs = r # rest"
    and new: "rir_relation_definition_id row = defId"
    and free: "\<not> cardinalityConflict (rrd_cardinality r) defId (rir_item_a row) (rir_item_b row) edges"
    and absent: "filter (isEdge defId (rir_item_a row) (rir_item_b row)) edges = []"
  shows "edgesOk defs (edges @ [row])"
proof -
  have r_in: "r \<in> set defs" "rrd_id r = defId"
    using arg_cong [OF r, of set] by auto
  with ok have unique: "r' = r" if "r' \<in> set defs" "rrd_id r' = defId" for r'
    using that by (auto simp: edgesOk_def distinct_map dest: inj_onD)
  have fresh: "\<not> (rir_item_a e = rir_item_a row \<and> rir_item_b e = rir_item_b row)"
    if "e \<in> set edges" "rir_relation_definition_id e = defId" for e
    using absent that by (auto simp: filter_empty_conv isEdge_def)
  have compat: "compatible (rrd_cardinality r) e row" "compatible (rrd_cardinality r) row e"
    if "e \<in> set edges" "rir_relation_definition_id e = defId" for e
  proof -
    have "rrd_cardinality r = ''one_to_one'' \<Longrightarrow>
        \<not> (rir_item_a e = rir_item_a row \<or> rir_item_b e = rir_item_b row)"
      using free that fresh [OF that] unfolding cardinalityConflict_def by (simp only: if_True simp_thms) blast
    moreover have "rrd_cardinality r = ''one_to_many'' \<Longrightarrow> rir_item_b e \<noteq> rir_item_b row"
      using free that fresh [OF that] unfolding cardinalityConflict_def by simp blast
    ultimately show "compatible (rrd_cardinality r) e row" "compatible (rrd_cardinality r) row e"
      unfolding compatible_def by metis+
  qed
  show ?thesis
  proof (rule edgesOkI)
    show "distinct (map rrd_id defs)" using ok by (rule edgesOkD)
    show "distinct (map edgeTuple (edges @ [row]))"
    proof -
      have "edgeTuple e \<noteq> edgeTuple row" if "e \<in> set edges" for e
        using fresh [OF that] new by (simp add: edgeTuple_def)
      with edgesOkD(2) [OF ok] show ?thesis by force
    qed
  next
    fix e assume "e \<in> set (edges @ [row])"
    then show "rir_relation_definition_id e \<in> rrd_id ` set defs"
      using edgesOkD(3) [OF ok] r_in new by auto
  next
    fix r' e f
    assume r': "r' \<in> set defs" and e: "e \<in> set (edges @ [row])" and f: "f \<in> set (edges @ [row])"
      and eq: "rir_relation_definition_id e = rrd_id r'" "rir_relation_definition_id f = rrd_id r'"
    show "compatible (rrd_cardinality r') e f"
    proof (cases "e \<in> set edges \<and> f \<in> set edges")
      case True
      then show ?thesis using edgesOkD(4) [OF ok r' _ _ eq] by blast
    next
      case False
      then have "e = row \<or> f = row" using e f by auto
      then have defId: "rrd_id r' = defId" using eq new by auto
      with r' unique have r'r: "r' = r" by blast
      have in_or: "e \<in> set edges \<or> e = row" "f \<in> set edges \<or> f = row" using e f by auto
      have "compatible (rrd_cardinality r) row row" by (simp add: compatible_def)
      with in_or compat eq defId False show ?thesis unfolding r'r by metis
    qed
  qed
qed

lemma upsertEdge_InrE:
  assumes "upsertEdge newId defId itemA itemB metadata c = Inr (rows, c')"
  obtains r rest where "filter (\<lambda>r. rrd_id r = defId) (t_relation_definitions (cl_db c)) = r # rest"
    and "\<not> cardinalityConflict (rrd_cardinality r) defId itemA itemB (t_item_relations (cl_db c))"
    and "c' = c\<lparr>cl_db := (cl_db c)\<lparr>t_item_relations :=
           (if filter (isEdge defId itemA itemB) (t_item_relations (cl_db c)) \<noteq> []
            then map (\<lambda>e. if isEdge defId itemA itemB e then e\<lparr>rir_metadata := metadata\<rparr> else e)
                   (t_item_relations (cl_db c))
            else t_item_relations (cl_db c) @
              [\<lparr>rir_id = newId, rir_relation_definition_id = defId, rir_item_a = itemA,
                rir_item_b = itemB, rir_metadata = metadata\<rparr>])\<rparr>\<rparr>"
proof -
  obtain r rest where r: "filter (\<lambda>r. rrd_id r = defId) (t_relation_definitions (cl_db c)) = r # rest"
      "\<not> cardinalityConflict (rrd_cardinality r) defId itemA itemB (t_item_relations (cl_db c))"
    using assms
    by (auto simp: upsertEdge_def enforce_relation_cardinality_def andThen_def bnd_def gets_def
        throw_def return_def split: list.splits if_splits sum.splits)
  with assms that [OF r] show thesis
    by (auto simp: upsertEdge_def enforce_relation_cardinality_def andThen_def bnd_def gets_def
        selectEdges_def query_def statement_def modify_def return_def Let_def split: if_splits)
qed

lemma keeps_upsertEdge: "keeps (onDb dbOk) (upsertEdge newId defId itemA itemB metadata)"
proof (rule keepsI)
  fix c rows c'
  assume ok: "onDb dbOk c" and run: "upsertEdge newId defId itemA itemB metadata c = Inr (rows, c')"
  let ?edges = "t_item_relations (cl_db c)" and ?defs = "t_relation_definitions (cl_db c)"
  from ok have edges: "edgesOk ?defs ?edges" by (simp add: onDb_def dbOk_def)
  from run show "onDb dbOk c'"
  proof (rule upsertEdge_InrE)
    fix r rest
    let ?new = "if filter (isEdge defId itemA itemB) ?edges \<noteq> []
      then map (\<lambda>e. if isEdge defId itemA itemB e then e\<lparr>rir_metadata := metadata\<rparr> else e) ?edges
      else ?edges @ [\<lparr>rir_id = newId, rir_relation_definition_id = defId, rir_item_a = itemA,
                rir_item_b = itemB, rir_metadata = metadata\<rparr>]"
    assume r: "filter (\<lambda>r. rrd_id r = defId) ?defs = r # rest"
      "\<not> cardinalityConflict (rrd_cardinality r) defId itemA itemB ?edges"
      and c': "c' = c\<lparr>cl_db := (cl_db c)\<lparr>t_item_relations := ?new\<rparr>\<rparr>"
    have "edgesOk ?defs ?new"
    proof (cases "filter (isEdge defId itemA itemB) ?edges = []")
      case True
      with edgesOk_add [OF edges r(1)] r(2) show ?thesis by simp
    next
      case False
      with edgesOk_map [OF edges] show ?thesis by simp
    qed
    with ok c' show "onDb dbOk c'" by (simp add: onDb_def dbOk_def)
  qed
qed

lemma keeps_createItemRelation [keeps_intros]:
  "keeps (onDb dbOk) (createItemRelation newId defId itemA itemB metadata)"
  unfolding createItemRelation_def
  by (intro keeps_intros keeps_upsertEdge readsOnly_keeps [OF readsOnly_relations(1)]
      readsOnly_keeps [OF readsOnly_requireSingleRow])

lemma keeps_updateItemRelationMetadata [keeps_intros]:
  "keeps (onDb dbOk) (updateItemRelationMetadata defId itemA itemB metadata)"
  unfolding updateItemRelationMetadata_def
  by (intro keeps_intros keeps_onDb_statement) (simp add: dbOk_def edgesOk_map)

lemma keeps_deleteItemRelation [keeps_intros]:
  "keeps (onDb dbOk) (deleteItemRelation defId itemA itemB)"
  unfolding deleteItemRelation_def selectEdges_def
  by (intro keeps_intros keeps_onDb_statement) (simp add: dbOk_def edgesOk_filter)

section \<open>Items and idempotency keys\<close>

lemma itemsOk_map:
  "itemsOk parts items \<Longrightarrow> (\<And>r. rit_id (f r) = rit_id r) \<Longrightarrow>
     (\<And>r. rit_database_id (f r) = rit_database_id r) \<Longrightarrow> itemsOk parts (map f items)"
  by (simp add: itemsOk_def comp_def)

lemma itemsOk_filter: "itemsOk parts items \<Longrightarrow> itemsOk parts (filter p items)"
  by (simp add: itemsOk_def distinct_map_filter)

lemma keeps_updateItemsReturning:
  "(\<And>r. rit_id (f r) = rit_id r) \<Longrightarrow> (\<And>r. rit_database_id (f r) = rit_database_id r) \<Longrightarrow>
     keeps (onDb dbOk) (updateItemsReturning p f)"
  unfolding updateItemsReturning_def
  by (intro keeps_intros keeps_onDb_statement) (simp add: dbOk_def itemsOk_map)

lemma keeps_itemWrites [keeps_intros]:
  "keeps (onDb dbOk) (updateItemProperties input)"
  "keeps (onDb dbOk) (softDeleteItem databaseId itemId)"
  "keeps (onDb dbOk) (restoreItem databaseId itemId)"
  "keeps (onDb dbOk) (writeComputed databaseId itemId key v)"
  unfolding updateItemProperties_def softDeleteItem_def restoreItem_def writeComputed_def
  by (intro keeps_intros keeps_updateItemsReturning readsOnly_keeps reads_intros; simp)+

lemma keeps_hardDeleteItem [keeps_intros]: "keeps (onDb dbOk) (hardDeleteItem databaseId itemId)"
  unfolding hardDeleteItem_def
  by (intro keeps_intros keeps_onDb_statement) (simp add: dbOk_def itemsOk_filter)

lemma keeps_insertItemsRow [keeps_intros]: "keeps (onDb dbOk) (insertItemsRow itemId databaseId properties)"
proof (rule keepsI)
  fix c rows c'
  assume ok: "onDb dbOk c" and run: "insertItemsRow itemId databaseId properties c = Inr (rows, c')"
  let ?row = "\<lparr>rit_id = itemId, rit_database_id = databaseId, rit_properties = properties,
                rit_computed = [], rit_updated_at = cl_now c, rit_deleted_at = None\<rparr>"
  from run have new: "databaseId \<in> set (t_partitions (cl_db c))"
      "\<forall>r \<in> set (t_items (cl_db c)). \<not> isItem databaseId itemId r"
      "c' = c\<lparr>cl_db := (cl_db c)\<lparr>t_items := t_items (cl_db c) @ [?row]\<rparr>\<rparr>"
    by (auto simp: insertItemsRow_def Let_def andThen_def bnd_def gets_def statement_def modify_def
        return_def throw_def split: if_splits)
  from ok have "itemsOk (t_partitions (cl_db c)) (t_items (cl_db c))" by (simp add: onDb_def dbOk_def)
  with new(1,2) have "itemsOk (t_partitions (cl_db c)) (t_items (cl_db c) @ [?row])"
    by (auto simp: itemsOk_def isItem_def)
  with ok new(3) show "onDb dbOk c'" by (simp add: onDb_def dbOk_def)
qed

lemma keeps_reserveKey [keeps_intros]: "keeps (onDb dbOk) (reserveKey key databaseId itemId)"
proof (rule keepsI)
  fix c n c'
  assume ok: "onDb dbOk c" and run: "reserveKey key databaseId itemId c = Inr (n, c')"
  then show "onDb dbOk c'"
    by (auto simp: reserveKey_def andThen_def bnd_def query_def gets_def statement_def modify_def
        return_def onDb_def dbOk_def keysOk_def split: if_splits)
qed

lemma keeps_deleteKey [keeps_intros]: "keeps (onDb dbOk) (deleteKey key)"
  unfolding deleteKey_def
  by (intro keeps_intros keeps_onDb_statement) (simp add: dbOk_def keysOk_def distinct_map_filter)

lemma keeps_insertItemWithReplay [keeps_intros]:
  "readsOnly m \<Longrightarrow> keeps (onDb dbOk) (insertItemWithReplay generatedId input (Some m))"
  unfolding insertItemWithReplay_def reserveOrReplay_def
  by (intro keeps_intros readsOnly_keeps [OF readsOnly_items(1)] readsOnly_keeps
      readsOnly_requireSingleRow readsOnly_requireAffectedRows) auto

section \<open>Databases\<close>

lemma readsOnly_getItemsByIds [reads_intros]: "readsOnly (getItemsByIds itemIds)"
  unfolding getItemsByIds_def visibleDatabaseIds_def by (intro reads_intros)

lemma databasesOk_map:
  assumes "databasesOk databases parts" and "\<And>r. rdb_id (f r) = rdb_id r"
  shows "databasesOk (map (\<lambda>r. if p r then f r else r) databases) parts"
proof -
  have "map rdb_id (map (\<lambda>r. if p r then f r else r) databases) = map rdb_id databases"
    by (simp add: assms(2))
  with assms(1) show ?thesis unfolding databasesOk_def by (metis list.set_map)
qed

lemma keeps_updateDatabasesReturning:
  "(\<And>r. rdb_id (f r) = rdb_id r) \<Longrightarrow> keeps (onDb dbOk) (updateDatabasesReturning p f)"
  unfolding updateDatabasesReturning_def
  by (intro keeps_intros keeps_onDb_statement) (simp add: dbOk_def databasesOk_map)

lemma readsOnly_requireDatabase [reads_intros]: "readsOnly (requireDatabase databaseId)"
  unfolding requireDatabase_def by (intro reads_intros)

lemma keeps_databaseUpdates [keeps_intros]:
  "keeps (onDb dbOk) (archiveDatabase databaseId)"
  "keeps (onDb dbOk) (renameDatabase databaseId name)"
  "keeps (onDb dbOk) (restoreDatabase databaseId)"
  unfolding archiveDatabase_def renameDatabase_def restoreDatabase_def
  by (intro keeps_intros keeps_updateDatabasesReturning readsOnly_keeps reads_intros; simp)+

lemma insertDatabaseRow_InrE:
  assumes "insertDatabaseRow newId input c = Inr (rows, c')"
  obtains row where "rdb_id row = newId" and "rows = [row]" and "newId \<notin> rdb_id ` set (t_databases (cl_db c))"
    and "c' = c\<lparr>cl_db := (cl_db c)\<lparr>t_databases := t_databases (cl_db c) @ [row]\<rparr>\<rparr>"
  using assms
  by (intro that [of "hd rows"]) (auto simp: insertDatabaseRow_def Let_def andThen_def bnd_def query_def gets_def statement_def
      modify_def return_def throw_def split: if_splits)

lemma createItemsPartition_InrE:
  assumes "createItemsPartition databaseId c = Inr (u, c')"
  obtains "databaseId \<in> rdb_id ` set (t_databases (cl_db c))"
    and "databaseId \<notin> set (t_partitions (cl_db c))"
    and "c' = c\<lparr>cl_db := (cl_db c)\<lparr>t_partitions := t_partitions (cl_db c) @ [databaseId]\<rparr>\<rparr>"
  using assms
  by (auto simp: createItemsPartition_def bnd_def query_def gets_def statement_def modify_def
      throw_def split: if_splits)

lemma keeps_createDatabase [keeps_intros]: "keeps (onDb dbOk) (createDatabase newId input)"
proof -
  have core: "keeps (onDb dbOk) (bnd (insertDatabaseRow newId input) (\<lambda>rows.
      bnd (requireSingleRow rows ctx) (\<lambda>row.
      if \<not> isUuid (rdb_id row) then throw err
      else andThen (createItemsPartition (rdb_id row)) (return (mapDatabaseRow row)))))" for ctx err
  proof (rule keepsI)
    fix c x c'
    assume ok: "onDb dbOk c"
      and run: "bnd (insertDatabaseRow newId input) (\<lambda>rows.
        bnd (requireSingleRow rows ctx) (\<lambda>row.
        if \<not> isUuid (rdb_id row) then throw err
        else andThen (createItemsPartition (rdb_id row)) (return (mapDatabaseRow row)))) c = Inr (x, c')"
    from run obtain row c1 where row: "rdb_id row = newId" "newId \<notin> rdb_id ` set (t_databases (cl_db c))"
        and c1: "c1 = c\<lparr>cl_db := (cl_db c)\<lparr>t_databases := t_databases (cl_db c) @ [row]\<rparr>\<rparr>"
        and rest: "andThen (createItemsPartition newId) (return (mapDatabaseRow row)) c1 = Inr (x, c')"
      by (elim bnd_InrE insertDatabaseRow_InrE)
        (auto simp: requireSingleRow_def comp_simps split: if_splits)
    from rest have c': "c' = c1\<lparr>cl_db := (cl_db c1)\<lparr>t_partitions := t_partitions (cl_db c1) @ [newId]\<rparr>\<rparr>"
      by (elim andThen_InrE createItemsPartition_InrE) (simp add: comp_simps)
    from ok row show "onDb dbOk c'"
      unfolding c' c1 by (auto simp: onDb_def dbOk_def databasesOk_def itemsOk_def)
  qed
  show ?thesis
    unfolding createDatabase_def Let_def
    by (intro keeps_intros core readsOnly_keeps [OF readsOnly_getItemsByIds])
qed

lemma dropItemsPartition_InrE:
  assumes "dropItemsPartition databaseId c = Inr (u, c')"
  obtains "c' = c\<lparr>cl_db := (cl_db c)\<lparr>t_partitions := filter (\<lambda>p. p \<noteq> databaseId) (t_partitions (cl_db c)),
            t_items := filter (\<lambda>r. rit_database_id r \<noteq> databaseId) (t_items (cl_db c))\<rparr>\<rparr>"
  using assms
  by (auto simp: dropItemsPartition_def bnd_def query_def gets_def statement_def modify_def
      throw_def split: if_splits)

lemma dbOk_dropped:
  assumes "dbOk d"
  shows "dbOk (cascadeDatabaseDelete databaseId
    (d\<lparr>t_partitions := filter (\<lambda>p. p \<noteq> databaseId) (t_partitions d),
       t_items := filter (\<lambda>r. rit_database_id r \<noteq> databaseId) (t_items d)\<rparr>))"
proof -
  let ?props = "set (map rpr_id (filter (\<lambda>p. rpr_database_id p = databaseId) (t_properties d)))"
  let ?gone = "\<lambda>r. rrd_property_id_a r \<in> ?props \<or>
    (case rrd_property_id_b r of None \<Rightarrow> False | Some b \<Rightarrow> b \<in> ?props)"
  let ?defs = "set (map rrd_id (filter ?gone (t_relation_definitions d)))"
  have ok: "edgesOk (t_relation_definitions d) (t_item_relations d)" using assms by (simp add: dbOk_def)
  have "edgesOk (filter (\<lambda>r. \<not> ?gone r) (t_relation_definitions d))
      (filter (\<lambda>e. rir_relation_definition_id e \<notin> ?defs) (t_item_relations d))"
  proof (rule edgesOk_filter_defs [OF ok])
    fix e assume e: "e \<in> set (t_item_relations d)" "rir_relation_definition_id e \<notin> ?defs"
    then obtain r where "r \<in> set (t_relation_definitions d)" "rir_relation_definition_id e = rrd_id r"
      using edgesOkD(3) [OF ok] by blast
    with e(2) show "rir_relation_definition_id e \<in> rrd_id ` set (filter (\<lambda>r. \<not> ?gone r) (t_relation_definitions d))"
      by auto
  qed
  moreover have "databasesOk (filter (\<lambda>r. rdb_id r \<noteq> databaseId) (t_databases d))
      (filter (\<lambda>p. p \<noteq> databaseId) (t_partitions d))"
    using assms by (auto simp: dbOk_def databasesOk_def distinct_map_filter)
  moreover have "itemsOk (filter (\<lambda>p. p \<noteq> databaseId) (t_partitions d))
      (filter (\<lambda>r. rit_database_id r \<noteq> databaseId) (t_items d))"
    using assms by (auto simp: dbOk_def itemsOk_def distinct_map_filter)
  ultimately show ?thesis
    using assms by (simp add: dbOk_def cascadeDatabaseDelete_def Let_def)
qed

lemma keeps_dropDatabaseWithPartition [keeps_intros]:
  "keeps (onDb dbOk) (dropDatabaseWithPartition databaseId)"
proof (rule keepsI)
  fix c u c'
  assume ok: "onDb dbOk c" and run: "dropDatabaseWithPartition databaseId c = Inr (u, c')"
  let ?d = "(cl_db c)\<lparr>t_rollup_dependencies := filter (\<lambda>r. rud_source_database_id r \<noteq> databaseId)
      (t_rollup_dependencies (cl_db c)),
    t_item_search_index := filter (\<lambda>r. snd r \<noteq> databaseId) (t_item_search_index (cl_db c))\<rparr>"
  have "dbOk ?d" using ok by (simp add: onDb_def dbOk_def)
  from dbOk_dropped [OF this, of databaseId] run show "onDb dbOk c'"
    unfolding dropDatabaseWithPartition_def deleteRollupDependenciesBySourceDatabase_def
    by (elim andThen_InrE bnd_InrE dropItemsPartition_InrE)
      (auto simp: comp_simps onDb_def requireAffectedRows_def split: if_splits)
qed

end
