(* ===== verification/ChokeSteps.thy ===== *)
theory ChokeSteps
  imports ChokeInvariant
begin

text \<open>
  The choke point as a state machine: the public operations as steps of the world, and the
  invariant of the tables that every reachable world satisfies.
\<close>

section \<open>The operations keep the invariant\<close>

lemma keeps_create:
  assumes "hooksKeep (onDb dbOk) (we_hooks we)"
  shows "keeps (onDb dbOk) (createItemWithClient we generatedId input options)"
  unfolding createItemWithClient_def Let_def
  by (intro keeps_intros readsOnly_keeps [OF readsOnly_databases(1)]
      readsOnly_keeps [OF readsOnly_databases(3)] readsOnly_keeps [OF readsOnly_properties(1)]
      readsOnly_resolve keeps_runHooks assms ok.keeps_trigger)

lemma keeps_update:
  assumes "hooksKeep (onDb dbOk) (we_hooks we)"
  shows "keeps (onDb dbOk) (updateItemWithClient we input options)"
  unfolding updateItemWithClient_def Let_def
  by (intro keeps_intros readsOnly_keeps [OF readsOnly_databases(1)]
      readsOnly_keeps [OF readsOnly_databases(2)] readsOnly_keeps [OF readsOnly_properties(1)]
      readsOnly_keeps [OF readsOnly_updatePatch] keeps_runHooks assms ok.keeps_trigger
      ok.keeps_dependents ok.keeps_timezone)

lemma keeps_collect [keeps_intros]: "keeps (onDb dbOk) (collectItemSubtree rootRow incl)"
  unfolding collectItemSubtree_def by (intro keeps_intros)

lemma keeps_enqueueRollupsOfItem [keeps_intros]: "keeps (onDb dbOk) (enqueueRollupsOfItem itemId)"
  unfolding enqueueRollupsOfItem_def listAllRelationsForItem_def
  by (intro keeps_intros ok.keeps_edgeFanOut readsOnly_keeps reads_intros)

lemma keeps_deleteItem [keeps_intros]: "keeps (onDb dbOk) (itemDeleteWithClient databaseId itemId options)"
  unfolding itemDeleteWithClient_def deleteSubtreeRow_def
  by (intro keeps_intros ok.keeps_trigger readsOnly_keeps [OF readsOnly_databases(2)]
      readsOnly_keeps [OF readsOnly_items(2)])

lemma keeps_restoreItem [keeps_intros]:
  "keeps (onDb dbOk) (restoreItemWithClient databaseId itemId actingUserId)"
  unfolding restoreItemWithClient_def restoreSubtreeRow_def
  by (intro keeps_intros readsOnly_keeps [OF readsOnly_databases(2)] readsOnly_keeps [OF readsOnly_items(2)])

lemma keeps_deleteItemDependents [keeps_intros]: "keeps (onDb dbOk) (deleteItemDependents row)"
  unfolding deleteItemDependents_def deleteDocByItemId_def deleteTaskRecurrence_def
    deleteItemAutomation_def deleteBlobIfUnreferenced_def visibleDatabaseIds_def
  by (intro keeps_intros keeps_onDb_statement)
    (simp_all add: dbOk_def edgesOk_filter keysOk_def distinct_map_filter)

lemma keeps_purge [keeps_intros]: "keeps (onDb dbOk) (purgeExpiredTrashSubtreeTx rootItemId cutoff)"
proof -
  have "readsOnly (getItemsByIdsIncludingDeleted [rootItemId])" "readsOnly (ownedDatabaseIds purged)" for purged
    unfolding getItemsByIdsIncludingDeleted_def ownedDatabaseIds_def visibleDatabaseIds_def
      listDatabasesByParentItem_def by (intro reads_intros)+
  then show ?thesis
    unfolding purgeExpiredTrashSubtreeTx_def purgeRow_def dropIfEmpty_def databaseEmpty_def
    by (intro keeps_intros readsOnly_keeps [OF readsOnly_databases(2)]) (simp_all add: readsOnly_keeps)
qed

lemma keeps_relationOps [keeps_intros]:
  assumes "hooksKeep (onDb dbOk) reg"
  shows "keeps (onDb dbOk) (createRelationWithClient reg newId cinput context)"
    "keeps (onDb dbOk) (updateRelationWithClient reg uinput context)"
    "keeps (onDb dbOk) (deleteRelationWithClient dinput context)"
  unfolding createRelationWithClient_def updateRelationWithClient_def deleteRelationWithClient_def
  by (auto split: prod.split intro!: keeps_intros readsOnly_keeps [OF readsOnly_edgeContext(1)]
      readsOnly_keeps [OF readsOnly_edgeContext(2)] readsOnly_keeps [OF readsOnly_edgeContext(3)]
      readsOnly_keeps [OF readsOnly_creatable] ok.keeps_edgeFanOut assms)

lemma keeps_databaseOps [keeps_intros]:
  "keeps (onDb dbOk) (createDatabaseTx newId input actingUserId)"
  "keeps (onDb dbOk) (createInlineDatabaseTx newId inlineInput actingUserId)"
  "keeps (onDb dbOk) (databaseArchiveWithClient databaseId actingUserId)"
  "keeps (onDb dbOk) (restoreDatabaseTx databaseId actingUserId)"
  "keeps (onDb dbOk) (renameDatabaseTx databaseId name actingUserId)"
  unfolding createDatabaseTx_def createInlineDatabaseTx_def databaseArchiveWithClient_def
    restoreDatabaseTx_def renameDatabaseTx_def announceSchema_def
  by (intro keeps_intros)+

lemma keeps_recomputeRollupCell [keeps_intros]:
  "keeps (onDb dbOk) (recomputeRollupCell ts propertyId itemId)"
  unfolding recomputeRollupCell_def
  by (intro keeps_intros readsOnly_keeps [OF readsOnly_properties(2)]
      readsOnly_keeps [OF readsOnly_items(2)] readsOnly_keeps [OF readsOnly_dependencies(3)])

section \<open>The state machine\<close>

inductive chokeReachable :: "writeEnv \<Rightarrow> world \<Rightarrow> world \<Rightarrow> bool" for we w0 where
  start: "chokeReachable we w0 w0"
| create: "chokeReachable we w0 w \<Longrightarrow>
    chokeReachable we w0 (snd (createItem env deliverable we affinity newId input user writer w))"
| update: "chokeReachable we w0 w \<Longrightarrow>
    chokeReachable we w0 (snd (updateItem env deliverable we affinity change user writer w))"
| delete: "chokeReachable we w0 w \<Longrightarrow>
    chokeReachable we w0 (snd (softDeleteItemOp env deliverable affinity databaseId itemId user w))"
| restore: "chokeReachable we w0 w \<Longrightarrow>
    chokeReachable we w0 (snd (restoreItemOp env deliverable databaseId itemId user w))"
| purge: "chokeReachable we w0 w \<Longrightarrow>
    chokeReachable we w0 (snd (purgeExpiredTrashSubtree env deliverable rootItemId cutoff w))"
| link: "chokeReachable we w0 w \<Longrightarrow>
    chokeReachable we w0 (snd (createRelation env deliverable (we_hooks we) newId edge w))"
| relink: "chokeReachable we w0 w \<Longrightarrow>
    chokeReachable we w0 (snd (updateRelation env deliverable (we_hooks we) edgeChange w))"
| unlink: "chokeReachable we w0 w \<Longrightarrow>
    chokeReachable we w0 (snd (deleteRelation env deliverable edgeEnd w))"
| createDb: "chokeReachable we w0 w \<Longrightarrow>
    chokeReachable we w0 (snd (withTransaction env deliverable (createDatabaseTx newId dbInput user) w))"
| createInlineDb: "chokeReachable we w0 w \<Longrightarrow>
    chokeReachable we w0 (snd (withTransaction env deliverable (createInlineDatabaseTx newId inlineInput user) w))"
| archiveDb: "chokeReachable we w0 w \<Longrightarrow>
    chokeReachable we w0 (snd (withTransaction env deliverable (databaseArchiveWithClient databaseId user) w))"
| restoreDb: "chokeReachable we w0 w \<Longrightarrow>
    chokeReachable we w0 (snd (withTransaction env deliverable (restoreDatabaseTx databaseId user) w))"
| renameDb: "chokeReachable we w0 w \<Longrightarrow>
    chokeReachable we w0 (snd (withTransaction env deliverable (renameDatabaseTx databaseId name user) w))"
| recompute: "chokeReachable we w0 w \<Longrightarrow>
    chokeReachable we w0 (snd (handleRollupRecomputeTask env deliverable ts propertyId itemId w))"


text \<open>Two items in a one-to-one relation, and a third that may not join it.\<close>

definition linkedWorld :: world where
  "linkedWorld = exampleWorld\<lparr>w_db := exampleDb
     \<lparr>t_properties := t_properties exampleDb @
        [exampleProperty ''pr'' ''d1'' ''partner'' ''relation''
           [(''relationDefinitionId'', JStr ''def''), (''targetDatabaseId'', JStr ''d1'')] ''user''],
      t_items := t_items exampleDb @ [exampleItem ''d1'' ''i3'' [] None, exampleItem ''d1'' ''i4'' [] None],
      t_relation_definitions := [\<lparr>rrd_id = ''def'', rrd_property_id_a = ''pr'', rrd_property_id_b = None,
        rrd_cardinality = ''one_to_one''\<rparr>]\<rparr>\<rparr>"

definition linkExample :: "id \<Rightarrow> id \<Rightarrow> id \<Rightarrow> world \<Rightarrow> (error + ItemRelationRow) \<times> world" where
  "linkExample edgeId caller target =
     createRelation exampleTx (\<lambda>_. True) noHooks edgeId
       \<lparr>cr_relationPropertyId = ''pr'', cr_callerItemId = caller, cr_targetItemId = target, cr_metadata = None\<rparr>"

lemma linkExample_eval:
  "map edgeTuple (t_item_relations (w_db (snd (linkExample ''e2'' ''i1'' ''i4''
      (snd (linkExample ''e1'' ''i1'' ''i3'' linkedWorld)))))) = [(''def'', ''i1'', ''i3'')] \<and>
   fst (linkExample ''e2'' ''i1'' ''i4'' (snd (linkExample ''e1'' ''i1'' ''i3'' linkedWorld))) =
     Inl (CardinalityViolationError ''def'' ''i1'' ''i4'')"
  by code_simp


end
