(* ===== verification/CreateProps.thy ===== *)
theory CreateProps
  imports ChokeSteps
begin

text \<open>
  Creating items: a retried create is answered with the item of the first one and writes
  nothing, and a create by a caller without system rights writes only what it may.
\<close>

section \<open>The steps of a create\<close>

definition givenProperties :: "CreateItemInput \<Rightarrow> obj" where
  "givenProperties input = (case ci_properties input of None \<Rightarrow> [] | Some p \<Rightarrow> p)"

definition announceCreate :: "writeEnv \<Rightarrow> DatabaseRow \<Rightarrow> ItemRow \<Rightarrow> id \<Rightarrow> WriteOptions \<Rightarrow> ItemRow op" where
  "announceCreate we database item databaseId options =
     andThen (runItemCreateHooks (we_hooks we)
                \<lparr>ch_database = database, ch_item = item, ch_properties = it_properties item,
                 ch_humanWriterUserId = wo_humanWriterUserId options\<rparr>)
       (andThen (triggerOnItemEventHeartbeats databaseId OpCreate (it_id item) (wo_queueAffinity options))
       (andThen (runAfterCommit (InvItem (it_databaseId item) (it_id item) OpCreate
                   (it_updatedAt item) (wo_actingUserId options)))
          (return item)))"

lemma createItemWithClient_InrE:
  assumes "createItemWithClient we newId input options c = Inr (item, c')"
  obtains
    (replayed) "assertDatabaseWritableForCreate (ci_databaseId input) (ci_idempotencyKey input) c =
      Inr (Some item, c)" and "c' = c"
  | (written) properties database result c1 where
      "assertDatabaseWritableForCreate (ci_databaseId input) (ci_idempotencyKey input) c = Inr (None, c)"
      and "listPropertiesByDatabase (ci_databaseId input) c = Inr (properties, c)"
      and "assertWritableProperties properties (keysOf (givenProperties input)) options = Inr ()"
      and "getDatabase (ci_databaseId input) c = Inr (Some database, c)"
      and "insertItemWithReplay newId
             \<lparr>ii_databaseId = ci_databaseId input,
              ii_properties = createProperties database (givenProperties input),
              ii_idempotencyKey = ci_idempotencyKey input\<rparr>
             (Some (resolveCreateProperties we properties (givenProperties input)
               (createProperties database (givenProperties input)))) c = Inr (result, c1)"
      and "item = ins_item result" and "\<not> ins_created result \<Longrightarrow> c' = c1"
      and "ins_created result \<Longrightarrow> announceCreate we database item (ci_databaseId input) options c1 = Inr (item, c')"
proof -
  from assms obtain replay where guard: "assertDatabaseWritableForCreate (ci_databaseId input)
      (ci_idempotencyKey input) c = Inr (replay, c)"
    unfolding createItemWithClient_def
    by (elim bnd_readsOnly_InrE) (auto intro: reads_intros)
  show thesis
  proof (cases replay)
    case (Some x)
    with assms guard show thesis
      by (intro replayed) (simp_all add: createItemWithClient_def guard bnd_Inr comp_simps)
  next
    case None
    note run = assms [unfolded createItemWithClient_def Let_def, folded givenProperties_def announceCreate_def]
    from run None guard obtain properties where properties:
        "listPropertiesByDatabase (ci_databaseId input) c = Inr (properties, c)"
      by (simp add: bnd_Inr) (erule bnd_readsOnly_InrE [OF _ readsOnly_properties(1)])
    with run None guard have writable:
        "assertWritableProperties properties (keysOf (givenProperties input)) options = Inr ()"
      by (cases "assertWritableProperties properties (keysOf (givenProperties input)) options")
        (auto simp: bnd_Inr andThen_def comp_simps)
    with run None guard properties obtain found where found:
        "getDatabase (ci_databaseId input) c = Inr (found, c)"
      by (simp add: bnd_Inr andThen_def comp_simps) (erule bnd_readsOnly_InrE [OF _ readsOnly_databases(1)])
    with run None guard properties writable obtain database where database: "found = Some database"
      by (cases found) (auto simp: bnd_Inr andThen_def comp_simps)
    with run None guard properties writable found obtain result c1 where ins: "insertItemWithReplay newId
             \<lparr>ii_databaseId = ci_databaseId input,
              ii_properties = createProperties database (givenProperties input),
              ii_idempotencyKey = ci_idempotencyKey input\<rparr>
             (Some (resolveCreateProperties we properties (givenProperties input)
               (createProperties database (givenProperties input)))) c = Inr (result, c1)"
      and rest: "(if \<not> ins_created result then return (ins_item result)
        else announceCreate we database (ins_item result) (ci_databaseId input) options) c1 = Inr (item, c')"
      by (simp add: bnd_Inr andThen_def [of "ofSum _"] comp_simps) (erule bnd_InrE, blast)
    have "item = ins_item result"
      using rest by (auto simp: announceCreate_def comp_simps split: if_splits elim!: andThen_InrE)
    with guard None properties writable found database ins rest show thesis
      by (intro written [of properties database result c1]) (auto simp: comp_simps)
  qed
qed

section \<open>A key that names a live item\<close>

definition keyedItem :: "string \<Rightarrow> id \<Rightarrow> id \<Rightarrow> db \<Rightarrow> bool" where
  "keyedItem key databaseId itemId d \<longleftrightarrow>
     (\<exists>k ks. filter (\<lambda>r. ik_key r = key) (t_idempotency_keys d) = k # ks \<and>
        ik_database_id k = databaseId \<and> ik_item_id k = itemId) \<and>
     (\<exists>r rs. filter (isItem databaseId itemId) (t_items d) = r # rs \<and> rit_deleted_at r = None)"

interpretation keyed: quiet "keyedItem key databaseId itemId" for key databaseId itemId
  by unfold_locales (simp_all add: keyedItem_def)

lemma keyedItemE:
  assumes "keyedItem key databaseId itemId d"
  obtains k ks r rs where "filter (\<lambda>r. ik_key r = key) (t_idempotency_keys d) = k # ks"
    and "ik_database_id k = databaseId" and "ik_item_id k = itemId"
    and "filter (isItem databaseId itemId) (t_items d) = r # rs" and "rit_deleted_at r = None"
    and "rit_id r = itemId" and "rit_database_id r = databaseId"
proof -
  obtain k ks r rs where 1: "filter (\<lambda>r. ik_key r = key) (t_idempotency_keys d) = k # ks"
      "ik_database_id k = databaseId" "ik_item_id k = itemId"
      "filter (isItem databaseId itemId) (t_items d) = r # rs" "rit_deleted_at r = None"
    using assms by (auto simp: keyedItem_def)
  from arg_cong [OF 1(4), of set] have "isItem databaseId itemId r" by auto
  with 1 that show thesis by (auto simp: isItem_def)
qed

lemma getItemById_apply: "getItemById databaseId itemId c =
    Inr (firstRow mapItemRow (filter (isItem databaseId itemId) (t_items (cl_db c))), c)"
  by (simp add: getItemById_def selectItems_def comp_simps)

lemma keyed_replay:
  assumes "keyedItem key databaseId itemId (cl_db c)"
  obtains item where "it_id item = itemId" and "it_databaseId item = databaseId"
    and "it_deletedAt item = None"
    and "findIdempotentReplay databaseId key True c = Inr (Some item, c)"
    and "\<And>newId. reserveOrReplay key databaseId newId c = Inr (Some item, c)"
proof (rule keyedItemE [OF assms])
  fix k ks r rs
  assume k: "filter (\<lambda>r. ik_key r = key) (t_idempotency_keys (cl_db c)) = k # ks"
    "ik_database_id k = databaseId" "ik_item_id k = itemId"
    and r: "filter (isItem databaseId itemId) (t_items (cl_db c)) = r # rs" "rit_deleted_at r = None"
    "rit_id r = itemId" "rit_database_id r = databaseId"
  from k(1) have taken: "\<exists>q \<in> set (t_idempotency_keys (cl_db c)). ik_key q = key"
    by (auto simp: filter_eq_Cons_iff)
  have get: "getItemById databaseId itemId c = Inr (Some (mapItemRow r), c)"
    using r(1) by (simp add: getItemById_apply firstRow_def)
  show thesis
  proof (rule that)
    show "it_id (mapItemRow r) = itemId" "it_databaseId (mapItemRow r) = databaseId"
      "it_deletedAt (mapItemRow r) = None"
      using r by (simp_all add: mapItemRow_def)
    show "findIdempotentReplay databaseId key True c = Inr (Some (mapItemRow r), c)"
      using k get r(2) by (simp add: findIdempotentReplay_def comp_simps bnd_Inr mapItemRow_def)
    show "reserveOrReplay key databaseId newId c = Inr (Some (mapItemRow r), c)" for newId
      using k get r(2) taken
      by (simp add: reserveOrReplay_def reserveKey_def comp_simps bnd_Inr mapItemRow_def)
  qed
qed

lemma insert_replay:
  assumes "keyedItem key databaseId itemId (cl_db c)" and "key \<noteq> ''''"
  obtains item where "it_id item = itemId" and "it_databaseId item = databaseId"
    and "\<And>newId props m. insertItemWithReplay newId \<lparr>ii_databaseId = databaseId, ii_properties = props,
           ii_idempotencyKey = Some key\<rparr> m c = Inr (\<lparr>ins_item = item, ins_created = False\<rparr>, c)"
proof -
  obtain item where item: "it_id item = itemId" "it_databaseId item = databaseId"
    and run: "\<And>newId. reserveOrReplay key databaseId newId c = Inr (Some item, c)"
    using keyed_replay [OF assms(1)] by metis
  show thesis
    by (rule that [OF item]) (simp add: insertItemWithReplay_def assms(2) run bnd_Inr comp_simps)
qed

lemma create_replayed:
  assumes keyed: "keyedItem key (ci_databaseId input) itemId (cl_db c)" and key: "key \<noteq> ''''"
    and input: "ci_idempotencyKey input = Some key"
    and run: "createItemWithClient we newId input options c = Inr (item, c')"
  shows "it_id item = itemId \<and> it_databaseId item = ci_databaseId input \<and> c' = c"
  using run
proof (cases rule: createItemWithClient_InrE)
  case replayed
  obtain stored where stored: "it_id stored = itemId" "it_databaseId stored = ci_databaseId input"
    and find: "findIdempotentReplay (ci_databaseId input) key True c = Inr (Some stored, c)"
    using keyed_replay [OF keyed] by metis
  from replayed(1) find key have "item = stored"
    unfolding assertDatabaseWritableForCreate_def input
    by (elim bnd_readsOnly_InrE)
      (auto intro: reads_intros simp: truthy_def comp_simps bnd_Inr split: option.splits if_splits)
  with stored replayed(2) show ?thesis by simp
next
  case (written properties database result c1)
  obtain again where again: "it_id again = itemId" "it_databaseId again = ci_databaseId input"
    and ins: "\<And>newId props m. insertItemWithReplay newId \<lparr>ii_databaseId = ci_databaseId input,
      ii_properties = props, ii_idempotencyKey = Some key\<rparr> m c =
        Inr (\<lparr>ins_item = again, ins_created = False\<rparr>, c)"
    using insert_replay [OF keyed key] by metis
  from written(5) have "result = \<lparr>ins_item = again, ins_created = False\<rparr>" "c1 = c"
    by (simp_all add: input ins)
  with again written(6,7) show ?thesis by simp
qed

section \<open>What a create leaves behind\<close>

lemma reserveKey_taken:
  assumes "reserveKey key databaseId itemId c = Inr (n, c')" and "n \<noteq> 0"
  shows "filter (\<lambda>r. ik_key r = key) (t_idempotency_keys (cl_db c')) =
      [\<lparr>ik_key = key, ik_database_id = databaseId, ik_item_id = itemId\<rparr>]"
  using assms
  by (auto simp: reserveKey_def andThen_def comp_simps filter_empty_conv bnd_def statement_apply split: if_splits)

lemma requireAffectedRows_InrD: "requireAffectedRows n ctx c = Inr (m, c') \<Longrightarrow> n \<noteq> 0 \<and> c' = c"
  by (auto simp: requireAffectedRows_def comp_simps split: if_splits)

lemma reserveAgain:
  assumes "bnd (bnd (deleteKey key) (\<lambda>n. requireAffectedRows n ctx)) (\<lambda>_.
      bnd (bnd (reserveKey key databaseId newId) (\<lambda>n. requireAffectedRows n ctx)) (\<lambda>_. return None)) c =
    Inr (replay, c')"
  shows "replay = None \<and> filter (\<lambda>r. ik_key r = key) (t_idempotency_keys (cl_db c')) =
      [\<lparr>ik_key = key, ik_database_id = databaseId, ik_item_id = newId\<rparr>]"
  using assms
  by (elim bnd_InrE) (auto simp: comp_simps dest!: requireAffectedRows_InrD reserveKey_taken)

lemma reserveOrReplay_cases:
  assumes "reserveOrReplay key databaseId newId c = Inr (replay, c')"
  shows "case replay of
      None \<Rightarrow> filter (\<lambda>r. ik_key r = key) (t_idempotency_keys (cl_db c')) =
        [\<lparr>ik_key = key, ik_database_id = databaseId, ik_item_id = newId\<rparr>]
    | Some item \<Rightarrow> c' = c \<and> keyedItem key databaseId (it_id item) (cl_db c)"
proof -
  from assms obtain n c1 where res: "reserveKey key databaseId newId c = Inr (n, c1)"
    and rest: "(if n \<noteq> 0 then return None
      else bnd (query (\<lambda>d. filter (\<lambda>r. ik_key r = key) (t_idempotency_keys d))) (\<lambda>rows.
       case rows of
         [] \<Rightarrow> throw (ConflictError (Some ''key''))
       | reserved # _ \<Rightarrow>
           if ik_database_id reserved \<noteq> databaseId then throw (ConflictError (Some ''key''))
           else bnd (getItemById databaseId (ik_item_id reserved)) (\<lambda>existing.
             case existing of
               Some item \<Rightarrow>
                 if it_deletedAt item = None then return (Some item)
                 else bnd (bnd (deleteKey key) (\<lambda>n. requireAffectedRows n ''idempotency_keys'')) (\<lambda>_.
                      bnd (bnd (reserveKey key databaseId newId)
                             (\<lambda>n. requireAffectedRows n ''idempotency_keys'')) (\<lambda>_. return None))
             | None \<Rightarrow>
                 bnd (bnd (deleteKey key) (\<lambda>n. requireAffectedRows n ''idempotency_keys'')) (\<lambda>_.
                 bnd (bnd (reserveKey key databaseId newId)
                        (\<lambda>n. requireAffectedRows n ''idempotency_keys'')) (\<lambda>_. return None))))) c1 =
      Inr (replay, c')"
    unfolding reserveOrReplay_def by (elim bnd_InrE) blast
  show ?thesis
  proof (cases "n = 0")
    case False
    with rest res reserveKey_taken [OF res] show ?thesis by (simp add: comp_simps)
  next
    case True
    with res have c1: "c1 = c"
      by (auto simp: reserveKey_def andThen_def comp_simps bnd_def statement_apply split: if_splits)
    obtain k ks where k: "filter (\<lambda>r. ik_key r = key) (t_idempotency_keys (cl_db c)) = k # ks"
        "ik_database_id k = databaseId"
      using rest True unfolding c1 by (auto simp: comp_simps split: list.splits if_splits)
    show ?thesis
    proof (cases "filter (isItem databaseId (ik_item_id k)) (t_items (cl_db c))")
      case Nil
      with rest True k show ?thesis
        unfolding c1 by (auto simp: comp_simps getItemById_apply bnd_Inr firstRow_def dest!: reserveAgain)
    next
      case (Cons r rs)
      from arg_cong [OF Cons, of set] have "rit_id r = ik_item_id k" by (auto simp: isItem_def)
      with Cons rest True k show ?thesis
        unfolding c1
        by (auto simp: comp_simps getItemById_apply bnd_Inr firstRow_def mapItemRow_def keyedItem_def
            split: if_splits dest!: reserveAgain)
    qed
  qed
qed

lemma insertItemsRow_InrE:
  assumes "insertItemsRow itemId databaseId properties c = Inr (rows, c')"
  obtains "rows = [\<lparr>rit_id = itemId, rit_database_id = databaseId, rit_properties = properties,
                rit_computed = [], rit_updated_at = cl_now c, rit_deleted_at = None\<rparr>]"
    and "filter (isItem databaseId itemId) (t_items (cl_db c)) = []"
    and "databaseId \<in> set (t_partitions (cl_db c))"
    and "c' = c\<lparr>cl_db := (cl_db c)\<lparr>t_items := t_items (cl_db c) @ rows\<rparr>\<rparr>"
  using assms
  by (auto simp: insertItemsRow_def Let_def andThen_def bnd_def gets_def statement_def modify_def
      return_def throw_def filter_empty_conv split: if_splits)

lemma insert_keyed:
  assumes "insertItemWithReplay newId \<lparr>ii_databaseId = databaseId, ii_properties = props,
      ii_idempotencyKey = Some key\<rparr> (Some m) c = Inr (result, c')"
    and "key \<noteq> ''''" and "readsOnly m"
  shows "keyedItem key databaseId (it_id (ins_item result)) (cl_db c')"
proof -
  from assms(1,2) obtain replay c1 where res: "reserveOrReplay key databaseId newId c = Inr (replay, c1)"
    and rest: "(case replay of
       Some item \<Rightarrow> return \<lparr>ins_item = item, ins_created = False\<rparr>
     | None \<Rightarrow> bnd m (\<lambda>properties.
         bnd (insertItemsRow newId databaseId properties) (\<lambda>rows.
         bnd (requireSingleRow rows ''items row'') (\<lambda>row.
         return \<lparr>ins_item = mapItemRow row, ins_created = True\<rparr>)))) c1 = Inr (result, c')"
    unfolding insertItemWithReplay_def by (simp, elim bnd_InrE) blast
  show ?thesis
  proof (cases replay)
    case (Some item)
    with reserveOrReplay_cases [OF res] rest show ?thesis by (auto simp: comp_simps)
  next
    case None
    from rest None obtain properties rows row where
        ins: "insertItemsRow newId databaseId properties c1 = Inr (rows, c')"
      and row: "rows = row # tl rows" "result = \<lparr>ins_item = mapItemRow row, ins_created = True\<rparr>"
      by (auto elim!: bnd_InrE dest!: readsOnlyD [OF assms(3)] readsOnlyD [OF readsOnly_requireSingleRow]
          simp: comp_simps requireSingleRow_def split: list.splits)
    from ins row reserveOrReplay_cases [OF res] None show ?thesis
      by (elim insertItemsRow_InrE) (auto simp: keyedItem_def mapItemRow_def isItem_def)
  qed
qed

lemma findReplay_keyed:
  assumes "findIdempotentReplay databaseId key True c = Inr (Some item, c')"
  shows "keyedItem key databaseId (it_id item) (cl_db c)"
proof -
  obtain k ks where k: "filter (\<lambda>r. ik_key r = key) (t_idempotency_keys (cl_db c)) = k # ks"
      "ik_database_id k = databaseId"
    using assms by (auto simp: findIdempotentReplay_def comp_simps split: list.splits if_splits)
  show ?thesis
  proof (cases "filter (isItem databaseId (ik_item_id k)) (t_items (cl_db c))")
    case Nil
    with assms k show ?thesis
      by (auto simp: findIdempotentReplay_def comp_simps getItemById_apply bnd_Inr firstRow_def)
  next
    case (Cons r rs)
    from arg_cong [OF Cons, of set] have "rit_id r = ik_item_id k" by (auto simp: isItem_def)
    with assms k Cons show ?thesis
      by (auto simp: findIdempotentReplay_def comp_simps getItemById_apply bnd_Inr firstRow_def
          mapItemRow_def keyedItem_def split: if_splits)
  qed
qed

lemma keyed_announce:
  assumes "hooksKeep (onDb (keyedItem key databaseId itemId)) (we_hooks we)"
  shows "keeps (onDb (keyedItem key databaseId itemId)) (announceCreate we database item dbId options)"
  unfolding announceCreate_def by (intro keeps_intros keyed.keeps_trigger assms)

lemma create_keyed:
  assumes run: "createItemWithClient we newId input options c = Inr (item, c')"
    and key: "ci_idempotencyKey input = Some key" "key \<noteq> ''''"
    and hooks: "\<And>itemId. hooksKeep (onDb (keyedItem key (ci_databaseId input) itemId)) (we_hooks we)"
  shows "keyedItem key (ci_databaseId input) (it_id item) (cl_db c')"
  using run
proof (cases rule: createItemWithClient_InrE)
  case replayed
  then have "findIdempotentReplay (ci_databaseId input) key True c = Inr (Some item, c)"
    using key unfolding assertDatabaseWritableForCreate_def
    by (elim bnd_readsOnly_InrE)
      (auto intro: reads_intros simp: truthy_def comp_simps elim!: bnd_readsOnly_InrE
        split: option.splits if_splits)
  then have "keyedItem key (ci_databaseId input) (it_id item) (cl_db c)" by (rule findReplay_keyed)
  with replayed show ?thesis by simp
next
  case (written properties database result c1)
  have "keyedItem key (ci_databaseId input) (it_id (ins_item result)) (cl_db c1)"
    using written(5) key by (intro insert_keyed) (auto intro: readsOnly_resolve)
  then have c1: "onDb (keyedItem key (ci_databaseId input) (it_id item)) c1"
    using written(6) by (simp add: onDb_def)
  show ?thesis
  proof (cases "ins_created result")
    case True
    from keepsD [OF keyed_announce [OF hooks] c1 written(8) [OF True]] show ?thesis by (simp add: onDb_def)
  next
    case False
    with written(7) c1 show ?thesis by (simp add: onDb_def)
  qed
qed

section \<open>Retries\<close>

text \<open>
  C2: once a create with an idempotency key has committed, any later create
  with that key in that database - by whichever caller, with whatever properties and generated
  id - that succeeds answers with the same item and leaves the world as it was: no second row, no
  event, no job. The write hooks are only assumed to leave the key and the item alone.
\<close>

theorem create_retry_same_item:
  assumes first: "createItem env deliverable we affinity newId input user writer w = (Inr item, w1)"
    and key: "ci_idempotencyKey input = Some key" "key \<noteq> ''''"
    and hooks: "\<And>itemId. hooksKeep (onDb (keyedItem key (ci_databaseId input) itemId)) (we_hooks we)"
    and retry: "createItem env' deliverable' we' affinity' newId' input' user' writer' w1 = (Inr again, w2)"
    and same: "ci_idempotencyKey input' = Some key" "ci_databaseId input' = ci_databaseId input"
  shows "it_id again = it_id item \<and> it_databaseId again = ci_databaseId input \<and> w2 = w1"
proof -
  from first obtain scope c where c: "createItemWithClient we newId input
      (noOptions\<lparr>wo_queueAffinity := Some affinity, wo_actingUserId := user,
                  wo_humanWriterUserId := writer\<rparr>) (beginTx env scope w) = Inr (item, c)"
      "w_db w1 = cl_db c" "w_parked w1 = []"
    unfolding createItem_def by (elim withTransaction_InrE)
  have keyed: "keyedItem key (ci_databaseId input) (it_id item) (w_db w1)"
    using create_keyed [OF c(1) key hooks] c(2) by simp
  from retry obtain scope' c' where c': "createItemWithClient we' newId' input'
      (noOptions\<lparr>wo_queueAffinity := Some affinity', wo_actingUserId := user',
                  wo_humanWriterUserId := writer'\<rparr>) (beginTx env' scope' w1) = Inr (again, c')"
      "w_db w2 = cl_db c'" "w_parked w2 = []" "w_notified w2 = w_notified w1 @ filter deliverable' (cl_after c')"
    unfolding createItem_def by (elim withTransaction_InrE)
  have "it_id again = it_id item \<and> it_databaseId again = ci_databaseId input' \<and> c' = beginTx env' scope' w1"
    using keyed same key(2) by (intro create_replayed [OF _ _ _ c'(1)]) (simp_all add: beginTx_def)
  with c' c(3) same show ?thesis by (simp add: beginTx_def)
qed

definition createExample :: "string \<Rightarrow> id \<Rightarrow> obj \<Rightarrow> world \<Rightarrow> (error + ItemRow) \<times> world" where
  "createExample key newId props =
     createItem exampleTx (\<lambda>_. True) exampleWriteEnv [] newId
       \<lparr>ci_databaseId = ''d1'', ci_properties = Some props, ci_idempotencyKey = Some key\<rparr> None None"

lemma createExample_first:
  "createExample ''k2'' ''i9'' [(''name'', JStr ''x'')] exampleWorld =
    (Inr \<lparr>it_id = ''i9'', it_databaseId = ''d1'', it_properties = [(''name'', JStr ''x''), (''size'', JNum 3)],
       it_computed = [], it_updatedAt = 9, it_deletedAt = None\<rparr>,
     snd (createExample ''k2'' ''i9'' [(''name'', JStr ''x'')] exampleWorld))"
  by code_simp

lemma createExample_retry:
  "createExample ''k2'' ''i10'' [] (snd (createExample ''k2'' ''i9'' [(''name'', JStr ''x'')] exampleWorld)) =
    (Inr \<lparr>it_id = ''i9'', it_databaseId = ''d1'', it_properties = [(''name'', JStr ''x''), (''size'', JNum 3)],
       it_computed = [], it_updatedAt = 9, it_deletedAt = None\<rparr>,
     snd (createExample ''k2'' ''i10'' [] (snd (createExample ''k2'' ''i9'' [(''name'', JStr ''x'')] exampleWorld))))"
  by code_simp

theorem create_retry_same_item_witness:
  "snd (createExample ''k2'' ''i10'' [] (snd (createExample ''k2'' ''i9'' [(''name'', JStr ''x'')] exampleWorld))) =
   snd (createExample ''k2'' ''i9'' [(''name'', JStr ''x'')] exampleWorld)"
  using create_retry_same_item [OF createExample_first [unfolded createExample_def] _ _ _
      createExample_retry [unfolded createExample_def]]
  by (simp add: createExample_def exampleWriteEnv_def)

end
