(* ===== verification/UpdateProps.thy ===== *)
theory UpdateProps
  imports CreateProps
begin

text \<open>
  Updating items: what a committed update has checked and changed, and the protection of
  computed, relational and system-owned properties against callers without system rights.
\<close>

section \<open>The steps of an update\<close>

definition announceUpdate ::
  "writeEnv \<Rightarrow> DatabaseRow \<Rightarrow> UpdateItemInput \<Rightarrow> obj \<Rightarrow> ItemRow \<Rightarrow> WriteOptions \<Rightarrow> unit op" where
  "announceUpdate we database input patch item options =
     andThen (runItemUpdateHooks (we_hooks we)
                \<lparr>uh_database = database, uh_item = item, uh_propertiesPatch = patch,
                 uh_humanWriterUserId = wo_humanWriterUserId options,
                 uh_skipMailDesiredStateRecording = wo_skipMailDesiredStateRecording options\<rparr>)
    (andThen (triggerOnItemEventHeartbeats (ui_databaseId input) OpUpdate (it_id item)
                (wo_queueAffinity options))
    (andThen (forEach (keysOf (ui_propertiesPatch input))
                (enqueueDependentRollups (ui_databaseId input) (it_id item)))
    (andThen (applyTimezoneChange we (it_id item) (ui_propertiesPatch input))
       (runAfterCommit (InvItem (it_databaseId item) (it_id item) OpUpdate
          (it_updatedAt item) (wo_actingUserId options))))))"

lemma andThen_assoc: "andThen (andThen m n) k = andThen m (andThen n k)"
  by (rule ext) (auto simp: andThen_def bnd_def split: sum.splits)

lemma updateItemWithClient_InrE:
  assumes "updateItemWithClient we input options c = Inr (r, c')"
  obtains properties database patch updated c1 where
    "assertDatabaseNotArchived (ui_databaseId input) c = Inr ((), c)"
    and "listPropertiesByDatabase (ui_databaseId input) c = Inr (properties, c)"
    and "assertWritableProperties properties (keysOf (ui_propertiesPatch input)) options = Inr ()"
    and "getDatabase (ui_databaseId input) c = Inr (Some database, c)"
    and "updatePatch database input c = Inr (patch, c)"
    and "updateItemProperties (input\<lparr>ui_propertiesPatch := patch\<rparr>) c = Inr (updated, c1)"
    and "announceUpdate we database input patch (ur_item updated) options c1 = Inr ((), c')"
    and "r = \<lparr>ur_item = ur_item updated,
              ur_previous = map (\<lambda>key. (key, case map_of (ur_previous updated) key of
                  None \<Rightarrow> JNull | Some v \<Rightarrow> v)) (keysOf (ui_propertiesPatch input))\<rparr>"
proof -
  note run = assms [unfolded updateItemWithClient_def Let_def]
  obtain u where guard: "assertDatabaseNotArchived (ui_databaseId input) c = Inr (u, c)"
    using run by (rule andThen_readsOnly_InrE [OF _ readsOnly_databases(2)])
  with run obtain properties where properties:
      "listPropertiesByDatabase (ui_databaseId input) c = Inr (properties, c)"
    by (simp add: andThen_Inr) (erule bnd_readsOnly_InrE [OF _ readsOnly_properties(1)])
  with run guard have writable:
      "assertWritableProperties properties (keysOf (ui_propertiesPatch input)) options = Inr ()"
    by (cases "assertWritableProperties properties (keysOf (ui_propertiesPatch input)) options")
      (auto simp: bnd_Inr andThen_def comp_simps)
  with run guard properties obtain found where found:
      "getDatabase (ui_databaseId input) c = Inr (found, c)"
    by (simp add: bnd_Inr andThen_def comp_simps) (erule bnd_readsOnly_InrE [OF _ readsOnly_databases(1)])
  with run guard properties writable obtain database where database: "found = Some database"
    by (cases found) (auto simp: bnd_Inr andThen_def comp_simps)
  with run guard properties writable found obtain patch where patch: "updatePatch database input c = Inr (patch, c)"
    by (simp add: bnd_Inr andThen_def [of "ofSum _"] andThen_def [of "assertDatabaseNotArchived _"] comp_simps)
      (erule bnd_readsOnly_InrE [OF _ readsOnly_updatePatch])
  with run guard properties writable found database obtain updated c1 where
      upd: "updateItemProperties (input\<lparr>ui_propertiesPatch := patch\<rparr>) c = Inr (updated, c1)"
    and rest: "andThen (announceUpdate we database input patch (ur_item updated) options)
      (return \<lparr>ur_item = ur_item updated,
              ur_previous = map (\<lambda>key. (key, case map_of (ur_previous updated) key of
                  None \<Rightarrow> JNull | Some v \<Rightarrow> v)) (keysOf (ui_propertiesPatch input))\<rparr>) c1 = Inr (r, c')"
    unfolding announceUpdate_def andThen_assoc
    by (simp add: bnd_Inr andThen_def [of "ofSum _"] andThen_def [of "assertDatabaseNotArchived _"] comp_simps)
      (erule bnd_InrE, blast)
  from rest obtain u' where "announceUpdate we database input patch (ur_item updated) options c1 = Inr (u', c')"
    and "r = \<lparr>ur_item = ur_item updated,
              ur_previous = map (\<lambda>key. (key, case map_of (ur_previous updated) key of
                  None \<Rightarrow> JNull | Some v \<Rightarrow> v)) (keysOf (ui_propertiesPatch input))\<rparr>"
    by (elim andThen_InrE) (simp add: comp_simps)
  with guard properties writable found database patch upd show thesis
    by (intro that [of properties database patch updated c1]) simp_all
qed

lemma updateItemProperties_InrE:
  assumes "updateItemProperties input c = Inr (updated, c')"
  obtains row rows where "filter (isItem (ui_databaseId input) (ui_itemId input)) (t_items (cl_db c)) = row # rows"
    and "rit_deleted_at row = None"
    and "ui_ifVersion input = None \<or> ui_ifVersion input = Some (toISOString (rit_updated_at row))"
    and "c' = c\<lparr>cl_db := (cl_db c)\<lparr>t_items := map (\<lambda>r. if isItem (ui_databaseId input) (ui_itemId input) r
            then r\<lparr>rit_properties := spread (rit_properties r) (ui_propertiesPatch input),
                   rit_updated_at := cl_now c\<rparr> else r) (t_items (cl_db c))\<rparr>\<rparr>"
    and "ur_item updated = mapItemRow (row\<lparr>rit_properties := spread (rit_properties row) (ui_propertiesPatch input),
                   rit_updated_at := cl_now c\<rparr>)"
    and "ur_previous updated = map (\<lambda>key. (key, if hasOwn (rit_properties row) key
                      then the (map_of (rit_properties row) key) else JNull)) (keysOf (ui_propertiesPatch input))"
proof (cases "filter (isItem (ui_databaseId input) (ui_itemId input)) (t_items (cl_db c))")
  case Nil
  with assms show thesis
    by (auto simp: updateItemProperties_def lockItemById_def selectItems_def comp_simps bnd_Inr firstRow_def)
next
  case (Cons row rows)
  with assms that show thesis
    by (auto simp: updateItemProperties_def lockItemById_def selectItems_def comp_simps bnd_Inr firstRow_def
        mapItemRow_def updateItemsReturning_def requireSingleRow_def andThen_def statement_apply
        split: if_splits)
qed

section \<open>Protected properties\<close>

definition protectedKey :: "db \<Rightarrow> id \<Rightarrow> string \<Rightarrow> bool" where
  "protectedKey d databaseId key \<longleftrightarrow>
     (\<exists>p \<in> set (t_properties d). rpr_database_id p = databaseId \<and> rpr_key p = key \<and>
        (rpr_type p = ''rollup'' \<or> rpr_type p = ''relation'' \<or> rpr_owner p = ''system''))"

text \<open>The unique index on a database's property keys.\<close>

definition propertyKeysUnique :: "db \<Rightarrow> id \<Rightarrow> bool" where
  "propertyKeysUnique d databaseId \<longleftrightarrow>
     distinct (map rpr_key (filter (\<lambda>p. rpr_database_id p = databaseId) (t_properties d)))"

lemma mapPropertyRow_Inr:
  assumes "mapPropertyRow row = Inr p"
  shows "pr_key p = rpr_key row" "rpr_type row = ''rollup'' \<Longrightarrow> pr_type p = PtRollup"
    "rpr_type row = ''relation'' \<Longrightarrow> pr_type p = PtRelation"
    "rpr_owner row = ''system'' \<Longrightarrow> pr_owner p = OwnerSystem"
  using assms
  by (auto simp: mapPropertyRow_def assertKnownValue_def PROPERTY_TYPES_def PROPERTY_OWNERS_def
      split: sum.splits option.splits if_splits)

lemma firstError_Inr: "firstError f xs = Inr () \<Longrightarrow> x \<in> set xs \<Longrightarrow> f x = Inr ()"
  by (induction xs) (auto split: sum.splits)

lemma map_of_unique:
  "distinct (map k ps) \<Longrightarrow> p \<in> set ps \<Longrightarrow> map_of (rev (map (\<lambda>p. (k p, p)) ps)) (k p) = Some p"
  by (subst map_of_eq_Some_iff) (auto simp: rev_map [symmetric] comp_def)

lemma protected_not_written:
  assumes protected: "protectedKey (cl_db c) databaseId key" and unique: "propertyKeysUnique (cl_db c) databaseId"
    and list: "listPropertiesByDatabase databaseId c = Inr (properties, c')"
    and ok: "assertWritableProperties properties ks options = Inr ()"
    and user: "wo_allowedSystemKeys options = None"
  shows "key \<notin> set ks"
proof
  assume key: "key \<in> set ks"
  let ?rows = "filter (\<lambda>r. rpr_database_id r = databaseId) (t_properties (cl_db c))"
  note rows = listProperties_rows [OF list]
  obtain row where row: "row \<in> set ?rows" "rpr_key row = key"
      "rpr_type row = ''rollup'' \<or> rpr_type row = ''relation'' \<or> rpr_owner row = ''system''"
    using protected by (auto simp: protectedKey_def)
  from row(1) have "mapPropertyRow row \<in> set (map mapPropertyRow (sort_key rpr_key ?rows))" by simp
  then obtain p where p: "p \<in> set properties" "mapPropertyRow row = Inr p"
    unfolding rows by auto
  have keys: "map pr_key properties = map rpr_key (sort_key rpr_key ?rows)"
  proof -
    have "list_all2 (\<lambda>r q. mapPropertyRow r = Inr q) (sort_key rpr_key ?rows) properties"
      using rows by (auto simp: list_all2_conv_all_nth list_eq_iff_nth_eq)
    then have "list_all2 (\<lambda>r q. rpr_key r = pr_key q) (sort_key rpr_key ?rows) properties"
      by (rule list_all2_mono) (simp add: mapPropertyRow_Inr(1))
    then show ?thesis by (auto simp: list_all2_conv_all_nth list_eq_iff_nth_eq)
  qed
  have "distinct (map pr_key properties)"
    unfolding keys using unique by (simp add: propertyKeysUnique_def distinct_map)
  then have "map_of (rev (map (\<lambda>p. (pr_key p, p)) properties)) key = Some p"
    using map_of_unique [of pr_key properties p] p mapPropertyRow_Inr(1) [OF p(2)] row(2) by simp
  moreover have "assertKeyWritable properties options key = Inr ()"
    using firstError_Inr [OF ok [unfolded assertWritableProperties_def] key] .
  ultimately show False
    using row(3) mapPropertyRow_Inr(2-4) [OF p(2)] user
    by (auto simp: assertKeyWritable_def split: if_splits)
qed

section \<open>What an update changes\<close>

lemma updatePatch_cases:
  assumes "updatePatch database input c = Inr (patch, c')"
  obtains "patch = ui_propertiesPatch input" | v where "patch = setProp ''time'' v (ui_propertiesPatch input)"
  using assms
  by (auto simp: updatePatch_def Let_def comp_simps elim!: bnd_InrE split: if_splits option.splits)

lemma updatePatch_key:
  assumes "updatePatch database input c = Inr (patch, c')" and "k \<notin> set (keysOf (ui_propertiesPatch input))"
    and "k \<noteq> ''time''"
  shows "k \<notin> set (keysOf patch)"
  using assms(1)
proof (cases rule: updatePatch_cases)
  case (2 v)
  with assms(2,3) show ?thesis by (simp add: setProp_def keysOf_def dom_update)
qed (use assms in simp)

lemma map_of_spread_other: "k \<notin> set (keysOf b) \<Longrightarrow> map_of (spread a b) k = map_of a k"
  by (auto simp: spread_def map_of_spread_gen keysOf_def map_of_eq_None_iff split: option.split)
    (metis map_of_SomeD fst_conv imageI set_rev)

text \<open>The values of one property, item by item.\<close>

definition valuesOf :: "string \<Rightarrow> db \<Rightarrow> (id \<times> id \<times> json option) list" where
  "valuesOf key d = map (\<lambda>r. (rit_database_id r, rit_id r, map_of (rit_properties r) key)) (t_items d)"

definition valuesAre :: "string \<Rightarrow> (id \<times> id \<times> json option) list \<Rightarrow> db \<Rightarrow> bool" where
  "valuesAre key vs d \<longleftrightarrow> valuesOf key d = vs"

interpretation values_kept: quiet "valuesAre key vs" for key vs
  by unfold_locales (simp_all add: valuesAre_def valuesOf_def)

lemma announceUpdate_keeps:
  assumes "hooksKeep (onDb (valuesAre key vs)) (we_hooks we)"
  shows "keeps (onDb (valuesAre key vs)) (announceUpdate we database input patch item options)"
  unfolding announceUpdate_def
  by (intro keeps_intros values_kept.keeps_trigger values_kept.keeps_dependents values_kept.keeps_timezone assms)

lemma updateItemProperties_values:
  assumes "updateItemProperties input c = Inr (updated, c')" and "key \<notin> set (keysOf (ui_propertiesPatch input))"
  shows "valuesOf key (cl_db c') = valuesOf key (cl_db c)"
  using assms by (elim updateItemProperties_InrE) (simp add: valuesOf_def map_of_spread_other)


definition updateExample :: "obj \<Rightarrow> int option \<Rightarrow> world \<Rightarrow> (error + UpdateItemResult) \<times> world" where
  "updateExample patch version =
     updateItem exampleTx (\<lambda>_. True) exampleWriteEnv []
       \<lparr>ui_databaseId = ''d1'', ui_itemId = ''i1'', ui_propertiesPatch = patch, ui_ifVersion = version\<rparr> None None"

lemma updateExample_eval:
  "updateExample [(''name'', JStr ''two'')] None exampleWorld =
    (Inr \<lparr>ur_item = \<lparr>it_id = ''i1'', it_databaseId = ''d1'',
            it_properties = [(''name'', JStr ''two''), (''hash'', JStr ''h'')], it_computed = [],
            it_updatedAt = 9, it_deletedAt = None\<rparr>,
          ur_previous = [(''name'', JStr ''one'')]\<rparr>,
     snd (updateExample [(''name'', JStr ''two'')] None exampleWorld))"
  by code_simp


section \<open>Optimistic locking\<close>

definition versionIs :: "id \<Rightarrow> id \<Rightarrow> int \<Rightarrow> db \<Rightarrow> bool" where
  "versionIs databaseId itemId version d \<longleftrightarrow>
     (case filter (isItem databaseId itemId) (t_items d) of
        [] \<Rightarrow> False | r # _ \<Rightarrow> toISOString (rit_updated_at r) = version)"

interpretation version_kept: quiet "versionIs databaseId itemId version" for databaseId itemId version
  by unfold_locales (simp_all add: versionIs_def)

lemma announceUpdate_version:
  assumes "hooksKeep (onDb (versionIs databaseId itemId v)) (we_hooks we)"
  shows "keeps (onDb (versionIs databaseId itemId v)) (announceUpdate we database input patch item options)"
  unfolding announceUpdate_def
  by (intro keeps_intros version_kept.keeps_trigger version_kept.keeps_dependents
      version_kept.keeps_timezone assms)

lemma filter_map_kept:
  "(\<And>r. p (f r) = p r) \<Longrightarrow> filter p (map f xs) = map f (filter p xs)"
  by (induction xs) auto

lemma updateItemProperties_version:
  assumes "updateItemProperties input c = Inr (updated, c')"
  shows "versionIs (ui_databaseId input) (ui_itemId input) (toISOString (cl_now c)) (cl_db c')"
  using assms
proof (rule updateItemProperties_InrE)
  let ?p = "isItem (ui_databaseId input) (ui_itemId input)"
  let ?f = "\<lambda>r. if ?p r then r\<lparr>rit_properties := spread (rit_properties r) (ui_propertiesPatch input),
                   rit_updated_at := cl_now c\<rparr> else r"
  fix row rows
  assume first: "filter ?p (t_items (cl_db c)) = row # rows"
    and c': "c' = c\<lparr>cl_db := (cl_db c)\<lparr>t_items := map ?f (t_items (cl_db c))\<rparr>\<rparr>"
  from arg_cong [OF first, of set] have "?p row" by auto
  have "filter ?p (map ?f (t_items (cl_db c))) = map ?f (row # rows)"
    unfolding first [symmetric] by (rule filter_map_kept) (simp add: isItem_def)
  with \<open>?p row\<close> c' show ?thesis by (simp add: versionIs_def)
qed

lemma update_sees_version:
  assumes "updateItemWithClient we input options c = Inr (r, c')" and "ui_ifVersion input = Some v"
    and "versionIs (ui_databaseId input) (ui_itemId input) version (cl_db c)"
  shows "v = version"
  using assms(1)
proof (cases rule: updateItemWithClient_InrE)
  case (1 properties database patch updated c1)
  from 1(6) show ?thesis
    by (rule updateItemProperties_InrE) (use assms(2,3) in \<open>auto simp: versionIs_def\<close>)
qed

text \<open>
  C4: of two updates of one item made against the same version, only one can
  commit: after the first, the second is refused and leaves the world as it was, provided the
  first committed in a later millisecond than the version both read. (Versions are compared as
  millisecond texts; within one millisecond two versions are equal.)
\<close>

theorem no_lost_update:
  assumes first: "updateItem env deliverable we affinity input user writer w = (Inr r, w1)"
    and later: "toISOString (tx_now env) \<noteq> v"
    and hooks: "\<And>version. hooksKeep (onDb (versionIs (ui_databaseId input) (ui_itemId input) version)) (we_hooks we)"
    and same: "ui_databaseId input' = ui_databaseId input" "ui_itemId input' = ui_itemId input"
      "ui_ifVersion input' = Some v"
  shows "\<exists>e. updateItem env' deliverable' we' affinity' input' user' writer' w1 = (Inl e, w1)"
proof -
  let ?options = "\<lambda>a u h. noOptions\<lparr>wo_queueAffinity := Some a, wo_actingUserId := u,
    wo_humanWriterUserId := h\<rparr>"
  from first obtain scope c where run: "updateItemWithClient we input (?options affinity user writer)
        (beginTx env scope w) = Inr (r, c)" and w1: "w_db w1 = cl_db c" "w_parked w1 = []"
    unfolding updateItem_def by (elim withTransaction_InrE)
  from run have version: "versionIs (ui_databaseId input) (ui_itemId input) (toISOString (tx_now env)) (w_db w1)"
  proof (cases rule: updateItemWithClient_InrE)
    case (1 properties database patch updated c1)
    from updateItemProperties_version [OF 1(6)]
    have "onDb (versionIs (ui_databaseId input) (ui_itemId input) (toISOString (tx_now env))) c1"
      by (simp add: onDb_def beginTx_def)
    from keepsD [OF announceUpdate_version [OF hooks] this 1(7)] w1 show ?thesis by (simp add: onDb_def)
  qed
  show ?thesis
  proof (cases "fst (updateItem env' deliverable' we' affinity' input' user' writer' w1)")
    case (Inl e)
    with w1(2) withTransaction_failed show ?thesis unfolding updateItem_def by (metis prod.collapse)
  next
    case (Inr r')
    then obtain w2 where "updateItem env' deliverable' we' affinity' input' user' writer' w1 = (Inr r', w2)"
      by (metis prod.collapse)
    then obtain scope' c' where "updateItemWithClient we' input' (?options affinity' user' writer')
        (beginTx env' scope' w1) = Inr (r', c')"
      unfolding updateItem_def by (elim withTransaction_InrE)
    from update_sees_version [OF this same(3)] version same(1,2) later show ?thesis
      by (simp add: beginTx_def)
  qed
qed

theorem no_lost_update_witness:
  "\<exists>e. updateExample [(''name'', JStr ''three'')] (Some 1)
     (snd (updateExample [(''name'', JStr ''two'')] None exampleWorld)) =
   (Inl e, snd (updateExample [(''name'', JStr ''two'')] None exampleWorld))"
  unfolding updateExample_def [of "[(''name'', JStr ''three'')]"]
  by (rule no_lost_update [OF updateExample_eval [unfolded updateExample_def [of "_" None]], folded updateExample_def])
    (simp_all add: exampleWriteEnv_def exampleTx_def toISOString_def)

section \<open>What an update answers\<close>

lemma keysOf_setProp: "set (keysOf (setProp k v m)) = insert k (set (keysOf m))"
  by (simp add: keysOf_def setProp_def dom_update)

lemma map_of_map_key: "map_of (map (\<lambda>k. (k, g k)) ks) k = (if k \<in> set ks then Some (g k) else None)"
  by (induction ks) auto

lemma map_of_spread_written:
  "distinct (keysOf b) \<Longrightarrow> k \<in> set (keysOf b) \<Longrightarrow> map_of (spread a b) k = map_of b k"
  by (auto simp: map_of_spread keysOf_def split: option.split dest: weak_map_of_SomeI)

text \<open>
  C33: an update answers the item with every patched property at its
  new value and, as \<open>previous\<close>, the value each of them had before (null when it had none).
\<close>

theorem update_answers_old_and_new:
  assumes "updateItem env deliverable we affinity input user writer w = (Inr r, w')"
    and "distinct (keysOf (ui_propertiesPatch input))" and "key \<in> set (keysOf (ui_propertiesPatch input))"
    and "key \<noteq> ''time''"
    and "filter (isItem (ui_databaseId input) (ui_itemId input)) (t_items (w_db w)) = row # rows"
  shows "map_of (it_properties (ur_item r)) key = map_of (ui_propertiesPatch input) key \<and>
    map_of (ur_previous r) key =
      Some (case map_of (rit_properties row) key of None \<Rightarrow> JNull | Some v \<Rightarrow> v)"
proof -
  from assms(1) obtain scope c where run: "updateItemWithClient we input
      (noOptions\<lparr>wo_queueAffinity := Some affinity, wo_actingUserId := user, wo_humanWriterUserId := writer\<rparr>)
      (beginTx env scope w) = Inr (r, c)"
    unfolding updateItem_def by (elim withTransaction_InrE)
  from run show ?thesis
  proof (cases rule: updateItemWithClient_InrE)
    case (1 properties database patch updated c1)
    have patch: "distinct (keysOf patch)" "key \<in> set (keysOf patch)"
        "map_of patch key = map_of (ui_propertiesPatch input) key"
      using 1(5) assms(2-4) by (cases rule: updatePatch_cases; simp add: distinct_setProp keysOf_setProp)+
    from 1(6) have "map_of (it_properties (ur_item updated)) key = map_of patch key \<and>
        map_of (ur_previous updated) key =
          Some (case map_of (rit_properties row) key of None \<Rightarrow> JNull | Some v \<Rightarrow> v)"
      by (rule updateItemProperties_InrE)
        (use patch assms(5) in \<open>auto simp: mapItemRow_def map_of_spread_written beginTx_def hasOwn_def
           map_of_map_key split: option.split\<close>)
    with 1(8) assms(3) patch(3) show ?thesis by (simp add: map_of_map_key)
  qed
qed

theorem update_answers_old_and_new_witness:
  "map_of (ur_previous \<lparr>ur_item = \<lparr>it_id = ''i1'', it_databaseId = ''d1'',
            it_properties = [(''name'', JStr ''two''), (''hash'', JStr ''h'')], it_computed = [],
            it_updatedAt = 9, it_deletedAt = None\<rparr>,
          ur_previous = [(''name'', JStr ''one'')]\<rparr>) ''name'' = Some (JStr ''one'')"
  using update_answers_old_and_new [OF updateExample_eval [unfolded updateExample_def], of "''name''"
      "exampleItem ''d1'' ''i1'' [(''name'', JStr ''one''), (''hash'', JStr ''h'')] None" "[]"]
  by (simp add: keysOf_def example_defs isItem_def)

end
