(* ===== verification/JsonParsers.thy ===== *)
theory JsonParsers
  imports Errors
begin

text \<open>
  The parts zod schemas are written with (\<open>z.object\<close>, \<open>z.array\<close>, \<open>z.enum\<close>,
  \<open>z.string().min(1)\<close>, \<open>optional()\<close>) as parsers of JSON values.
\<close>

text \<open>Parsers of single fields: \<open>None\<close> is a failed \<open>safeParse\<close>.\<close>

definition strMin1 :: "json \<Rightarrow> string option" where
  "strMin1 v = (case v of JStr s \<Rightarrow> if s = '''' then None else Some s | _ \<Rightarrow> None)"

definition boolean :: "json \<Rightarrow> bool option" where
  "boolean v = (case v of JBool b \<Rightarrow> Some b | _ \<Rightarrow> None)"

definition enum :: "(string \<times> 'a) list \<Rightarrow> json \<Rightarrow> 'a option" where
  "enum allowed v = (case v of JStr s \<Rightarrow> map_of allowed s | _ \<Rightarrow> None)"

primrec allSome :: "'a option list \<Rightarrow> 'a list option" where
  "allSome [] = Some []"
| "allSome (x # xs) = (case x of None \<Rightarrow> None | Some y \<Rightarrow> map_option ((#) y) (allSome xs))"

definition arrayOf :: "(json \<Rightarrow> 'a option) \<Rightarrow> json \<Rightarrow> 'a list option" where
  "arrayOf p v = (case v of JArr vs \<Rightarrow> allSome (map p vs) | _ \<Rightarrow> None)"

definition required :: "obj \<Rightarrow> string \<Rightarrow> (json \<Rightarrow> 'a option) \<Rightarrow> 'a option" where
  "required m k p = (case map_of m k of None \<Rightarrow> None | Some v \<Rightarrow> p v)"

definition optional :: "obj \<Rightarrow> string \<Rightarrow> (json \<Rightarrow> 'a option) \<Rightarrow> 'a option option" where
  "optional m k p = (case map_of m k of None \<Rightarrow> Some None | Some v \<Rightarrow> map_option Some (p v))"

definition object :: "(obj \<Rightarrow> 'a option) \<Rightarrow> json \<Rightarrow> 'a option" where
  "object p v = (case v of JObj m \<Rightarrow> p m | _ \<Rightarrow> None)"

lemma size_field: "map_of m k = Some v \<Longrightarrow> size v < size (JObj m)"
  using size_list_estimation' [of "(k, v)" m "size v" "size_prod (\<lambda>_. 0) size"]
  by (auto dest: map_of_SomeD)

lemma size_element: "v \<in> set vs \<Longrightarrow> size v < size (JArr vs)"
  using size_list_estimation' [of v vs "size v" size] by simp

end
