(* ===== verification/ModuleManifest.thy ===== *)
theory ModuleManifest
  imports JsonParsers "HOL-Library.Char_ord"
begin

text \<open>
  The module contract of \<open>packages/module-registry\<close>: a manifest's shape
  (\<open>manifest.ts\<close>, whose zod schema is written out as a parser of JSON values) and a module's
  translation catalogs (\<open>catalog.ts\<close>).
\<close>

section \<open>Descriptors\<close>

datatype ModuleTaskAffinity = AffApi | AffAgents | AffTranscribe

definition MODULE_TASK_AFFINITIES :: "(string \<times> ModuleTaskAffinity) list" where
  "MODULE_TASK_AFFINITIES = [(''api'', AffApi), (''agents'', AffAgents), (''transcribe'', AffTranscribe)]"

record ModuleTaskDescriptor =
  mt_name :: string
  mt_payloadSchemaExport :: string
  mt_handlerExport :: string
  mt_queueAffinity :: ModuleTaskAffinity

record ModuleWorkerDescriptor =
  mw_name :: string
  mw_handlerExport :: string

record ModuleHeartbeatRuleKindDescriptor =
  mh_kind :: string
  mh_schemaExport :: string
  mh_nextFireAtExport :: string

record ModuleDatabaseDescriptor =
  md_key :: string
  md_name :: string
  md_defaultViewType :: "string option"
  md_searchFields :: "string list option"

record ModuleDataMigrationDescriptor =
  mm_databaseKey :: string
  mm_fromVersion :: string
  mm_toVersion :: string
  mm_converterExport :: string

record ModuleAgentToolDescriptor =
  ma_name :: string
  ma_handlerExport :: string
  ma_capability :: "string option"

datatype CustomRouteJustification = TransactionalSemantics | SingleConsumerRead

definition CUSTOM_ROUTE_JUSTIFICATIONS :: "(string \<times> CustomRouteJustification) list" where
  "CUSTOM_ROUTE_JUSTIFICATIONS =
     [(''transactional-semantics'', TransactionalSemantics), (''single-consumer-read'', SingleConsumerRead)]"

definition CUSTOM_ROUTE_METHODS :: "(string \<times> string) list" where
  "CUSTOM_ROUTE_METHODS =
     map (\<lambda>m. (m, m)) [''GET'', ''POST'', ''PUT'', ''PATCH'', ''DELETE'']"

record ModuleCustomRouteDescriptor =
  mc_name :: string
  mc_method :: string
  mc_path :: string
  mc_handlerExport :: string
  mc_justification :: CustomRouteJustification

record ModuleManifest =
  mf_id :: string
  mf_version :: string
  mf_name :: string
  mf_removable :: bool
  mf_systemProject :: bool
  mf_databases :: "ModuleDatabaseDescriptor list"
  mf_capabilities :: "string list"
  mf_agentTools :: "ModuleAgentToolDescriptor list"
  mf_viewTypes :: "string list option"
  mf_heartbeatActions :: "string list option"
  mf_heartbeatRuleKinds :: "ModuleHeartbeatRuleKindDescriptor list option"
  mf_taskNames :: "ModuleTaskDescriptor list option"
  mf_workers :: "ModuleWorkerDescriptor list option"
  mf_migrations :: "string list option"
  mf_dataMigrations :: "ModuleDataMigrationDescriptor list option"
  mf_customRoutes :: "ModuleCustomRouteDescriptor list option"

text \<open>\<open>xs ?? []\<close>.\<close>

definition orEmpty :: "'a list option \<Rightarrow> 'a list" where
  "orEmpty xs = (case xs of None \<Rightarrow> [] | Some ys \<Rightarrow> ys)"

section \<open>The schema\<close>

definition moduleTaskDescriptorSchema :: "json \<Rightarrow> ModuleTaskDescriptor option" where
  "moduleTaskDescriptorSchema = object (\<lambda>m.
     Option.bind (required m ''name'' strMin1) (\<lambda>name.
     Option.bind (required m ''payloadSchemaExport'' strMin1) (\<lambda>schema.
     Option.bind (required m ''handlerExport'' strMin1) (\<lambda>handler.
     Option.bind (required m ''queueAffinity'' (enum MODULE_TASK_AFFINITIES)) (\<lambda>affinity.
     Some \<lparr>mt_name = name, mt_payloadSchemaExport = schema, mt_handlerExport = handler,
           mt_queueAffinity = affinity\<rparr>)))))"

definition moduleWorkerDescriptorSchema :: "json \<Rightarrow> ModuleWorkerDescriptor option" where
  "moduleWorkerDescriptorSchema = object (\<lambda>m.
     Option.bind (required m ''name'' strMin1) (\<lambda>name.
     Option.bind (required m ''handlerExport'' strMin1) (\<lambda>handler.
     Some \<lparr>mw_name = name, mw_handlerExport = handler\<rparr>)))"

definition moduleHeartbeatRuleKindDescriptorSchema :: "json \<Rightarrow> ModuleHeartbeatRuleKindDescriptor option" where
  "moduleHeartbeatRuleKindDescriptorSchema = object (\<lambda>m.
     Option.bind (required m ''kind'' strMin1) (\<lambda>kind.
     Option.bind (required m ''schemaExport'' strMin1) (\<lambda>schema.
     Option.bind (required m ''nextFireAtExport'' strMin1) (\<lambda>nextFireAt.
     Some \<lparr>mh_kind = kind, mh_schemaExport = schema, mh_nextFireAtExport = nextFireAt\<rparr>))))"

definition searchFieldsSchema :: "json \<Rightarrow> string list option" where
  "searchFieldsSchema v =
     Option.bind (arrayOf strMin1 v) (\<lambda>fields. if length fields \<le> 1000 then Some fields else None)"

definition moduleDatabaseDescriptorSchema :: "json \<Rightarrow> ModuleDatabaseDescriptor option" where
  "moduleDatabaseDescriptorSchema = object (\<lambda>m.
     Option.bind (required m ''key'' strMin1) (\<lambda>key.
     Option.bind (required m ''name'' strMin1) (\<lambda>name.
     Option.bind (optional m ''defaultViewType'' strMin1) (\<lambda>viewType.
     Option.bind (optional m ''searchFields'' searchFieldsSchema) (\<lambda>fields.
     Some \<lparr>md_key = key, md_name = name, md_defaultViewType = viewType, md_searchFields = fields\<rparr>)))))"

definition moduleDataMigrationDescriptorSchema :: "json \<Rightarrow> ModuleDataMigrationDescriptor option" where
  "moduleDataMigrationDescriptorSchema = object (\<lambda>m.
     Option.bind (required m ''databaseKey'' strMin1) (\<lambda>databaseKey.
     Option.bind (required m ''fromVersion'' strMin1) (\<lambda>fromVersion.
     Option.bind (required m ''toVersion'' strMin1) (\<lambda>toVersion.
     Option.bind (required m ''converterExport'' strMin1) (\<lambda>converter.
     Some \<lparr>mm_databaseKey = databaseKey, mm_fromVersion = fromVersion, mm_toVersion = toVersion,
           mm_converterExport = converter\<rparr>)))))"

definition moduleAgentToolDescriptorSchema :: "json \<Rightarrow> ModuleAgentToolDescriptor option" where
  "moduleAgentToolDescriptorSchema = object (\<lambda>m.
     Option.bind (required m ''name'' strMin1) (\<lambda>name.
     Option.bind (required m ''handlerExport'' strMin1) (\<lambda>handler.
     Option.bind (optional m ''capability'' strMin1) (\<lambda>capability.
     Some \<lparr>ma_name = name, ma_handlerExport = handler, ma_capability = capability\<rparr>))))"

text \<open>\<open>/^\/api\/\S*$/\<close>, for the ASCII white space \<open>\s\<close> stands for.\<close>

definition isSpaceChar :: "char \<Rightarrow> bool" where
  "isSpaceChar c \<longleftrightarrow> c \<in> set [CHR '' '', CHR 0x09, CHR 0x0A, CHR 0x0B, CHR 0x0C, CHR 0x0D]"

definition apiPath :: "json \<Rightarrow> string option" where
  "apiPath v =
     (case v of
        JStr s \<Rightarrow> if take 5 s = ''/api/'' \<and> list_all (\<lambda>c. \<not> isSpaceChar c) (drop 5 s)
                  then Some s else None
      | _ \<Rightarrow> None)"

definition moduleCustomRouteDescriptorSchema :: "json \<Rightarrow> ModuleCustomRouteDescriptor option" where
  "moduleCustomRouteDescriptorSchema = object (\<lambda>m.
     Option.bind (required m ''name'' strMin1) (\<lambda>name.
     Option.bind (required m ''method'' (enum CUSTOM_ROUTE_METHODS)) (\<lambda>method.
     Option.bind (required m ''path'' apiPath) (\<lambda>path.
     Option.bind (required m ''handlerExport'' strMin1) (\<lambda>handler.
     Option.bind (required m ''justification'' (enum CUSTOM_ROUTE_JUSTIFICATIONS)) (\<lambda>justification.
     Some \<lparr>mc_name = name, mc_method = method, mc_path = path, mc_handlerExport = handler,
           mc_justification = justification\<rparr>))))))"

definition moduleManifestSchema :: "json \<Rightarrow> ModuleManifest option" where
  "moduleManifestSchema = object (\<lambda>m.
     Option.bind (required m ''id'' strMin1) (\<lambda>i.
     Option.bind (required m ''version'' strMin1) (\<lambda>version.
     Option.bind (required m ''name'' strMin1) (\<lambda>name.
     Option.bind (required m ''removable'' boolean) (\<lambda>removable.
     Option.bind (required m ''systemProject'' boolean) (\<lambda>systemProject.
     Option.bind (required m ''databases'' (arrayOf moduleDatabaseDescriptorSchema)) (\<lambda>databases.
     Option.bind (required m ''capabilities'' (arrayOf strMin1)) (\<lambda>capabilities.
     Option.bind (required m ''agentTools'' (arrayOf moduleAgentToolDescriptorSchema)) (\<lambda>agentTools.
     Option.bind (optional m ''viewTypes'' (arrayOf strMin1)) (\<lambda>viewTypes.
     Option.bind (optional m ''heartbeatActions'' (arrayOf strMin1)) (\<lambda>heartbeatActions.
     Option.bind (optional m ''heartbeatRuleKinds''
                    (arrayOf moduleHeartbeatRuleKindDescriptorSchema)) (\<lambda>ruleKinds.
     Option.bind (optional m ''taskNames'' (arrayOf moduleTaskDescriptorSchema)) (\<lambda>taskNames.
     Option.bind (optional m ''workers'' (arrayOf moduleWorkerDescriptorSchema)) (\<lambda>workers.
     Option.bind (optional m ''migrations'' (arrayOf strMin1)) (\<lambda>migrations.
     Option.bind (optional m ''dataMigrations''
                    (arrayOf moduleDataMigrationDescriptorSchema)) (\<lambda>dataMigrations.
     Option.bind (optional m ''customRoutes'' (arrayOf moduleCustomRouteDescriptorSchema)) (\<lambda>customRoutes.
     Some \<lparr>mf_id = i, mf_version = version, mf_name = name, mf_removable = removable,
           mf_systemProject = systemProject, mf_databases = databases, mf_capabilities = capabilities,
           mf_agentTools = agentTools, mf_viewTypes = viewTypes,
           mf_heartbeatActions = heartbeatActions, mf_heartbeatRuleKinds = ruleKinds,
           mf_taskNames = taskNames, mf_workers = workers, mf_migrations = migrations,
           mf_dataMigrations = dataMigrations, mf_customRoutes = customRoutes\<rparr>)))))))))))))))))"

section \<open>Catalogs\<close>

type_synonym ModuleCatalog = "(string \<times> string) list"

record ModuleCatalogs =
  cat_cs :: ModuleCatalog
  cat_en :: ModuleCatalog

text \<open>What reading \<open>i18n/<locale>.json\<close> gives: no such file, another error, bad JSON, a value.\<close>

datatype catalogFile = FileMissing | FileUnreadable | FileMalformed | FileJson json

definition catalogSchema :: "json \<Rightarrow> ModuleCatalog option" where
  "catalogSchema = object (\<lambda>m. allSome (map (\<lambda>(k, v).
     if k = '''' then None else case v of JStr s \<Rightarrow> Some (k, s) | _ \<Rightarrow> None) m))"

definition loadOneCatalog :: "catalogFile \<Rightarrow> error + ModuleCatalog" where
  "loadOneCatalog file =
     (case file of
        FileMissing \<Rightarrow> Inr []
      | FileUnreadable \<Rightarrow> Inl (PlainError ''unreadable i18n catalog'')
      | FileMalformed \<Rightarrow> Inl (PlainError ''malformed i18n catalog'')
      | FileJson v \<Rightarrow>
          (case catalogSchema v of
             None \<Rightarrow> Inl (PlainError ''invalid i18n catalog'') | Some c \<Rightarrow> Inr c))"

definition loadModuleCatalogs :: "catalogFile \<Rightarrow> catalogFile \<Rightarrow> error + ModuleCatalogs" where
  "loadModuleCatalogs csFile enFile =
     (case loadOneCatalog csFile of
        Inl e \<Rightarrow> Inl e
      | Inr cs \<Rightarrow> (case loadOneCatalog enFile of
                    Inl e \<Rightarrow> Inl e | Inr en \<Rightarrow> Inr \<lparr>cat_cs = cs, cat_en = en\<rparr>))"

definition resolveCatalogLabel ::
  "string option \<Rightarrow> ModuleCatalog option \<Rightarrow> ModuleCatalog \<Rightarrow> string \<Rightarrow> string" where
  "resolveCatalogLabel override requestedLocaleCatalog englishCatalog key =
     (case override of
        Some s \<Rightarrow> s
      | None \<Rightarrow>
          (case (case requestedLocaleCatalog of None \<Rightarrow> None | Some c \<Rightarrow> map_of c key) of
             Some s \<Rightarrow> s
           | None \<Rightarrow> (case map_of englishCatalog key of Some s \<Rightarrow> s | None \<Rightarrow> key)))"

end
