(* ===== verification/JsMap.thy ===== *)
theory JsMap
  imports Prelude
begin

text \<open>
  The JavaScript \<open>Map\<close> as the code uses it: insertion-ordered, with \<open>get\<close>, \<open>set\<close>,
  \<open>delete\<close> and iteration in insertion order (a \<open>set\<close> on a present key keeps its place).
  The interface is a locale; the association lists of the model are its implementation.
\<close>

type_synonym 'v jsMap = "(string \<times> 'v) list"

definition mapGet :: "'v jsMap \<Rightarrow> string \<Rightarrow> 'v option" where
  "mapGet m k = map_of m k"

definition mapSet :: "string \<Rightarrow> 'v \<Rightarrow> 'v jsMap \<Rightarrow> 'v jsMap" where
  "mapSet k v m = AList.update k v m"

definition mapDelete :: "string \<Rightarrow> 'v jsMap \<Rightarrow> 'v jsMap" where
  "mapDelete k m = filter (\<lambda>p. fst p \<noteq> k) m"

definition mapKeys :: "'v jsMap \<Rightarrow> string list" where
  "mapKeys m = map fst m"

definition mapOk :: "'v jsMap \<Rightarrow> bool" where
  "mapOk m \<longleftrightarrow> distinct (map fst m)"

locale js_map =
  fixes get :: "'m \<Rightarrow> string \<Rightarrow> 'v option"
    and put :: "string \<Rightarrow> 'v \<Rightarrow> 'm \<Rightarrow> 'm"
    and del :: "string \<Rightarrow> 'm \<Rightarrow> 'm"
    and keys :: "'m \<Rightarrow> string list"
    and ok :: "'m \<Rightarrow> bool"
  assumes get_put: "get (put k v m) j = (if j = k then Some v else get m j)"
    and get_del: "get (del k m) j = (if j = k then None else get m j)"
    and get_keys: "get m j \<noteq> None \<longleftrightarrow> j \<in> set (keys m)"
    and keys_distinct: "ok m \<Longrightarrow> distinct (keys m)"
    and ok_put: "ok m \<Longrightarrow> ok (put k v m)"
    and ok_del: "ok m \<Longrightarrow> ok (del k m)"
    and keys_put: "keys (put k v m) = (if k \<in> set (keys m) then keys m else keys m @ [k])"
begin

text \<open>Setting every key of a list to one value: what a claim of identifiers does.\<close>

lemma get_put_all: "get (fold (\<lambda>k. put k v) ks m) j = (if j \<in> set ks then Some v else get m j)"
  by (induction ks arbitrary: m) (auto simp: get_put)

lemma ok_put_all: "ok m \<Longrightarrow> ok (fold (\<lambda>k. put k v) ks m)"
  by (induction ks arbitrary: m) (auto simp: ok_put)

lemma get_put_same [simp]: "get (put k v m) k = Some v"
  by (simp add: get_put)

lemma size_put: "ok m \<Longrightarrow> length (keys (put k v m)) = (if get m k = None then Suc (length (keys m)) else length (keys m))"
  using get_keys [of m k] by (auto simp: keys_put)

lemma del_absent: "get m k = None \<Longrightarrow> get (del k m) j = get m j"
  by (auto simp: get_del split: if_splits)

lemma keys_del_set: "set (keys (del k m)) = set (keys m) - {k}"
proof (rule set_eqI)
  fix j
  show "j \<in> set (keys (del k m)) \<longleftrightarrow> j \<in> set (keys m) - {k}"
    using get_keys [of m j] get_keys [of "del k m" j] by (auto simp: get_del split: if_splits)
qed

lemma size_del:
  assumes "ok m"
  shows "length (keys (del k m)) = length (keys m) - (if get m k = None then 0 else 1)"
proof -
  have "length (keys (del k m)) = card (set (keys (del k m)))"
    using assms by (simp add: ok_del keys_distinct distinct_card)
  moreover have "length (keys m) = card (set (keys m))"
    using assms by (simp add: keys_distinct distinct_card)
  ultimately show ?thesis
    using get_keys [of m k] by (auto simp: keys_del_set card_Diff_singleton_if)
qed

end

lemma mapKeys_mapSet:
  "mapKeys (mapSet k v m) = (if k \<in> set (mapKeys m) then mapKeys m else mapKeys m @ [k])"
  unfolding mapKeys_def mapSet_def by (induction m) auto

lemma map_of_mapDelete: "map_of (filter (\<lambda>p. fst p \<noteq> k) m) j = (if j = k then None else map_of m j)"
  by (induction m) auto

interpretation jsm: js_map mapGet mapSet mapDelete mapKeys mapOk
proof (unfold_locales, goal_cases)
  case (1 k v m j) then show ?case by (simp add: mapGet_def mapSet_def update_conv')
next
  case (2 k m j) then show ?case by (simp add: mapGet_def mapDelete_def map_of_mapDelete)
next
  case (3 m j) then show ?case by (simp add: mapGet_def mapKeys_def map_of_eq_None_iff)
next
  case (4 m) then show ?case by (simp add: mapOk_def mapKeys_def)
next
  case (5 m k v) then show ?case by (simp add: mapOk_def mapSet_def distinct_update)
next
  case (6 m k) then show ?case by (simp add: mapOk_def mapDelete_def distinct_map_filter)
next
  case (7 k v m) then show ?case by (rule mapKeys_mapSet)
qed

end
