(* ===== verification/ModuleRegistry.thy ===== *)
theory ModuleRegistry
  imports ModuleManifest JsMap
begin

text \<open>
  \<open>packages/module-registry/src/registry.ts\<close>: loading modules and the projections of the
  active ones. The registry's private maps are the fields of \<open>registry\<close>; a method that throws
  returns the registry as it left it, so that a rejected module leaving nothing behind is a
  theorem and not a convention of the model.

  The imported module is the list of its exports: only what the registry asks of one is kept,
  with a name that identifies a function or a schema.
\<close>

datatype jsExport = ExUndefined | ExFunction string | ExSchema string | ExJson json

type_synonym exports = "(string \<times> jsExport) list"

record LoadedModule =
  lm_manifest :: ModuleManifest
  lm_exports :: exports

record registry =
  rg_modulesById :: "LoadedModule jsMap"
  rg_moduleIdByName :: "string jsMap"
  rg_databaseKeyOwners :: "string jsMap"
  rg_taskNameOwners :: "string jsMap"
  rg_agentToolNameOwners :: "string jsMap"
  rg_workerNameOwners :: "string jsMap"
  rg_heartbeatRuleKindOwners :: "string jsMap"
  rg_customRouteOwners :: "string jsMap"
  rg_catalogsById :: "ModuleCatalogs jsMap"
  rg_catalogKeyOwners :: "string jsMap"
  rg_reservedTaskNames :: "string list"
  rg_reservedHeartbeatRuleKinds :: "string list"

definition newRegistry :: "string list option \<Rightarrow> string list option \<Rightarrow> registry" where
  "newRegistry reservedTasks reservedKinds =
     \<lparr>rg_modulesById = [], rg_moduleIdByName = [], rg_databaseKeyOwners = [], rg_taskNameOwners = [],
      rg_agentToolNameOwners = [], rg_workerNameOwners = [], rg_heartbeatRuleKindOwners = [],
      rg_customRouteOwners = [], rg_catalogsById = [], rg_catalogKeyOwners = [],
      rg_reservedTaskNames = orEmpty reservedTasks,
      rg_reservedHeartbeatRuleKinds = orEmpty reservedKinds\<rparr>"

section \<open>Checks of one module\<close>

definition requireExport :: "exports \<Rightarrow> string \<Rightarrow> error + jsExport" where
  "requireExport imported exportName =
     (case map_of imported exportName of
        None \<Rightarrow> Inl (PlainError ''missing export'')
      | Some ExUndefined \<Rightarrow> Inl (PlainError ''missing export'')
      | Some v \<Rightarrow> Inr v)"

definition requireFunctionExport :: "exports \<Rightarrow> string \<Rightarrow> error + unit" where
  "requireFunctionExport imported exportName =
     (case requireExport imported exportName of
        Inl e \<Rightarrow> Inl e
      | Inr (ExFunction _) \<Rightarrow> Inr ()
      | Inr _ \<Rightarrow> Inl (PlainError ''export is not a function''))"

definition requireSchemaExport :: "exports \<Rightarrow> string \<Rightarrow> error + unit" where
  "requireSchemaExport imported exportName =
     (case requireExport imported exportName of
        Inl e \<Rightarrow> Inl e
      | Inr (ExSchema _) \<Rightarrow> Inr ()
      | Inr _ \<Rightarrow> Inl (PlainError ''export is not a schema''))"

fun allOk :: "(error + unit) list \<Rightarrow> error + unit" where
  "allOk [] = Inr ()"
| "allOk (r # rs) = (case r of Inl e \<Rightarrow> Inl e | Inr _ \<Rightarrow> allOk rs)"

definition assertExportsExist :: "ModuleManifest \<Rightarrow> exports \<Rightarrow> error + unit" where
  "assertExportsExist manifest imported =
     allOk
       (map (\<lambda>tool. requireFunctionExport imported (ma_handlerExport tool)) (mf_agentTools manifest) @
        concat (map (\<lambda>task.
            [case requireExport imported (mt_payloadSchemaExport task) of Inl e \<Rightarrow> Inl e | Inr _ \<Rightarrow> Inr (),
             requireFunctionExport imported (mt_handlerExport task)]) (orEmpty (mf_taskNames manifest))) @
        map (\<lambda>worker. requireFunctionExport imported (mw_handlerExport worker))
          (orEmpty (mf_workers manifest)) @
        concat (map (\<lambda>ruleKind.
            [requireSchemaExport imported (mh_schemaExport ruleKind),
             requireFunctionExport imported (mh_nextFireAtExport ruleKind)])
          (orEmpty (mf_heartbeatRuleKinds manifest))) @
        map (\<lambda>m. requireFunctionExport imported (mm_converterExport m))
          (orEmpty (mf_dataMigrations manifest)) @
        map (\<lambda>route. requireFunctionExport imported (mc_handlerExport route))
          (orEmpty (mf_customRoutes manifest)))"

definition dataMigrationKey :: "ModuleDataMigrationDescriptor \<Rightarrow> string" where
  "dataMigrationKey m = mm_databaseKey m @ '':'' @ mm_fromVersion m @ '':'' @ mm_toVersion m"

fun checkDataMigrations ::
  "string list \<Rightarrow> string list \<Rightarrow> ModuleDataMigrationDescriptor list \<Rightarrow> error + unit" where
  "checkDataMigrations own seen [] = Inr ()"
| "checkDataMigrations own seen (m # ms) =
     (if mm_databaseKey m \<notin> set own then Inl (PlainError ''data migration of another database'')
      else if dataMigrationKey m \<in> set seen then Inl (PlainError ''duplicate data migration'')
      else checkDataMigrations own (dataMigrationKey m # seen) ms)"

definition assertDataMigrationsReferenceOwnDatabases :: "ModuleManifest \<Rightarrow> error + unit" where
  "assertDataMigrationsReferenceOwnDatabases manifest =
     checkDataMigrations (map md_key (mf_databases manifest)) [] (orEmpty (mf_dataMigrations manifest))"

section \<open>Identifiers shared by all modules\<close>

definition catalogKeys :: "ModuleCatalogs \<Rightarrow> string list" where
  "catalogKeys catalogs = jsSet (map fst (cat_cs catalogs) @ map fst (cat_en catalogs))"

definition assertCatalogKeysAvailable :: "registry \<Rightarrow> ModuleCatalogs \<Rightarrow> error + unit" where
  "assertCatalogKeysAvailable rg catalogs =
     (if \<exists>key \<in> set (catalogKeys catalogs). mapGet (rg_catalogKeyOwners rg) key \<noteq> None
      then Inl (PlainError ''duplicate i18n catalog key'') else Inr ())"

definition commitCatalogKeys :: "string \<Rightarrow> ModuleCatalogs \<Rightarrow> registry \<Rightarrow> registry" where
  "commitCatalogKeys moduleId catalogs rg =
     rg\<lparr>rg_catalogKeyOwners :=
       fold (\<lambda>key. mapSet key moduleId) (catalogKeys catalogs) (rg_catalogKeyOwners rg)\<rparr>"

definition routeKey :: "ModuleCustomRouteDescriptor \<Rightarrow> string" where
  "routeKey route = mc_method route @ '' '' @ mc_path route"

fun checkCustomRoutes :: "registry \<Rightarrow> string list \<Rightarrow> ModuleCustomRouteDescriptor list \<Rightarrow> error + unit" where
  "checkCustomRoutes rg seen [] = Inr ()"
| "checkCustomRoutes rg seen (route # routes) =
     (if mapGet (rg_customRouteOwners rg) (routeKey route) \<noteq> None
      then Inl (PlainError ''duplicate custom route'')
      else if routeKey route \<in> set seen then Inl (PlainError ''custom route declared twice'')
      else checkCustomRoutes rg (routeKey route # seen) routes)"

definition assertCustomRoutesAvailable :: "registry \<Rightarrow> ModuleManifest \<Rightarrow> error + unit" where
  "assertCustomRoutesAvailable rg manifest =
     checkCustomRoutes rg [] (orEmpty (mf_customRoutes manifest))"

definition commitCustomRoutes :: "ModuleManifest \<Rightarrow> registry \<Rightarrow> registry" where
  "commitCustomRoutes manifest rg =
     rg\<lparr>rg_customRouteOwners := fold (\<lambda>key. mapSet key (mf_id manifest))
          (map routeKey (orEmpty (mf_customRoutes manifest))) (rg_customRouteOwners rg)\<rparr>"

text \<open>A claim names the owner map it goes to, by its label, and the key.\<close>

datatype claimKind = CkDatabase | CkAgentTool | CkTask | CkWorker | CkRuleKind

fun claimLabel :: "claimKind \<Rightarrow> string" where
  "claimLabel CkDatabase = ''database key''"
| "claimLabel CkAgentTool = ''agent tool name''"
| "claimLabel CkTask = ''task name''"
| "claimLabel CkWorker = ''worker name''"
| "claimLabel CkRuleKind = ''heartbeat rule kind''"

fun ownersOf :: "claimKind \<Rightarrow> registry \<Rightarrow> string jsMap" where
  "ownersOf CkDatabase rg = rg_databaseKeyOwners rg"
| "ownersOf CkAgentTool rg = rg_agentToolNameOwners rg"
| "ownersOf CkTask rg = rg_taskNameOwners rg"
| "ownersOf CkWorker rg = rg_workerNameOwners rg"
| "ownersOf CkRuleKind rg = rg_heartbeatRuleKindOwners rg"

fun reservedOf :: "claimKind \<Rightarrow> registry \<Rightarrow> string list" where
  "reservedOf CkTask rg = rg_reservedTaskNames rg"
| "reservedOf CkRuleKind rg = rg_reservedHeartbeatRuleKinds rg"
| "reservedOf _ rg = []"

fun setOwner :: "string \<Rightarrow> claimKind \<times> string \<Rightarrow> registry \<Rightarrow> registry" where
  "setOwner moduleId (CkDatabase, key) rg =
     rg\<lparr>rg_databaseKeyOwners := mapSet key moduleId (rg_databaseKeyOwners rg)\<rparr>"
| "setOwner moduleId (CkAgentTool, key) rg =
     rg\<lparr>rg_agentToolNameOwners := mapSet key moduleId (rg_agentToolNameOwners rg)\<rparr>"
| "setOwner moduleId (CkTask, key) rg =
     rg\<lparr>rg_taskNameOwners := mapSet key moduleId (rg_taskNameOwners rg)\<rparr>"
| "setOwner moduleId (CkWorker, key) rg =
     rg\<lparr>rg_workerNameOwners := mapSet key moduleId (rg_workerNameOwners rg)\<rparr>"
| "setOwner moduleId (CkRuleKind, key) rg =
     rg\<lparr>rg_heartbeatRuleKindOwners := mapSet key moduleId (rg_heartbeatRuleKindOwners rg)\<rparr>"

definition claimsOf :: "ModuleManifest \<Rightarrow> (claimKind \<times> string) list" where
  "claimsOf manifest =
     map (\<lambda>d. (CkDatabase, md_key d)) (mf_databases manifest) @
     map (\<lambda>t. (CkAgentTool, ma_name t)) (mf_agentTools manifest) @
     map (\<lambda>t. (CkTask, mt_name t)) (orEmpty (mf_taskNames manifest)) @
     map (\<lambda>w. (CkWorker, mw_name w)) (orEmpty (mf_workers manifest)) @
     map (\<lambda>k. (CkRuleKind, mh_kind k)) (orEmpty (mf_heartbeatRuleKinds manifest))"

definition seenKey :: "claimKind \<times> string \<Rightarrow> string" where
  "seenKey claim = claimLabel (fst claim) @ '':'' @ snd claim"

fun checkClaims :: "registry \<Rightarrow> string list \<Rightarrow> (claimKind \<times> string) list \<Rightarrow> error + unit" where
  "checkClaims rg seen [] = Inr ()"
| "checkClaims rg seen (claim # claims) =
     (if snd claim \<in> set (reservedOf (fst claim) rg) then Inl (PlainError ''core-reserved'')
      else if mapGet (ownersOf (fst claim) rg) (snd claim) \<noteq> None
      then Inl (PlainError ''already claimed'')
      else if seenKey claim \<in> set seen then Inl (PlainError ''declared twice in the same manifest'')
      else checkClaims rg (seenKey claim # seen) claims)"

definition claimCrossModuleIdentifiers :: "ModuleManifest \<Rightarrow> registry \<Rightarrow> (error + unit) \<times> registry" where
  "claimCrossModuleIdentifiers manifest rg =
     (case checkClaims rg [] (claimsOf manifest) of
        Inl e \<Rightarrow> (Inl e, rg)
      | Inr _ \<Rightarrow> (Inr (), fold (setOwner (mf_id manifest)) (claimsOf manifest) rg))"

section \<open>Loading\<close>

text \<open>
  \<open>loadModule\<close> up to \<open>await loadModuleCatalogs(path)\<close>, and from there on; the import and
  the catalog files are what the two \<open>await\<close>s yield.
\<close>

definition loadChecks :: "exports \<Rightarrow> registry \<Rightarrow> error + ModuleManifest" where
  "loadChecks imported rg =
     (case map_of imported ''manifest'' of
        None \<Rightarrow> Inl (PlainError ''no manifest'')
      | Some ExUndefined \<Rightarrow> Inl (PlainError ''no manifest'')
      | Some (ExFunction _) \<Rightarrow> Inl (PlainError ''invalid manifest'')
      | Some (ExSchema _) \<Rightarrow> Inl (PlainError ''invalid manifest'')
      | Some (ExJson rawManifest) \<Rightarrow>
          (case moduleManifestSchema rawManifest of
             None \<Rightarrow> Inl (PlainError ''invalid manifest'')
           | Some manifest \<Rightarrow>
               if mapGet (rg_modulesById rg) (mf_id manifest) \<noteq> None
               then Inl (PlainError ''duplicate module id'')
               else if mapGet (rg_moduleIdByName rg) (mf_name manifest) \<noteq> None
               then Inl (PlainError ''duplicate module name'')
               else (case assertExportsExist manifest imported of
                       Inl e \<Rightarrow> Inl e
                     | Inr _ \<Rightarrow> (case assertDataMigrationsReferenceOwnDatabases manifest of
                                   Inl e \<Rightarrow> Inl e | Inr _ \<Rightarrow> Inr manifest))))"

definition loadCommit ::
  "exports \<Rightarrow> ModuleManifest \<Rightarrow> ModuleCatalogs \<Rightarrow> registry \<Rightarrow> (error + string) \<times> registry" where
  "loadCommit imported manifest catalogs rg =
     (case assertCatalogKeysAvailable rg catalogs of
        Inl e \<Rightarrow> (Inl e, rg)
      | Inr _ \<Rightarrow>
          (case assertCustomRoutesAvailable rg manifest of
             Inl e \<Rightarrow> (Inl e, rg)
           | Inr _ \<Rightarrow>
               (case claimCrossModuleIdentifiers manifest rg of
                  (Inl e, rg1) \<Rightarrow> (Inl e, rg1)
                | (Inr _, rg1) \<Rightarrow>
                    (let rg2 = commitCustomRoutes manifest
                                 (commitCatalogKeys (mf_id manifest) catalogs rg1);
                         rg3 = rg2\<lparr>rg_modulesById := mapSet (mf_id manifest)
                                   \<lparr>lm_manifest = manifest, lm_exports = imported\<rparr> (rg_modulesById rg2)\<rparr>;
                         rg4 = rg3\<lparr>rg_moduleIdByName :=
                                   mapSet (mf_name manifest) (mf_id manifest) (rg_moduleIdByName rg3)\<rparr>;
                         rg5 = rg4\<lparr>rg_catalogsById :=
                                   mapSet (mf_id manifest) catalogs (rg_catalogsById rg4)\<rparr>
                     in (Inr (mf_id manifest), rg5)))))"

definition loadModule ::
  "exports \<Rightarrow> catalogFile \<Rightarrow> catalogFile \<Rightarrow> registry \<Rightarrow> (error + string) \<times> registry" where
  "loadModule imported csFile enFile rg =
     (case loadChecks imported rg of
        Inl e \<Rightarrow> (Inl e, rg)
      | Inr manifest \<Rightarrow>
          (case loadModuleCatalogs csFile enFile of
             Inl e \<Rightarrow> (Inl e, rg)
           | Inr catalogs \<Rightarrow> loadCommit imported manifest catalogs rg))"

section \<open>Projections of the active modules\<close>

definition getActiveModules :: "string list \<Rightarrow> registry \<Rightarrow> LoadedModule list" where
  "getActiveModules activeIds rg =
     filter (\<lambda>loaded. mf_id (lm_manifest loaded) \<in> set activeIds) (map snd (rg_modulesById rg))"

definition flatActive :: "(LoadedModule \<Rightarrow> 'a list) \<Rightarrow> string list \<Rightarrow> registry \<Rightarrow> 'a list" where
  "flatActive f activeIds rg = concat (map f (getActiveModules activeIds rg))"

definition listModuleIds :: "registry \<Rightarrow> string list" where
  "listModuleIds rg = mapKeys (rg_modulesById rg)"

definition listActiveModuleIds :: "string list \<Rightarrow> registry \<Rightarrow> string list" where
  "listActiveModuleIds activeIds rg = map (\<lambda>l. mf_id (lm_manifest l)) (getActiveModules activeIds rg)"

definition isRemovable :: "string \<Rightarrow> registry \<Rightarrow> bool" where
  "isRemovable moduleId rg =
     (case mapGet (rg_modulesById rg) moduleId of None \<Rightarrow> False | Some l \<Rightarrow> mf_removable (lm_manifest l))"

definition getDatabases :: "string list \<Rightarrow> registry \<Rightarrow> (string \<times> ModuleDatabaseDescriptor) list" where
  "getDatabases = flatActive (\<lambda>l. map (\<lambda>d. (mf_id (lm_manifest l), d)) (mf_databases (lm_manifest l)))"

definition getCapabilities :: "string list \<Rightarrow> registry \<Rightarrow> string list" where
  "getCapabilities activeIds rg =
     jsSet (flatActive (\<lambda>l. mf_capabilities (lm_manifest l)) activeIds rg)"

definition getAgentTools ::
  "string list \<Rightarrow> string list \<Rightarrow> registry \<Rightarrow> (string \<times> string \<times> string) list" where
  "getAgentTools grantedCapabilities = flatActive (\<lambda>l.
     map (\<lambda>tool. (mf_id (lm_manifest l), ma_name tool, ma_handlerExport tool))
       (filter (\<lambda>tool. case ma_capability tool of
            None \<Rightarrow> True | Some c \<Rightarrow> c \<in> set grantedCapabilities) (mf_agentTools (lm_manifest l))))"

definition getViewTypes :: "string list \<Rightarrow> registry \<Rightarrow> string list" where
  "getViewTypes = flatActive (\<lambda>l. orEmpty (mf_viewTypes (lm_manifest l)))"

definition getHeartbeatActions :: "string list \<Rightarrow> registry \<Rightarrow> string list" where
  "getHeartbeatActions = flatActive (\<lambda>l. orEmpty (mf_heartbeatActions (lm_manifest l)))"

definition getHeartbeatRuleKinds :: "string list \<Rightarrow> registry \<Rightarrow> string list" where
  "getHeartbeatRuleKinds = flatActive (\<lambda>l. map mh_kind (orEmpty (mf_heartbeatRuleKinds (lm_manifest l))))"

definition exportOf :: "LoadedModule \<Rightarrow> string \<Rightarrow> jsExport" where
  "exportOf l exportName = (case map_of (lm_exports l) exportName of None \<Rightarrow> ExUndefined | Some v \<Rightarrow> v)"

definition getHeartbeatRuleKindDefinitions ::
  "string list \<Rightarrow> registry \<Rightarrow> (string \<times> string \<times> jsExport \<times> jsExport) list" where
  "getHeartbeatRuleKindDefinitions = flatActive (\<lambda>l.
     map (\<lambda>k. (mf_id (lm_manifest l), mh_kind k, exportOf l (mh_schemaExport k),
              exportOf l (mh_nextFireAtExport k))) (orEmpty (mf_heartbeatRuleKinds (lm_manifest l))))"

definition getTasks :: "string list \<Rightarrow> registry \<Rightarrow> (string \<times> ModuleTaskDescriptor) list" where
  "getTasks = flatActive (\<lambda>l.
     map (\<lambda>t. (mf_id (lm_manifest l), t)) (orEmpty (mf_taskNames (lm_manifest l))))"

definition getTaskDefinitions ::
  "string list \<Rightarrow> registry \<Rightarrow> (string \<times> string \<times> jsExport \<times> jsExport \<times> ModuleTaskAffinity) list" where
  "getTaskDefinitions = flatActive (\<lambda>l.
     map (\<lambda>t. (mf_id (lm_manifest l), mt_name t, exportOf l (mt_payloadSchemaExport t),
              exportOf l (mt_handlerExport t), mt_queueAffinity t))
       (orEmpty (mf_taskNames (lm_manifest l))))"

definition getWorkers :: "string list \<Rightarrow> registry \<Rightarrow> (string \<times> ModuleWorkerDescriptor) list" where
  "getWorkers = flatActive (\<lambda>l.
     map (\<lambda>w. (mf_id (lm_manifest l), w)) (orEmpty (mf_workers (lm_manifest l))))"

definition getMigrations :: "string list \<Rightarrow> registry \<Rightarrow> (string \<times> string) list" where
  "getMigrations = flatActive (\<lambda>l.
     map (\<lambda>m. (mf_id (lm_manifest l), m)) (orEmpty (mf_migrations (lm_manifest l))))"

definition getDataMigrations :: "string list \<Rightarrow> registry \<Rightarrow> (string \<times> ModuleDataMigrationDescriptor) list" where
  "getDataMigrations = flatActive (\<lambda>l.
     map (\<lambda>m. (mf_id (lm_manifest l), m)) (orEmpty (mf_dataMigrations (lm_manifest l))))"

definition getDataMigrationDefinitions ::
  "string list \<Rightarrow> registry \<Rightarrow> (string \<times> ModuleDataMigrationDescriptor \<times> jsExport) list" where
  "getDataMigrationDefinitions = flatActive (\<lambda>l.
     map (\<lambda>m. (mf_id (lm_manifest l), m, exportOf l (mm_converterExport m)))
       (orEmpty (mf_dataMigrations (lm_manifest l))))"

definition getCustomRouteDefinitions ::
  "string list \<Rightarrow> registry \<Rightarrow> (string \<times> ModuleCustomRouteDescriptor \<times> jsExport) list" where
  "getCustomRouteDefinitions = flatActive (\<lambda>l.
     map (\<lambda>r. (mf_id (lm_manifest l), r, exportOf l (mc_handlerExport r)))
       (orEmpty (mf_customRoutes (lm_manifest l))))"

definition getSystemProjectModuleIds :: "string list \<Rightarrow> registry \<Rightarrow> string list" where
  "getSystemProjectModuleIds activeIds rg =
     map (\<lambda>l. mf_id (lm_manifest l))
       (filter (\<lambda>l. mf_systemProject (lm_manifest l)) (getActiveModules activeIds rg))"

definition getCatalogs :: "string list \<Rightarrow> string \<Rightarrow> registry \<Rightarrow> ModuleCatalogs option" where
  "getCatalogs activeIds moduleId rg =
     (if \<exists>l \<in> set (getActiveModules activeIds rg). mf_id (lm_manifest l) = moduleId
      then mapGet (rg_catalogsById rg) moduleId else None)"

section \<open>The checks\<close>

lemma seenKey_inj [simp]: "seenKey c = seenKey c' \<longleftrightarrow> c = c'"
  by (cases c; cases c'; cases "fst c"; cases "fst c'") (auto simp: seenKey_def)

lemma checkClaims_Inr:
  "checkClaims rg seen claims = Inr () \<longleftrightarrow>
     (\<forall>c \<in> set claims. snd c \<notin> set (reservedOf (fst c) rg) \<and>
        mapGet (ownersOf (fst c) rg) (snd c) = None \<and> seenKey c \<notin> set seen) \<and>
     distinct claims"
  by (induction claims arbitrary: seen) auto

lemma checkCustomRoutes_Inr:
  "checkCustomRoutes rg seen routes = Inr () \<longleftrightarrow>
     (\<forall>r \<in> set routes. mapGet (rg_customRouteOwners rg) (routeKey r) = None \<and> routeKey r \<notin> set seen) \<and>
     distinct (map routeKey routes)"
proof (induction routes arbitrary: seen)
  case (Cons r routes)
  then show ?case by (auto simp: image_iff)
qed simp

lemma allOk_Inr: "allOk rs = Inr () \<longleftrightarrow> (\<forall>r \<in> set rs. r = Inr ())"
  by (induction rs) (auto split: sum.splits)

lemma get_setOwner:
  "mapGet (ownersOf kind (setOwner mid c rg)) key =
     (if c = (kind, key) then Some mid else mapGet (ownersOf kind rg) key)"
  by (cases c; cases "fst c"; cases kind) (auto simp: jsm.get_put)

lemma get_setOwners:
  "mapGet (ownersOf kind (fold (setOwner mid) claims rg)) key =
     (if (kind, key) \<in> set claims then Some mid else mapGet (ownersOf kind rg) key)"
  by (induction claims arbitrary: rg) (auto simp: get_setOwner)

definition otherFields :: "registry \<Rightarrow> registry" where
  "otherFields rg = rg\<lparr>rg_databaseKeyOwners := [], rg_taskNameOwners := [], rg_agentToolNameOwners := [],
     rg_workerNameOwners := [], rg_heartbeatRuleKindOwners := []\<rparr>"

lemma otherFields_setOwner: "otherFields (setOwner mid c rg) = otherFields rg"
  by (cases c; cases "fst c") (auto simp: otherFields_def)

lemma otherFields_setOwners: "otherFields (fold (setOwner mid) claims rg) = otherFields rg"
  by (induction claims arbitrary: rg) (auto simp: otherFields_setOwner)

lemma otherFields_eq:
  assumes "otherFields rg = otherFields rg'"
  shows "rg_modulesById rg = rg_modulesById rg'" "rg_moduleIdByName rg = rg_moduleIdByName rg'"
    "rg_customRouteOwners rg = rg_customRouteOwners rg'" "rg_catalogsById rg = rg_catalogsById rg'"
    "rg_catalogKeyOwners rg = rg_catalogKeyOwners rg'" "rg_reservedTaskNames rg = rg_reservedTaskNames rg'"
    "rg_reservedHeartbeatRuleKinds rg = rg_reservedHeartbeatRuleKinds rg'"
  using assms by (auto simp: otherFields_def dest: arg_cong [where f = rg_modulesById]
      arg_cong [where f = rg_moduleIdByName] arg_cong [where f = rg_customRouteOwners]
      arg_cong [where f = rg_catalogsById] arg_cong [where f = rg_catalogKeyOwners]
      arg_cong [where f = rg_reservedTaskNames] arg_cong [where f = rg_reservedHeartbeatRuleKinds])

section \<open>The registry's invariant\<close>

text \<open>
  Every owner map says exactly which loaded module declares an identifier, no module declares
  an identifier twice or one that core reserves, and every named export of a loaded module has
  the required shape.
\<close>

definition loadedOk :: "registry \<Rightarrow> LoadedModule \<Rightarrow> bool" where
  "loadedOk rg l \<longleftrightarrow>
     distinct (claimsOf (lm_manifest l)) \<and>
     (\<forall>c \<in> set (claimsOf (lm_manifest l)). snd c \<notin> set (reservedOf (fst c) rg)) \<and>
     distinct (map routeKey (orEmpty (mf_customRoutes (lm_manifest l)))) \<and>
     assertExportsExist (lm_manifest l) (lm_exports l) = Inr () \<and>
     assertDataMigrationsReferenceOwnDatabases (lm_manifest l) = Inr ()"

definition registryOk :: "registry \<Rightarrow> bool" where
  "registryOk rg \<longleftrightarrow>
     mapOk (rg_modulesById rg) \<and>
     (\<forall>mid l. mapGet (rg_modulesById rg) mid = Some l \<longrightarrow> mf_id (lm_manifest l) = mid \<and> loadedOk rg l) \<and>
     (\<forall>kind key mid. mapGet (ownersOf kind rg) key = Some mid \<longleftrightarrow>
        (\<exists>l. mapGet (rg_modulesById rg) mid = Some l \<and> (kind, key) \<in> set (claimsOf (lm_manifest l)))) \<and>
     (\<forall>key mid. mapGet (rg_customRouteOwners rg) key = Some mid \<longleftrightarrow>
        (\<exists>l. mapGet (rg_modulesById rg) mid = Some l \<and>
             key \<in> routeKey ` set (orEmpty (mf_customRoutes (lm_manifest l))))) \<and>
     (\<forall>name mid. mapGet (rg_moduleIdByName rg) name = Some mid \<longleftrightarrow>
        (\<exists>l. mapGet (rg_modulesById rg) mid = Some l \<and> mf_name (lm_manifest l) = name)) \<and>
     (\<forall>mid. mapGet (rg_modulesById rg) mid = None \<longleftrightarrow> mapGet (rg_catalogsById rg) mid = None)"

lemma registryOk_new: "registryOk (newRegistry reservedTasks reservedKinds)"
proof -
  have "mapGet (ownersOf kind (newRegistry reservedTasks reservedKinds)) key = None" for kind key
    by (cases kind) (simp_all add: newRegistry_def mapGet_def)
  then show ?thesis
    by (simp add: registryOk_def) (simp add: newRegistry_def mapGet_def mapOk_def)
qed

lemma reservedOf_otherFields:
  "otherFields rg = otherFields rg' \<Longrightarrow> reservedOf kind rg = reservedOf kind rg'"
  by (cases kind) (auto dest: otherFields_eq)

lemma loadChecks_Inr:
  assumes "loadChecks imported rg = Inr manifest"
  shows "mapGet (rg_modulesById rg) (mf_id manifest) = None"
    and "mapGet (rg_moduleIdByName rg) (mf_name manifest) = None"
    and "assertExportsExist manifest imported = Inr ()"
    and "assertDataMigrationsReferenceOwnDatabases manifest = Inr ()"
  using assms
  by (auto simp: loadChecks_def split: option.splits jsExport.splits if_splits sum.splits)

text \<open>A commit either throws before its first write or writes everything.\<close>

lemma loadCommit_Inl: "loadCommit imported manifest catalogs rg = (Inl e, rg') \<Longrightarrow> rg' = rg"
  by (auto simp: loadCommit_def claimCrossModuleIdentifiers_def Let_def split: sum.splits)

lemma loadCommit_Inr:
  assumes "loadCommit imported manifest catalogs rg = (Inr i, rg')"
  shows "i = mf_id manifest"
    and "checkClaims rg [] (claimsOf manifest) = Inr ()"
    and "checkCustomRoutes rg [] (orEmpty (mf_customRoutes manifest)) = Inr ()"
    and "rg_modulesById rg' = mapSet (mf_id manifest)
           \<lparr>lm_manifest = manifest, lm_exports = imported\<rparr> (rg_modulesById rg)"
    and "rg_moduleIdByName rg' = mapSet (mf_name manifest) (mf_id manifest) (rg_moduleIdByName rg)"
    and "rg_catalogsById rg' = mapSet (mf_id manifest) catalogs (rg_catalogsById rg)"
    and "rg_customRouteOwners rg' = fold (\<lambda>key. mapSet key (mf_id manifest))
           (map routeKey (orEmpty (mf_customRoutes manifest))) (rg_customRouteOwners rg)"
    and "mapGet (ownersOf kind rg') key =
           (if (kind, key) \<in> set (claimsOf manifest) then Some (mf_id manifest)
            else mapGet (ownersOf kind rg) key)"
    and "reservedOf kind rg' = reservedOf kind rg"
proof -
  let ?claimed = "fold (setOwner (mf_id manifest)) (claimsOf manifest) rg"
  note others = otherFields_eq [OF otherFields_setOwners [of "mf_id manifest" "claimsOf manifest" rg]]
  from assms show "i = mf_id manifest" "checkClaims rg [] (claimsOf manifest) = Inr ()"
      "checkCustomRoutes rg [] (orEmpty (mf_customRoutes manifest)) = Inr ()"
    by (auto simp: loadCommit_def claimCrossModuleIdentifiers_def assertCustomRoutesAvailable_def
        Let_def split: sum.splits)
  from assms have rg': "rg' = (commitCustomRoutes manifest (commitCatalogKeys (mf_id manifest) catalogs ?claimed))
      \<lparr>rg_modulesById := mapSet (mf_id manifest) \<lparr>lm_manifest = manifest, lm_exports = imported\<rparr>
         (rg_modulesById rg),
       rg_moduleIdByName := mapSet (mf_name manifest) (mf_id manifest) (rg_moduleIdByName rg),
       rg_catalogsById := mapSet (mf_id manifest) catalogs (rg_catalogsById rg)\<rparr>"
    by (auto simp: loadCommit_def claimCrossModuleIdentifiers_def commitCustomRoutes_def
        commitCatalogKeys_def Let_def others split: sum.splits)
  then show "rg_modulesById rg' = mapSet (mf_id manifest)
           \<lparr>lm_manifest = manifest, lm_exports = imported\<rparr> (rg_modulesById rg)"
    "rg_moduleIdByName rg' = mapSet (mf_name manifest) (mf_id manifest) (rg_moduleIdByName rg)"
    "rg_catalogsById rg' = mapSet (mf_id manifest) catalogs (rg_catalogsById rg)"
    "rg_customRouteOwners rg' = fold (\<lambda>key. mapSet key (mf_id manifest))
       (map routeKey (orEmpty (mf_customRoutes manifest))) (rg_customRouteOwners rg)"
    by (simp_all add: commitCustomRoutes_def commitCatalogKeys_def others)
  from rg' have "ownersOf kind rg' = ownersOf kind ?claimed"
    by (cases kind) (simp_all add: commitCustomRoutes_def commitCatalogKeys_def)
  then show "mapGet (ownersOf kind rg') key =
      (if (kind, key) \<in> set (claimsOf manifest) then Some (mf_id manifest)
       else mapGet (ownersOf kind rg) key)"
    by (simp add: get_setOwners)
  from rg' show "reservedOf kind rg' = reservedOf kind rg"
    by (cases kind) (simp_all add: commitCustomRoutes_def commitCatalogKeys_def others)
qed

lemma registryOk_loadCommit:
  assumes ok: "registryOk rg"
    and checks: "mapGet (rg_modulesById rg) (mf_id manifest) = None"
      "mapGet (rg_moduleIdByName rg) (mf_name manifest) = None"
      "assertExportsExist manifest imported = Inr ()"
      "assertDataMigrationsReferenceOwnDatabases manifest = Inr ()"
    and run: "loadCommit imported manifest catalogs rg = (Inr i, rg')"
  shows "registryOk rg'"
proof -
  let ?new = "\<lparr>lm_manifest = manifest, lm_exports = imported\<rparr>"
  note commit = loadCommit_Inr [OF run]
  have modules: "mapGet (rg_modulesById rg') mid =
      (if mid = mf_id manifest then Some ?new else mapGet (rg_modulesById rg) mid)" for mid
    by (simp add: commit(4) jsm.get_put)
  have claims: "distinct (claimsOf manifest)"
      "\<forall>c \<in> set (claimsOf manifest). snd c \<notin> set (reservedOf (fst c) rg) \<and>
         mapGet (ownersOf (fst c) rg) (snd c) = None"
    using commit(2) by (auto simp: checkClaims_Inr)
  have routes: "distinct (map routeKey (orEmpty (mf_customRoutes manifest)))"
      "\<forall>r \<in> set (orEmpty (mf_customRoutes manifest)). mapGet (rg_customRouteOwners rg) (routeKey r) = None"
    using commit(3) by (auto simp: checkCustomRoutes_Inr)
  have loadedOk: "loadedOk rg' l \<longleftrightarrow> loadedOk rg l" for l
    by (simp add: loadedOk_def commit(9))
  show ?thesis
    unfolding registryOk_def
  proof (intro conjI allI, goal_cases)
    case 1 then show ?case using ok by (simp add: registryOk_def commit(4) jsm.ok_put)
  next
    case (2 mid l) then show ?case
      using ok claims routes checks by (auto simp: modules commit(9) registryOk_def loadedOk_def)
  next
    case (3 kind key mid)
    have "mapGet (ownersOf kind rg) key = Some mid \<longleftrightarrow>
        (\<exists>l. mapGet (rg_modulesById rg) mid = Some l \<and> (kind, key) \<in> set (claimsOf (lm_manifest l)))"
      using ok by (simp add: registryOk_def)
    moreover have "mapGet (ownersOf kind rg) key = None" if "(kind, key) \<in> set (claimsOf manifest)"
      using claims(2) that by force
    ultimately show ?case by (auto simp: modules commit(8) checks(1))
  next
    case (4 key mid)
    have "mapGet (rg_customRouteOwners rg) key = Some mid \<longleftrightarrow>
        (\<exists>l. mapGet (rg_modulesById rg) mid = Some l \<and>
             key \<in> routeKey ` set (orEmpty (mf_customRoutes (lm_manifest l))))"
      using ok by (simp add: registryOk_def)
    moreover have "mapGet (rg_customRouteOwners rg) key = None"
      if "key \<in> routeKey ` set (orEmpty (mf_customRoutes manifest))"
      using routes(2) that by force
    ultimately show ?case
      by (cases "key \<in> routeKey ` set (orEmpty (mf_customRoutes manifest))")
        (simp_all add: modules commit(7) jsm.get_put_all checks(1))
  next
    case (5 name mid)
    have "mapGet (rg_moduleIdByName rg) name = Some mid \<longleftrightarrow>
        (\<exists>l. mapGet (rg_modulesById rg) mid = Some l \<and> mf_name (lm_manifest l) = name)"
      using ok by (simp add: registryOk_def)
    with checks(1,2) show ?case
      by (cases "name = mf_name manifest"; cases "mid = mf_id manifest")
        (auto simp: modules commit(5) jsm.get_put)
  next
    case (6 mid)
    have "mapGet (rg_modulesById rg) mid = None \<longleftrightarrow> mapGet (rg_catalogsById rg) mid = None"
      using ok by (simp add: registryOk_def)
    then show ?case by (simp add: modules commit(6) jsm.get_put)
  qed
qed

text \<open>What a call of \<open>loadModule\<close> did, whichever way it ended.\<close>

lemma loadModule_cases:
  obtains (rejected) e where "loadModule imported csFile enFile rg = (Inl e, rg)"
  | (loaded) manifest catalogs rg' where "loadChecks imported rg = Inr manifest"
      and "loadCommit imported manifest catalogs rg = (Inr (mf_id manifest), rg')"
      and "loadModule imported csFile enFile rg = (Inr (mf_id manifest), rg')"
proof (cases "loadChecks imported rg")
  case (Inl e)
  then show thesis by (intro rejected) (simp add: loadModule_def)
next
  case checks: (Inr manifest)
  show thesis
  proof (cases "loadModuleCatalogs csFile enFile")
    case (Inl e)
    with checks show thesis by (intro rejected) (simp add: loadModule_def)
  next
    case catalogs: (Inr catalogs)
    with checks have run: "loadModule imported csFile enFile rg = loadCommit imported manifest catalogs rg"
      by (simp add: loadModule_def)
    obtain r rg' where res: "loadCommit imported manifest catalogs rg = (r, rg')" by fastforce
    show thesis
    proof (cases r)
      case (Inl e)
      with run res loadCommit_Inl show thesis by (intro rejected) auto
    next
      case (Inr i)
      with res loadCommit_Inr(1) have "i = mf_id manifest" by blast
      with Inr checks run res show thesis by (intro loaded) auto
    qed
  qed
qed

lemma registryOk_loadModule:
  assumes "registryOk rg"
  shows "registryOk (snd (loadModule imported csFile enFile rg))"
proof (cases rule: loadModule_cases [of imported csFile enFile rg])
  case (rejected e)
  with assms show ?thesis by simp
next
  case (loaded manifest catalogs rg')
  from registryOk_loadCommit [OF assms loadChecks_Inr [OF loaded(1)] loaded(2)] loaded(3)
  show ?thesis by simp
qed

lemma registryOk_module:
  "registryOk rg \<Longrightarrow> mapGet (rg_modulesById rg) mid = Some l \<Longrightarrow> mf_id (lm_manifest l) = mid \<and> loadedOk rg l"
  by (simp add: registryOk_def)

lemma registryOk_owner:
  "registryOk rg \<Longrightarrow> mapGet (rg_modulesById rg) mid = Some l \<Longrightarrow>
     (kind, key) \<in> set (claimsOf (lm_manifest l)) \<Longrightarrow> mapGet (ownersOf kind rg) key = Some mid"
  by (auto simp: registryOk_def)

lemma registryOk_route:
  assumes "registryOk rg" and "mapGet (rg_modulesById rg) mid = Some l"
    and "key \<in> routeKey ` set (orEmpty (mf_customRoutes (lm_manifest l)))"
  shows "mapGet (rg_customRouteOwners rg) key = Some mid"
proof -
  have "mapGet (rg_customRouteOwners rg) key = Some mid \<longleftrightarrow>
      (\<exists>l. mapGet (rg_modulesById rg) mid = Some l \<and>
           key \<in> routeKey ` set (orEmpty (mf_customRoutes (lm_manifest l))))"
    using assms(1) by (simp add: registryOk_def)
  with assms(2,3) show ?thesis by blast
qed

section \<open>Reachable registries and their projections\<close>

inductive registryReachable :: "registry \<Rightarrow> bool" where
  new: "registryReachable (newRegistry reservedTasks reservedKinds)"
| load: "registryReachable rg \<Longrightarrow> registryReachable (snd (loadModule imported csFile enFile rg))"

lemma registryReachable_ok: "registryReachable rg \<Longrightarrow> registryOk rg"
  by (induction rule: registryReachable.induct) (auto intro: registryOk_new registryOk_loadModule)

lemma distinct_concat_map:
  assumes "distinct xs" and "\<And>x. x \<in> set xs \<Longrightarrow> distinct (g x)"
    and "\<And>x y. x \<in> set xs \<Longrightarrow> y \<in> set xs \<Longrightarrow> x \<noteq> y \<Longrightarrow> set (g x) \<inter> set (g y) = {}"
  shows "distinct (concat (map g xs))"
  using assms
proof (induction xs)
  case (Cons a xs)
  have "distinct (concat (map g xs))" using Cons.prems by (intro Cons.IH) auto
  moreover have "set (g a) \<inter> set (g x) = {}" if "x \<in> set xs" for x
    using Cons.prems(1) that by (intro Cons.prems(3)) auto
  ultimately show ?case using Cons.prems(2) by auto
qed simp

definition claimedKeys :: "claimKind \<Rightarrow> LoadedModule \<Rightarrow> string list" where
  "claimedKeys kind l = map snd (filter (\<lambda>c. fst c = kind) (claimsOf (lm_manifest l)))"

lemma active_loaded:
  assumes "registryOk rg" and "l \<in> set (getActiveModules activeIds rg)"
  shows "mapGet (rg_modulesById rg) (mf_id (lm_manifest l)) = Some l" and "loadedOk rg l"
    and "mf_id (lm_manifest l) \<in> set activeIds"
proof -
  from assms(2) obtain mid where mid: "(mid, l) \<in> set (rg_modulesById rg)"
      and act: "mf_id (lm_manifest l) \<in> set activeIds"
    by (auto simp: getActiveModules_def)
  from assms(1) mid have "mapGet (rg_modulesById rg) mid = Some l"
    by (simp add: registryOk_def mapOk_def mapGet_def)
  with registryOk_module [OF assms(1) this] act show "mapGet (rg_modulesById rg) (mf_id (lm_manifest l)) = Some l" "loadedOk rg l"
      "mf_id (lm_manifest l) \<in> set activeIds"
    by simp_all
qed

lemma distinct_active:
  assumes ok: "registryOk rg"
  shows "distinct (getActiveModules activeIds rg)"
proof -
  have keys: "distinct (map fst (rg_modulesById rg))" using ok by (simp add: registryOk_def mapOk_def)
  have fst_eq: "fst x = mf_id (lm_manifest (snd x))" if "x \<in> set (rg_modulesById rg)" for x
  proof -
    from keys that have "mapGet (rg_modulesById rg) (fst x) = Some (snd x)"
      by (simp add: mapGet_def)
    from registryOk_module [OF ok this] show ?thesis by simp
  qed
  have "distinct (rg_modulesById rg)" using keys by (simp add: distinct_map)
  moreover have "inj_on snd (set (rg_modulesById rg))"
    by (rule inj_onI) (metis fst_eq prod_eq_iff)
  ultimately have "distinct (map snd (rg_modulesById rg))" by (simp add: distinct_map)
  then show ?thesis by (simp add: getActiveModules_def)
qed

lemma distinct_claimedKeys:
  assumes "registryOk rg"
  shows "distinct (concat (map (claimedKeys kind) (getActiveModules activeIds rg)))"
proof (rule distinct_concat_map [OF distinct_active [OF assms]])
  fix l assume l: "l \<in> set (getActiveModules activeIds rg)"
  then have "distinct (claimsOf (lm_manifest l))"
    using active_loaded(2) [OF assms l] by (simp add: loadedOk_def)
  then show "distinct (claimedKeys kind l)"
    by (auto simp: claimedKeys_def distinct_map inj_on_def)
  fix l' assume l': "l' \<in> set (getActiveModules activeIds rg)" and "l \<noteq> l'"
  have "l = l'" if key: "(kind, key) \<in> set (claimsOf (lm_manifest l))"
      "(kind, key) \<in> set (claimsOf (lm_manifest l'))" for key
  proof -
    have "mapGet (ownersOf kind rg) key = Some (mf_id (lm_manifest l))"
      "mapGet (ownersOf kind rg) key = Some (mf_id (lm_manifest l'))"
      using registryOk_owner [OF assms active_loaded(1) [OF assms l] key(1)]
        registryOk_owner [OF assms active_loaded(1) [OF assms l'] key(2)] by simp_all
    with active_loaded(1) [OF assms l] active_loaded(1) [OF assms l'] show ?thesis by simp
  qed
  with \<open>l \<noteq> l'\<close> show "set (claimedKeys kind l) \<inter> set (claimedKeys kind l') = {}"
    by (auto simp: claimedKeys_def)
qed

lemma filter_claims_empty:
  "k \<noteq> k' \<Longrightarrow> filter (\<lambda>c. fst c = k) (map (\<lambda>x. (k', f x)) xs) = []"
  by (induction xs) auto

lemma filter_claims_all: "filter (\<lambda>c. fst c = k) (map (\<lambda>x. (k, f x)) xs) = map (\<lambda>x. (k, f x)) xs"
  by (induction xs) auto

lemma claimedKeys_simps:
  "claimedKeys CkDatabase l = map md_key (mf_databases (lm_manifest l))"
  "claimedKeys CkAgentTool l = map ma_name (mf_agentTools (lm_manifest l))"
  "claimedKeys CkTask l = map mt_name (orEmpty (mf_taskNames (lm_manifest l)))"
  "claimedKeys CkWorker l = map mw_name (orEmpty (mf_workers (lm_manifest l)))"
  "claimedKeys CkRuleKind l = map mh_kind (orEmpty (mf_heartbeatRuleKinds (lm_manifest l)))"
  by (simp_all add: claimedKeys_def claimsOf_def filter_claims_empty filter_claims_all comp_def)

lemma claimedKeys_fun:
  "claimedKeys CkDatabase = (\<lambda>l. map md_key (mf_databases (lm_manifest l)))"
  "claimedKeys CkAgentTool = (\<lambda>l. map ma_name (mf_agentTools (lm_manifest l)))"
  "claimedKeys CkTask = (\<lambda>l. map mt_name (orEmpty (mf_taskNames (lm_manifest l))))"
  "claimedKeys CkWorker = (\<lambda>l. map mw_name (orEmpty (mf_workers (lm_manifest l))))"
  "claimedKeys CkRuleKind = (\<lambda>l. map mh_kind (orEmpty (mf_heartbeatRuleKinds (lm_manifest l))))"
  by (simp_all add: fun_eq_iff claimedKeys_simps)

lemma distinct_concat_filter:
  "distinct (concat (map (\<lambda>x. map f (ts x)) xs)) \<Longrightarrow>
     distinct (concat (map (\<lambda>x. map f (filter p (ts x))) xs))"
  by (induction xs) (auto simp: distinct_map_filter)

lemma distinct_routes:
  assumes "registryOk rg"
  shows "distinct (concat (map (\<lambda>l. map routeKey (orEmpty (mf_customRoutes (lm_manifest l))))
           (getActiveModules activeIds rg)))"
proof (rule distinct_concat_map [OF distinct_active [OF assms]])
  fix l assume l: "l \<in> set (getActiveModules activeIds rg)"
  then show "distinct (map routeKey (orEmpty (mf_customRoutes (lm_manifest l))))"
    using active_loaded(2) [OF assms l] by (simp add: loadedOk_def)
  fix l' assume l': "l' \<in> set (getActiveModules activeIds rg)" and "l \<noteq> l'"
  have "l = l'" if "key \<in> routeKey ` set (orEmpty (mf_customRoutes (lm_manifest l)))"
      "key \<in> routeKey ` set (orEmpty (mf_customRoutes (lm_manifest l')))" for key
  proof -
    have "mapGet (rg_customRouteOwners rg) key = Some (mf_id (lm_manifest l))"
      "mapGet (rg_customRouteOwners rg) key = Some (mf_id (lm_manifest l'))"
      using registryOk_route [OF assms active_loaded(1) [OF assms l] that(1)]
        registryOk_route [OF assms active_loaded(1) [OF assms l'] that(2)] by simp_all
    with active_loaded(1) [OF assms l] active_loaded(1) [OF assms l'] show ?thesis by simp
  qed
  with \<open>l \<noteq> l'\<close> show "set (map routeKey (orEmpty (mf_customRoutes (lm_manifest l)))) \<inter>
      set (map routeKey (orEmpty (mf_customRoutes (lm_manifest l')))) = {}"
    by auto
qed

section \<open>Named exports\<close>

lemma requireFunctionExport_Inr:
  "requireFunctionExport imported n = Inr () \<longleftrightarrow> (\<exists>f. map_of imported n = Some (ExFunction f))"
  by (auto simp: requireFunctionExport_def requireExport_def split: option.splits jsExport.splits)

lemma requireSchemaExport_Inr:
  "requireSchemaExport imported n = Inr () \<longleftrightarrow> (\<exists>f. map_of imported n = Some (ExSchema f))"
  by (auto simp: requireSchemaExport_def requireExport_def split: option.splits jsExport.splits)

lemma requireExport_Inr:
  "requireExport imported n = Inr v \<longleftrightarrow> map_of imported n = Some v \<and> v \<noteq> ExUndefined"
  by (auto simp: requireExport_def split: option.splits jsExport.splits)

definition isFunctionExport :: "jsExport \<Rightarrow> bool" where
  "isFunctionExport v = (case v of ExFunction _ \<Rightarrow> True | _ \<Rightarrow> False)"

definition isSchemaExport :: "jsExport \<Rightarrow> bool" where
  "isSchemaExport v = (case v of ExSchema _ \<Rightarrow> True | _ \<Rightarrow> False)"

lemma function_exportOf:
  "requireFunctionExport (lm_exports l) n = Inr () \<Longrightarrow> isFunctionExport (exportOf l n)"
  by (auto simp: requireFunctionExport_Inr exportOf_def isFunctionExport_def)

lemma schema_exportOf:
  "requireSchemaExport (lm_exports l) n = Inr () \<Longrightarrow> isSchemaExport (exportOf l n)"
  by (auto simp: requireSchemaExport_Inr exportOf_def isSchemaExport_def)

lemma present_exportOf:
  "requireExport (lm_exports l) n = Inr v \<Longrightarrow> exportOf l n \<noteq> ExUndefined"
  by (auto simp: requireExport_Inr exportOf_def)

lemma sum_present: "(case r of Inl e \<Rightarrow> Inl e | Inr _ \<Rightarrow> Inr ()) = Inr () \<longleftrightarrow> (\<exists>v. r = Inr v)"
  by (cases r) auto

lemma assertExportsExist_Inr:
  assumes "assertExportsExist manifest imported = Inr ()"
  shows "\<And>t. t \<in> set (orEmpty (mf_taskNames manifest)) \<Longrightarrow>
      (\<exists>v. requireExport imported (mt_payloadSchemaExport t) = Inr v) \<and>
      requireFunctionExport imported (mt_handlerExport t) = Inr ()"
    and "\<And>k. k \<in> set (orEmpty (mf_heartbeatRuleKinds manifest)) \<Longrightarrow>
      requireSchemaExport imported (mh_schemaExport k) = Inr () \<and>
      requireFunctionExport imported (mh_nextFireAtExport k) = Inr ()"
    and "\<And>m. m \<in> set (orEmpty (mf_dataMigrations manifest)) \<Longrightarrow>
      requireFunctionExport imported (mm_converterExport m) = Inr ()"
    and "\<And>r. r \<in> set (orEmpty (mf_customRoutes manifest)) \<Longrightarrow>
      requireFunctionExport imported (mc_handlerExport r) = Inr ()"
  using assms by (auto simp: assertExportsExist_def allOk_Inr ball_Un sum_present)

section \<open>Properties of the registry\<close>


text \<open>
  C17: in every registry built by loading modules, the identifiers that
  the projections of the active modules expose are unique across all modules: database keys,
  agent tool names, task names, worker names, heartbeat rule kinds and method-path pairs of
  routes; and no task name or rule kind is one that core reserved.
\<close>

theorem active_identifiers_unique:
  assumes "registryReachable rg"
  shows "distinct (map (\<lambda>(_, d). md_key d) (getDatabases activeIds rg)) \<and>
         distinct (map (\<lambda>(_, name, _). name) (getAgentTools granted activeIds rg)) \<and>
         distinct (map (\<lambda>(_, t). mt_name t) (getTasks activeIds rg)) \<and>
         distinct (map (\<lambda>(_, w). mw_name w) (getWorkers activeIds rg)) \<and>
         distinct (getHeartbeatRuleKinds activeIds rg) \<and>
         distinct (map (\<lambda>(_, r, _). routeKey r) (getCustomRouteDefinitions activeIds rg)) \<and>
         set (map (\<lambda>(_, t). mt_name t) (getTasks activeIds rg)) \<inter> set (rg_reservedTaskNames rg) = {} \<and>
         set (getHeartbeatRuleKinds activeIds rg) \<inter> set (rg_reservedHeartbeatRuleKinds rg) = {}"
proof -
  note ok = registryReachable_ok [OF assms]
  note keys = distinct_claimedKeys [OF ok, of _ activeIds]
  have unreserved: "key \<notin> set (reservedOf kind rg)"
    if "l \<in> set (getActiveModules activeIds rg)" "(kind, key) \<in> set (claimsOf (lm_manifest l))" for l kind key
    using active_loaded(2) [OF ok that(1)] that(2) by (auto simp: loadedOk_def)
  have tasks: "mt_name t \<notin> set (rg_reservedTaskNames rg)"
    if "l \<in> set (getActiveModules activeIds rg)" "t \<in> set (orEmpty (mf_taskNames (lm_manifest l)))" for l t
    using unreserved [OF that(1), of CkTask "mt_name t"] that(2) by (auto simp: claimsOf_def)
  have kinds: "mh_kind k \<notin> set (rg_reservedHeartbeatRuleKinds rg)"
    if "l \<in> set (getActiveModules activeIds rg)"
      "k \<in> set (orEmpty (mf_heartbeatRuleKinds (lm_manifest l)))" for l k
    using unreserved [OF that(1), of CkRuleKind "mh_kind k"] that(2) by (auto simp: claimsOf_def)
  show ?thesis
    using keys [of CkDatabase] keys [of CkTask] keys [of CkWorker] keys [of CkRuleKind]
      distinct_concat_filter [OF keys [of CkAgentTool, unfolded claimedKeys_fun]]
      distinct_routes [OF ok, of activeIds] tasks kinds
    by (auto simp: claimedKeys_fun getDatabases_def getAgentTools_def getTasks_def getWorkers_def comp_def
        getHeartbeatRuleKinds_def getCustomRouteDefinitions_def flatActive_def map_concat)
qed

text \<open>
  C38: every definition the registry hands out resolves: task handlers,
  next-fire calculators, converters and route handlers are functions, rule schemas have
  \<open>safeParse\<close>, and payload schemas exist, for every module loaded so far.
\<close>

theorem projected_exports_resolve:
  assumes "registryReachable rg"
  shows "list_all (\<lambda>(_, _, schema, handler, _). schema \<noteq> ExUndefined \<and> isFunctionExport handler)
           (getTaskDefinitions activeIds rg) \<and>
         list_all (\<lambda>(_, _, schema, nextFireAt). isSchemaExport schema \<and> isFunctionExport nextFireAt)
           (getHeartbeatRuleKindDefinitions activeIds rg) \<and>
         list_all (\<lambda>(_, _, converter). isFunctionExport converter)
           (getDataMigrationDefinitions activeIds rg) \<and>
         list_all (\<lambda>(_, _, handler). isFunctionExport handler) (getCustomRouteDefinitions activeIds rg)"
proof -
  have exps: "assertExportsExist (lm_manifest l) (lm_exports l) = Inr ()"
    if "l \<in> set (getActiveModules activeIds rg)" for l
    using active_loaded(2) [OF registryReachable_ok [OF assms] that] by (simp add: loadedOk_def)
  note has = assertExportsExist_Inr [OF exps]
  have task: "exportOf l (mt_payloadSchemaExport t) \<noteq> ExUndefined \<and>
      isFunctionExport (exportOf l (mt_handlerExport t))"
    if "l \<in> set (getActiveModules activeIds rg)" "t \<in> set (orEmpty (mf_taskNames (lm_manifest l)))" for l t
    using has(1) [OF that] present_exportOf function_exportOf by blast
  show ?thesis
    using task has(2-4)
    by (auto simp: list_all_iff getTaskDefinitions_def getHeartbeatRuleKindDefinitions_def
        getDataMigrationDefinitions_def getCustomRouteDefinitions_def flatActive_def
        intro!: function_exportOf schema_exportOf)
qed

section \<open>An example\<close>

text \<open>A module with a database, a task, a rule kind and a route, and a second one it collides with.\<close>

definition exampleManifest :: "string \<Rightarrow> json" where
  "exampleManifest i = JObj
     [(''id'', JStr i), (''version'', JStr ''1''), (''name'', JStr i), (''removable'', JBool True),
      (''systemProject'', JBool False),
      (''databases'', JArr [JObj [(''key'', JStr ''notes''), (''name'', JStr ''Notes'')]]),
      (''capabilities'', JArr []), (''agentTools'', JArr []),
      (''heartbeatRuleKinds'', JArr [JObj [(''kind'', JStr ''lunar''), (''schemaExport'', JStr ''lunarSchema''),
         (''nextFireAtExport'', JStr ''lunarNext'')]]),
      (''taskNames'', JArr [JObj [(''name'', JStr ''sync''), (''payloadSchemaExport'', JStr ''lunarSchema''),
         (''handlerExport'', JStr ''sync''), (''queueAffinity'', JStr ''api'')]])]"

definition exampleExports :: "string \<Rightarrow> exports" where
  "exampleExports i = [(''manifest'', ExJson (exampleManifest i)), (''lunarSchema'', ExSchema ''s''),
     (''lunarNext'', ExFunction ''n''), (''sync'', ExFunction ''f'')]"

definition exampleRegistry :: registry where
  "exampleRegistry = snd (loadModule (exampleExports ''other'') FileMissing FileMissing
     (snd (loadModule (exampleExports ''notes'') FileMissing FileMissing (newRegistry (Some [''sweep'']) None))))"

lemma exampleRegistry_reachable: "registryReachable exampleRegistry"
  unfolding exampleRegistry_def by (intro registryReachable.intros)

lemma exampleRegistry_eval:
  "listModuleIds exampleRegistry = [''notes''] \<and>
   map (\<lambda>(_, t). mt_name t) (getTasks [''notes''] exampleRegistry) = [''sync''] \<and>
   getHeartbeatRuleKindDefinitions [''notes''] exampleRegistry =
     [(''notes'', ''lunar'', ExSchema ''s'', ExFunction ''n'')]"
  by code_simp

theorem active_identifiers_unique_witness:
  "distinct (map (\<lambda>(_, t). mt_name t) (getTasks [''notes''] exampleRegistry)) \<and>
   map (\<lambda>(_, t). mt_name t) (getTasks [''notes''] exampleRegistry) = [''sync'']"
  using active_identifiers_unique [OF exampleRegistry_reachable, of "[''notes'']"] exampleRegistry_eval by blast

theorem projected_exports_resolve_witness: "isSchemaExport (ExSchema ''s'') \<and> isFunctionExport (ExFunction ''n'')"
  using projected_exports_resolve [OF exampleRegistry_reachable, of "[''notes'']"]
  by (simp add: exampleRegistry_eval)

end
