(* ===== verification/IpAddress.thy ===== *)
theory IpAddress
  imports Prelude "HOL-Library.Char_ord"
begin

text \<open>
  The address part of \<open>semprec-api/src/clientIpThrottle.ts\<close>: the groups of an IPv6 address
  and the key an address is throttled under, with the checks of \<open>node:net\<close> it calls.
\<close>

section \<open>Splitting and numerals\<close>

fun splitChar :: "char \<Rightarrow> string \<Rightarrow> string list" where
  "splitChar c [] = [[]]"
| "splitChar c (x # xs) =
     (if x = c then [] # splitChar c xs
      else case splitChar c xs of [] \<Rightarrow> [[x]] | p # ps \<Rightarrow> (x # p) # ps)"

text \<open>\<open>text.split("::")\<close>.\<close>

fun splitDoubleColon :: "string \<Rightarrow> string list" where
  "splitDoubleColon [] = [[]]"
| "splitDoubleColon [x] = [[x]]"
| "splitDoubleColon (x # y # xs) =
     (if x = CHR '':'' \<and> y = CHR '':'' then [] # splitDoubleColon xs
      else case splitDoubleColon (y # xs) of [] \<Rightarrow> [[x]] | p # ps \<Rightarrow> (x # p) # ps)"

definition decimalDigit :: "char \<Rightarrow> int option" where
  "decimalDigit c = map_of (zip ''0123456789'' [0, 1, 2, 3, 4, 5, 6, 7, 8, 9]) c"

definition hexDigit :: "char \<Rightarrow> int option" where
  "hexDigit c =
     map_of (zip ''0123456789abcdefABCDEF''
       [0, 1, 2, 3, 4, 5, 6, 7, 8, 9, 10, 11, 12, 13, 14, 15, 10, 11, 12, 13, 14, 15]) c"

definition numeralValue :: "int \<Rightarrow> (char \<Rightarrow> int option) \<Rightarrow> string \<Rightarrow> int" where
  "numeralValue base digit s =
     fold (\<lambda>c n. base * n + (case digit c of None \<Rightarrow> 0 | Some d \<Rightarrow> d)) s 0"

fun numeralDigits :: "nat \<Rightarrow> int \<Rightarrow> int list" where
  "numeralDigits 0 n = []"
| "numeralDigits (Suc fuel) n = (if n < 16 then [n] else numeralDigits fuel (n div 16) @ [n mod 16])"

definition hexString :: "int \<Rightarrow> string" where
  "hexString n = map (\<lambda>d. ''0123456789abcdef'' ! nat d) (numeralDigits 4 n)"

definition byteString :: "int \<Rightarrow> string" where
  "byteString n =
     (let digit = (\<lambda>d. ''0123456789'' ! nat d) in
      if n < 10 then [digit n]
      else if n < 100 then [digit (n div 10), digit (n mod 10)]
      else [digit (n div 100), digit (n div 10 mod 10), digit (n mod 10)])"

section \<open>\<open>node:net\<close>\<close>

text \<open>\<open>isIPv4\<close>: four octets \<open>0..255\<close> without leading zeros.\<close>

definition isOctet :: "string \<Rightarrow> bool" where
  "isOctet s \<longleftrightarrow> s \<noteq> [] \<and> length s \<le> 3 \<and> list_all (\<lambda>c. decimalDigit c \<noteq> None) s \<and>
     (length s = 1 \<or> hd s \<noteq> CHR ''0'') \<and> numeralValue 10 decimalDigit s \<le> 255"

definition isIPv4 :: "string \<Rightarrow> bool" where
  "isIPv4 s \<longleftrightarrow> length (splitChar (CHR ''.'') s) = 4 \<and> list_all isOctet (splitChar (CHR ''.'') s)"

section \<open>IPv6 groups\<close>

definition isGroup :: "string \<Rightarrow> bool" where
  "isGroup s \<longleftrightarrow> 1 \<le> length s \<and> length s \<le> 4 \<and> list_all (\<lambda>c. hexDigit c \<noteq> None) s"

definition parseGroups :: "string \<Rightarrow> int list option" where
  "parseGroups part =
     (if part = '''' then Some []
      else if list_all isGroup (splitChar (CHR '':'') part)
      then Some (map (numeralValue 16 hexDigit) (splitChar (CHR '':'') part)) else None)"

text \<open>
  The text with an IPv4 tail written as two groups; \<open>None\<close> when the tail after the last colon
  has a dot and is no IPv4 address. Octets are below 256, so \<open>(a << 8) | b\<close> is \<open>256 a + b\<close>.
\<close>

definition expandTail :: "string \<Rightarrow> string option" where
  "expandTail text =
     (let tail = rev (takeWhile (\<lambda>c. c \<noteq> CHR '':'') (rev text));
          front = take (length text - length tail) text in
      if CHR ''.'' \<notin> set tail then Some text
      else if \<not> isIPv4 tail then None
      else case map (numeralValue 10 decimalDigit) (splitChar (CHR ''.'') tail) of
             [a, b, c, d] \<Rightarrow> Some (front @ hexString (256 * a + b) @ '':'' @ hexString (256 * c + d))
           | _ \<Rightarrow> None)"

definition ipv6Groups :: "string \<Rightarrow> int list option" where
  "ipv6Groups address =
     (case expandTail (takeWhile (\<lambda>c. c \<noteq> CHR ''%'') address) of
        None \<Rightarrow> None
      | Some text \<Rightarrow>
          (case splitDoubleColon text of
             [one] \<Rightarrow> (case parseGroups one of
                 None \<Rightarrow> None | Some groups \<Rightarrow> if length groups = 8 then Some groups else None)
           | [first, second] \<Rightarrow> (case (parseGroups first, parseGroups second) of
                 (Some front, Some rest) \<Rightarrow>
                   if length front + length rest \<ge> 8 then None
                   else Some (front @ replicate (8 - length front - length rest) 0 @ rest)
               | _ \<Rightarrow> None)
           | _ \<Rightarrow> None))"

text \<open>
  \<open>isIPv6\<close>: the textual forms of an address, with an optional zone of letters, digits,
  hyphens, dots and colons. The forms are those that expand to eight groups.
\<close>

definition zoneChar :: "char \<Rightarrow> bool" where
  "zoneChar c \<longleftrightarrow> (CHR ''0'' \<le> c \<and> c \<le> CHR ''9'') \<or> (CHR ''a'' \<le> c \<and> c \<le> CHR ''z'') \<or>
     (CHR ''A'' \<le> c \<and> c \<le> CHR ''Z'') \<or> c \<in> set ''-.:''"

definition isIPv6 :: "string \<Rightarrow> bool" where
  "isIPv6 s \<longleftrightarrow> ipv6Groups s \<noteq> None \<and>
     (case dropWhile (\<lambda>c. c \<noteq> CHR ''%'') s of
        [] \<Rightarrow> True | _ # zone \<Rightarrow> zone \<noteq> [] \<and> list_all zoneChar zone)"

definition joinColon :: "string list \<Rightarrow> string" where
  "joinColon parts = (case parts of [] \<Rightarrow> '''' | p # ps \<Rightarrow> p @ concat (map (\<lambda>q. '':'' @ q) ps))"

definition throttleKeyForIp :: "string \<Rightarrow> string" where
  "throttleKeyForIp ip =
     (if \<not> isIPv6 ip then ip
      else case ipv6Groups ip of
             None \<Rightarrow> ip
           | Some groups \<Rightarrow>
               if list_all (\<lambda>g. g = 0) (take 5 groups) \<and> groups ! 5 = 0xffff
               then byteString (groups ! 6 div 256) @ ''.'' @ byteString (groups ! 6 mod 256) @ ''.'' @
                    byteString (groups ! 7 div 256) @ ''.'' @ byteString (groups ! 7 mod 256)
               else joinColon (map hexString (take 4 groups)) @ ''::/64'')"

section \<open>Groups and keys\<close>

lemma hexDigit_range: "hexDigit c = Some d \<Longrightarrow> 0 \<le> d \<and> d < 16"
  by (auto simp: hexDigit_def split: if_splits)

lemma numeralValue_bound:
  assumes "list_all (\<lambda>c. hexDigit c \<noteq> None) s"
  shows "0 \<le> numeralValue 16 hexDigit s \<and> numeralValue 16 hexDigit s < 16 ^ length s"
  using assms
proof (induction s rule: rev_induct)
  case (snoc c s)
  then obtain d where d: "hexDigit c = Some d" "0 \<le> d \<and> d < 16" by (auto dest: hexDigit_range)
  from snoc have "0 \<le> numeralValue 16 hexDigit s" "numeralValue 16 hexDigit s + 1 \<le> 16 ^ length s"
    by simp_all
  then have "16 * numeralValue 16 hexDigit s + 16 \<le> 16 * 16 ^ length s"
    "0 \<le> 16 * numeralValue 16 hexDigit s" by simp_all
  with d show ?case by (simp add: numeralValue_def)
qed (simp add: numeralValue_def)

lemma parseGroups_bound:
  assumes "parseGroups part = Some groups"
  shows "list_all (\<lambda>g. 0 \<le> g \<and> g < 65536) groups"
proof -
  have "0 \<le> numeralValue 16 hexDigit s \<and> numeralValue 16 hexDigit s < 65536" if "isGroup s" for s
  proof -
    have "(16::int) ^ length s \<le> 16 ^ 4"
      using that by (intro power_increasing) (auto simp: isGroup_def)
    with numeralValue_bound [of s] that show ?thesis by (simp add: isGroup_def)
  qed
  with assms show ?thesis
    by (auto simp: parseGroups_def list_all_iff split: if_splits)
qed

text \<open>The groups of an address are eight 16-bit numbers.\<close>

lemma ipv6Groups_wellformed:
  assumes "ipv6Groups address = Some groups"
  shows "length groups = 8 \<and> list_all (\<lambda>g. 0 \<le> g \<and> g < 65536) groups"
  using assms
  by (auto simp: ipv6Groups_def list_all_iff split: option.splits list.splits if_splits
      dest!: parseGroups_bound)

text \<open>\<open>toString(16)\<close> read back as a group gives the number: the texts of groups differ.\<close>

lemma hexDigit_nth:
  assumes "0 \<le> d" and "d < 16"
  shows "hexDigit (''0123456789abcdef'' ! nat d) = Some d" and "''0123456789abcdef'' ! nat d \<noteq> CHR '':''"
proof -
  have "list_all (\<lambda>d. hexDigit (''0123456789abcdef'' ! nat d) = Some d \<and>
      ''0123456789abcdef'' ! nat d \<noteq> CHR '':'')
      [0, 1, 2, 3, 4, 5, 6, 7, 8, 9, 10, 11, 12, 13, 14, 15]"
    by code_simp
  moreover from assms have "d = 0 \<or> d = 1 \<or> d = 2 \<or> d = 3 \<or> d = 4 \<or> d = 5 \<or> d = 6 \<or> d = 7 \<or>
      d = 8 \<or> d = 9 \<or> d = 10 \<or> d = 11 \<or> d = 12 \<or> d = 13 \<or> d = 14 \<or> d = 15" by arith
  then have "d \<in> set [0, 1, 2, 3, 4, 5, 6, 7, 8, 9, 10, 11, 12, 13, 14, 15]"
    by (simp only: list.set insert_iff empty_iff simp_thms)
  ultimately show "hexDigit (''0123456789abcdef'' ! nat d) = Some d" "''0123456789abcdef'' ! nat d \<noteq> CHR '':''"
    unfolding list_all_iff by blast+
qed

lemma numeralDigits_range:
  "0 \<le> n \<Longrightarrow> list_all (\<lambda>d. 0 \<le> d \<and> d < 16) (numeralDigits fuel n)"
  by (induction fuel arbitrary: n) auto

lemma numeralDigits_value:
  assumes "0 \<le> n" and "n < 16 ^ Suc fuel"
  shows "fold (\<lambda>d v. 16 * v + d) (numeralDigits (Suc fuel) n) 0 = n"
  using assms
proof (induction fuel arbitrary: n)
  case (Suc fuel)
  show ?case
  proof (cases "n < 16")
    case False
    have "n div 16 * 16 \<le> n" by simp
    with Suc.prems(2) have "n div 16 < 16 ^ Suc fuel" by simp
    with Suc.IH [of "n div 16"] Suc.prems False show ?thesis by simp
  qed simp
qed simp

definition isGroupValue :: "int \<Rightarrow> bool" where
  "isGroupValue g \<longleftrightarrow> 0 \<le> g \<and> g < 65536"

lemma hexString_value:
  assumes "isGroupValue g"
  shows "numeralValue 16 hexDigit (hexString g) = g"
proof -
  have step: "fold (\<lambda>c n. 16 * n + (case hexDigit c of None \<Rightarrow> 0 | Some d \<Rightarrow> d))
      (map (\<lambda>d. ''0123456789abcdef'' ! nat d) ds) v = fold (\<lambda>d v. 16 * v + d) ds v"
    if "list_all (\<lambda>d. 0 \<le> d \<and> d < 16) ds" for ds v
    using that by (induction ds arbitrary: v) (auto simp: hexDigit_nth(1))
  have "fold (\<lambda>d v. 16 * v + d) (numeralDigits 4 g) 0 = g"
    using assms numeralDigits_value [of g 3] by (simp add: isGroupValue_def numeral_eq_Suc)
  moreover have "list_all (\<lambda>d. 0 \<le> d \<and> d < 16) (numeralDigits 4 g)"
    using assms by (intro numeralDigits_range) (simp add: isGroupValue_def)
  ultimately show ?thesis by (simp add: numeralValue_def hexString_def step)
qed

lemma hexString_no_colon:
  assumes "isGroupValue g"
  shows "CHR '':'' \<notin> set (hexString g)"
proof -
  have "list_all (\<lambda>d. 0 \<le> d \<and> d < 16) (numeralDigits 4 g)"
    using assms by (intro numeralDigits_range) (simp add: isGroupValue_def)
  then show ?thesis using hexDigit_nth(2) by (fastforce simp: hexString_def list_all_iff)
qed

lemma splitChar_append: "c \<notin> set p \<Longrightarrow> splitChar c (p @ c # rest) = p # splitChar c rest"
  by (induction p) auto

lemma splitChar_none: "c \<notin> set p \<Longrightarrow> splitChar c p = [p]"
  by (induction p) auto

lemma splitChar_joinColon:
  "list_all (\<lambda>p. CHR '':'' \<notin> set p) parts \<Longrightarrow> parts \<noteq> [] \<Longrightarrow> splitChar (CHR '':'') (joinColon parts) = parts"
proof (induction parts)
  case (Cons p parts)
  show ?case
  proof (cases parts)
    case Nil
    with Cons.prems show ?thesis by (simp add: joinColon_def splitChar_none)
  next
    case (Cons q qs)
    then have "joinColon (p # parts) = p @ CHR '':'' # joinColon parts" by (simp add: joinColon_def)
    with Cons.IH Cons.prems Cons show ?thesis by (simp add: splitChar_append)
  qed
qed simp

lemma hexGroups_inj:
  assumes "list_all isGroupValue gs" and "list_all isGroupValue hs" and "gs \<noteq> []" and "hs \<noteq> []"
    and "joinColon (map hexString gs) = joinColon (map hexString hs)"
  shows "gs = hs"
proof -
  have split: "splitChar (CHR '':'') (joinColon (map hexString xs)) = map hexString xs"
    if "list_all isGroupValue xs" "xs \<noteq> []" for xs
    using that by (intro splitChar_joinColon) (auto simp: list_all_iff hexString_no_colon)
  have texts: "map hexString gs = map hexString hs"
    by (rule trans [OF split [OF assms(1,3), symmetric]
          trans [OF arg_cong [OF assms(5), where f = "splitChar (CHR '':'')"]
            split [OF assms(2,4)]]])
  have "map (numeralValue 16 hexDigit) (map hexString xs) = xs" if "list_all isGroupValue xs" for xs
    using that by (induction xs) (auto simp: hexString_value)
  with texts assms(1,2) show ?thesis by metis
qed

section \<open>What a key identifies\<close>

definition ipv4Mapped :: "int list \<Rightarrow> bool" where
  "ipv4Mapped groups \<longleftrightarrow> list_all (\<lambda>g. g = 0) (take 5 groups) \<and> groups ! 5 = 0xffff"

text \<open>
  C40: two IPv6 addresses that are not IPv4-mapped share a throttle key
  exactly when they share their first four groups, however they are written: one budget per
  \<open>/64\<close>, and never one budget for two of them.
\<close>

theorem throttle_key_prefix:
  assumes "isIPv6 a" and "isIPv6 b" and "ipv6Groups a = Some ga" and "ipv6Groups b = Some gb"
    and "\<not> ipv4Mapped ga" and "\<not> ipv4Mapped gb"
  shows "throttleKeyForIp a = throttleKeyForIp b \<longleftrightarrow> take 4 ga = take 4 gb"
proof
  assume keys: "throttleKeyForIp a = throttleKeyForIp b"
  have vals: "list_all isGroupValue (take 4 gs)" "take 4 gs \<noteq> []" if "ipv6Groups s = Some gs" for s gs
    using ipv6Groups_wellformed [OF that]
    by (auto simp: list_all_iff isGroupValue_def dest: in_set_takeD)
  from keys assms have "joinColon (map hexString (take 4 ga)) = joinColon (map hexString (take 4 gb))"
    by (simp add: throttleKeyForIp_def ipv4Mapped_def split: if_splits)
  with vals assms(3,4) show "take 4 ga = take 4 gb" by (intro hexGroups_inj) auto
next
  assume "take 4 ga = take 4 gb"
  with assms show "throttleKeyForIp a = throttleKeyForIp b"
    by (auto simp: throttleKeyForIp_def ipv4Mapped_def)
qed

theorem throttle_key_prefix_witness:
  "throttleKeyForIp ''2001:db8::1'' = throttleKeyForIp ''2001:0DB8:0:0:ffff::'' \<and>
   throttleKeyForIp ''2001:db8::1'' \<noteq> throttleKeyForIp ''2001:db8:1::1''"
proof -
  have "isIPv6 ''2001:db8::1''" "isIPv6 ''2001:0DB8:0:0:ffff::''" "isIPv6 ''2001:db8:1::1''"
    "ipv6Groups ''2001:db8::1'' = Some [0x2001, 0xdb8, 0, 0, 0, 0, 0, 1]"
    "ipv6Groups ''2001:0DB8:0:0:ffff::'' = Some [0x2001, 0xdb8, 0, 0, 0xffff, 0, 0, 0]"
    "ipv6Groups ''2001:db8:1::1'' = Some [0x2001, 0xdb8, 1, 0, 0, 0, 0, 1]"
    by code_simp+
  then show ?thesis
    by (simp add: throttle_key_prefix ipv4Mapped_def)
qed

end
