(* ===== verification/ClientIpThrottle.thy ===== *)
theory ClientIpThrottle
  imports IpAddress JsMap
begin

text \<open>
  The limiter of \<open>semprec-api/src/clientIpThrottle.ts\<close>: sliding-window limits of the public
  authentication actions per client address, with a bound on the keys held and reservations
  that can be released.

  Times are milliseconds; the clock's value at a call is the argument \<open>nowMs\<close>. A key's array of
  events is identified by a number, because \<open>release\<close> compares arrays by identity; an array
  that is no longer in a map is unreachable but for that comparison.
\<close>

datatype ThrottledAction = Login | PasswordResetRequest | PasswordResetConsume | InvitationAccept

definition THROTTLE_ACTIONS :: "ThrottledAction list" where
  "THROTTLE_ACTIONS = [Login, PasswordResetRequest, PasswordResetConsume, InvitationAccept]"

record ClientIpThrottleLimit =
  lim_maxEvents :: nat
  lim_windowSeconds :: int

fun CLIENT_IP_THROTTLE_LIMITS :: "ThrottledAction \<Rightarrow> ClientIpThrottleLimit" where
  "CLIENT_IP_THROTTLE_LIMITS Login = \<lparr>lim_maxEvents = 30, lim_windowSeconds = 15 * 60\<rparr>"
| "CLIENT_IP_THROTTLE_LIMITS PasswordResetRequest = \<lparr>lim_maxEvents = 10, lim_windowSeconds = 60 * 60\<rparr>"
| "CLIENT_IP_THROTTLE_LIMITS PasswordResetConsume = \<lparr>lim_maxEvents = 10, lim_windowSeconds = 60 * 60\<rparr>"
| "CLIENT_IP_THROTTLE_LIMITS InvitationAccept = \<lparr>lim_maxEvents = 10, lim_windowSeconds = 60 * 60\<rparr>"

text \<open>The options of \<open>createClientIpThrottle\<close> after their defaults.\<close>

record throttleConfig =
  tc_maxKeys :: nat
  tc_limits :: "ThrottledAction \<Rightarrow> ClientIpThrottleLimit"

definition defaultConfig :: throttleConfig where
  "defaultConfig = \<lparr>tc_maxKeys = 50000, tc_limits = CLIENT_IP_THROTTLE_LIMITS\<rparr>"

type_synonym eventArray = "nat \<times> int list"

record throttle =
  th_eventsByAction :: "ThrottledAction \<Rightarrow> eventArray jsMap"
  th_keyCount :: int
  th_nextArray :: nat

definition createClientIpThrottle :: throttle where
  "createClientIpThrottle = \<lparr>th_eventsByAction = (\<lambda>_. []), th_keyCount = 0, th_nextArray = 0\<rparr>"

definition maxEventsOf :: "throttleConfig \<Rightarrow> ThrottledAction \<Rightarrow> nat" where
  "maxEventsOf cfg action = lim_maxEvents (tc_limits cfg action)"

definition windowMs :: "throttleConfig \<Rightarrow> ThrottledAction \<Rightarrow> int" where
  "windowMs cfg action = lim_windowSeconds (tc_limits cfg action) * 1000"

definition mapFor :: "throttle \<Rightarrow> ThrottledAction \<Rightarrow> eventArray jsMap" where
  "mapFor st action = th_eventsByAction st action"

definition updateMap ::
  "ThrottledAction \<Rightarrow> (eventArray jsMap \<Rightarrow> eventArray jsMap) \<Rightarrow> throttle \<Rightarrow> throttle" where
  "updateMap action f st =
     st\<lparr>th_eventsByAction := (th_eventsByAction st)(action := f (th_eventsByAction st action))\<rparr>"

definition deleteKeyOf :: "ThrottledAction \<Rightarrow> string \<Rightarrow> throttle \<Rightarrow> throttle" where
  "deleteKeyOf action key st =
     (updateMap action (mapDelete key) st)\<lparr>th_keyCount := th_keyCount st - 1\<rparr>"

text \<open>\<open>prune\<close>: the array that stays (mutated in place), or none.\<close>

definition prune ::
  "throttleConfig \<Rightarrow> ThrottledAction \<Rightarrow> string \<Rightarrow> eventArray \<Rightarrow> int \<Rightarrow> throttle \<Rightarrow>
     eventArray option \<times> throttle" where
  "prune cfg action key arr nowMs st =
     (let live = dropWhile (\<lambda>e. e \<le> nowMs - windowMs cfg action) (snd arr) in
      if live = [] then (None, deleteKeyOf action key st)
      else (Some (fst arr, live), updateMap action (mapSet key (fst arr, live)) st))"

definition keyExpired :: "throttleConfig \<Rightarrow> ThrottledAction \<Rightarrow> int \<Rightarrow> string \<times> eventArray \<Rightarrow> bool" where
  "keyExpired cfg action nowMs entry \<longleftrightarrow> last (snd (snd entry)) \<le> nowMs - windowMs cfg action"

definition dropExpired :: "throttleConfig \<Rightarrow> int \<Rightarrow> ThrottledAction \<Rightarrow> throttle \<Rightarrow> throttle" where
  "dropExpired cfg nowMs action st =
     (let kept = filter (\<lambda>entry. \<not> keyExpired cfg action nowMs entry) (mapFor st action) in
      (updateMap action (\<lambda>_. kept) st)
        \<lparr>th_keyCount := th_keyCount st - (int (length (mapFor st action)) - int (length kept))\<rparr>)"

definition allEntries :: "throttle \<Rightarrow> (ThrottledAction \<times> string \<times> int) list" where
  "allEntries st = concat (map (\<lambda>action.
     map (\<lambda>entry. (action, fst entry, last (snd (snd entry)))) (mapFor st action)) THROTTLE_ACTIONS)"

fun oldestEntry ::
  "(ThrottledAction \<times> string \<times> int) option \<Rightarrow> (ThrottledAction \<times> string \<times> int) list \<Rightarrow>
     (ThrottledAction \<times> string \<times> int) option" where
  "oldestEntry oldest [] = oldest"
| "oldestEntry oldest (e # es) =
     oldestEntry (case oldest of
         None \<Rightarrow> Some e
       | Some o' \<Rightarrow> if snd (snd e) < snd (snd o') then Some e else Some o') es"

definition makeRoom :: "throttleConfig \<Rightarrow> int \<Rightarrow> throttle \<Rightarrow> throttle" where
  "makeRoom cfg nowMs st =
     (if th_keyCount st < int (tc_maxKeys cfg) then st
      else (let st1 = fold (dropExpired cfg nowMs) THROTTLE_ACTIONS st in
        if th_keyCount st1 < int (tc_maxKeys cfg) then st1
        else case oldestEntry None (allEntries st1) of
               None \<Rightarrow> st1
             | Some (action, key, _) \<Rightarrow> deleteKeyOf action key st1))"

text \<open>\<open>Math.ceil(ms / 1000)\<close>.\<close>

definition ceilSeconds :: "int \<Rightarrow> int" where
  "ceilSeconds ms = - ((- ms) div 1000)"

text \<open>
  \<open>retryAfterSeconds\<close>, for a limit of at least one event (with none the source indexes past
  the array's end).
\<close>

definition retryAfterSeconds ::
  "throttleConfig \<Rightarrow> ThrottledAction \<Rightarrow> string \<Rightarrow> int \<Rightarrow> throttle \<Rightarrow> int option \<times> throttle" where
  "retryAfterSeconds cfg action ip nowMs st =
     (let key = throttleKeyForIp ip in
      case mapGet (mapFor st action) key of
        None \<Rightarrow> (None, st)
      | Some stored \<Rightarrow>
          (case prune cfg action key stored nowMs st of
             (pruned, st1) \<Rightarrow>
               (let events = (case pruned of None \<Rightarrow> [] | Some arr \<Rightarrow> snd arr);
                    maxEvents = maxEventsOf cfg action
                in if length events < maxEvents then (None, st1)
                   else (let oldestCounted = events ! (length events - maxEvents)
                         in (Some (max 1 (ceilSeconds (oldestCounted + windowMs cfg action - nowMs))), st1)))))"

record recorded =
  rec_key :: string
  rec_array :: nat
  rec_at :: int

definition recordEvent ::
  "throttleConfig \<Rightarrow> ThrottledAction \<Rightarrow> string \<Rightarrow> int \<Rightarrow> throttle \<Rightarrow> recorded \<times> throttle" where
  "recordEvent cfg action ip nowMs st =
     (let key = throttleKeyForIp ip in
      case (case mapGet (mapFor st action) key of
              None \<Rightarrow> (None, st) | Some stored \<Rightarrow> prune cfg action key stored nowMs st) of
        (pruned, st1) \<Rightarrow>
          (case (case pruned of
                   Some arr \<Rightarrow> (arr, deleteKeyOf action key st1)
                 | None \<Rightarrow>
                     (let st2 = makeRoom cfg nowMs st1
                      in ((th_nextArray st2, []), st2\<lparr>th_nextArray := Suc (th_nextArray st2)\<rparr>))) of
             (arr, st3) \<Rightarrow>
               (let events = snd arr @ [nowMs];
                    kept = (if length events > maxEventsOf cfg action
                            then drop (length events - maxEventsOf cfg action) events else events);
                    st4 = (updateMap action (mapSet key (fst arr, kept)) st3)
                            \<lparr>th_keyCount := th_keyCount st3 + 1\<rparr>
                in (\<lparr>rec_key = key, rec_array = fst arr, rec_at = nowMs\<rparr>, st4))))"

record ThrottleReservation =
  rv_action :: ThrottledAction
  rv_event :: recorded
  rv_released :: bool

datatype ThrottleAcquisition = Granted ThrottleReservation | Denied int

definition tryAcquire ::
  "throttleConfig \<Rightarrow> ThrottledAction \<Rightarrow> string \<Rightarrow> int \<Rightarrow> throttle \<Rightarrow> ThrottleAcquisition \<times> throttle" where
  "tryAcquire cfg action ip nowMs st =
     (case retryAfterSeconds cfg action ip nowMs st of
        (Some seconds, st1) \<Rightarrow> (Denied seconds, st1)
      | (None, st1) \<Rightarrow>
          (case recordEvent cfg action ip nowMs st1 of
             (ev, st2) \<Rightarrow> (Granted \<lparr>rv_action = action, rv_event = ev, rv_released = False\<rparr>, st2)))"

definition removeLast :: "'a \<Rightarrow> 'a list \<Rightarrow> 'a list" where
  "removeLast x xs = rev (remove1 x (rev xs))"

definition release :: "ThrottleReservation \<Rightarrow> throttle \<Rightarrow> ThrottleReservation \<times> throttle" where
  "release rv st =
     (if rv_released rv then (rv, st)
      else (let rv' = rv\<lparr>rv_released := True\<rparr>; ev = rv_event rv in
        case mapGet (mapFor st (rv_action rv)) (rec_key ev) of
          None \<Rightarrow> (rv', st)
        | Some arr \<Rightarrow>
            if fst arr \<noteq> rec_array ev then (rv', st)
            else if rec_at ev \<notin> set (snd arr) then (rv', st)
            else (let events = removeLast (rec_at ev) (snd arr) in
              if events = [] then (rv', deleteKeyOf (rv_action rv) (rec_key ev) st)
              else (rv', updateMap (rv_action rv) (mapSet (rec_key ev) (fst arr, events)) st))))"

section \<open>The limiter's invariant\<close>

definition eventsOk :: "throttleConfig \<Rightarrow> ThrottledAction \<Rightarrow> int \<Rightarrow> int list \<Rightarrow> bool" where
  "eventsOk cfg action nowMs events \<longleftrightarrow>
     events \<noteq> [] \<and> sorted events \<and> length events \<le> maxEventsOf cfg action \<and> (\<forall>e \<in> set events. e \<le> nowMs)"

definition mapsOk :: "throttleConfig \<Rightarrow> int \<Rightarrow> throttle \<Rightarrow> bool" where
  "mapsOk cfg nowMs st \<longleftrightarrow>
     (\<forall>action. mapOk (mapFor st action) \<and>
        (\<forall>entry \<in> set (mapFor st action). eventsOk cfg action nowMs (snd (snd entry))))"

definition totalKeys :: "throttle \<Rightarrow> int" where
  "totalKeys st = sum_list (map (\<lambda>action. int (length (mapFor st action))) THROTTLE_ACTIONS)"

definition coreOk :: "throttleConfig \<Rightarrow> int \<Rightarrow> throttle \<Rightarrow> bool" where
  "coreOk cfg nowMs st \<longleftrightarrow> mapsOk cfg nowMs st \<and> th_keyCount st = totalKeys st"

definition throttleOk :: "throttleConfig \<Rightarrow> int \<Rightarrow> throttle \<Rightarrow> bool" where
  "throttleOk cfg nowMs st \<longleftrightarrow> coreOk cfg nowMs st \<and> totalKeys st \<le> int (tc_maxKeys cfg)"

text \<open>The array a key has.\<close>

definition keyArray :: "throttle \<Rightarrow> ThrottledAction \<Rightarrow> string \<Rightarrow> eventArray option" where
  "keyArray st action key = mapGet (mapFor st action) key"

lemma mapFor_updateMap:
  "mapFor (updateMap action f st) b = (if b = action then f (mapFor st action) else mapFor st b)"
  by (simp add: mapFor_def updateMap_def)

lemma mapFor_keyCount [simp]: "mapFor (st\<lparr>th_keyCount := n\<rparr>) b = mapFor st b"
  "mapFor (st\<lparr>th_nextArray := k\<rparr>) b = mapFor st b"
  by (simp_all add: mapFor_def)

lemma totalKeys_keyCount [simp]: "totalKeys (st\<lparr>th_keyCount := n\<rparr>) = totalKeys st"
  "totalKeys (st\<lparr>th_nextArray := k\<rparr>) = totalKeys st"
  by (simp_all add: totalKeys_def)

lemma keyCount_updateMap [simp]: "th_keyCount (updateMap action f st) = th_keyCount st"
  "th_nextArray (updateMap action f st) = th_nextArray st"
  by (simp_all add: updateMap_def)

lemma totalKeys_updateMap:
  "totalKeys (updateMap action f st) =
     totalKeys st - int (length (mapFor st action)) + int (length (f (mapFor st action)))"
  by (cases action) (simp_all add: totalKeys_def THROTTLE_ACTIONS_def mapFor_updateMap)

lemma length_mapKeys: "length (mapKeys m) = length m"
  by (simp add: mapKeys_def)

lemma length_mapSet:
  "mapOk m \<Longrightarrow> length (mapSet k v m) = (if mapGet m k = None then Suc (length m) else length m)"
  using jsm.size_put [of m k v] by (simp add: length_mapKeys)

lemma length_mapDelete:
  "mapOk m \<Longrightarrow> mapGet m k \<noteq> None \<Longrightarrow> int (length (mapDelete k m)) = int (length m) - 1"
  using jsm.size_del [of m k] jsm.get_keys [of m k]
  by (cases m) (auto simp: length_mapKeys mapGet_def of_nat_diff)

lemma set_mapSet: "set (mapSet k v m) \<subseteq> insert (k, v) (set m)"
  by (induction m) (auto simp: mapSet_def)

lemma eventsOk_mono: "eventsOk cfg action t events \<Longrightarrow> t \<le> t' \<Longrightarrow> eventsOk cfg action t' events"
  by (auto simp: eventsOk_def)

lemma mapsOk_mono: "mapsOk cfg t st \<Longrightarrow> t \<le> t' \<Longrightarrow> mapsOk cfg t' st"
  by (auto simp: mapsOk_def intro: eventsOk_mono)

lemma mapsOk_updateMap:
  assumes "mapsOk cfg t st" and "mapOk (f (mapFor st action))"
    and "\<And>entry. entry \<in> set (f (mapFor st action)) \<Longrightarrow> eventsOk cfg action t (snd (snd entry))"
  shows "mapsOk cfg t (updateMap action f st)"
  using assms by (auto simp: mapsOk_def mapFor_updateMap)

lemma mapsOk_put:
  assumes "mapsOk cfg t st" and "eventsOk cfg action t events"
  shows "mapsOk cfg t (updateMap action (mapSet key (i, events)) st)"
proof (rule mapsOk_updateMap [OF assms(1)])
  show "mapOk (mapSet key (i, events) (mapFor st action))"
    using assms(1) by (intro jsm.ok_put) (simp add: mapsOk_def)
  fix entry assume "entry \<in> set (mapSet key (i, events) (mapFor st action))"
  with set_mapSet have "entry = (key, i, events) \<or> entry \<in> set (mapFor st action)" by fastforce
  with assms show "eventsOk cfg action t (snd (snd entry))" by (auto simp: mapsOk_def)
qed

lemma mapsOk_keyCount [simp]:
  "mapsOk cfg t (st\<lparr>th_keyCount := n\<rparr>) = mapsOk cfg t st"
  "mapsOk cfg t (st\<lparr>th_nextArray := k\<rparr>) = mapsOk cfg t st"
  by (simp_all add: mapsOk_def)

lemma mapsOk_filter:
  "mapsOk cfg t st \<Longrightarrow> mapsOk cfg t (updateMap action (filter p) st)"
  by (rule mapsOk_updateMap) (auto simp: mapsOk_def mapOk_def distinct_map_filter)

lemma keyArray_put:
  "keyArray (updateMap action (mapSet key arr) st) b j =
     (if b = action \<and> j = key then Some arr else keyArray st b j)"
  by (simp add: keyArray_def mapFor_updateMap jsm.get_put)

lemma keyArray_delete:
  "keyArray (deleteKeyOf action key st) b j = (if b = action \<and> j = key then None else keyArray st b j)"
  by (simp add: keyArray_def deleteKeyOf_def mapFor_updateMap jsm.get_del)

lemma keyArray_fields [simp]:
  "keyArray (st\<lparr>th_keyCount := n\<rparr>) b j = keyArray st b j"
  "keyArray (st\<lparr>th_nextArray := k\<rparr>) b j = keyArray st b j"
  by (simp_all add: keyArray_def)

lemma keyArray_ok:
  "mapsOk cfg t st \<Longrightarrow> keyArray st action key = Some arr \<Longrightarrow> eventsOk cfg action t (snd arr)"
  by (fastforce simp: keyArray_def mapGet_def mapsOk_def dest: map_of_SomeD)

lemma deleteKeyOf_core:
  assumes "coreOk cfg t st" and "keyArray st action key \<noteq> None"
  shows "coreOk cfg t (deleteKeyOf action key st) \<and>
         totalKeys (deleteKeyOf action key st) = totalKeys st - 1"
proof -
  have "mapsOk cfg t (updateMap action (mapDelete key) st)"
    using assms(1) mapsOk_filter [of cfg t st action "\<lambda>p. fst p \<noteq> key"]
    by (simp add: coreOk_def mapDelete_def [abs_def])
  moreover have "int (length (mapDelete key (mapFor st action))) = int (length (mapFor st action)) - 1"
    using assms by (intro length_mapDelete) (auto simp: coreOk_def mapsOk_def keyArray_def)
  ultimately show ?thesis
    using assms(1) by (simp add: coreOk_def deleteKeyOf_def totalKeys_updateMap)
qed

lemma put_core:
  assumes "coreOk cfg t st" and "eventsOk cfg action t events"
  shows "coreOk cfg t ((updateMap action (mapSet key (i, events)) st)
           \<lparr>th_keyCount := th_keyCount st + (if keyArray st action key = None then 1 else 0)\<rparr>)"
    and "totalKeys (updateMap action (mapSet key (i, events)) st) =
           totalKeys st + (if keyArray st action key = None then 1 else 0)"
proof -
  have "mapOk (mapFor st action)" using assms(1) by (simp add: coreOk_def mapsOk_def)
  then show total: "totalKeys (updateMap action (mapSet key (i, events)) st) =
      totalKeys st + (if keyArray st action key = None then 1 else 0)"
    by (simp add: totalKeys_updateMap length_mapSet keyArray_def)
  from assms total show "coreOk cfg t ((updateMap action (mapSet key (i, events)) st)
      \<lparr>th_keyCount := th_keyCount st + (if keyArray st action key = None then 1 else 0)\<rparr>)"
    by (simp add: coreOk_def mapsOk_put)
qed

subsection \<open>Pruning and eviction\<close>

lemma dropWhile_sorted: "sorted xs \<Longrightarrow> dropWhile (\<lambda>e. e \<le> (c::int)) xs = filter (\<lambda>e. e > c) xs"
proof (induction xs)
  case (Cons x xs)
  show ?case
  proof (cases "x \<le> c")
    case False
    with Cons.prems have "\<forall>e \<in> set xs. e > c" by auto
    then have "filter (\<lambda>e. e > c) xs = xs" by (simp add: filter_id_conv)
    with False show ?thesis by simp
  qed (use Cons in simp)
qed simp

lemma eventsOk_filter:
  assumes "eventsOk cfg action t events" and "filter p events \<noteq> []"
  shows "eventsOk cfg action t (filter p events)"
  using assms le_trans [OF length_filter_le [of p events]]
  by (auto simp: eventsOk_def intro: sorted_wrt_filter)

text \<open>The events of a key still in the window.\<close>

definition liveEvents :: "throttleConfig \<Rightarrow> ThrottledAction \<Rightarrow> int \<Rightarrow> int list \<Rightarrow> int list" where
  "liveEvents cfg action nowMs events = filter (\<lambda>e. e > nowMs - windowMs cfg action) events"

lemma prune_core:
  assumes core: "coreOk cfg nowMs st" and arr: "keyArray st action key = Some arr"
    and run: "prune cfg action key arr nowMs st = (p, st')"
  shows "coreOk cfg nowMs st'"
    and "totalKeys st' = totalKeys st - (if p = None then 1 else 0)"
    and "p = (let live = liveEvents cfg action nowMs (snd arr) in
              if live = [] then None else Some (fst arr, live))"
    and "keyArray st' b j = (if b = action \<and> j = key then p else keyArray st b j)"
proof -
  have ev: "eventsOk cfg action nowMs (snd arr)"
    using core arr by (auto simp: coreOk_def intro: keyArray_ok)
  then have live: "dropWhile (\<lambda>e. e \<le> nowMs - windowMs cfg action) (snd arr) =
      liveEvents cfg action nowMs (snd arr)"
    by (simp add: dropWhile_sorted liveEvents_def eventsOk_def)
  show p: "p = (let live = liveEvents cfg action nowMs (snd arr) in
              if live = [] then None else Some (fst arr, live))"
    using run by (auto simp: prune_def live Let_def split: if_splits)
  show "coreOk cfg nowMs st'" "totalKeys st' = totalKeys st - (if p = None then 1 else 0)"
    "keyArray st' b j = (if b = action \<and> j = key then p else keyArray st b j)"
  proof (atomize (full), cases "liveEvents cfg action nowMs (snd arr) = []")
    case True
    with run have "st' = deleteKeyOf action key st" "p = None" by (auto simp: prune_def live Let_def)
    with deleteKeyOf_core [OF core, of action key] arr
    show "coreOk cfg nowMs st' \<and> totalKeys st' = totalKeys st - (if p = None then 1 else 0) \<and>
        keyArray st' b j = (if b = action \<and> j = key then p else keyArray st b j)"
      by (simp add: keyArray_delete)
  next
    case False
    with run have st': "st' = updateMap action (mapSet key (fst arr, liveEvents cfg action nowMs (snd arr))) st"
      "p = Some (fst arr, liveEvents cfg action nowMs (snd arr))"
      by (auto simp: prune_def live Let_def)
    have "eventsOk cfg action nowMs (liveEvents cfg action nowMs (snd arr))"
      using ev False unfolding liveEvents_def by (rule eventsOk_filter)
    from put_core [OF core this, of key "fst arr"] arr core st'
    show "coreOk cfg nowMs st' \<and> totalKeys st' = totalKeys st - (if p = None then 1 else 0) \<and>
        keyArray st' b j = (if b = action \<and> j = key then p else keyArray st b j)"
      by (simp add: keyArray_put coreOk_def)
  qed
qed

lemma dropExpired_core:
  assumes "coreOk cfg nowMs st"
  shows "coreOk cfg nowMs (dropExpired cfg nowMs action st)"
    and "totalKeys (dropExpired cfg nowMs action st) \<le> totalKeys st"
    and "keyArray (dropExpired cfg nowMs action st) b j \<in> {None, keyArray st b j}"
proof -
  let ?p = "\<lambda>entry. \<not> keyExpired cfg action nowMs entry"
  have same: "updateMap action (\<lambda>_. filter ?p (mapFor st action)) st = updateMap action (filter ?p) st"
    by (simp add: updateMap_def mapFor_def)
  show "coreOk cfg nowMs (dropExpired cfg nowMs action st)"
    using assms mapsOk_filter [of cfg nowMs st action ?p]
    by (simp add: coreOk_def dropExpired_def Let_def same totalKeys_updateMap)
  show "totalKeys (dropExpired cfg nowMs action st) \<le> totalKeys st"
    by (simp add: dropExpired_def Let_def same totalKeys_updateMap)
  have "mapGet (filter ?p m) j \<in> {None, mapGet m j}" if "mapOk m" for m :: "eventArray jsMap"
    using that by (induction m) (auto simp: mapGet_def mapOk_def map_of_eq_None_iff split: if_splits)
  moreover have "mapOk (mapFor st action)" using assms by (simp add: coreOk_def mapsOk_def)
  ultimately show "keyArray (dropExpired cfg nowMs action st) b j \<in> {None, keyArray st b j}"
    by (auto simp: dropExpired_def Let_def same keyArray_def mapFor_updateMap)
qed

lemma dropAllExpired_core:
  assumes "coreOk cfg nowMs st"
  shows "coreOk cfg nowMs (fold (dropExpired cfg nowMs) actions st) \<and>
         totalKeys (fold (dropExpired cfg nowMs) actions st) \<le> totalKeys st \<and>
         keyArray (fold (dropExpired cfg nowMs) actions st) b j \<in> {None, keyArray st b j}"
  using assms
proof (induction actions arbitrary: st)
  case (Cons action actions)
  note step = dropExpired_core [OF Cons.prems, where action = action]
  from Cons.IH [OF step(1)] step(2) step(3) [of b j] show ?case by auto
qed simp

lemma oldestEntry_mem: "oldestEntry o' es = Some e \<Longrightarrow> o' = Some e \<or> e \<in> set es"
proof (induction es arbitrary: o')
  case (Cons x es)
  from Cons.IH Cons.prems show ?case by (cases o') (fastforce split: if_splits)+
qed simp

lemma oldestEntry_none: "oldestEntry o' es = None \<Longrightarrow> o' = None \<and> es = []"
proof (induction es arbitrary: o')
  case (Cons x es)
  from Cons.IH [OF Cons.prems [unfolded oldestEntry.simps]] show ?case
    by (auto split: option.splits if_splits)
qed simp

lemma allEntries_mem:
  assumes "mapsOk cfg t st" and "(action, key, r) \<in> set (allEntries st)"
  shows "keyArray st action key \<noteq> None"
proof -
  from assms(2) obtain arr where "(key, arr) \<in> set (mapFor st action)"
    by (auto simp: allEntries_def)
  then have "key \<in> set (mapKeys (mapFor st action))" by (force simp: mapKeys_def)
  then show ?thesis unfolding keyArray_def by (rule jsm.get_keys [THEN iffD2])
qed

lemma allEntries_empty: "allEntries st = [] \<Longrightarrow> totalKeys st = 0"
  by (simp add: allEntries_def totalKeys_def THROTTLE_ACTIONS_def)

lemma makeRoom_core:
  assumes core: "coreOk cfg nowMs st" and bound: "totalKeys st \<le> int (tc_maxKeys cfg)"
    and pos: "tc_maxKeys cfg \<ge> 1"
  shows "coreOk cfg nowMs (makeRoom cfg nowMs st) \<and>
         totalKeys (makeRoom cfg nowMs st) < int (tc_maxKeys cfg) \<and>
         keyArray (makeRoom cfg nowMs st) b j \<in> {None, keyArray st b j}"
proof (cases "th_keyCount st < int (tc_maxKeys cfg)")
  case True
  with core show ?thesis by (simp add: makeRoom_def coreOk_def)
next
  case full: False
  define st1 where "st1 = fold (dropExpired cfg nowMs) THROTTLE_ACTIONS st"
  note st1 = dropAllExpired_core [OF core, of THROTTLE_ACTIONS b j, folded st1_def]
  show ?thesis
  proof (cases "th_keyCount st1 < int (tc_maxKeys cfg)")
    case True
    with full have "makeRoom cfg nowMs st = st1" by (simp add: makeRoom_def st1_def Let_def)
    with True st1 show ?thesis by (simp add: coreOk_def)
  next
    case False
    with st1 have tight: "totalKeys st1 = int (tc_maxKeys cfg)" using bound by (simp add: coreOk_def)
    show ?thesis
    proof (cases "oldestEntry None (allEntries st1)")
      case None
      then have "totalKeys st1 = 0" by (intro allEntries_empty) (auto dest: oldestEntry_none)
      with tight pos show ?thesis by simp
    next
      case (Some e)
      obtain action key r where e: "e = (action, key, r)" by (cases e)
      with Some have "makeRoom cfg nowMs st = deleteKeyOf action key st1"
        using full False by (simp add: makeRoom_def st1_def Let_def)
      moreover have "keyArray st1 action key \<noteq> None"
      proof (rule allEntries_mem)
        show "mapsOk cfg nowMs st1" using st1 by (simp add: coreOk_def)
        show "(action, key, r) \<in> set (allEntries st1)" using Some e by (auto dest: oldestEntry_mem)
      qed
      ultimately show ?thesis
        using deleteKeyOf_core [of cfg nowMs st1 action key] st1 tight by (auto simp: keyArray_delete)
    qed
  qed
qed

subsection \<open>The operations\<close>

text \<open>What counts against an address at a time: the events of its key still in the window.\<close>

definition storedEvents :: "throttle \<Rightarrow> ThrottledAction \<Rightarrow> string \<Rightarrow> int list" where
  "storedEvents st action key = (case keyArray st action key of None \<Rightarrow> [] | Some arr \<Rightarrow> snd arr)"

definition counted :: "throttleConfig \<Rightarrow> throttle \<Rightarrow> ThrottledAction \<Rightarrow> string \<Rightarrow> int \<Rightarrow> int list" where
  "counted cfg st action ip nowMs = liveEvents cfg action nowMs (storedEvents st action (throttleKeyForIp ip))"

lemma counted_ok:
  assumes "mapsOk cfg nowMs st"
  shows "counted cfg st action ip nowMs = [] \<or> eventsOk cfg action nowMs (counted cfg st action ip nowMs)"
  using assms eventsOk_filter keyArray_ok
  by (fastforce simp: counted_def storedEvents_def liveEvents_def split: option.splits)

text \<open>\<open>prune\<close> as \<open>retryAfterSeconds\<close> and \<open>recordEvent\<close> call it.\<close>

definition pruneKey ::
  "throttleConfig \<Rightarrow> ThrottledAction \<Rightarrow> string \<Rightarrow> int \<Rightarrow> throttle \<Rightarrow> eventArray option \<times> throttle" where
  "pruneKey cfg action ip nowMs st =
     (case keyArray st action (throttleKeyForIp ip) of
        None \<Rightarrow> (None, st) | Some stored \<Rightarrow> prune cfg action (throttleKeyForIp ip) stored nowMs st)"

lemma pruneKey_all:
  assumes core: "coreOk cfg nowMs st" and run: "pruneKey cfg action ip nowMs st = (p, st')"
  shows "coreOk cfg nowMs st' \<and>
      totalKeys st' = totalKeys st -
        (if counted cfg st action ip nowMs = [] \<and> keyArray st action (throttleKeyForIp ip) \<noteq> None then 1 else 0) \<and>
      (case p of None \<Rightarrow> [] | Some arr \<Rightarrow> snd arr) = counted cfg st action ip nowMs \<and>
      (p = None \<longleftrightarrow> counted cfg st action ip nowMs = []) \<and>
      keyArray st' action (throttleKeyForIp ip) = p \<and>
      ((b, j) \<noteq> (action, throttleKeyForIp ip) \<longrightarrow> keyArray st' b j = keyArray st b j)"
proof (cases "keyArray st action (throttleKeyForIp ip)")
  case None
  with run core show ?thesis
    by (auto simp: pruneKey_def counted_def storedEvents_def liveEvents_def)
next
  case (Some arr)
  with run have "prune cfg action (throttleKeyForIp ip) arr nowMs st = (p, st')"
    by (simp add: pruneKey_def)
  note step = prune_core [OF core Some this]
  from Some have "counted cfg st action ip nowMs = liveEvents cfg action nowMs (snd arr)"
    by (simp add: counted_def storedEvents_def)
  with step(1,2,3) step(4) [of b j] step(4) [of action "throttleKeyForIp ip"] Some show ?thesis
    by (auto simp: Let_def split: if_splits)
qed

lemma pruneKey_core:
  assumes core: "coreOk cfg nowMs st" and run: "pruneKey cfg action ip nowMs st = (p, st')"
  shows "coreOk cfg nowMs st'" and "totalKeys st' \<le> totalKeys st"
    and "(case p of None \<Rightarrow> [] | Some arr \<Rightarrow> snd arr) = counted cfg st action ip nowMs"
    and "p = None \<longleftrightarrow> counted cfg st action ip nowMs = []"
    and "keyArray st' action (throttleKeyForIp ip) = p"
    and "(b, j) \<noteq> (action, throttleKeyForIp ip) \<Longrightarrow> keyArray st' b j = keyArray st b j"
    and "counted cfg st action ip nowMs = [] \<Longrightarrow> keyArray st action (throttleKeyForIp ip) \<noteq> None \<Longrightarrow>
           totalKeys st' = totalKeys st - 1"
  using pruneKey_all [OF core run, of b j] by auto

lemma retryAfterSeconds_pruneKey:
  "retryAfterSeconds cfg action ip nowMs st =
     (case pruneKey cfg action ip nowMs st of (p, st') \<Rightarrow>
        (let events = (case p of None \<Rightarrow> [] | Some arr \<Rightarrow> snd arr); maxEvents = maxEventsOf cfg action
         in if length events < maxEvents then (None, st')
            else (Some (max 1 (ceilSeconds (events ! (length events - maxEvents) + windowMs cfg action - nowMs))), st')))"
  if "maxEventsOf cfg action \<ge> 1"
  using that
  by (auto simp: retryAfterSeconds_def pruneKey_def keyArray_def Let_def split: option.splits prod.splits)

definition retryAnswer :: "throttleConfig \<Rightarrow> ThrottledAction \<Rightarrow> int \<Rightarrow> int list \<Rightarrow> int option" where
  "retryAnswer cfg action nowMs events =
     (if length events < maxEventsOf cfg action then None
      else Some (max 1 (ceilSeconds (hd events + windowMs cfg action - nowMs))))"

lemma retryAfterSeconds_core:
  assumes core: "coreOk cfg nowMs st" and pos: "maxEventsOf cfg action \<ge> 1"
    and run: "retryAfterSeconds cfg action ip nowMs st = (r, st')"
  shows "pruneKey cfg action ip nowMs st = (keyArray st' action (throttleKeyForIp ip), st')"
    and "r = retryAnswer cfg action nowMs (counted cfg st action ip nowMs)"
proof -
  obtain p st1 where prune: "pruneKey cfg action ip nowMs st = (p, st1)" by fastforce
  note step = pruneKey_core [OF core prune]
  from run prune pos have st': "st' = st1"
    by (auto simp: retryAfterSeconds_pruneKey Let_def split: if_splits)
  with prune step(5) show "pruneKey cfg action ip nowMs st = (keyArray st' action (throttleKeyForIp ip), st')"
    by simp
  have "length (counted cfg st action ip nowMs) \<le> maxEventsOf cfg action"
    using counted_ok [of cfg nowMs st action ip] core by (auto simp: coreOk_def eventsOk_def)
  moreover have "counted cfg st action ip nowMs \<noteq> []"
    if "\<not> length (counted cfg st action ip nowMs) < maxEventsOf cfg action"
    using pos that by auto
  ultimately show "r = retryAnswer cfg action nowMs (counted cfg st action ip nowMs)"
    using run prune pos step(3)
    by (auto simp: retryAfterSeconds_pruneKey retryAnswer_def Let_def hd_conv_nth split: if_splits)
qed

definition keepNewest :: "nat \<Rightarrow> 'a list \<Rightarrow> 'a list" where
  "keepNewest n events = (if length events > n then drop (length events - n) events else events)"

text \<open>The array \<open>recordEvent\<close> appends to, and the state it is re-inserted in.\<close>

definition recordSlot ::
  "throttleConfig \<Rightarrow> ThrottledAction \<Rightarrow> string \<Rightarrow> int \<Rightarrow> eventArray option \<times> throttle \<Rightarrow> eventArray \<times> throttle" where
  "recordSlot cfg action key nowMs pruned =
     (case pruned of
        (Some arr, st1) \<Rightarrow> (arr, deleteKeyOf action key st1)
      | (None, st1) \<Rightarrow>
          (let st2 = makeRoom cfg nowMs st1
           in ((th_nextArray st2, []), st2\<lparr>th_nextArray := Suc (th_nextArray st2)\<rparr>)))"

lemma recordEvent_slot:
  "recordEvent cfg action ip nowMs st =
     (case recordSlot cfg action (throttleKeyForIp ip) nowMs (pruneKey cfg action ip nowMs st) of
        (arr, st3) \<Rightarrow>
          (\<lparr>rec_key = throttleKeyForIp ip, rec_array = fst arr, rec_at = nowMs\<rparr>,
           (updateMap action (mapSet (throttleKeyForIp ip)
              (fst arr, keepNewest (maxEventsOf cfg action) (snd arr @ [nowMs]))) st3)
             \<lparr>th_keyCount := th_keyCount st3 + 1\<rparr>))"
  unfolding recordEvent_def recordSlot_def pruneKey_def keyArray_def keepNewest_def Let_def
  by (auto split: option.splits prod.splits)

lemma coreOk_nextArray [simp]: "coreOk cfg t (st\<lparr>th_nextArray := k\<rparr>) = coreOk cfg t st"
  by (simp add: coreOk_def)

lemma recordSlot_core:
  assumes ok: "throttleOk cfg nowMs st" and pos: "tc_maxKeys cfg \<ge> 1"
    and run: "recordSlot cfg action (throttleKeyForIp ip) nowMs (pruneKey cfg action ip nowMs st) = (arr, st3)"
  shows "coreOk cfg nowMs st3 \<and> totalKeys st3 < int (tc_maxKeys cfg) \<and>
         keyArray st3 action (throttleKeyForIp ip) = None \<and>
         snd arr = counted cfg st action ip nowMs \<and>
         ((b, j) \<noteq> (action, throttleKeyForIp ip) \<longrightarrow>
            keyArray st3 b j \<in> {None, keyArray st b j} \<and>
            (counted cfg st action ip nowMs \<noteq> [] \<or> totalKeys st < int (tc_maxKeys cfg) \<longrightarrow>
               keyArray st3 b j = keyArray st b j))"
proof -
  obtain p st1 where prune: "pruneKey cfg action ip nowMs st = (p, st1)" by fastforce
  from ok have core: "coreOk cfg nowMs st" and bound: "totalKeys st \<le> int (tc_maxKeys cfg)"
    by (simp_all add: throttleOk_def)
  note step = pruneKey_core [OF core prune]
  show ?thesis
  proof (cases p)
    case None
    have room: "coreOk cfg nowMs (makeRoom cfg nowMs st1) \<and>
        totalKeys (makeRoom cfg nowMs st1) < int (tc_maxKeys cfg) \<and>
        keyArray (makeRoom cfg nowMs st1) b' j' \<in> {None, keyArray st1 b' j'}" for b' j'
      using makeRoom_core [OF step(1)] step(2) bound pos by simp
    have same: "makeRoom cfg nowMs st1 = st1" if "totalKeys st < int (tc_maxKeys cfg)"
      using that step(1,2) by (simp add: makeRoom_def coreOk_def)
    from None run prune have "arr = (th_nextArray (makeRoom cfg nowMs st1), [])"
      "st3 = (makeRoom cfg nowMs st1)\<lparr>th_nextArray := Suc (th_nextArray (makeRoom cfg nowMs st1))\<rparr>"
      by (auto simp: recordSlot_def Let_def)
    with room [of b j] room [of action "throttleKeyForIp ip"] step(3,4,5) step(6) [of b j] None same
    show ?thesis by auto
  next
    case (Some a)
    with run prune have st3: "arr = a" "st3 = deleteKeyOf action (throttleKeyForIp ip) st1"
      by (auto simp: recordSlot_def)
    from deleteKeyOf_core [OF step(1), of action "throttleKeyForIp ip"] step(5) Some
    have "coreOk cfg nowMs st3 \<and> totalKeys st3 = totalKeys st1 - 1" by (simp add: st3)
    with st3 step(2,3) step(6) [of b j] bound Some show ?thesis by (auto simp: keyArray_delete)
  qed
qed

lemma eventsOk_snoc:
  assumes "events = [] \<or> eventsOk cfg action nowMs events" and "maxEventsOf cfg action \<ge> 1"
  shows "eventsOk cfg action nowMs (keepNewest (maxEventsOf cfg action) (events @ [nowMs]))"
proof -
  have "sorted (events @ [nowMs])" "\<forall>e \<in> set (events @ [nowMs]). e \<le> nowMs"
    using assms(1) by (auto simp: eventsOk_def sorted_append)
  then show ?thesis
    using assms(2)
    by (auto simp: eventsOk_def keepNewest_def sorted_append dest: in_set_dropD intro: sorted_wrt_drop)
qed

lemma recordEvent_core:
  assumes ok: "throttleOk cfg nowMs st" and pos: "tc_maxKeys cfg \<ge> 1" "maxEventsOf cfg action \<ge> 1"
    and run: "recordEvent cfg action ip nowMs st = (ev, st')"
  shows "throttleOk cfg nowMs st' \<and> rec_key ev = throttleKeyForIp ip \<and> rec_at ev = nowMs \<and>
         keyArray st' action (throttleKeyForIp ip) =
           Some (rec_array ev, keepNewest (maxEventsOf cfg action) (counted cfg st action ip nowMs @ [nowMs])) \<and>
         ((b, j) \<noteq> (action, throttleKeyForIp ip) \<longrightarrow>
            keyArray st' b j \<in> {None, keyArray st b j} \<and>
            (counted cfg st action ip nowMs \<noteq> [] \<or> totalKeys st < int (tc_maxKeys cfg) \<longrightarrow>
               keyArray st' b j = keyArray st b j))"
proof -
  obtain arr st3 where slot: "recordSlot cfg action (throttleKeyForIp ip) nowMs
      (pruneKey cfg action ip nowMs st) = (arr, st3)" by fastforce
  note step = recordSlot_core [OF ok pos(1) slot, of b j]
  let ?kept = "keepNewest (maxEventsOf cfg action) (snd arr @ [nowMs])"
  from run slot have ev: "ev = \<lparr>rec_key = throttleKeyForIp ip, rec_array = fst arr, rec_at = nowMs\<rparr>"
    and st': "st' = (updateMap action (mapSet (throttleKeyForIp ip) (fst arr, ?kept)) st3)
        \<lparr>th_keyCount := th_keyCount st3 + 1\<rparr>"
    by (simp_all add: recordEvent_slot)
  have "eventsOk cfg action nowMs ?kept"
    using step counted_ok [of cfg nowMs st action ip] ok pos(2)
    by (intro eventsOk_snoc) (auto simp: throttleOk_def coreOk_def)
  with step put_core [of cfg nowMs st3 action ?kept "throttleKeyForIp ip" "fst arr"]
  have "coreOk cfg nowMs st'" "totalKeys st' \<le> int (tc_maxKeys cfg)"
    by (simp_all add: st')
  with step ev show ?thesis by (auto simp: throttleOk_def st' keyArray_put)
qed

lemma throttleOk_mono: "throttleOk cfg t st \<Longrightarrow> t \<le> t' \<Longrightarrow> throttleOk cfg t' st"
  by (auto simp: throttleOk_def coreOk_def intro: mapsOk_mono)

lemma throttleOk_retryAfter:
  assumes "throttleOk cfg nowMs st" and "maxEventsOf cfg action \<ge> 1"
    and "retryAfterSeconds cfg action ip nowMs st = (r, st')"
  shows "throttleOk cfg nowMs st'"
  using assms pruneKey_core(1,2) [OF _ retryAfterSeconds_core(1)]
  by (fastforce simp: throttleOk_def)

lemma sorted_wrt_remove1: "sorted_wrt P xs \<Longrightarrow> sorted_wrt P (remove1 x xs)"
  by (induction xs) (auto dest: notin_set_remove1 in_set_remove1 [THEN iffD1, rotated])

lemma eventsOk_removeLast:
  assumes "eventsOk cfg action t events" and "removeLast x events \<noteq> []"
  shows "eventsOk cfg action t (removeLast x events)"
proof -
  have "sorted_wrt (\<ge>) (rev events)" using assms(1) by (simp add: eventsOk_def sorted_wrt_rev)
  then have "sorted_wrt (\<ge>) (remove1 x (rev events))" by (rule sorted_wrt_remove1)
  then have "sorted (removeLast x events)" by (simp add: removeLast_def sorted_wrt_rev)
  moreover have "set (removeLast x events) \<subseteq> set events"
    using set_remove1_subset [of x "rev events"] by (simp add: removeLast_def)
  moreover have "length (removeLast x events) \<le> length events"
    by (simp add: removeLast_def length_remove1)
  ultimately show ?thesis using assms by (auto simp: eventsOk_def)
qed

lemma throttleOk_release:
  assumes ok: "throttleOk cfg t st" and run: "release rv st = (rv', st')"
  shows "throttleOk cfg t st'"
proof (cases "st' = st")
  case False
  let ?key = "rec_key (rv_event rv)" and ?events = "\<lambda>arr. removeLast (rec_at (rv_event rv)) (snd arr)"
  from False run obtain arr where arr: "keyArray st (rv_action rv) ?key = Some arr"
    and st': "st' = (if ?events arr = [] then deleteKeyOf (rv_action rv) ?key st
                     else updateMap (rv_action rv) (mapSet ?key (fst arr, ?events arr)) st)"
    by (auto simp: release_def keyArray_def Let_def split: option.splits if_splits)
  show ?thesis
  proof (cases "?events arr = []")
    case True
    with deleteKeyOf_core [of cfg t st "rv_action rv" ?key] ok arr st' show ?thesis
      by (simp add: throttleOk_def)
  next
    case False
    have "eventsOk cfg (rv_action rv) t (snd arr)"
      using ok arr by (auto simp: throttleOk_def coreOk_def intro: keyArray_ok)
    from eventsOk_removeLast [OF this False]
      put_core [of cfg t st "rv_action rv" "?events arr" ?key "fst arr"] ok arr False st'
    show ?thesis by (simp add: throttleOk_def coreOk_def)
  qed
qed (use ok in simp)

section \<open>Grants and the window\<close>

text \<open>\<open>tryAcquire\<close> on a state of the invariant: the limit decides, and a grant counts.\<close>

lemma tryAcquire_core:
  assumes ok: "throttleOk cfg nowMs st" and pos: "tc_maxKeys cfg \<ge> 1" "maxEventsOf cfg action \<ge> 1"
    and run: "tryAcquire cfg action ip nowMs st = (a, st')"
  shows "throttleOk cfg nowMs st'"
    and "a = Denied s \<Longrightarrow> retryAnswer cfg action nowMs (counted cfg st action ip nowMs) = Some s \<and>
           storedEvents st' action (throttleKeyForIp ip) = counted cfg st action ip nowMs"
    and "a = Granted rv \<Longrightarrow> length (counted cfg st action ip nowMs) < maxEventsOf cfg action \<and>
           storedEvents st' action (throttleKeyForIp ip) = counted cfg st action ip nowMs @ [nowMs]"
    and "(b, j) \<noteq> (action, throttleKeyForIp ip) \<Longrightarrow>
           counted cfg st action ip nowMs \<noteq> [] \<or> totalKeys st < int (tc_maxKeys cfg) \<or>
             keyArray st action (throttleKeyForIp ip) \<noteq> None \<Longrightarrow>
           keyArray st' b j = keyArray st b j"
proof -
  obtain r st1 where retry: "retryAfterSeconds cfg action ip nowMs st = (r, st1)" by fastforce
  have core: "coreOk cfg nowMs st" using ok by (simp add: throttleOk_def)
  note answer = retryAfterSeconds_core [OF core pos(2) retry]
  note prune = pruneKey_core [OF core answer(1)]
  have st1: "throttleOk cfg nowMs st1" using throttleOk_retryAfter [OF ok pos(2) retry] .
  have stored: "storedEvents st1 action (throttleKeyForIp ip) = counted cfg st action ip nowMs"
    using prune(3) by (simp add: storedEvents_def)
  have again: "counted cfg st1 action ip nowMs = counted cfg st action ip nowMs"
    using stored by (simp add: counted_def liveEvents_def)
  have denied: "st' = st1 \<and> a = Denied s'" if "r = Some s'" for s'
    using run retry that by (simp add: tryAcquire_def)
  have granted: "\<exists>ev. recordEvent cfg action ip nowMs st1 = (ev, st') \<and> (\<exists>rv. a = Granted rv) \<and>
      length (counted cfg st action ip nowMs) < maxEventsOf cfg action" if "r = None"
    using run retry that answer(2) by (auto simp: tryAcquire_def retryAnswer_def split: prod.splits if_splits)
  note recordOk = recordEvent_core [OF st1 pos, of ip]
  have room: "totalKeys st1 < int (tc_maxKeys cfg)"
    if "counted cfg st action ip nowMs = []" "keyArray st action (throttleKeyForIp ip) \<noteq> None"
    using prune(7) [OF that] ok by (simp add: throttleOk_def)
  show "throttleOk cfg nowMs st'"
    using denied granted recordOk st1 by (cases r) auto
  show "a = Denied s \<Longrightarrow> retryAnswer cfg action nowMs (counted cfg st action ip nowMs) = Some s \<and>
           storedEvents st' action (throttleKeyForIp ip) = counted cfg st action ip nowMs"
    using denied granted stored answer(2) by (cases r) auto
  show "a = Granted rv \<Longrightarrow> length (counted cfg st action ip nowMs) < maxEventsOf cfg action \<and>
           storedEvents st' action (throttleKeyForIp ip) = counted cfg st action ip nowMs @ [nowMs]"
    using denied granted recordOk again
    by (cases r) (fastforce simp: storedEvents_def keepNewest_def)+
  show "(b, j) \<noteq> (action, throttleKeyForIp ip) \<Longrightarrow>
      counted cfg st action ip nowMs \<noteq> [] \<or> totalKeys st < int (tc_maxKeys cfg) \<or>
        keyArray st action (throttleKeyForIp ip) \<noteq> None \<Longrightarrow>
      keyArray st' b j = keyArray st b j"
    using denied granted recordOk [of _ st' b j] prune(2) prune(6) [of b j] again room
    by (cases r) fastforce+
qed

text \<open>States reached by any calls at non-decreasing times.\<close>

inductive throttleReachable :: "throttleConfig \<Rightarrow> int \<Rightarrow> throttle \<Rightarrow> bool" for cfg where
  new: "throttleReachable cfg t createClientIpThrottle"
| retry: "throttleReachable cfg t st \<Longrightarrow> t \<le> t' \<Longrightarrow>
    throttleReachable cfg t' (snd (retryAfterSeconds cfg action ip t' st))"
| counts: "throttleReachable cfg t st \<Longrightarrow> t \<le> t' \<Longrightarrow>
    throttleReachable cfg t' (snd (recordEvent cfg action ip t' st))"
| acquire: "throttleReachable cfg t st \<Longrightarrow> t \<le> t' \<Longrightarrow>
    throttleReachable cfg t' (snd (tryAcquire cfg action ip t' st))"
| release: "throttleReachable cfg t st \<Longrightarrow> t \<le> t' \<Longrightarrow> throttleReachable cfg t' (snd (release rv st))"

definition limitsPositive :: "throttleConfig \<Rightarrow> bool" where
  "limitsPositive cfg \<longleftrightarrow> tc_maxKeys cfg \<ge> 1 \<and>
     list_all (\<lambda>a. maxEventsOf cfg a \<ge> 1 \<and> windowMs cfg a > 0) THROTTLE_ACTIONS"

lemma limitsPositive_action:
  "limitsPositive cfg \<Longrightarrow> maxEventsOf cfg action \<ge> 1" "limitsPositive cfg \<Longrightarrow> windowMs cfg action > 0"
  by (cases action; auto simp: limitsPositive_def THROTTLE_ACTIONS_def)+

lemma throttleOk_new: "throttleOk cfg t createClientIpThrottle"
  by (simp add: throttleOk_def coreOk_def mapsOk_def mapFor_def createClientIpThrottle_def totalKeys_def
      THROTTLE_ACTIONS_def mapOk_def)

lemma throttleReachable_ok:
  assumes "throttleReachable cfg t st" and pos: "limitsPositive cfg"
  shows "throttleOk cfg t st"
  using assms(1)
proof induction
  case (retry t st t' action ip)
  then show ?case
    using throttleOk_retryAfter [OF throttleOk_mono limitsPositive_action(1) [OF pos]] by (metis prod.collapse)
next
  case (counts t st t' action ip)
  then show ?case
    using recordEvent_core [OF throttleOk_mono _ limitsPositive_action(1) [OF pos]] pos
    by (metis limitsPositive_def prod.collapse)
next
  case (acquire t st t' action ip)
  then show ?case
    using tryAcquire_core(1) [OF throttleOk_mono _ limitsPositive_action(1) [OF pos]] pos
    by (metis limitsPositive_def prod.collapse)
next
  case (release t st t' rv)
  then show ?case using throttleOk_release [OF throttleOk_mono] by (metis prod.collapse)
qed (rule throttleOk_new)

subsection \<open>Runs of attempts\<close>

text \<open>The grants of a run of attempts, as action, key and time.\<close>

fun runAttempts ::
  "throttleConfig \<Rightarrow> (ThrottledAction \<times> string \<times> int) list \<Rightarrow> throttle \<Rightarrow>
     (ThrottledAction \<times> string \<times> int) list" where
  "runAttempts cfg [] st = []"
| "runAttempts cfg ((action, ip, t) # attempts) st =
     (case tryAcquire cfg action ip t st of
        (Granted _, st') \<Rightarrow> (action, throttleKeyForIp ip, t) # runAttempts cfg attempts st'
      | (Denied _, st') \<Rightarrow> runAttempts cfg attempts st')"

definition grantsOf :: "ThrottledAction \<Rightarrow> string \<Rightarrow> (ThrottledAction \<times> string \<times> int) list \<Rightarrow> int list" where
  "grantsOf action key grants = map (\<lambda>(_, _, t). t) (filter (\<lambda>(b, j, _). b = action \<and> j = key) grants)"

definition attemptKeys :: "(ThrottledAction \<times> string \<times> int) list \<Rightarrow> (ThrottledAction \<times> string) list" where
  "attemptKeys attempts = map (\<lambda>(action, ip, _). (action, throttleKeyForIp ip)) attempts"

definition inSpan :: "throttleConfig \<Rightarrow> ThrottledAction \<Rightarrow> int \<Rightarrow> int list \<Rightarrow> nat" where
  "inSpan cfg action t grants = length (filter (\<lambda>g. t - windowMs cfg action < g \<and> g \<le> t) grants)"

definition presentKeys :: "throttle \<Rightarrow> (ThrottledAction \<times> string) set" where
  "presentKeys st = {(b, j). keyArray st b j \<noteq> None}"

lemma presentKeys_iff: "x \<in> presentKeys st \<longleftrightarrow> keyArray st (fst x) (snd x) \<noteq> None"
  by (cases x) (simp add: presentKeys_def)

lemma UNIV_actions: "UNIV = set THROTTLE_ACTIONS"
  by (auto simp: THROTTLE_ACTIONS_def intro: ThrottledAction.exhaust)

lemma totalKeys_card:
  assumes "mapsOk cfg t st"
  shows "totalKeys st = int (card (presentKeys st))"
proof -
  have present: "presentKeys st = (SIGMA b:set THROTTLE_ACTIONS. set (mapKeys (mapFor st b)))"
    unfolding presentKeys_def keyArray_def jsm.get_keys UNIV_actions [symmetric] by auto
  have "card (set (mapKeys (mapFor st b))) = length (mapFor st b)" for b
    using assms jsm.keys_distinct [of "mapFor st b"]
    by (simp add: mapsOk_def distinct_card length_mapKeys)
  then have "int (card (presentKeys st)) = (\<Sum>b\<in>set THROTTLE_ACTIONS. int (length (mapFor st b)))"
    by (simp add: present)
  then show ?thesis
    by (simp add: totalKeys_def sum.distinct_set_conv_list THROTTLE_ACTIONS_def)
qed

text \<open>The relation kept along a run, for one action and key with the grants so far.\<close>

definition runInv ::
  "throttleConfig \<Rightarrow> ThrottledAction \<Rightarrow> string \<Rightarrow> (ThrottledAction \<times> string) set \<Rightarrow> int \<Rightarrow> throttle \<Rightarrow> int list \<Rightarrow> bool" where
  "runInv cfg action key K t0 st G \<longleftrightarrow>
     throttleOk cfg t0 st \<and> presentKeys st \<subseteq> K \<and> (\<forall>g \<in> set G. g \<le> t0) \<and>
     (\<forall>t \<ge> t0. liveEvents cfg action t (storedEvents st action key) = liveEvents cfg action t G) \<and>
     (\<forall>t. inSpan cfg action t G \<le> maxEventsOf cfg action)"

lemma liveEvents_later:
  "t \<le> t' \<Longrightarrow> liveEvents cfg action t' (liveEvents cfg action t events) = liveEvents cfg action t' events"
  by (auto simp: liveEvents_def intro!: filter_cong)

lemma liveEvents_append:
  "liveEvents cfg action t (xs @ ys) = liveEvents cfg action t xs @ liveEvents cfg action t ys"
  by (simp add: liveEvents_def)

lemma inSpan_snoc:
  assumes "\<forall>g \<in> set G. g \<le> now" and "\<forall>t. inSpan cfg action t G \<le> n"
    and "length (liveEvents cfg action now G) < n"
  shows "inSpan cfg action t (G @ [now]) \<le> n"
proof (cases "t < now")
  case True
  with assms(2) show ?thesis by (simp add: inSpan_def)
next
  case False
  have "length (filter (\<lambda>g. t - windowMs cfg action < g \<and> g \<le> t) G) \<le>
      length (liveEvents cfg action now G)"
    unfolding liveEvents_def using False by (induction G) auto
  with assms(3) show ?thesis by (simp add: inSpan_def)
qed

definition grantTimes :: "ThrottleAcquisition \<Rightarrow> bool \<Rightarrow> int \<Rightarrow> int list" where
  "grantTimes a same t = (case a of Granted _ \<Rightarrow> if same then [t] else [] | Denied _ \<Rightarrow> [])"

lemma runInv_step:
  assumes inv: "runInv cfg action key K t0 st G" and K: "(act, throttleKeyForIp ip) \<in> K" "finite K"
      "int (card K) \<le> int (tc_maxKeys cfg)"
    and pos: "limitsPositive cfg" and t: "t0 \<le> t" and run: "tryAcquire cfg act ip t st = (a, st')"
  shows "runInv cfg action key K t st'
           (G @ grantTimes a ((act, throttleKeyForIp ip) = (action, key)) t)"
proof -
  have ok: "throttleOk cfg t st" using inv t by (auto simp: runInv_def intro: throttleOk_mono)
  have pos': "tc_maxKeys cfg \<ge> 1" using pos by (simp add: limitsPositive_def)
  note step = tryAcquire_core [OF ok pos' limitsPositive_action(1) [OF pos] run]
  have room: "totalKeys st < int (tc_maxKeys cfg)" if "keyArray st act (throttleKeyForIp ip) = None"
  proof -
    have "presentKeys st \<subset> K" using inv K(1) that by (auto simp: runInv_def presentKeys_def)
    then have "card (presentKeys st) < card K" using K(2) by (rule psubset_card_mono [rotated])
    with K(3) ok show ?thesis by (simp add: totalKeys_card [of cfg t] throttleOk_def coreOk_def)
  qed
  then have others: "keyArray st' b j = keyArray st b j" if "(b, j) \<noteq> (act, throttleKeyForIp ip)" for b j
    using step(4) [OF that] by blast
  have present: "presentKeys st' \<subseteq> K"
  proof
    fix x assume x: "x \<in> presentKeys st'"
    show "x \<in> K"
    proof (cases "x = (act, throttleKeyForIp ip)")
      case False
      with x others [of "fst x" "snd x"] have "x \<in> presentKeys st" by (simp add: presentKeys_iff)
      with inv show ?thesis by (auto simp: runInv_def)
    qed (use K(1) in simp)
  qed
  have live: "liveEvents cfg action t' (storedEvents st action key) = liveEvents cfg action t' G"
    if "t \<le> t'" for t' using inv t that by (simp add: runInv_def)
  have G: "\<forall>g \<in> set G. g \<le> t" "\<forall>t. inSpan cfg action t G \<le> maxEventsOf cfg action"
    using inv t by (auto simp: runInv_def)
  show ?thesis
  proof (cases "(act, throttleKeyForIp ip) = (action, key)")
    case False
    then have "storedEvents st' action key = storedEvents st action key"
      using others [of action key] by (auto simp: storedEvents_def)
    moreover have "grantTimes a ((act, throttleKeyForIp ip) = (action, key)) t = []"
      using False by (cases a) (simp_all add: grantTimes_def)
    ultimately show ?thesis using step(1) present live G by (simp add: runInv_def)
  next
    case True
    then have now: "counted cfg st act ip t = liveEvents cfg action t G"
      using live [of t] by (auto simp: counted_def)
    show ?thesis
    proof (cases a)
      case (Denied s)
      from step(2) [OF this] True now have "storedEvents st' action key = liveEvents cfg action t G" by auto
      with step(1) present G Denied show ?thesis by (simp add: runInv_def grantTimes_def liveEvents_later)
    next
      case (Granted rv)
      from step(3) [OF this] True now
      have "length (liveEvents cfg action t G) < maxEventsOf cfg action"
        "storedEvents st' action key = liveEvents cfg action t G @ [t]" by auto
      with step(1) present G Granted True show ?thesis
        by (simp add: runInv_def grantTimes_def liveEvents_later liveEvents_append inSpan_snoc)
    qed
  qed
qed

lemma runInv_run:
  assumes "runInv cfg action key K t0 st G" and "finite K" "int (card K) \<le> int (tc_maxKeys cfg)"
    and "limitsPositive cfg" and "set (attemptKeys attempts) \<subseteq> K"
    and "sorted (t0 # map (\<lambda>(_, _, t). t) attempts)"
  shows "inSpan cfg action t (G @ grantsOf action key (runAttempts cfg attempts st)) \<le> maxEventsOf cfg action"
  using assms
proof (induction attempts arbitrary: t0 st G)
  case Nil
  then show ?case by (simp add: runInv_def grantsOf_def)
next
  case (Cons x attempts)
  obtain act ip t1 where x: "x = (act, ip, t1)" by (cases x)
  obtain a st' where run: "tryAcquire cfg act ip t1 st = (a, st')" by fastforce
  have "runInv cfg action key K t1 st' (G @ grantTimes a ((act, throttleKeyForIp ip) = (action, key)) t1)"
    using Cons.prems x run by (intro runInv_step) (auto simp: attemptKeys_def)
  from Cons.IH [OF this] Cons.prems x run show ?case
    by (cases a) (auto simp: attemptKeys_def grantsOf_def grantTimes_def)
qed

lemma keyArray_new: "keyArray createClientIpThrottle b j = None"
  by (simp add: keyArray_def mapFor_def createClientIpThrottle_def mapGet_def)

lemma runInv_new:
  "runInv cfg action key K t createClientIpThrottle []"
  by (simp add: runInv_def throttleOk_new presentKeys_def keyArray_new storedEvents_def inSpan_def)

section \<open>Properties of the limiter\<close>


definition exampleThrottle :: throttleConfig where
  "exampleThrottle = \<lparr>tc_maxKeys = 2, tc_limits = (\<lambda>_. \<lparr>lim_maxEvents = 1, lim_windowSeconds = 1\<rparr>)\<rparr>"


text \<open>
  C39: in every reachable state the key counter is the number of keys held,
  which never exceeds \<open>maxKeys\<close>, and every key holds between one and \<open>maxEvents\<close> events, in
  order and none in the future.
\<close>

theorem throttle_memory_bound:
  assumes "throttleReachable cfg t st" and "limitsPositive cfg"
  shows "th_keyCount st = totalKeys st \<and> totalKeys st \<le> int (tc_maxKeys cfg) \<and>
         mapOk (mapFor st action) \<and>
         list_all (\<lambda>entry. eventsOk cfg action t (snd (snd entry))) (mapFor st action)"
  using throttleReachable_ok [OF assms]
  by (auto simp: throttleOk_def coreOk_def mapsOk_def list_all_iff)

theorem throttle_memory_bound_witness:
  "th_keyCount (snd (tryAcquire exampleThrottle Login ''10.0.0.1'' 7 createClientIpThrottle)) = 1 \<and>
   totalKeys (snd (tryAcquire exampleThrottle Login ''10.0.0.1'' 7 createClientIpThrottle)) \<le> 2"
proof -
  have "throttleReachable exampleThrottle 7
      (snd (tryAcquire exampleThrottle Login ''10.0.0.1'' 7 createClientIpThrottle))"
    by (rule throttleReachable.acquire [OF throttleReachable.new [where t = 7]]) simp
  moreover have "limitsPositive exampleThrottle"
    by (simp add: limitsPositive_def exampleThrottle_def THROTTLE_ACTIONS_def maxEventsOf_def windowMs_def)
  ultimately have "th_keyCount (snd (tryAcquire exampleThrottle Login ''10.0.0.1'' 7 createClientIpThrottle)) =
      totalKeys (snd (tryAcquire exampleThrottle Login ''10.0.0.1'' 7 createClientIpThrottle)) \<and>
      totalKeys (snd (tryAcquire exampleThrottle Login ''10.0.0.1'' 7 createClientIpThrottle)) \<le>
        int (tc_maxKeys exampleThrottle)"
    using throttle_memory_bound by blast
  moreover have "th_keyCount (snd (tryAcquire exampleThrottle Login ''10.0.0.1'' 7 createClientIpThrottle)) = 1"
    by code_simp
  ultimately show ?thesis by (simp add: exampleThrottle_def)
qed

lemma ceilSeconds_bounds: "ms \<le> 1000 * ceilSeconds ms" "1000 * (ceilSeconds ms - 1) < ms"
proof -
  have "(- ms) mod 1000 < 1000" "0 \<le> (- ms) mod 1000" by simp_all
  with div_mult_mod_eq [of "- ms" 1000]
  show "ms \<le> 1000 * ceilSeconds ms" "1000 * (ceilSeconds ms - 1) < ms"
    unfolding ceilSeconds_def by (simp_all add: algebra_simps)
qed

lemma tryAcquire_decides:
  assumes "throttleOk cfg nowMs st" and "limitsPositive cfg"
  shows "(\<exists>rv. fst (tryAcquire cfg action ip nowMs st) = Granted rv) \<longleftrightarrow>
           length (counted cfg st action ip nowMs) < maxEventsOf cfg action"
proof -
  obtain a st' where run: "tryAcquire cfg action ip nowMs st = (a, st')" by fastforce
  have pos: "tc_maxKeys cfg \<ge> 1" using assms(2) by (simp add: limitsPositive_def)
  note step = tryAcquire_core [OF assms(1) pos limitsPositive_action(1) [OF assms(2)] run]
  show ?thesis
  proof (cases a)
    case (Granted rv)
    with run step(3) [OF Granted] show ?thesis by simp
  next
    case (Denied s)
    with run step(2) [OF Denied] show ?thesis by (auto simp: retryAnswer_def split: if_splits)
  qed
qed

text \<open>The window opens for a full list exactly when its oldest event leaves it.\<close>

lemma liveEvents_full:
  assumes "eventsOk cfg action nowMs events"
  shows "hd events \<le> t - windowMs cfg action \<Longrightarrow> length (liveEvents cfg action t events) < length events"
    and "hd events > t - windowMs cfg action \<Longrightarrow> liveEvents cfg action t events = events"
proof -
  obtain e es where ev: "events = e # es" "sorted (e # es)"
    using assms by (cases events) (auto simp: eventsOk_def)
  show "hd events \<le> t - windowMs cfg action \<Longrightarrow> length (liveEvents cfg action t events) < length events"
    using ev by (auto simp: liveEvents_def less_Suc_eq_le)
  show "hd events > t - windowMs cfg action \<Longrightarrow> liveEvents cfg action t events = events"
    using ev by (auto simp: liveEvents_def filter_id_conv)
qed

text \<open>
  C19: a refusal names the exact wait. After the returned number of seconds
  (at least one) the same address is granted again if nothing else happened to it, and at every
  earlier whole second, and in between, it would still be refused.
\<close>

theorem throttle_retry_exact:
  assumes reach: "throttleReachable cfg t st" and pos: "limitsPositive cfg" and later: "t \<le> nowMs"
    and run: "tryAcquire cfg action ip nowMs st = (Denied s, st')"
  shows "1 \<le> s \<and>
         (\<exists>rv. fst (tryAcquire cfg action ip (nowMs + 1000 * s) st') = Granted rv) \<and>
         (\<forall>t' \<in> {nowMs .. nowMs + 1000 * (s - 1)}.
            \<not> (\<exists>rv. fst (tryAcquire cfg action ip t' st') = Granted rv))"
proof -
  let ?c = "counted cfg st action ip nowMs" and ?w = "windowMs cfg action"
  have ok: "throttleOk cfg nowMs st" using throttleReachable_ok [OF reach pos] later by (rule throttleOk_mono)
  have pos': "tc_maxKeys cfg \<ge> 1" using pos by (simp add: limitsPositive_def)
  note step = tryAcquire_core [OF ok pos' limitsPositive_action(1) [OF pos] run]
  have answer: "length ?c \<ge> maxEventsOf cfg action" "s = max 1 (ceilSeconds (hd ?c + ?w - nowMs))"
    and stored: "storedEvents st' action (throttleKeyForIp ip) = ?c"
    using step(2) by (auto simp: retryAnswer_def split: if_splits)
  have ev: "eventsOk cfg action nowMs ?c"
    using counted_ok [of cfg nowMs st action ip] ok answer(1) limitsPositive_action(1) [OF pos, of action]
    by (auto simp: throttleOk_def coreOk_def)
  then have full: "length ?c = maxEventsOf cfg action" using answer(1) by (simp add: eventsOk_def)
  have "?c \<noteq> []" "liveEvents cfg action nowMs ?c = ?c"
    using ev by (simp_all add: eventsOk_def counted_def liveEvents_def)
  then have "hd ?c \<in> set (liveEvents cfg action nowMs ?c)" by simp
  then have "nowMs - ?w < hd ?c" by (simp add: liveEvents_def)
  with ceilSeconds_bounds(1) [of "hd ?c + ?w - nowMs"] have "1 \<le> ceilSeconds (hd ?c + ?w - nowMs)"
    by linarith
  with answer(2) ceilSeconds_bounds [of "hd ?c + ?w - nowMs"]
  have s: "1 \<le> s" "hd ?c + ?w - nowMs \<le> 1000 * s" "1000 * (s - 1) < hd ?c + ?w - nowMs" by simp_all
  have decide: "(\<exists>rv. fst (tryAcquire cfg action ip t' st') = Granted rv) \<longleftrightarrow>
      length (liveEvents cfg action t' ?c) < maxEventsOf cfg action" if "nowMs \<le> t'" for t'
    using tryAcquire_decides [OF throttleOk_mono [OF step(1) that] pos, of action ip] stored
    by (simp add: counted_def [of cfg st'])
  show ?thesis
    using s decide liveEvents_full [OF ev] full by auto
qed

theorem throttle_retry_exact_witness:
  "fst (tryAcquire exampleThrottle Login ''10.0.0.1'' 400
      (snd (tryAcquire exampleThrottle Login ''10.0.0.1'' 7 createClientIpThrottle))) = Denied 1 \<and>
   (\<exists>rv. fst (tryAcquire exampleThrottle Login ''10.0.0.1'' 1400
      (snd (tryAcquire exampleThrottle Login ''10.0.0.1'' 400
        (snd (tryAcquire exampleThrottle Login ''10.0.0.1'' 7 createClientIpThrottle))))) = Granted rv)"
proof -
  let ?st = "snd (tryAcquire exampleThrottle Login ''10.0.0.1'' 7 createClientIpThrottle)"
  let ?st' = "snd (tryAcquire exampleThrottle Login ''10.0.0.1'' 400 ?st)"
  have reach: "throttleReachable exampleThrottle 7 ?st"
    by (rule throttleReachable.acquire [OF throttleReachable.new [where t = 7]]) simp
  have pos: "limitsPositive exampleThrottle"
    by (simp add: limitsPositive_def exampleThrottle_def THROTTLE_ACTIONS_def maxEventsOf_def windowMs_def)
  have denied: "fst (tryAcquire exampleThrottle Login ''10.0.0.1'' 400 ?st) = Denied 1" by code_simp
  then have "tryAcquire exampleThrottle Login ''10.0.0.1'' 400 ?st = (Denied 1, ?st')"
    by (simp add: prod_eq_iff)
  from throttle_retry_exact [OF reach pos _ this] denied show ?thesis by simp
qed

end
