(* ===== verification/ImapLimiter.thy ===== *)
theory ImapLimiter
  imports JsMap
begin

text \<open>
  \<open>data/src/mail/imapConnectionLimiter.ts\<close>: the bound on an account's concurrent IMAP
  connections. The synchronous sections between two \<open>await\<close>s are the operations; a task is a
  number, and the operations answer the tasks whose slot they grant, in order. The two tables
  are looked up at their own keys.
\<close>

section \<open>Limits\<close>

definition PROVIDER_IMAP_CONNECTION_LIMITS :: "(string \<times> int) list" where
  "PROVIDER_IMAP_CONNECTION_LIMITS = [(''gmail'', 5), (''icloud'', 3), (''outlook'', 3)]"

definition DEFAULT_IMAP_CONNECTION_LIMIT :: int where
  "DEFAULT_IMAP_CONNECTION_LIMIT = 2"

definition orDefault :: "(string \<times> int) list \<Rightarrow> string option \<Rightarrow> int \<Rightarrow> int" where
  "orDefault table provider dflt =
     (case provider of
        None \<Rightarrow> dflt
      | Some p \<Rightarrow> (case map_of table p of None \<Rightarrow> dflt | Some n \<Rightarrow> n))"

definition imapConnectionLimitForProvider :: "string option \<Rightarrow> json option \<Rightarrow> int" where
  "imapConnectionLimitForProvider provider configuredLimit =
     (let fallback = orDefault PROVIDER_IMAP_CONNECTION_LIMITS provider DEFAULT_IMAP_CONNECTION_LIMIT
      in case configuredLimit of
           Some (JNum q) \<Rightarrow> if q \<ge> 1 then floor q else fallback
         | _ \<Rightarrow> fallback)"

definition PROVIDER_CONNECTION_LIMIT_BACKOFF_SECONDS :: "(string \<times> int) list" where
  "PROVIDER_CONNECTION_LIMIT_BACKOFF_SECONDS =
     [(''gmail'', 10 * 60), (''icloud'', 5 * 60), (''outlook'', 5 * 60)]"

definition DEFAULT_CONNECTION_LIMIT_BACKOFF_SECONDS :: int where
  "DEFAULT_CONNECTION_LIMIT_BACKOFF_SECONDS = 5 * 60"

definition connectionLimitBackoffSecondsForProvider :: "string option \<Rightarrow> int" where
  "connectionLimitBackoffSecondsForProvider provider =
     orDefault PROVIDER_CONNECTION_LIMIT_BACKOFF_SECONDS provider DEFAULT_CONNECTION_LIMIT_BACKOFF_SECONDS"

lemma imapConnectionLimit_pos: "imapConnectionLimitForProvider provider configured \<ge> 1"
  by (auto simp: imapConnectionLimitForProvider_def orDefault_def PROVIDER_IMAP_CONNECTION_LIMITS_def
      DEFAULT_IMAP_CONNECTION_LIMIT_def le_floor_iff split: option.splits json.splits)

section \<open>One account's queue\<close>

record AccountQueue =
  aq_active :: int
  aq_limit :: int
  aq_waiters :: "nat list"

text \<open>The loop of \<open>wakeWaiters\<close>: granted waiters, active tasks, waiters that stay.\<close>

fun wakeLoop :: "int \<Rightarrow> int \<Rightarrow> nat list \<Rightarrow> nat list \<times> int \<times> nat list" where
  "wakeLoop active limit [] = ([], active, [])"
| "wakeLoop active limit (w # waiters) =
     (if active < limit then
        (case wakeLoop (active + 1) limit waiters of (granted, active', rest) \<Rightarrow> (w # granted, active', rest))
      else ([], active, w # waiters))"

definition wakeWaiters :: "AccountQueue \<Rightarrow> nat list \<times> AccountQueue" where
  "wakeWaiters q =
     (case wakeLoop (aq_active q) (aq_limit q) (aq_waiters q) of
        (granted, active', rest) \<Rightarrow> (granted, q\<lparr>aq_active := active', aq_waiters := rest\<rparr>))"

definition newQueue :: "int \<Rightarrow> AccountQueue" where
  "newQueue limit = \<lparr>aq_active = 0, aq_limit = limit, aq_waiters = []\<rparr>"

definition setLimit :: "int \<Rightarrow> AccountQueue \<Rightarrow> nat list \<times> AccountQueue" where
  "setLimit limit q = wakeWaiters (q\<lparr>aq_limit := limit\<rparr>)"

definition startTask :: "nat \<Rightarrow> AccountQueue \<Rightarrow> nat list \<times> AccountQueue" where
  "startTask task q =
     (if aq_active q < aq_limit q then ([task], q\<lparr>aq_active := aq_active q + 1\<rparr>)
      else ([], q\<lparr>aq_waiters := aq_waiters q @ [task]\<rparr>))"

definition finishTask :: "AccountQueue \<Rightarrow> nat list \<times> AccountQueue" where
  "finishTask q = wakeWaiters (q\<lparr>aq_active := aq_active q - 1\<rparr>)"

text \<open>The timer of \<open>waitForSlot\<close>; a granted waiter's timer is cleared before.\<close>

definition timeoutWaiter :: "nat \<Rightarrow> AccountQueue \<Rightarrow> AccountQueue" where
  "timeoutWaiter task q = q\<lparr>aq_waiters := remove1 task (aq_waiters q)\<rparr>"

section \<open>The limiter\<close>

text \<open>The state with the tasks each account is running, as its callers see them.\<close>

record limiter =
  lt_queues :: "AccountQueue jsMap"
  lt_running :: "string \<Rightarrow> nat list"

definition createImapConnectionLimiter :: limiter where
  "createImapConnectionLimiter = \<lparr>lt_queues = [], lt_running = (\<lambda>_. [])\<rparr>"

definition putQueue :: "string \<Rightarrow> AccountQueue \<Rightarrow> nat list \<Rightarrow> limiter \<Rightarrow> limiter" where
  "putQueue accountId q granted s =
     s\<lparr>lt_queues := mapSet accountId q (lt_queues s),
       lt_running := (lt_running s)(accountId := lt_running s accountId @ granted)\<rparr>"

definition runTask :: "string \<Rightarrow> int \<Rightarrow> nat \<Rightarrow> limiter \<Rightarrow> limiter" where
  "runTask accountId limit task s =
     (case (case mapGet (lt_queues s) accountId of
              None \<Rightarrow> ([], newQueue limit) | Some q \<Rightarrow> setLimit limit q) of
        (woken, q1) \<Rightarrow>
          (case startTask task q1 of (granted, q2) \<Rightarrow> putQueue accountId q2 (woken @ granted) s))"

definition taskDone :: "string \<Rightarrow> nat \<Rightarrow> limiter \<Rightarrow> limiter" where
  "taskDone accountId task s =
     (case mapGet (lt_queues s) accountId of
        None \<Rightarrow> s
      | Some q \<Rightarrow>
          (case finishTask q of
             (granted, q') \<Rightarrow> putQueue accountId q' granted
               (s\<lparr>lt_running := (lt_running s)(accountId := remove1 task (lt_running s accountId))\<rparr>)))"

definition taskTimedOut :: "string \<Rightarrow> nat \<Rightarrow> limiter \<Rightarrow> limiter" where
  "taskTimedOut accountId task s =
     (case mapGet (lt_queues s) accountId of
        None \<Rightarrow> s | Some q \<Rightarrow> putQueue accountId (timeoutWaiter task q) [] s)"

text \<open>
  What can happen: a call with any limit, the end of a running task, the timeout of a waiting
  one. \<open>highest\<close> bounds the limits asked for.
\<close>

inductive limiterReachable :: "int \<Rightarrow> limiter \<Rightarrow> bool" for highest where
  new: "limiterReachable highest createImapConnectionLimiter"
| run: "limiterReachable highest s \<Longrightarrow> 1 \<le> limit \<Longrightarrow> limit \<le> highest \<Longrightarrow>
    limiterReachable highest (runTask accountId limit task s)"
| done_: "limiterReachable highest s \<Longrightarrow> task \<in> set (lt_running s accountId) \<Longrightarrow>
    limiterReachable highest (taskDone accountId task s)"
| timedOut: "limiterReachable highest s \<Longrightarrow> mapGet (lt_queues s) accountId = Some q \<Longrightarrow>
    task \<in> set (aq_waiters q) \<Longrightarrow> limiterReachable highest (taskTimedOut accountId task s)"

section \<open>The loop\<close>

lemma wakeLoop_spec:
  assumes "wakeLoop active limit waiters = (granted, active', rest)"
  shows "waiters = granted @ rest \<and> active' = active + int (length granted) \<and>
         (rest \<noteq> [] \<longrightarrow> limit \<le> active') \<and> (granted \<noteq> [] \<longrightarrow> active' \<le> limit) \<and>
         length granted = min (nat (limit - active)) (length waiters)"
  using assms
proof (induction active limit waiters arbitrary: granted rule: wakeLoop.induct)
  case (2 active limit w waiters)
  show ?case
  proof (cases "active < limit")
    case True
    then obtain granted' where rec: "wakeLoop (active + 1) limit waiters = (granted', active', rest)"
        "granted = w # granted'"
      using "2.prems" by (auto split: prod.splits)
    from "2.IH" [OF True rec(1)] rec(2) True show ?thesis by (cases granted') auto
  next
    case False
    with "2.prems" show ?thesis by auto
  qed
qed simp

text \<open>The invariant of a queue with \<open>n\<close> running tasks.\<close>

definition queueOk :: "int \<Rightarrow> AccountQueue \<Rightarrow> nat \<Rightarrow> bool" where
  "queueOk highest q n \<longleftrightarrow>
     aq_active q = int n \<and> aq_active q \<le> highest \<and> 1 \<le> aq_limit q \<and> aq_limit q \<le> highest \<and>
     (aq_waiters q \<noteq> [] \<longrightarrow> aq_limit q \<le> aq_active q)"

lemma wakeWaiters_ok:
  assumes "wakeWaiters q = (granted, q')" and "aq_active q = int n" and "aq_active q \<le> highest"
    and "1 \<le> aq_limit q" and "aq_limit q \<le> highest"
  shows "queueOk highest q' (n + length granted) \<and> aq_limit q' = aq_limit q \<and>
         aq_waiters q = granted @ aq_waiters q'"
proof -
  obtain active' rest where loop: "wakeLoop (aq_active q) (aq_limit q) (aq_waiters q) = (granted, active', rest)"
      "q' = q\<lparr>aq_active := active', aq_waiters := rest\<rparr>"
    using assms(1) by (auto simp: wakeWaiters_def split: prod.splits)
  have spec: "aq_waiters q = granted @ rest" "active' = aq_active q + int (length granted)"
      "rest \<noteq> [] \<longrightarrow> aq_limit q \<le> active'" "granted \<noteq> [] \<longrightarrow> active' \<le> aq_limit q"
    using wakeLoop_spec [OF loop(1)] by blast+
  have "active' \<le> highest" using spec(2,4) assms(3,5) by (cases "granted = []") simp_all
  with spec assms(2,4,5) show ?thesis unfolding loop(2) queueOk_def by simp
qed

lemma setLimit_ok:
  assumes "setLimit limit q = (granted, q')" and "queueOk highest q n" and "1 \<le> limit" and "limit \<le> highest"
  shows "queueOk highest q' (n + length granted)"
proof -
  have "queueOk highest q' (n + length granted) \<and> aq_limit q' = aq_limit (q\<lparr>aq_limit := limit\<rparr>) \<and>
        aq_waiters (q\<lparr>aq_limit := limit\<rparr>) = granted @ aq_waiters q'"
    using assms by (intro wakeWaiters_ok) (simp_all add: setLimit_def queueOk_def)
  then show ?thesis by blast
qed

lemma startTask_ok:
  assumes "startTask task q = (granted, q')" and "queueOk highest q n"
  shows "queueOk highest q' (n + length granted)"
  using assms by (auto simp: startTask_def queueOk_def split: if_splits)

lemma finishTask_ok:
  assumes "finishTask q = (granted, q')" and "queueOk highest q n" and "n \<noteq> 0"
  shows "queueOk highest q' (n - 1 + length granted)"
proof -
  let ?q = "q\<lparr>aq_active := aq_active q - 1\<rparr>"
  have "queueOk highest q' (n - 1 + length granted) \<and> aq_limit q' = aq_limit ?q \<and>
        aq_waiters ?q = granted @ aq_waiters q'"
    using assms by (intro wakeWaiters_ok) (auto simp: finishTask_def queueOk_def)
  then show ?thesis by blast
qed

lemma timeoutWaiter_ok: "queueOk highest q n \<Longrightarrow> queueOk highest (timeoutWaiter task q) n"
  by (auto simp: queueOk_def timeoutWaiter_def split: if_splits)

definition limiterOk :: "int \<Rightarrow> limiter \<Rightarrow> bool" where
  "limiterOk highest s \<longleftrightarrow>
     (\<forall>accountId. case mapGet (lt_queues s) accountId of
        None \<Rightarrow> lt_running s accountId = []
      | Some q \<Rightarrow> queueOk highest q (length (lt_running s accountId)))"

lemma limiterOkD:
  "limiterOk highest s \<Longrightarrow> mapGet (lt_queues s) accountId = Some q \<Longrightarrow>
     queueOk highest q (length (lt_running s accountId))"
  "limiterOk highest s \<Longrightarrow> mapGet (lt_queues s) accountId = None \<Longrightarrow> lt_running s accountId = []"
  by (auto simp: limiterOk_def dest!: spec [of _ accountId])

lemma limiterOk_putQueue:
  assumes "limiterOk highest s" and "\<And>b. b \<noteq> accountId \<Longrightarrow> lt_running s' b = lt_running s b"
    and "lt_queues s' = lt_queues s" and "queueOk highest q (length (lt_running s' accountId @ granted))"
  shows "limiterOk highest (putQueue accountId q granted s')"
  unfolding limiterOk_def
proof
  fix b
  show "case mapGet (lt_queues (putQueue accountId q granted s')) b of
      None \<Rightarrow> lt_running (putQueue accountId q granted s') b = []
    | Some q' \<Rightarrow> queueOk highest q' (length (lt_running (putQueue accountId q granted s') b))"
  proof (cases "b = accountId")
    case True
    with assms(4) show ?thesis by (simp add: putQueue_def jsm.get_put)
  next
    case False
    with assms(2,3) limiterOkD [OF assms(1), of b] show ?thesis
      by (simp add: putQueue_def jsm.get_put split: option.split)
  qed
qed

lemma limiterReachable_ok: "limiterReachable highest s \<Longrightarrow> limiterOk highest s"
proof (induction rule: limiterReachable.induct)
  case new
  then show ?case by (simp add: limiterOk_def createImapConnectionLimiter_def mapGet_def)
next
  case (run s limit accountId task)
  obtain woken q1 where q1: "(case mapGet (lt_queues s) accountId of
      None \<Rightarrow> ([], newQueue limit) | Some q \<Rightarrow> setLimit limit q) = (woken, q1)" by fastforce
  obtain granted q2 where q2: "startTask task q1 = (granted, q2)" by fastforce
  have "queueOk highest q1 (length (lt_running s accountId) + length woken)"
  proof (cases "mapGet (lt_queues s) accountId")
    case None
    with q1 run show ?thesis by (auto simp: newQueue_def queueOk_def limiterOkD)
  next
    case (Some q)
    with run.IH have "queueOk highest q (length (lt_running s accountId))"
      by (auto simp: limiterOkD)
    with setLimit_ok q1 Some run.hyps show ?thesis by auto
  qed
  from startTask_ok [OF q2 this] q1 q2 run.IH show ?case
    by (auto simp: runTask_def add.assoc intro!: limiterOk_putQueue)
next
  case (done_ s task accountId)
  show ?case
  proof (cases "mapGet (lt_queues s) accountId")
    case None
    with done_.IH show ?thesis by (simp add: taskDone_def)
  next
    case (Some q)
    obtain granted q' where fin: "finishTask q = (granted, q')" by fastforce
    from Some done_.IH have "queueOk highest q (length (lt_running s accountId))"
      by (auto simp: limiterOkD)
    moreover have "length (lt_running s accountId) \<noteq> 0" using done_.hyps(2) by auto
    ultimately have "queueOk highest q' (length (lt_running s accountId) - 1 + length granted)"
      by (rule finishTask_ok [OF fin])
    with Some fin done_ show ?thesis
      by (auto simp: taskDone_def length_remove1 intro!: limiterOk_putQueue [OF done_.IH])
  qed
next
  case (timedOut s accountId q task)
  then have "queueOk highest q (length (lt_running s accountId))"
    by (auto simp: limiterOkD)
  with timedOut show ?case
    by (auto simp: taskTimedOut_def intro!: limiterOk_putQueue timeoutWaiter_ok)
qed

section \<open>Properties\<close>


definition exampleLimiter :: limiter where
  "exampleLimiter = runTask ''acc'' 1 12 (taskDone ''acc'' 10 (runTask ''acc'' 2 11
     (runTask ''acc'' 1 10 createImapConnectionLimiter)))"

lemma exampleLimiter_eval:
  "lt_running exampleLimiter ''acc'' = [11] \<and>
   mapGet (lt_queues exampleLimiter) ''acc'' = Some \<lparr>aq_active = 1, aq_limit = 1, aq_waiters = [12]\<rparr>"
  by code_simp

lemma exampleLimiter_reachable: "limiterReachable 2 exampleLimiter"
proof -
  have "10 \<in> set (lt_running (runTask ''acc'' 2 11 (runTask ''acc'' 1 10 createImapConnectionLimiter)) ''acc'')"
    by code_simp
  then show ?thesis
    unfolding exampleLimiter_def
    by (intro limiterReachable.run limiterReachable.done_ limiterReachable.new) simp_all
qed


text \<open>\<open>n\<close> tasks of one account ending in a row: the waiters they grant, in order.\<close>

fun finishMany :: "nat \<Rightarrow> AccountQueue \<Rightarrow> nat list \<times> AccountQueue" where
  "finishMany 0 q = ([], q)"
| "finishMany (Suc n) q =
     (case finishTask q of (granted, q') \<Rightarrow>
        (case finishMany n q' of (later, q'') \<Rightarrow> (granted @ later, q'')))"

lemma finishTask_step:
  assumes "aq_limit q \<le> aq_active q" and "aq_waiters q = w # ws"
  shows "finishTask q =
    (if aq_limit q = aq_active q then ([w], q\<lparr>aq_waiters := ws\<rparr>)
     else ([], q\<lparr>aq_active := aq_active q - 1\<rparr>))"
proof (cases "aq_limit q = aq_active q")
  case True
  with assms(2) have "wakeLoop (aq_active q) (aq_limit q) ws = ([], aq_active q, ws)"
    by (cases ws) simp_all
  with True assms(2) show ?thesis by (simp add: finishTask_def wakeWaiters_def)
next
  case False
  with assms show ?thesis by (simp add: finishTask_def wakeWaiters_def)
qed



end
