(* ===== verification/SegmentMerge.thy ===== *)
theory SegmentMerge
  imports Prelude "HOL-Library.Char_ord" "HOL-Library.List_Lexorder" "HOL-Library.Product_Lexorder"
begin

text \<open>
  The transcript pipeline of \<open>semprec-transcribe\<close>: the fixed chunking of a recording for
  speech recognition (\<open>asrChunking.ts\<close>) and the merge of the recognised chunks with the
  diarization turns into one transcript (\<open>segmentMerge.ts\<close>). Times are seconds, as exact
  rationals; a number that is not finite is \<open>None\<close>.
\<close>

section \<open>Chunking\<close>

definition ASR_CHUNK_SECONDS :: rat where "ASR_CHUNK_SECONDS = 20 * 60"

definition ASR_CHUNK_OVERLAP_SECONDS :: rat where "ASR_CHUNK_OVERLAP_SECONDS = 30"

record AsrChunkBoundary =
  cb_start :: rat
  cb_end :: rat

text \<open>The loop of \<open>computeAsrChunkBoundaries\<close>, from \<open>start\<close> on.\<close>

function boundariesFrom :: "rat \<Rightarrow> rat \<Rightarrow> AsrChunkBoundary list" where
  "boundariesFrom totalSec start =
     (if start < totalSec then
        (let endTime = min (start + ASR_CHUNK_SECONDS) totalSec;
             b = \<lparr>cb_start = start, cb_end = endTime\<rparr>
         in if endTime \<ge> totalSec then [b]
            else b # boundariesFrom totalSec (endTime - ASR_CHUNK_OVERLAP_SECONDS))
      else [])"
  by pat_completeness auto

lemma chunk_step: "nat \<lceil>totalSec - (start + 1170)\<rceil> < nat \<lceil>totalSec - start\<rceil>"
  if "start + 1200 < totalSec" for totalSec start :: rat
proof -
  have "totalSec - (start + 1170) = (totalSec - start) - of_int 1170" by simp
  then have "\<lceil>totalSec - (start + 1170)\<rceil> = \<lceil>totalSec - start\<rceil> - 1170" by (simp only: ceiling_diff_of_int)
  moreover have "0 < \<lceil>totalSec - start\<rceil>" using that by (simp add: zero_less_ceiling)
  ultimately show ?thesis by simp
qed

termination boundariesFrom
proof (relation "measure (\<lambda>(totalSec, start). nat \<lceil>totalSec - start\<rceil>)")
  show "wf (measure (\<lambda>(totalSec :: rat, start). nat \<lceil>totalSec - start\<rceil>))" by simp
next
  fix totalSec start x :: rat and b :: AsrChunkBoundary
  assume "x = min (start + ASR_CHUNK_SECONDS) totalSec" and "\<not> totalSec \<le> x"
  then have "x = start + 1200" "start + 1200 < totalSec"
    by (auto simp: ASR_CHUNK_SECONDS_def min_def split: if_splits)
  then show "((totalSec, x - ASR_CHUNK_OVERLAP_SECONDS), totalSec, start)
      \<in> measure (\<lambda>(totalSec, start). nat \<lceil>totalSec - start\<rceil>)"
    using chunk_step [of start totalSec] by (simp add: ASR_CHUNK_OVERLAP_SECONDS_def add.commute)
qed

declare boundariesFrom.simps [simp del]

definition computeAsrChunkBoundaries :: "rat option \<Rightarrow> AsrChunkBoundary list" where
  "computeAsrChunkBoundaries totalDurationSeconds =
     (case totalDurationSeconds of
        None \<Rightarrow> []
      | Some totalSec \<Rightarrow> if totalSec \<le> 0 then [] else boundariesFrom totalSec 0)"

section \<open>Dropping the duplicates of overlapping chunks\<close>

record DiarizationTurn =
  dt_start :: rat
  dt_end :: rat
  dt_speaker :: string

record TranscriptionSegment =
  as_start :: rat
  as_end :: rat
  as_text :: string

record AsrChunkInput =
  ch_boundary :: AsrChunkBoundary
  ch_segments :: "TranscriptionSegment list"

record TimedText =
  tt_start :: rat
  tt_end :: rat
  tt_text :: string

record TranscriptSegment =
  ts_speaker :: string
  ts_text :: string
  ts_startsAt :: rat
  ts_endsAt :: rat

definition roundTime :: "rat \<Rightarrow> rat" where
  "roundTime seconds = of_int \<lfloor>seconds * 1000 + 1 / 2\<rfloor> / 1000"

text \<open>\<open>String.prototype.trim\<close> on code units below 256.\<close>

definition isJsSpace :: "char \<Rightarrow> bool" where
  "isJsSpace c \<longleftrightarrow> of_char c \<in> {9, 10, 11, 12, 13, 32, 160 :: nat}"

definition trim :: "string \<Rightarrow> string" where
  "trim s = rev (dropWhile isJsSpace (rev (dropWhile isJsSpace s)))"

text \<open>The window \<open>[lowerCut, upperCut)\<close> of each chunk; \<open>None\<close> is an infinite bound.\<close>

fun windowsFrom :: "AsrChunkBoundary option \<Rightarrow> AsrChunkBoundary list \<Rightarrow> (rat option \<times> rat option) list" where
  "windowsFrom previous [] = []"
| "windowsFrom previous (chunk # rest) =
     (map_option (\<lambda>p. (cb_start chunk + cb_end p) / 2) previous,
      (case rest of [] \<Rightarrow> None | next # _ \<Rightarrow> Some ((cb_start next + cb_end chunk) / 2)))
     # windowsFrom (Some chunk) rest"

definition inWindow :: "rat option \<times> rat option \<Rightarrow> rat \<Rightarrow> bool" where
  "inWindow w midpoint \<longleftrightarrow>
     (case fst w of None \<Rightarrow> True | Some lowerCut \<Rightarrow> \<not> midpoint < lowerCut) \<and>
     (case snd w of None \<Rightarrow> True | Some upperCut \<Rightarrow> \<not> midpoint \<ge> upperCut)"

definition keepSegment :: "AsrChunkBoundary \<Rightarrow> rat option \<times> rat option \<Rightarrow> TranscriptionSegment \<Rightarrow> TimedText option" where
  "keepSegment boundary w segment =
     (let startTime = roundTime (cb_start boundary + as_start segment);
          endTime = roundTime (cb_start boundary + max (as_end segment) (as_start segment));
          midpoint = (startTime + endTime) / 2
      in if \<not> inWindow w midpoint then None
         else let text = trim (as_text segment)
              in if text = [] then None else Some \<lparr>tt_start = startTime, tt_end = endTime, tt_text = text\<rparr>)"

definition dedupeChunkOverlaps :: "AsrChunkInput list \<Rightarrow> TimedText list" where
  "dedupeChunkOverlaps chunks =
     sort_key (\<lambda>t. (tt_start t, tt_end t))
       (concat (map (\<lambda>(chunk, w). List.map_filter (keepSegment (ch_boundary chunk) w) (ch_segments chunk))
         (zip chunks (windowsFrom None (map ch_boundary chunks)))))"

section \<open>Speakers\<close>

definition FALLBACK_SPEAKER :: string where "FALLBACK_SPEAKER = ''SPEAKER_00''"

definition SEGMENT_PAUSE_BREAK_SECONDS :: rat where "SEGMENT_PAUSE_BREAK_SECONDS = 3 / 2"

definition overlapSeconds :: "TimedText \<Rightarrow> DiarizationTurn \<Rightarrow> rat" where
  "overlapSeconds segment turn =
     max 0 (min (tt_end segment) (dt_end turn) - max (tt_start segment) (dt_start turn))"

definition gapSeconds :: "TimedText \<Rightarrow> DiarizationTurn \<Rightarrow> rat" where
  "gapSeconds segment turn =
     (if tt_end segment < dt_start turn then dt_start turn - tt_end segment
      else if dt_end turn < tt_start segment then tt_start segment - dt_end turn
      else 0)"

fun bestByOverlap :: "TimedText \<Rightarrow> DiarizationTurn list \<Rightarrow> DiarizationTurn option \<Rightarrow> rat \<Rightarrow> DiarizationTurn option" where
  "bestByOverlap segment [] best bestOverlap = best"
| "bestByOverlap segment (turn # turns) best bestOverlap =
     (let overlap = overlapSeconds segment turn
      in if overlap > bestOverlap then bestByOverlap segment turns (Some turn) overlap
         else bestByOverlap segment turns best bestOverlap)"

text \<open>\<open>bestGap\<close> starts at \<open>Infinity\<close>, here \<open>None\<close>.\<close>

fun bestByGap :: "TimedText \<Rightarrow> DiarizationTurn list \<Rightarrow> DiarizationTurn option \<Rightarrow> rat option \<Rightarrow> DiarizationTurn option" where
  "bestByGap segment [] best bestGap = best"
| "bestByGap segment (turn # turns) best bestGap =
     (let gap = gapSeconds segment turn
      in if (case bestGap of None \<Rightarrow> True | Some g \<Rightarrow> gap < g)
         then bestByGap segment turns (Some turn) (Some gap)
         else bestByGap segment turns best bestGap)"

definition assignSpeaker :: "TimedText \<Rightarrow> DiarizationTurn list \<Rightarrow> string" where
  "assignSpeaker segment sortedTurns =
     (case bestByOverlap segment sortedTurns None 0 of
        Some best \<Rightarrow> dt_speaker best
      | None \<Rightarrow>
          (case bestByGap segment sortedTurns None None of
             Some best \<Rightarrow> dt_speaker best
           | None \<Rightarrow> FALLBACK_SPEAKER))"

section \<open>The merge\<close>

text \<open>One turn of the loop; \<open>merged\<close> is kept reversed, \<open>merged.at(-1)\<close> first.\<close>

definition mergeStep ::
  "DiarizationTurn list \<Rightarrow> TimedText \<Rightarrow> TranscriptSegment list \<times> rat \<Rightarrow> TranscriptSegment list \<times> rat" where
  "mergeStep sortedTurns segment acc =
     (case acc of (merged, previousEnd) \<Rightarrow>
        let speaker = assignSpeaker segment sortedTurns;
            startsAt = max (tt_start segment) previousEnd;
            endsAt = max (tt_end segment) startsAt;
            fresh = \<lparr>ts_speaker = speaker, ts_text = tt_text segment,
                     ts_startsAt = startsAt, ts_endsAt = endsAt\<rparr>
        in (case merged of
              [] \<Rightarrow> [fresh]
            | latest # before \<Rightarrow>
                if ts_speaker latest = speaker \<and> startsAt - ts_endsAt latest \<le> SEGMENT_PAUSE_BREAK_SECONDS
                then latest\<lparr>ts_text := ts_text latest @ '' '' @ tt_text segment, ts_endsAt := endsAt\<rparr> # before
                else fresh # merged,
            endsAt))"

definition mergeTranscriptSegments :: "DiarizationTurn list \<Rightarrow> AsrChunkInput list \<Rightarrow> TranscriptSegment list" where
  "mergeTranscriptSegments turns chunks =
     (let sortedTurns = sort_key (\<lambda>t. (dt_start t, dt_end t, dt_speaker t)) turns
      in rev (fst (fold (mergeStep sortedTurns) (dedupeChunkOverlaps chunks) ([], 0))))"

section \<open>Order of the merged segments\<close>

text \<open>The reversed accumulator: newest first, monotone, and no pause missed.\<close>

fun mergedOk :: "TranscriptSegment list \<Rightarrow> bool" where
  "mergedOk [] = True"
| "mergedOk [s] = (ts_startsAt s \<le> ts_endsAt s)"
| "mergedOk (s # p # rest) =
     (ts_startsAt s \<le> ts_endsAt s \<and> ts_endsAt p \<le> ts_startsAt s \<and>
      (ts_speaker s = ts_speaker p \<longrightarrow> ts_startsAt s - ts_endsAt p > SEGMENT_PAUSE_BREAK_SECONDS) \<and>
      mergedOk (p # rest))"

definition accOk :: "TranscriptSegment list \<times> rat \<Rightarrow> bool" where
  "accOk acc \<longleftrightarrow> mergedOk (fst acc) \<and> (fst acc \<noteq> [] \<longrightarrow> ts_endsAt (hd (fst acc)) = snd acc)"

lemma mergedOk_grow:
  "mergedOk (s # rest) \<Longrightarrow> ts_endsAt s \<le> e \<Longrightarrow> mergedOk (s\<lparr>ts_text := x, ts_endsAt := e\<rparr> # rest)"
  by (cases rest) auto

lemma mergeStep_ok:
  assumes "accOk acc"
  shows "accOk (mergeStep turns segment acc)"
proof (cases "fst acc")
  case Nil
  then show ?thesis by (cases acc) (simp add: mergeStep_def accOk_def Let_def)
next
  case (Cons latest before)
  with assms have ok: "mergedOk (latest # before)" "ts_endsAt latest = snd acc" by (simp_all add: accOk_def)
  from Cons ok(2) mergedOk_grow [OF ok(1)] ok(1) show ?thesis
    by (cases acc) (auto simp: mergeStep_def accOk_def Let_def max_def)
qed

lemma mergeSteps_ok: "accOk acc \<Longrightarrow> accOk (fold (mergeStep turns) segments acc)"
  by (induction segments arbitrary: acc) (simp_all add: mergeStep_ok)

lemma mergedOk_rev_nth:
  assumes "mergedOk ms"
  shows "i < length ms \<Longrightarrow> ts_startsAt (rev ms ! i) \<le> ts_endsAt (rev ms ! i)"
    and "Suc i < length ms \<Longrightarrow> ts_endsAt (rev ms ! i) \<le> ts_startsAt (rev ms ! Suc i) \<and>
      (ts_speaker (rev ms ! Suc i) = ts_speaker (rev ms ! i) \<longrightarrow>
        ts_startsAt (rev ms ! Suc i) - ts_endsAt (rev ms ! i) > SEGMENT_PAUSE_BREAK_SECONDS)"
  using assms
  by (induction ms rule: mergedOk.induct) (auto simp: nth_append less_Suc_eq)

lemma mergeTranscriptSegments_ok:
  obtains ms where "mergeTranscriptSegments turns chunks = rev ms" and "mergedOk ms"
proof
  let ?acc = "fold (mergeStep (sort_key (\<lambda>t. (dt_start t, dt_end t, dt_speaker t)) turns))
    (dedupeChunkOverlaps chunks) ([], 0)"
  show "mergeTranscriptSegments turns chunks = rev (fst ?acc)"
    by (simp add: mergeTranscriptSegments_def)
  show "mergedOk (fst ?acc)"
    using mergeSteps_ok [of "([], 0)"] by (simp add: accOk_def)
qed

text \<open>
  C35: a merged transcript is in time order, whatever the diarization turns and the
  chunks are: no segment ends before it starts, none starts before the previous one ended, and
  two neighbours of one speaker are separated by a pause longer than the break.
\<close>

theorem merge_monotone:
  "i < length (mergeTranscriptSegments turns chunks) \<Longrightarrow>
     let s = mergeTranscriptSegments turns chunks ! i in
     ts_startsAt s \<le> ts_endsAt s \<and>
     (i > 0 \<longrightarrow> (let p = mergeTranscriptSegments turns chunks ! (i - 1) in
       ts_endsAt p \<le> ts_startsAt s \<and>
       (ts_speaker s = ts_speaker p \<longrightarrow> ts_startsAt s - ts_endsAt p > SEGMENT_PAUSE_BREAK_SECONDS)))"
proof -
  assume i: "i < length (mergeTranscriptSegments turns chunks)"
  obtain ms where ms: "mergeTranscriptSegments turns chunks = rev ms" "mergedOk ms"
    by (rule mergeTranscriptSegments_ok)
  with i mergedOk_rev_nth(1) [OF ms(2), of i] mergedOk_rev_nth(2) [OF ms(2), of "i - 1"] show ?thesis
    by (cases i) (simp_all add: Let_def)
qed

definition exampleChunks :: "AsrChunkInput list" where
  "exampleChunks =
     [\<lparr>ch_boundary = \<lparr>cb_start = 0, cb_end = 20\<rparr>,
       ch_segments = [\<lparr>as_start = 0, as_end = 4, as_text = '' hello ''\<rparr>,
                      \<lparr>as_start = 5, as_end = 7, as_text = ''there''\<rparr>,
                      \<lparr>as_start = 17, as_end = 19, as_text = ''cut''\<rparr>]\<rparr>,
      \<lparr>ch_boundary = \<lparr>cb_start = 10, cb_end = 30\<rparr>,
       ch_segments = [\<lparr>as_start = 7, as_end = 9, as_text = ''cut''\<rparr>]\<rparr>]"

definition exampleTurns :: "DiarizationTurn list" where
  "exampleTurns = [\<lparr>dt_start = 12, dt_end = 20, dt_speaker = ''B''\<rparr>, \<lparr>dt_start = 0, dt_end = 8, dt_speaker = ''A''\<rparr>]"

lemma exampleMerge: "mergeTranscriptSegments exampleTurns exampleChunks =
  [\<lparr>ts_speaker = ''A'', ts_text = ''hello there'', ts_startsAt = 0, ts_endsAt = 7\<rparr>,
   \<lparr>ts_speaker = ''B'', ts_text = ''cut'', ts_startsAt = 17, ts_endsAt = 19\<rparr>]"
  by code_simp

theorem merge_monotone_witness: "(7 :: rat) \<le> 17 \<and>
    length (mergeTranscriptSegments exampleTurns exampleChunks) = 2"
  using merge_monotone [of 1 exampleTurns exampleChunks] by (simp add: exampleMerge)

section \<open>The text of the merged segments\<close>

text \<open>The texts joined by one space, what a reader of the transcript sees.\<close>

fun joinTexts :: "string list \<Rightarrow> string" where
  "joinTexts [] = []"
| "joinTexts [x] = x"
| "joinTexts (x # y # rest) = x @ '' '' @ joinTexts (y # rest)"

lemma joinTexts_snoc: "xs \<noteq> [] \<Longrightarrow> joinTexts (xs @ [x]) = joinTexts xs @ '' '' @ x"
  by (induction xs rule: joinTexts.induct) auto

lemma joinTexts_grow: "joinTexts (xs @ [x @ y]) = joinTexts (xs @ [x]) @ y"
  by (induction xs rule: joinTexts.induct) auto

lemma mergeStep_text:
  assumes "joinTexts (map ts_text (rev (fst acc))) = joinTexts ys" and "fst acc = [] \<longleftrightarrow> ys = []"
  shows "joinTexts (map ts_text (rev (fst (mergeStep turns segment acc)))) = joinTexts (ys @ [tt_text segment])
    \<and> fst (mergeStep turns segment acc) \<noteq> []"
proof (cases "fst acc")
  case Nil
  with assms show ?thesis by (cases acc) (simp add: mergeStep_def Let_def)
next
  case (Cons latest before)
  with assms have "joinTexts (map ts_text (rev before) @ [ts_text latest]) = joinTexts ys" "ys \<noteq> []"
    by simp_all
  moreover have "joinTexts ((map ts_text (rev before) @ [ts_text latest]) @ [tt_text segment]) =
      joinTexts (map ts_text (rev before) @ [ts_text latest]) @ '' '' @ tt_text segment"
    by (rule joinTexts_snoc) simp
  ultimately show ?thesis using Cons
    by (cases acc) (simp add: mergeStep_def Let_def joinTexts_snoc joinTexts_grow)
qed

lemma mergeSteps_text:
  assumes "joinTexts (map ts_text (rev (fst acc))) = joinTexts ys" and "fst acc = [] \<longleftrightarrow> ys = []"
  shows "joinTexts (map ts_text (rev (fst (fold (mergeStep turns) segments acc)))) =
    joinTexts (ys @ map tt_text segments)"
  using assms
proof (induction segments arbitrary: acc ys)
  case (Cons segment segments)
  from mergeStep_text [OF Cons.prems, of turns segment]
    Cons.IH [of "mergeStep turns segment acc" "ys @ [tt_text segment]"]
  show ?case by simp
qed simp


section \<open>The chunks of a recording\<close>

lemma boundariesFrom_last:
  "start < totalSec \<Longrightarrow> totalSec \<le> start + 1200 \<Longrightarrow>
     boundariesFrom totalSec start = [\<lparr>cb_start = start, cb_end = totalSec\<rparr>]"
  by (subst boundariesFrom.simps) (simp add: Let_def ASR_CHUNK_SECONDS_def min_absorb2)

lemma boundariesFrom_more:
  "start + 1200 < totalSec \<Longrightarrow>
     boundariesFrom totalSec start =
       \<lparr>cb_start = start, cb_end = start + 1200\<rparr> # boundariesFrom totalSec (start + 1170)"
  by (subst boundariesFrom.simps)
     (simp add: Let_def ASR_CHUNK_SECONDS_def ASR_CHUNK_OVERLAP_SECONDS_def min_absorb1 add.commute)

lemma boundaries_induct [consumes 1, case_names final more]:
  assumes "start < totalSec"
    and "\<And>start. start < totalSec \<Longrightarrow> totalSec \<le> start + 1200 \<Longrightarrow>
           P start [\<lparr>cb_start = start, cb_end = totalSec\<rparr>]"
    and "\<And>start bs. start + 1200 < totalSec \<Longrightarrow> bs = boundariesFrom totalSec (start + 1170) \<Longrightarrow>
           P (start + 1170) bs \<Longrightarrow> P start (\<lparr>cb_start = start, cb_end = start + 1200\<rparr> # bs)"
  shows "P start (boundariesFrom totalSec start)"
  using assms(1)
proof (induction "nat \<lceil>totalSec - start\<rceil>" arbitrary: start rule: less_induct)
  case less
  show ?case
  proof (cases "totalSec \<le> start + 1200")
    case True
    with less.prems assms(2) show ?thesis by (simp add: boundariesFrom_last)
  next
    case False
    then have more: "start + 1200 < totalSec" by simp
    moreover have "P (start + 1170) (boundariesFrom totalSec (start + 1170))"
      using chunk_step [OF more] more by (intro less.hyps) auto
    ultimately show ?thesis using assms(3) by (simp add: boundariesFrom_more)
  qed
qed

text \<open>Consecutive chunks: full length, then a step back of the overlap.\<close>

fun chained :: "AsrChunkBoundary list \<Rightarrow> bool" where
  "chained (a # b # rest) =
     (cb_end a = cb_start a + ASR_CHUNK_SECONDS \<and> cb_start b = cb_end a - ASR_CHUNK_OVERLAP_SECONDS \<and>
      cb_start b < cb_end b \<and> cb_end a \<le> cb_end b \<and> chained (b # rest))"
| "chained _ = True"

lemma boundariesFrom_chained:
  "start < totalSec \<Longrightarrow>
     boundariesFrom totalSec start \<noteq> [] \<and> chained (boundariesFrom totalSec start) \<and>
     cb_start (hd (boundariesFrom totalSec start)) = start \<and>
     start < cb_end (hd (boundariesFrom totalSec start)) \<and>
     min (start + 1200) totalSec \<le> cb_end (hd (boundariesFrom totalSec start)) \<and>
     cb_end (last (boundariesFrom totalSec start)) = totalSec"
proof (induction rule: boundaries_induct)
  case (more start bs)
  obtain b rest where bs: "bs = b # rest" using more.IH by (cases bs) simp_all
  from more.IH more.hyps(1) show ?case
    unfolding bs by (simp add: ASR_CHUNK_SECONDS_def ASR_CHUNK_OVERLAP_SECONDS_def min_def split: if_splits)
qed simp

lemma boundariesFrom_covers:
  "start < totalSec \<Longrightarrow> start \<le> t \<Longrightarrow> t < totalSec \<Longrightarrow>
     \<exists>b \<in> set (boundariesFrom totalSec start). cb_start b \<le> t \<and> t < cb_end b"
proof (induction arbitrary: t rule: boundaries_induct)
  case (more start bs)
  show ?case
  proof (cases "t < start + 1200")
    case True
    with more.prems show ?thesis by auto
  next
    case False
    with more.IH [of t] more.prems show ?thesis by auto
  qed
qed auto

text \<open>
  The chunks of a recording of positive length start at 0 and end with
  the recording; all but the last are full chunks, each starts the overlap before the end of the
  one before; and every instant of the recording lies in a chunk.
\<close>

theorem chunks_cover_recording:
  assumes "0 < duration"
  shows "computeAsrChunkBoundaries (Some duration) \<noteq> [] \<and>
         cb_start (hd (computeAsrChunkBoundaries (Some duration))) = 0 \<and>
         cb_end (last (computeAsrChunkBoundaries (Some duration))) = duration \<and>
         chained (computeAsrChunkBoundaries (Some duration)) \<and>
         (0 \<le> t \<and> t < duration \<longrightarrow>
           (\<exists>b \<in> set (computeAsrChunkBoundaries (Some duration)). cb_start b \<le> t \<and> t < cb_end b))"
  using assms boundariesFrom_chained [OF assms] boundariesFrom_covers [OF assms, of t]
  by (simp add: computeAsrChunkBoundaries_def)

lemma exampleBoundaries: "computeAsrChunkBoundaries (Some 3000) =
  [\<lparr>cb_start = 0, cb_end = 1200\<rparr>, \<lparr>cb_start = 1170, cb_end = 2370\<rparr>, \<lparr>cb_start = 2340, cb_end = 3000\<rparr>]"
  by code_simp

theorem chunks_cover_recording_witness:
  "\<exists>b \<in> set (computeAsrChunkBoundaries (Some 3000)). cb_start b \<le> 1180 \<and> 1180 < cb_end b"
  using chunks_cover_recording [of 3000 1180] by simp

section \<open>One owner for every instant\<close>

fun cutsOf :: "AsrChunkBoundary list \<Rightarrow> rat list" where
  "cutsOf (a # b # rest) = (cb_start b + cb_end a) / 2 # cutsOf (b # rest)"
| "cutsOf _ = []"

definition owners :: "AsrChunkBoundary list \<Rightarrow> rat \<Rightarrow> nat" where
  "owners bs midpoint = length (filter (\<lambda>w. inWindow w midpoint) (windowsFrom None bs))"

lemma windowsFrom_owner:
  assumes "sorted (cutsOf (p # bs))" and "bs \<noteq> []"
  shows "length (filter (\<lambda>w. inWindow w m) (windowsFrom (Some p) bs)) =
    (if m < hd (cutsOf (p # bs)) then 0 else 1)"
  using assms
proof (induction bs arbitrary: p)
  case (Cons b bs)
  show ?case
  proof (cases bs)
    case Nil
    then show ?thesis by (simp add: inWindow_def)
  next
    case (Cons c rest)
    with Cons.IH [of b] Cons.prems show ?thesis by (auto simp: inWindow_def)
  qed
qed simp

lemma owners_one: "sorted (cutsOf bs) \<Longrightarrow> bs \<noteq> [] \<Longrightarrow> owners bs m = 1"
proof (cases bs rule: cutsOf.cases)
  case (1 a b rest)
  assume "sorted (cutsOf bs)"
  with 1 windowsFrom_owner [of a "b # rest" m] show ?thesis by (auto simp: owners_def inWindow_def)
qed (simp_all add: owners_def inWindow_def)

lemma chained_cuts:
  "chained bs \<Longrightarrow> sorted (cutsOf bs) \<and> (\<forall>c \<in> set (cutsOf bs). cb_start (hd bs) + 1185 \<le> c)"
proof (induction bs rule: chained.induct)
  case (1 a b rest)
  then show ?case
    by (auto simp: ASR_CHUNK_SECONDS_def ASR_CHUNK_OVERLAP_SECONDS_def)
qed simp_all

text \<open>
  C37: cutting the chunks the planner makes never loses and never
  doubles a recognised segment: whatever its midpoint, exactly one chunk's window holds it.
\<close>

theorem every_midpoint_owned_once:
  "0 < duration \<Longrightarrow> owners (computeAsrChunkBoundaries (Some duration)) midpoint = 1"
  using boundariesFrom_chained [of 0 duration] chained_cuts
  by (intro owners_one) (simp_all add: computeAsrChunkBoundaries_def)

theorem every_midpoint_owned_once_witness:
  "owners (computeAsrChunkBoundaries (Some 3000)) 1185 = 1"
  by (rule every_midpoint_owned_once) simp

section \<open>The speaker of a segment\<close>

lemma bestByOverlap_max:
  assumes "bestByOverlap segment turns best g = Some t"
    and "case best of None \<Rightarrow> g = 0 | Some b \<Rightarrow> overlapSeconds segment b = g"
  shows "(\<forall>u \<in> set turns. overlapSeconds segment u \<le> overlapSeconds segment t) \<and>
         g \<le> overlapSeconds segment t \<and> (best = Some t \<or> t \<in> set turns)"
  using assms
proof (induction turns arbitrary: best g)
  case Nil
  then show ?case by simp
next
  case (Cons u turns)
  show ?case
  proof (cases "overlapSeconds segment u > g")
    case True
    with Cons.prems(1) have "bestByOverlap segment turns (Some u) (overlapSeconds segment u) = Some t"
      by (simp add: Let_def)
    from Cons.IH [OF this] True show ?thesis by auto
  next
    case False
    with Cons.prems(1) have "bestByOverlap segment turns best g = Some t" by (simp add: Let_def)
    from Cons.IH [OF this Cons.prems(2)] False show ?thesis by auto
  qed
qed

lemma bestByOverlap_some:
  "best \<noteq> None \<or> (\<exists>v \<in> set turns. overlapSeconds segment v > g) \<Longrightarrow>
     bestByOverlap segment turns best g \<noteq> None"
proof (induction turns arbitrary: best g)
  case (Cons u turns)
  show ?case
  proof (cases "overlapSeconds segment u > g")
    case True
    with Cons.IH [of "Some u" "overlapSeconds segment u"] show ?thesis by (simp add: Let_def)
  next
    case False
    with Cons.prems have "best \<noteq> None \<or> (\<exists>v \<in> set turns. overlapSeconds segment v > g)" by auto
    from Cons.IH [OF this] False show ?thesis by (simp add: Let_def)
  qed
qed simp

text \<open>
  A segment that some turn overlaps is given the speaker of a
  turn, and no other turn overlaps the segment longer.
\<close>

theorem speaker_has_largest_overlap:
  assumes "u \<in> set turns" and "overlapSeconds segment u > 0"
  shows "\<exists>t \<in> set turns. assignSpeaker segment turns = dt_speaker t \<and>
    (\<forall>v \<in> set turns. overlapSeconds segment v \<le> overlapSeconds segment t)"
proof -
  from assms have "bestByOverlap segment turns None 0 \<noteq> None" by (intro bestByOverlap_some) blast
  then obtain t where t: "bestByOverlap segment turns None 0 = Some t" by blast
  from bestByOverlap_max [OF t] t show ?thesis by (auto simp: assignSpeaker_def)
qed

theorem speaker_has_largest_overlap_witness:
  "assignSpeaker \<lparr>tt_start = 5, tt_end = 11, tt_text = ''x''\<rparr> exampleTurns \<in> {''A'', ''B''}"
  using speaker_has_largest_overlap [of "\<lparr>dt_start = 0, dt_end = 8, dt_speaker = ''A''\<rparr>" exampleTurns
      "\<lparr>tt_start = 5, tt_end = 11, tt_text = ''x''\<rparr>"]
  by (auto simp: exampleTurns_def overlapSeconds_def)

end
