(* ===== verification/AgentRuns.thy ===== *)
theory AgentRuns
  imports PropertiesStore ModuleManifest
begin

text \<open>
  Agent runs and their event log (\<open>agentRuns/agentRunsStore.ts\<close>,
  \<open>agentRuns/agentRunEventsStore.ts\<close>), with what they call: the user reads of
  \<open>auth/usersStore.ts\<close> and the notification writer (\<open>notifications/notify.ts\<close>).

  A function that accepts a pool or a client is written as a computation on a client; called
  with the pool, each of its statements is a transaction of its own.
\<close>

section \<open>Users\<close>

text \<open>\<open>users\<close> has no row-level security: \<open>getTenantUserId\<close> filters by the scope's tenant.\<close>

definition getTenantUserId :: "id option op" where
  "getTenantUserId =
     bnd (gets cl_scope) (\<lambda>scope.
     bnd (query (\<lambda>d. filter (\<lambda>u. scope = Some (ScopeTenant (usr_tenant_id u))) (t_users d))) (\<lambda>rows.
     return (case rows of [] \<Rightarrow> None | u # _ \<Rightarrow> Some (usr_id u))))"

definition getUserById :: "id \<Rightarrow> UserDbRow option op" where
  "getUserById userId =
     bnd (query (\<lambda>d. filter (\<lambda>u. usr_id u = userId) (t_users d))) (\<lambda>rows.
     return (case rows of [] \<Rightarrow> None | u # _ \<Rightarrow> Some u))"

section \<open>Notifications\<close>

definition isWordChar :: "char \<Rightarrow> bool" where
  "isWordChar c \<longleftrightarrow>
     c \<in> set ''abcdefghijklmnopqrstuvwxyzABCDEFGHIJKLMNOPQRSTUVWXYZ0123456789_''"

lemma after_dropWhile: "length (dropWhile P cs) - Suc 0 < Suc (length cs)"
  using length_dropWhile_le [of P cs] by linarith

text \<open>\<open>template.replace(/\{(\w+)\}/g, ...)\<close>: an unmatched placeholder stays.\<close>

function interpolate :: "(string \<times> string) list \<Rightarrow> string \<Rightarrow> string" where
  "interpolate params [] = []"
| "interpolate params (c # cs) =
     (let key = takeWhile isWordChar cs; rest = dropWhile isWordChar cs
      in if c = CHR ''{'' \<and> key \<noteq> [] \<and> rest \<noteq> [] \<and> hd rest = CHR ''}''
         then (case map_of params key of
                 Some value \<Rightarrow> value | None \<Rightarrow> c # key @ ''}'') @ interpolate params (tl rest)
         else c # interpolate params cs)"
  by pat_completeness auto

termination
  by (relation "measure (\<lambda>(_, s). length s)") (auto simp: after_dropWhile)

definition toManifestLocale :: "ModuleCatalogs \<Rightarrow> string \<Rightarrow> ModuleCatalog" where
  "toManifestLocale catalogs locale = (if locale = ''cs'' then cat_cs catalogs else cat_en catalogs)"

record WriteNotificationInput =
  wn_userId :: id
  wn_kind :: string
  wn_titleParams :: "(string \<times> string) list"
  wn_linkHref :: "string option"
  wn_sourceTable :: string
  wn_sourceId :: id
  wn_transitionInstance :: string
  wn_payload :: obj

definition sameTransition :: "WriteNotificationInput \<Rightarrow> NotificationDbRow \<Rightarrow> bool" where
  "sameTransition input n \<longleftrightarrow>
     ntf_user_id n = wn_userId input \<and> ntf_source_table n = wn_sourceTable input \<and>
     ntf_source_id n = wn_sourceId input \<and> ntf_kind n = wn_kind input \<and>
     ntf_transition_instance n = wn_transitionInstance input"

definition enqueueNotificationFanout :: "id \<Rightarrow> unit op" where
  "enqueueNotificationFanout notificationId =
     enqueueJobMode ''preserve_run_at'' ''notificationFanout''
       [(''notificationId'', JStr notificationId)]
       (Some (''notification-fanout:'' @ notificationId)) (Some 10) None"

text \<open>
  The insert and its \<open>ON CONFLICT\<close> branch, which leaves the row as it is. \<open>newId\<close> is the
  id the column default generates.
\<close>

definition writeNotification :: "ModuleCatalogs \<Rightarrow> id \<Rightarrow> WriteNotificationInput \<Rightarrow> id op" where
  "writeNotification catalogs newId input =
     bnd (getUserById (wn_userId input)) (\<lambda>user.
     case user of
       None \<Rightarrow> throw (PlainError ''writeNotification: no user'')
     | Some u \<Rightarrow>
         (let title = interpolate (wn_titleParams input)
                (resolveCatalogLabel None (Some (toManifestLocale catalogs (usr_locale u))) (cat_en catalogs)
                   (''notification.'' @ wn_kind input @ ''.title''))
          in bnd (gets cl_now) (\<lambda>now.
             bnd (query (\<lambda>d. filter (sameTransition input) (t_notifications d))) (\<lambda>existing.
             case existing of
               n # _ \<Rightarrow> return (ntf_id n)
             | [] \<Rightarrow>
                 andThen (statement (\<lambda>d. d\<lparr>t_notifications := t_notifications d @
                   [\<lparr>ntf_id = newId, ntf_user_id = wn_userId input, ntf_kind = wn_kind input,
                     ntf_title = title, ntf_link_href = wn_linkHref input,
                     ntf_source_table = wn_sourceTable input, ntf_source_id = wn_sourceId input,
                     ntf_transition_instance = wn_transitionInstance input,
                     ntf_payload = wn_payload input, ntf_created_at = now,
                     ntf_read_at = None\<rparr>]\<rparr>))
                 (andThen (enqueueNotificationFanout newId)
                 (andThen (runAfterCommit (NotifCreated (wn_userId input) newId))
                 (return newId)))))))"

section \<open>Agent runs\<close>

datatype TriggeredBy = ByUser | ByHeartbeat | BySupervisor | ByMcp
datatype AgentRunUnit = UnitInvocation | UnitSession
datatype AgentRunStatus = RunRunning | RunDone | RunError

definition TRIGGERED_BY_VALUES :: "(string \<times> TriggeredBy) list" where
  "TRIGGERED_BY_VALUES =
     [(''user'', ByUser), (''heartbeat'', ByHeartbeat), (''supervisor'', BySupervisor), (''mcp'', ByMcp)]"

definition AGENT_RUN_UNITS :: "(string \<times> AgentRunUnit) list" where
  "AGENT_RUN_UNITS = [(''invocation'', UnitInvocation), (''session'', UnitSession)]"

definition AGENT_RUN_STATUSES :: "(string \<times> AgentRunStatus) list" where
  "AGENT_RUN_STATUSES = [(''running'', RunRunning), (''done'', RunDone), (''error'', RunError)]"

record AgentRunRow =
  ar_id :: id
  ar_projectItemId :: "id option"
  ar_parentRunId :: "id option"
  ar_heartbeatId :: "id option"
  ar_triggeredBy :: TriggeredBy
  ar_unit :: AgentRunUnit
  ar_task :: string
  ar_status :: AgentRunStatus
  ar_result :: "string option"
  ar_startedAt :: int
  ar_finishedAt :: "int option"
  ar_actorUserId :: id

definition mapAgentRunRow :: "AgentRunDbRow \<Rightarrow> error + AgentRunRow" where
  "mapAgentRunRow row =
     (case assertKnownValue TRIGGERED_BY_VALUES (rar_triggered_by row) ''triggered_by'' of
        Inl e \<Rightarrow> Inl e
      | Inr by \<Rightarrow>
     (case assertKnownValue AGENT_RUN_UNITS (rar_unit row) ''unit'' of
        Inl e \<Rightarrow> Inl e
      | Inr unit \<Rightarrow>
     (case assertKnownValue AGENT_RUN_STATUSES (rar_status row) ''status'' of
        Inl e \<Rightarrow> Inl e
      | Inr status \<Rightarrow> Inr
          \<lparr>ar_id = rar_id row, ar_projectItemId = rar_project_item_id row,
           ar_parentRunId = rar_parent_run_id row, ar_heartbeatId = rar_heartbeat_id row,
           ar_triggeredBy = by, ar_unit = unit, ar_task = rar_task row, ar_status = status,
           ar_result = rar_result row, ar_startedAt = toISOString (rar_started_at row),
           ar_finishedAt = map_option toISOString (rar_finished_at row),
           ar_actorUserId = rar_actor_user_id row\<rparr>)))"

definition selectAgentRuns :: "(AgentRunDbRow \<Rightarrow> bool) \<Rightarrow> AgentRunDbRow list op" where
  "selectAgentRuns p = query (\<lambda>d. filter p (t_agent_runs d))"

definition getAgentRun :: "id \<Rightarrow> AgentRunRow option op" where
  "getAgentRun runId =
     bnd (selectAgentRuns (\<lambda>r. rar_id r = runId)) (\<lambda>rows.
     case rows of
       [] \<Rightarrow> return None
     | row # _ \<Rightarrow> bnd (ofSum (mapAgentRunRow row)) (\<lambda>run. return (Some run)))"

record CreateAgentRunInput =
  car_projectItemId :: "id option"
  car_parentRunId :: "id option"
  car_heartbeatId :: "id option"
  car_triggeredBy :: string
  car_unit :: "string option"
  car_task :: string
  car_userId :: "id option"

definition resolveActorUserId :: "id option \<Rightarrow> id option \<Rightarrow> id op" where
  "resolveActorUserId parentRunId userId =
     (if truthy parentRunId then
        bnd (getAgentRun (the parentRunId)) (\<lambda>parent.
        case parent of
          None \<Rightarrow> throw (PlainError ''parent run does not exist'')
        | Some p \<Rightarrow> return (ar_actorUserId p))
      else if truthy userId then return (the userId)
      else
        bnd getTenantUserId (\<lambda>tenantUserId.
        if truthy tenantUserId then return (the tenantUserId)
        else throw (PlainError ''the current tenant has no user'')))"

definition createAgentRun :: "id \<Rightarrow> CreateAgentRunInput \<Rightarrow> AgentRunRow op" where
  "createAgentRun newId input =
     bnd (resolveActorUserId (car_parentRunId input) (car_userId input)) (\<lambda>actorUserId.
     bnd (gets cl_now) (\<lambda>now.
     bnd (query t_wake_seq) (\<lambda>wakeSeq.
     (let row = \<lparr>rar_id = newId, rar_project_item_id = car_projectItemId input,
            rar_parent_run_id = car_parentRunId input, rar_heartbeat_id = car_heartbeatId input,
            rar_triggered_by = car_triggeredBy input,
            rar_unit = (case car_unit input of None \<Rightarrow> ''invocation'' | Some u \<Rightarrow> u),
            rar_task = car_task input, rar_status = ''running'', rar_result = None,
            rar_started_at = now, rar_finished_at = None, rar_actor_user_id = actorUserId,
            rar_wake_seq = wakeSeq + 1\<rparr>
      in andThen (statement (\<lambda>d. d\<lparr>t_agent_runs := t_agent_runs d @ [row], t_wake_seq := wakeSeq + 1\<rparr>))
           (ofSum (mapAgentRunRow row))))))"

definition finishRow :: "string \<Rightarrow> string option \<Rightarrow> int \<Rightarrow> AgentRunDbRow \<Rightarrow> AgentRunDbRow" where
  "finishRow status result now r =
     r\<lparr>rar_status := status, rar_result := result, rar_finished_at := Some now\<rparr>"

definition finishAgentRun :: "id \<Rightarrow> string \<Rightarrow> string option \<Rightarrow> bool op" where
  "finishAgentRun runId status result =
     bnd (gets cl_now) (\<lambda>now.
     bnd (selectAgentRuns (\<lambda>r. rar_id r = runId \<and> rar_status r = ''running'')) (\<lambda>running.
     andThen (statement (\<lambda>d. d\<lparr>t_agent_runs :=
         map (\<lambda>r. if rar_id r = runId \<and> rar_status r = ''running'' then finishRow status result now r else r)
           (t_agent_runs d)\<rparr>))
     (if length running = 1 then return True
      else
        bnd (selectAgentRuns (\<lambda>r. rar_id r = runId)) (\<lambda>rows.
        if rows = [] then throw NotFoundError else return False))))"

definition finishAgentRunWithErrorNotification ::
  "ModuleCatalogs \<Rightarrow> id \<Rightarrow> id \<Rightarrow> string option \<Rightarrow> bool op" where
  "finishAgentRunWithErrorNotification catalogs newId runId result =
     bnd (finishAgentRun runId ''error'' result) (\<lambda>closed.
     if \<not> closed then return False
     else
       bnd getTenantUserId (\<lambda>userId.
       if \<not> truthy userId then return True
       else
         andThen (bnd (writeNotification catalogs newId
             \<lparr>wn_userId = the userId, wn_kind = ''agent_run_error'', wn_titleParams = [],
              wn_linkHref = Some (''?page=agent-run&id='' @ runId), wn_sourceTable = ''agent_runs'',
              wn_sourceId = runId, wn_transitionInstance = runId, wn_payload = []\<rparr>) (\<lambda>_. return ()))
         (return True)))"

definition listRunningAgentRuns :: "AgentRunRow list op" where
  "listRunningAgentRuns =
     bnd (selectAgentRuns (\<lambda>r. rar_status r = ''running'')) (\<lambda>rows.
     mapC (\<lambda>row. ofSum (mapAgentRunRow row)) (sort_key rar_started_at rows))"

definition getAgentRunsByIds :: "id list \<Rightarrow> AgentRunRow list op" where
  "getAgentRunsByIds ids =
     (if ids = [] then return []
      else bnd (selectAgentRuns (\<lambda>r. rar_id r \<in> set ids)) (mapC (\<lambda>row. ofSum (mapAgentRunRow row))))"

definition listAgentRunsByHeartbeat :: "id \<Rightarrow> nat option \<Rightarrow> AgentRunRow list op" where
  "listAgentRunsByHeartbeat heartbeatId limit =
     bnd (selectAgentRuns (\<lambda>r. rar_heartbeat_id r = Some heartbeatId)) (\<lambda>rows.
     (let ordered = rev (sort_key rar_started_at rows)
      in mapC (\<lambda>row. ofSum (mapAgentRunRow row))
           (case limit of None \<Rightarrow> ordered | Some n \<Rightarrow> take n ordered)))"

section \<open>Reads\<close>

lemma readsOnly_users [reads_intros]: "readsOnly getTenantUserId" "readsOnly (getUserById u)"
  unfolding getTenantUserId_def getUserById_def by (intro reads_intros)+

end
