(* ===== verification/AgentEvents.thy ===== *)
theory AgentEvents
  imports AgentRuns
begin

text \<open>
  The event log of agent runs (\<open>agentRuns/agentRunEventsStore.ts\<close>) and the repair of runs a
  restart interrupted (\<open>agent-runtime/src/startupRepair.ts\<close>).
\<close>

section \<open>The size of a payload\<close>

text \<open>
  \<open>JSON.stringify\<close> and the UTF-8 length of its text. How a number is printed is the
  parameter \<open>numText\<close>: it depends on the shortest decimal of a double.
\<close>

definition hexNibble :: "nat \<Rightarrow> char" where
  "hexNibble n = ''0123456789abcdef'' ! n"

definition escapeChar :: "char \<Rightarrow> string" where
  "escapeChar c =
     (let code = of_char c :: nat in
      if c = CHR 34 then [CHR 92, CHR 34]
      else if c = CHR 92 then [CHR 92, CHR 92]
      else if code = 8 then [CHR 92, CHR ''b'']
      else if code = 9 then [CHR 92, CHR ''t'']
      else if code = 10 then [CHR 92, CHR ''n'']
      else if code = 12 then [CHR 92, CHR ''f'']
      else if code = 13 then [CHR 92, CHR ''r'']
      else if code < 32 then [CHR 92] @ ''u00'' @ [hexNibble (code div 16), hexNibble (code mod 16)]
      else [c])"

definition stringText :: "string \<Rightarrow> string" where
  "stringText s = CHR 34 # concat (map escapeChar s) @ [CHR 34]"

fun commaJoin :: "string list \<Rightarrow> string" where
  "commaJoin [] = []"
| "commaJoin [x] = x"
| "commaJoin (x # xs) = x @ '','' @ commaJoin xs"

fun stringify :: "(rat \<Rightarrow> string) \<Rightarrow> json \<Rightarrow> string" where
  "stringify numText JNull = ''null''"
| "stringify numText (JBool b) = (if b then ''true'' else ''false'')"
| "stringify numText (JNum q) = numText q"
| "stringify numText (JStr s) = stringText s"
| "stringify numText (JArr vs) = ''['' @ commaJoin (map (stringify numText) vs) @ '']''"
| "stringify numText (JObj m) =
     ''{'' @ commaJoin (map (\<lambda>(k, v). stringText k @ '':'' @ stringify numText v) m) @ ''}''"

definition utf8Length :: "string \<Rightarrow> int" where
  "utf8Length s = sum_list (map (\<lambda>c. if of_char c < (128 :: nat) then 1 else 2) s)"

definition MAX_AGENT_RUN_EVENT_PAYLOAD_BYTES :: int where
  "MAX_AGENT_RUN_EVENT_PAYLOAD_BYTES = 1024 * 1024"

definition payloadBytes :: "(rat \<Rightarrow> string) \<Rightarrow> json \<Rightarrow> int" where
  "payloadBytes numText payload = utf8Length (stringify numText payload)"

section \<open>The log\<close>

datatype AgentRunEventKind =
  EvTurnStart | EvMessage | EvToolUse | EvToolResult | EvTurnEnd | EvRunStatus | EvCompaction

definition AGENT_RUN_EVENT_KINDS :: "(string \<times> AgentRunEventKind) list" where
  "AGENT_RUN_EVENT_KINDS =
     [(''turn_start'', EvTurnStart), (''message'', EvMessage), (''tool_use'', EvToolUse),
      (''tool_result'', EvToolResult), (''turn_end'', EvTurnEnd), (''run_status'', EvRunStatus),
      (''compaction'', EvCompaction)]"

record AgentRunEventRow =
  ev_id :: nat
  ev_agentRunId :: id
  ev_kind :: AgentRunEventKind
  ev_payload :: json
  ev_at :: int

definition mapEventRow :: "AgentRunEventDbRow \<Rightarrow> error + AgentRunEventRow" where
  "mapEventRow row =
     (case assertKnownValue AGENT_RUN_EVENT_KINDS (rev_kind row) ''kind'' of
        Inl e \<Rightarrow> Inl e
      | Inr kind \<Rightarrow> Inr \<lparr>ev_id = rev_id row, ev_agentRunId = rev_agent_run_id row, ev_kind = kind,
                        ev_payload = rev_payload row, ev_at = toISOString (rev_at row)\<rparr>)"

text \<open>The status check is part of the \<open>INSERT\<close>: no row is written for a finished run.\<close>

definition insertAgentRunEvent ::
  "(rat \<Rightarrow> string) \<Rightarrow> id \<Rightarrow> string \<Rightarrow> json \<Rightarrow> AgentRunEventRow op" where
  "insertAgentRunEvent numText runId kind payload =
     (if payloadBytes numText payload > MAX_AGENT_RUN_EVENT_PAYLOAD_BYTES then throw (ValidationError None)
      else
        bnd (gets cl_now) (\<lambda>now.
        bnd (query t_event_seq) (\<lambda>lastId.
        bnd (selectAgentRuns (\<lambda>r. rar_id r = runId \<and> (rar_status r = ''running'' \<or> kind = ''run_status''))) (\<lambda>open.
        if open \<noteq> [] then
          (let row = \<lparr>rev_id = lastId + 1, rev_agent_run_id = runId, rev_kind = kind,
                     rev_payload = payload, rev_at = now\<rparr>
           in andThen (statement (\<lambda>d. d\<lparr>t_agent_run_events := t_agent_run_events d @ [row],
                                     t_event_seq := lastId + 1\<rparr>))
                (ofSum (mapEventRow row)))
        else
          bnd (selectAgentRuns (\<lambda>r. rar_id r = runId)) (\<lambda>rows.
          if rows = [] then throw NotFoundError else throw (ConflictError None))))))"

definition insertAndNotifyAgentRunEvent ::
  "(rat \<Rightarrow> string) \<Rightarrow> id \<Rightarrow> string \<Rightarrow> json \<Rightarrow> AgentRunEventRow op" where
  "insertAndNotifyAgentRunEvent numText runId kind payload =
     bnd (insertAgentRunEvent numText runId kind payload) (\<lambda>event.
     andThen (runAfterCommit (AgentRunEventAdded runId (ev_id event))) (return event))"

definition selectEvents :: "(AgentRunEventDbRow \<Rightarrow> bool) \<Rightarrow> AgentRunEventDbRow list op" where
  "selectEvents p = query (\<lambda>d. sort_key rev_id (filter p (t_agent_run_events d)))"

definition mapEventRows :: "AgentRunEventDbRow list \<Rightarrow> AgentRunEventRow list op" where
  "mapEventRows = mapC (\<lambda>row. ofSum (mapEventRow row))"

definition listAgentRunEvents :: "id \<Rightarrow> AgentRunEventRow list op" where
  "listAgentRunEvents runId = bnd (selectEvents (\<lambda>r. rev_agent_run_id r = runId)) mapEventRows"

definition listAgentRunEventsAfter :: "id \<Rightarrow> nat \<Rightarrow> AgentRunEventRow list op" where
  "listAgentRunEventsAfter runId afterEventId =
     bnd (selectEvents (\<lambda>r. rev_agent_run_id r = runId \<and> afterEventId < rev_id r)) mapEventRows"

definition getAgentRunEventById :: "id \<Rightarrow> nat \<Rightarrow> AgentRunEventRow option op" where
  "getAgentRunEventById runId eventId =
     bnd (selectEvents (\<lambda>r. rev_agent_run_id r = runId \<and> rev_id r = eventId)) (\<lambda>rows.
     case rows of
       [] \<Rightarrow> return None
     | row # _ \<Rightarrow> bnd (ofSum (mapEventRow row)) (\<lambda>event. return (Some event)))"

record SessionAgentRunsFilter =
  sf_projectItemId :: id
  sf_triggeredBy :: string
  sf_parentRunId :: "id option"

definition sessionRun :: "SessionAgentRunsFilter \<Rightarrow> AgentRunDbRow \<Rightarrow> bool" where
  "sessionRun filt r \<longleftrightarrow>
     rar_project_item_id r = Some (sf_projectItemId filt) \<and> rar_unit r = ''session'' \<and>
     rar_triggered_by r = sf_triggeredBy filt \<and> rar_parent_run_id r = sf_parentRunId filt"

text \<open>The events of the session's runs, each with its run's \<open>wake_seq\<close>; a run id is a key.\<close>

definition sessionEvents :: "SessionAgentRunsFilter \<Rightarrow> db \<Rightarrow> (nat \<times> AgentRunEventDbRow) list" where
  "sessionEvents filt d =
     concat (map (\<lambda>e. map (\<lambda>r. (rar_wake_seq r, e))
         (filter (\<lambda>r. sessionRun filt r \<and> rar_id r = rev_agent_run_id e) (t_agent_runs d)))
       (t_agent_run_events d))"

definition latestCompaction :: "(nat \<times> AgentRunEventDbRow) list \<Rightarrow> nat" where
  "latestCompaction evs = foldl max 0 (map (rev_id \<circ> snd) (filter (\<lambda>(_, e). rev_kind e = ''compaction'') evs))"

definition sessionTail :: "SessionAgentRunsFilter \<Rightarrow> db \<Rightarrow> AgentRunEventDbRow list" where
  "sessionTail filt d =
     (let evs = sessionEvents filt d
      in map snd (sort_key fst (sort_key (rev_id \<circ> snd)
           (filter (\<lambda>(_, e). latestCompaction evs \<le> rev_id e) evs))))"

definition listSessionAgentRunEventsFromLastCompaction ::
  "SessionAgentRunsFilter \<Rightarrow> AgentRunEventRow list op" where
  "listSessionAgentRunEventsFromLastCompaction filt =
     bnd (query (sessionTail filt)) mapEventRows"

section \<open>Startup repair\<close>

definition INTERRUPTED_REASON :: string where
  "INTERRUPTED_REASON = ''interrupted_by_restart''"

text \<open>The synthetic result of a call that a restart interrupted: the call's own fields, overridden.\<close>

definition interruptedResult :: "json \<Rightarrow> json" where
  "interruptedResult payload =
     JObj (spread (case payload of JObj m \<Rightarrow> m | _ \<Rightarrow> [])
       [(''kind'', JStr ''tool_result''), (''error'', JBool True),
        (''result'', JStr (''Run interrupted by service restart before this tool call completed ('' @
                           INTERRUPTED_REASON @ '').''))])"

text \<open>\<open>newId\<close> gives the id of the notification a run's close writes.\<close>

definition repairRun ::
  "(rat \<Rightarrow> string) \<Rightarrow> ModuleCatalogs \<Rightarrow> (id \<Rightarrow> id) \<Rightarrow> AgentRunRow \<Rightarrow> unit op" where
  "repairRun numText catalogs newId run =
     bnd (listAgentRunEvents (ar_id run)) (\<lambda>events.
     andThen
       (if events \<noteq> [] \<and> ev_kind (last events) = EvToolUse
        then bnd (insertAgentRunEvent numText (ar_id run) ''tool_result''
               (interruptedResult (ev_payload (last events)))) (\<lambda>_. return ())
        else return ())
       (bnd (finishAgentRunWithErrorNotification catalogs (newId (ar_id run)) (ar_id run)
               (Some INTERRUPTED_REASON)) (\<lambda>_. return ())))"

definition repairCurrentTenant ::
  "(rat \<Rightarrow> string) \<Rightarrow> ModuleCatalogs \<Rightarrow> (id \<Rightarrow> id) \<Rightarrow> id list op" where
  "repairCurrentTenant numText catalogs newId =
     bnd listRunningAgentRuns (\<lambda>running.
     (let orphaned = filter (\<lambda>run. ar_triggeredBy run \<noteq> ByMcp) running
      in andThen (forEach orphaned (repairRun numText catalogs newId))
           (return (map ar_id orphaned))))"

end
