(* ===== verification/Conversation.thy ===== *)
theory Conversation
  imports AgentEvents
begin

text \<open>
  Rebuilding a dormant conversation (\<open>agent-runtime/src/conversationReconstruction.ts\<close>) and
  handing it to a session (\<open>semprec-agents/src/piConversationHistory.ts\<close>).

  \<open>pi-agent-core\<close>'s compaction functions are not part of the repository: they are the record
  \<open>CompactionAdapter\<close>. An entry keeps the fields its TypeScript type declares.
\<close>

section \<open>Stored messages and entries\<close>

type_synonym AgentMessage = obj

definition AGENT_MESSAGE_KINDS :: "string list" where
  "AGENT_MESSAGE_KINDS =
     [''turn_start'', ''message'', ''tool_use'', ''tool_result'', ''turn_end'', ''run_status'',
      ''message_update'']"

definition asAgentMessage :: "json \<Rightarrow> AgentMessage option" where
  "asAgentMessage v =
     (case v of
        JObj m \<Rightarrow> (case map_of m ''kind'' of
                     Some (JStr k) \<Rightarrow> if k \<in> set AGENT_MESSAGE_KINDS then Some m else None
                   | _ \<Rightarrow> None)
      | _ \<Rightarrow> None)"

definition messageKind :: "AgentMessage \<Rightarrow> string" where
  "messageKind m = (case asStr (map_of m ''kind'') of None \<Rightarrow> '''' | Some k \<Rightarrow> k)"

definition parseStoredAgentMessage :: "json \<Rightarrow> error + AgentMessage" where
  "parseStoredAgentMessage payload =
     (case asAgentMessage payload of
        None \<Rightarrow> Inl (PlainError ''not a valid AgentMessage'') | Some m \<Rightarrow> Inr m)"

record ConversationEntry =
  ce_id :: string
  ce_parentId :: "string option"
  ce_seq :: rat
  ce_timestamp :: rat
  ce_message :: AgentMessage

definition asConversationEntry :: "json \<Rightarrow> ConversationEntry option" where
  "asConversationEntry v =
     (case v of
        JObj m \<Rightarrow>
          (case (map_of m ''id'', map_of m ''parentId'', map_of m ''seq'', map_of m ''timestamp'',
                 map_of m ''message'') of
             (Some (JStr i), Some parent, Some (JNum s), Some (JNum t), Some msg) \<Rightarrow>
               (case ((case parent of JNull \<Rightarrow> Some None | JStr p \<Rightarrow> Some (Some p) | _ \<Rightarrow> None),
                      asAgentMessage msg) of
                  (Some parentId, Some message) \<Rightarrow>
                    Some \<lparr>ce_id = i, ce_parentId = parentId, ce_seq = s, ce_timestamp = t,
                          ce_message = message\<rparr>
                | _ \<Rightarrow> None)
           | _ \<Rightarrow> None)
      | _ \<Rightarrow> None)"

definition parseCompactionPayload :: "json \<Rightarrow> error + ConversationEntry list" where
  "parseCompactionPayload payload =
     (case payload of
        JArr vs \<Rightarrow>
          (case allSome (map asConversationEntry vs) of
             None \<Rightarrow> Inl (PlainError ''not a valid ConversationEntry[]'') | Some es \<Rightarrow> Inr es)
      | _ \<Rightarrow> Inl (PlainError ''not a valid ConversationEntry[]''))"

section \<open>The protocol\<close>

text \<open>\<open>pending\<close> is the queue of open calls, oldest first.\<close>

fun validateFrom :: "string list \<Rightarrow> ConversationEntry list \<Rightarrow> error + unit" where
  "validateFrom pending [] =
     (if pending = [] then Inr () else Inl (PlainError ''unmatched tool_use call(s)''))"
| "validateFrom pending (entry # entries) =
     (let kind = messageKind (ce_message entry);
          toolCallId = asStr (map_of (ce_message entry) ''toolCallId'')
      in if kind = ''tool_use'' then
           (case toolCallId of
              None \<Rightarrow> Inl (PlainError ''missing a string toolCallId'')
            | Some i \<Rightarrow> validateFrom (pending @ [i]) entries)
         else if kind = ''tool_result'' then
           (case pending of
              [] \<Rightarrow> Inl (PlainError ''does not match the pending tool_use call'')
            | expected # rest \<Rightarrow>
                if toolCallId = Some expected then validateFrom rest entries
                else Inl (PlainError ''does not match the pending tool_use call''))
         else validateFrom pending entries)"

definition validateProtocolInvariants :: "ConversationEntry list \<Rightarrow> error + unit" where
  "validateProtocolInvariants entries = validateFrom [] entries"

section \<open>The walk\<close>

text \<open>The accumulator is \<open>(entries, seq, parentId)\<close>.\<close>

type_synonym walk = "ConversationEntry list \<times> rat \<times> string option"

definition walkEvent :: "AgentRunEventRow \<Rightarrow> walk \<Rightarrow> error + walk" where
  "walkEvent event acc =
     (case acc of (entries, s, parentId) \<Rightarrow>
        if ev_kind event = EvCompaction then
          (case parseCompactionPayload (ev_payload event) of
             Inl e \<Rightarrow> Inl e
           | Inr es \<Rightarrow>
               if es = [] then Inr ([], 0, None)
               else Inr (es, ce_seq (last es) + 1, Some (ce_id (last es))))
        else if ev_kind event = EvRunStatus then Inr acc
        else
          (case parseStoredAgentMessage (ev_payload event) of
             Inl e \<Rightarrow> Inl e
           | Inr message \<Rightarrow>
               (let i = natText (ev_id event)
                in Inr (entries @ [\<lparr>ce_id = i, ce_parentId = parentId, ce_seq = s,
                                    ce_timestamp = of_int (ev_at event), ce_message = message\<rparr>],
                        s + 1, Some i))))"

fun walkEvents :: "AgentRunEventRow list \<Rightarrow> walk \<Rightarrow> error + walk" where
  "walkEvents [] acc = Inr acc"
| "walkEvents (event # events) acc =
     (case walkEvent event acc of Inl e \<Rightarrow> Inl e | Inr acc' \<Rightarrow> walkEvents events acc')"

definition walkStoredEntries :: "SessionAgentRunsFilter \<Rightarrow> ConversationEntry list op" where
  "walkStoredEntries filt =
     bnd (listSessionAgentRunEventsFromLastCompaction filt) (\<lambda>events.
     bnd (ofSum (walkEvents events ([], 0, None))) (\<lambda>(entries, _). return entries))"

section \<open>Reconstruction and compaction\<close>

record 'p CompactionAdapter =
  ca_estimateContextTokens :: "AgentMessage list \<Rightarrow> nat"
  ca_shouldCompact :: "nat \<Rightarrow> bool"
  ca_prepareCompaction :: "ConversationEntry list \<Rightarrow> 'p"
  ca_compact :: "'p \<Rightarrow> error + ConversationEntry list"

record ReconstructedHistory =
  rh_entries :: "ConversationEntry list"
  rh_compacted :: bool

definition reconstructConversationHistory ::
  "SessionAgentRunsFilter \<Rightarrow> 'p CompactionAdapter \<Rightarrow> ReconstructedHistory option op" where
  "reconstructConversationHistory filt compaction =
     bnd (walkStoredEntries filt) (\<lambda>entries.
     if entries = [] then return None
     else
       andThen (ofSum (validateProtocolInvariants entries))
       (if \<not> ca_shouldCompact compaction (ca_estimateContextTokens compaction (map ce_message entries))
        then return (Some \<lparr>rh_entries = entries, rh_compacted = False\<rparr>)
        else
          bnd (ofSum (ca_compact compaction (ca_prepareCompaction compaction entries))) (\<lambda>compacted.
          andThen (ofSum (validateProtocolInvariants compacted))
          (return (Some \<lparr>rh_entries = compacted, rh_compacted = True\<rparr>)))))"

definition entryJson :: "ConversationEntry \<Rightarrow> json" where
  "entryJson e =
     JObj [(''id'', JStr (ce_id e)),
           (''parentId'', case ce_parentId e of None \<Rightarrow> JNull | Some p \<Rightarrow> JStr p),
           (''seq'', JNum (ce_seq e)), (''timestamp'', JNum (ce_timestamp e)),
           (''message'', JObj (ce_message e))]"

definition persistCompaction ::
  "(rat \<Rightarrow> string) \<Rightarrow> id \<Rightarrow> ConversationEntry list \<Rightarrow> unit op" where
  "persistCompaction numText runId entries =
     bnd (insertAgentRunEvent numText runId ''compaction'' (JArr (map entryJson entries)))
       (\<lambda>_. return ())"

section \<open>Handing the history to a session\<close>

definition STOP_REASONS :: "string list" where
  "STOP_REASONS =
     [''pending'', ''stop'', ''length'', ''toolUse'', ''error'', ''aborted'', ''deferred'']"

definition isStr :: "json option \<Rightarrow> bool" where
  "isStr v = (asStr v \<noteq> None)"

definition isOptionalString :: "json option \<Rightarrow> bool" where
  "isOptionalString v \<longleftrightarrow> v = None \<or> isStr v"

definition isBool :: "json option \<Rightarrow> bool" where
  "isBool v = (case v of Some (JBool _) \<Rightarrow> True | _ \<Rightarrow> False)"

definition isRecord :: "json option \<Rightarrow> bool" where
  "isRecord v = (case v of Some (JObj _) \<Rightarrow> True | _ \<Rightarrow> False)"

definition hasType :: "string \<Rightarrow> obj \<Rightarrow> bool" where
  "hasType ty block \<longleftrightarrow> asStr (map_of block ''type'') = Some ty"

definition isTextContent :: "obj \<Rightarrow> bool" where
  "isTextContent block \<longleftrightarrow> hasType ''text'' block \<and> isStr (map_of block ''text'') \<and>
     isOptionalString (map_of block ''textSignature'')"

definition isImageContent :: "obj \<Rightarrow> bool" where
  "isImageContent block \<longleftrightarrow> hasType ''image'' block \<and> isStr (map_of block ''data'') \<and>
     isStr (map_of block ''mimeType'')"

definition isThinkingContent :: "obj \<Rightarrow> bool" where
  "isThinkingContent block \<longleftrightarrow> hasType ''thinking'' block \<and> isStr (map_of block ''thinking'') \<and>
     isOptionalString (map_of block ''thinkingSignature'') \<and>
     (map_of block ''redacted'' = None \<or> isBool (map_of block ''redacted''))"

definition isToolCall :: "obj \<Rightarrow> bool" where
  "isToolCall block \<longleftrightarrow> hasType ''toolCall'' block \<and> isStr (map_of block ''id'') \<and>
     isStr (map_of block ''name'') \<and> isRecord (map_of block ''arguments'') \<and>
     isOptionalString (map_of block ''thoughtSignature'') \<and> isOptionalString (map_of block ''namespace'')"

text \<open>\<open>Array.isArray(value) && value.every((b) => isRecord(b) && p(b))\<close>.\<close>

definition blocksOf :: "(obj \<Rightarrow> bool) \<Rightarrow> json option \<Rightarrow> obj list option" where
  "blocksOf p v =
     (case v of
        Some (JArr vs) \<Rightarrow>
          allSome (map (\<lambda>b. case b of JObj m \<Rightarrow> if p m then Some m else None | _ \<Rightarrow> None) vs)
      | _ \<Rightarrow> None)"

datatype PiMessage =
    PiAssistant (pi_content: "obj list") (pi_stopReason: string) (pi_errorMessage: "string option")
      (pi_timestamp: rat)
  | PiToolResult (pi_toolCallId: string) (pi_toolName: string) (pi_resultContent: "obj list")
      (pi_details: "json option") (pi_isError: bool) (pi_timestamp: rat)

definition toAssistantMessage :: "ConversationEntry \<Rightarrow> error + PiMessage" where
  "toAssistantMessage entry =
     (let message = ce_message entry in
      if asStr (map_of message ''role'') \<noteq> Some ''assistant''
      then Inl (PlainError ''is not an assistant message'')
      else case blocksOf (\<lambda>b. isTextContent b \<or> isThinkingContent b \<or> isToolCall b)
                  (map_of message ''content'') of
        None \<Rightarrow> Inl (PlainError ''has malformed assistant content'')
      | Some content \<Rightarrow>
          (case asStr (map_of message ''stopReason'') of
             None \<Rightarrow> Inl (PlainError ''has an unknown stopReason'')
           | Some stopReason \<Rightarrow>
               if stopReason \<notin> set STOP_REASONS then Inl (PlainError ''has an unknown stopReason'')
               else if \<not> isOptionalString (map_of message ''errorMessage'')
               then Inl (PlainError ''has a non-string errorMessage'')
               else Inr (PiAssistant content stopReason (asStr (map_of message ''errorMessage''))
                           (ce_timestamp entry))))"

definition toToolResultMessage :: "ConversationEntry \<Rightarrow> error + PiMessage" where
  "toToolResultMessage entry =
     (let message = ce_message entry in
      case (map_of message ''toolCallId'', map_of message ''name'', map_of message ''isError'') of
        (Some (JStr toolCallId), Some (JStr name), Some (JBool failed)) \<Rightarrow>
          (case map_of message ''result'' of
             Some (JObj result) \<Rightarrow>
               (case blocksOf (\<lambda>b. isTextContent b \<or> isImageContent b) (map_of result ''content'') of
                  None \<Rightarrow> Inl (PlainError ''has a malformed tool result'')
                | Some content \<Rightarrow>
                    Inr (PiToolResult toolCallId name content (map_of result ''details'') failed
                           (ce_timestamp entry)))
           | _ \<Rightarrow> Inl (PlainError ''has a malformed tool result''))
      | _ \<Rightarrow> Inl (PlainError ''is missing its toolCallId, name or isError''))"

fun toPiMessages :: "ConversationEntry list \<Rightarrow> error + PiMessage list" where
  "toPiMessages [] = Inr []"
| "toPiMessages (entry # entries) =
     (let kind = messageKind (ce_message entry);
          converted = (if kind = ''message'' then map_sum id (\<lambda>m. [m]) (toAssistantMessage entry)
                       else if kind = ''tool_result'' then map_sum id (\<lambda>m. [m]) (toToolResultMessage entry)
                       else Inr [])
      in case converted of
           Inl e \<Rightarrow> Inl e
         | Inr ms \<Rightarrow> (case toPiMessages entries of Inl e \<Rightarrow> Inl e | Inr rest \<Rightarrow> Inr (ms @ rest)))"

end
