(* ===== verification/ConversationProps.thy ===== *)
theory ConversationProps
  imports Conversation StoreFacts
begin

text \<open>
  What the reconstruction of a conversation promises: a linear chain of entries, checkpoints that
  are read back as they were written, transcripts the startup repair completes; and two ways in
  which a conversation can no longer be resumed.
\<close>

section \<open>Reading the log\<close>

lemma mapC_ofSum_rows:
  "mapC (\<lambda>x. ofSum (f x)) xs c = Inr (ys, c') \<Longrightarrow> c' = c \<and> list_all2 (\<lambda>x y. f x = Inr y) xs ys"
  by (drule mapC_ofSum_Inr) (auto simp: list_all2_conv_all_nth list_eq_iff_nth_eq)

lemma readsOnly_mapEventRows [reads_intros]: "readsOnly (mapEventRows rows)"
  unfolding mapEventRows_def by (intro reads_intros)

lemma readsOnly_walk [reads_intros]: "readsOnly (walkStoredEntries filt)"
  unfolding walkStoredEntries_def listSessionAgentRunEventsFromLastCompaction_def
  by (auto intro!: reads_intros split: prod.split)

section \<open>Open calls\<close>

text \<open>The calls a list of messages leaves open, oldest first; \<open>None\<close> when a result does not match.\<close>

fun openCalls :: "string list \<Rightarrow> AgentMessage list \<Rightarrow> string list option" where
  "openCalls pending [] = Some pending"
| "openCalls pending (m # ms) =
     (if messageKind m = ''tool_use'' then
        (case asStr (map_of m ''toolCallId'') of
           None \<Rightarrow> None | Some i \<Rightarrow> openCalls (pending @ [i]) ms)
      else if messageKind m = ''tool_result'' then
        (case pending of
           [] \<Rightarrow> None
         | expected # rest \<Rightarrow>
             if asStr (map_of m ''toolCallId'') = Some expected then openCalls rest ms else None)
      else openCalls pending ms)"

lemma openCalls_append:
  "openCalls pending (ms @ ns) =
     (case openCalls pending ms of None \<Rightarrow> None | Some p \<Rightarrow> openCalls p ns)"
  by (induction pending ms rule: openCalls.induct) (auto split: option.splits list.splits)

lemma validateFrom_openCalls:
  "validateFrom pending es = Inr () \<longleftrightarrow> openCalls pending (map ce_message es) = Some []"
  by (induction pending es rule: validateFrom.induct)
    (auto simp: Let_def split: option.splits list.splits)

lemma validate_openCalls:
  "validateProtocolInvariants es = Inr () \<longleftrightarrow> openCalls [] (map ce_message es) = Some []"
  by (simp add: validateProtocolInvariants_def validateFrom_openCalls)

text \<open>A result of the call \<open>x\<close>.\<close>

definition resultOf :: "string \<Rightarrow> AgentMessage \<Rightarrow> bool" where
  "resultOf x m \<longleftrightarrow> messageKind m = ''tool_result'' \<and> asStr (map_of m ''toolCallId'') = Some x"

lemma openCalls_keeps_open:
  assumes "x \<in> set pending" and "\<not> list_ex (resultOf x) ms" and "openCalls pending ms = Some p"
  shows "x \<in> set p"
  using assms
  by (induction pending ms arbitrary: p rule: openCalls.induct)
    (auto simp: resultOf_def split: option.splits list.splits if_splits)

lemma openCalls_dangling:
  assumes "messageKind m = ''tool_use''" and "asStr (map_of m ''toolCallId'') = Some x"
    and "\<not> list_ex (resultOf x) post"
  shows "openCalls pending (pre @ m # post) \<noteq> Some []"
proof
  assume run: "openCalls pending (pre @ m # post) = Some []"
  then obtain p where "openCalls pending pre = Some p" and "openCalls (p @ [x]) post = Some []"
    using assms(1,2) by (auto simp: openCalls_append split: option.splits)
  then show False using openCalls_keeps_open [of x "p @ [x]" post "[]"] assms(3) by auto
qed

section \<open>The walk over the log\<close>

fun linearChain :: "rat \<Rightarrow> string option \<Rightarrow> ConversationEntry list \<Rightarrow> bool" where
  "linearChain s p [] = True"
| "linearChain s p (e # es) \<longleftrightarrow> ce_seq e = s \<and> ce_parentId e = p \<and> linearChain (s + 1) (Some (ce_id e)) es"

lemma linear_nth:
  "linearChain s p es \<Longrightarrow> i < length es \<Longrightarrow>
     ce_seq (es ! i) = s + of_nat i \<and> ce_parentId (es ! i) = (if i = 0 then p else Some (ce_id (es ! (i - 1))))"
proof (induction s p es arbitrary: i rule: linearChain.induct)
  case (2 s p e es)
  then show ?case by (cases i) (auto simp: nth_Cons split: nat.splits)
qed simp

lemma walkEvents_append:
  "walkEvents (xs @ ys) acc = (case walkEvents xs acc of Inl e \<Rightarrow> Inl e | Inr acc' \<Rightarrow> walkEvents ys acc')"
  by (induction xs acc rule: walkEvents.induct) (auto split: sum.splits)

lemma asAgentMessage_Some: "asAgentMessage v = Some m \<Longrightarrow> v = JObj m"
  by (auto simp: asAgentMessage_def split: json.splits option.splits if_splits)

lemma walkEvents_plain:
  assumes "walkEvents evs (es0, s, p) = Inr acc" and "list_all (\<lambda>ev. ev_kind ev \<noteq> EvCompaction) evs"
  shows "\<exists>new s' p'. acc = (es0 @ new, s', p') \<and> linearChain s p new \<and>
    map (JObj \<circ> ce_message) new = map ev_payload (filter (\<lambda>ev. ev_kind ev \<noteq> EvRunStatus) evs)"
  using assms
proof (induction evs arbitrary: es0 s p)
  case (Cons ev evs)
  from Cons.prems(1) obtain acc1 where step: "walkEvent ev (es0, s, p) = Inr acc1"
      and rest: "walkEvents evs acc1 = Inr acc" by (auto split: sum.splits)
  from Cons.prems(2) have plain: "list_all (\<lambda>ev. ev_kind ev \<noteq> EvCompaction) evs"
      and kind: "ev_kind ev \<noteq> EvCompaction" by auto
  show ?case
  proof (cases "ev_kind ev = EvRunStatus")
    case True
    with step kind have "acc1 = (es0, s, p)" by (auto simp: walkEvent_def)
    with Cons.IH [OF rest [unfolded this] plain] True show ?thesis by simp
  next
    case False
    with step kind obtain m where m: "asAgentMessage (ev_payload ev) = Some m"
      by (auto simp: walkEvent_def parseStoredAgentMessage_def split: option.splits)
    define e where "e = \<lparr>ce_id = natText (ev_id ev), ce_parentId = p, ce_seq = s,
      ce_timestamp = of_int (ev_at ev), ce_message = m\<rparr>"
    from False step kind m have acc1: "acc1 = (es0 @ [e], s + 1, Some (ce_id e))"
      by (auto simp: walkEvent_def parseStoredAgentMessage_def Let_def e_def)
    from Cons.IH [OF rest [unfolded acc1] plain] obtain new s' p'
      where "acc = ((es0 @ [e]) @ new, s', p')" "linearChain (s + 1) (Some (ce_id e)) new"
        "map (JObj \<circ> ce_message) new = map ev_payload (filter (\<lambda>ev. ev_kind ev \<noteq> EvRunStatus) evs)"
      by blast
    with False asAgentMessage_Some [OF m] show ?thesis
      by (intro exI [of _ "e # new"] exI [of _ s'] exI [of _ p']) (simp add: e_def comp_def)
  qed
qed (cases acc; simp)

lemma mapEventRow_Inr:
  "mapEventRow row = Inr ev \<Longrightarrow>
     ev_payload ev = rev_payload row \<and> ev_id ev = rev_id row \<and>
     (ev_kind ev = EvCompaction \<longleftrightarrow> rev_kind row = ''compaction'') \<and>
     (ev_kind ev = EvRunStatus \<longleftrightarrow> rev_kind row = ''run_status'') \<and>
     (ev_kind ev = EvToolUse \<longleftrightarrow> rev_kind row = ''tool_use'')"
  by (auto simp: mapEventRow_def assertKnownValue_def AGENT_RUN_EVENT_KINDS_def split: option.splits if_splits)

abbreviation isPlainRow :: "AgentRunEventDbRow \<Rightarrow> bool" where
  "isPlainRow r \<equiv> rev_kind r \<noteq> ''compaction''"

lemma mapped_plain:
  "list_all2 (\<lambda>r ev. mapEventRow r = Inr ev) rows evs \<Longrightarrow>
     (list_all (\<lambda>ev. ev_kind ev \<noteq> EvCompaction) evs \<longleftrightarrow> list_all isPlainRow rows) \<and>
     map ev_payload (filter (\<lambda>ev. ev_kind ev \<noteq> EvRunStatus) evs) =
       map rev_payload (filter (\<lambda>r. rev_kind r \<noteq> ''run_status'') rows)"
  by (induction rule: list_all2_induct) (auto dest!: mapEventRow_Inr)

lemma walk_InrE:
  assumes "walkStoredEntries filt c = Inr (es, c')"
  obtains evs acc where "c' = c" and "list_all2 (\<lambda>r ev. mapEventRow r = Inr ev) (sessionTail filt (cl_db c)) evs"
    and "walkEvents evs ([], 0, None) = Inr acc" and "es = fst acc"
proof -
  from assms have "bnd (bnd (query (sessionTail filt)) mapEventRows) (\<lambda>events.
      bnd (ofSum (walkEvents events ([], 0, None))) (\<lambda>(entries, _). return entries)) c = Inr (es, c')"
    by (simp add: walkStoredEntries_def listSessionAgentRunEventsFromLastCompaction_def)
  then obtain evs where evs: "bnd (query (sessionTail filt)) mapEventRows c = Inr (evs, c)"
      and run: "bnd (ofSum (walkEvents evs ([], 0, None))) (\<lambda>(entries, _). return entries) c = Inr (es, c')"
    by (rule bnd_readsOnly_InrE) (intro reads_intros)
  from evs have rows: "list_all2 (\<lambda>r ev. mapEventRow r = Inr ev) (sessionTail filt (cl_db c)) evs"
    unfolding mapEventRows_def bnd_query_apply by (rule mapC_ofSum_rows [THEN conjunct2])
  show thesis
  proof (cases "walkEvents evs ([], 0, None)")
    case (Inl e)
    with run show thesis by (simp add: comp_simps)
  next
    case (Inr acc)
    with run have "es = fst acc" "c' = c" by (auto simp: comp_simps split: prod.splits)
    with rows Inr that show thesis by blast
  qed
qed

section \<open>A reconstructed history\<close>

lemma reconstruct_InrE:
  assumes "reconstructConversationHistory filt compaction c = Inr (Some h, c')"
  obtains entries where "walkStoredEntries filt c = Inr (entries, c)" and "entries \<noteq> []" and "c' = c"
    and "validateProtocolInvariants entries = Inr ()" and "validateProtocolInvariants (rh_entries h) = Inr ()"
    and "rh_compacted h \<or> rh_entries h = entries"
proof -
  from assms obtain entries where walk: "walkStoredEntries filt c = Inr (entries, c)"
      and rest: "(if entries = [] then return None
        else andThen (ofSum (validateProtocolInvariants entries))
          (if \<not> ca_shouldCompact compaction (ca_estimateContextTokens compaction (map ce_message entries))
           then return (Some \<lparr>rh_entries = entries, rh_compacted = False\<rparr>)
           else bnd (ofSum (ca_compact compaction (ca_prepareCompaction compaction entries))) (\<lambda>compacted.
             andThen (ofSum (validateProtocolInvariants compacted))
             (return (Some \<lparr>rh_entries = compacted, rh_compacted = True\<rparr>))))) c = Inr (Some h, c')"
    unfolding reconstructConversationHistory_def by (rule bnd_readsOnly_InrE) (intro reads_intros)
  from rest have "entries \<noteq> []" by (auto simp: comp_simps)
  moreover from rest this have valid: "validateProtocolInvariants entries = Inr ()"
    by (cases "validateProtocolInvariants entries") (auto simp: comp_simps andThen_def)
  moreover from rest calculation have "c' = c \<and> validateProtocolInvariants (rh_entries h) = Inr () \<and>
      (rh_compacted h \<or> rh_entries h = entries)"
    by (cases "ca_compact compaction (ca_prepareCompaction compaction entries)";
        cases "validateProtocolInvariants (projr (ca_compact compaction (ca_prepareCompaction compaction entries)))")
      (auto simp: comp_simps andThen_def split: if_splits)
  ultimately show thesis using walk that by blast
qed

text \<open>
  C23: a history that was rebuilt without compaction, from a log without a
  checkpoint, is exactly the logged messages in log order without the run statuses, as one
  linear chain: consecutive sequence numbers from 0, each entry the child of the one before,
  every tool call answered.
\<close>

theorem reconstruct_linear:
  assumes "reconstructConversationHistory filt compaction c = Inr (Some h, c')" and "\<not> rh_compacted h"
    and "list_all isPlainRow (sessionTail filt (cl_db c))"
  shows "map (JObj \<circ> ce_message) (rh_entries h) =
           map rev_payload (filter (\<lambda>r. rev_kind r \<noteq> ''run_status'') (sessionTail filt (cl_db c))) \<and>
         openCalls [] (map ce_message (rh_entries h)) = Some [] \<and>
         (\<forall>i < length (rh_entries h). ce_seq (rh_entries h ! i) = of_nat i \<and>
            ce_parentId (rh_entries h ! i) = (if i = 0 then None else Some (ce_id (rh_entries h ! (i - 1)))))"
proof -
  from assms(1) obtain entries where walk: "walkStoredEntries filt c = Inr (entries, c)"
      and valid: "validateProtocolInvariants entries = Inr ()" and h: "rh_entries h = entries"
    using assms(2) by (auto elim: reconstruct_InrE)
  from walk obtain evs acc where rows: "list_all2 (\<lambda>r ev. mapEventRow r = Inr ev) (sessionTail filt (cl_db c)) evs"
      and run: "walkEvents evs ([], 0, None) = Inr acc" and es: "entries = fst acc"
    by (rule walk_InrE)
  from mapped_plain [OF rows] assms(3) have plain: "list_all (\<lambda>ev. ev_kind ev \<noteq> EvCompaction) evs" by simp
  from walkEvents_plain [OF run plain] es have "linearChain 0 None entries"
      and "map (JObj \<circ> ce_message) entries = map ev_payload (filter (\<lambda>ev. ev_kind ev \<noteq> EvRunStatus) evs)"
    by auto
  with mapped_plain [OF rows] valid h linear_nth [of 0 None entries] show ?thesis
    by (auto simp: validate_openCalls)
qed

section \<open>Conversations that cannot be resumed\<close>

text \<open>A logged call \<open>x\<close> with its result missing from the rest of the log.\<close>

definition callsTool :: "string \<Rightarrow> AgentRunEventDbRow \<Rightarrow> bool" where
  "callsTool x r \<longleftrightarrow> rev_kind r \<noteq> ''compaction'' \<and> rev_kind r \<noteq> ''run_status'' \<and>
     (\<exists>m. rev_payload r = JObj m \<and> messageKind m = ''tool_use'' \<and> asStr (map_of m ''toolCallId'') = Some x)"

definition answersTool :: "string \<Rightarrow> AgentRunEventDbRow \<Rightarrow> bool" where
  "answersTool x r \<longleftrightarrow> (case rev_payload r of JObj m \<Rightarrow> resultOf x m | _ \<Rightarrow> False)"

lemma walk_dangling:
  assumes rows: "list_all2 (\<lambda>r ev. mapEventRow r = Inr ev) (pre @ u # post) evs"
    and run: "walkEvents evs ([], 0, None) = Inr acc"
    and u: "callsTool x u" and post: "list_all isPlainRow post" "\<not> list_ex (answersTool x) post"
  shows "openCalls [] (map ce_message (fst acc)) \<noteq> Some []"
proof -
  from rows obtain evs1 ev evs2 where evs: "evs = evs1 @ ev # evs2" and ev: "mapEventRow u = Inr ev"
      and rows2: "list_all2 (\<lambda>r ev. mapEventRow r = Inr ev) post evs2"
    by (auto simp: list_all2_append1 list_all2_Cons1)
  from u obtain m where m: "rev_payload u = JObj m" "messageKind m = ''tool_use''"
      "asStr (map_of m ''toolCallId'') = Some x" and kinds: "ev_kind ev \<noteq> EvCompaction" "ev_kind ev \<noteq> EvRunStatus"
    using mapEventRow_Inr [OF ev] by (auto simp: callsTool_def)
  from run evs obtain acc0 where "walkEvents (ev # evs2) acc0 = Inr acc"
    by (auto simp: walkEvents_append split: sum.splits)
  then obtain es0 s p where run2: "walkEvents (ev # evs2) (es0, s, p) = Inr acc" by (metis surj_pair)
  from mapped_plain [OF rows2] post(1) kinds(1)
  have plain: "list_all (\<lambda>ev. ev_kind ev \<noteq> EvCompaction) (ev # evs2)" by simp
  from walkEvents_plain [OF run2 plain] obtain new where new: "fst acc = es0 @ new"
      "map (JObj \<circ> ce_message) new = map ev_payload (filter (\<lambda>ev. ev_kind ev \<noteq> EvRunStatus) (ev # evs2))"
    by auto
  with kinds(2) m mapEventRow_Inr [OF ev] mapped_plain [OF rows2] obtain e es where es: "new = e # es"
      "ce_message e = m" "map (JObj \<circ> ce_message) es = map rev_payload (filter (\<lambda>r. rev_kind r \<noteq> ''run_status'') post)"
    by (auto simp: Cons_eq_map_conv)
  have "\<not> list_ex (resultOf x) (map ce_message es)"
  proof
    assume "list_ex (resultOf x) (map ce_message es)"
    then obtain e' where e': "e' \<in> set es" "resultOf x (ce_message e')" by (auto simp: list_ex_iff)
    with es(3) have "JObj (ce_message e') \<in> rev_payload ` set post"
      by (metis (no_types, lifting) comp_apply filter_is_subset image_eqI image_mono list.set_map subsetD)
    then obtain r where r: "r \<in> set post" "rev_payload r = JObj (ce_message e')" by auto
    with e'(2) have "answersTool x r" by (simp add: answersTool_def)
    with r(1) post(2) show False by (auto simp: list_ex_iff)
  qed
  with openCalls_dangling [OF m(2,3)] es new(1) show ?thesis by simp
qed

text \<open>
  C30: once a session's log holds a tool call without a result
  and no later checkpoint, every wake of that conversation throws while rebuilding the history,
  before a run is created - whatever else is logged later, as long as it is not that result.
\<close>

theorem dangling_call_blocks_conversation:
  assumes "sessionTail filt (cl_db c) = pre @ u # post" and "callsTool x u"
    and "list_all isPlainRow post" and "\<not> list_ex (answersTool x) post"
  shows "\<exists>e. reconstructConversationHistory filt compaction c = Inl e"
proof (rule ccontr)
  assume "\<nexists>e. reconstructConversationHistory filt compaction c = Inl e"
  then obtain r c' where run: "reconstructConversationHistory filt compaction c = Inr (r, c')"
    by (metis obj_sumE surj_pair)
  then obtain entries where walk: "walkStoredEntries filt c = Inr (entries, c)"
    unfolding reconstructConversationHistory_def by (rule bnd_readsOnly_InrE) (intro reads_intros)
  from walk obtain evs acc where "list_all2 (\<lambda>r ev. mapEventRow r = Inr ev) (pre @ u # post) evs"
      "walkEvents evs ([], 0, None) = Inr acc" "entries = fst acc"
    unfolding assms(1) [symmetric] by (rule walk_InrE)
  with walk_dangling assms(2-4) have invalid: "openCalls [] (map ce_message entries) \<noteq> Some []" by blast
  then have "entries \<noteq> []" by auto
  moreover from invalid obtain e where "validateProtocolInvariants entries = Inl e"
    by (metis obj_sumE old.unit.exhaust validate_openCalls)
  ultimately show False using run walk
    by (simp add: reconstructConversationHistory_def bnd_Inr andThen_def comp_simps)
qed

section \<open>Checkpoints\<close>

lemma foldl_max_le: "foldl max (0 :: nat) xs \<le> n \<longleftrightarrow> (\<forall>x \<in> set xs. x \<le> n)"
  by (induction xs rule: rev_induct) auto

lemma asAgentMessage_JObj: "messageKind m \<in> set AGENT_MESSAGE_KINDS \<Longrightarrow> asAgentMessage (JObj m) = Some m"
  by (auto simp: asAgentMessage_def messageKind_def asStr_def AGENT_MESSAGE_KINDS_def
      split: option.splits json.splits)

lemma asConversationEntry_entryJson:
  "messageKind (ce_message e) \<in> set AGENT_MESSAGE_KINDS \<Longrightarrow> asConversationEntry (entryJson e) = Some e"
  using asAgentMessage_JObj [of "ce_message e"]
  by (cases e) (auto simp: asConversationEntry_def entryJson_def split: option.splits)

lemma allSome_map: "(\<And>x. x \<in> set xs \<Longrightarrow> f (g x) = Some x) \<Longrightarrow> allSome (map f (map g xs)) = Some xs"
  by (induction xs) auto

lemma sessionTail_checkpoint:
  fixes d d' :: db
  assumes "t_agent_run_events d' = t_agent_run_events d @ [row]" and "t_agent_runs d' = t_agent_runs d"
    and "\<forall>e \<in> set (t_agent_run_events d). rev_id e < rev_id row"
    and "filter (\<lambda>r. rar_id r = rev_agent_run_id row) (t_agent_runs d) = [run]" and "sessionRun filt run"
    and "rev_kind row = ''compaction''"
  shows "sessionTail filt d' = [row]"
proof -
  have run: "filter (\<lambda>r. sessionRun filt r \<and> rar_id r = rev_agent_run_id row) (t_agent_runs d) = [run]"
  proof -
    have "filter (sessionRun filt) (filter (\<lambda>r. rar_id r = rev_agent_run_id row) (t_agent_runs d)) = [run]"
      by (simp add: assms(4,5))
    then show ?thesis by (simp add: conj_commute)
  qed
  have evs: "sessionEvents filt d' = sessionEvents filt d @ [(rar_wake_seq run, row)]"
    using run by (simp add: sessionEvents_def assms(1,2))
  have older: "\<forall>(w, e) \<in> set (sessionEvents filt d). rev_id e < rev_id row"
    using assms(3) by (auto simp: sessionEvents_def)
  have "foldl max 0 (map (rev_id \<circ> snd) (filter (\<lambda>(_, e). rev_kind e = ''compaction'') (sessionEvents filt d)))
      \<le> rev_id row"
    unfolding foldl_max_le using older by fastforce
  then have "latestCompaction (sessionEvents filt d') = rev_id row"
    using assms(6) by (simp add: evs latestCompaction_def max_absorb2)
  moreover have "filter (\<lambda>(_, e). rev_id row \<le> rev_id e) (sessionEvents filt d) = []"
    using older by (fastforce simp: filter_empty_conv)
  ultimately show ?thesis by (simp add: sessionTail_def Let_def evs)
qed

lemma insertAgentRunEvent_InrE:
  assumes "insertAgentRunEvent numText runId kind payload c = Inr (ev, c')"
  obtains row where "row = \<lparr>rev_id = t_event_seq (cl_db c) + 1, rev_agent_run_id = runId, rev_kind = kind,
      rev_payload = payload, rev_at = cl_now c\<rparr>"
    and "c' = c\<lparr>cl_db := (cl_db c)\<lparr>t_agent_run_events := t_agent_run_events (cl_db c) @ [row],
           t_event_seq := t_event_seq (cl_db c) + 1\<rparr>\<rparr>"
    and "mapEventRow row = Inr ev"
    and "payloadBytes numText payload \<le> MAX_AGENT_RUN_EVENT_PAYLOAD_BYTES"
    and "\<exists>r \<in> set (t_agent_runs (cl_db c)). rar_id r = runId \<and> (rar_status r = ''running'' \<or> kind = ''run_status'')"
  using assms
  by (auto simp: insertAgentRunEvent_def selectAgentRuns_def comp_simps andThen_def Let_def bnd_def
      ofSum_def filter_empty_conv split: if_splits sum.splits)

lemma persistCompaction_InrE:
  assumes "persistCompaction numText runId entries c = Inr (u, c')"
  obtains ev where "insertAgentRunEvent numText runId ''compaction'' (JArr (map entryJson entries)) c = Inr (ev, c')"
  using assms unfolding persistCompaction_def by (auto simp: comp_simps elim!: bnd_InrE)

text \<open>
  C24: a persisted compaction is read back exactly: the next walk over that
  conversation starts at the checkpoint, sees nothing from before it, and yields the entries
  that were persisted, so a restart neither re-derives nor re-compacts the history.
\<close>

theorem checkpoint_roundtrip:
  assumes persist: "persistCompaction numText runId entries c = Inr (u, c')"
    and kinds: "\<forall>e \<in> set entries. messageKind (ce_message e) \<in> set AGENT_MESSAGE_KINDS"
    and run: "filter (\<lambda>r. rar_id r = runId) (t_agent_runs (cl_db c)) = [run]" "sessionRun filt run"
    and ids: "\<forall>e \<in> set (t_agent_run_events (cl_db c)). rev_id e \<le> t_event_seq (cl_db c)"
  shows "walkStoredEntries filt c' = Inr (entries, c')"
proof -
  from persist obtain ev where "insertAgentRunEvent numText runId ''compaction'' (JArr (map entryJson entries)) c
      = Inr (ev, c')" by (rule persistCompaction_InrE)
  then obtain row where row: "row = \<lparr>rev_id = t_event_seq (cl_db c) + 1, rev_agent_run_id = runId,
        rev_kind = ''compaction'', rev_payload = JArr (map entryJson entries), rev_at = cl_now c\<rparr>"
      and c': "c' = c\<lparr>cl_db := (cl_db c)\<lparr>t_agent_run_events := t_agent_run_events (cl_db c) @ [row],
        t_event_seq := t_event_seq (cl_db c) + 1\<rparr>\<rparr>" and ev: "mapEventRow row = Inr ev"
    by (rule insertAgentRunEvent_InrE)
  have tail: "sessionTail filt (cl_db c') = [row]"
    by (rule sessionTail_checkpoint [where d = "cl_db c" and run = run])
      (use run ids in \<open>auto simp: c' row less_Suc_eq_le\<close>)
  have "parseCompactionPayload (JArr (map entryJson entries)) = Inr entries"
    using allSome_map [of entries asConversationEntry entryJson] kinds
    by (simp add: parseCompactionPayload_def asConversationEntry_entryJson)
  moreover from ev have "ev_kind ev = EvCompaction" "ev_payload ev = JArr (map entryJson entries)"
    using mapEventRow_Inr [OF ev] by (simp_all add: row)
  ultimately have "\<exists>acc. walkEvents [ev] ([], 0, None) = Inr acc \<and> fst acc = entries"
    by (auto simp: walkEvent_def)
  with tail ev show ?thesis
    by (auto simp: walkStoredEntries_def listSessionAgentRunEventsFromLastCompaction_def
        mapEventRows_def comp_simps bnd_def split: prod.splits)
qed

section \<open>Startup repair\<close>

text \<open>The protocol messages of a run's log.\<close>

definition runLog :: "db \<Rightarrow> id \<Rightarrow> AgentRunEventDbRow list" where
  "runLog d i = sort_key rev_id (filter (\<lambda>e. rev_agent_run_id e = i) (t_agent_run_events d))"

definition payloadMessage :: "AgentRunEventDbRow \<Rightarrow> AgentMessage" where
  "payloadMessage r = (case rev_payload r of JObj m \<Rightarrow> m | _ \<Rightarrow> [])"

definition openInLog :: "db \<Rightarrow> id \<Rightarrow> string list option" where
  "openInLog d i = openCalls [] (map payloadMessage (runLog d i))"

text \<open>
  A log the turn loop may leave behind: the columns agree with the payloads, and every call is
  answered except, at most, the last event, a call itself.
\<close>

definition interruptible :: "AgentRunEventDbRow list \<Rightarrow> bool" where
  "interruptible rows \<longleftrightarrow>
     list_all (\<lambda>r. messageKind (payloadMessage r) = rev_kind r) rows \<and>
     (if rows \<noteq> [] \<and> rev_kind (last rows) = ''tool_use''
      then openCalls [] (map payloadMessage (butlast rows)) = Some [] \<and>
           asStr (map_of (payloadMessage (last rows)) ''toolCallId'') \<noteq> None
      else openCalls [] (map payloadMessage rows) = Some [])"

lemma interruptedResult_fields:
  "\<exists>m. interruptedResult payload = JObj m \<and> messageKind m = ''tool_result'' \<and>
     map_of m ''toolCallId'' = map_of (case payload of JObj p \<Rightarrow> p | _ \<Rightarrow> []) ''toolCallId'' \<and>
     (\<exists>s. map_of m ''result'' = Some (JStr s))"
  by (auto simp: interruptedResult_def messageKind_def asStr_def map_of_spread keysOf_def
      INTERRUPTED_REASON_def)

text \<open>
  C31: the synthetic result the startup repair stores is not one a
  session accepts: a history that contains it, for whatever call it closed, never converts.
\<close>

theorem repaired_call_cannot_resume:
  assumes "entry \<in> set entries" and "JObj (ce_message entry) = interruptedResult payload"
  shows "\<exists>e. toPiMessages entries = Inl e"
proof -
  from assms(2) interruptedResult_fields [of payload] obtain s where
    "messageKind (ce_message entry) = ''tool_result''" "map_of (ce_message entry) ''result'' = Some (JStr s)"
    by auto
  then have one: "\<exists>e. toToolResultMessage entry = Inl e" and kind: "messageKind (ce_message entry) = ''tool_result''"
    by (auto simp: toToolResultMessage_def Let_def split: option.splits json.splits)
  from assms(1) show ?thesis
  proof (induction entries)
    case (Cons e es)
    show ?case
    proof (cases "e = entry")
      case True
      with one kind show ?thesis by auto
    next
      case False
      with Cons obtain err where "toPiMessages es = Inl err" by auto
      then show ?thesis by (auto simp: Let_def split: sum.split)
    qed
  qed simp
qed

definition sameRuns :: "AgentRunDbRow list \<times> AgentRunEventDbRow list \<times> nat \<Rightarrow> db \<Rightarrow> bool" where
  "sameRuns x d \<longleftrightarrow> (t_agent_runs d, t_agent_run_events d, t_event_seq d) = x"

interpretation runs_kept: quiet "sameRuns x" for x
  by unfold_locales (auto simp: sameRuns_def)

lemma keeps_writeNotification: "keeps (onDb (sameRuns x)) (writeNotification catalogs newId input)"
  unfolding writeNotification_def enqueueNotificationFanout_def Let_def
  by (intro keeps_intros readsOnly_keeps [OF readsOnly_users(2)] readsOnly_keeps [OF readsOnly_gets]
      readsOnly_keeps [OF readsOnly_query] runs_kept.keeps_enqueueJobMode keeps_onDb_statement)
    (simp add: sameRuns_def)

definition closeRuns :: "id \<Rightarrow> string option \<Rightarrow> int \<Rightarrow> AgentRunDbRow list \<Rightarrow> AgentRunDbRow list" where
  "closeRuns i result now =
     map (\<lambda>r. if rar_id r = i \<and> rar_status r = ''running'' then finishRow ''error'' result now r else r)"

lemma finishWithError_effect:
  assumes "finishAgentRunWithErrorNotification catalogs newId i result c = Inr (b, c')"
  shows "sameRuns (closeRuns i result (cl_now c) (t_agent_runs (cl_db c)), t_agent_run_events (cl_db c),
           t_event_seq (cl_db c)) (cl_db c')"
proof -
  let ?x = "(closeRuns i result (cl_now c) (t_agent_runs (cl_db c)), t_agent_run_events (cl_db c),
    t_event_seq (cl_db c))"
  from assms obtain closed c1 where finish: "finishAgentRun i ''error'' result c = Inr (closed, c1)"
      and rest: "(if \<not> closed then return False else bnd getTenantUserId (\<lambda>userId.
        if \<not> truthy userId then return True else andThen (bnd (writeNotification catalogs newId
             \<lparr>wn_userId = the userId, wn_kind = ''agent_run_error'', wn_titleParams = [],
              wn_linkHref = Some (''?page=agent-run&id='' @ i), wn_sourceTable = ''agent_runs'',
              wn_sourceId = i, wn_transitionInstance = i, wn_payload = []\<rparr>) (\<lambda>_. return ()))
         (return True))) c1 = Inr (b, c')"
    unfolding finishAgentRunWithErrorNotification_def by (rule bnd_InrE)
  from finish have "onDb (sameRuns ?x) c1"
    by (auto simp: finishAgentRun_def selectAgentRuns_def comp_simps andThen_def bnd_def onDb_def
        sameRuns_def closeRuns_def split: if_splits)
  moreover have "keeps (onDb (sameRuns ?x)) (if \<not> closed then return False else bnd getTenantUserId (\<lambda>userId.
        if \<not> truthy userId then return True else andThen (bnd (writeNotification catalogs newId
             \<lparr>wn_userId = the userId, wn_kind = ''agent_run_error'', wn_titleParams = [],
              wn_linkHref = Some (''?page=agent-run&id='' @ i), wn_sourceTable = ''agent_runs'',
              wn_sourceId = i, wn_transitionInstance = i, wn_payload = []\<rparr>) (\<lambda>_. return ()))
         (return True)))"
    by (intro keeps_intros keeps_writeNotification readsOnly_keeps [OF readsOnly_users(1)])
  ultimately show ?thesis using rest by (auto dest: keepsD simp: onDb_def)
qed

lemma insort_key_snoc: "f a \<le> f x \<Longrightarrow> insort_key f a (ys @ [x]) = insort_key f a ys @ [x]"
  by (induction ys) auto

lemma sort_key_snoc: "\<forall>e \<in> set xs. f e \<le> f x \<Longrightarrow> sort_key f (xs @ [x]) = sort_key f xs @ [x]"
  by (induction xs) (auto simp: insort_key_snoc)

lemma runLog_insert:
  assumes "t_agent_run_events d' = t_agent_run_events d @ [row]"
    and "\<forall>e \<in> set (t_agent_run_events d). rev_id e \<le> rev_id row"
  shows "runLog d' i = (if i = rev_agent_run_id row then runLog d i @ [row] else runLog d i)"
  using assms by (auto simp: runLog_def sort_key_snoc)

text \<open>The event ids issued so far.\<close>

definition idsIssued :: "client \<Rightarrow> bool" where
  "idsIssued c \<longleftrightarrow> (\<forall>e \<in> set (t_agent_run_events (cl_db c)). rev_id e \<le> t_event_seq (cl_db c))"

lemma runLog_cong: "t_agent_run_events d' = t_agent_run_events d \<Longrightarrow> runLog d' i = runLog d i"
  by (simp add: runLog_def)

lemma openCalls_completed:
  assumes "interruptible rows" and "rows \<noteq> []" and "rev_kind (last rows) = ''tool_use''"
  shows "openCalls [] (map payloadMessage rows @
           [payloadMessage \<lparr>rev_id = n, rev_agent_run_id = i, rev_kind = ''tool_result'',
              rev_payload = interruptedResult (rev_payload (last rows)), rev_at = t\<rparr>]) = Some []"
proof -
  from assms obtain x where pre: "openCalls [] (map payloadMessage (butlast rows)) = Some []"
      and x: "asStr (map_of (payloadMessage (last rows)) ''toolCallId'') = Some x"
    by (auto simp: interruptible_def)
  from assms(1,2,3) have kind: "messageKind (payloadMessage (last rows)) = ''tool_use''"
    by (simp add: interruptible_def list_all_iff)
  from interruptedResult_fields [of "rev_payload (last rows)"] obtain m where
    m: "interruptedResult (rev_payload (last rows)) = JObj m" "messageKind m = ''tool_result''"
      "map_of m ''toolCallId'' = map_of (payloadMessage (last rows)) ''toolCallId''"
    by (auto simp: payloadMessage_def)
  have "map payloadMessage rows = map payloadMessage (butlast rows) @ [payloadMessage (last rows)]"
    using assms(2) by (metis append_butlast_last_id list.simps(8,9) map_append)
  with pre kind x m show ?thesis
    by (simp add: openCalls_append payloadMessage_def [of "AgentRunEventDbRow.make n i ''tool_result'' (interruptedResult (rev_payload (last rows))) t"]
        payloadMessage_def AgentRunEventDbRow.defs)
qed

lemma list_events_InrE:
  assumes "listAgentRunEvents i c = Inr (evs, c')"
  shows "c' = c \<and> list_all2 (\<lambda>r ev. mapEventRow r = Inr ev) (runLog (cl_db c) i) evs"
  using assms mapC_ofSum_rows [of mapEventRow "runLog (cl_db c) i" c evs c']
  by (simp add: listAgentRunEvents_def selectEvents_def mapEventRows_def comp_simps runLog_def)

lemma readsOnly_listEvents: "readsOnly (listAgentRunEvents i)"
  unfolding listAgentRunEvents_def selectEvents_def by (intro reads_intros)

lemma last_tool_use:
  assumes "list_all2 (\<lambda>r ev. mapEventRow r = Inr ev) rows evs"
  shows "evs \<noteq> [] \<longleftrightarrow> rows \<noteq> []"
    and "rows \<noteq> [] \<Longrightarrow> (ev_kind (last evs) = EvToolUse \<longleftrightarrow> rev_kind (last rows) = ''tool_use'') \<and>
           ev_payload (last evs) = rev_payload (last rows)"
proof -
  show ne: "evs \<noteq> [] \<longleftrightarrow> rows \<noteq> []" using assms by (metis list_all2_Nil list_all2_Nil2)
  assume "rows \<noteq> []"
  with assms ne list_all2_nthD [OF assms, of "length rows - 1"] list_all2_lengthD [OF assms]
  have "mapEventRow (last rows) = Inr (last evs)" by (simp add: last_conv_nth)
  from mapEventRow_Inr [OF this] show "(ev_kind (last evs) = EvToolUse \<longleftrightarrow> rev_kind (last rows) = ''tool_use'') \<and>
      ev_payload (last evs) = rev_payload (last rows)" by simp
qed

lemma repairRun_effect:
  assumes run: "repairRun numText catalogs newId r c = Inr (u, c')" and ids: "idsIssued c"
  shows "idsIssued c' \<and> (\<forall>j. j \<noteq> ar_id r \<longrightarrow> runLog (cl_db c') j = runLog (cl_db c) j) \<and>
    (interruptible (runLog (cl_db c) (ar_id r)) \<longrightarrow> openInLog (cl_db c') (ar_id r) = Some []) \<and>
    (\<exists>now. t_agent_runs (cl_db c') = closeRuns (ar_id r) (Some INTERRUPTED_REASON) now (t_agent_runs (cl_db c)))"
proof -
  from run obtain evs where evs: "listAgentRunEvents (ar_id r) c = Inr (evs, c)"
      and rest: "andThen (if evs \<noteq> [] \<and> ev_kind (last evs) = EvToolUse
        then bnd (insertAgentRunEvent numText (ar_id r) ''tool_result'' (interruptedResult (ev_payload (last evs))))
               (\<lambda>_. return ()) else return ())
        (bnd (finishAgentRunWithErrorNotification catalogs (newId (ar_id r)) (ar_id r)
               (Some INTERRUPTED_REASON)) (\<lambda>_. return ())) c = Inr (u, c')"
    unfolding repairRun_def by (rule bnd_readsOnly_InrE) (rule readsOnly_listEvents)
  from rest obtain c1 where ins: "(if evs \<noteq> [] \<and> ev_kind (last evs) = EvToolUse
        then bnd (insertAgentRunEvent numText (ar_id r) ''tool_result'' (interruptedResult (ev_payload (last evs))))
               (\<lambda>_. return ()) else return ()) c = Inr ((), c1)"
      and fin: "bnd (finishAgentRunWithErrorNotification catalogs (newId (ar_id r)) (ar_id r)
               (Some INTERRUPTED_REASON)) (\<lambda>_. return ()) c1 = Inr (u, c')"
    by (elim andThen_InrE) simp
  from fin obtain b where "finishAgentRunWithErrorNotification catalogs (newId (ar_id r)) (ar_id r)
      (Some INTERRUPTED_REASON) c1 = Inr (b, c')" by (auto simp: comp_simps elim!: bnd_InrE)
  from finishWithError_effect [OF this] have same: "t_agent_run_events (cl_db c') = t_agent_run_events (cl_db c1)"
      "t_event_seq (cl_db c') = t_event_seq (cl_db c1)"
      "t_agent_runs (cl_db c') = closeRuns (ar_id r) (Some INTERRUPTED_REASON) (cl_now c1) (t_agent_runs (cl_db c1))"
    by (auto simp: sameRuns_def)
  note log = list_events_InrE [OF evs, THEN conjunct2]
  show ?thesis
  proof (cases "runLog (cl_db c) (ar_id r) \<noteq> [] \<and> rev_kind (last (runLog (cl_db c) (ar_id r))) = ''tool_use''")
    case False
    with ins last_tool_use [OF log] have "c1 = c" by (auto simp: comp_simps split: if_splits)
    with same have "runLog (cl_db c') j = runLog (cl_db c) j" for j by (intro runLog_cong) simp
    with same False ids \<open>c1 = c\<close> show ?thesis
      by (auto simp: idsIssued_def openInLog_def interruptible_def)
  next
    case True
    with last_tool_use [OF log] ins obtain ev where
      "insertAgentRunEvent numText (ar_id r) ''tool_result''
         (interruptedResult (rev_payload (last (runLog (cl_db c) (ar_id r))))) c = Inr (ev, c1)"
      by (auto simp: comp_simps elim!: bnd_InrE)
    then obtain row where row: "row = \<lparr>rev_id = t_event_seq (cl_db c) + 1, rev_agent_run_id = ar_id r,
        rev_kind = ''tool_result'', rev_payload = interruptedResult (rev_payload (last (runLog (cl_db c) (ar_id r)))),
        rev_at = cl_now c\<rparr>"
        and c1: "c1 = c\<lparr>cl_db := (cl_db c)\<lparr>t_agent_run_events := t_agent_run_events (cl_db c) @ [row],
          t_event_seq := t_event_seq (cl_db c) + 1\<rparr>\<rparr>" by (rule insertAgentRunEvent_InrE)
    have "\<forall>e \<in> set (t_agent_run_events (cl_db c)). rev_id e \<le> rev_id row"
      using ids by (auto simp: row idsIssued_def le_SucI)
    then have logs: "runLog (cl_db c') j = (if j = ar_id r then runLog (cl_db c) j @ [row] else runLog (cl_db c) j)" for j
      by (subst runLog_insert [where d = "cl_db c" and row = row]) (auto simp: same c1 row)
    have "interruptible (runLog (cl_db c) (ar_id r)) \<Longrightarrow> openInLog (cl_db c') (ar_id r) = Some []"
      unfolding openInLog_def logs using openCalls_completed True by (simp add: row)
    with logs same ids show ?thesis by (auto simp: idsIssued_def c1 row le_SucI)
  qed
qed

lemma repair_loop:
  assumes "forEach rs (repairRun numText catalogs newId) c = Inr (u, c')" and "idsIssued c"
    and "distinct (map ar_id rs)"
  shows "(\<forall>j. j \<notin> set (map ar_id rs) \<longrightarrow> runLog (cl_db c') j = runLog (cl_db c) j) \<and>
    (\<forall>j \<in> set (map ar_id rs). interruptible (runLog (cl_db c) j) \<longrightarrow> openInLog (cl_db c') j = Some []) \<and>
    (\<forall>r \<in> set (t_agent_runs (cl_db c')). rar_status r = ''running'' \<longrightarrow>
       r \<in> set (t_agent_runs (cl_db c)) \<and> rar_id r \<notin> set (map ar_id rs))"
  using assms
proof (induction rs arbitrary: c)
  case (Cons r rs)
  from Cons.prems(1) obtain c1 where one: "repairRun numText catalogs newId r c = Inr ((), c1)"
      and rest: "forEach rs (repairRun numText catalogs newId) c1 = Inr (u, c')"
    by (auto elim: andThen_InrE)
  note eff = repairRun_effect [OF one Cons.prems(2)]
  from Cons.IH [OF rest] eff Cons.prems(3) have IH:
    "(\<forall>j. j \<notin> set (map ar_id rs) \<longrightarrow> runLog (cl_db c') j = runLog (cl_db c1) j) \<and>
     (\<forall>j \<in> set (map ar_id rs). interruptible (runLog (cl_db c1) j) \<longrightarrow> openInLog (cl_db c') j = Some []) \<and>
     (\<forall>r \<in> set (t_agent_runs (cl_db c')). rar_status r = ''running'' \<longrightarrow>
       r \<in> set (t_agent_runs (cl_db c1)) \<and> rar_id r \<notin> set (map ar_id rs))" by simp
  moreover have "r' \<in> set (t_agent_runs (cl_db c)) \<and> rar_id r' \<noteq> ar_id r"
    if "r' \<in> set (t_agent_runs (cl_db c1))" "rar_status r' = ''running''" for r'
    using that eff by (auto simp: closeRuns_def finishRow_def split: if_splits)
  moreover have "\<forall>j \<in> set (map ar_id rs). j \<noteq> ar_id r"
    using Cons.prems(3) by (metis distinct.simps(2) list.simps(9))
  moreover from this eff have "\<forall>j \<in> set (map ar_id rs). runLog (cl_db c1) j = runLog (cl_db c) j" by blast
  ultimately have logs: "(\<forall>j. j \<notin> set (map ar_id (r # rs)) \<longrightarrow> runLog (cl_db c') j = runLog (cl_db c) j)"
      and closed: "\<forall>j \<in> set (map ar_id rs). interruptible (runLog (cl_db c) j) \<longrightarrow> openInLog (cl_db c') j = Some []"
      and left: "\<forall>r' \<in> set (t_agent_runs (cl_db c')). rar_status r' = ''running'' \<longrightarrow>
        r' \<in> set (t_agent_runs (cl_db c)) \<and> rar_id r' \<noteq> ar_id r \<and> rar_id r' \<notin> set (map ar_id rs)"
      and own: "runLog (cl_db c') (ar_id r) = runLog (cl_db c1) (ar_id r)"
    using eff Cons.prems(3) by auto
  from own eff have "interruptible (runLog (cl_db c) (ar_id r)) \<longrightarrow> openInLog (cl_db c') (ar_id r) = Some []"
    by (simp add: openInLog_def)
  with logs closed left show ?case by simp
qed (simp add: comp_simps)

text \<open>
  C22: after the startup repair of a tenant no run but a credential's is
  still running, every tool call of a repaired run has its result - also the one the restart cut
  off - so its log passes the protocol check again, and the logs of all other runs are untouched.
\<close>

theorem repair_closes_open_calls:
  assumes repair: "repairCurrentTenant numText catalogs newId c = Inr (repaired, c')"
    and keys: "distinct (map rar_id (t_agent_runs (cl_db c)))" and ids: "idsIssued c"
  shows "(\<forall>j \<in> set repaired. interruptible (runLog (cl_db c) j) \<longrightarrow> openInLog (cl_db c') j = Some []) \<and>
    (\<forall>j. j \<notin> set repaired \<longrightarrow> runLog (cl_db c') j = runLog (cl_db c) j) \<and>
    (\<forall>r \<in> set (t_agent_runs (cl_db c')). rar_status r = ''running'' \<longrightarrow> rar_triggered_by r = ''mcp'')"
proof -
  let ?rows = "sort_key rar_started_at (filter (\<lambda>r. rar_status r = ''running'') (t_agent_runs (cl_db c)))"
  from repair obtain running where run: "listRunningAgentRuns c = Inr (running, c)"
      and loop: "forEach (filter (\<lambda>run. ar_triggeredBy run \<noteq> ByMcp) running) (repairRun numText catalogs newId) c
        = Inr ((), c')" and repaired: "repaired = map ar_id (filter (\<lambda>run. ar_triggeredBy run \<noteq> ByMcp) running)"
    unfolding repairCurrentTenant_def Let_def
    by (elim bnd_readsOnly_InrE andThen_InrE)
      (auto simp: comp_simps listRunningAgentRuns_def selectAgentRuns_def intro!: reads_intros)
  from run have rows: "list_all2 (\<lambda>r run. mapAgentRunRow r = Inr run) ?rows running"
    using mapC_ofSum_rows [of mapAgentRunRow ?rows c running c]
    by (simp add: listRunningAgentRuns_def selectAgentRuns_def comp_simps)
  have mapped: "ar_id x = rar_id r \<and> (ar_triggeredBy x = ByMcp \<longleftrightarrow> rar_triggered_by r = ''mcp'')"
    if "mapAgentRunRow r = Inr x" for r x
    using that by (auto simp: mapAgentRunRow_def assertKnownValue_def TRIGGERED_BY_VALUES_def
        split: sum.splits option.splits if_splits)
  from rows mapped have "map ar_id running = map rar_id ?rows"
    by (induction rule: list_all2_induct) auto
  with keys have "distinct (map ar_id running)" by (auto simp: distinct_map intro: inj_on_subset)
  then have "distinct (map ar_id (filter (\<lambda>run. ar_triggeredBy run \<noteq> ByMcp) running))"
    by (rule distinct_map_filter)
  note eff = repair_loop [OF loop ids this, folded repaired]
  moreover have "rar_triggered_by r = ''mcp''"
    if r: "r \<in> set (t_agent_runs (cl_db c'))" "rar_status r = ''running''" for r
  proof -
    from eff r have "r \<in> set ?rows" and "rar_id r \<notin> set repaired" by auto
    with list_all2_in1 [OF rows] obtain x where "x \<in> set running" "mapAgentRunRow r = Inr x" by blast
    with mapped [of r x] \<open>rar_id r \<notin> set repaired\<close> show ?thesis by (auto simp: repaired image_iff)
  qed
  ultimately show ?thesis by blast
qed

section \<open>Instances\<close>

definition exampleRun :: "id \<Rightarrow> string \<Rightarrow> AgentRunDbRow" where
  "exampleRun i status =
     \<lparr>rar_id = i, rar_project_item_id = Some ''p'', rar_parent_run_id = None, rar_heartbeat_id = None,
      rar_triggered_by = ''user'', rar_unit = ''session'', rar_task = ''hi'', rar_status = status,
      rar_result = None, rar_started_at = 5, rar_finished_at = None, rar_actor_user_id = ''u1'',
      rar_wake_seq = 1\<rparr>"

definition exampleEvent :: "nat \<Rightarrow> string \<Rightarrow> obj \<Rightarrow> AgentRunEventDbRow" where
  "exampleEvent n kind more_fields =
     \<lparr>rev_id = n, rev_agent_run_id = ''r1'', rev_kind = kind,
      rev_payload = JObj ((''kind'', JStr kind) # more_fields), rev_at = 5000\<rparr>"

definition exampleCall :: AgentRunEventDbRow where
  "exampleCall = exampleEvent 2 ''tool_use'' [(''toolCallId'', JStr ''t1'')]"

definition runClient :: "string \<Rightarrow> AgentRunEventDbRow list \<Rightarrow> client" where
  "runClient status events = exampleClient\<lparr>cl_db := exampleDb
     \<lparr>t_agent_runs := [exampleRun ''r1'' status], t_agent_run_events := events,
      t_event_seq := length events, t_wake_seq := 1\<rparr>\<rparr>"

definition exampleFilter :: SessionAgentRunsFilter where
  "exampleFilter = \<lparr>sf_projectItemId = ''p'', sf_triggeredBy = ''user'', sf_parentRunId = None\<rparr>"

definition exampleAdapter :: "unit CompactionAdapter" where
  "exampleAdapter = \<lparr>ca_estimateContextTokens = length, ca_shouldCompact = (\<lambda>n. n > 100),
     ca_prepareCompaction = (\<lambda>_. ()), ca_compact = (\<lambda>_. Inr [])\<rparr>"

definition exampleEntry :: "AgentMessage \<Rightarrow> ConversationEntry" where
  "exampleEntry m = \<lparr>ce_id = ''2'', ce_parentId = None, ce_seq = 0, ce_timestamp = 0, ce_message = m\<rparr>"

lemmas run_defs = runClient_def exampleCall_def exampleEvent_def exampleRun_def exampleFilter_def

definition finishedClient :: client where
  "finishedClient = runClient ''done''
     [exampleEvent 1 ''turn_start'' [], exampleCall,
      exampleEvent 3 ''tool_result'' [(''toolCallId'', JStr ''t1'')], exampleEvent 4 ''run_status'' []]"

definition finishedHistory :: ReconstructedHistory where
  "finishedHistory = the (fst (projr (reconstructConversationHistory exampleFilter exampleAdapter finishedClient)))"

lemma finished_eval:
  "reconstructConversationHistory exampleFilter exampleAdapter finishedClient = Inr (Some finishedHistory, finishedClient)"
  "\<not> rh_compacted finishedHistory" "length (rh_entries finishedHistory) = 3"
  "list_all isPlainRow (sessionTail exampleFilter (cl_db finishedClient))"
  by code_simp+

theorem reconstruct_linear_witness:
  "ce_parentId (rh_entries finishedHistory ! 2) = Some (ce_id (rh_entries finishedHistory ! 1)) \<and>
   openCalls [] (map ce_message (rh_entries finishedHistory)) = Some []"
  using reconstruct_linear [OF finished_eval(1,2,4)] by (auto simp: finished_eval(3))

definition failedClient :: client where
  "failedClient = runClient ''error''
     [exampleEvent 1 ''turn_start'' [], exampleCall, exampleEvent 3 ''run_status'' []]"

lemma failed_eval:
  "sessionTail exampleFilter (cl_db failedClient) =
     [exampleEvent 1 ''turn_start'' []] @ exampleCall # [exampleEvent 3 ''run_status'' []]"
  by code_simp

theorem dangling_call_blocks_conversation_witness:
  "\<exists>e. reconstructConversationHistory exampleFilter exampleAdapter failedClient = Inl e"
  by (rule dangling_call_blocks_conversation [OF failed_eval, of "''t1''"])
    (simp_all add: callsTool_def answersTool_def exampleCall_def exampleEvent_def messageKind_def
      asStr_def resultOf_def)

definition checkpointEntry :: ConversationEntry where
  "checkpointEntry = \<lparr>ce_id = ''7'', ce_parentId = None, ce_seq = 4, ce_timestamp = 0,
     ce_message = [(''kind'', JStr ''message''), (''text'', JStr ''so far'')]\<rparr>"

definition wokenClient :: client where
  "wokenClient = runClient ''running'' [exampleEvent 1 ''turn_start'' []]"

definition checkpointedClient :: client where
  "checkpointedClient = snd (projr (persistCompaction (\<lambda>_. ''0'') ''r1'' [checkpointEntry] wokenClient))"

lemma checkpoint_eval:
  "persistCompaction (\<lambda>_. ''0'') ''r1'' [checkpointEntry] wokenClient = Inr ((), checkpointedClient)"
  by code_simp

theorem checkpoint_roundtrip_witness:
  "walkStoredEntries exampleFilter checkpointedClient = Inr ([checkpointEntry], checkpointedClient)"
  by (rule checkpoint_roundtrip [OF checkpoint_eval, of "exampleRun ''r1'' ''running''"])
    (simp_all add: checkpointEntry_def wokenClient_def run_defs messageKind_def asStr_def
      AGENT_MESSAGE_KINDS_def sessionRun_def)

definition repairedEntry :: ConversationEntry where
  "repairedEntry = \<lparr>ce_id = ''3'', ce_parentId = Some ''2'', ce_seq = 2, ce_timestamp = 0,
     ce_message = (case interruptedResult (rev_payload exampleCall) of JObj m \<Rightarrow> m | _ \<Rightarrow> [])\<rparr>"

theorem repaired_call_cannot_resume_witness: "\<exists>e. toPiMessages [repairedEntry] = Inl e"
  by (rule repaired_call_cannot_resume [of repairedEntry _ "rev_payload exampleCall"])
    (simp_all add: repairedEntry_def interruptedResult_def)

definition interruptedClient :: client where
  "interruptedClient = runClient ''running'' [exampleEvent 1 ''turn_start'' [], exampleCall]"

definition repairedClient :: client where
  "repairedClient = snd (projr (repairCurrentTenant (\<lambda>_. ''0'') \<lparr>cat_cs = [], cat_en = []\<rparr> id interruptedClient))"

lemma repaired_eval:
  "repairCurrentTenant (\<lambda>_. ''0'') \<lparr>cat_cs = [], cat_en = []\<rparr> id interruptedClient = Inr ([''r1''], repairedClient)"
  by code_simp

theorem repair_closes_open_calls_witness: "openInLog (cl_db repairedClient) ''r1'' = Some []"
proof -
  have "interruptible (runLog (cl_db interruptedClient) ''r1'')" by code_simp
  moreover have "idsIssued interruptedClient" "distinct (map rar_id (t_agent_runs (cl_db interruptedClient)))"
    by (simp_all add: idsIssued_def interruptedClient_def run_defs)
  ultimately show ?thesis using repair_closes_open_calls [OF repaired_eval] by simp
qed

end
