(* ===== verification/Approvals.thy ===== *)
theory Approvals
  imports AgentRuns
begin

text \<open>
  Approval requests: the store (\<open>mcp/approvalRequestsStore.ts\<close>), the decision with its enqueue
  (\<open>mcp/approvalDecisionAction.ts\<close>), the queue's read model (\<open>mcp/approvalRequestsQueue.ts\<close>)
  and the authorization of a tool call (\<open>mcp/mcpToolInvocation.ts\<close>).
\<close>

section \<open>Rows\<close>

datatype ApprovalRequestStatus = ApPending | ApApproved | ApRejected

datatype ApprovalRequestExecutionStatus =
  ExNotApproved | ExQueued | ExSucceeded | ExConflict | ExLegacyTerminal

definition APPROVAL_REQUEST_STATUSES :: "(string \<times> ApprovalRequestStatus) list" where
  "APPROVAL_REQUEST_STATUSES =
     [(''pending'', ApPending), (''approved'', ApApproved), (''rejected'', ApRejected)]"

definition APPROVAL_REQUEST_EXECUTION_STATUSES :: "(string \<times> ApprovalRequestExecutionStatus) list" where
  "APPROVAL_REQUEST_EXECUTION_STATUSES =
     [(''not_approved'', ExNotApproved), (''queued'', ExQueued), (''succeeded'', ExSucceeded),
      (''conflict'', ExConflict), (''legacy_terminal'', ExLegacyTerminal)]"

record ApprovalRequest =
  aq_id :: id
  aq_agentRunId :: id
  aq_toolName :: string
  aq_riskClass :: string
  aq_payload :: ApprovalRequestPayload
  aq_status :: ApprovalRequestStatus
  aq_requestedAt :: int
  aq_decidedAt :: "int option"
  aq_decidedBy :: "id option"
  aq_resourceSnapshot :: ApprovalResourceSnapshot
  aq_executionStatus :: ApprovalRequestExecutionStatus
  aq_executedAt :: "int option"
  aq_executionError :: "bool option"
  aq_executionResult :: "json option"

text \<open>The snapshot of a row is a record, so \<open>assertResourceSnapshotShape\<close> holds of it.\<close>

definition rowToApprovalRequest :: "ApprovalRequestDbRow \<Rightarrow> error + ApprovalRequest" where
  "rowToApprovalRequest row =
     (case assertKnownValue APPROVAL_REQUEST_STATUSES (raq_status row) ''status'' of
        Inl e \<Rightarrow> Inl e
      | Inr status \<Rightarrow>
     (case assertKnownValue APPROVAL_REQUEST_EXECUTION_STATUSES (raq_execution_status row) ''execution_status'' of
        Inl e \<Rightarrow> Inl e
      | Inr executionStatus \<Rightarrow> Inr
          \<lparr>aq_id = raq_id row, aq_agentRunId = raq_agent_run_id row, aq_toolName = raq_tool_name row,
           aq_riskClass = raq_risk_class row, aq_payload = raq_payload row, aq_status = status,
           aq_requestedAt = raq_requested_at row, aq_decidedAt = raq_decided_at row,
           aq_decidedBy = raq_decided_by row, aq_resourceSnapshot = raq_resource_snapshot row,
           aq_executionStatus = executionStatus, aq_executedAt = raq_executed_at row,
           aq_executionError = raq_execution_error row, aq_executionResult = raq_execution_result row\<rparr>))"

definition isGenericOperationApprovalRequestPayload :: "ApprovalRequestPayload \<Rightarrow> bool" where
  "isGenericOperationApprovalRequestPayload payload =
     (case payload of GenericOperationPayload _ _ _ _ _ _ \<Rightarrow> True | McpInvokePayload _ _ _ \<Rightarrow> False)"

definition selectRequests :: "(ApprovalRequestDbRow \<Rightarrow> bool) \<Rightarrow> ApprovalRequestDbRow list op" where
  "selectRequests p = query (\<lambda>d. filter p (t_approval_requests d))"

text \<open>\<open>UPDATE approval_requests SET f WHERE p\<close>, answering the updated rows.\<close>

definition updateRequestsReturning ::
  "(ApprovalRequestDbRow \<Rightarrow> bool) \<Rightarrow> (ApprovalRequestDbRow \<Rightarrow> ApprovalRequestDbRow) \<Rightarrow> ApprovalRequestDbRow list op" where
  "updateRequestsReturning p f =
     bnd (selectRequests p) (\<lambda>rows.
     andThen (statement (\<lambda>d. d\<lparr>t_approval_requests :=
         map (\<lambda>r. if p r then f r else r) (t_approval_requests d)\<rparr>))
     (return (map f rows)))"

section \<open>The store\<close>

record CreatePendingApprovalRequestInput =
  cpa_agentRunId :: id
  cpa_toolName :: string
  cpa_riskClass :: string
  cpa_payload :: ApprovalRequestPayload
  cpa_resourceSnapshot :: ApprovalResourceSnapshot

text \<open>The column defaults are \<open>pending\<close>, \<open>not_approved\<close> and \<open>now()\<close>.\<close>

definition pendingRow :: "id \<Rightarrow> CreatePendingApprovalRequestInput \<Rightarrow> int \<Rightarrow> ApprovalRequestDbRow" where
  "pendingRow newId input now =
     \<lparr>raq_id = newId, raq_agent_run_id = cpa_agentRunId input,
      raq_tool_name = cpa_toolName input, raq_risk_class = cpa_riskClass input,
      raq_payload = cpa_payload input, raq_status = ''pending'', raq_requested_at = now,
      raq_decided_at = None, raq_decided_by = None,
      raq_resource_snapshot = cpa_resourceSnapshot input,
      raq_execution_status = ''not_approved'', raq_executed_at = None,
      raq_execution_error = None, raq_execution_result = None\<rparr>"

definition createPendingApprovalRequest :: "id \<Rightarrow> CreatePendingApprovalRequestInput \<Rightarrow> ApprovalRequest op" where
  "createPendingApprovalRequest newId input =
     bnd (gets cl_now) (\<lambda>now.
     andThen (statement (\<lambda>d. d\<lparr>t_approval_requests := t_approval_requests d @ [pendingRow newId input now]\<rparr>))
       (ofSum (rowToApprovalRequest (pendingRow newId input now))))"

definition firstRequest :: "ApprovalRequestDbRow list \<Rightarrow> ApprovalRequest option op" where
  "firstRequest rows =
     (case rows of
        [] \<Rightarrow> return None
      | row # _ \<Rightarrow> bnd (ofSum (rowToApprovalRequest row)) (\<lambda>r. return (Some r)))"

definition getApprovalRequest :: "id \<Rightarrow> ApprovalRequest option op" where
  "getApprovalRequest i = bnd (selectRequests (\<lambda>r. raq_id r = i)) firstRequest"

text \<open>The run of a request belongs to the user.\<close>

definition ownedBy :: "id \<Rightarrow> AgentRunDbRow list \<Rightarrow> ApprovalRequestDbRow \<Rightarrow> bool" where
  "ownedBy userId runs r \<longleftrightarrow>
     list_ex (\<lambda>run. rar_id run = raq_agent_run_id r \<and> rar_actor_user_id run = userId) runs"

definition listPendingApprovalRequests :: "id \<Rightarrow> ApprovalRequest list op" where
  "listPendingApprovalRequests ownerUserId =
     bnd (query t_agent_runs) (\<lambda>runs.
     bnd (selectRequests (\<lambda>r. raq_status r = ''pending'' \<and> ownedBy ownerUserId runs r)) (\<lambda>rows.
     mapC (\<lambda>row. ofSum (rowToApprovalRequest row)) (sort_key raq_requested_at rows)))"

definition getApprovalRequestForOwner :: "id \<Rightarrow> id \<Rightarrow> ApprovalRequest option op" where
  "getApprovalRequestForOwner i ownerUserId =
     bnd (query t_agent_runs) (\<lambda>runs.
     bnd (selectRequests (\<lambda>r. raq_id r = i \<and> ownedBy ownerUserId runs r)) firstRequest)"

definition decisionName :: "bool \<Rightarrow> string" where
  "decisionName approve = (if approve then ''approved'' else ''rejected'')"

text \<open>\<open>approve\<close> is \<open>decision === "approved"\<close>; there are only two decisions.\<close>

definition decideRow :: "bool \<Rightarrow> id \<Rightarrow> int \<Rightarrow> ApprovalRequestDbRow \<Rightarrow> ApprovalRequestDbRow" where
  "decideRow approve decidedBy now r =
     r\<lparr>raq_status := decisionName approve, raq_decided_at := Some now, raq_decided_by := Some decidedBy,
       raq_execution_status := (if approve then ''queued'' else raq_execution_status r)\<rparr>"

definition decideApprovalRequest :: "id \<Rightarrow> bool \<Rightarrow> id \<Rightarrow> ApprovalRequest option op" where
  "decideApprovalRequest i approve decidedBy =
     bnd (gets cl_now) (\<lambda>now.
     bnd (query t_agent_runs) (\<lambda>runs.
     bnd (updateRequestsReturning
            (\<lambda>r. raq_id r = i \<and> raq_status r = ''pending'' \<and> ownedBy decidedBy runs r)
            (decideRow approve decidedBy now)) (\<lambda>rows.
     if rows = [] then return None
     else bnd (requireSingleRow rows ''approval_requests decide RETURNING'') (\<lambda>row.
          bnd (ofSum (rowToApprovalRequest row)) (\<lambda>r. return (Some r))))))"

definition claimable :: "ApprovalRequestDbRow \<Rightarrow> bool" where
  "claimable r \<longleftrightarrow>
     raq_status r = ''approved'' \<and> raq_executed_at r = None \<and> raq_execution_status r = ''queued''"

definition claimApprovalRequestExecution :: "id \<Rightarrow> ApprovalRequest option op" where
  "claimApprovalRequestExecution i =
     bnd (gets cl_now) (\<lambda>now.
     bnd (updateRequestsReturning (\<lambda>r. raq_id r = i \<and> claimable r) (\<lambda>r. r\<lparr>raq_executed_at := Some now\<rparr>))
       firstRequest)"

record ApprovalRequestOutcome =
  aro_error :: bool
  aro_result :: string

definition outcomeRow :: "ApprovalRequestOutcome \<Rightarrow> int \<Rightarrow> ApprovalRequestDbRow \<Rightarrow> ApprovalRequestDbRow" where
  "outcomeRow outcome now r =
     r\<lparr>raq_execution_error := Some (aro_error outcome),
       raq_execution_result := Some (JStr (aro_result outcome)),
       raq_execution_status := (if aro_error outcome then ''conflict'' else ''succeeded''),
       raq_executed_at := (case raq_executed_at r of None \<Rightarrow> Some now | Some t \<Rightarrow> Some t)\<rparr>"

definition recordApprovalRequestOutcome :: "id \<Rightarrow> ApprovalRequestOutcome \<Rightarrow> bool op" where
  "recordApprovalRequestOutcome i outcome =
     bnd (gets cl_now) (\<lambda>now.
     bnd (updateRequestsReturning (\<lambda>r. raq_id r = i \<and> raq_execution_status r = ''queued'')
            (outcomeRow outcome now)) (\<lambda>rows.
     return (length rows = 1)))"

datatype StaleApprovalClaimSettlement = Settled | InFlight | NotClaimed

definition unknownOutcomeText :: string where
  "unknownOutcomeText = ''The deferred MCP tool call was claimed by an earlier delivery that never recorded its outcome; the tool may or may not have run.''"

definition staleClaim :: "int \<Rightarrow> int \<Rightarrow> ApprovalRequestDbRow \<Rightarrow> bool" where
  "staleClaim now staleAfterMs r \<longleftrightarrow>
     raq_status r = ''approved'' \<and> raq_execution_status r = ''queued'' \<and>
     (case raq_executed_at r of None \<Rightarrow> False | Some t \<Rightarrow> t < now - staleAfterMs * 1000)"

definition settleStaleApprovalRequestClaim :: "id \<Rightarrow> int \<Rightarrow> StaleApprovalClaimSettlement op" where
  "settleStaleApprovalRequestClaim i staleAfterMs =
     bnd (gets cl_now) (\<lambda>now.
     bnd (updateRequestsReturning (\<lambda>r. raq_id r = i \<and> staleClaim now staleAfterMs r)
            (\<lambda>r. r\<lparr>raq_execution_status := ''conflict'', raq_execution_error := Some True,
                   raq_execution_result := Some (JStr unknownOutcomeText)\<rparr>)) (\<lambda>rows.
     if length rows = 1 then return Settled
     else
       bnd (selectRequests (\<lambda>r. raq_id r = i)) (\<lambda>found.
       case found of
         [] \<Rightarrow> return NotClaimed
       | row # _ \<Rightarrow>
           if raq_execution_status row = ''queued'' \<and> raq_executed_at row \<noteq> None
           then return InFlight else return NotClaimed)))"

definition terminalRow :: "string \<Rightarrow> bool \<Rightarrow> json \<Rightarrow> int \<Rightarrow> ApprovalRequestDbRow \<Rightarrow> ApprovalRequestDbRow" where
  "terminalRow status failed result now r =
     r\<lparr>raq_execution_status := status, raq_execution_error := Some failed,
       raq_execution_result := Some result, raq_executed_at := Some now\<rparr>"

text \<open>Both answers carry the value whose JSON text the code answers.\<close>

definition terminalizeApprovalRequestAsConflict :: "id \<Rightarrow> obj \<Rightarrow> (bool \<times> json) op" where
  "terminalizeApprovalRequestAsConflict i details =
     (let executionResult =
        JObj [(''error'', JObj [(''code'', JStr ''version_conflict''), (''details'', JObj details)])]
      in bnd (gets cl_now) (\<lambda>now.
         bnd (updateRequestsReturning (\<lambda>r. raq_id r = i \<and> raq_execution_status r = ''queued'')
                (terminalRow ''conflict'' True executionResult now)) (\<lambda>rows.
         bnd (requireAffectedRows (length rows) ''terminalizing approval request'') (\<lambda>_.
         return (True, executionResult)))))"

definition markApprovalRequestExecutionSucceeded :: "id \<Rightarrow> json \<Rightarrow> (bool \<times> json) op" where
  "markApprovalRequestExecutionSucceeded i result =
     (let executionResult = JObj [(''result'', result)]
      in bnd (gets cl_now) (\<lambda>now.
         bnd (updateRequestsReturning (\<lambda>r. raq_id r = i \<and> raq_execution_status r = ''queued'')
                (terminalRow ''succeeded'' False executionResult now)) (\<lambda>rows.
         bnd (requireAffectedRows (length rows) ''marking approval request'') (\<lambda>_.
         return (False, executionResult)))))"

section \<open>Deciding\<close>

datatype DecideOutcome = Decided | Unchanged

definition decideAndEnqueueApprovalRequest ::
  "id \<Rightarrow> bool \<Rightarrow> id \<Rightarrow> (DecideOutcome \<times> ApprovalRequest) option op" where
  "decideAndEnqueueApprovalRequest approvalRequestId approve decidedByUserId =
     bnd (decideApprovalRequest approvalRequestId approve decidedByUserId) (\<lambda>request.
     case request of
       None \<Rightarrow>
         bnd (getApprovalRequestForOwner approvalRequestId decidedByUserId) (\<lambda>current.
         return (map_option (Pair Unchanged) current))
     | Some r \<Rightarrow>
         andThen (whenC (aq_status r = ApApproved)
           (enqueueJobMode ''preserve_run_at'' ''approvalExecute''
              [(''approvalRequestId'', JStr (aq_id r))]
              (Some (''approval-request-execute-'' @ aq_id r)) None None))
         (return (Some (Decided, r))))"

section \<open>The queue's read model\<close>

datatype ApprovalRequestSafeSummary =
    SummaryMcpInvoke id id "string list"
  | SummaryGenericOperation string "string list"

definition safeSummaryOf :: "ApprovalRequestPayload \<Rightarrow> ApprovalRequestSafeSummary" where
  "safeSummaryOf payload =
     (case payload of
        GenericOperationPayload operationName canonicalInput _ _ _ _ \<Rightarrow>
          SummaryGenericOperation operationName
            (case canonicalInput of JObj m \<Rightarrow> keysOf m
             | JArr vs \<Rightarrow> map natText [0..<length vs] | _ \<Rightarrow> [])
      | McpInvokePayload registrationId serverItemId args \<Rightarrow>
          SummaryMcpInvoke registrationId serverItemId (keysOf args))"

record ApprovalRequestDecisionView =
  adv_id :: id
  adv_status :: ApprovalRequestStatus
  adv_decidedAt :: "int option"
  adv_decidedBy :: "id option"
  adv_executionStatus :: ApprovalRequestExecutionStatus
  adv_toolName :: string
  adv_riskClass :: string
  adv_requestedAt :: int
  adv_agentRunId :: id
  adv_safeSummary :: ApprovalRequestSafeSummary

definition toApprovalRequestDecisionView :: "ApprovalRequest \<Rightarrow> ApprovalRequestDecisionView" where
  "toApprovalRequestDecisionView request =
     \<lparr>adv_id = aq_id request, adv_status = aq_status request, adv_decidedAt = aq_decidedAt request,
      adv_decidedBy = aq_decidedBy request, adv_executionStatus = aq_executionStatus request,
      adv_toolName = aq_toolName request, adv_riskClass = aq_riskClass request,
      adv_requestedAt = aq_requestedAt request, adv_agentRunId = aq_agentRunId request,
      adv_safeSummary = safeSummaryOf (aq_payload request)\<rparr>"

section \<open>The authorization of a tool call\<close>

definition MCP_SERVERS_MODULE_ID :: string where
  "MCP_SERVERS_MODULE_ID = ''mcpServers''"

record McpToolInvocationTarget =
  mit_mcpToolRegistrationId :: id
  mit_mcpServerItemId :: id
  mit_toolName :: string
  mit_toolSchema :: json
  mit_toolSchemaUpdatedAt :: int
  mit_requiresApproval :: bool
  mit_riskClass :: string
  mit_serverProperties :: obj

definition activeServer :: "id \<Rightarrow> id \<Rightarrow> ItemDbRow \<Rightarrow> bool" where
  "activeServer databaseId serverItemId s \<longleftrightarrow>
     rit_database_id s = databaseId \<and> rit_id s = serverItemId \<and> rit_deleted_at s = None \<and>
     (map_of (rit_properties s) ''active'' = Some (JBool True) \<or>
      map_of (rit_properties s) ''active'' = Some (JStr ''true''))"

definition grantedTargets :: "id \<Rightarrow> id \<Rightarrow> id \<Rightarrow> db \<Rightarrow> McpToolInvocationTarget list" where
  "grantedTargets databaseId projectItemId registrationId d =
     concat (map (\<lambda>g. concat (map (\<lambda>r. map (\<lambda>s.
         \<lparr>mit_mcpToolRegistrationId = rmt_id r, mit_mcpServerItemId = rmt_mcp_server_item_id r,
          mit_toolName = rmt_tool_name r, mit_toolSchema = rmt_tool_schema r,
          mit_toolSchemaUpdatedAt = toISOString (rmt_updated_at r),
          mit_requiresApproval = rmt_requires_approval r, mit_riskClass = rmt_risk_class r,
          mit_serverProperties = rit_properties s\<rparr>)
       (filter (activeServer databaseId (rmt_mcp_server_item_id r)) (t_items d)))
     (filter (\<lambda>r. rmt_id r = rmg_mcp_tool_registration_id g \<and> rmt_active r) (t_mcp_tool_registrations d))))
   (filter (\<lambda>g. rmg_project_item_id g = projectItemId \<and>
      rmg_mcp_tool_registration_id g = registrationId \<and> rmg_granted g) (t_project_mcp_grants d)))"

definition resolveGrantedMcpTool :: "id \<Rightarrow> id \<Rightarrow> McpToolInvocationTarget option op" where
  "resolveGrantedMcpTool projectItemId registrationId =
     bnd (getDatabaseByModuleId MCP_SERVERS_MODULE_ID) (\<lambda>database.
     case database of
       None \<Rightarrow> return None
     | Some servers \<Rightarrow>
         bnd (query (grantedTargets (db_id servers) projectItemId registrationId)) (\<lambda>rows.
         return (case rows of [] \<Rightarrow> None | t # _ \<Rightarrow> Some t)))"

end
