(* ===== verification/ApprovalExecution.thy ===== *)
theory ApprovalExecution
  imports Approvals
begin

text \<open>
  The \<open>approvalExecute\<close> job (\<open>mcp/approvalRequestExecution.ts\<close>). A delivery of the job is a
  sequence of transactions with one call to the outside between them; any number of deliveries of
  one request may run at the same time, on several workers, and any of them may die. A delivery
  is therefore a value that says where it is, and one step of it is one transaction (or the call).

  The tool call itself (\<open>executeMcpInvocation\<close>) talks to a third-party server: its outcome is an
  argument, and that it was made is recorded in the list of calls. The replay of a generic
  operation is a function the composition root injects, a parameter here as in the code.
\<close>

definition MCP_APPROVAL_CLAIM_STALE_AFTER_MS :: int where
  "MCP_APPROVAL_CLAIM_STALE_AFTER_MS = 10 * 60 * 1000"

type_synonym approvalReplay = "ApprovalRequest \<Rightarrow> world \<Rightarrow> (error + unit) \<times> world"

record toolCall =
  tc_idempotencyKey :: id
  tc_toolName :: string
  tc_args :: obj

datatype delivery =
    DStart id
  | DReplay ApprovalRequest
  | DNoReplay id
  | DClaim id
  | DSettle id
  | DResolve ApprovalRequest
  | DCall ApprovalRequest "McpToolInvocationTarget option"
  | DRecord id ApprovalRequestOutcome
  | DDone
  | DFailed error

definition noReplayOutcome :: ApprovalRequestOutcome where
  "noReplayOutcome = \<lparr>aro_error = True,
     aro_result = ''No generic-operation approval replay handler is configured for this worker.''\<rparr>"

definition noLongerAvailableOutcome :: ApprovalRequestOutcome where
  "noLongerAvailableOutcome = \<lparr>aro_error = True,
     aro_result = ''This MCP tool is no longer available to the requesting project: its grant was revoked, or its registration or server is inactive.''\<rparr>"

text \<open>One transaction of a delivery: an error ends the job, an answer \<open>x\<close> continues at \<open>next x\<close>.\<close>

definition txStep ::
  "txenv \<Rightarrow> (InvalidationEvent \<Rightarrow> bool) \<Rightarrow> 'a op \<Rightarrow> ('a \<Rightarrow> delivery) \<Rightarrow> world \<Rightarrow> delivery \<times> world" where
  "txStep env p fn next w =
     (case withTransaction env p fn w of
        (Inl e, w') \<Rightarrow> (DFailed e, w') | (Inr x, w') \<Rightarrow> (next x, w'))"

definition afterRead :: "approvalReplay option \<Rightarrow> ApprovalRequest option \<Rightarrow> delivery" where
  "afterRead replay found =
     (case found of
        None \<Rightarrow> DDone
      | Some request \<Rightarrow>
          if isGenericOperationApprovalRequestPayload (aq_payload request)
          then (case replay of None \<Rightarrow> DNoReplay (aq_id request) | Some _ \<Rightarrow> DReplay request)
          else DClaim (aq_id request))"

definition afterClaim :: "id \<Rightarrow> ApprovalRequest option \<Rightarrow> delivery" where
  "afterClaim i claimed =
     (case claimed of
        None \<Rightarrow> DSettle i
      | Some request \<Rightarrow>
          if isGenericOperationApprovalRequestPayload (aq_payload request) then DDone
          else DResolve request)"

definition afterSettle :: "StaleApprovalClaimSettlement \<Rightarrow> delivery" where
  "afterSettle verdict =
     (case verdict of
        Settled \<Rightarrow> DDone
      | InFlight \<Rightarrow> DFailed (PlainError ''execution claim is still in flight; retrying later'')
      | NotClaimed \<Rightarrow> DDone)"

definition resolveTarget :: "ApprovalRequest \<Rightarrow> McpToolInvocationTarget option op" where
  "resolveTarget claimed =
     bnd (getAgentRun (aq_agentRunId claimed)) (\<lambda>run.
     case run of
       None \<Rightarrow> return None
     | Some r \<Rightarrow>
         if truthy (ar_projectItemId r)
         then resolveGrantedMcpTool (the (ar_projectItemId r)) (ap_mcpToolRegistrationId (aq_payload claimed))
         else return None)"

text \<open>The resolved target is still the one the approved payload names.\<close>

definition targetMatches :: "ApprovalRequest \<Rightarrow> McpToolInvocationTarget option \<Rightarrow> bool" where
  "targetMatches claimed target =
     (case target of
        None \<Rightarrow> False
      | Some t \<Rightarrow> mit_mcpServerItemId t = ap_mcpServerItemId (aq_payload claimed) \<and>
                  mit_toolName t = aq_toolName claimed)"

definition callOf :: "ApprovalRequest \<Rightarrow> toolCall" where
  "callOf claimed = \<lparr>tc_idempotencyKey = aq_id claimed, tc_toolName = aq_toolName claimed,
                     tc_args = ap_args (aq_payload claimed)\<rparr>"

text \<open>\<open>answer\<close> is what the tool call gives, if this step makes it.\<close>

fun deliveryStep ::
  "(InvalidationEvent \<Rightarrow> bool) \<Rightarrow> approvalReplay option \<Rightarrow> txenv \<Rightarrow> ApprovalRequestOutcome \<Rightarrow>
     delivery \<Rightarrow> world \<times> toolCall list \<Rightarrow> delivery \<times> world \<times> toolCall list" where
  "deliveryStep p replay env answer (DStart i) (w, calls) =
     (case txStep env p (getApprovalRequest i) (afterRead replay) w of (d, w') \<Rightarrow> (d, w', calls))"
| "deliveryStep p replay env answer (DReplay request) (w, calls) =
     (case replay of
        None \<Rightarrow> (DDone, w, calls)
      | Some run \<Rightarrow> (case run request w of
                       (Inl e, w') \<Rightarrow> (DFailed e, w', calls) | (Inr _, w') \<Rightarrow> (DDone, w', calls)))"
| "deliveryStep p replay env answer (DNoReplay i) (w, calls) =
     (case txStep env p (recordApprovalRequestOutcome i noReplayOutcome) (\<lambda>_. DDone) w of
        (d, w') \<Rightarrow> (d, w', calls))"
| "deliveryStep p replay env answer (DClaim i) (w, calls) =
     (case txStep env p (claimApprovalRequestExecution i) (afterClaim i) w of (d, w') \<Rightarrow> (d, w', calls))"
| "deliveryStep p replay env answer (DSettle i) (w, calls) =
     (case txStep env p (settleStaleApprovalRequestClaim i MCP_APPROVAL_CLAIM_STALE_AFTER_MS) afterSettle w of
        (d, w') \<Rightarrow> (d, w', calls))"
| "deliveryStep p replay env answer (DResolve claimed) (w, calls) =
     (case txStep env p (resolveTarget claimed) (DCall claimed) w of (d, w') \<Rightarrow> (d, w', calls))"
| "deliveryStep p replay env answer (DCall claimed target) (w, calls) =
     (if targetMatches claimed target
      then (DRecord (aq_id claimed) answer, w, calls @ [callOf claimed])
      else (DRecord (aq_id claimed) noLongerAvailableOutcome, w, calls))"
| "deliveryStep p replay env answer (DRecord i outcome) (w, calls) =
     (case txStep env p (recordApprovalRequestOutcome i outcome) (\<lambda>_. DDone) w of
        (d, w') \<Rightarrow> (d, w', calls))"
| "deliveryStep p replay env answer DDone s = (DDone, s)"
| "deliveryStep p replay env answer (DFailed e) s = (DFailed e, s)"

text \<open>The whole handler: its steps one after the other, each in the environment it finds.\<close>

fun handleApprovalRequestExecuteTask ::
  "(InvalidationEvent \<Rightarrow> bool) \<Rightarrow> approvalReplay option \<Rightarrow> (txenv \<times> ApprovalRequestOutcome) list \<Rightarrow>
     delivery \<Rightarrow> world \<times> toolCall list \<Rightarrow> delivery \<times> world \<times> toolCall list" where
  "handleApprovalRequestExecuteTask p replay [] d s = (d, s)"
| "handleApprovalRequestExecuteTask p replay ((env, answer) # envs) d s =
     (case deliveryStep p replay env answer d s of
        (d', s') \<Rightarrow> handleApprovalRequestExecuteTask p replay envs d' s')"

fun finished :: "delivery \<Rightarrow> bool" where
  "finished DDone = True"
| "finished (DFailed e) = True"
| "finished _ = False"

text \<open>How many steps a delivery still takes, at most.\<close>

fun stepsLeft :: "delivery \<Rightarrow> nat" where
  "stepsLeft (DStart _) = 5"
| "stepsLeft (DClaim _) = 4"
| "stepsLeft (DResolve _) = 3"
| "stepsLeft (DCall _ _) = 2"
| "stepsLeft (DReplay _) = 1"
| "stepsLeft (DNoReplay _) = 1"
| "stepsLeft (DSettle _) = 1"
| "stepsLeft (DRecord _ _) = 1"
| "stepsLeft _ = 0"

section \<open>Any number of deliveries, decisions and requests\<close>

record execState =
  es_world :: world
  es_calls :: "toolCall list"
  es_deliveries :: "delivery list"

abbreviation requestsOf :: "execState \<Rightarrow> ApprovalRequestDbRow list" where
  "requestsOf s \<equiv> t_approval_requests (w_db (es_world s))"

abbreviation runsOf :: "execState \<Rightarrow> AgentRunDbRow list" where
  "runsOf s \<equiv> t_agent_runs (w_db (es_world s))"

text \<open>
  The steps: the queue delivers a job, a delivery makes a step or dies, an agent asks, a user
  decides, and any other transaction runs that does not touch the requests or the owner of a run.
\<close>

inductive execStep :: "(InvalidationEvent \<Rightarrow> bool) \<Rightarrow> approvalReplay option \<Rightarrow> execState \<Rightarrow> execState \<Rightarrow> bool"
  for p replay where
  deliver: "execStep p replay s (s\<lparr>es_deliveries := es_deliveries s @ [DStart i]\<rparr>)"
| advance: "k < length (es_deliveries s) \<Longrightarrow>
    deliveryStep p replay env answer (es_deliveries s ! k) (es_world s, es_calls s) = (d, w, calls) \<Longrightarrow>
    execStep p replay s (s\<lparr>es_world := w, es_calls := calls, es_deliveries := (es_deliveries s)[k := d]\<rparr>)"
| die: "k < length (es_deliveries s) \<Longrightarrow>
    execStep p replay s (s\<lparr>es_deliveries := take k (es_deliveries s) @ drop (Suc k) (es_deliveries s)\<rparr>)"
| request: "newId \<notin> raq_id ` set (requestsOf s) \<Longrightarrow>
    withTransaction env p (createPendingApprovalRequest newId input) (es_world s) = (r, w) \<Longrightarrow>
    execStep p replay s (s\<lparr>es_world := w\<rparr>)"
| decide: "withTransaction env p (decideAndEnqueueApprovalRequest i approve user) (es_world s) = (r', w) \<Longrightarrow>
    execStep p replay s (s\<lparr>es_world := w\<rparr>)"
| other: "t_approval_requests (w_db w) = requestsOf s \<Longrightarrow>
    (\<And>run. run \<in> set (runsOf s) \<Longrightarrow>
       \<exists>run' \<in> set (t_agent_runs (w_db w)). rar_id run' = rar_id run \<and>
         rar_actor_user_id run' = rar_actor_user_id run) \<Longrightarrow>
    execStep p replay s (s\<lparr>es_world := w\<rparr>)"

end
