(* ===== verification/ApprovalProps.thy ===== *)
theory ApprovalProps
  imports ApprovalExecution StoreFacts
begin

text \<open>
  The exactly-once protocol of approved tool calls, for any interleaving of deliveries,
  decisions and crashes: each request's tool is called at most once and only after the owner of
  its run approved it, a settled outcome never changes, a job always ends, and a claim whose
  worker died is settled.
\<close>

section \<open>How the rows evolve\<close>

definition mcpRow :: "ApprovalRequestDbRow \<Rightarrow> bool" where
  "mcpRow r \<longleftrightarrow> \<not> isGenericOperationApprovalRequestPayload (raq_payload r)"

definition released :: "ApprovalRequestDbRow \<Rightarrow> bool" where
  "released r \<longleftrightarrow> raq_execution_status r \<in> {''queued'', ''succeeded'', ''conflict''}"

definition approvedByOwner :: "AgentRunDbRow list \<Rightarrow> ApprovalRequestDbRow \<Rightarrow> bool" where
  "approvedByOwner runs r \<longleftrightarrow>
     raq_status r = ''approved'' \<and> (\<exists>u. raq_decided_by r = Some u \<and> ownedBy u runs r)"

definition rowOk :: "AgentRunDbRow list \<Rightarrow> ApprovalRequestDbRow \<Rightarrow> bool" where
  "rowOk runs r \<longleftrightarrow> (mcpRow r \<and> released r \<longrightarrow> approvedByOwner runs r)"

definition claimedRow :: "ApprovalRequestDbRow \<Rightarrow> bool" where
  "claimedRow r \<longleftrightarrow> mcpRow r \<and> released r \<and> raq_executed_at r \<noteq> None"

definition settledRow :: "ApprovalRequestDbRow \<Rightarrow> bool" where
  "settledRow r \<longleftrightarrow> raq_execution_status r \<in> {''succeeded'', ''conflict''}"

definition sameRequest :: "ApprovalRequestDbRow \<Rightarrow> ApprovalRequestDbRow \<Rightarrow> bool" where
  "sameRequest r r' \<longleftrightarrow> raq_id r' = raq_id r \<and> raq_agent_run_id r' = raq_agent_run_id r \<and>
     raq_tool_name r' = raq_tool_name r \<and> raq_payload r' = raq_payload r"

definition rowStep :: "AgentRunDbRow list \<Rightarrow> ApprovalRequestDbRow \<Rightarrow> ApprovalRequestDbRow \<Rightarrow> bool" where
  "rowStep runs r r' \<longleftrightarrow> sameRequest r r' \<and> (rowOk runs r \<longrightarrow> rowOk runs r') \<and>
     (claimedRow r \<longrightarrow> claimedRow r') \<and> (mcpRow r \<and> rowOk runs r \<and> settledRow r \<longrightarrow> r' = r)"

definition actorsKept :: "AgentRunDbRow list \<Rightarrow> AgentRunDbRow list \<Rightarrow> bool" where
  "actorsKept runs runs' \<longleftrightarrow> (\<forall>run \<in> set runs. \<exists>run' \<in> set runs'.
     rar_id run' = rar_id run \<and> rar_actor_user_id run' = rar_actor_user_id run)"

text \<open>Rows only change by \<open>rowStep\<close>, and new rows carry fresh ids.\<close>

definition evolves :: "db \<Rightarrow> db \<Rightarrow> bool" where
  "evolves d d' \<longleftrightarrow> actorsKept (t_agent_runs d) (t_agent_runs d') \<and>
     (\<exists>olds news. t_approval_requests d' = olds @ news \<and>
        list_all2 (rowStep (t_agent_runs d)) (t_approval_requests d) olds \<and>
        (\<forall>n \<in> set news. raq_execution_status n = ''not_approved'' \<and>
           raq_id n \<notin> raq_id ` set (t_approval_requests d)) \<and> distinct (map raq_id news))"

lemma rowStep_refl: "rowStep runs r r"
  by (simp add: rowStep_def sameRequest_def)

lemma actorsKept_refl: "actorsKept runs runs"
  by (auto simp: actorsKept_def)

lemma ownedBy_kept: "actorsKept runs runs' \<Longrightarrow> ownedBy u runs r \<Longrightarrow> ownedBy u runs' r"
  by (fastforce simp: actorsKept_def ownedBy_def list_ex_iff)

lemma rowOk_kept: "actorsKept runs runs' \<Longrightarrow> rowOk runs r \<Longrightarrow> rowOk runs' r"
  by (auto simp: rowOk_def approvedByOwner_def intro: ownedBy_kept)

lemma evolves_same:
  "t_approval_requests d' = t_approval_requests d \<Longrightarrow> actorsKept (t_agent_runs d) (t_agent_runs d') \<Longrightarrow> evolves d d'"
  unfolding evolves_def
  by (intro conjI exI [of _ "t_approval_requests d"] exI [of _ "[]"]) (auto intro!: list_all2_refl rowStep_refl)

lemma evolves_map:
  assumes "t_agent_runs d' = t_agent_runs d" and "t_approval_requests d' = map g (t_approval_requests d)"
    and "\<And>r. rowStep (t_agent_runs d) r (g r)"
  shows "evolves d d'"
  unfolding evolves_def
  using assms(3) by (intro conjI exI [of _ "t_approval_requests d'"] exI [of _ "[]"])
    (auto simp: assms(1,2) actorsKept_refl list_all2_map2 intro!: list_all2_refl)

lemma evolvesE:
  assumes "evolves d d'" and "r \<in> set (t_approval_requests d)"
  obtains r' where "r' \<in> set (t_approval_requests d')" and "rowStep (t_agent_runs d) r r'"
proof -
  from assms(1) obtain olds news where new: "t_approval_requests d' = olds @ news"
      and "list_all2 (rowStep (t_agent_runs d)) (t_approval_requests d) olds"
    by (auto simp: evolves_def)
  then obtain r' where "r' \<in> set olds" "rowStep (t_agent_runs d) r r'"
    using list_all2_in1 assms(2) by metis
  with new show thesis by (intro that [of r']) simp_all
qed

lemma evolves_ids:
  assumes "evolves d d'" and "distinct (map raq_id (t_approval_requests d))"
  shows "distinct (map raq_id (t_approval_requests d'))"
proof -
  from assms(1) obtain olds news where new: "t_approval_requests d' = olds @ news"
      and old: "list_all2 (rowStep (t_agent_runs d)) (t_approval_requests d) olds"
      and fresh: "\<forall>n \<in> set news. raq_id n \<notin> raq_id ` set (t_approval_requests d)" "distinct (map raq_id news)"
    by (auto simp: evolves_def)
  from old have "map raq_id olds = map raq_id (t_approval_requests d)"
    by (induction rule: list_all2_induct) (auto simp: rowStep_def sameRequest_def)
  with assms(2) have "distinct (map raq_id olds)" and "raq_id ` set olds = raq_id ` set (t_approval_requests d)"
    by (metis, metis set_map)
  with fresh have "distinct (map raq_id olds @ map raq_id news)"
    by (simp add: distinct_append disjoint_iff image_iff) metis
  with new show ?thesis by (simp only: map_append)
qed

lemma evolves_rowOk:
  assumes "evolves d d'" and "\<forall>r \<in> set (t_approval_requests d). rowOk (t_agent_runs d) r"
  shows "\<forall>r \<in> set (t_approval_requests d'). rowOk (t_agent_runs d') r"
proof
  from assms(1) obtain olds news where new: "t_approval_requests d' = olds @ news"
      and old: "list_all2 (rowStep (t_agent_runs d)) (t_approval_requests d) olds"
      and kept: "actorsKept (t_agent_runs d) (t_agent_runs d')"
      and fresh: "\<forall>n \<in> set news. raq_execution_status n = ''not_approved''"
    by (auto simp: evolves_def)
  fix r assume "r \<in> set (t_approval_requests d')"
  with new consider "r \<in> set olds" | "r \<in> set news" by auto
  then show "rowOk (t_agent_runs d') r"
  proof cases
    case 1
    with old obtain r0 where "r0 \<in> set (t_approval_requests d)" "rowStep (t_agent_runs d) r0 r"
      by (blast dest: list_all2_in2)
    with assms(2) kept show ?thesis by (auto simp: rowStep_def intro: rowOk_kept)
  next
    case 2
    with fresh show ?thesis by (simp add: rowOk_def released_def)
  qed
qed

text \<open>A transaction evolves the tables when its function does.\<close>

lemma transaction_evolves:
  assumes "withTransaction env p fn w = (r, w')"
    and "\<And>c x c'. cl_db c = w_db w \<Longrightarrow> fn c = Inr (x, c') \<Longrightarrow> evolves (w_db w) (cl_db c')"
  shows "evolves (w_db w) (w_db w')"
proof (cases r)
  case (Inl e)
  with assms(1) withTransaction_Inl_db [of env p fn w e w'] show ?thesis
    by (auto intro!: evolves_same actorsKept_refl)
next
  case (Inr x)
  with assms(1) obtain scope c where "fn (beginTx env scope w) = Inr (x, c)" "w_db w' = cl_db c"
    by (auto elim!: withTransaction_InrE)
  with assms(2) show ?thesis by (metis beginTx_def client.simps(1))
qed

lemma readsOnly_evolves:
  "readsOnly fn \<Longrightarrow> cl_db c = d \<Longrightarrow> fn c = Inr (x, c') \<Longrightarrow> evolves d (cl_db c')"
  by (auto dest: readsOnlyD intro: evolves_same actorsKept_refl)

section \<open>What each operation does to the rows\<close>

lemma updateRequestsReturning_apply [comp_simps]:
  "updateRequestsReturning p f c =
     Inr (map f (filter p (t_approval_requests (cl_db c))),
          c\<lparr>cl_db := (cl_db c)\<lparr>t_approval_requests :=
              map (\<lambda>r. if p r then f r else r) (t_approval_requests (cl_db c))\<rparr>\<rparr>)"
  by (simp add: updateRequestsReturning_def selectRequests_def andThen_def bnd_def comp_simps)

lemma bnd_updateRequestsReturning_apply [comp_simps]:
  "bnd (updateRequestsReturning p f) g c =
     g (map f (filter p (t_approval_requests (cl_db c))))
       (c\<lparr>cl_db := (cl_db c)\<lparr>t_approval_requests :=
          map (\<lambda>r. if p r then f r else r) (t_approval_requests (cl_db c))\<rparr>\<rparr>)"
  by (simp add: bnd_def updateRequestsReturning_apply)

lemma firstRequest_keeps:
  "firstRequest rows c = Inr (x, c') \<Longrightarrow> c' = c"
  by (auto simp: firstRequest_def bnd_def ofSum_def comp_simps split: list.splits sum.splits)

lemmas row_defs = rowStep_def sameRequest_def rowOk_def mcpRow_def released_def approvedByOwner_def
  ownedBy_def claimedRow_def settledRow_def

lemma evolves_update:
  assumes "t_agent_runs d' = t_agent_runs d"
    and "t_approval_requests d' = map (\<lambda>r. if P r then f r else r) (t_approval_requests d)"
    and "\<And>r. P r \<Longrightarrow> rowStep (t_agent_runs d) r (f r)"
  shows "evolves d d'"
  using assms by (intro evolves_map [where g = "\<lambda>r. if P r then f r else r"]) (simp_all add: rowStep_refl)

lemma rowStep_claim: "claimable r \<Longrightarrow> rowStep runs r (r\<lparr>raq_executed_at := Some now\<rparr>)"
  by (auto simp: row_defs claimable_def)

lemma rowStep_record:
  "raq_execution_status r = ''queued'' \<Longrightarrow> rowStep runs r (outcomeRow outcome now r)"
  by (auto simp: row_defs outcomeRow_def split: option.splits)

lemma rowStep_settle:
  "staleClaim now ms r \<Longrightarrow> rowStep runs r
     (r\<lparr>raq_execution_status := ''conflict'', raq_execution_error := Some True,
        raq_execution_result := Some res\<rparr>)"
  by (auto simp: row_defs staleClaim_def)

lemma rowStep_decide:
  "raq_status r = ''pending'' \<Longrightarrow> ownedBy user runs r \<Longrightarrow> rowStep runs r (decideRow approve user now r)"
  by (auto simp: row_defs decideRow_def decisionName_def)

text \<open>An operation that ends with reads evolves the tables as its update does.\<close>

definition evolving :: "'a op \<Rightarrow> bool" where
  "evolving fn \<longleftrightarrow> (\<forall>c x c'. fn c = Inr (x, c') \<longrightarrow> evolves (cl_db c) (cl_db c'))"

lemma evolvingD: "evolving fn \<Longrightarrow> fn c = Inr (x, c') \<Longrightarrow> evolves (cl_db c) (cl_db c')"
  by (simp add: evolving_def)

lemma readsOnly_evolving: "readsOnly fn \<Longrightarrow> evolving fn"
  unfolding evolving_def using readsOnlyD by (metis evolves_same actorsKept_refl)

lemma evolving_claim: "evolving (claimApprovalRequestExecution i)"
  unfolding evolving_def
  by (auto simp: claimApprovalRequestExecution_def comp_simps dest!: firstRequest_keeps
      intro!: evolves_update [where P = "\<lambda>r. raq_id r = i \<and> claimable r"] rowStep_claim)

lemma evolving_record: "evolving (recordApprovalRequestOutcome i outcome)"
  unfolding evolving_def
  by (auto simp: recordApprovalRequestOutcome_def comp_simps
      intro!: evolves_update [where P = "\<lambda>r. raq_id r = i \<and> raq_execution_status r = ''queued''"] rowStep_record)

lemma settle_db:
  "settleStaleApprovalRequestClaim i ms c = Inr (x, c') \<Longrightarrow>
     cl_db c' = (cl_db c)\<lparr>t_approval_requests :=
       map (\<lambda>r. if raq_id r = i \<and> staleClaim (cl_now c) ms r
                then r\<lparr>raq_execution_status := ''conflict'', raq_execution_error := Some True,
                       raq_execution_result := Some (JStr unknownOutcomeText)\<rparr> else r)
         (t_approval_requests (cl_db c))\<rparr>"
  by (auto simp: settleStaleApprovalRequestClaim_def selectRequests_def comp_simps
      split: if_splits list.splits)

lemma evolving_settle: "evolving (settleStaleApprovalRequestClaim i ms)"
  unfolding evolving_def
proof (intro allI impI)
  fix c x c' assume "settleStaleApprovalRequestClaim i ms c = Inr (x, c')"
  note db = settle_db [OF this]
  show "evolves (cl_db c) (cl_db c')"
    by (rule evolves_update [where P = "\<lambda>r. raq_id r = i \<and> staleClaim (cl_now c) ms r"])
      (auto simp: db intro!: rowStep_settle)
qed

definition requestsAre :: "ApprovalRequestDbRow list \<Rightarrow> AgentRunDbRow list \<Rightarrow> db \<Rightarrow> bool" where
  "requestsAre rows runs d \<longleftrightarrow> t_approval_requests d = rows \<and> t_agent_runs d = runs"

interpretation reqs: quiet "requestsAre rows runs" for rows runs
  by unfold_locales (simp_all add: requestsAre_def)

lemma evolving_bnd:
  assumes "evolving m" and "\<And>x rows runs. keeps (onDb (requestsAre rows runs)) (f x)"
  shows "evolving (bnd m f)"
  unfolding evolving_def
proof (intro allI impI)
  fix c y c' assume "bnd m f c = Inr (y, c')"
  then obtain x s where m: "m c = Inr (x, s)" and f: "f x s = Inr (y, c')" by (rule bnd_InrE)
  let ?rows = "t_approval_requests (cl_db s)" and ?runs = "t_agent_runs (cl_db s)"
  have "onDb (requestsAre ?rows ?runs) s" by (simp add: onDb_def requestsAre_def)
  from keepsD [OF assms(2) this f] have "t_approval_requests (cl_db c') = ?rows" "t_agent_runs (cl_db c') = ?runs"
    by (simp_all add: onDb_def requestsAre_def)
  with evolvingD [OF assms(1) m] show "evolves (cl_db c) (cl_db c')" by (simp add: evolves_def)
qed

lemma readsOnly_requests [reads_intros]:
  "readsOnly (selectRequests q)" "readsOnly (firstRequest rows)"
  "readsOnly (getApprovalRequest i)" "readsOnly (getApprovalRequestForOwner i user)"
  by (auto simp: selectRequests_def firstRequest_def getApprovalRequest_def getApprovalRequestForOwner_def
      intro!: reads_intros split: list.split)

lemma readsOnly_resolveTarget: "readsOnly (resolveTarget claimed)"
  by (auto simp: resolveTarget_def getAgentRun_def selectAgentRuns_def resolveGrantedMcpTool_def getDatabaseByModuleId_def
      intro!: reads_intros split: option.split list.split)

lemma evolving_decide: "evolving (decideApprovalRequest i approve user)"
  unfolding evolving_def
proof (intro allI impI)
  fix c x c' assume d: "decideApprovalRequest i approve user c = Inr (x, c')"
  let ?P = "\<lambda>r. raq_id r = i \<and> raq_status r = ''pending'' \<and> ownedBy user (t_agent_runs (cl_db c)) r"
  from d have "cl_db c' = (cl_db c)\<lparr>t_approval_requests := map (\<lambda>r. if ?P r
      then decideRow approve user (cl_now c) r else r) (t_approval_requests (cl_db c))\<rparr>"
    by (auto simp: decideApprovalRequest_def requireSingleRow_def comp_simps ofSum_def
        split: if_splits list.splits sum.splits)
  then show "evolves (cl_db c) (cl_db c')"
    by (intro evolves_update [where P = ?P]) (auto intro!: rowStep_decide)
qed

lemma evolving_decideAndEnqueue: "evolving (decideAndEnqueueApprovalRequest i approve user)"
  unfolding decideAndEnqueueApprovalRequest_def
  by (intro evolving_bnd evolving_decide)
    (auto intro!: keeps_intros reqs.keeps_enqueueJobMode readsOnly_keeps [OF readsOnly_requests(4)] split: option.split)

lemma create_evolves:
  assumes "createPendingApprovalRequest newId input c = Inr (x, c')"
    and "newId \<notin> raq_id ` set (t_approval_requests (cl_db c))"
  shows "evolves (cl_db c) (cl_db c')"
proof -
  let ?row = "pendingRow newId input (cl_now c)"
  from assms(1) have "cl_db c' = (cl_db c)\<lparr>t_approval_requests := t_approval_requests (cl_db c) @ [?row]\<rparr>"
    by (auto simp: createPendingApprovalRequest_def ofSum_def bnd_def andThen_def comp_simps split: sum.splits)
  with assms(2) show ?thesis
    unfolding evolves_def
    by (intro conjI exI [of _ "t_approval_requests (cl_db c)"] exI [of _ "[?row]"])
      (auto simp: actorsKept_refl pendingRow_def intro!: list_all2_refl rowStep_refl)
qed

section \<open>A step of the system evolves the rows\<close>

text \<open>
  What is asked of the injected replay of a generic operation: it runs its own transactions, which
  settle generic requests, add none, and leave the requests of tools and the owners of runs alone.
\<close>

definition replayOk :: "approvalReplay option \<Rightarrow> bool" where
  "replayOk replay \<longleftrightarrow> (\<forall>run request w. replay = Some run \<longrightarrow>
     (let d = w_db w; d' = w_db (snd (run request w))
      in actorsKept (t_agent_runs d) (t_agent_runs d') \<and>
         list_all2 (\<lambda>r r'. sameRequest r r' \<and> (mcpRow r \<longrightarrow> r' = r))
           (t_approval_requests d) (t_approval_requests d')))"

lemma replay_evolves:
  assumes "replayOk (Some run)"
  shows "evolves (w_db w) (w_db (snd (run request w)))"
proof -
  let ?d = "w_db w" and ?d' = "w_db (snd (run request w))"
  from assms have kept: "actorsKept (t_agent_runs ?d) (t_agent_runs ?d')"
      and "list_all2 (\<lambda>r r'. sameRequest r r' \<and> (mcpRow r \<longrightarrow> r' = r)) (t_approval_requests ?d) (t_approval_requests ?d')"
    by (simp_all add: replayOk_def Let_def)
  then have "list_all2 (rowStep (t_agent_runs ?d)) (t_approval_requests ?d) (t_approval_requests ?d')"
    by (auto elim!: list_all2_mono simp: rowStep_def sameRequest_def rowOk_def claimedRow_def mcpRow_def)
  with kept show ?thesis
    unfolding evolves_def by (intro conjI exI [of _ "t_approval_requests ?d'"] exI [of _ "[]"]) simp_all
qed

lemma txStep_evolves:
  assumes "evolving fn" and "txStep env p fn next w = (d, w')"
  shows "evolves (w_db w) (w_db w')"
proof -
  obtain r w'' where r: "withTransaction env p fn w = (r, w'')" by force
  with assms(2) have "w'' = w'" by (auto simp: txStep_def split: sum.splits)
  with r assms(1) show ?thesis by (auto elim!: transaction_evolves dest: evolvingD)
qed

lemma deliveryStep_evolves:
  assumes "replayOk replay" and "deliveryStep p replay env answer e (w, calls) = (e', w', calls')"
  shows "evolves (w_db w) (w_db w')"
proof -
  have refl: "evolves d d" for d by (simp add: evolves_same actorsKept_refl)
  show ?thesis
  proof (cases e)
    case (DReplay request)
    with assms replay_evolves [of "the replay" w request] refl show ?thesis
      by (auto split: option.splits prod.splits sum.splits)
  qed (use assms(2) refl in \<open>auto elim!: txStep_evolves [rotated] split: prod.splits if_splits
      intro: readsOnly_evolving evolving_record evolving_claim evolving_settle readsOnly_resolveTarget readsOnly_requests\<close>)
qed

lemma execStep_evolves:
  assumes "execStep p replay s s'" and "replayOk replay"
  shows "evolves (w_db (es_world s)) (w_db (es_world s'))"
  using assms(1)
proof cases
  case (advance k env answer d w calls)
  with assms(2) show ?thesis by (auto dest: deliveryStep_evolves)
next
  case (request newId input r w)
  then show ?thesis by (auto elim!: transaction_evolves) (metis create_evolves)
next
  case (decide i approve user r' w)
  then show ?thesis by (auto elim!: transaction_evolves) (metis evolvingD evolving_decideAndEnqueue)
next
  case (other w)
  then show ?thesis by (auto simp: actorsKept_def intro!: evolves_same)
qed (simp_all add: evolves_same actorsKept_refl)

section \<open>Who may call\<close>

text \<open>
  A call that was made, and a delivery that holds a claim and may still make its call, are both
  tokens for the request. The invariant: at most one token per request, and every token names a
  claimed request, with the tool and the arguments of its row.
\<close>

fun tokenOf :: "delivery \<Rightarrow> toolCall list" where
  "tokenOf (DResolve claimed) = [callOf claimed]"
| "tokenOf (DCall claimed target) = [callOf claimed]"
| "tokenOf _ = []"

definition tokensFor :: "id \<Rightarrow> toolCall list \<Rightarrow> nat" where
  "tokensFor i calls = length (filter (\<lambda>t. tc_idempotencyKey t = i) calls)"

definition tokens :: "execState \<Rightarrow> toolCall list" where
  "tokens s = es_calls s @ concat (map tokenOf (es_deliveries s))"

definition backs :: "toolCall \<Rightarrow> ApprovalRequestDbRow \<Rightarrow> bool" where
  "backs t r \<longleftrightarrow> raq_id r = tc_idempotencyKey t \<and> raq_tool_name r = tc_toolName t \<and>
     claimedRow r \<and> ap_args (raq_payload r) = tc_args t"

definition execInv :: "execState \<Rightarrow> bool" where
  "execInv s \<longleftrightarrow> distinct (map raq_id (requestsOf s)) \<and> (\<forall>r \<in> set (requestsOf s). rowOk (runsOf s) r) \<and>
     (\<forall>i. tokensFor i (tokens s) \<le> 1) \<and> (\<forall>t \<in> set (tokens s). \<exists>r \<in> set (requestsOf s). backs t r)"

lemma tokensFor_append [simp]: "tokensFor i (xs @ ys) = tokensFor i xs + tokensFor i ys"
  by (simp add: tokensFor_def)

lemma tokensFor_Nil [simp]: "tokensFor i [] = 0"
  by (simp add: tokensFor_def)

lemma tokensFor_single: "tokensFor i [t] = (if tc_idempotencyKey t = i then 1 else 0)"
  by (simp add: tokensFor_def)

lemma tokensFor_0: "(\<And>t. t \<in> set ts \<Longrightarrow> tc_idempotencyKey t \<noteq> i) \<Longrightarrow> tokensFor i ts = 0"
  by (simp add: tokensFor_def filter_empty_conv)

lemma tokensFor_distinct: "(\<And>i. tokensFor i ts \<le> 1) \<Longrightarrow> distinct (map tc_idempotencyKey ts)"
proof (induction ts)
  case (Cons t ts)
  have "tokensFor i ts \<le> 1" for i using Cons.prems [of i] by (auto simp: tokensFor_def split: if_splits)
  moreover have "tokensFor (tc_idempotencyKey t) ts = 0"
    using Cons.prems [of "tc_idempotencyKey t"] by (simp add: tokensFor_def)
  ultimately show ?case using Cons.IH by (auto simp: tokensFor_def filter_empty_conv)
qed simp

text \<open>Exchanging one delivery: the tokens around it stay.\<close>

lemma tokens_split:
  assumes "k < length ds"
  shows "concat (map tokenOf ds) = concat (map tokenOf (take k ds)) @ tokenOf (ds ! k) @ concat (map tokenOf (drop (Suc k) ds))"
  using assms by (metis concat.simps(2) concat_append id_take_nth_drop list.simps(9) map_append)

lemma tokens_update:
  assumes "k < length ds"
  shows "concat (map tokenOf (ds[k := d])) = concat (map tokenOf (take k ds)) @ tokenOf d @ concat (map tokenOf (drop (Suc k) ds))"
  using assms by (simp add: upd_conv_take_nth_drop)

lemma backs_evolves:
  assumes "evolves d d'" and "\<exists>r \<in> set (t_approval_requests d). backs t r"
  shows "\<exists>r \<in> set (t_approval_requests d'). backs t r"
proof -
  from assms(2) obtain r where "r \<in> set (t_approval_requests d)" "backs t r" by blast
  with assms(1) obtain r' where "r' \<in> set (t_approval_requests d')" "rowStep (t_agent_runs d) r r'"
    by (blast elim: evolvesE)
  with \<open>backs t r\<close> show ?thesis by (auto simp: backs_def rowStep_def sameRequest_def)
qed

text \<open>
  A step that evolves the rows and makes no new token keeps the invariant.
\<close>

lemma execInv_step:
  assumes "execInv s" and "evolves (w_db (es_world s)) (w_db (es_world s'))"
    and "\<And>i. tokensFor i (tokens s') \<le> tokensFor i (tokens s)" and "set (tokens s') \<subseteq> set (tokens s)"
  shows "execInv s'"
  unfolding execInv_def
proof (intro conjI allI ballI)
  show "distinct (map raq_id (requestsOf s'))"
    using assms(1,2) by (simp add: execInv_def evolves_ids)
  show "tokensFor i (tokens s') \<le> 1" for i
    using assms(1) le_trans [OF assms(3)] by (simp add: execInv_def)
  show "rowOk (runsOf s') r" if "r \<in> set (requestsOf s')" for r
    using evolves_rowOk [OF assms(2)] assms(1) that by (simp add: execInv_def)
  show "\<exists>r \<in> set (requestsOf s'). backs t r" if "t \<in> set (tokens s')" for t
    using that assms(1,4) backs_evolves [OF assms(2)] by (auto simp: execInv_def)
qed

section \<open>The invariant\<close>

lemma claim_Some:
  assumes "claimApprovalRequestExecution i c = Inr (Some q, c')"
    and "\<not> isGenericOperationApprovalRequestPayload (aq_payload q)"
  obtains r where "r \<in> set (t_approval_requests (cl_db c))" and "raq_id r = i" and "claimable r"
    and "r\<lparr>raq_executed_at := Some (cl_now c)\<rparr> \<in> set (t_approval_requests (cl_db c'))"
    and "backs (callOf q) (r\<lparr>raq_executed_at := Some (cl_now c)\<rparr>)"
proof -
  let ?P = "\<lambda>r. raq_id r = i \<and> claimable r" and ?f = "\<lambda>r. r\<lparr>raq_executed_at := Some (cl_now c)\<rparr>"
  let ?rows = "t_approval_requests (cl_db c)"
  from assms(1) have "firstRequest (map ?f (filter ?P ?rows))
      (c\<lparr>cl_db := (cl_db c)\<lparr>t_approval_requests := map (\<lambda>r. if ?P r then ?f r else r) ?rows\<rparr>\<rparr>) = Inr (Some q, c')"
    by (simp add: claimApprovalRequestExecution_def comp_simps)
  then obtain r rest where r: "filter ?P ?rows = r # rest" and q: "rowToApprovalRequest (?f r) = Inr q"
      and c': "cl_db c' = (cl_db c)\<lparr>t_approval_requests := map (\<lambda>r. if ?P r then ?f r else r) ?rows\<rparr>"
    by (auto simp: firstRequest_def bnd_def ofSum_def comp_simps split: list.splits sum.splits)
  from r have "r \<in> set (filter ?P ?rows)" by simp
  then have in_rows: "r \<in> set ?rows" "raq_id r = i" "claimable r" by auto
  from in_rows have "?f r \<in> set (t_approval_requests (cl_db c'))"
    by (auto simp: c' image_iff intro!: bexI [of _ r])
  moreover from q assms(2) in_rows(3) have "backs (callOf q) (?f r)"
    by (auto simp: rowToApprovalRequest_def backs_def callOf_def row_defs claimable_def split: sum.splits)
  ultimately show thesis using that in_rows by blast
qed

lemma rowToApprovalRequest_id: "rowToApprovalRequest r = Inr q \<Longrightarrow> aq_id q = raq_id r"
  by (auto simp: rowToApprovalRequest_def split: sum.splits)

lemma distinct_ids_unique:
  "distinct (map raq_id rows) \<Longrightarrow> r \<in> set rows \<Longrightarrow> r' \<in> set rows \<Longrightarrow> raq_id r = raq_id r' \<Longrightarrow> r = r'"
  by (metis distinct_map inj_onD)

text \<open>What a step of a delivery does with its token, unless it claims.\<close>

lemma deliveryStep_tokens:
  assumes "deliveryStep p replay env answer e (w, calls) = (e', w', calls')" and "\<And>i. e \<noteq> DClaim i"
  shows "tokensFor i (calls' @ tokenOf e') \<le> tokensFor i (calls @ tokenOf e) \<and>
    set (calls' @ tokenOf e') \<subseteq> set (calls @ tokenOf e)"
  using assms
  by (cases e) (auto simp: txStep_def afterRead_def afterSettle_def
      split: prod.splits sum.splits option.splits if_splits StaleApprovalClaimSettlement.splits)

text \<open>A step that claims finds a request nobody claimed, and makes the one token for it.\<close>

lemma claimStep:
  assumes "deliveryStep p replay env answer (DClaim i) (w, calls) = (e', w', calls')"
  obtains (none) "calls' = calls" and "tokenOf e' = []"
  | (claimed) q r r' where "calls' = calls" and "tokenOf e' = [callOf q]"
      and "r \<in> set (t_approval_requests (w_db w))" and "raq_id r = i" and "claimable r"
      and "r' \<in> set (t_approval_requests (w_db w'))" and "backs (callOf q) r'" and "raq_id r' = i"
proof -
  obtain res w1 where tx: "withTransaction env p (claimApprovalRequestExecution i) w = (res, w1)" by force
  with assms have w1: "w1 = w'" and calls: "calls' = calls"
      and e': "e' = (case res of Inl x \<Rightarrow> DFailed x | Inr x \<Rightarrow> afterClaim i x)"
    by (auto simp: txStep_def split: sum.splits)
  show thesis
  proof (cases "tokenOf e' = []")
    case True
    with none calls show ?thesis by simp
  next
    case False
    with e' obtain q where res: "res = Inr (Some q)" and e'': "e' = DResolve q"
        and mcp: "\<not> isGenericOperationApprovalRequestPayload (aq_payload q)"
      by (auto simp: afterClaim_def split: sum.splits option.splits if_splits)
    from tx [unfolded res] obtain scope c where
        c: "claimApprovalRequestExecution i (beginTx env scope w) = Inr (Some q, c)" "w_db w1 = cl_db c"
      by (rule withTransaction_InrE)
    from claim_Some [OF c(1) mcp] obtain r where "r \<in> set (t_approval_requests (w_db w))" "raq_id r = i" "claimable r"
        "r\<lparr>raq_executed_at := Some (tx_now env)\<rparr> \<in> set (t_approval_requests (w_db w'))"
        "backs (callOf q) (r\<lparr>raq_executed_at := Some (tx_now env)\<rparr>)"
      using c(2) w1 by (auto simp: beginTx_def)
    with claimed [OF calls] e'' show ?thesis by auto
  qed
qed

lemma no_token_claimable:
  assumes "execInv s" and "r \<in> set (requestsOf s)" and "claimable r"
  shows "tokensFor (raq_id r) (tokens s) = 0"
proof (rule tokensFor_0)
  fix t assume "t \<in> set (tokens s)"
  with assms(1) obtain r' where r': "r' \<in> set (requestsOf s)" "backs t r'" by (auto simp: execInv_def)
  show "tc_idempotencyKey t \<noteq> raq_id r"
  proof
    assume "tc_idempotencyKey t = raq_id r"
    with r' assms(1,2) have "r' = r" using distinct_ids_unique by (auto simp: execInv_def backs_def)
    with r'(2) assms(3) show False by (simp add: backs_def claimedRow_def claimable_def)
  qed
qed

lemma tokens_advance:
  assumes "k < length (es_deliveries s)"
  shows "tokensFor i (tokens (s\<lparr>es_world := w, es_calls := calls, es_deliveries := (es_deliveries s)[k := d]\<rparr>)) +
      tokensFor i (es_calls s @ tokenOf (es_deliveries s ! k)) =
      tokensFor i (tokens s) + tokensFor i (calls @ tokenOf d)"
    and "set (tokens (s\<lparr>es_world := w, es_calls := calls, es_deliveries := (es_deliveries s)[k := d]\<rparr>)) \<subseteq>
      set (tokens s) \<union> set (calls @ tokenOf d)"
  using tokens_split [OF assms] tokens_update [OF assms, of d] by (auto simp: tokens_def)

lemma execInv_advance:
  assumes "execInv s" and "replayOk replay" and k: "k < length (es_deliveries s)"
    and step: "deliveryStep p replay env answer (es_deliveries s ! k) (es_world s, es_calls s) = (d, w, calls)"
  shows "execInv (s\<lparr>es_world := w, es_calls := calls, es_deliveries := (es_deliveries s)[k := d]\<rparr>)"
    (is "execInv ?s'")
proof -
  have ev: "evolves (w_db (es_world s)) (w_db (es_world ?s'))"
    using deliveryStep_evolves [OF assms(2) step] by simp
  have held: "set (es_calls s @ tokenOf (es_deliveries s ! k)) \<subseteq> set (tokens s)"
    using k by (auto simp: tokens_def)
  have quiet: "execInv ?s'" if "\<And>i. tokensFor i (calls @ tokenOf d) \<le> tokensFor i (es_calls s @ tokenOf (es_deliveries s ! k))"
      and "set (calls @ tokenOf d) \<subseteq> set (es_calls s @ tokenOf (es_deliveries s ! k))"
  proof (rule execInv_step [OF assms(1) ev])
    show "tokensFor i (tokens ?s') \<le> tokensFor i (tokens s)" for i
      using tokens_advance(1) [OF k, of i d calls w] that(1) [of i] by linarith
    show "set (tokens ?s') \<subseteq> set (tokens s)"
      using tokens_advance(2) [OF k, of d calls w] that(2) held by blast
  qed
  show ?thesis
  proof (cases "\<exists>i. es_deliveries s ! k = DClaim i")
    case False
    with deliveryStep_tokens [OF step] show ?thesis by (intro quiet) blast+
  next
    case True
    then obtain i where i: "es_deliveries s ! k = DClaim i" by blast
    from step [unfolded i] show ?thesis
    proof (cases rule: claimStep)
      case none
      with i show ?thesis by (intro quiet) simp_all
    next
      case (claimed q r r')
      have key: "tc_idempotencyKey (callOf q) = i" using claimed by (simp add: backs_def)
      have zero: "tokensFor i (tokens s) = 0"
        using no_token_claimable [OF assms(1) claimed(3) claimed(5)] claimed(4) by simp
      have "tokensFor j (tokens ?s') \<le> 1" for j
        using tokens_advance(1) [OF k, of j d calls w] assms(1) zero key i claimed(1,2)
        by (cases "j = i") (simp_all add: execInv_def tokensFor_single)
      moreover have "\<exists>r \<in> set (requestsOf ?s'). backs t r" if "t \<in> set (tokens ?s')" for t
      proof -
        from that tokens_advance(2) [OF k, of d calls w] claimed(1,2) i have "t \<in> set (tokens s) \<or> t = callOf q"
          using held by auto
        then show ?thesis using assms(1) backs_evolves [OF ev] claimed(6,7) by (auto simp: execInv_def)
      qed
      ultimately show ?thesis
        using assms(1) evolves_ids [OF ev] evolves_rowOk [OF ev] by (simp add: execInv_def)
    qed
  qed
qed

lemma execInv_execStep:
  assumes "execStep p replay s s'" and "replayOk replay" and "execInv s"
  shows "execInv s'"
  using assms(1)
proof cases
  case (advance k env answer d w calls)
  with execInv_advance [OF assms(3,2)] show ?thesis by simp
next
  case (die k)
  have "concat (map tokenOf (es_deliveries s)) = concat (map tokenOf (take k (es_deliveries s))) @
      tokenOf (es_deliveries s ! k) @ concat (map tokenOf (drop (Suc k) (es_deliveries s)))"
    by (rule tokens_split [OF die(2)])
  with die show ?thesis
    by (intro execInv_step [OF assms(3) execStep_evolves [OF assms(1,2)]]) (auto simp: tokens_def)
qed (intro execInv_step [OF assms(3) execStep_evolves [OF assms(1,2)]]; simp add: tokens_def)+

lemma execInv_steps:
  assumes "(execStep p replay)\<^sup>*\<^sup>* s s'" and "replayOk replay" and "execInv s"
  shows "execInv s'"
  using assms by (induction rule: rtranclp_induct) (auto intro: execInv_execStep)

text \<open>The queue is empty and nothing was called yet; the rows are as the store writes them.\<close>

definition execStart :: "execState \<Rightarrow> bool" where
  "execStart s \<longleftrightarrow> es_calls s = [] \<and> es_deliveries s = [] \<and> distinct (map raq_id (requestsOf s)) \<and>
     (\<forall>r \<in> set (requestsOf s). rowOk (runsOf s) r)"

lemma execStart_inv: "execStart s \<Longrightarrow> execInv s"
  by (simp add: execStart_def execInv_def tokens_def)

section \<open>Each approved call at most once\<close>

text \<open>
  C6: whatever deliveries, crashes, decisions and other transactions
  interleave, from an empty queue no request's tool is ever called twice, and each call that was
  made carries the tool and the arguments of a request that the user owning its run approved.
\<close>

theorem approved_call_at_most_once:
  assumes "(execStep p replay)\<^sup>*\<^sup>* s s'" and "execStart s" and "replayOk replay"
  shows "distinct (map tc_idempotencyKey (es_calls s')) \<and>
    (\<forall>t \<in> set (es_calls s'). \<exists>r \<in> set (requestsOf s').
       raq_id r = tc_idempotencyKey t \<and> raq_tool_name r = tc_toolName t \<and>
       (\<exists>registration server. raq_payload r = McpInvokePayload registration server (tc_args t)) \<and>
       approvedByOwner (runsOf s') r)"
proof (intro conjI ballI)
  have inv: "execInv s'" by (rule execInv_steps [OF assms(1,3) execStart_inv [OF assms(2)]])
  then have "tokensFor i (es_calls s') \<le> 1" for i
    unfolding execInv_def tokens_def by (metis add_leD1 tokensFor_append)
  then show "distinct (map tc_idempotencyKey (es_calls s'))" by (rule tokensFor_distinct)
  fix t assume "t \<in> set (es_calls s')"
  then have "t \<in> set (tokens s')" by (simp add: tokens_def)
  with inv obtain r where "r \<in> set (requestsOf s')" "backs t r" "rowOk (runsOf s') r"
    unfolding execInv_def by blast
  then show "\<exists>r \<in> set (requestsOf s'). raq_id r = tc_idempotencyKey t \<and> raq_tool_name r = tc_toolName t \<and>
       (\<exists>registration server. raq_payload r = McpInvokePayload registration server (tc_args t)) \<and>
       approvedByOwner (runsOf s') r"
    by (intro bexI [of _ r]) (auto simp: backs_def claimedRow_def rowOk_def mcpRow_def
        isGenericOperationApprovalRequestPayload_def split: ApprovalRequestPayload.splits)
qed

text \<open>
  C21: once the outcome of a tool request is recorded, succeeded or conflict,
  nothing that happens later changes the row: no late delivery overwrites a result, and a decision
  on it has no effect.
\<close>

theorem settled_outcome_final:
  assumes "(execStep p replay)\<^sup>*\<^sup>* s0 s" and "execStart s0" and "replayOk replay"
    and "r \<in> set (requestsOf s)" and "\<not> isGenericOperationApprovalRequestPayload (raq_payload r)"
    and "raq_execution_status r = ''succeeded'' \<or> raq_execution_status r = ''conflict''"
    and "(execStep p replay)\<^sup>*\<^sup>* s s'"
  shows "r \<in> set (requestsOf s')"
  using assms(7)
proof (induction rule: rtranclp_induct)
  case (step s1 s2)
  have "(execStep p replay)\<^sup>*\<^sup>* s0 s1" using assms(1) step.hyps(1) by simp
  then have "execInv s1" by (rule execInv_steps [OF _ assms(3) execStart_inv [OF assms(2)]])
  with step.IH have "rowOk (runsOf s1) r" by (simp add: execInv_def)
  moreover obtain r' where "r' \<in> set (requestsOf s2)" "rowStep (runsOf s1) r r'"
    using evolvesE [OF execStep_evolves [OF step.hyps(2) assms(3)] step.IH] by blast
  ultimately show ?case
    using assms(5,6) by (simp add: rowStep_def mcpRow_def settledRow_def)
qed (rule assms(4))

section \<open>A delivery ends\<close>

lemma deliveryStep_stepsLeft:
  "stepsLeft (fst (deliveryStep p replay env answer d (w, calls))) \<le> stepsLeft d - 1"
  by (cases d) (auto simp: txStep_def afterRead_def afterClaim_def afterSettle_def
      split: prod.splits sum.splits option.splits StaleApprovalClaimSettlement.splits)

lemma stepsLeft_finished: "finished d \<longleftrightarrow> stepsLeft d = 0"
  by (cases d) simp_all

lemma handle_stepsLeft:
  "stepsLeft (fst (handleApprovalRequestExecuteTask p replay envs d s)) \<le> stepsLeft d - length envs"
proof (induction envs arbitrary: d s)
  case (Cons e envs)
  obtain env answer where e: "e = (env, answer)" by (cases e)
  obtain w calls where s: "s = (w, calls)" by (cases s)
  obtain d' s' where d': "deliveryStep p replay env answer d s = (d', s')"
    by (cases "deliveryStep p replay env answer d s")
  have "stepsLeft d' \<le> stepsLeft d - 1" using deliveryStep_stepsLeft [of p replay env answer d w calls] d' s by simp
  with Cons.IH [of d' s'] d' e show ?case by simp
qed simp


section \<open>A dead worker's claim is settled\<close>

lemmas filter_by_id = filter_by_key [where key = raq_id]

text \<open>What the three steps of a delivery do on a request an earlier delivery claimed.\<close>

lemma getApprovalRequest_apply:
  assumes "distinct (map raq_id (t_approval_requests (cl_db c)))" and "r \<in> set (t_approval_requests (cl_db c))"
    and "rowToApprovalRequest r = Inr q"
  shows "getApprovalRequest (raq_id r) c = Inr (Some q, c)"
  using filter_by_id [OF assms(1,2), of "\<lambda>_. True"] assms(3)
  by (simp add: getApprovalRequest_def selectRequests_def firstRequest_def comp_simps)

lemma claim_none:
  assumes "distinct (map raq_id (t_approval_requests (cl_db c)))" and "r \<in> set (t_approval_requests (cl_db c))"
    and "\<not> claimable r"
  shows "claimApprovalRequestExecution (raq_id r) c = Inr (None, c)"
proof -
  let ?rows = "t_approval_requests (cl_db c)"
  have none: "filter (\<lambda>x. raq_id x = raq_id r \<and> claimable x) ?rows = []"
    using filter_by_id [OF assms(1,2), of claimable] assms(3) by simp
  then have "map (\<lambda>x. if raq_id x = raq_id r \<and> claimable x then f x else x) ?rows = ?rows" for f
    by (intro map_idI) (auto simp: filter_empty_conv)
  with none show ?thesis
    by (simp add: claimApprovalRequestExecution_def firstRequest_def comp_simps)
qed

definition settledRowOf :: "ApprovalRequestDbRow \<Rightarrow> ApprovalRequestDbRow" where
  "settledRowOf r = r\<lparr>raq_execution_status := ''conflict'', raq_execution_error := Some True,
     raq_execution_result := Some (JStr unknownOutcomeText)\<rparr>"

lemma settle_apply:
  assumes "distinct (map raq_id (t_approval_requests (cl_db c)))" and "r \<in> set (t_approval_requests (cl_db c))"
    and "staleClaim (cl_now c) ms r"
  shows "settleStaleApprovalRequestClaim (raq_id r) ms c = Inr (Settled, c\<lparr>cl_db := (cl_db c)\<lparr>t_approval_requests :=
    map (\<lambda>x. if x = r then settledRowOf x else x) (t_approval_requests (cl_db c))\<rparr>\<rparr>)"
proof -
  let ?rows = "t_approval_requests (cl_db c)"
  have "(raq_id x = raq_id r \<and> staleClaim (cl_now c) ms x) = (x = r)" if "x \<in> set ?rows" for x
    using distinct_ids_unique [OF assms(1) that assms(2)] assms(3) by auto
  then have eq: "map (\<lambda>x. if raq_id x = raq_id r \<and> staleClaim (cl_now c) ms x then settledRowOf x else x) ?rows =
      map (\<lambda>x. if x = r then settledRowOf x else x) ?rows" by (intro map_cong) auto
  from filter_by_id [OF assms(1,2), of "staleClaim (cl_now c) ms"] assms(3) show ?thesis
    by (simp add: settleStaleApprovalRequestClaim_def comp_simps flip: settledRowOf_def) (simp add: eq)
qed

text \<open>
  C26: a delivery that claimed an approved request and died leaves it queued.
  Ten minutes after the claim, the next delivery of the job, if its three transactions commit,
  ends without calling the tool and records the request as a conflict of unknown outcome; no other
  request changes.
\<close>

theorem stale_claim_settled:
  assumes "distinct (map raq_id (t_approval_requests (w_db w)))" and "r \<in> set (t_approval_requests (w_db w))"
    and "raq_status r = ''approved''" and "raq_execution_status r = ''queued''" and "raq_executed_at r = Some t"
    and "\<not> isGenericOperationApprovalRequestPayload (raq_payload r)"
    and "willCommit e1" and "willCommit e2" and "willCommit e3"
    and "t < tx_now e3 - 10 * 60 * 1000 * 1000"
  shows "\<exists>w'. handleApprovalRequestExecuteTask p replay [(e1, a1), (e2, a2), (e3, a3)] (DStart (raq_id r)) (w, calls) =
      (DDone, w', calls) \<and>
    w_db w' = (w_db w)\<lparr>t_approval_requests :=
      map (\<lambda>x. if x = r then settledRowOf x else x) (t_approval_requests (w_db w))\<rparr>"
proof -
  from assms(3,4) obtain q where q: "rowToApprovalRequest r = Inr q"
    by (simp add: rowToApprovalRequest_def assertKnownValue_def APPROVAL_REQUEST_STATUSES_def
        APPROVAL_REQUEST_EXECUTION_STATUSES_def)
  then have q': "aq_payload q = raq_payload r" "aq_id q = raq_id r"
    by (auto simp: rowToApprovalRequest_def split: sum.splits)
  have "getApprovalRequest (raq_id r) c = Inr (Some q, c)" if "cl_db c = w_db w" for c
    using assms(1,2) q that by (intro getApprovalRequest_apply) simp_all
  then obtain w1 where w1: "withTransaction e1 p (getApprovalRequest (raq_id r)) w = (Inr (Some q), w1)" "w_db w1 = w_db w"
    by (elim willCommit_tx [OF assms(7), rotated]) (auto simp: beginTx_def)
  have "claimApprovalRequestExecution (raq_id r) c = Inr (None, c)" if "cl_db c = w_db w" for c
    using assms(1,2,5) that by (intro claim_none) (simp_all add: claimable_def)
  then obtain w2 where w2: "withTransaction e2 p (claimApprovalRequestExecution (raq_id r)) w1 = (Inr None, w2)"
      "w_db w2 = w_db w"
    using w1(2) by (elim willCommit_tx [OF assms(8), rotated]) (auto simp: beginTx_def)
  let ?d = "(w_db w)\<lparr>t_approval_requests :=
      map (\<lambda>x. if x = r then settledRowOf x else x) (t_approval_requests (w_db w))\<rparr>"
  have "settleStaleApprovalRequestClaim (raq_id r) MCP_APPROVAL_CLAIM_STALE_AFTER_MS c = Inr (Settled, c\<lparr>cl_db := ?d\<rparr>)"
    if "cl_db c = w_db w" "cl_now c = tx_now e3" for c
    using assms(1-5,10) that settle_apply [of c r MCP_APPROVAL_CLAIM_STALE_AFTER_MS]
    by (simp add: staleClaim_def MCP_APPROVAL_CLAIM_STALE_AFTER_MS_def)
  then obtain w3 where w3: "withTransaction e3 p (settleStaleApprovalRequestClaim (raq_id r)
      MCP_APPROVAL_CLAIM_STALE_AFTER_MS) w2 = (Inr Settled, w3)" "w_db w3 = ?d"
    using w2(2) by (elim willCommit_tx [OF assms(9), rotated]) (auto simp: beginTx_def)
  from w1(1) w2(1) w3 q' assms(6) show ?thesis
    by (simp add: txStep_def afterRead_def afterClaim_def afterSettle_def)
qed

section \<open>Concrete instances\<close>

text \<open>The steps of one delivery, as steps of the system.\<close>

lemma handle_steps:
  "handleApprovalRequestExecuteTask p replay envs d (es_world s, es_calls s) = (d', w', calls') \<Longrightarrow>
     es_deliveries s = [d] \<Longrightarrow>
     (execStep p replay)\<^sup>*\<^sup>* s (s\<lparr>es_world := w', es_calls := calls', es_deliveries := [d']\<rparr>)"
proof (induction envs arbitrary: s d)
  case (Cons e envs)
  obtain env answer where e: "e = (env, answer)" by (cases e)
  obtain d1 w1 calls1 where step: "deliveryStep p replay env answer d (es_world s, es_calls s) = (d1, w1, calls1)"
    by (metis prod.exhaust)
  let ?s1 = "s\<lparr>es_world := w1, es_calls := calls1, es_deliveries := [d1]\<rparr>"
  have "execStep p replay s (s\<lparr>es_world := w1, es_calls := calls1, es_deliveries := (es_deliveries s)[0 := d1]\<rparr>)"
    by (rule execStep.advance [where env = env and answer = answer]) (use Cons.prems step in simp_all)
  then have "execStep p replay s ?s1" using Cons.prems(2) by simp
  moreover have "(execStep p replay)\<^sup>*\<^sup>* ?s1 (s\<lparr>es_world := w', es_calls := calls', es_deliveries := [d']\<rparr>)"
    using Cons.IH [of d1 ?s1] Cons.prems(1) e step by simp
  ultimately show ?case by (rule converse_rtranclp_into_rtranclp)
next
  case Nil
  then have "s\<lparr>es_world := w', es_calls := calls', es_deliveries := [d']\<rparr> = s" by auto
  then show ?case by simp
qed

definition approvedRow :: ApprovalRequestDbRow where
  "approvedRow =
     \<lparr>raq_id = ''a1'', raq_agent_run_id = ''r1'', raq_tool_name = ''send'', raq_risk_class = ''write'',
      raq_payload = McpInvokePayload ''g1'' ''srv'' [(''to'', JStr ''x'')], raq_status = ''approved'',
      raq_requested_at = 0, raq_decided_at = Some 1, raq_decided_by = Some ''u1'',
      raq_resource_snapshot = \<lparr>asn_kind = ''mcp_tool'', asn_resourceId = ''g1'', asn_sha256 = None\<rparr>,
      raq_execution_status = ''queued'', raq_executed_at = None, raq_execution_error = None,
      raq_execution_result = None\<rparr>"

definition approvalWorld :: "ApprovalRequestDbRow \<Rightarrow> world" where
  "approvalWorld row = \<lparr>w_db = emptyDb
     \<lparr>t_databases := [(exampleDatabase ''m'' None)\<lparr>rdb_owner_module_id := Some ''mcpServers'', rdb_system := True\<rparr>],
      t_items := [exampleItem ''m'' ''srv'' [(''active'', JBool True)] None],
      t_mcp_tool_registrations := [\<lparr>rmt_id = ''g1'', rmt_mcp_server_item_id = ''srv'', rmt_tool_name = ''send'',
        rmt_tool_schema = JNull, rmt_requires_approval = True, rmt_risk_class = ''write'', rmt_active = True,
        rmt_updated_at = 0\<rparr>],
      t_project_mcp_grants := [\<lparr>rmg_project_item_id = ''p'', rmg_mcp_tool_registration_id = ''g1'', rmg_granted = True\<rparr>],
      t_agent_runs := [\<lparr>rar_id = ''r1'', rar_project_item_id = Some ''p'', rar_parent_run_id = None,
        rar_heartbeat_id = None, rar_triggered_by = ''user'', rar_unit = ''session'', rar_task = '''',
        rar_status = ''done'', rar_result = None, rar_started_at = 0, rar_finished_at = Some 1,
        rar_actor_user_id = ''u1'', rar_wake_seq = 1\<rparr>],
      t_approval_requests := [row]\<rparr>, w_parked = [], w_notified = []\<rparr>"

definition approvalStart :: execState where
  "approvalStart = \<lparr>es_world = approvalWorld approvedRow, es_calls = [], es_deliveries = []\<rparr>"

definition okAnswer :: ApprovalRequestOutcome where
  "okAnswer = \<lparr>aro_error = False, aro_result = ''sent''\<rparr>"

definition approvalHandled :: "delivery \<times> world \<times> toolCall list" where
  "approvalHandled = handleApprovalRequestExecuteTask (\<lambda>_. True) None (replicate 5 (exampleTx, okAnswer))
     (DStart ''a1'') (approvalWorld approvedRow, [])"

definition approvalEnd :: execState where
  "approvalEnd = \<lparr>es_world = fst (snd approvalHandled), es_calls = snd (snd approvalHandled),
     es_deliveries = [fst approvalHandled]\<rparr>"

lemma approval_eval:
  "es_calls approvalEnd = [\<lparr>tc_idempotencyKey = ''a1'', tc_toolName = ''send'', tc_args = [(''to'', JStr ''x'')]\<rparr>]"
  "es_deliveries approvalEnd = [DDone]"
  "map raq_execution_status (requestsOf approvalEnd) = [''succeeded'']"
  by code_simp+

lemma approval_steps: "(execStep (\<lambda>_. True) None)\<^sup>*\<^sup>* approvalStart approvalEnd"
proof -
  let ?s = "approvalStart\<lparr>es_deliveries := [DStart ''a1'']\<rparr>"
  have "execStep (\<lambda>_. True) None approvalStart ?s"
    using execStep.deliver [of "\<lambda>_. True" None approvalStart "''a1''"] by (simp add: approvalStart_def)
  moreover have "(execStep (\<lambda>_. True) None)\<^sup>*\<^sup>* ?s (?s\<lparr>es_world := fst (snd approvalHandled),
      es_calls := snd (snd approvalHandled), es_deliveries := [fst approvalHandled]\<rparr>)"
    by (rule handle_steps [where envs = "replicate 5 (exampleTx, okAnswer)" and d = "DStart ''a1''"])
      (simp_all add: approvalHandled_def approvalStart_def)
  ultimately show ?thesis
    by (simp add: approvalEnd_def approvalStart_def converse_rtranclp_into_rtranclp)
qed

lemma approvalStart_ok: "execStart approvalStart"
  by (simp add: execStart_def approvalStart_def approvalWorld_def approvedRow_def row_defs emptyDb_def)

lemma replayOk_None: "replayOk None"
  by (simp add: replayOk_def)

theorem approved_call_at_most_once_witness:
  "distinct (map tc_idempotencyKey (es_calls approvalEnd)) \<and> length (es_calls approvalEnd) = 1"
  using approved_call_at_most_once [OF approval_steps approvalStart_ok replayOk_None]
  by (simp add: approval_eval)

definition approvalRow :: ApprovalRequestDbRow where
  "approvalRow = hd (requestsOf approvalEnd)"

lemma approvalRow_eval:
  "approvalRow \<in> set (requestsOf approvalEnd)"
  "isGenericOperationApprovalRequestPayload (raq_payload approvalRow) = False"
  "raq_execution_status approvalRow = ''succeeded''"
  by code_simp+

theorem settled_outcome_final_witness:
  "approvalRow \<in> set (requestsOf (approvalEnd\<lparr>es_deliveries := [DDone, DStart ''a1'']\<rparr>))"
proof (rule settled_outcome_final [OF approval_steps approvalStart_ok replayOk_None approvalRow_eval(1)])
  show "\<not> isGenericOperationApprovalRequestPayload (raq_payload approvalRow)"
    by (simp add: approvalRow_eval)
  show "raq_execution_status approvalRow = ''succeeded'' \<or> raq_execution_status approvalRow = ''conflict''"
    by (simp add: approvalRow_eval)
  show "(execStep (\<lambda>_. True) None)\<^sup>*\<^sup>* approvalEnd (approvalEnd\<lparr>es_deliveries := [DDone, DStart ''a1'']\<rparr>)"
    using execStep.deliver [of "\<lambda>_. True" None approvalEnd "''a1''"] by (auto simp: approval_eval)
qed


definition abandonedRow :: ApprovalRequestDbRow where
  "abandonedRow = approvedRow\<lparr>raq_executed_at := Some 5\<rparr>"

definition lateTx :: txenv where
  "lateTx = exampleTx\<lparr>tx_now := 600000000000\<rparr>"

theorem stale_claim_settled_witness:
  "\<exists>w'. handleApprovalRequestExecuteTask (\<lambda>_. True) None [(exampleTx, okAnswer), (exampleTx, okAnswer), (lateTx, okAnswer)]
     (DStart (raq_id abandonedRow)) (approvalWorld abandonedRow, []) = (DDone, w', []) \<and>
   w_db w' = (w_db (approvalWorld abandonedRow))\<lparr>t_approval_requests :=
     map (\<lambda>x. if x = abandonedRow then settledRowOf x else x) (t_approval_requests (w_db (approvalWorld abandonedRow)))\<rparr>"
  by (rule stale_claim_settled [where t = 5])
    (simp_all add: approvalWorld_def abandonedRow_def approvedRow_def lateTx_def exampleTx_def willCommit_def
      enforceTenantScope_def isGenericOperationApprovalRequestPayload_def emptyDb_def)

end
