(* ===== verification/HeartbeatStore.thy ===== *)
theory HeartbeatStore
  imports AgentRuns Scheduler
begin

text \<open>
  The rest of \<open>scheduler/schedulerStore.ts\<close>: creating and editing heartbeats, the sweep that
  turns due heartbeats into occurrences with a fire job each, and the start and the close-out of a
  fire. \<open>lx\<close> is the calendar, \<open>clock\<close> the process clock (\<open>new Date()\<close>, in
  milliseconds), \<open>kinds\<close> the rule kinds of the active modules.
\<close>

section \<open>Rules as JSON\<close>

lemma size_object_member: "(k, v) \<in> set a \<Longrightarrow> size v < Suc (size_list (size_prod (\<lambda>_. 0) size) a)"
  by (induction a) auto

lemma size_array_member: "(v, v') \<in> set (zip a b) \<Longrightarrow> size v < Suc (size_list size a)"
  by (drule set_zip_leftD, drule size_list_estimation' [where f = size and y = "size v"]) auto

text \<open>Equality of \<open>jsonb\<close> values: the order of an object's keys does not count.\<close>

function jsonbEq :: "json \<Rightarrow> json \<Rightarrow> bool" where
  "jsonbEq (JObj a) y =
     (case y of
        JObj b \<Rightarrow> length a = length b \<and>
          list_all (\<lambda>(k, v). case map_of b k of None \<Rightarrow> False | Some v' \<Rightarrow> jsonbEq v v') a
      | _ \<Rightarrow> False)"
| "jsonbEq (JArr a) y =
     (case y of
        JArr b \<Rightarrow> length a = length b \<and> list_all (\<lambda>(v, v'). jsonbEq v v') (zip a b)
      | _ \<Rightarrow> False)"
| "jsonbEq JNull y = (y = JNull)"
| "jsonbEq (JBool p) y = (y = JBool p)"
| "jsonbEq (JNum q) y = (y = JNum q)"
| "jsonbEq (JStr s) y = (y = JStr s)"
  by pat_completeness auto

termination
  by (relation "measure (\<lambda>(x, _). size x)")
    (auto dest!: size_object_member size_array_member simp: less_Suc_eq_le)

definition weekdayName :: "Weekday \<Rightarrow> string" where
  "weekdayName w =
     (case w of Mon \<Rightarrow> ''mon'' | Tue \<Rightarrow> ''tue'' | Wed \<Rightarrow> ''wed'' | Thu \<Rightarrow> ''thu'' | Fri \<Rightarrow> ''fri''
      | Sat \<Rightarrow> ''sat'' | Sun \<Rightarrow> ''sun'')"

text \<open>\<open>JSON.stringify(rule)\<close> of a parsed rule, read back as \<open>jsonb\<close>.\<close>

definition ruleJson :: "AnyHeartbeatRule \<Rightarrow> obj" where
  "ruleJson rule =
     (case rule of
        CoreRule (DailyTime time) \<Rightarrow> [(''kind'', JStr ''dailyTime''), (''at'', JStr time)]
      | CoreRule (Weekly days time) \<Rightarrow>
          [(''kind'', JStr ''weekly''), (''days'', JArr (map (\<lambda>w. JStr (weekdayName w)) days)), (''at'', JStr time)]
      | CoreRule (EveryNDays n time) \<Rightarrow>
          [(''kind'', JStr ''everyNDays''), (''n'', JNum (of_int n)), (''at'', JStr time)]
      | CoreRule (Interval minutes) \<Rightarrow> [(''kind'', JStr ''interval''), (''minutes'', JNum (of_int minutes))]
      | CoreRule (OnItemEvent databaseId ev) \<Rightarrow>
          [(''kind'', JStr ''onItemEvent''), (''databaseId'', JStr databaseId), (''event'', JStr (itemOpName ev))]
      | ModuleRule kind data \<Rightarrow> data)"

definition ruleKind :: "AnyHeartbeatRule \<Rightarrow> string" where
  "ruleKind rule =
     (case rule of
        CoreRule (DailyTime _) \<Rightarrow> ''dailyTime''
      | CoreRule (Weekly _ _) \<Rightarrow> ''weekly''
      | CoreRule (EveryNDays _ _) \<Rightarrow> ''everyNDays''
      | CoreRule (Interval _) \<Rightarrow> ''interval''
      | CoreRule (OnItemEvent _ _) \<Rightarrow> ''onItemEvent''
      | ModuleRule kind _ \<Rightarrow> kind)"

definition isOnItemEventRule :: "AnyHeartbeatRule \<Rightarrow> bool" where
  "isOnItemEventRule rule \<longleftrightarrow> ruleKind rule = ''onItemEvent''"

section \<open>Reading heartbeats\<close>

text \<open>A row whose rule no longer parses keeps the raw rule where the caller tolerates it.\<close>

datatype HeartbeatRowRule = ParsedRule AnyHeartbeatRule | RawRule obj

record HeartbeatRow =
  hr_id :: id
  hr_projectItemId :: id
  hr_name :: string
  hr_rule :: HeartbeatRowRule
  hr_actionId :: string
  hr_actionConfig :: obj
  hr_enabled :: bool
  hr_nextFireAt :: "int option"
  hr_lastFiredAt :: "int option"
  hr_lastError :: "string option"

definition mapHeartbeatRow ::
  "HeartbeatDbRow \<Rightarrow> HeartbeatRuleKindRegistry \<Rightarrow> bool \<Rightarrow> error + HeartbeatRow" where
  "mapHeartbeatRow row kinds tolerateUnknownRuleKind =
     (case (case parseHeartbeatRule (hb_rule row) kinds of
              Inr rule \<Rightarrow> Inr (ParsedRule rule)
            | Inl err \<Rightarrow> if tolerateUnknownRuleKind then Inr (RawRule (hb_rule row)) else Inl err) of
        Inl err \<Rightarrow> Inl err
      | Inr rule \<Rightarrow> Inr
          \<lparr>hr_id = hb_id row, hr_projectItemId = hb_project_item_id row, hr_name = hb_name row,
           hr_rule = rule, hr_actionId = hb_action_id row, hr_actionConfig = hb_action_config row,
           hr_enabled = hb_enabled row, hr_nextFireAt = map_option toISOString (hb_next_fire_at row),
           hr_lastFiredAt = map_option toISOString (hb_last_fired_at row),
           hr_lastError = hb_last_error row\<rparr>)"

definition selectHeartbeats :: "(HeartbeatDbRow \<Rightarrow> bool) \<Rightarrow> HeartbeatDbRow list op" where
  "selectHeartbeats p = query (\<lambda>d. filter p (t_heartbeats d))"

definition updateHeartbeats :: "id \<Rightarrow> (HeartbeatDbRow \<Rightarrow> HeartbeatDbRow) \<Rightarrow> nat op" where
  "updateHeartbeats i f =
     bnd (query (\<lambda>d. length (filter (\<lambda>h. hb_id h = i) (t_heartbeats d)))) (\<lambda>n.
     andThen (statement (\<lambda>d. d\<lparr>t_heartbeats := map (\<lambda>h. if hb_id h = i then f h else h) (t_heartbeats d)\<rparr>))
       (return n))"

text \<open>\<open>UPDATE ... RETURNING\<close>, read with \<open>requireSingleRow\<close> and \<open>mapRow\<close>.\<close>

definition updatedHeartbeat ::
  "id \<Rightarrow> (HeartbeatDbRow \<Rightarrow> HeartbeatDbRow) \<Rightarrow> HeartbeatRuleKindRegistry \<Rightarrow> HeartbeatRow op" where
  "updatedHeartbeat i f kinds =
     bnd (updateHeartbeats i f) (\<lambda>_.
     bnd (selectHeartbeats (\<lambda>h. hb_id h = i)) (\<lambda>rows.
     bnd (requireSingleRow rows ''project_heartbeats row'') (\<lambda>row.
     ofSum (mapHeartbeatRow row kinds False))))"

definition getHeartbeat :: "id \<Rightarrow> HeartbeatRuleKindRegistry \<Rightarrow> HeartbeatRow option op" where
  "getHeartbeat i kinds =
     bnd (selectHeartbeats (\<lambda>h. hb_id h = i)) (\<lambda>rows.
     case rows of
       [] \<Rightarrow> return None
     | row # _ \<Rightarrow> bnd (ofSum (mapHeartbeatRow row kinds False)) (\<lambda>h. return (Some h)))"

definition requireHeartbeat :: "id \<Rightarrow> HeartbeatRuleKindRegistry \<Rightarrow> HeartbeatRow op" where
  "requireHeartbeat i kinds =
     bnd (getHeartbeat i kinds) (\<lambda>heartbeat.
     case heartbeat of None \<Rightarrow> throw NotFoundError | Some h \<Rightarrow> return h)"

definition listHeartbeatsByProject :: "id \<Rightarrow> HeartbeatRuleKindRegistry \<Rightarrow> HeartbeatRow list op" where
  "listHeartbeatsByProject projectItemId kinds =
     bnd (selectHeartbeats (\<lambda>h. hb_project_item_id h = projectItemId)) (\<lambda>rows.
     mapC (\<lambda>row. ofSum (mapHeartbeatRow row kinds True)) rows)"

definition getHeartbeatForProject :: "id \<Rightarrow> id \<Rightarrow> HeartbeatRuleKindRegistry \<Rightarrow> HeartbeatRow option op" where
  "getHeartbeatForProject projectItemId heartbeatId kinds =
     bnd (selectHeartbeats (\<lambda>h. hb_id h = heartbeatId \<and> hb_project_item_id h = projectItemId)) (\<lambda>rows.
     case rows of
       [] \<Rightarrow> return None
     | row # _ \<Rightarrow> bnd (ofSum (mapHeartbeatRow row kinds True)) (\<lambda>h. return (Some h)))"

section \<open>Creating and editing\<close>

record CreateHeartbeatInput =
  chi_projectItemId :: id
  chi_name :: string
  chi_rule :: obj
  chi_actionId :: string
  chi_actionConfig :: "obj option"
  chi_enabled :: "bool option"

definition assertOnItemEventDatabaseExists :: "AnyHeartbeatRule \<Rightarrow> unit op" where
  "assertOnItemEventDatabaseExists rule =
     (case rule of
        CoreRule (OnItemEvent databaseId _) \<Rightarrow>
          bnd (getDatabase databaseId) (\<lambda>found.
          case found of
            None \<Rightarrow> throw (ValidationError (Some ''rule.databaseId'')) | Some _ \<Rightarrow> return ())
      | _ \<Rightarrow> return ())"

text \<open>Instants are computed in milliseconds and stored in microseconds.\<close>

definition storedInstant :: "int option \<Rightarrow> int option" where
  "storedInstant ms = map_option (\<lambda>t. t * 1000) ms"

definition computeNextFireAtNow ::
  "luxon \<Rightarrow> int \<Rightarrow> AnyHeartbeatRule \<Rightarrow> HeartbeatRuleKindRegistry \<Rightarrow> int option op" where
  "computeNextFireAtNow lx clock rule kinds =
     bnd getSystemTimezone (\<lambda>timezone. ofSum (computeNextFireAt lx rule timezone clock kinds))"

text \<open>The schedule of a rule that was just written: none for an event rule or a disabled row.\<close>

definition writtenNextFireAt ::
  "luxon \<Rightarrow> int \<Rightarrow> bool \<Rightarrow> AnyHeartbeatRule \<Rightarrow> HeartbeatRuleKindRegistry \<Rightarrow> int option op" where
  "writtenNextFireAt lx clock enabled rule kinds =
     (if enabled \<and> \<not> isOnItemEventRule rule then computeNextFireAtNow lx clock rule kinds
      else return None)"

definition createdHeartbeat :: "id \<Rightarrow> CreateHeartbeatInput \<Rightarrow> AnyHeartbeatRule \<Rightarrow> bool \<Rightarrow> int option \<Rightarrow> HeartbeatDbRow" where
  "createdHeartbeat newId input rule enabled nextFireAt =
     \<lparr>hb_id = newId, hb_project_item_id = chi_projectItemId input, hb_name = chi_name input,
      hb_rule = ruleJson rule, hb_action_id = chi_actionId input,
      hb_action_config = (case chi_actionConfig input of None \<Rightarrow> [] | Some c \<Rightarrow> c),
      hb_enabled = enabled, hb_next_fire_at = storedInstant nextFireAt,
      hb_last_fired_at = None, hb_last_error = None\<rparr>"

definition createHeartbeat ::
  "luxon \<Rightarrow> int \<Rightarrow> id \<Rightarrow> CreateHeartbeatInput \<Rightarrow> HeartbeatRuleKindRegistry \<Rightarrow> HeartbeatRow op" where
  "createHeartbeat lx clock newId input kinds =
     bnd (ofSum (parseHeartbeatRule (chi_rule input) kinds)) (\<lambda>rule.
     andThen (assertOnItemEventDatabaseExists rule)
     (let enabled = (case chi_enabled input of None \<Rightarrow> True | Some e \<Rightarrow> e) in
      bnd (writtenNextFireAt lx clock enabled rule kinds) (\<lambda>nextFireAt.
      let row = createdHeartbeat newId input rule enabled nextFireAt
      in andThen (statement (\<lambda>d. d\<lparr>t_heartbeats := t_heartbeats d @ [row]\<rparr>))
           (ofSum (mapHeartbeatRow row kinds False)))))"

definition updateHeartbeatRule ::
  "luxon \<Rightarrow> int \<Rightarrow> id \<Rightarrow> obj \<Rightarrow> HeartbeatRuleKindRegistry \<Rightarrow> HeartbeatRow op" where
  "updateHeartbeatRule lx clock i rawRule kinds =
     bnd (selectHeartbeats (\<lambda>h. hb_id h = i)) (\<lambda>existing.
     case existing of
       [] \<Rightarrow> throw NotFoundError
     | row # _ \<Rightarrow>
         bnd (ofSum (parseHeartbeatRule rawRule kinds)) (\<lambda>rule.
         andThen (assertOnItemEventDatabaseExists rule)
         (bnd (writtenNextFireAt lx clock (hb_enabled row) rule kinds) (\<lambda>nextFireAt.
          updatedHeartbeat i
            (\<lambda>h. h\<lparr>hb_rule := ruleJson rule, hb_next_fire_at := storedInstant nextFireAt\<rparr>) kinds))))"

definition disableHeartbeat :: "id \<Rightarrow> HeartbeatRuleKindRegistry \<Rightarrow> HeartbeatRow op" where
  "disableHeartbeat i kinds =
     bnd (updateHeartbeats i (\<lambda>h. h\<lparr>hb_enabled := False, hb_next_fire_at := None\<rparr>)) (\<lambda>_.
     bnd (selectHeartbeats (\<lambda>h. hb_id h = i)) (\<lambda>rows.
     case rows of
       [] \<Rightarrow> throw NotFoundError
     | row # _ \<Rightarrow> ofSum (mapHeartbeatRow row kinds True)))"

definition setHeartbeatEnabled ::
  "luxon \<Rightarrow> int \<Rightarrow> id \<Rightarrow> bool \<Rightarrow> HeartbeatRuleKindRegistry \<Rightarrow> HeartbeatRow op" where
  "setHeartbeatEnabled lx clock i enabled kinds =
     (if \<not> enabled then disableHeartbeat i kinds
      else
        bnd (requireHeartbeat i kinds) (\<lambda>heartbeat.
        bnd (case hr_rule heartbeat of
               ParsedRule rule \<Rightarrow> writtenNextFireAt lx clock True rule kinds
             | RawRule _ \<Rightarrow> return None) (\<lambda>nextFireAt.
        updatedHeartbeat i
          (\<lambda>h. h\<lparr>hb_enabled := True, hb_next_fire_at := storedInstant nextFireAt\<rparr>) kinds)))"

section \<open>The sweep\<close>

definition occurrenceFireJobKey :: "id \<Rightarrow> id \<Rightarrow> nat \<Rightarrow> string" where
  "occurrenceFireJobKey heartbeatId occurrenceId generation =
     ''heartbeat-fire:'' @ heartbeatId @ '':'' @ occurrenceId @ '':'' @ natText generation"

definition manualHeartbeatFireJobKey :: "id \<Rightarrow> string" where
  "manualHeartbeatFireJobKey heartbeatId = ''heartbeat-fire:manual:'' @ heartbeatId"

definition SWEEP_CHUNK_SIZE :: nat where
  "SWEEP_CHUNK_SIZE = 100"

record OccurrenceInsertResult =
  oi_occurrenceId :: id
  oi_generation :: nat
  oi_jobKeyMode :: string

record SweepChunkResult =
  sc_fired :: "id list"
  sc_lastId :: "id option"
  sc_exhausted :: bool

definition selectOccurrences :: "(OccurrenceDbRow \<Rightarrow> bool) \<Rightarrow> OccurrenceDbRow list op" where
  "selectOccurrences p = query (\<lambda>d. filter p (t_occurrences d))"

definition updateOccurrences ::
  "(OccurrenceDbRow \<Rightarrow> bool) \<Rightarrow> (OccurrenceDbRow \<Rightarrow> OccurrenceDbRow) \<Rightarrow> unit op" where
  "updateOccurrences p f =
     statement (\<lambda>d. d\<lparr>t_occurrences := map (\<lambda>r. if p r then f r else r) (t_occurrences d)\<rparr>)"

definition sameDue :: "id \<Rightarrow> int \<Rightarrow> OccurrenceDbRow \<Rightarrow> bool" where
  "sameDue heartbeatId scheduledFor r \<longleftrightarrow>
     roc_heartbeat_id r = heartbeatId \<and> roc_scheduled_for r = scheduledFor"

definition reactivatedRow :: "obj \<Rightarrow> OccurrenceDbRow \<Rightarrow> OccurrenceDbRow" where
  "reactivatedRow snapshot r =
     r\<lparr>roc_rule_snapshot := snapshot, roc_status := ''queued'', roc_first_started_at := None,
       roc_last_error := None, roc_generation := roc_generation r + 1\<rparr>"

definition resnapshotRow :: "obj \<Rightarrow> OccurrenceDbRow \<Rightarrow> OccurrenceDbRow" where
  "resnapshotRow snapshot r =
     r\<lparr>roc_rule_snapshot := snapshot, roc_last_error := None, roc_generation := roc_generation r + 1\<rparr>"

definition queuedRow :: "id \<Rightarrow> id \<Rightarrow> int \<Rightarrow> obj \<Rightarrow> OccurrenceDbRow" where
  "queuedRow newId heartbeatId scheduledFor snapshot =
     \<lparr>roc_id = newId, roc_heartbeat_id = heartbeatId, roc_scheduled_for = scheduledFor,
      roc_rule_snapshot = snapshot, roc_first_started_at = None, roc_status = ''queued'',
      roc_last_error = None, roc_generation = 1\<rparr>"

text \<open>\<open>UNIQUE (heartbeat_id, scheduled_for)\<close> makes the insert answer no row on a conflict.\<close>

definition insertHeartbeatOccurrence ::
  "id \<Rightarrow> id \<Rightarrow> int \<Rightarrow> AnyHeartbeatRule \<Rightarrow> OccurrenceInsertResult option op" where
  "insertHeartbeatOccurrence newId heartbeatId scheduledFor ruleSnapshot =
     bnd (selectOccurrences (sameDue heartbeatId scheduledFor)) (\<lambda>rows.
     case rows of
       [] \<Rightarrow>
         andThen (statement (\<lambda>d. d\<lparr>t_occurrences := t_occurrences d @
             [queuedRow newId heartbeatId scheduledFor (ruleJson ruleSnapshot)]\<rparr>))
           (return (Some \<lparr>oi_occurrenceId = newId, oi_generation = 1, oi_jobKeyMode = ''replace''\<rparr>))
     | existing # _ \<Rightarrow>
         if roc_status existing = ''cancelled'' then
           andThen (updateOccurrences (\<lambda>r. roc_id r = roc_id existing) (reactivatedRow (ruleJson ruleSnapshot)))
             (return (Some \<lparr>oi_occurrenceId = roc_id existing, oi_generation = roc_generation existing + 1,
                            oi_jobKeyMode = ''replace''\<rparr>))
         else if roc_status existing = ''queued'' \<and>
                 \<not> jsonbEq (JObj (roc_rule_snapshot existing)) (JObj (ruleJson ruleSnapshot)) then
           andThen (updateOccurrences (\<lambda>r. roc_id r = roc_id existing) (resnapshotRow (ruleJson ruleSnapshot)))
             (return (Some \<lparr>oi_occurrenceId = roc_id existing, oi_generation = roc_generation existing + 1,
                            oi_jobKeyMode = ''preserve_run_at''\<rparr>))
         else return None)"

text \<open>
  One due row. \<open>newOcc\<close> gives the id of the occurrence a heartbeat gets, \<open>fired\<close> collects
  the heartbeats that fire; \<open>db_now\<close> is the transaction's \<open>now()\<close> as a JavaScript date,
  and so is the due time.
\<close>

definition sweepPlan ::
  "luxon \<Rightarrow> string \<Rightarrow> HeartbeatRuleKindRegistry \<Rightarrow> int \<Rightarrow> HeartbeatDbRow \<Rightarrow> error + AnyHeartbeatRule \<times> int option" where
  "sweepPlan lx timezone kinds now row =
     (case parseHeartbeatRule (hb_rule row) kinds of
        Inl err \<Rightarrow> Inl err
      | Inr rule \<Rightarrow>
          (case computeNextFireAt lx rule timezone (toISOString now) kinds of
             Inl err \<Rightarrow> Inl err | Inr calendarNextFireAt \<Rightarrow> Inr (rule, calendarNextFireAt)))"

definition nextAfterSweep :: "AnyHeartbeatRule \<Rightarrow> int option \<Rightarrow> int option" where
  "nextAfterSweep rule calendarNextFireAt =
     (if isFloatingRuleKind (ruleKind rule) then None else storedInstant calendarNextFireAt)"

definition dueAt :: "HeartbeatDbRow \<Rightarrow> int" where
  "dueAt row = toISOString (the (hb_next_fire_at row)) * 1000"

definition enqueueOccurrenceFire :: "HeartbeatDbRow \<Rightarrow> OccurrenceInsertResult \<Rightarrow> unit op" where
  "enqueueOccurrenceFire row r =
     bnd (gets cl_scope) (\<lambda>scope.
     enqueueJobMode (oi_jobKeyMode r) (resolveHeartbeatFireTaskName (hb_action_id row))
       [(''heartbeatId'', JStr (hb_id row)), (''occurrenceId'', JStr (oi_occurrenceId r)),
        (''generation'', JNum (of_nat (oi_generation r)))]
       (Some (occurrenceFireJobKey (hb_id row) (oi_occurrenceId r) (oi_generation r)))
       (Some 3) (resolveAgentRunLane scope (hb_action_id row)))"

definition sweepHeartbeat ::
  "luxon \<Rightarrow> (id \<Rightarrow> id) \<Rightarrow> string \<Rightarrow> HeartbeatRuleKindRegistry \<Rightarrow> HeartbeatDbRow \<Rightarrow> id list \<Rightarrow> id list op" where
  "sweepHeartbeat lx newOcc timezone kinds row fired =
     bnd (gets cl_now) (\<lambda>now.
     case sweepPlan lx timezone kinds now row of
       Inl err \<Rightarrow> andThen (recordHeartbeatFailure (hb_id row) (errorMessage err)) (return fired)
     | Inr (rule, calendarNextFireAt) \<Rightarrow>
         bnd (insertHeartbeatOccurrence (newOcc (hb_id row)) (hb_id row) (dueAt row) rule) (\<lambda>reactivation.
         case reactivation of
           None \<Rightarrow> return fired
         | Some r \<Rightarrow>
             bnd (updateHeartbeats (hb_id row)
                   (\<lambda>h. h\<lparr>hb_next_fire_at := nextAfterSweep rule calendarNextFireAt\<rparr>)) (\<lambda>_.
             andThen (enqueueOccurrenceFire row r) (return (fired @ [hb_id row])))))"

definition dueHeartbeat :: "int \<Rightarrow> id option \<Rightarrow> HeartbeatDbRow \<Rightarrow> bool" where
  "dueHeartbeat now afterId h \<longleftrightarrow>
     hb_enabled h \<and> (case hb_next_fire_at h of None \<Rightarrow> False | Some t \<Rightarrow> t \<le> now) \<and>
     (case afterId of None \<Rightarrow> True | Some a \<Rightarrow> a < hb_id h)"

text \<open>\<open>locked\<close> are the rows another transaction holds: \<open>SKIP LOCKED\<close> leaves them out.\<close>

definition duePage :: "(id \<Rightarrow> bool) \<Rightarrow> int \<Rightarrow> id option \<Rightarrow> db \<Rightarrow> HeartbeatDbRow list" where
  "duePage locked now afterId d =
     take SWEEP_CHUNK_SIZE (sort_key hb_id
       (filter (\<lambda>h. dueHeartbeat now afterId h \<and> \<not> locked (hb_id h)) (t_heartbeats d)))"

definition sweepDueHeartbeats ::
  "luxon \<Rightarrow> (id \<Rightarrow> id) \<Rightarrow> (id \<Rightarrow> bool) \<Rightarrow> HeartbeatRuleKindRegistry \<Rightarrow> id option \<Rightarrow> SweepChunkResult op" where
  "sweepDueHeartbeats lx newOcc locked kinds afterId =
     bnd (gets cl_now) (\<lambda>now.
     bnd (query (duePage locked now afterId)) (\<lambda>rows.
     if rows = [] then return \<lparr>sc_fired = [], sc_lastId = None, sc_exhausted = True\<rparr>
     else
       bnd getSystemTimezone (\<lambda>timezone.
       bnd (foldC (sweepHeartbeat lx newOcc timezone kinds) rows []) (\<lambda>fired.
       return \<lparr>sc_fired = fired, sc_lastId = Some (hb_id (last rows)),
               sc_exhausted = length rows < SWEEP_CHUNK_SIZE\<rparr>))))"

section \<open>Starting and closing a fire\<close>

datatype OccurrenceFirePreparation =
    FireMissing | FireStale | FireCancelled | FireDegraded | FireProceed HeartbeatRow

definition startedRow :: "int \<Rightarrow> OccurrenceDbRow \<Rightarrow> OccurrenceDbRow" where
  "startedRow clock r = r\<lparr>roc_first_started_at := Some (clock * 1000), roc_status := ''running''\<rparr>"

definition failedRow :: "string \<Rightarrow> OccurrenceDbRow \<Rightarrow> OccurrenceDbRow" where
  "failedRow message r = r\<lparr>roc_status := ''failed'', roc_last_error := Some message\<rparr>"

text \<open>The first attempt: stamp the occurrence and, for a floating rule, schedule the next fire.\<close>

definition startOccurrence ::
  "luxon \<Rightarrow> int \<Rightarrow> id \<Rightarrow> id \<Rightarrow> AnyHeartbeatRule \<Rightarrow> HeartbeatRuleKindRegistry \<Rightarrow> unit op" where
  "startOccurrence lx clock heartbeatId occurrenceId rule kinds =
     bnd (if isFloatingRuleKind (ruleKind rule)
          then bnd (computeNextFireAtNow lx clock rule kinds) (\<lambda>next. return (Some next))
          else return None) (\<lambda>nextFireAt.
     andThen (updateOccurrences (\<lambda>r. roc_id r = occurrenceId) (startedRow clock))
     (bnd (case nextFireAt of
             Some next \<Rightarrow> updateHeartbeats heartbeatId
               (\<lambda>h. h\<lparr>hb_last_fired_at := Some (clock * 1000), hb_next_fire_at := storedInstant next\<rparr>)
           | None \<Rightarrow> updateHeartbeats heartbeatId (\<lambda>h. h\<lparr>hb_last_fired_at := Some (clock * 1000)\<rparr>))
        (\<lambda>_. return ())))"

text \<open>The body of the transaction of \<open>prepareHeartbeatOccurrenceFire\<close>.\<close>

definition prepareHeartbeatOccurrenceFire ::
  "luxon \<Rightarrow> int \<Rightarrow> id \<Rightarrow> id \<Rightarrow> rat \<Rightarrow> HeartbeatRuleKindRegistry \<Rightarrow> OccurrenceFirePreparation op" where
  "prepareHeartbeatOccurrenceFire lx clock heartbeatId occurrenceId generation kinds =
     bnd (selectOccurrences (\<lambda>r. roc_id r = occurrenceId \<and> roc_heartbeat_id r = heartbeatId)) (\<lambda>occs.
     bnd (selectHeartbeats (\<lambda>h. hb_id h = heartbeatId)) (\<lambda>hbs.
     case (occs, hbs) of
       (o1 # _, h # _) \<Rightarrow>
         if of_nat (roc_generation o1) \<noteq> generation then return FireStale
         else if \<not> hb_enabled h \<or> \<not> jsonbEq (JObj (hb_rule h)) (JObj (roc_rule_snapshot o1)) then
           andThen (updateOccurrences (\<lambda>r. roc_id r = occurrenceId) (\<lambda>r. r\<lparr>roc_status := ''cancelled''\<rparr>))
             (return FireCancelled)
         else
           (case parseHeartbeatRule (hb_rule h) kinds of
              Inl err \<Rightarrow>
                andThen (recordHeartbeatFailure heartbeatId (errorMessage err))
                (andThen (updateOccurrences (\<lambda>r. roc_id r = occurrenceId) (failedRow (errorMessage err)))
                (return FireDegraded))
            | Inr rule \<Rightarrow>
                andThen (whenC (roc_first_started_at o1 = None)
                    (startOccurrence lx clock heartbeatId occurrenceId rule kinds))
                (bnd (ofSum (mapHeartbeatRow h kinds True)) (\<lambda>heartbeat. return (FireProceed heartbeat))))
     | _ \<Rightarrow> return FireMissing))"

definition succeedHeartbeatOccurrence :: "id \<Rightarrow> unit op" where
  "succeedHeartbeatOccurrence occurrenceId =
     updateOccurrences (\<lambda>r. roc_id r = occurrenceId) (\<lambda>r. r\<lparr>roc_status := ''succeeded'', roc_last_error := None\<rparr>)"

definition failHeartbeatOccurrence :: "id \<Rightarrow> string \<Rightarrow> unit op" where
  "failHeartbeatOccurrence occurrenceId message =
     updateOccurrences (\<lambda>r. roc_id r = occurrenceId) (failedRow message)"

definition recordHeartbeatFireSetupFailure ::
  "luxon \<Rightarrow> id \<Rightarrow> id option \<Rightarrow> string \<Rightarrow> HeartbeatRuleKindRegistry \<Rightarrow> (id \<times> string) option op" where
  "recordHeartbeatFireSetupFailure lx heartbeatId occurrenceId message kinds =
     bnd (selectHeartbeats (\<lambda>h. hb_id h = heartbeatId)) (\<lambda>rows.
     case rows of
       [] \<Rightarrow> return None
     | row # _ \<Rightarrow>
         andThen
           (if hb_enabled row \<and> hb_next_fire_at row = None then
              bnd getSystemTimezone (\<lambda>timezone.
              bnd (gets cl_now) (\<lambda>now.
              bnd (case (case parseHeartbeatRule (hb_rule row) kinds of
                           Inl err \<Rightarrow> Inl err
                         | Inr rule \<Rightarrow> computeNextFireAt lx rule timezone (toISOString now) kinds) of
                     Inr nextFireAt \<Rightarrow> updateHeartbeats heartbeatId
                       (\<lambda>h. h\<lparr>hb_next_fire_at := storedInstant nextFireAt, hb_last_error := Some message\<rparr>)
                   | Inl err \<Rightarrow> updateHeartbeats heartbeatId
                       (\<lambda>h. h\<lparr>hb_last_error := Some (message @ ''; schedule could not be restored: '' @ errorMessage err)\<rparr>))
                (\<lambda>n. bnd (requireAffectedRows n ''project_heartbeats'') (\<lambda>_. return ()))))
            else
              bnd (updateHeartbeats heartbeatId (\<lambda>h. h\<lparr>hb_last_error := Some message\<rparr>))
                (\<lambda>n. bnd (requireAffectedRows n ''project_heartbeats'') (\<lambda>_. return ())))
         (andThen
           (case occurrenceId of
              None \<Rightarrow> return ()
            | Some i \<Rightarrow> updateOccurrences (\<lambda>r. roc_id r = i \<and> (roc_status r = ''queued'' \<or> roc_status r = ''running''))
                          (failedRow message))
         (return (Some (hb_id row, hb_name row)))))"

end
