(* ===== verification/HeartbeatFire.thy ===== *)
theory HeartbeatFire
  imports HeartbeatStore
begin

text \<open>
  The queue tasks of the scheduler (\<open>scheduler/sweep.ts\<close>), the agent action they run
  (\<open>scheduler/actions.ts\<close>) and its relation filter (\<open>scheduler/itemRelationFilter.ts\<close>).
  The handler of an action is registered by the composition root: here a function on the world that
  may run any transactions of its own and throw. A task runs several transactions, so it takes the
  environment of each.
\<close>

type_synonym hook = "InvalidationEvent \<Rightarrow> bool"

section \<open>The sweep of one tenant\<close>

definition MAX_SWEEP_CHUNKS_PER_TENANT :: nat where
  "MAX_SWEEP_CHUNKS_PER_TENANT = 50"

text \<open>
  The callback of \<open>handleHeartbeatSweepTask\<close> for one tenant; \<open>envs\<close> gives each chunk its
  transaction, its occurrence ids and the rows others hold. An error ends the tenant's pass.
\<close>

record sweepEnv =
  sw_tx :: txenv
  sw_newOcc :: "id \<Rightarrow> id"
  sw_locked :: "id \<Rightarrow> bool"

fun sweepTenant ::
  "hook \<Rightarrow> luxon \<Rightarrow> HeartbeatRuleKindRegistry \<Rightarrow> sweepEnv list \<Rightarrow> id option \<Rightarrow> world \<Rightarrow> (error + unit) \<times> world" where
  "sweepTenant p lx kinds [] afterId w = (Inr (), w)"
| "sweepTenant p lx kinds (e # envs) afterId w =
     (case withTransaction (sw_tx e) p (sweepDueHeartbeats lx (sw_newOcc e) (sw_locked e) kinds afterId) w of
        (Inl err, w') \<Rightarrow> (Inl err, w')
      | (Inr result, w') \<Rightarrow>
          if sc_exhausted result then (Inr (), w')
          else sweepTenant p lx kinds envs (sc_lastId result) w')"

text \<open>At most \<open>MAX_SWEEP_CHUNKS_PER_TENANT\<close> chunks, unless the options say otherwise.\<close>

definition sweepOneTenant ::
  "hook \<Rightarrow> luxon \<Rightarrow> HeartbeatRuleKindRegistry \<Rightarrow> (nat \<Rightarrow> sweepEnv) \<Rightarrow> nat option \<Rightarrow> world \<Rightarrow> (error + unit) \<times> world" where
  "sweepOneTenant p lx kinds envOf maxChunksPerTenant w =
     sweepTenant p lx kinds
       (map envOf [0..<(case maxChunksPerTenant of None \<Rightarrow> MAX_SWEEP_CHUNKS_PER_TENANT | Some n \<Rightarrow> n)]) None w"

section \<open>The payload of a fire job\<close>

record FirePayload =
  fp_heartbeatId :: id
  fp_occurrenceId :: "id option"
  fp_generation :: "rat option"
  fp_itemId :: "id option"
  fp_triggeredByRunId :: "id option"

text \<open>\<open>record?.field\<close>: any payload that is not an object has no fields.\<close>

definition payloadRecord :: "json \<Rightarrow> obj" where
  "payloadRecord raw = (case raw of JObj m \<Rightarrow> m | _ \<Rightarrow> [])"

definition optionalString :: "obj \<Rightarrow> string \<Rightarrow> error + string option" where
  "optionalString m key =
     (case map_of m key of
        None \<Rightarrow> Inr None
      | Some (JStr s) \<Rightarrow> Inr (Some s)
      | Some _ \<Rightarrow> Inl (PlainError (''heartbeat fire job payload field must be a string when present: '' @ key)))"

definition parseFirePayload :: "json \<Rightarrow> error + FirePayload" where
  "parseFirePayload rawPayload =
     (let m = payloadRecord rawPayload in
      case map_of m ''heartbeatId'' of
        Some (JStr heartbeatId) \<Rightarrow>
          (case optionalString m ''occurrenceId'' of
             Inl e \<Rightarrow> Inl e
           | Inr occurrenceId \<Rightarrow>
               if occurrenceId \<noteq> None \<and> (case map_of m ''generation'' of Some (JNum _) \<Rightarrow> False | _ \<Rightarrow> True)
               then Inl (ValidationError None)
               else
          (case optionalString m ''itemId'' of
             Inl e \<Rightarrow> Inl e
           | Inr itemId \<Rightarrow>
          (case optionalString m ''triggeredByRunId'' of
             Inl e \<Rightarrow> Inl e
           | Inr triggeredByRunId \<Rightarrow>
               if length (filter (\<lambda>v. v \<noteq> None) [occurrenceId, itemId, triggeredByRunId]) \<noteq> 1
               then Inl (ValidationError None)
               else Inr \<lparr>fp_heartbeatId = heartbeatId, fp_occurrenceId = occurrenceId,
                         fp_generation = (case map_of m ''generation'' of Some (JNum q) \<Rightarrow> Some q | _ \<Rightarrow> None),
                         fp_itemId = itemId, fp_triggeredByRunId = triggeredByRunId\<rparr>)))
      | _ \<Rightarrow> Inl (PlainError ''heartbeat fire job payload missing string field heartbeatId''))"

section \<open>Firing\<close>

record ActionContext =
  ac_heartbeatId :: id
  ac_projectItemId :: id
  ac_itemId :: "id option"
  ac_triggeredByRunId :: "id option"
  ac_isFinalAttempt :: "bool option"

type_synonym ActionHandler = "obj \<Rightarrow> ActionContext \<Rightarrow> world \<Rightarrow> (error + unit) \<times> world"
type_synonym ActionRegistry = "(string \<times> ActionHandler) list"

record fireJob =
  fj_id :: id
  fj_attempts :: nat
  fj_max_attempts :: nat

definition isFinalAttempt :: "fireJob \<Rightarrow> bool" where
  "isFinalAttempt job \<longleftrightarrow> fj_max_attempts job \<le> fj_attempts job"

definition notifyHeartbeatError :: "ModuleCatalogs \<Rightarrow> id \<Rightarrow> id \<times> string \<Rightarrow> id \<Rightarrow> unit op" where
  "notifyHeartbeatError catalogs newId heartbeat jobId =
     bnd getTenantUserId (\<lambda>userId.
     if \<not> truthy userId then return ()
     else
       bnd (writeNotification catalogs newId
          \<lparr>wn_userId = the userId, wn_kind = ''heartbeat_error'', wn_titleParams = [(''name'', snd heartbeat)],
           wn_linkHref = None, wn_sourceTable = ''project_heartbeats'', wn_sourceId = fst heartbeat,
           wn_transitionInstance = jobId, wn_payload = []\<rparr>) (\<lambda>_. return ()))"

definition assertActionAffinity :: "string \<Rightarrow> string \<Rightarrow> error + unit" where
  "assertActionAffinity actionId expectedAffinity =
     (let actualAffinity =
        (if resolveHeartbeatFireTaskName actionId = ''heartbeatFireAgent'' then ''agents'' else ''api'')
      in if actualAffinity \<noteq> expectedAffinity then Inl (PlainError ''heartbeat action on the wrong runtime'')
         else Inr ())"

text \<open>The affinity check and the handler lookup.\<close>

definition findHandler :: "ActionRegistry \<Rightarrow> string \<Rightarrow> string \<Rightarrow> error + ActionHandler" where
  "findHandler registry expectedAffinity actionId =
     (case assertActionAffinity actionId expectedAffinity of
        Inl e \<Rightarrow> Inl e
      | Inr _ \<Rightarrow>
          (case map_of registry actionId of
             None \<Rightarrow> Inl (PlainError ''No handler registered for heartbeat action'')
           | Some handler \<Rightarrow> Inr handler))"

text \<open>What a fire task is given: transactions, clocks, catalogs, generated ids.\<close>

record fireEnv =
  fe_deliverable :: hook
  fe_luxon :: luxon
  fe_clock :: int
  fe_catalogs :: ModuleCatalogs
  fe_newId :: id
  fe_kinds :: HeartbeatRuleKindRegistry
  fe_tx :: "nat \<Rightarrow> txenv"

definition fireSetupFailed :: "fireEnv \<Rightarrow> id \<Rightarrow> id \<Rightarrow> fireJob \<Rightarrow> error \<Rightarrow> world \<Rightarrow> (error + unit) \<times> world" where
  "fireSetupFailed fe heartbeatId occurrenceId job err w =
     (Inl err,
      if isFinalAttempt job
      then snd (withTransaction (fe_tx fe 1) (fe_deliverable fe)
        (bnd (recordHeartbeatFireSetupFailure (fe_luxon fe) heartbeatId (Some occurrenceId) (errorMessage err) (fe_kinds fe))
           (\<lambda>failed. case failed of
              None \<Rightarrow> return ()
            | Some h \<Rightarrow> notifyHeartbeatError (fe_catalogs fe) (fe_newId fe) h (fj_id job))) w)
      else w)"

text \<open>A failure of the closing transaction replaces the handler's error, as a throw in \<open>catch\<close> does.\<close>

definition fireHandlerFailed :: "fireEnv \<Rightarrow> HeartbeatRow \<Rightarrow> id \<Rightarrow> fireJob \<Rightarrow> error \<Rightarrow> world \<Rightarrow> (error + unit) \<times> world" where
  "fireHandlerFailed fe heartbeat occurrenceId job err w =
     (if isFinalAttempt job
      then (case withTransaction (fe_tx fe 2) (fe_deliverable fe)
              (andThen (recordHeartbeatFailure (hr_id heartbeat) (errorMessage err))
              (andThen (failHeartbeatOccurrence occurrenceId (errorMessage err))
                (notifyHeartbeatError (fe_catalogs fe) (fe_newId fe) (hr_id heartbeat, hr_name heartbeat) (fj_id job)))) w of
              (Inl e, w') \<Rightarrow> (Inl e, w') | (Inr _, w') \<Rightarrow> (Inl err, w'))
      else (Inl err, w))"

definition runScheduledOccurrenceFire ::
  "fireEnv \<Rightarrow> ActionRegistry \<Rightarrow> string \<Rightarrow> id \<Rightarrow> id \<Rightarrow> rat \<Rightarrow> fireJob \<Rightarrow> world \<Rightarrow> (error + unit) \<times> world" where
  "runScheduledOccurrenceFire fe registry expectedAffinity heartbeatId occurrenceId generation job w =
     (case withTransaction (fe_tx fe 0) (fe_deliverable fe)
         (prepareHeartbeatOccurrenceFire (fe_luxon fe) (fe_clock fe) heartbeatId occurrenceId generation (fe_kinds fe)) w of
        (Inl err, w1) \<Rightarrow> fireSetupFailed fe heartbeatId occurrenceId job err w1
      | (Inr (FireProceed heartbeat), w1) \<Rightarrow>
          (case findHandler registry expectedAffinity (hr_actionId heartbeat) of
             Inl err \<Rightarrow> fireSetupFailed fe heartbeatId occurrenceId job err w1
           | Inr handler \<Rightarrow>
               (case handler (hr_actionConfig heartbeat)
                    \<lparr>ac_heartbeatId = hr_id heartbeat, ac_projectItemId = hr_projectItemId heartbeat,
                     ac_itemId = None, ac_triggeredByRunId = None,
                     ac_isFinalAttempt = Some (isFinalAttempt job)\<rparr> w1 of
                  (Inl err, w2) \<Rightarrow> fireHandlerFailed fe heartbeat occurrenceId job err w2
                | (Inr _, w2) \<Rightarrow>
                    (case withTransaction (fe_tx fe 1) (fe_deliverable fe)
                        (andThen (recordHeartbeatSuccess (hr_id heartbeat)) (succeedHeartbeatOccurrence occurrenceId)) w2 of
                       (Inl err, w3) \<Rightarrow> fireHandlerFailed fe heartbeat occurrenceId job err w3
                     | (Inr _, w3) \<Rightarrow> (Inr (), w3))))
      | (Inr _, w1) \<Rightarrow> (Inr (), w1))"

text \<open>A fire without an occurrence: an item event or a manual trigger.\<close>

definition runDirectFire ::
  "fireEnv \<Rightarrow> ActionRegistry \<Rightarrow> string \<Rightarrow> FirePayload \<Rightarrow> fireJob \<Rightarrow> world \<Rightarrow> (error + unit) \<times> world" where
  "runDirectFire fe registry expectedAffinity payload job w =
     (case withTransaction (fe_tx fe 0) (fe_deliverable fe) (getHeartbeat (fp_heartbeatId payload) (fe_kinds fe)) w of
        (Inl err, w1) \<Rightarrow>
          withTransaction (fe_tx fe 1) (fe_deliverable fe)
            (recordHeartbeatFailure (fp_heartbeatId payload) (errorMessage err)) w1
      | (Inr None, w1) \<Rightarrow> (Inr (), w1)
      | (Inr (Some heartbeat), w1) \<Rightarrow>
          (let failed = (\<lambda>err w'.
             if isFinalAttempt job
             then (case withTransaction (fe_tx fe 2) (fe_deliverable fe)
                 (andThen (recordHeartbeatFailure (hr_id heartbeat) (errorMessage err))
                   (notifyHeartbeatError (fe_catalogs fe) (fe_newId fe) (hr_id heartbeat, hr_name heartbeat) (fj_id job))) w' of
                (Inl e, w'') \<Rightarrow> (Inl e, w'') | (Inr _, w'') \<Rightarrow> (Inl err, w''))
             else (Inl err, w'))
           in case findHandler registry expectedAffinity (hr_actionId heartbeat) of
                Inl err \<Rightarrow> failed err w1
              | Inr handler \<Rightarrow>
                  (case handler (hr_actionConfig heartbeat)
                       \<lparr>ac_heartbeatId = hr_id heartbeat, ac_projectItemId = hr_projectItemId heartbeat,
                        ac_itemId = fp_itemId payload, ac_triggeredByRunId = fp_triggeredByRunId payload,
                        ac_isFinalAttempt = Some (isFinalAttempt job)\<rparr> w1 of
                     (Inl err, w2) \<Rightarrow> failed err w2
                   | (Inr _, w2) \<Rightarrow>
                       (case withTransaction (fe_tx fe 1) (fe_deliverable fe) (recordHeartbeatSuccess (hr_id heartbeat)) w2 of
                          (Inl err, w3) \<Rightarrow> failed err w3 | (Inr _, w3) \<Rightarrow> (Inr (), w3)))))"

definition createHeartbeatFireTaskForAffinity ::
  "fireEnv \<Rightarrow> ActionRegistry \<Rightarrow> string \<Rightarrow> json \<Rightarrow> fireJob \<Rightarrow> world \<Rightarrow> (error + unit) \<times> world" where
  "createHeartbeatFireTaskForAffinity fe registry expectedAffinity rawPayload job w =
     (case parseFirePayload rawPayload of
        Inl err \<Rightarrow> (Inl err, w)
      | Inr payload \<Rightarrow>
          (case (fp_occurrenceId payload, fp_generation payload) of
             (Some occurrenceId, Some generation) \<Rightarrow>
               runScheduledOccurrenceFire fe registry expectedAffinity (fp_heartbeatId payload) occurrenceId generation job w
           | _ \<Rightarrow> runDirectFire fe registry expectedAffinity payload job w))"

definition createHeartbeatFireCoreTask :: "fireEnv \<Rightarrow> ActionRegistry \<Rightarrow> json \<Rightarrow> fireJob \<Rightarrow> world \<Rightarrow> (error + unit) \<times> world" where
  "createHeartbeatFireCoreTask fe registry = createHeartbeatFireTaskForAffinity fe registry ''api''"

definition createHeartbeatFireAgentTask :: "fireEnv \<Rightarrow> ActionRegistry \<Rightarrow> json \<Rightarrow> fireJob \<Rightarrow> world \<Rightarrow> (error + unit) \<times> world" where
  "createHeartbeatFireAgentTask fe registry = createHeartbeatFireTaskForAffinity fe registry ''agents''"

section \<open>The agent action\<close>

record ItemRelationFilterConfig =
  rf_relationPropertyId :: id
  rf_property :: string
  rf_include :: "string list"
  rf_exclude :: "string list"

definition toStringArray :: "json option \<Rightarrow> string list" where
  "toStringArray value =
     (case value of
        Some (JArr vs) \<Rightarrow> concat (map (\<lambda>v. case v of JStr s \<Rightarrow> [s] | _ \<Rightarrow> []) vs)
      | _ \<Rightarrow> [])"

definition parseItemRelationFilterConfig :: "json option \<Rightarrow> ItemRelationFilterConfig option" where
  "parseItemRelationFilterConfig raw =
     (case raw of
        Some (JObj m) \<Rightarrow>
          (case (asStr (map_of m ''relationPropertyId''), asStr (map_of m ''property'')) of
             (Some relationPropertyId, Some property) \<Rightarrow> Some
               \<lparr>rf_relationPropertyId = relationPropertyId, rf_property = property,
                rf_include = toStringArray (map_of m ''include''), rf_exclude = toStringArray (map_of m ''exclude'')\<rparr>
           | _ \<Rightarrow> None)
      | _ \<Rightarrow> None)"

text \<open>
  \<open>ITEM_RELATION_FILTER_QUERY\<close>: the values of the live items on the other side of the
  relation. \<open>textOf\<close> is the text Postgres gives for a value that is not a string.
\<close>

definition arrowText :: "(json \<Rightarrow> string) \<Rightarrow> json option \<Rightarrow> string option" where
  "arrowText textOf value =
     (case value of None \<Rightarrow> None | Some JNull \<Rightarrow> None | Some (JStr s) \<Rightarrow> Some s | Some v \<Rightarrow> Some (textOf v))"

definition relationFilterValues :: "(json \<Rightarrow> string) \<Rightarrow> id \<Rightarrow> string \<Rightarrow> id \<Rightarrow> db \<Rightarrow> string option list" where
  "relationFilterValues textOf propertyId property itemId d =
     concat (map (\<lambda>rd. concat (map (\<lambda>op1. concat (map (\<lambda>r. map (\<lambda>item. arrowText textOf (map_of (rit_properties item) property))
         (filter (\<lambda>item. rit_database_id item = rpr_database_id op1 \<and>
            rit_id item = (if rir_item_a r = itemId then rir_item_b r else rir_item_a r) \<and> rit_deleted_at item = None)
          (t_items d)))
       (filter (\<lambda>r. rir_relation_definition_id r = rrd_id rd \<and> (rir_item_a r = itemId \<or> rir_item_b r = itemId))
          (t_item_relations d))))
     (filter (\<lambda>op1. Some (rpr_id op1) = (if rrd_property_id_a rd = propertyId then rrd_property_id_b rd
                                          else Some (rrd_property_id_a rd))) (t_properties d))))
   (filter (\<lambda>rd. rrd_property_id_a rd = propertyId \<or> rrd_property_id_b rd = Some propertyId) (t_relation_definitions d)))"

definition passesItemRelationFilter :: "(json \<Rightarrow> string) \<Rightarrow> id \<Rightarrow> ItemRelationFilterConfig \<Rightarrow> bool op" where
  "passesItemRelationFilter textOf itemId filt =
     bnd (query (relationFilterValues textOf (rf_relationPropertyId filt) (rf_property filt) itemId)) (\<lambda>rows.
     (let values = map the (filter (\<lambda>v. v \<noteq> None) rows);
          included = rf_include filt = [] \<or> list_ex (\<lambda>v. v \<in> set (rf_include filt)) values;
          excluded = list_ex (\<lambda>v. v \<in> set (rf_exclude filt)) values
      in return (included \<and> \<not> excluded)))"

type_synonym RunAgentFn = "id \<Rightarrow> id \<Rightarrow> string \<Rightarrow> world \<Rightarrow> (error + string option) \<times> world"

text \<open>The session runs after the run exists; a failure closes the run, and is what is thrown.\<close>

definition closeFailedRun :: "fireEnv \<Rightarrow> ActionContext \<Rightarrow> id \<Rightarrow> error \<Rightarrow> world \<Rightarrow> (error + unit) \<times> world" where
  "closeFailedRun fe context runId err w =
     (Inl err,
      snd (withTransaction (fe_tx fe 4) (fe_deliverable fe)
        (if ac_isFinalAttempt context = Some False
         then finishAgentRun runId ''error'' (Some (errorMessage err))
         else finishAgentRunWithErrorNotification (fe_catalogs fe) (fe_newId fe) runId (Some (errorMessage err))) w))"

definition coreAgentRunAction ::
  "fireEnv \<Rightarrow> (json \<Rightarrow> string) \<Rightarrow> id \<Rightarrow> RunAgentFn \<Rightarrow> ActionHandler" where
  "coreAgentRunAction fe textOf newRunId runAgent actionConfig context w =
     (let relationFilter = parseItemRelationFilterConfig (map_of actionConfig ''itemRelationFilter'') in
      case (case (relationFilter, ac_itemId context) of
              (Some filt, Some itemId) \<Rightarrow>
                if itemId = '''' then (Inr True, w)
                else withTransaction (fe_tx fe 1) (fe_deliverable fe) (passesItemRelationFilter textOf itemId filt) w
            | _ \<Rightarrow> (Inr True, w)) of
        (Inl err, w1) \<Rightarrow> (Inl err, w1)
      | (Inr False, w1) \<Rightarrow> (Inr (), w1)
      | (Inr True, w1) \<Rightarrow>
          (let task = (case asStr (map_of actionConfig ''task'') of None \<Rightarrow> '''' | Some t \<Rightarrow> t) in
           case withTransaction (fe_tx fe 2) (fe_deliverable fe)
               (createAgentRun newRunId
                 \<lparr>car_projectItemId = Some (ac_projectItemId context), car_parentRunId = ac_triggeredByRunId context,
                  car_heartbeatId = Some (ac_heartbeatId context), car_triggeredBy = ''heartbeat'',
                  car_unit = None, car_task = task, car_userId = None\<rparr>) w1 of
             (Inl err, w2) \<Rightarrow> (Inl err, w2)
           | (Inr run, w2) \<Rightarrow>
               (case runAgent (ar_id run) (ac_projectItemId context) task w2 of
                  (Inl err, w3) \<Rightarrow> closeFailedRun fe context (ar_id run) err w3
                | (Inr result, w3) \<Rightarrow>
                    (case withTransaction (fe_tx fe 3) (fe_deliverable fe) (finishAgentRun (ar_id run) ''done'' result) w3 of
                       (Inl err, w4) \<Rightarrow> closeFailedRun fe context (ar_id run) err w4
                     | (Inr _, w4) \<Rightarrow> (Inr (), w4)))))"

end
