(* ===== verification/HeartbeatProps.thy ===== *)
theory HeartbeatProps
  imports HeartbeatFire StoreFacts
begin

text \<open>
  The dispatch protocol of scheduled heartbeats: one row per due time, one fire job per generation
  of it, whatever the sweep, the fires and the edits interleave; and what a stale or repeated fire
  does.
\<close>

section \<open>Jobs of an occurrence\<close>

definition jobGeneration :: "id \<Rightarrow> job \<Rightarrow> rat list" where
  "jobGeneration occurrenceId j =
     (case (map_of (job_payload j) ''occurrenceId'', map_of (job_payload j) ''generation'') of
        (Some (JStr i), Some (JNum q)) \<Rightarrow> if i = occurrenceId then [q] else []
      | _ \<Rightarrow> [])"

definition jobGenerations :: "id \<Rightarrow> job list \<Rightarrow> rat list" where
  "jobGenerations occurrenceId jobs = concat (map (jobGeneration occurrenceId) jobs)"

definition dispatched :: "job list \<Rightarrow> OccurrenceDbRow \<Rightarrow> bool" where
  "dispatched jobs r \<longleftrightarrow> jobGenerations (roc_id r) jobs = map of_nat [1..<roc_generation r + 1]"

definition dueKey :: "OccurrenceDbRow \<Rightarrow> id \<times> int" where
  "dueKey r = (roc_heartbeat_id r, roc_scheduled_for r)"

definition dispatchInv :: "db \<Rightarrow> bool" where
  "dispatchInv d \<longleftrightarrow> distinct (map hb_id (t_heartbeats d)) \<and> distinct (map roc_id (t_occurrences d)) \<and>
     distinct (map dueKey (t_occurrences d)) \<and> (\<forall>r \<in> set (t_occurrences d). dispatched (t_jobs d) r)"

text \<open>An id no occurrence and no job has used.\<close>

definition unusedOcc :: "db \<Rightarrow> id \<Rightarrow> bool" where
  "unusedOcc d i \<longleftrightarrow> i \<notin> roc_id ` set (t_occurrences d) \<and> jobGenerations i (t_jobs d) = []"

lemma jobGenerations_append [simp]:
  "jobGenerations i (js @ ks) = jobGenerations i js @ jobGenerations i ks"
  by (simp add: jobGenerations_def)

lemma jobGenerations_Nil [simp]: "jobGenerations i [] = []"
  by (simp add: jobGenerations_def)

definition fireJobOf :: "id \<Rightarrow> nat \<Rightarrow> job \<Rightarrow> bool" where
  "fireJobOf occurrenceId generation j \<longleftrightarrow>
     map_of (job_payload j) ''occurrenceId'' = Some (JStr occurrenceId) \<and>
     map_of (job_payload j) ''generation'' = Some (JNum (of_nat generation))"

lemma jobGenerations_fireJob:
  "fireJobOf i g j \<Longrightarrow> jobGenerations i' [j] = (if i' = i then [of_nat g] else [])"
  by (simp add: jobGenerations_def jobGeneration_def fireJobOf_def)

section \<open>One row of the sweep\<close>

text \<open>What a fired row leaves: a new occurrence of generation 1, or the next generation of one.\<close>

definition sameSlots :: "OccurrenceDbRow list \<Rightarrow> OccurrenceDbRow list \<Rightarrow> bool" where
  "sameSlots rs rs' \<longleftrightarrow>
     map (\<lambda>r. (roc_id r, dueKey r, roc_generation r)) rs' = map (\<lambda>r. (roc_id r, dueKey r, roc_generation r)) rs"

definition nextGeneration :: "id \<Rightarrow> OccurrenceDbRow list \<Rightarrow> OccurrenceDbRow list \<Rightarrow> bool" where
  "nextGeneration i rs rs' \<longleftrightarrow>
     (\<exists>f. rs' = map (\<lambda>r. if roc_id r = i then f r else r) rs \<and>
        (\<forall>r. roc_id (f r) = roc_id r \<and> dueKey (f r) = dueKey r \<and> roc_generation (f r) = roc_generation r + 1))"

lemma insertHeartbeatOccurrence_cases:
  assumes "insertHeartbeatOccurrence newId h due rule c = Inr (res, c')"
  obtains (none) "res = None" and "c' = c"
  | (fresh) "res = Some \<lparr>oi_occurrenceId = newId, oi_generation = 1, oi_jobKeyMode = ''replace''\<rparr>"
      and "cl_db c' = (cl_db c)\<lparr>t_occurrences := t_occurrences (cl_db c) @ [queuedRow newId h due (ruleJson rule)]\<rparr>"
      and "\<forall>x \<in> set (t_occurrences (cl_db c)). dueKey x \<noteq> (h, due)" and "cl_now c' = cl_now c"
  | (again) r mode occs where "r \<in> set (t_occurrences (cl_db c))" and "dueKey r = (h, due)"
      and "res = Some \<lparr>oi_occurrenceId = roc_id r, oi_generation = roc_generation r + 1, oi_jobKeyMode = mode\<rparr>"
      and "cl_db c' = (cl_db c)\<lparr>t_occurrences := occs\<rparr>" and "nextGeneration (roc_id r) (t_occurrences (cl_db c)) occs"
      and "cl_now c' = cl_now c"
proof (cases "filter (sameDue h due) (t_occurrences (cl_db c))")
  case Nil
  with assms show thesis
    by (intro fresh) (auto simp: insertHeartbeatOccurrence_def selectOccurrences_def comp_simps andThen_def bnd_def
        filter_empty_conv sameDue_def dueKey_def)
next
  case (Cons r rs)
  then have "r \<in> set (filter (sameDue h due) (t_occurrences (cl_db c)))" by simp
  then have r: "r \<in> set (t_occurrences (cl_db c))" "dueKey r = (h, due)" by (auto simp: sameDue_def dueKey_def)
  note unfold = insertHeartbeatOccurrence_def selectOccurrences_def updateOccurrences_def comp_simps andThen_def bnd_def
  consider (cancelled) "roc_status r = ''cancelled''"
    | (changed) "roc_status r = ''queued''" "\<not> jsonbEq (JObj (roc_rule_snapshot r)) (JObj (ruleJson rule))"
    | (kept) "roc_status r \<noteq> ''cancelled''"
        "\<not> (roc_status r = ''queued'' \<and> \<not> jsonbEq (JObj (roc_rule_snapshot r)) (JObj (ruleJson rule)))" by blast
  then show thesis
  proof cases
    case cancelled
    with assms Cons r show thesis
      by (intro again) (auto simp: unfold nextGeneration_def dueKey_def reactivatedRow_def
          intro!: exI [of _ "reactivatedRow (ruleJson rule)"])
  next
    case changed
    with assms Cons r show thesis
      by (intro again) (auto simp: unfold nextGeneration_def dueKey_def resnapshotRow_def
          intro!: exI [of _ "resnapshotRow (ruleJson rule)"])
  next
    case kept
    with assms Cons show thesis by (intro none) (auto simp: unfold)
  qed
qed

lemma updateHeartbeats_apply [comp_simps]:
  "updateHeartbeats i f c = Inr (length (filter (\<lambda>h. hb_id h = i) (t_heartbeats (cl_db c))),
     c\<lparr>cl_db := (cl_db c)\<lparr>t_heartbeats := map (\<lambda>h. if hb_id h = i then f h else h) (t_heartbeats (cl_db c))\<rparr>\<rparr>)"
  by (simp add: updateHeartbeats_def andThen_def bnd_def comp_simps)

lemma bnd_updateHeartbeats_apply [comp_simps]:
  "bnd (updateHeartbeats i f) g c = g (length (filter (\<lambda>h. hb_id h = i) (t_heartbeats (cl_db c))))
     (c\<lparr>cl_db := (cl_db c)\<lparr>t_heartbeats := map (\<lambda>h. if hb_id h = i then f h else h) (t_heartbeats (cl_db c))\<rparr>\<rparr>)"
  by (simp add: bnd_def updateHeartbeats_apply)

definition enqueuedJob ::
  "string \<Rightarrow> string \<Rightarrow> obj \<Rightarrow> string option \<Rightarrow> nat option \<Rightarrow> string option \<Rightarrow> string \<Rightarrow> TenantScope option \<Rightarrow> job" where
  "enqueuedJob mode ident payload key attempts queue trace scope =
     \<lparr>job_identifier = ident, job_payload = payload, job_traceId = trace,
      job_tenantId = (case scope of Some (ScopeTenant t) \<Rightarrow> Some t | _ \<Rightarrow> None),
      job_queueName = queue, job_maxAttempts = attempts, job_key = key, job_keyMode = mode\<rparr>"

lemma enqueueJobMode_InrE:
  assumes "enqueueJobMode mode ident payload key attempts queue c = Inr (x, c')"
  obtains scope where "c' = c\<lparr>cl_db := (cl_db c)\<lparr>t_jobs := t_jobs (cl_db c) @
    [enqueuedJob mode ident payload key attempts queue (cl_traceId c) scope]\<rparr>\<rparr>"
  using assms
  by (auto simp: enqueueJobMode_def andThen_def bnd_def comp_simps ofSum_def enqueuedJob_def split: sum.splits)

lemma enqueueOccurrenceFire_InrE:
  assumes "enqueueOccurrenceFire row r c = Inr (x, c')"
  obtains j where "fireJobOf (oi_occurrenceId r) (oi_generation r) j"
    and "c' = c\<lparr>cl_db := (cl_db c)\<lparr>t_jobs := t_jobs (cl_db c) @ [j]\<rparr>\<rparr>"
proof -
  note e = assms [unfolded enqueueOccurrenceFire_def bnd_gets_apply]
  show thesis
    by (rule enqueueJobMode_InrE [OF e], rule that [rotated]) (assumption, simp add: fireJobOf_def enqueuedJob_def)
qed

text \<open>The tables after a row fired: its occurrence, its job, its new schedule.\<close>

definition firedDb :: "HeartbeatDbRow \<Rightarrow> int option \<Rightarrow> OccurrenceDbRow list \<Rightarrow> job \<Rightarrow> db \<Rightarrow> db" where
  "firedDb row due occs j d = d\<lparr>t_occurrences := occs,
     t_heartbeats := map (\<lambda>h. if hb_id h = hb_id row then h\<lparr>hb_next_fire_at := due\<rparr> else h) (t_heartbeats d),
     t_jobs := t_jobs d @ [j]\<rparr>"

lemma sweepHeartbeat_cases:
  assumes "sweepHeartbeat lx newOcc timezone kinds row fired c = Inr (fired', c')"
  obtains
    (failed) err where "sweepPlan lx timezone kinds (cl_now c) row = Inl err" and "fired' = fired" and "cl_now c' = cl_now c"
      and "cl_db c' = (cl_db c)\<lparr>t_heartbeats := map (\<lambda>h. if hb_id h = hb_id row
             then h\<lparr>hb_last_error := Some (errorMessage err)\<rparr> else h) (t_heartbeats (cl_db c))\<rparr>"
  | (hold) "fired' = fired" and "c' = c"
  | (fired) rule later r i g occs j where "sweepPlan lx timezone kinds (cl_now c) row = Inr (rule, later)"
      and "fired' = fired @ [hb_id row]" and "cl_now c' = cl_now c" and "fireJobOf i g j"
      and "cl_db c' = firedDb row (nextAfterSweep rule later) occs j (cl_db c)"
      and "i = newOcc (hb_id row) \<and> g = 1 \<and>
             occs = t_occurrences (cl_db c) @ [queuedRow i (hb_id row) (dueAt row) (ruleJson rule)] \<and>
             (\<forall>x \<in> set (t_occurrences (cl_db c)). dueKey x \<noteq> (hb_id row, dueAt row)) \<or>
           r \<in> set (t_occurrences (cl_db c)) \<and> i = roc_id r \<and> g = roc_generation r + 1 \<and>
             dueKey r = (hb_id row, dueAt row) \<and> nextGeneration i (t_occurrences (cl_db c)) occs"
proof (cases "sweepPlan lx timezone kinds (cl_now c) row")
  case (Inl err)
  with assms show thesis
    by (intro failed) (auto simp: sweepHeartbeat_def sweepPlan_def comp_simps recordHeartbeatFailure_def andThen_def bnd_def
        split: sum.splits)
next
  case (Inr plan)
  then obtain rule later where plan: "sweepPlan lx timezone kinds (cl_now c) row = Inr (rule, later)" by (cases plan) auto
  have body: "sweepHeartbeat lx newOcc timezone kinds row fired c =
      bnd (insertHeartbeatOccurrence (newOcc (hb_id row)) (hb_id row) (dueAt row) rule) (\<lambda>reactivation.
         case reactivation of
           None \<Rightarrow> return fired
         | Some r \<Rightarrow>
             bnd (updateHeartbeats (hb_id row) (\<lambda>h. h\<lparr>hb_next_fire_at := nextAfterSweep rule later\<rparr>)) (\<lambda>_.
             andThen (enqueueOccurrenceFire row r) (return (fired @ [hb_id row])))) c"
    using plan by (simp add: sweepHeartbeat_def comp_simps)
  obtain res s where ins: "insertHeartbeatOccurrence (newOcc (hb_id row)) (hb_id row) (dueAt row) rule c = Inr (res, s)"
    using assms unfolding body by (rule bnd_InrE)
  have rest: "(case res of
           None \<Rightarrow> return fired
         | Some r \<Rightarrow>
             bnd (updateHeartbeats (hb_id row) (\<lambda>h. h\<lparr>hb_next_fire_at := nextAfterSweep rule later\<rparr>)) (\<lambda>_.
             andThen (enqueueOccurrenceFire row r) (return (fired @ [hb_id row])))) s = Inr (fired', c')"
    using assms unfolding body
      bnd_Inr [where m = "insertHeartbeatOccurrence (newOcc (hb_id row)) (hb_id row) (dueAt row) rule" and s = c, OF ins] .
  have go: thesis if res: "res = Some \<lparr>oi_occurrenceId = i, oi_generation = g, oi_jobKeyMode = mode\<rparr>"
      and s: "cl_db s = (cl_db c)\<lparr>t_occurrences := occs\<rparr>" "cl_now s = cl_now c"
      and occs: "i = newOcc (hb_id row) \<and> g = 1 \<and>
             occs = t_occurrences (cl_db c) @ [queuedRow i (hb_id row) (dueAt row) (ruleJson rule)] \<and>
             (\<forall>x \<in> set (t_occurrences (cl_db c)). dueKey x \<noteq> (hb_id row, dueAt row)) \<or>
           r \<in> set (t_occurrences (cl_db c)) \<and> i = roc_id r \<and> g = roc_generation r + 1 \<and>
             dueKey r = (hb_id row, dueAt row) \<and> nextGeneration i (t_occurrences (cl_db c)) occs"
    for i g mode occs r
  proof -
    let ?r = "\<lparr>oi_occurrenceId = i, oi_generation = g, oi_jobKeyMode = mode\<rparr>"
    from rest [unfolded res option.case bnd_updateHeartbeats_apply]
    obtain x s1 where e: "enqueueOccurrenceFire row ?r (s\<lparr>cl_db := (cl_db s)\<lparr>t_heartbeats := map (\<lambda>h. if hb_id h = hb_id row
          then h\<lparr>hb_next_fire_at := nextAfterSweep rule later\<rparr> else h) (t_heartbeats (cl_db s))\<rparr>\<rparr>) = Inr (x, s1)"
        and last: "(return (fired @ [hb_id row]) :: id list op) s1 = Inr (fired', c')"
      by (rule andThen_InrE)
    from e obtain j where j: "fireJobOf i g j" and s1: "s1 = s\<lparr>cl_db := (cl_db s)\<lparr>t_heartbeats := map (\<lambda>h. if hb_id h = hb_id row
          then h\<lparr>hb_next_fire_at := nextAfterSweep rule later\<rparr> else h) (t_heartbeats (cl_db s)), t_jobs := t_jobs (cl_db s) @ [j]\<rparr>\<rparr>"
      by (rule enqueueOccurrenceFire_InrE) simp
    from last have c': "fired' = fired @ [hb_id row]" "c' = s1" by (simp_all add: comp_simps)
    then have "cl_db c' = firedDb row (nextAfterSweep rule later) occs j (cl_db c)" "cl_now c' = cl_now c"
      by (simp_all add: s1 s firedDb_def)
    then show thesis using c'(1) j plan occs by (intro fired)
  qed
  show thesis
    using ins
  proof (cases rule: insertHeartbeatOccurrence_cases)
    case none
    with rest show thesis by (intro hold) (simp_all add: comp_simps)
  next
    case fresh
    then show thesis by (intro go) auto
  next
    case (again r mode occs)
    then show thesis by (intro go) auto
  qed
qed

section \<open>The invariant of the sweep\<close>

lemma distinct_key_update:
  assumes "\<And>x. key (f x) = key x"
  shows "map key (map (\<lambda>x. if P x then f x else x) xs) = map key xs"
  using assms by simp

lemma dispatchInv_fresh:
  assumes "dispatchInv d" and "unusedOcc d i" and "fireJobOf i 1 j"
    and "\<forall>x \<in> set (t_occurrences d). dueKey x \<noteq> (h, due)"
  shows "dispatchInv (firedDb row n (t_occurrences d @ [queuedRow i h due snapshot]) j d)"
  unfolding dispatchInv_def
proof (intro conjI ballI)
  let ?d = "firedDb row n (t_occurrences d @ [queuedRow i h due snapshot]) j d"
  show "distinct (map hb_id (t_heartbeats ?d))"
    using assms(1) by (simp add: dispatchInv_def firedDb_def distinct_key_update comp_def if_distrib cong: if_cong)
  show "distinct (map roc_id (t_occurrences ?d))"
    using assms(1,2) by (simp add: dispatchInv_def firedDb_def unusedOcc_def queuedRow_def)
  show "distinct (map dueKey (t_occurrences ?d))"
    using assms(1,4) by (auto simp: dispatchInv_def firedDb_def queuedRow_def dueKey_def)
  fix r assume "r \<in> set (t_occurrences ?d)"
  then consider "r \<in> set (t_occurrences d)" | "r = queuedRow i h due snapshot" by (auto simp: firedDb_def)
  then show "dispatched (t_jobs ?d) r"
  proof cases
    case 1
    with assms(2) have "roc_id r \<noteq> i" by (auto simp: unusedOcc_def)
    with 1 assms(1,3) show ?thesis
      by (simp add: dispatchInv_def dispatched_def firedDb_def jobGenerations_fireJob)
  next
    case 2
    with assms(2,3) show ?thesis
      by (simp add: dispatched_def firedDb_def queuedRow_def unusedOcc_def jobGenerations_fireJob)
  qed
qed

lemma dispatchInv_again:
  assumes "dispatchInv d" and "r \<in> set (t_occurrences d)" and "fireJobOf (roc_id r) (roc_generation r + 1) j"
    and "nextGeneration (roc_id r) (t_occurrences d) occs"
  shows "dispatchInv (firedDb row n occs j d)"
  unfolding dispatchInv_def
proof (intro conjI ballI)
  let ?d = "firedDb row n occs j d"
  from assms(4) obtain f where occs: "occs = map (\<lambda>x. if roc_id x = roc_id r then f x else x) (t_occurrences d)"
      and f: "\<And>x. roc_id (f x) = roc_id x" "\<And>x. dueKey (f x) = dueKey x" "\<And>x. roc_generation (f x) = roc_generation x + 1"
    by (auto simp: nextGeneration_def)
  show "distinct (map hb_id (t_heartbeats ?d))"
    using assms(1) by (simp add: dispatchInv_def firedDb_def distinct_key_update comp_def if_distrib cong: if_cong)
  show "distinct (map roc_id (t_occurrences ?d))" "distinct (map dueKey (t_occurrences ?d))"
    using assms(1) f(1,2) unfolding firedDb_def dispatchInv_def
    by (simp_all add: occs distinct_key_update del: map_map)
  fix y assume "y \<in> set (t_occurrences ?d)"
  then obtain x where x: "x \<in> set (t_occurrences d)" "y = (if roc_id x = roc_id r then f x else x)"
    by (auto simp: firedDb_def occs)
  have "dispatched (t_jobs d) x" using assms(1) x(1) by (simp add: dispatchInv_def)
  moreover have "roc_id x = roc_id r \<Longrightarrow> x = r"
    using assms(1,2) x(1) by (auto simp: dispatchInv_def distinct_map dest: inj_onD)
  ultimately show "dispatched (t_jobs ?d) y"
    using x(2) f assms(3) by (auto simp: dispatched_def firedDb_def jobGenerations_fireJob)
qed

lemma unusedOcc_fired:
  assumes "unusedOcc d i'" and "i' \<noteq> i" and "fireJobOf i g j"
    and "set (map roc_id occs) \<subseteq> insert i (set (map roc_id (t_occurrences d)))"
  shows "unusedOcc (firedDb row n occs j d) i'"
  using assms by (auto simp: unusedOcc_def firedDb_def jobGenerations_fireJob)

lemma sweepHeartbeat_inv:
  assumes "sweepHeartbeat lx newOcc timezone kinds row fired c = Inr (fired', c')"
    and "dispatchInv (cl_db c)" and "unusedOcc (cl_db c) (newOcc (hb_id row))"
  shows "dispatchInv (cl_db c') \<and>
    (\<forall>i. i \<noteq> newOcc (hb_id row) \<longrightarrow> unusedOcc (cl_db c) i \<longrightarrow> unusedOcc (cl_db c') i)"
  using assms(1)
proof (cases rule: sweepHeartbeat_cases)
  case (failed err)
  then show ?thesis using assms(2)
    by (simp add: dispatchInv_def unusedOcc_def distinct_key_update comp_def if_distrib cong: if_cong)
next
  case hold
  with assms(2) show ?thesis by simp
next
  case (fired rule later r i g occs j)
  from fired(6) show ?thesis
  proof
    assume new: "i = newOcc (hb_id row) \<and> g = 1 \<and>
        occs = t_occurrences (cl_db c) @ [queuedRow i (hb_id row) (dueAt row) (ruleJson rule)] \<and>
        (\<forall>x \<in> set (t_occurrences (cl_db c)). dueKey x \<noteq> (hb_id row, dueAt row))"
    with assms(2,3) fired(4) have "dispatchInv (cl_db c')" unfolding fired(5)
      by (auto intro!: dispatchInv_fresh)
    moreover have "unusedOcc (cl_db c') i'" if "i' \<noteq> newOcc (hb_id row)" "unusedOcc (cl_db c) i'" for i'
      unfolding fired(5) by (rule unusedOcc_fired [OF that(2) _ fired(4)]) (use new that(1) in \<open>auto simp: queuedRow_def\<close>)
    ultimately show ?thesis by blast
  next
    assume again: "r \<in> set (t_occurrences (cl_db c)) \<and> i = roc_id r \<and> g = roc_generation r + 1 \<and>
        dueKey r = (hb_id row, dueAt row) \<and> nextGeneration i (t_occurrences (cl_db c)) occs"
    then have "dispatchInv (cl_db c')" unfolding fired(5)
      using dispatchInv_again [OF assms(2)] fired(4) by blast
    moreover have "unusedOcc (cl_db c') i'" if "unusedOcc (cl_db c) i'" for i'
      unfolding fired(5)
    proof (rule unusedOcc_fired [OF that _ fired(4)])
      show "i' \<noteq> i" using that again by (auto simp: unusedOcc_def)
      show "set (map roc_id occs) \<subseteq> insert i (set (map roc_id (t_occurrences (cl_db c))))"
        using again by (auto simp: nextGeneration_def)
    qed
    ultimately show ?thesis by blast
  qed
qed

lemma foldC_Cons_InrE:
  assumes "foldC f (x # xs) acc c = Inr (y, c')"
  obtains acc1 c1 where "f x acc c = Inr (acc1, c1)" and "foldC f xs acc1 c1 = Inr (y, c')"
  using assms by (auto elim: bnd_InrE)

lemma sweepRows_inv:
  assumes "foldC (sweepHeartbeat lx newOcc timezone kinds) rows fired c = Inr (fired', c')"
    and "dispatchInv (cl_db c)" and "distinct (map hb_id rows)" and "inj newOcc"
    and "\<forall>row \<in> set rows. unusedOcc (cl_db c) (newOcc (hb_id row))"
  shows "dispatchInv (cl_db c')"
  using assms
proof (induction rows arbitrary: fired c)
  case (Cons row rows)
  from Cons.prems(1) obtain fired1 c1 where one: "sweepHeartbeat lx newOcc timezone kinds row fired c = Inr (fired1, c1)"
      and rest: "foldC (sweepHeartbeat lx newOcc timezone kinds) rows fired1 c1 = Inr (fired', c')"
    by (rule foldC_Cons_InrE)
  have inv: "dispatchInv (cl_db c1) \<and> (\<forall>i. i \<noteq> newOcc (hb_id row) \<longrightarrow> unusedOcc (cl_db c) i \<longrightarrow> unusedOcc (cl_db c1) i)"
    by (rule sweepHeartbeat_inv [OF one Cons.prems(2)]) (use Cons.prems(5) in simp)
  have "unusedOcc (cl_db c1) (newOcc (hb_id row'))" if "row' \<in> set rows" for row'
  proof -
    from that have "hb_id row' \<in> hb_id ` set rows" by simp
    with Cons.prems(3) have "hb_id row' \<noteq> hb_id row" by auto
    with Cons.prems(4) have "newOcc (hb_id row') \<noteq> newOcc (hb_id row)" by (simp add: inj_eq)
    with inv that Cons.prems(5) show ?thesis by simp
  qed
  then show ?case using Cons.IH [OF rest] inv Cons.prems(3,4) by simp
qed (simp add: comp_simps)

section \<open>Operations that leave the dispatch alone\<close>

text \<open>
  The tables keep the heartbeats' ids and the slots of the occurrences, and get only jobs that
  name no occurrence.
\<close>

definition dispatchFrame :: "db \<Rightarrow> db \<Rightarrow> bool" where
  "dispatchFrame d0 d \<longleftrightarrow> map hb_id (t_heartbeats d) = map hb_id (t_heartbeats d0) \<and>
     sameSlots (t_occurrences d0) (t_occurrences d) \<and>
     (\<exists>js. t_jobs d = t_jobs d0 @ js \<and> (\<forall>i. jobGenerations i js = []))"

lemma dispatchFrame_refl: "dispatchFrame d d"
  by (simp add: dispatchFrame_def sameSlots_def)

lemma sameSlots_keys:
  assumes "sameSlots rs rs'"
  shows "map roc_id rs' = map roc_id rs" and "map dueKey rs' = map dueKey rs"
    and "map (\<lambda>r. (roc_id r, roc_generation r)) rs' = map (\<lambda>r. (roc_id r, roc_generation r)) rs"
  using arg_cong [OF assms [unfolded sameSlots_def], of "map fst"]
    arg_cong [OF assms [unfolded sameSlots_def], of "map (fst \<circ> snd)"]
    arg_cong [OF assms [unfolded sameSlots_def], of "map (\<lambda>(i, k, g). (i, g))"]
  by (simp_all add: comp_def)

lemma dispatchInv_frame:
  assumes "dispatchFrame d d'" and "dispatchInv d"
  shows "dispatchInv d'"
proof -
  from assms(1) obtain js where js: "t_jobs d' = t_jobs d @ js" "\<And>i. jobGenerations i js = []"
      and slots: "sameSlots (t_occurrences d) (t_occurrences d')"
      and hbs: "map hb_id (t_heartbeats d') = map hb_id (t_heartbeats d)"
    by (auto simp: dispatchFrame_def)
  have "dispatched (t_jobs d') r'" if "r' \<in> set (t_occurrences d')" for r'
  proof -
    from that have "(roc_id r', roc_generation r') \<in> set (map (\<lambda>r. (roc_id r, roc_generation r)) (t_occurrences d'))" by force
    then obtain r where "r \<in> set (t_occurrences d)" "roc_id r = roc_id r'" "roc_generation r = roc_generation r'"
      unfolding sameSlots_keys(3) [OF slots] by auto
    with assms(2) js show ?thesis by (auto simp: dispatchInv_def dispatched_def)
  qed
  with assms(2) hbs sameSlots_keys(1,2) [OF slots] show ?thesis by (simp add: dispatchInv_def)
qed

lemma frame_heartbeats:
  "dispatchFrame d0 d \<Longrightarrow> (\<And>h. hb_id (f h) = hb_id h) \<Longrightarrow>
     dispatchFrame d0 (d\<lparr>t_heartbeats := map (\<lambda>h. if P h then f h else h) (t_heartbeats d)\<rparr>)"
  by (simp add: dispatchFrame_def distinct_key_update comp_def if_distrib cong: if_cong)

lemma frame_occurrences:
  "dispatchFrame d0 d \<Longrightarrow>
     (\<And>r. roc_id (f r) = roc_id r \<and> dueKey (f r) = dueKey r \<and> roc_generation (f r) = roc_generation r) \<Longrightarrow>
     dispatchFrame d0 (d\<lparr>t_occurrences := map (\<lambda>r. if P r then f r else r) (t_occurrences d)\<rparr>)"
  by (simp add: dispatchFrame_def sameSlots_def comp_def if_distrib cong: if_cong)

lemma frame_job:
  "dispatchFrame d0 d \<Longrightarrow> map_of (job_payload j) ''occurrenceId'' = None \<Longrightarrow>
     dispatchFrame d0 (d\<lparr>t_jobs := t_jobs d @ [j]\<rparr>)"
  by (auto simp: dispatchFrame_def jobGenerations_def jobGeneration_def)

named_theorems frame_intros \<open>operations that keep the dispatch frame\<close>

lemma keeps_frame_updateHeartbeats [frame_intros]:
  "(\<And>h. hb_id (f h) = hb_id h) \<Longrightarrow> keeps (onDb (dispatchFrame d0)) (updateHeartbeats i f)"
  unfolding updateHeartbeats_def by (intro keeps_intros keeps_query keeps_onDb_statement frame_heartbeats)

lemma keeps_frame_updateOccurrences [frame_intros]:
  "(\<And>r. roc_id (f r) = roc_id r \<and> dueKey (f r) = dueKey r \<and> roc_generation (f r) = roc_generation r) \<Longrightarrow>
     keeps (onDb (dispatchFrame d0)) (updateOccurrences P f)"
  unfolding updateOccurrences_def by (intro keeps_onDb_statement frame_occurrences)

lemma keeps_frame_records [frame_intros]:
  "keeps (onDb (dispatchFrame d0)) (recordHeartbeatSuccess i)"
  "keeps (onDb (dispatchFrame d0)) (recordHeartbeatFailure i message)"
  unfolding recordHeartbeatSuccess_def recordHeartbeatFailure_def
  by (intro keeps_onDb_statement frame_heartbeats; simp)+

lemma keeps_frame_enqueue [frame_intros]:
  assumes "map_of payload ''occurrenceId'' = None"
  shows "keeps (onDb (dispatchFrame d0)) (enqueueJobMode mode ident payload key attempts queue)"
proof (rule keepsI)
  fix c x c' assume "onDb (dispatchFrame d0) c" and "enqueueJobMode mode ident payload key attempts queue c = Inr (x, c')"
  then show "onDb (dispatchFrame d0) c'"
    using assms by (auto elim!: enqueueJobMode_InrE simp: onDb_def enqueuedJob_def intro!: frame_job)
qed

lemma keeps_frame_notify [frame_intros]:
  "keeps (onDb (dispatchFrame d0)) (notifyHeartbeatError catalogs newId heartbeat jobId)"
proof -
  have "keeps (onDb (dispatchFrame d0)) (writeNotification catalogs newId input)" for input
    unfolding writeNotification_def enqueueNotificationFanout_def Let_def
    by (intro keeps_intros readsOnly_keeps [OF readsOnly_users(2)] readsOnly_keeps [OF readsOnly_gets]
        readsOnly_keeps [OF readsOnly_query] keeps_frame_enqueue keeps_onDb_statement)
      (simp_all add: dispatchFrame_def)
  then show ?thesis
    unfolding notifyHeartbeatError_def by (intro keeps_intros readsOnly_keeps [OF readsOnly_users(1)])
qed

lemma readsOnly_scheduling [reads_intros]:
  "readsOnly (selectHeartbeats q)" "readsOnly (selectOccurrences s)" "readsOnly (getHeartbeat i kinds)"
  "readsOnly (requireHeartbeat i kinds)" "readsOnly (assertOnItemEventDatabaseExists rule)"
  "readsOnly (computeNextFireAtNow lx clock rule kinds)" "readsOnly (writtenNextFireAt lx clock b rule kinds)"
  by (auto simp: selectHeartbeats_def selectOccurrences_def getHeartbeat_def requireHeartbeat_def
      assertOnItemEventDatabaseExists_def computeNextFireAtNow_def writtenNextFireAt_def
      intro!: reads_intros split: AnyHeartbeatRule.split HeartbeatRule.split)

lemmas keeps_reads = readsOnly_scheduling [THEN readsOnly_keeps] readsOnly_timezone [THEN readsOnly_keeps]
  readsOnly_requireAffectedRows [THEN readsOnly_keeps] readsOnly_requireSingleRow [THEN readsOnly_keeps]

lemma keeps_frame_start [frame_intros]:
  "keeps (onDb (dispatchFrame d0)) (startOccurrence lx clock i o1 rule kinds)"
  unfolding startOccurrence_def
  by (intro keeps_intros frame_intros keeps_reads) (simp_all add: startedRow_def dueKey_def)

lemma keeps_frame_prepare:
  "keeps (onDb (dispatchFrame d0)) (prepareHeartbeatOccurrenceFire lx clock i o1 generation kinds)"
  unfolding prepareHeartbeatOccurrenceFire_def
  by (auto intro!: keeps_intros frame_intros keeps_reads simp: failedRow_def dueKey_def split: prod.split list.split)

lemma keeps_frame_close:
  "keeps (onDb (dispatchFrame d0)) (succeedHeartbeatOccurrence o1)"
  "keeps (onDb (dispatchFrame d0)) (failHeartbeatOccurrence o1 message)"
  unfolding succeedHeartbeatOccurrence_def failHeartbeatOccurrence_def
  by (intro frame_intros; simp add: failedRow_def dueKey_def)+

lemma keeps_frame_setupFailure:
  "keeps (onDb (dispatchFrame d0)) (recordHeartbeatFireSetupFailure lx i o1 message kinds)"
  unfolding recordHeartbeatFireSetupFailure_def
  by (intro keeps_intros frame_intros keeps_reads) (simp_all add: failedRow_def dueKey_def)

lemma keeps_frame_edits:
  "keeps (onDb (dispatchFrame d0)) (updateHeartbeatRule lx clock i rawRule kinds)"
  "keeps (onDb (dispatchFrame d0)) (setHeartbeatEnabled lx clock i enabled kinds)"
  unfolding updateHeartbeatRule_def setHeartbeatEnabled_def updatedHeartbeat_def disableHeartbeat_def
  by (auto intro!: keeps_intros frame_intros keeps_reads split: HeartbeatRowRule.split)

lemma keeps_frame_recompute:
  "keeps (onDb (dispatchFrame d0)) (recomputeAllForTimezoneChange lx clock timezone kinds)"
proof -
  have "keeps (onDb (dispatchFrame d0)) (recomputeHeartbeat lx clock timezone kinds row)" for row
    unfolding recomputeHeartbeat_def
    by (intro keeps_intros frame_intros keeps_onDb_statement frame_heartbeats) simp_all
  then show ?thesis unfolding recomputeAllForTimezoneChange_def by (intro keeps_intros keeps_query)
qed

lemma frame_transaction:
  assumes "keeps (onDb (dispatchFrame (w_db w))) fn" and "withTransaction env p fn w = (r, w')"
    and "dispatchInv (w_db w)"
  shows "dispatchInv (w_db w')"
  using withTransaction_keeps [OF assms(1) dispatchFrame_refl, of env p] assms(2,3)
  by (auto intro: dispatchInv_frame)

lemma create_transaction:
  assumes "withTransaction env p (createHeartbeat lx clock newId input kinds) w = (r, w')"
    and "newId \<notin> hb_id ` set (t_heartbeats (w_db w))" and "dispatchInv (w_db w)"
  shows "dispatchInv (w_db w')"
proof (cases r)
  case (Inl e)
  with assms(1,3) show ?thesis by (auto dest: withTransaction_Inl_db)
next
  case (Inr x)
  with assms(1) obtain scope c where "createHeartbeat lx clock newId input kinds (beginTx env scope w) = Inr (x, c)"
      and w': "w_db w' = cl_db c" by (auto elim!: withTransaction_InrE)
  then obtain rule on due where
      "cl_db c = (w_db w)\<lparr>t_heartbeats := t_heartbeats (w_db w) @ [createdHeartbeat newId input rule on due]\<rparr>"
    unfolding createHeartbeat_def Let_def
    by (auto simp: comp_simps beginTx_def elim!: bnd_InrE andThen_InrE
        dest!: readsOnlyD [OF readsOnly_ofSum] readsOnlyD [OF readsOnly_scheduling(5)] readsOnlyD [OF readsOnly_scheduling(7)])
  with assms(2,3) w' show ?thesis by (simp add: dispatchInv_def createdHeartbeat_def)
qed

lemma distinct_duePage:
  "distinct (map hb_id (t_heartbeats d)) \<Longrightarrow> distinct (map hb_id (duePage locked now afterId d))"
  unfolding duePage_def by (simp add: take_map [symmetric] distinct_map_filter distinct_map inj_on_def)

lemma sweep_transaction:
  assumes "withTransaction env p (sweepDueHeartbeats lx newOcc locked kinds afterId) w = (r, w')"
    and "inj newOcc" and "\<forall>i. unusedOcc (w_db w) (newOcc i)" and "dispatchInv (w_db w)"
  shows "dispatchInv (w_db w')"
proof (cases r)
  case (Inl e)
  with assms(1,4) show ?thesis by (auto dest: withTransaction_Inl_db)
next
  case (Inr x)
  with assms(1) obtain scope c where run: "sweepDueHeartbeats lx newOcc locked kinds afterId (beginTx env scope w) = Inr (x, c)"
      and w': "w_db w' = cl_db c" by (auto elim!: withTransaction_InrE)
  let ?c = "beginTx env scope w" and ?rows = "duePage locked (tx_now env) afterId (w_db w)"
  show ?thesis
  proof (cases "?rows = []")
    case True
    with run w' assms(4) show ?thesis by (auto simp: sweepDueHeartbeats_def comp_simps beginTx_def)
  next
    case False
    with run obtain timezone fired where "foldC (sweepHeartbeat lx newOcc timezone kinds) ?rows [] ?c = Inr (fired, c)"
      by (auto simp: sweepDueHeartbeats_def comp_simps beginTx_def elim!: bnd_InrE
          dest!: readsOnlyD [OF readsOnly_timezone])
    then have "dispatchInv (cl_db c)"
      by (rule sweepRows_inv) (use assms distinct_duePage in \<open>simp_all add: beginTx_def dispatchInv_def\<close>)
    with w' show ?thesis by simp
  qed
qed

section \<open>Exactly one dispatch\<close>

text \<open>
  The transactions of the scheduler, in any order and by any worker, and any other transaction:
  one that deletes occurrences, or enqueues jobs that are not fires of an occurrence.
\<close>

inductive schedStep :: "hook \<Rightarrow> world \<Rightarrow> world \<Rightarrow> bool" for p where
  sweep: "inj newOcc \<Longrightarrow> \<forall>i. unusedOcc (w_db w) (newOcc i) \<Longrightarrow>
    withTransaction env p (sweepDueHeartbeats lx newOcc locked kinds afterId) w = (r, w') \<Longrightarrow> schedStep p w w'"
| start: "withTransaction env p (prepareHeartbeatOccurrenceFire lx clock i o1 generation kinds) w = (r1, w') \<Longrightarrow>
    schedStep p w w'"
| success: "withTransaction env p (andThen (recordHeartbeatSuccess i) (succeedHeartbeatOccurrence o1)) w = (r2, w') \<Longrightarrow>
    schedStep p w w'"
| failure: "withTransaction env p (andThen (recordHeartbeatFailure i message) (andThen (failHeartbeatOccurrence o1 message)
      (notifyHeartbeatError catalogs newId heartbeat jobId))) w = (r2, w') \<Longrightarrow> schedStep p w w'"
| setupFailure: "withTransaction env p (bnd (recordHeartbeatFireSetupFailure lx i o2 message kinds) (\<lambda>failed.
      case failed of None \<Rightarrow> return () | Some h \<Rightarrow> notifyHeartbeatError catalogs newId h jobId)) w = (r2, w') \<Longrightarrow>
    schedStep p w w'"
| create: "newId \<notin> hb_id ` set (t_heartbeats (w_db w)) \<Longrightarrow>
    withTransaction env p (createHeartbeat lx clock newId input kinds) w = (r3, w') \<Longrightarrow> schedStep p w w'"
| edit: "withTransaction env p (updateHeartbeatRule lx clock i rawRule kinds) w = (r3, w') \<Longrightarrow> schedStep p w w'"
| enable: "withTransaction env p (setHeartbeatEnabled lx clock i enabled kinds) w = (r3, w') \<Longrightarrow> schedStep p w w'"
| timezone: "withTransaction env p (recomputeAllForTimezoneChange lx clock tz kinds) w = (r2, w') \<Longrightarrow> schedStep p w w'"
| other: "t_occurrences (w_db w') = filter keep (t_occurrences (w_db w)) \<Longrightarrow>
    t_heartbeats (w_db w') = filter keepH (t_heartbeats (w_db w)) \<Longrightarrow>
    t_jobs (w_db w') = t_jobs (w_db w) @ js \<Longrightarrow> \<forall>j \<in> set js. map_of (job_payload j) ''occurrenceId'' = None \<Longrightarrow>
    schedStep p w w'"

lemma schedStep_inv:
  assumes "schedStep p w w'" and "dispatchInv (w_db w)"
  shows "dispatchInv (w_db w')"
  using assms(1)
proof cases
  case (sweep newOcc env lx locked kinds afterId r)
  with assms(2) show ?thesis by (blast intro: sweep_transaction)
next
  case (start env lx clock i o1 generation kinds r1)
  show ?thesis by (rule frame_transaction [OF keeps_frame_prepare start assms(2)])
next
  case (success env i o1 r2)
  show ?thesis
    by (rule frame_transaction [OF _ success assms(2)]) (intro keeps_andThen keeps_frame_records keeps_frame_close)
next
  case (failure env i message o1 catalogs newId heartbeat jobId r2)
  show ?thesis
    by (rule frame_transaction [OF _ failure assms(2)])
      (intro keeps_andThen keeps_frame_records keeps_frame_close keeps_frame_notify)
next
  case (setupFailure env lx i o2 message kinds catalogs newId jobId r2)
  show ?thesis
    by (rule frame_transaction [OF _ setupFailure assms(2)])
      (intro keeps_bnd keeps_option keeps_return keeps_frame_setupFailure keeps_frame_notify)
next
  case (create newId env lx clock input kinds r3)
  show ?thesis by (rule create_transaction [OF create(2,1) assms(2)])
next
  case (edit env lx clock i rawRule kinds r3)
  show ?thesis by (rule frame_transaction [OF keeps_frame_edits(1) edit assms(2)])
next
  case (enable env lx clock i enabled kinds r3)
  show ?thesis by (rule frame_transaction [OF keeps_frame_edits(2) enable assms(2)])
next
  case (timezone env lx clock tz kinds r2)
  show ?thesis by (rule frame_transaction [OF keeps_frame_recompute timezone assms(2)])
next
  case (other keep keepH js)
  have "jobGenerations i js = []" for i
    using other(4) by (induction js) (simp_all add: jobGenerations_def jobGeneration_def)
  with other assms(2) show ?thesis by (simp add: dispatchInv_def dispatched_def distinct_map_filter)
qed

text \<open>
  C7: whatever sweeps, fires, retries, edits and deletions interleave, a
  heartbeat has at most one occurrence per due time, and for each occurrence the queue was given
  exactly one fire job of each of its generations, in order, and none of a generation it has not
  reached.
\<close>

theorem dispatch_exactly_once:
  assumes "(schedStep p)\<^sup>*\<^sup>* w0 w" and "dispatchInv (w_db w0)" and "r \<in> set (t_occurrences (w_db w))"
  shows "jobGenerations (roc_id r) (t_jobs (w_db w)) = map of_nat [1..<roc_generation r + 1] \<and>
    (\<forall>r' \<in> set (t_occurrences (w_db w)). roc_heartbeat_id r' = roc_heartbeat_id r \<and>
       roc_scheduled_for r' = roc_scheduled_for r \<longrightarrow> r' = r)"
proof (intro conjI ballI impI)
  have inv: "dispatchInv (w_db w)"
    using assms(1,2) by (induction rule: rtranclp_induct) (auto intro: schedStep_inv)
  with assms(3) show "jobGenerations (roc_id r) (t_jobs (w_db w)) = map of_nat [1..<roc_generation r + 1]"
    by (simp add: dispatchInv_def dispatched_def)
  fix r' assume r': "r' \<in> set (t_occurrences (w_db w))"
      and same: "roc_heartbeat_id r' = roc_heartbeat_id r \<and> roc_scheduled_for r' = roc_scheduled_for r"
  from inv have "inj_on dueKey (set (t_occurrences (w_db w)))" by (simp add: dispatchInv_def distinct_map)
  moreover from same have "dueKey r' = dueKey r" by (simp add: dueKey_def)
  ultimately show "r' = r" using r' assms(3) by (rule inj_onD)
qed

section \<open>Repeated and superseded fires\<close>

text \<open>
  C14: a fire job of a generation that was superseded ends without an error
  and changes nothing, whatever handler is registered: none is called.
\<close>

theorem stale_fire_no_effect:
  assumes "distinct (map roc_id (t_occurrences (w_db w)))" and "r \<in> set (t_occurrences (w_db w))"
    and "h \<in> set (t_heartbeats (w_db w))" and "hb_id h = roc_heartbeat_id r"
    and "generation \<noteq> of_nat (roc_generation r)" and "willCommit (fe_tx fe 0)"
  shows "\<exists>w'. (\<forall>registry expectedAffinity. runScheduledOccurrenceFire fe registry expectedAffinity
      (roc_heartbeat_id r) (roc_id r) generation job w = (Inr (), w')) \<and> w_db w' = w_db w"
proof -
  let ?fn = "prepareHeartbeatOccurrenceFire (fe_luxon fe) (fe_clock fe) (roc_heartbeat_id r) (roc_id r) generation (fe_kinds fe)"
  have stale: "?fn c = Inr (FireStale, c)" if "cl_db c = w_db w" for c
  proof -
    let ?P = "\<lambda>x. roc_id x = roc_id r \<and> roc_heartbeat_id x = roc_heartbeat_id r"
    have "filter ?P (t_occurrences (w_db w)) = [r]"
      using filter_by_key [OF assms(1,2)] by simp
    moreover obtain h' hs where "filter (\<lambda>h. hb_id h = roc_heartbeat_id r) (t_heartbeats (w_db w)) = h' # hs"
      using assms(3,4) by (cases "filter (\<lambda>h. hb_id h = roc_heartbeat_id r) (t_heartbeats (w_db w))")
        (auto simp: filter_empty_conv)
    ultimately show ?thesis
      using that assms(5) by (simp add: prepareHeartbeatOccurrenceFire_def selectOccurrences_def selectHeartbeats_def comp_simps)
  qed
  then obtain w' where "withTransaction (fe_tx fe 0) (fe_deliverable fe) ?fn w = (Inr FireStale, w')" "w_db w' = w_db w"
    by (elim willCommit_tx [OF assms(6), rotated]) (auto simp: beginTx_def)
  then show ?thesis by (auto simp: runScheduledOccurrenceFire_def)
qed

definition firstOcc :: "id \<Rightarrow> id \<Rightarrow> db \<Rightarrow> OccurrenceDbRow list" where
  "firstOcc i o1 d = filter (\<lambda>r. roc_id r = o1 \<and> roc_heartbeat_id r = i) (t_occurrences d)"

definition firstHb :: "id \<Rightarrow> db \<Rightarrow> HeartbeatDbRow list" where
  "firstHb i d = filter (\<lambda>h. hb_id h = i) (t_heartbeats d)"

definition mayFire :: "rat \<Rightarrow> HeartbeatRuleKindRegistry \<Rightarrow> OccurrenceDbRow \<Rightarrow> HeartbeatDbRow \<Rightarrow> bool" where
  "mayFire generation kinds r h \<longleftrightarrow> of_nat (roc_generation r) = generation \<and> hb_enabled h \<and>
     jsonbEq (JObj (hb_rule h)) (JObj (roc_rule_snapshot r)) \<and> \<not> isl (parseHeartbeatRule (hb_rule h) kinds)"

lemma prepare_unfold:
  assumes "firstOcc i o1 (cl_db c) = r # rs" and "firstHb i (cl_db c) = h # hs" and "mayFire generation kinds r h"
  shows "prepareHeartbeatOccurrenceFire lx clock i o1 generation kinds c =
    andThen (whenC (roc_first_started_at r = None)
        (startOccurrence lx clock i o1 (projr (parseHeartbeatRule (hb_rule h) kinds)) kinds))
      (bnd (ofSum (mapHeartbeatRow h kinds True)) (\<lambda>heartbeat. return (FireProceed heartbeat))) c"
  using assms by (cases "parseHeartbeatRule (hb_rule h) kinds")
    (simp_all add: prepareHeartbeatOccurrenceFire_def selectOccurrences_def selectHeartbeats_def firstOcc_def firstHb_def
      mayFire_def comp_simps)

lemma prepare_proceedE:
  assumes "prepareHeartbeatOccurrenceFire lx clock i o1 generation kinds c = Inr (FireProceed hr, c')"
  obtains r rs h hs where "firstOcc i o1 (cl_db c) = r # rs" and "firstHb i (cl_db c) = h # hs"
    and "mayFire generation kinds r h"
proof (cases "firstOcc i o1 (cl_db c)")
  case Nil
  with assms show thesis
    by (simp add: prepareHeartbeatOccurrenceFire_def selectOccurrences_def selectHeartbeats_def firstOcc_def comp_simps)
next
  case occ: (Cons r rs)
  show thesis
  proof (cases "firstHb i (cl_db c)")
    case Nil
    with assms occ show thesis
      by (simp add: prepareHeartbeatOccurrenceFire_def selectOccurrences_def selectHeartbeats_def firstOcc_def firstHb_def
          comp_simps)
  next
    case (Cons h hs)
    have "mayFire generation kinds r h"
      using assms occ Cons
      by (auto simp: prepareHeartbeatOccurrenceFire_def selectOccurrences_def selectHeartbeats_def firstOcc_def firstHb_def
          mayFire_def updateOccurrences_def recordHeartbeatFailure_def andThen_def bnd_def comp_simps
          split: if_splits sum.splits)
    with occ Cons that show thesis by blast
  qed
qed

lemma startOccurrence_InrE:
  assumes "startOccurrence lx clock i o1 rule kinds c = Inr (x, c')"
  obtains f where "\<forall>h. hb_rule (f h) = hb_rule h \<and> hb_enabled (f h) = hb_enabled h \<and> hb_id (f h) = hb_id h \<and>
      hb_action_id (f h) = hb_action_id h \<and> hb_action_config (f h) = hb_action_config h"
    and "cl_db c' = (cl_db c)\<lparr>t_occurrences := map (\<lambda>r. if roc_id r = o1 then startedRow clock r else r) (t_occurrences (cl_db c)),
      t_heartbeats := map (\<lambda>h. if hb_id h = i then f h else h) (t_heartbeats (cl_db c))\<rparr>"
proof -
  from assms obtain due s where due: "(if isFloatingRuleKind (ruleKind rule)
          then bnd (computeNextFireAtNow lx clock rule kinds) (\<lambda>next. return (Some next)) else return None) c = Inr (due, s)"
      and rest: "andThen (updateOccurrences (\<lambda>r. roc_id r = o1) (startedRow clock))
     (bnd (case due of
             Some next \<Rightarrow> updateHeartbeats i
               (\<lambda>h. h\<lparr>hb_last_fired_at := Some (clock * 1000), hb_next_fire_at := storedInstant next\<rparr>)
           | None \<Rightarrow> updateHeartbeats i (\<lambda>h. h\<lparr>hb_last_fired_at := Some (clock * 1000)\<rparr>)) (\<lambda>_. return ())) s = Inr (x, c')"
    unfolding startOccurrence_def by (rule bnd_InrE)
  have "readsOnly (if isFloatingRuleKind (ruleKind rule)
      then bnd (computeNextFireAtNow lx clock rule kinds) (\<lambda>next. return (Some next)) else return None)"
    by (intro reads_intros)
  from readsOnlyD [OF this due] have s: "s = c" .
  let ?f = "\<lambda>h. case due of Some next \<Rightarrow> h\<lparr>hb_last_fired_at := Some (clock * 1000), hb_next_fire_at := storedInstant next\<rparr>
    | None \<Rightarrow> h\<lparr>hb_last_fired_at := Some (clock * 1000)\<rparr>"
  from rest have "cl_db c' = (cl_db c)\<lparr>t_occurrences := map (\<lambda>r. if roc_id r = o1 then startedRow clock r else r)
      (t_occurrences (cl_db c)), t_heartbeats := map (\<lambda>h. if hb_id h = i then ?f h else h) (t_heartbeats (cl_db c))\<rparr>"
    by (cases due) (simp_all add: s updateOccurrences_def andThen_def bnd_def comp_simps, auto)
  then show thesis by (rule that [rotated]) (simp split: option.split)
qed

lemma filter_map_same:
  "(\<And>x. P (f x) = P x) \<Longrightarrow> filter P (map f xs) = map f (filter P xs)"
  by (induction xs) auto

lemma mapHeartbeatRow_tolerant:
  obtains hr where "mapHeartbeatRow h kinds True = Inr hr" and "hr_actionId hr = hb_action_id h"
    and "hr_actionConfig hr = hb_action_config h"
proof (cases "mapHeartbeatRow h kinds True")
  case (Inl e)
  then show thesis by (auto simp: mapHeartbeatRow_def split: sum.splits)
next
  case (Inr hr)
  then show thesis by (intro that) (auto simp: mapHeartbeatRow_def split: sum.splits)
qed

text \<open>After a start: the rows a later attempt reads, and that the occurrence is stamped.\<close>

lemma prepare_proceed_effect:
  assumes "prepareHeartbeatOccurrenceFire lx clock i o1 generation kinds c = Inr (FireProceed hr, c')"
  shows "\<exists>r' rs' h' hs'. firstOcc i o1 (cl_db c') = r' # rs' \<and> firstHb i (cl_db c') = h' # hs' \<and>
    mayFire generation kinds r' h' \<and> roc_first_started_at r' \<noteq> None \<and>
    hb_action_id h' = hr_actionId hr \<and> hb_action_config h' = hr_actionConfig hr"
proof -
  obtain r rs h hs where first: "firstOcc i o1 (cl_db c) = r # rs" "firstHb i (cl_db c) = h # hs"
      and may: "mayFire generation kinds r h" by (rule prepare_proceedE [OF assms])
  obtain hr1 where hr1: "mapHeartbeatRow h kinds True = Inr hr1" "hr_actionId hr1 = hb_action_id h"
      "hr_actionConfig hr1 = hb_action_config h" by (rule mapHeartbeatRow_tolerant)
  let ?rule = "projr (parseHeartbeatRule (hb_rule h) kinds)"
  show ?thesis
  proof (cases "roc_first_started_at r = None")
    case False
    with assms prepare_unfold [OF first may] hr1 have "c' = c" "hr = hr1" by (simp_all add: andThen_def bnd_def comp_simps)
    with first may False hr1 show ?thesis by simp
  next
    case True
    with assms prepare_unfold [OF first may, of lx clock] hr1
    obtain x where start: "startOccurrence lx clock i o1 ?rule kinds c = Inr (x, c')" and hr: "hr = hr1"
      by (auto simp: andThen_def bnd_def comp_simps split: sum.splits)
    from start obtain f where f: "\<forall>h. hb_rule (f h) = hb_rule h \<and> hb_enabled (f h) = hb_enabled h \<and> hb_id (f h) = hb_id h \<and>
        hb_action_id (f h) = hb_action_id h \<and> hb_action_config (f h) = hb_action_config h"
      and c': "cl_db c' = (cl_db c)\<lparr>t_occurrences := map (\<lambda>r. if roc_id r = o1 then startedRow clock r else r) (t_occurrences (cl_db c)),
        t_heartbeats := map (\<lambda>h. if hb_id h = i then f h else h) (t_heartbeats (cl_db c))\<rparr>"
      by (rule startOccurrence_InrE)
    have "firstOcc i o1 (cl_db c') = map (\<lambda>r. if roc_id r = o1 then startedRow clock r else r) (r # rs)"
      unfolding c' first(1) [symmetric] firstOcc_def by (simp add: filter_map_same startedRow_def)
    moreover have "firstHb i (cl_db c') = map (\<lambda>h. if hb_id h = i then f h else h) (h # hs)"
      unfolding c' first(2) [symmetric] firstHb_def by (simp add: filter_map_same f)
    moreover have "roc_id r = o1" "hb_id h = i"
      using arg_cong [OF first(1), of set] arg_cong [OF first(2), of set] by (auto simp: firstOcc_def firstHb_def)
    ultimately show ?thesis
      using may f hr hr1 by (auto simp: mayFire_def startedRow_def)
  qed
qed


section \<open>The schedule after a sweep\<close>

text \<open>
  What the calendar library promises: a time of day later than a reference moves to the reference's
  day, so the day after an earlier one is later; \<open>n\<close> days later is a later day.
\<close>

definition calendarLaws :: "luxon \<Rightarrow> bool" where
  "calendarLaws lx \<longleftrightarrow> (\<forall>zone t hour minute n. hour < 24 \<and> minute < 60 \<and> 0 < n \<longrightarrow>
     (lx_set lx zone t hour minute \<le> t \<longrightarrow> t < lx_plusDays lx zone (lx_set lx zone t hour minute) 1) \<and>
     t < lx_set lx zone (lx_plusDays lx zone t n) hour minute)"

definition laterKinds :: "HeartbeatRuleKindRegistry \<Rightarrow> bool" where
  "laterKinds kinds \<longleftrightarrow> (\<forall>kind handler data zone t next. (kind, handler) \<in> set kinds \<longrightarrow>
     rk_nextFireAt handler data zone t = Some next \<longrightarrow> t < next)"

lemma digitVal_bound: "isDigit c \<Longrightarrow> digitVal c < 10"
  by (auto simp: isDigit_def digitVal_def)

lemma hourMinute_bound:
  assumes "timeOfDay time"
  shows "fst (hourMinute time) < 24" and "snd (hourMinute time) < 60"
proof -
  from assms obtain h1 h2 c m1 m2 where t: "time = [h1, h2, c, m1, m2]"
      and h: "(h1 \<in> set ''01'' \<and> isDigit h2) \<or> (h1 = CHR ''2'' \<and> h2 \<in> set ''0123'')"
      and m: "m1 \<in> set ''012345''" "isDigit m2"
    by (auto simp: timeOfDay_def split: list.splits)
  from h show "fst (hourMinute time) < 24"
    using digitVal_bound [of h2] by (auto simp: t digitVal_def)
  from m show "snd (hourMinute time) < 60"
    using digitVal_bound [of m2] by (auto simp: t digitVal_def)
qed

lemma weeklyFrom_later: "weeklyFrom lx zone days time reference offsets = Some t \<Longrightarrow> reference < t"
  by (induction offsets) (auto simp: Let_def split: if_splits)

lemma parse_core_time:
  assumes "heartbeatRuleSchema raw = Some rule"
  shows "rule = DailyTime time \<Longrightarrow> timeOfDay time" and "rule = EveryNDays n time \<Longrightarrow> timeOfDay time \<and> 0 < n"
    and "rule = Interval n \<Longrightarrow> 0 < n"
  using assms
  by (auto simp: heartbeatRuleSchema_def atField_def positiveIntField_def split: option.splits if_splits json.splits)

lemma calendarLaws_today:
  "calendarLaws lx \<Longrightarrow> hour < 24 \<Longrightarrow> minute < 60 \<Longrightarrow> lx_set lx zone t hour minute \<le> t \<Longrightarrow>
   t < lx_plusDays lx zone (lx_set lx zone t hour minute) 1"
  unfolding calendarLaws_def by (metis zero_less_one)

lemma calendarLaws_days:
  "calendarLaws lx \<Longrightarrow> hour < 24 \<Longrightarrow> minute < 60 \<Longrightarrow> 0 < n \<Longrightarrow>
   t < lx_set lx zone (lx_plusDays lx zone t n) hour minute"
  unfolding calendarLaws_def by metis

lemma coreNextFireAt_later:
  assumes "calendarLaws lx" and "heartbeatRuleSchema raw = Some rule"
    and "coreNextFireAt lx rule zone reference = Inr (Some t)"
  shows "reference < t"
proof (cases rule)
  case (DailyTime time)
  with assms(2) have "timeOfDay time" by (auto dest: parse_core_time(1))
  from hourMinute_bound [OF this] calendarLaws_today [OF assms(1)] assms(3) DailyTime show ?thesis
    by (force simp: atLocalTime_def Let_def split: prod.splits if_splits)
next
  case (Weekly days time)
  with assms(3) show ?thesis by (auto split: option.splits dest: weeklyFrom_later)
next
  case (EveryNDays n time)
  with assms(2) have "timeOfDay time" "0 < n" by (auto dest: parse_core_time(2))
  with hourMinute_bound [OF this(1)] calendarLaws_days [OF assms(1)] assms(3) EveryNDays show ?thesis
    by (force simp: atLocalTime_def split: prod.splits)
next
  case (Interval n)
  with assms(2) have "0 < n" by (auto dest: parse_core_time(3))
  with assms(3) Interval show ?thesis by simp
next
  case (OnItemEvent databaseId ev)
  with assms(3) show ?thesis by simp
qed

lemma parsed_later:
  assumes "calendarLaws lx" and "laterKinds kinds" and "parseHeartbeatRule raw kinds = Inr rule"
    and "computeNextFireAt lx rule zone reference kinds = Inr (Some t)"
  shows "reference < t"
proof (cases rule)
  case (CoreRule r)
  with assms(3) have "heartbeatRuleSchema raw = Some r"
    by (auto simp: parseHeartbeatRule_def Let_def split: option.splits if_splits sum.splits)
  with coreNextFireAt_later [OF assms(1)] assms(4) CoreRule show ?thesis by (simp add: computeNextFireAt_def)
next
  case (ModuleRule kind data)
  with assms(4) obtain handler where "map_of kinds kind = Some handler" "rk_nextFireAt handler data zone reference = Some t"
    by (auto simp: computeNextFireAt_def split: option.splits)
  with assms(2) show ?thesis unfolding laterKinds_def by (meson map_of_SomeD)
qed


lemma toISOString_later: "toISOString now < t \<Longrightarrow> now < t * 1000"
  unfolding toISOString_def by linarith

lemma sweepPlan_not_due:
  assumes "calendarLaws lx" and "laterKinds kinds" and "sweepPlan lx timezone kinds now row = Inr (rule, later)"
    and "nextAfterSweep rule later = Some t"
  shows "now < t"
  using assms(3,4) parsed_later [OF assms(1,2), of "hb_rule row" rule timezone "toISOString now"]
  by (auto simp: sweepPlan_def nextAfterSweep_def storedInstant_def split: sum.splits if_splits option.splits
      intro!: toISOString_later)

definition noneDue :: "int \<Rightarrow> id list \<Rightarrow> db \<Rightarrow> bool" where
  "noneDue now fired d \<longleftrightarrow> (\<forall>h \<in> set (t_heartbeats d). hb_id h \<in> set fired \<longrightarrow>
     (\<forall>t. hb_next_fire_at h = Some t \<longrightarrow> now < t))"

lemma sweepHeartbeat_noneDue:
  assumes "calendarLaws lx" and "laterKinds kinds"
    and "sweepHeartbeat lx newOcc timezone kinds row fired c = Inr (fired', c')"
    and "noneDue (cl_now c) fired (cl_db c)"
  shows "noneDue (cl_now c') fired' (cl_db c') \<and> cl_now c' = cl_now c"
  using assms(3)
proof (cases rule: sweepHeartbeat_cases)
  case (fired rule later r i g occs j)
  from sweepPlan_not_due [OF assms(1,2) fired(1)] assms(4) fired(2,3) show ?thesis
    unfolding fired(5) by (auto simp: noneDue_def firedDb_def)
qed (use assms(4) in \<open>auto simp: noneDue_def\<close>)

lemma sweepRows_noneDue:
  assumes "calendarLaws lx" and "laterKinds kinds"
  shows "foldC (sweepHeartbeat lx newOcc timezone kinds) rows fired c = Inr (fired', c') \<Longrightarrow>
    noneDue (cl_now c) fired (cl_db c) \<Longrightarrow> noneDue (cl_now c) fired' (cl_db c')"
proof (induction rows arbitrary: fired c)
  case (Cons row rows)
  from Cons.prems(1) obtain fired1 c1 where one: "sweepHeartbeat lx newOcc timezone kinds row fired c = Inr (fired1, c1)"
      and rest: "foldC (sweepHeartbeat lx newOcc timezone kinds) rows fired1 c1 = Inr (fired', c')"
    by (rule foldC_Cons_InrE)
  note step = sweepHeartbeat_noneDue [OF assms one Cons.prems(2)]
  from Cons.IH [OF rest conjunct1 [OF step]] conjunct2 [OF step] show ?case by simp
qed (simp add: comp_simps)

text \<open>
  C29: with the same laws, a heartbeat a sweep fired is not due any more when the
  sweep commits: another sweep of the same instant leaves it alone.
\<close>

theorem swept_not_due:
  assumes "calendarLaws lx" and "laterKinds kinds"
    and "withTransaction env p (sweepDueHeartbeats lx newOcc locked kinds afterId) w = (Inr result, w')"
    and "h \<in> set (t_heartbeats (w_db w'))" and "hb_id h \<in> set (sc_fired result)"
  shows "\<not> dueHeartbeat (tx_now env) afterId' h"
proof -
  obtain scope c where run: "sweepDueHeartbeats lx newOcc locked kinds afterId (beginTx env scope w) = Inr (result, c)"
      and w': "w_db w' = cl_db c" using assms(3) by (auto elim!: withTransaction_InrE)
  let ?c = "beginTx env scope w" and ?rows = "duePage locked (tx_now env) afterId (w_db w)"
  from run assms(5) obtain timezone where
      "foldC (sweepHeartbeat lx newOcc timezone kinds) ?rows [] ?c = Inr (sc_fired result, c)"
    by (auto simp: sweepDueHeartbeats_def comp_simps beginTx_def split: if_splits elim!: bnd_InrE
        dest!: readsOnlyD [OF readsOnly_timezone])
  from sweepRows_noneDue [OF assms(1,2) this] have "noneDue (tx_now env) (sc_fired result) (cl_db c)"
    by (simp add: noneDue_def beginTx_def)
  with assms(4,5) w' show ?thesis by (auto simp: noneDue_def dueHeartbeat_def split: option.splits)
qed

section \<open>Concrete instances\<close>

definition exampleHeartbeat :: HeartbeatDbRow where
  "exampleHeartbeat = \<lparr>hb_id = ''h1'', hb_project_item_id = ''p'', hb_name = ''daily'',
     hb_rule = [(''kind'', JStr ''interval''), (''minutes'', JNum 5)], hb_action_id = ''core.agentRun'',
     hb_action_config = [], hb_enabled = True, hb_next_fire_at = Some 5000, hb_last_fired_at = None,
     hb_last_error = None\<rparr>"

definition dueWorld :: world where
  "dueWorld = \<lparr>w_db = emptyDb\<lparr>t_heartbeats := [exampleHeartbeat]\<rparr>, w_parked = [], w_notified = []\<rparr>"

definition exampleOcc :: "id \<Rightarrow> id" where
  "exampleOcc i = CHR ''o'' # i"

definition sweptPair :: "(error + SweepChunkResult) \<times> world" where
  "sweptPair = withTransaction exampleTx (\<lambda>_. True)
     (sweepDueHeartbeats utcCalendar exampleOcc (\<lambda>_. False) [] None) dueWorld"

definition sweptWorld :: world where
  "sweptWorld = snd sweptPair"

definition sweptResult :: SweepChunkResult where
  "sweptResult = projr (fst sweptPair)"

definition sweptOcc :: OccurrenceDbRow where
  "sweptOcc = queuedRow ''oh1'' ''h1'' 5000 [(''kind'', JStr ''interval''), (''minutes'', JNum 5)]"

definition sweptHeartbeat :: HeartbeatDbRow where
  "sweptHeartbeat = exampleHeartbeat\<lparr>hb_next_fire_at := None\<rparr>"

lemma swept_eval:
  "sweptPair = (Inr sweptResult, sweptWorld)"
  "t_occurrences (w_db sweptWorld) = [sweptOcc]" "t_heartbeats (w_db sweptWorld) = [sweptHeartbeat]"
  "sc_fired sweptResult = [''h1'']"
  by code_simp+

lemma utcCalendar_laws: "calendarLaws utcCalendar"
proof -
  have day: "t < t div 86400000 * 86400000 + 86400000" for t :: int
    using div_mult_mod_eq [of t 86400000] pos_mod_bound [of 86400000 t] by linarith
  have "(t + n * 86400000) div 86400000 = n + t div 86400000" for t n :: int
    by (rule div_mult_self1) simp
  then show ?thesis
    unfolding calendarLaws_def
  proof (intro allI impI conjI, goal_cases)
    case (1 zone t hour minute n)
    then show ?case using day [of t] by (simp add: utcCalendar_def)
  next
    case (2 zone t hour minute n)
    then show ?case using day [of t] by (simp add: utcCalendar_def distrib_right)
  qed
qed

lemma noKinds_later: "laterKinds []"
  by (simp add: laterKinds_def)

lemma dueWorld_inv: "dispatchInv (w_db dueWorld)"
  by code_simp

lemma exampleOcc_inj: "inj exampleOcc"
  by (simp add: inj_def exampleOcc_def)

lemma dueWorld_unused: "\<forall>i. unusedOcc (w_db dueWorld) (exampleOcc i)"
  by (simp add: unusedOcc_def dueWorld_def emptyDb_def)

lemma dueWorld_swept: "(schedStep (\<lambda>_. True))\<^sup>*\<^sup>* dueWorld sweptWorld"
  using schedStep.sweep [OF exampleOcc_inj dueWorld_unused swept_eval(1) [unfolded sweptPair_def]] by blast

theorem dispatch_exactly_once_witness:
  "jobGenerations ''oh1'' (t_jobs (w_db sweptWorld)) = [1]"
  using dispatch_exactly_once [OF dueWorld_swept dueWorld_inv, of sweptOcc]
  by (simp add: swept_eval(2)) (simp add: sweptOcc_def queuedRow_def)


theorem swept_not_due_witness: "\<not> dueHeartbeat 9000 None sweptHeartbeat"
  using swept_not_due [OF utcCalendar_laws noKinds_later swept_eval(1) [unfolded sweptPair_def], of sweptHeartbeat None]
  by (simp add: swept_eval(3,4) exampleTx_def) (simp add: sweptHeartbeat_def exampleHeartbeat_def)

definition firedPair :: "(error + OccurrenceFirePreparation) \<times> world" where
  "firedPair = withTransaction exampleTx (\<lambda>_. True)
     (prepareHeartbeatOccurrenceFire utcCalendar 9 ''h1'' ''oh1'' 1 []) sweptWorld"

definition firedResult :: HeartbeatRow where
  "firedResult = (case fst firedPair of Inr (FireProceed hr) \<Rightarrow> hr)"

definition firedWorld :: world where
  "firedWorld = snd firedPair"

lemma fired_eval: "firedPair = (Inr (FireProceed firedResult), firedWorld)"
  by code_simp

lemma exampleTx_commits: "willCommit exampleTx"
  by code_simp


definition exampleFire :: fireEnv where
  "exampleFire = \<lparr>fe_deliverable = (\<lambda>_. True), fe_luxon = utcCalendar, fe_clock = 9, fe_catalogs = \<lparr>cat_cs = [], cat_en = []\<rparr>, fe_newId = ''n'',
     fe_kinds = [], fe_tx = (\<lambda>_. exampleTx)\<rparr>"

theorem stale_fire_no_effect_witness:
  "\<exists>w'. runScheduledOccurrenceFire exampleFire [] ''core'' ''h1'' ''oh1'' 2
      \<lparr>fj_id = ''7'', fj_attempts = 1, fj_max_attempts = 4\<rparr> sweptWorld = (Inr (), w') \<and> w_db w' = w_db sweptWorld"
proof -
  have "\<exists>w'. (\<forall>registry expectedAffinity. runScheduledOccurrenceFire exampleFire registry expectedAffinity
      (roc_heartbeat_id sweptOcc) (roc_id sweptOcc) 2 \<lparr>fj_id = ''7'', fj_attempts = 1, fj_max_attempts = 4\<rparr> sweptWorld =
        (Inr (), w')) \<and> w_db w' = w_db sweptWorld"
    by (rule stale_fire_no_effect [where h = sweptHeartbeat])
      (simp_all add: swept_eval exampleFire_def exampleTx_commits sweptOcc_def sweptHeartbeat_def exampleHeartbeat_def queuedRow_def)
  then show ?thesis by (simp add: sweptOcc_def queuedRow_def) blast
qed

end
