(* ===== verification/PropertyWrites.thy ===== *)
theory PropertyWrites
  imports RollupRecompute Hooks
begin

text \<open>
  The writes on \<open>properties\<close>: the rest of \<open>chokePoint/propertiesStore.ts\<close>, the operations
  of \<open>chokePoint/propertyOps.ts\<close> and \<open>chokePoint/relationPropertyOps.ts\<close>, the collision
  guard of \<open>chokePoint/computedKeyRegistry.ts\<close>, and the enqueue of a type migration
  (\<open>migrationJob/propertyTypeMigration.ts\<close>). A property type is a value of its datatype, so the
  run-time checks \<open>PROPERTY_TYPES.includes\<close> cannot fail here. Generated ids are arguments.
\<close>

section \<open>Statements on \<open>properties\<close>\<close>

definition propertyTypeName :: "PropertyType \<Rightarrow> string" where
  "propertyTypeName ty = fst (the (find (\<lambda>p. snd p = ty) PROPERTY_TYPES))"

definition propertyOwnerName :: "PropertyOwner \<Rightarrow> string" where
  "propertyOwnerName own = fst (the (find (\<lambda>p. snd p = own) PROPERTY_OWNERS))"

definition migrationStatusName :: "MigrationStatus \<Rightarrow> string" where
  "migrationStatusName status = fst (the (find (\<lambda>p. snd p = status) MIGRATION_STATUSES))"

text \<open>\<open>UPDATE properties SET ... WHERE id = $1\<close>, with and without \<open>RETURNING\<close>.\<close>

definition updateProperties :: "id \<Rightarrow> (PropertyDbRow \<Rightarrow> PropertyDbRow) \<Rightarrow> unit op" where
  "updateProperties propertyId f =
     statement (\<lambda>d. d\<lparr>t_properties :=
       map (\<lambda>r. if rpr_id r = propertyId then f r else r) (t_properties d)\<rparr>)"

definition updatePropertyReturning :: "id \<Rightarrow> (PropertyDbRow \<Rightarrow> PropertyDbRow) \<Rightarrow> PropertyRow op" where
  "updatePropertyReturning propertyId f =
     bnd (selectProperties (\<lambda>r. rpr_id r = propertyId)) (\<lambda>rows.
     andThen (updateProperties propertyId f)
       (bnd (requireSingleRow (map f rows) ''properties row'') (\<lambda>row. ofSum (mapPropertyRow row))))"

definition requireProperty :: "id \<Rightarrow> PropertyRow op" where
  "requireProperty propertyId =
     bnd (getProperty propertyId) (\<lambda>found.
     case found of None \<Rightarrow> throw NotFoundError | Some property \<Rightarrow> return property)"

definition requirePropertyForUpdate :: "id \<Rightarrow> PropertyRow op" where
  "requirePropertyForUpdate propertyId =
     bnd (getPropertyForUpdate propertyId) (\<lambda>found.
     case found of None \<Rightarrow> throw NotFoundError | Some property \<Rightarrow> return property)"

definition assertDatabaseSchemaUnlocked :: "id \<Rightarrow> DatabaseRow op" where
  "assertDatabaseSchemaUnlocked databaseId =
     bnd (getDatabase databaseId) (\<lambda>found.
     case found of
       None \<Rightarrow> throw NotFoundError
     | Some database \<Rightarrow>
         if db_schemaLocked database then throw (SchemaLockedError None) else return database)"

record CreatePropertyInput =
  cp_databaseId :: id
  cp_key :: string
  cp_name :: "string option"
  cp_type :: PropertyType
  cp_config :: "obj option"
  cp_locked :: "bool option"
  cp_owner :: "PropertyOwner option"
  cp_ownerProcess :: "string option"

definition insertedProperty :: "id \<Rightarrow> CreatePropertyInput \<Rightarrow> PropertyDbRow" where
  "insertedProperty newId input =
     \<lparr>rpr_id = newId, rpr_database_id = cp_databaseId input, rpr_key = cp_key input, rpr_name = cp_name input,
      rpr_type = propertyTypeName (cp_type input),
      rpr_config = (case cp_config input of None \<Rightarrow> [] | Some config \<Rightarrow> config),
      rpr_locked = (case cp_locked input of None \<Rightarrow> False | Some l \<Rightarrow> l),
      rpr_owner = propertyOwnerName (case cp_owner input of None \<Rightarrow> OwnerUser | Some own \<Rightarrow> own),
      rpr_owner_process = cp_ownerProcess input, rpr_migration_status = ''stable'',
      rpr_migration_dropped_values = False\<rparr>"

text \<open>
  \<open>createProperty\<close>. \<open>properties_database_id_key_key\<close> is the unique index on
  \<open>(database_id, key)\<close>; a taken \<open>id\<close> violates the primary key.
\<close>

definition createProperty :: "id \<Rightarrow> CreatePropertyInput \<Rightarrow> PropertyRow op" where
  "createProperty newId input =
     bnd (assertDatabaseSchemaUnlocked (cp_databaseId input)) (\<lambda>database.
     if \<not> db_system database \<and> \<not> truthy (cp_name input) then throw (ValidationError (Some ''name''))
     else
       bnd (ofSum (assertValidPropertyConfig (cp_type input) (cp_config input))) (\<lambda>_.
       bnd (query t_properties) (\<lambda>existing.
       if newId \<in> rpr_id ` set existing then throw (DbError ''23505'')
       else if \<exists>r \<in> set existing. rpr_database_id r = cp_databaseId input \<and> rpr_key r = cp_key input
       then throw (ConflictError (Some ''key''))
       else andThen (statement (\<lambda>d. d\<lparr>t_properties := t_properties d @ [insertedProperty newId input]\<rparr>))
              (bnd (requireSingleRow [insertedProperty newId input] ''properties row'') (\<lambda>row.
               ofSum (mapPropertyRow row))))))"

definition renamePropertyRow :: "id \<Rightarrow> string \<Rightarrow> PropertyRow op" where
  "renamePropertyRow propertyId name =
     andThen (bnd (requireProperty propertyId) (\<lambda>_. return ()))
       (updatePropertyReturning propertyId (\<lambda>r. r\<lparr>rpr_name := Some name\<rparr>))"

definition assertPropertySchemaMutable :: "PropertyRow \<Rightarrow> unit op" where
  "assertPropertySchemaMutable property =
     (if pr_locked property then throw (PropertyLockedError None)
      else bnd (assertDatabaseSchemaUnlocked (pr_databaseId property)) (\<lambda>_. return ()))"

definition retypedRow :: "PropertyType \<Rightarrow> MigrationStatus \<Rightarrow> obj \<Rightarrow> PropertyDbRow \<Rightarrow> PropertyDbRow" where
  "retypedRow newType status config r =
     r\<lparr>rpr_type := propertyTypeName newType, rpr_config := config,
       rpr_migration_status := migrationStatusName status, rpr_migration_dropped_values := False\<rparr>"

definition retypePropertyRow :: "id \<Rightarrow> PropertyType \<Rightarrow> MigrationStatus \<Rightarrow> obj option \<Rightarrow> PropertyRow op" where
  "retypePropertyRow propertyId newType status config =
     bnd (requirePropertyForUpdate propertyId) (\<lambda>property.
     andThen (assertPropertySchemaMutable property)
       (let finalConfig = (case config of None \<Rightarrow> pr_config property | Some c \<Rightarrow> c) in
        bnd (ofSum (assertValidPropertyConfig newType (Some finalConfig))) (\<lambda>_.
        updatePropertyReturning propertyId (retypedRow newType status finalConfig))))"

definition setPropertyMigrationStatus :: "id \<Rightarrow> MigrationStatus \<Rightarrow> unit op" where
  "setPropertyMigrationStatus propertyId status =
     updateProperties propertyId (\<lambda>r. r\<lparr>rpr_migration_status := migrationStatusName status\<rparr>)"

definition markPropertyMigrationDroppedValues :: "id \<Rightarrow> unit op" where
  "markPropertyMigrationDroppedValues propertyId =
     updateProperties propertyId (\<lambda>r. r\<lparr>rpr_migration_dropped_values := True\<rparr>)"

definition settlePropertyMigrationStatus :: "id \<Rightarrow> unit op" where
  "settlePropertyMigrationStatus propertyId =
     updateProperties propertyId (\<lambda>r. r\<lparr>rpr_migration_status :=
       (if rpr_migration_dropped_values r then ''partial'' else ''done'')\<rparr>)"

definition setPropertyLocked :: "id \<Rightarrow> bool \<Rightarrow> unit op" where
  "setPropertyLocked propertyId locked = updateProperties propertyId (\<lambda>r. r\<lparr>rpr_locked := locked\<rparr>)"

definition updatePropertyConfigRow :: "id \<Rightarrow> obj \<Rightarrow> PropertyRow op" where
  "updatePropertyConfigRow propertyId config =
     bnd (requirePropertyForUpdate propertyId) (\<lambda>property.
     andThen (assertPropertySchemaMutable property)
       (bnd (ofSum (assertValidPropertyConfig (pr_type property) (Some config))) (\<lambda>_.
        updatePropertyReturning propertyId (\<lambda>r. r\<lparr>rpr_config := config\<rparr>))))"

text \<open>
  \<open>DELETE FROM properties\<close> cascades to the definitions that name the property on a side, from there
  to their edges and rollup dependencies, and to the property's own dependency row.
\<close>

definition sideOf :: "id \<Rightarrow> RelationDefinitionDbRow \<Rightarrow> bool" where
  "sideOf propertyId r \<longleftrightarrow> rrd_property_id_a r = propertyId \<or> rrd_property_id_b r = Some propertyId"

definition cascadePropertyDelete :: "id \<Rightarrow> db \<Rightarrow> db" where
  "cascadePropertyDelete propertyId d =
     (let defs = map rrd_id (filter (sideOf propertyId) (t_relation_definitions d))
      in d\<lparr>t_properties := filter (\<lambda>p. rpr_id p \<noteq> propertyId) (t_properties d),
           t_relation_definitions := filter (\<lambda>r. \<not> sideOf propertyId r) (t_relation_definitions d),
           t_item_relations := filter (\<lambda>e. rir_relation_definition_id e \<notin> set defs) (t_item_relations d),
           t_rollup_dependencies := filter (\<lambda>r. rud_rollup_property_id r \<noteq> propertyId \<and>
              rud_relation_definition_id r \<notin> set defs) (t_rollup_dependencies d)\<rparr>)"

definition deletePropertyRow :: "id \<Rightarrow> unit op" where
  "deletePropertyRow propertyId =
     bnd (requireProperty propertyId) (\<lambda>property.
     andThen (assertPropertySchemaMutable property) (statement (cascadePropertyDelete propertyId)))"

section \<open>Property operations\<close>

text \<open>
  The callback that announces several databases is one callback per database here: a hook that throws
  for one of them does not stop the others, where the source's loop would end.
\<close>

definition announceSchemas :: "id list \<Rightarrow> id option \<Rightarrow> unit op" where
  "announceSchemas databaseIds actingUserId =
     forEach (jsSet databaseIds) (\<lambda>databaseId. runAfterCommit (InvSchema databaseId actingUserId))"

definition announceProperty :: "id option \<Rightarrow> PropertyRow op \<Rightarrow> PropertyRow op" where
  "announceProperty actingUserId m =
     bnd m (\<lambda>property.
     andThen (runAfterCommit (InvSchema (pr_databaseId property) actingUserId)) (return property))"

type_synonym ComputedKeyRegistry = "string list"

definition assertNoComputedKeyCollision :: "ComputedKeyRegistry \<Rightarrow> string \<Rightarrow> error + unit" where
  "assertNoComputedKeyCollision registry key =
     (if key \<in> set registry then Inl (ValidationError (Some key)) else Inr ())"

text \<open>The conversions \<open>CONVERTERS\<close> holds.\<close>

definition isConversionSupported :: "PropertyType \<Rightarrow> PropertyType \<Rightarrow> bool" where
  "isConversionSupported from to \<longleftrightarrow>
     from = to \<or> (from, to) \<in> {(PtText, PtNumber), (PtText, PtDate), (PtNumber, PtText), (PtDate, PtText)}"

definition propertyTypeMigrationJobKey :: "id \<Rightarrow> string" where
  "propertyTypeMigrationJobKey propertyId = ''property-type-migration:'' @ propertyId"

definition enqueuePropertyTypeMigration :: "id \<Rightarrow> PropertyType \<Rightarrow> unit op" where
  "enqueuePropertyTypeMigration propertyId fromType =
     bnd (gets cl_scope) (\<lambda>scope.
     enqueueJob ''propertyTypeMigration''
       [(''propertyId'', JStr propertyId), (''fromType'', JStr (propertyTypeName fromType))]
       (Some (propertyTypeMigrationJobKey propertyId)) (Some 3)
       (tenantLane scope ''property-type-migration''))"

definition deletePairedProperty :: "id \<Rightarrow> id \<Rightarrow> id list op" where
  "deletePairedProperty ownDatabaseId otherPropertyId =
     bnd (getProperty otherPropertyId) (\<lambda>other.
     if (case other of Some p \<Rightarrow> pr_locked p | None \<Rightarrow> False) then throw (forbidden None)
     else andThen (deletePropertyRow otherPropertyId)
       (return (case other of Some p \<Rightarrow> [ownDatabaseId, pr_databaseId p] | None \<Rightarrow> [ownDatabaseId])))"

definition propertyDeleteWithClient :: "id \<Rightarrow> id option \<Rightarrow> PropertyRow op" where
  "propertyDeleteWithClient propertyId actingUserId =
     bnd (getProperty propertyId) (\<lambda>found.
     case found of
       None \<Rightarrow> throw NotFoundError
     | Some property \<Rightarrow>
         bnd (if pr_type property = PtRelation
              then bnd (getRelationDefinitionByPropertyId propertyId) (\<lambda>def.
                   case def of
                     None \<Rightarrow> return [pr_databaseId property]
                   | Some reldef \<Rightarrow>
                       andThen (assertRelationDeletable (rd_id reldef))
                         (let other = (if rd_propertyIdA reldef = propertyId then rd_propertyIdB reldef
                                       else Some (rd_propertyIdA reldef)) in
                          if truthy other then deletePairedProperty (pr_databaseId property) (the other)
                          else return [pr_databaseId property]))
              else andThen (assertSourceDeletable (pr_databaseId property) (pr_key property))
                     (return [pr_databaseId property])) (\<lambda>invalidated.
         andThen (deletePropertyRow propertyId)
        (andThen (announceSchemas invalidated actingUserId) (return property))))"

definition updatePropertyConfigWithClient :: "id \<Rightarrow> obj \<Rightarrow> PropertyRow op" where
  "updatePropertyConfigWithClient propertyId config =
     bnd (updatePropertyConfigRow propertyId config) (\<lambda>property.
     andThen (whenC (pr_type property = PtRollup)
         (andThen (applyRollupConfig property) (enqueueRollupBackfill (pr_id property))))
       (return property))"

definition changePropertyTypeWithClient :: "id \<Rightarrow> PropertyType \<Rightarrow> obj option \<Rightarrow> PropertyRow op" where
  "changePropertyTypeWithClient propertyId newType config =
     bnd (getPropertyForUpdate propertyId) (\<lambda>found.
     case found of
       None \<Rightarrow> throw (ValidationError None)
     | Some property \<Rightarrow>
         (let oldType = pr_type property in
          if oldType = newType then return property
          else if PtRelation \<in> {oldType, newType} \<or> PtRollup \<in> {oldType, newType}
          then throw (ValidationError (Some ''type''))
          else andThen (assertSourceRetypeAllowed (pr_databaseId property) (pr_key property) newType)
            (if \<not> isConversionSupported oldType newType then throw (ValidationError (Some ''type''))
             else bnd (retypePropertyRow propertyId newType MsPending config) (\<lambda>updated.
                  andThen (enqueuePropertyTypeMigration propertyId oldType) (return updated)))))"

record UpdatePropertyInput =
  up_name :: "string option"
  up_config :: "obj option"
  up_type :: "PropertyType option"

definition updatePropertyWithClient :: "id \<Rightarrow> UpdatePropertyInput \<Rightarrow> (PropertyRow \<times> bool) op" where
  "updatePropertyWithClient propertyId input =
     bnd (getPropertyForUpdate propertyId) (\<lambda>found.
     case found of
       None \<Rightarrow> throw NotFoundError
     | Some property0 \<Rightarrow>
         if up_name input = None \<and> up_config input = None \<and> up_type input = None
         then throw (ValidationError None)
         else if pr_type property0 = PtRelation \<and> (up_type input \<noteq> None \<or> up_config input \<noteq> None)
         then throw (ValidationError (Some (if up_type input \<noteq> None then ''type'' else ''config'')))
         else
           bnd (case up_name input of
                  None \<Rightarrow> return property0 | Some name \<Rightarrow> renamePropertyRow propertyId name) (\<lambda>property.
           if up_type input \<noteq> None \<and> up_type input \<noteq> Some (pr_type property)
           then bnd (changePropertyTypeWithClient propertyId (the (up_type input)) (up_config input)) (\<lambda>updated.
                return (updated, True))
           else (case up_config input of
                   None \<Rightarrow> return (property, False)
                 | Some config \<Rightarrow>
                     bnd (updatePropertyConfigWithClient propertyId config) (\<lambda>updated.
                     return (updated, False)))))"

text \<open>The transactions of the operations.\<close>

definition createPropertyTx ::
  "ComputedKeyRegistry \<Rightarrow> id \<Rightarrow> CreatePropertyInput \<Rightarrow> id option \<Rightarrow> PropertyRow op" where
  "createPropertyTx registry newId input actingUserId =
     andThen (ofSum (assertNoComputedKeyCollision registry (cp_key input)))
       (if cp_type input = PtRollup
        then announceProperty actingUserId
          (bnd (createProperty newId input) (\<lambda>property.
           andThen (applyRollupConfig property)
          (andThen (enqueueRollupBackfill (pr_id property))
          (bnd (getProperty (pr_id property)) (\<lambda>final.
           case final of
             None \<Rightarrow> throw (PlainError ''could not be read back'')
           | Some finalProperty \<Rightarrow> return finalProperty)))))
        else announceProperty actingUserId (createProperty newId input))"

definition renamePropertyTx :: "id \<Rightarrow> string \<Rightarrow> id option \<Rightarrow> PropertyRow op" where
  "renamePropertyTx propertyId name actingUserId =
     announceProperty actingUserId (renamePropertyRow propertyId name)"

definition updatePropertyConfigTx :: "id \<Rightarrow> obj \<Rightarrow> id option \<Rightarrow> PropertyRow op" where
  "updatePropertyConfigTx propertyId config actingUserId =
     announceProperty actingUserId (updatePropertyConfigWithClient propertyId config)"

definition changePropertyTypeTx :: "id \<Rightarrow> PropertyType \<Rightarrow> id option \<Rightarrow> PropertyRow op" where
  "changePropertyTypeTx propertyId newType actingUserId =
     announceProperty actingUserId (changePropertyTypeWithClient propertyId newType None)"

definition updatePropertyTx :: "id \<Rightarrow> UpdatePropertyInput \<Rightarrow> id option \<Rightarrow> (PropertyRow \<times> bool) op" where
  "updatePropertyTx propertyId input actingUserId =
     bnd (updatePropertyWithClient propertyId input) (\<lambda>result.
     andThen (runAfterCommit (InvSchema (pr_databaseId (fst result)) actingUserId)) (return result))"

definition updatePropertyWithDatabaseTx ::
  "id \<Rightarrow> UpdatePropertyInput \<Rightarrow> id option \<Rightarrow> ((PropertyRow \<times> bool) \<times> DatabaseRow) op" where
  "updatePropertyWithDatabaseTx propertyId input actingUserId =
     bnd (updatePropertyWithClient propertyId input) (\<lambda>result.
     bnd (getDatabase (pr_databaseId (fst result))) (\<lambda>found.
     case found of
       None \<Rightarrow> throw NotFoundError
     | Some database \<Rightarrow>
         andThen (runAfterCommit (InvSchema (pr_databaseId (fst result)) actingUserId))
           (return (result, database))))"

definition deletePropertyTx :: "id \<Rightarrow> id option \<Rightarrow> PropertyRow op" where
  "deletePropertyTx propertyId actingUserId = propertyDeleteWithClient propertyId actingUserId"

section \<open>Relation properties\<close>

record RelationPropertySideInput =
  rsi_key :: string
  rsi_name :: "string option"
  rsi_owner :: "PropertyOwner option"
  rsi_ownerProcess :: "string option"
  rsi_locked :: "bool option"

record CreateRelationPropertyInput =
  crp_sourceDatabaseId :: id
  crp_key :: string
  crp_name :: "string option"
  crp_targetDatabaseId :: id
  crp_cardinality :: "Cardinality option"
  crp_owner :: "PropertyOwner option"
  crp_ownerProcess :: "string option"
  crp_locked :: "bool option"
  crp_inverse :: "RelationPropertySideInput option"

definition assertValidOwnerSide :: "PropertyOwner \<Rightarrow> string option \<Rightarrow> string \<Rightarrow> error + unit" where
  "assertValidOwnerSide own ownerProcess field =
     (if own = OwnerSystem
      then (if truthy ownerProcess then Inr () else Inl (ValidationError (Some (field @ ''.ownerProcess''))))
      else if ownerProcess \<noteq> None then Inl (ValidationError (Some (field @ ''.ownerProcess'')))
      else Inr ())"

definition assertRelationSideCreatable ::
  "PropertyOwner \<Rightarrow> string option \<Rightarrow> SystemRelationWriteContext \<Rightarrow> string \<Rightarrow> error + unit" where
  "assertRelationSideCreatable own ownerProcess context field =
     (if own \<noteq> OwnerSystem then Inr ()
      else if context = None \<or> context \<noteq> ownerProcess
      then Inl (ForbiddenError ''owner_violation'' (Some field))
      else Inr ())"

definition assertSide ::
  "PropertyOwner option \<Rightarrow> string option \<Rightarrow> SystemRelationWriteContext \<Rightarrow> string \<Rightarrow> unit op" where
  "assertSide own ownerProcess context field =
     (let side = (case own of None \<Rightarrow> OwnerUser | Some o1 \<Rightarrow> o1) in
      andThen (ofSum (assertValidOwnerSide side ownerProcess field))
        (ofSum (assertRelationSideCreatable side ownerProcess context field)))"

definition relationSide ::
  "id \<Rightarrow> string \<Rightarrow> string option \<Rightarrow> PropertyOwner option \<Rightarrow> string option \<Rightarrow> CreatePropertyInput" where
  "relationSide databaseId key name own ownerProcess =
     \<lparr>cp_databaseId = databaseId, cp_key = key, cp_name = name, cp_type = PtRelation, cp_config = None,
      cp_locked = None, cp_owner = Some (case own of None \<Rightarrow> OwnerUser | Some o1 \<Rightarrow> o1),
      cp_ownerProcess = ownerProcess\<rparr>"

definition relationConfig :: "id \<Rightarrow> id \<Rightarrow> obj" where
  "relationConfig defId targetDatabaseId =
     [(''relationDefinitionId'', JStr defId), (''targetDatabaseId'', JStr targetDatabaseId)]"

definition lockSide :: "bool option \<Rightarrow> PropertyRow \<Rightarrow> PropertyRow op" where
  "lockSide locked property =
     (if locked = Some True
      then andThen (setPropertyLocked (pr_id property) True) (return (property\<lparr>pr_locked := True\<rparr>))
      else return property)"

text \<open>\<open>idA\<close>, \<open>idB\<close> and \<open>idDef\<close> are the ids of the two properties and of the definition.\<close>

definition createRelationPropertyWithClient ::
  "id \<Rightarrow> id \<Rightarrow> id \<Rightarrow> CreateRelationPropertyInput \<Rightarrow> SystemRelationWriteContext \<Rightarrow> ComputedKeyRegistry \<Rightarrow>
   (PropertyRow \<times> PropertyRow option) op" where
  "createRelationPropertyWithClient idA idB idDef input context registry =
     andThen (ofSum (assertNoComputedKeyCollision registry (crp_key input)))
    (andThen (case crp_inverse input of None \<Rightarrow> return ()
        | Some paired \<Rightarrow> ofSum (assertNoComputedKeyCollision registry (rsi_key paired)))
    (andThen (assertSide (crp_owner input) (crp_ownerProcess input) context ''source'')
    (andThen (case crp_inverse input of None \<Rightarrow> return ()
        | Some paired \<Rightarrow> assertSide (rsi_owner paired) (rsi_ownerProcess paired) context ''inverse'')
    (bnd (getDatabase (crp_targetDatabaseId input)) (\<lambda>target.
     case target of
       None \<Rightarrow> throw (ValidationError (Some ''targetDatabaseId''))
     | Some _ \<Rightarrow>
         bnd (createProperty idA (relationSide (crp_sourceDatabaseId input) (crp_key input) (crp_name input)
                (crp_owner input) (crp_ownerProcess input))) (\<lambda>property.
         bnd (case crp_inverse input of None \<Rightarrow> return None
              | Some paired \<Rightarrow>
                  bnd (createProperty idB (relationSide (crp_targetDatabaseId input) (rsi_key paired)
                         (rsi_name paired) (rsi_owner paired) (rsi_ownerProcess paired))) (\<lambda>p.
                  return (Some p))) (\<lambda>inverseProperty.
         bnd (createRelationDefinition idDef (pr_id property) (map_option pr_id inverseProperty)
                (crp_cardinality input)) (\<lambda>reldef.
         bnd (updatePropertyConfigRow (pr_id property)
                (relationConfig (rd_id reldef) (crp_targetDatabaseId input))) (\<lambda>finalProperty.
         bnd (case inverseProperty of None \<Rightarrow> return None
              | Some p \<Rightarrow> bnd (updatePropertyConfigRow (pr_id p)
                    (relationConfig (rd_id reldef) (crp_sourceDatabaseId input))) (\<lambda>p'. return (Some p')))
           (\<lambda>finalInverse.
         bnd (lockSide (crp_locked input) finalProperty) (\<lambda>resultProperty.
         bnd (case finalInverse of None \<Rightarrow> return None
              | Some p \<Rightarrow> bnd (lockSide (case crp_inverse input of None \<Rightarrow> None | Some paired \<Rightarrow> rsi_locked paired) p)
                  (\<lambda>p'. return (Some p'))) (\<lambda>resultInverse.
         return (resultProperty, resultInverse)))))))))))))"

definition createRelationPropertyTx ::
  "id \<Rightarrow> id \<Rightarrow> id \<Rightarrow> CreateRelationPropertyInput \<Rightarrow> ComputedKeyRegistry \<Rightarrow> id option \<Rightarrow>
   (PropertyRow \<times> PropertyRow option) op" where
  "createRelationPropertyTx idA idB idDef input registry actingUserId =
     bnd (createRelationPropertyWithClient idA idB idDef input None registry) (\<lambda>result.
     andThen (announceSchemas (pr_databaseId (fst result) #
         (case snd result of None \<Rightarrow> [] | Some p \<Rightarrow> [pr_databaseId p])) actingUserId)
       (return result))"

end
