(* ===== verification/SchemaInvariant.thy ===== *)
theory SchemaInvariant
  imports PropertyWrites StoreFacts
begin

text \<open>
  The invariant that what a rollup depends on stays there (\<open>schemaOk\<close>), and each operation of
  \<open>propertyOps.ts\<close>, \<open>relationPropertyOps.ts\<close> and the database drop keeping it. The set \<open>but\<close>
  holds the rollups whose dependency row is about to be rewritten.
\<close>

section \<open>The invariant\<close>

definition compatibleSource :: "RollupAggregation \<Rightarrow> string \<Rightarrow> bool" where
  "compatibleSource aggregation ty \<longleftrightarrow>
     (case map_of PROPERTY_TYPES ty of
        None \<Rightarrow> False | Some t \<Rightarrow> assertAggregationCompatibleWithType aggregation t = Inr ())"

definition sourceOk :: "PropertyDbRow list \<Rightarrow> RollupDependencyDbRow \<Rightarrow> RollupAggregation \<Rightarrow> bool" where
  "sourceOk ps dep aggregation \<longleftrightarrow>
     (case rud_source_property_key dep of
        None \<Rightarrow> aggregation \<in> set NO_TARGET
      | Some key \<Rightarrow> (\<exists>s \<in> set ps. rpr_database_id s = rud_source_database_id dep \<and> rpr_key s = key \<and>
          compatibleSource aggregation (rpr_type s)))"

definition dependencyOk :: "PropertyDbRow list \<Rightarrow> RollupDependencyDbRow \<Rightarrow> bool" where
  "dependencyOk ps dep \<longleftrightarrow> (\<exists>p \<in> set ps. rpr_id p = rud_rollup_property_id dep \<and> rpr_type p = ''rollup'' \<and>
     (\<exists>config. parseRollupConfig (rpr_config p) = Inr config \<and> sourceOk ps dep (rc_aggregation config)))"

definition sidesOk :: "PropertyDbRow list \<Rightarrow> RelationDefinitionDbRow \<Rightarrow> bool" where
  "sidesOk ps def \<longleftrightarrow> (\<forall>i. sideOf i def \<longrightarrow> (\<exists>p \<in> set ps. rpr_id p = i \<and> rpr_type p = ''relation''))"

text \<open>\<open>but\<close>: the rollups whose dependency is being rewritten.\<close>

definition schemaOk :: "id set \<Rightarrow> db \<Rightarrow> bool" where
  "schemaOk but d \<longleftrightarrow> distinct (map rpr_id (t_properties d)) \<and>
     distinct (map (\<lambda>r. (rpr_database_id r, rpr_key r)) (t_properties d)) \<and>
     (\<forall>def \<in> set (t_relation_definitions d). sidesOk (t_properties d) def) \<and>
     (\<forall>dep \<in> set (t_rollup_dependencies d). rud_relation_definition_id dep \<in> rrd_id ` set (t_relation_definitions d) \<and>
        (rud_rollup_property_id dep \<notin> but \<longrightarrow> dependencyOk (t_properties d) dep))"

interpretation schema: quiet "schemaOk but" for but
  by unfold_locales (simp_all add: schemaOk_def)

lemma schemaOk_distinct:
  assumes "schemaOk but d"
  shows "distinct (map rpr_id (t_properties d))" and "distinct (map (\<lambda>r. (rpr_database_id r, rpr_key r)) (t_properties d))"
  using assms unfolding schemaOk_def by blast+

lemma schemaOk_sides: "schemaOk but d \<Longrightarrow> def \<in> set (t_relation_definitions d) \<Longrightarrow> sidesOk (t_properties d) def"
  unfolding schemaOk_def by blast

lemma schemaOk_dependency:
  "schemaOk but d \<Longrightarrow> dep \<in> set (t_rollup_dependencies d) \<Longrightarrow> rud_rollup_property_id dep \<notin> but \<Longrightarrow>
   dependencyOk (t_properties d) dep"
  unfolding schemaOk_def by blast

lemma schemaOk_definition:
  assumes "schemaOk but d" and "dep \<in> set (t_rollup_dependencies d)"
  obtains def where "def \<in> set (t_relation_definitions d)" and "rud_relation_definition_id dep = rrd_id def"
  using assms unfolding schemaOk_def by blast

lemma schemaOk_mono: "schemaOk but d \<Longrightarrow> but \<subseteq> but' \<Longrightarrow> schemaOk but' d"
  by (auto simp: schemaOk_def)

lemma schemaOk_same_row:
  assumes "schemaOk but d" and "r \<in> set (t_properties d)" and "s \<in> set (t_properties d)" and "rpr_id r = rpr_id s"
  shows "r = s"
  using assms by (auto simp: schemaOk_def distinct_map inj_on_def)

lemma incompatible_types: "\<not> compatibleSource aggregation ''relation''" "\<not> compatibleSource aggregation ''rollup''"
  by (simp_all add: compatibleSource_def PROPERTY_TYPES_def assertAggregationCompatibleWithType_def)

section \<open>Changes of the rows\<close>

lemma sourceOk_map:
  assumes "sourceOk ps dep aggregation"
    and "\<And>r. r \<in> set ps \<Longrightarrow> rpr_database_id r = rud_source_database_id dep \<Longrightarrow> Some (rpr_key r) = rud_source_property_key dep \<Longrightarrow>
      compatibleSource aggregation (rpr_type r) \<Longrightarrow>
      rpr_database_id (g r) = rpr_database_id r \<and> rpr_key (g r) = rpr_key r \<and> compatibleSource aggregation (rpr_type (g r))"
  shows "sourceOk (map g ps) dep aggregation"
proof (cases "rud_source_property_key dep")
  case None
  with assms(1) show ?thesis by (simp add: sourceOk_def)
next
  case (Some key)
  with assms(1) obtain s where s: "s \<in> set ps" "rpr_database_id s = rud_source_database_id dep" "rpr_key s = key"
      "compatibleSource aggregation (rpr_type s)" by (auto simp: sourceOk_def)
  with assms(2) [of s] Some have "rpr_database_id (g s) = rud_source_database_id dep \<and> rpr_key (g s) = key \<and>
      compatibleSource aggregation (rpr_type (g s))" by simp
  with s(1) Some show ?thesis by (auto simp: sourceOk_def)
qed

lemma dependencyOk_map:
  assumes "dependencyOk ps dep"
    and "\<And>r. r \<in> set ps \<Longrightarrow> rpr_id r = rud_rollup_property_id dep \<Longrightarrow> rpr_type r = ''rollup'' \<Longrightarrow>
      rpr_id (g r) = rpr_id r \<and> rpr_type (g r) = rpr_type r \<and> rpr_config (g r) = rpr_config r"
    and "\<And>r p config. r \<in> set ps \<Longrightarrow> p \<in> set ps \<Longrightarrow> rpr_id p = rud_rollup_property_id dep \<Longrightarrow>
      parseRollupConfig (rpr_config p) = Inr config \<Longrightarrow> rpr_database_id r = rud_source_database_id dep \<Longrightarrow>
      Some (rpr_key r) = rud_source_property_key dep \<Longrightarrow> compatibleSource (rc_aggregation config) (rpr_type r) \<Longrightarrow>
      rpr_database_id (g r) = rpr_database_id r \<and> rpr_key (g r) = rpr_key r \<and>
      compatibleSource (rc_aggregation config) (rpr_type (g r))"
  shows "dependencyOk (map g ps) dep"
proof -
  from assms(1) obtain p config where p: "p \<in> set ps" "rpr_id p = rud_rollup_property_id dep" "rpr_type p = ''rollup''"
      "parseRollupConfig (rpr_config p) = Inr config" and source: "sourceOk ps dep (rc_aggregation config)"
    by (auto simp: dependencyOk_def)
  have "sourceOk (map g ps) dep (rc_aggregation config)"
    by (rule sourceOk_map [OF source]) (rule assms(3) [OF _ p(1,2,4)])
  with assms(2) [OF p(1-3)] p show ?thesis
    unfolding dependencyOk_def by (intro bexI [of _ "g p"] conjI exI [of _ config]) auto
qed

lemma sidesOk_map:
  assumes "sidesOk ps def" and "\<And>r. r \<in> set ps \<Longrightarrow> rpr_type r = ''relation'' \<Longrightarrow> rpr_id (g r) = rpr_id r \<and> rpr_type (g r) = ''relation''"
  shows "sidesOk (map g ps) def"
  using assms unfolding sidesOk_def by (metis (no_types, lifting) image_eqI set_map)

lemma schemaOk_map:
  assumes "schemaOk but d" and "but \<subseteq> but'"
    and "\<And>r. r \<in> set (t_properties d) \<Longrightarrow> rpr_id (g r) = rpr_id r \<and> rpr_database_id (g r) = rpr_database_id r \<and> rpr_key (g r) = rpr_key r"
    and "\<And>r. r \<in> set (t_properties d) \<Longrightarrow> rpr_type r \<in> {''relation'', ''rollup''} \<Longrightarrow> rpr_type (g r) = rpr_type r"
    and "\<And>r. r \<in> set (t_properties d) \<Longrightarrow> rpr_type r = ''rollup'' \<Longrightarrow> rpr_id r \<notin> but' \<Longrightarrow> rpr_config (g r) = rpr_config r"
    and "\<And>dep r p config. dep \<in> set (t_rollup_dependencies d) \<Longrightarrow> r \<in> set (t_properties d) \<Longrightarrow> p \<in> set (t_properties d) \<Longrightarrow>
      rpr_id p = rud_rollup_property_id dep \<Longrightarrow> parseRollupConfig (rpr_config p) = Inr config \<Longrightarrow>
      rpr_database_id r = rud_source_database_id dep \<Longrightarrow> Some (rpr_key r) = rud_source_property_key dep \<Longrightarrow>
      compatibleSource (rc_aggregation config) (rpr_type r) \<Longrightarrow> compatibleSource (rc_aggregation config) (rpr_type (g r))"
  shows "schemaOk but' (d\<lparr>t_properties := map g (t_properties d)\<rparr>)"
proof -
  have ids: "map rpr_id (map g (t_properties d)) = map rpr_id (t_properties d)"
      "map (\<lambda>r. (rpr_database_id r, rpr_key r)) (map g (t_properties d)) = map (\<lambda>r. (rpr_database_id r, rpr_key r)) (t_properties d)"
    using assms(3) by simp_all
  have "sidesOk (map g (t_properties d)) def" if "def \<in> set (t_relation_definitions d)" for def
    by (rule sidesOk_map) (use assms(1,3,4) that in \<open>auto simp: schemaOk_def\<close>)
  moreover have "dependencyOk (map g (t_properties d)) dep"
    if "dep \<in> set (t_rollup_dependencies d)" "rud_rollup_property_id dep \<notin> but'" for dep
    by (rule dependencyOk_map) (use assms that in \<open>auto simp: schemaOk_def\<close>)
  ultimately show ?thesis using assms(1) unfolding schemaOk_def by (simp add: ids del: map_map)
qed

text \<open>A change that leaves every row's identity, key and type, and a rollup's configuration.\<close>

lemma schemaOk_update:
  assumes "schemaOk but d" and "but \<subseteq> but'"
    and "\<And>r. rpr_id (f r) = rpr_id r \<and> rpr_database_id (f r) = rpr_database_id r \<and> rpr_key (f r) = rpr_key r \<and> rpr_type (f r) = rpr_type r"
    and "\<And>r. r \<in> set (t_properties d) \<Longrightarrow> rpr_id r = i \<Longrightarrow> rpr_type r = ''rollup'' \<Longrightarrow> i \<notin> but' \<Longrightarrow> rpr_config (f r) = rpr_config r"
  shows "schemaOk but' (d\<lparr>t_properties := map (\<lambda>r. if rpr_id r = i then f r else r) (t_properties d)\<rparr>)"
  using assms by (intro schemaOk_map) auto

lemma dependencyOk_mono:
  assumes "dependencyOk ps dep" and "\<And>r. r \<in> set ps \<Longrightarrow> (rpr_id r = rud_rollup_property_id dep \<and> rpr_type r = ''rollup'') \<or>
      (rpr_database_id r = rud_source_database_id dep \<and> Some (rpr_key r) = rud_source_property_key dep \<and>
       rpr_type r \<notin> {''relation'', ''rollup''}) \<Longrightarrow> r \<in> set ps'"
  shows "dependencyOk ps' dep"
proof -
  from assms(1) obtain p config where p: "p \<in> set ps" "rpr_id p = rud_rollup_property_id dep" "rpr_type p = ''rollup''"
      "parseRollupConfig (rpr_config p) = Inr config" and source: "sourceOk ps dep (rc_aggregation config)"
    by (auto simp: dependencyOk_def)
  have "sourceOk ps' dep (rc_aggregation config)"
  proof (cases "rud_source_property_key dep")
    case None
    with source show ?thesis by (simp add: sourceOk_def)
  next
    case (Some key)
    with source obtain s where s: "s \<in> set ps" "rpr_database_id s = rud_source_database_id dep" "rpr_key s = key"
        "compatibleSource (rc_aggregation config) (rpr_type s)" by (auto simp: sourceOk_def)
    with incompatible_types have "rpr_type s \<notin> {''relation'', ''rollup''}" by auto
    with assms(2) [OF s(1)] s Some have "s \<in> set ps'" by simp
    with s Some show ?thesis by (auto simp: sourceOk_def)
  qed
  moreover from assms(2) [OF p(1)] p have "p \<in> set ps'" by simp
  ultimately show ?thesis using p by (auto simp: dependencyOk_def)
qed

lemma sidesOk_mono:
  assumes "sidesOk ps def" and "\<And>r. r \<in> set ps \<Longrightarrow> sideOf (rpr_id r) def \<Longrightarrow> rpr_type r = ''relation'' \<Longrightarrow> r \<in> set ps'"
  shows "sidesOk ps' def"
  unfolding sidesOk_def
proof (intro allI impI)
  fix i assume i: "sideOf i def"
  with assms(1) obtain p where "p \<in> set ps" "rpr_id p = i" "rpr_type p = ''relation''" by (auto simp: sidesOk_def)
  with assms(2) i show "\<exists>p \<in> set ps'. rpr_id p = i \<and> rpr_type p = ''relation''" by blast
qed

lemma schemaOk_append:
  assumes "schemaOk but d" and "rpr_id r \<notin> rpr_id ` set (t_properties d)"
    and "\<not> (\<exists>x \<in> set (t_properties d). rpr_database_id x = rpr_database_id r \<and> rpr_key x = rpr_key r)"
  shows "schemaOk but (d\<lparr>t_properties := t_properties d @ [r]\<rparr>)"
proof -
  have "sidesOk (t_properties d @ [r]) def" if "def \<in> set (t_relation_definitions d)" for def
    by (rule sidesOk_mono [OF schemaOk_sides [OF assms(1) that]]) simp
  moreover have "dependencyOk (t_properties d @ [r]) dep"
    if "dep \<in> set (t_rollup_dependencies d)" "rud_rollup_property_id dep \<notin> but" for dep
    by (rule dependencyOk_mono [OF schemaOk_dependency [OF assms(1) that]]) simp
  moreover have "distinct (map rpr_id (t_properties d @ [r]))"
      "distinct (map (\<lambda>r. (rpr_database_id r, rpr_key r)) (t_properties d @ [r]))"
    using schemaOk_distinct [OF assms(1)] assms(2,3) by auto
  ultimately show ?thesis using assms(1) unfolding schemaOk_def by simp
qed

lemma schemaOk_addDefinition:
  assumes "schemaOk but d" and "sidesOk (t_properties d) def"
  shows "schemaOk but (d\<lparr>t_relation_definitions := t_relation_definitions d @ [def]\<rparr>)"
  using assms by (auto simp: schemaOk_def)

text \<open>Rows go: a property with what hangs on it.\<close>

lemma schemaOk_remove:
  assumes "schemaOk but d" and "t_properties d' = filter keepP (t_properties d)"
    and "t_relation_definitions d' = filter keepD (t_relation_definitions d)"
    and "t_rollup_dependencies d' = filter keepR (t_rollup_dependencies d)"
    and "\<And>def i p. def \<in> set (t_relation_definitions d) \<Longrightarrow> keepD def \<Longrightarrow> sideOf i def \<Longrightarrow> p \<in> set (t_properties d) \<Longrightarrow> rpr_id p = i \<Longrightarrow> keepP p"
    and "\<And>dep def. dep \<in> set (t_rollup_dependencies d) \<Longrightarrow> keepR dep \<Longrightarrow> def \<in> set (t_relation_definitions d) \<Longrightarrow>
      rud_relation_definition_id dep = rrd_id def \<Longrightarrow> keepD def"
    and "\<And>dep p. dep \<in> set (t_rollup_dependencies d) \<Longrightarrow> keepR dep \<Longrightarrow> p \<in> set (t_properties d) \<Longrightarrow> rpr_id p = rud_rollup_property_id dep \<Longrightarrow> keepP p"
    and "\<And>dep p. dep \<in> set (t_rollup_dependencies d) \<Longrightarrow> keepR dep \<Longrightarrow> p \<in> set (t_properties d) \<Longrightarrow>
      rpr_database_id p = rud_source_database_id dep \<Longrightarrow> Some (rpr_key p) = rud_source_property_key dep \<Longrightarrow>
      rpr_type p \<notin> {''relation'', ''rollup''} \<Longrightarrow> keepP p"
  shows "schemaOk but d'"
  unfolding schemaOk_def
proof (intro conjI ballI impI)
  show "distinct (map rpr_id (t_properties d'))" "distinct (map (\<lambda>r. (rpr_database_id r, rpr_key r)) (t_properties d'))"
    using schemaOk_distinct [OF assms(1)] assms(2) by (simp_all add: distinct_map_filter)
next
  fix def assume "def \<in> set (t_relation_definitions d')"
  with assms(3) have def: "def \<in> set (t_relation_definitions d)" "keepD def" by auto
  show "sidesOk (t_properties d') def"
    by (rule sidesOk_mono [OF schemaOk_sides [OF assms(1) def(1)]]) (use assms(2) assms(5) [OF def] in simp)
next
  fix dep assume "dep \<in> set (t_rollup_dependencies d')"
  then have dep: "dep \<in> set (t_rollup_dependencies d)" "keepR dep" using assms(4) by auto
  obtain def where "def \<in> set (t_relation_definitions d)" "rud_relation_definition_id dep = rrd_id def"
    by (rule schemaOk_definition [OF assms(1) dep(1)])
  with assms(6) [OF dep] assms(3) show "rud_relation_definition_id dep \<in> rrd_id ` set (t_relation_definitions d')" by auto
  assume "rud_rollup_property_id dep \<notin> but"
  then show "dependencyOk (t_properties d') dep"
    by (intro dependencyOk_mono [OF schemaOk_dependency [OF assms(1) dep(1)]])
      (use assms(2) assms(7,8) [OF dep] in auto)
qed

lemma schemaOk_cascade:
  assumes "schemaOk but d" and "p \<in> set (t_properties d)" and "rpr_id p = i"
    and "rpr_type p \<in> {''relation'', ''rollup''} \<or> (\<forall>dep \<in> set (t_rollup_dependencies d).
      \<not> (rud_source_database_id dep = rpr_database_id p \<and> rud_source_property_key dep = Some (rpr_key p)))"
  shows "schemaOk but (cascadePropertyDelete i d)"
proof (rule schemaOk_remove [OF assms(1)])
  let ?defs = "map rrd_id (filter (sideOf i) (t_relation_definitions d))"
  show "t_properties (cascadePropertyDelete i d) = filter (\<lambda>p. rpr_id p \<noteq> i) (t_properties d)"
    "t_relation_definitions (cascadePropertyDelete i d) = filter (\<lambda>r. \<not> sideOf i r) (t_relation_definitions d)"
    "t_rollup_dependencies (cascadePropertyDelete i d) = filter (\<lambda>r. rud_rollup_property_id r \<noteq> i \<and>
       rud_relation_definition_id r \<notin> set ?defs) (t_rollup_dependencies d)"
    by (simp_all add: cascadePropertyDelete_def Let_def)
next
  fix dep q assume "dep \<in> set (t_rollup_dependencies d)" "q \<in> set (t_properties d)" "rpr_database_id q = rud_source_database_id dep"
    "Some (rpr_key q) = rud_source_property_key dep" "rpr_type q \<notin> {''relation'', ''rollup''}"
  moreover from this(2) have "rpr_id q = i \<longrightarrow> q = p" using schemaOk_same_row [OF assms(1) _ assms(2)] assms(3) by simp
  ultimately show "rpr_id q \<noteq> i" using assms(4) by auto
qed auto

section \<open>Reading and writing one property\<close>

lemma typeName_iff: "map_of PROPERTY_TYPES s = Some ty \<longleftrightarrow> s = propertyTypeName ty"
proof
  assume "map_of PROPERTY_TYPES s = Some ty"
  then have "(s, ty) \<in> set PROPERTY_TYPES" by (rule map_of_SomeD)
  then show "s = propertyTypeName ty" by (auto simp: PROPERTY_TYPES_def propertyTypeName_def)
next
  assume "s = propertyTypeName ty"
  then show "map_of PROPERTY_TYPES s = Some ty" by (cases ty) (simp_all add: PROPERTY_TYPES_def propertyTypeName_def)
qed

lemma map_of_typeName: "map_of PROPERTY_TYPES (propertyTypeName ty) = Some ty"
  by (simp add: typeName_iff)

lemma typeName_simps:
  "propertyTypeName PtRollup = ''rollup''" "propertyTypeName PtRelation = ''relation''"
  "propertyTypeName ty = ''rollup'' \<longleftrightarrow> ty = PtRollup" "propertyTypeName ty = ''relation'' \<longleftrightarrow> ty = PtRelation"
  by (simp_all add: PROPERTY_TYPES_def propertyTypeName_def) (cases ty; simp add: PROPERTY_TYPES_def propertyTypeName_def)+

lemma mappedProperty:
  assumes "mapPropertyRow r = Inr property"
  shows "pr_id property = rpr_id r" and "pr_databaseId property = rpr_database_id r" and "pr_key property = rpr_key r"
    and "pr_config property = rpr_config r" and "rpr_type r = propertyTypeName (pr_type property)"
  using assms by (auto simp: mapPropertyRow_def assertKnownValue_def typeName_iff [symmetric] split: option.splits)

text \<open>A property read is a row of the table.\<close>

definition rowOf :: "PropertyRow \<Rightarrow> db \<Rightarrow> bool" where
  "rowOf property d \<longleftrightarrow> (\<exists>r \<in> set (t_properties d). mapPropertyRow r = Inr property)"

lemma firstProperty_InrE:
  assumes "bnd (selectProperties q) firstProperty c = Inr (found, c')"
  obtains (none) "found = None" and "c' = c" and "\<forall>r \<in> set (t_properties (cl_db c)). \<not> q r"
  | (some) property r where "found = Some property" and "c' = c" and "r \<in> set (t_properties (cl_db c))" and "q r"
      and "mapPropertyRow r = Inr property"
proof (cases "filter q (t_properties (cl_db c))")
  case Nil
  with assms show thesis
    by (intro none) (auto simp: selectProperties_def firstProperty_def comp_simps filter_empty_conv)
next
  case (Cons r rs)
  then have "r \<in> set (filter q (t_properties (cl_db c)))" by simp
  with Cons assms show thesis
    by (cases "mapPropertyRow r") (auto simp: selectProperties_def firstProperty_def comp_simps intro: some)
qed

lemma requireProperty_InrE:
  assumes "requireProperty i c = Inr (property, c') \<or> requirePropertyForUpdate i c = Inr (property, c')"
  obtains r where "c' = c" and "r \<in> set (t_properties (cl_db c))" and "rpr_id r = i" and "mapPropertyRow r = Inr property"
proof -
  from assms have "bnd (bnd (selectProperties (\<lambda>r. rpr_id r = i)) firstProperty)
      (\<lambda>found. case found of None \<Rightarrow> throw NotFoundError | Some property \<Rightarrow> return property) c = Inr (property, c')"
    by (auto simp: requireProperty_def requirePropertyForUpdate_def getProperty_def getPropertyForUpdate_def)
  then obtain found c1 where "bnd (selectProperties (\<lambda>r. rpr_id r = i)) firstProperty c = Inr (found, c1)"
      and rest: "(case found of None \<Rightarrow> throw NotFoundError | Some property \<Rightarrow> return property) c1 = Inr (property, c')"
    by (rule bnd_InrE)
  from this(1) show thesis
    by (cases rule: firstProperty_InrE) (use rest in \<open>auto simp: comp_simps intro: that\<close>)
qed

lemma updateReturning_InrE:
  assumes "updatePropertyReturning i f c = Inr (property, c')"
  obtains r where "r \<in> set (t_properties (cl_db c))" and "rpr_id r = i" and "mapPropertyRow (f r) = Inr property"
    and "c' = c\<lparr>cl_db := (cl_db c)\<lparr>t_properties := map (\<lambda>r. if rpr_id r = i then f r else r) (t_properties (cl_db c))\<rparr>\<rparr>"
proof (cases "filter (\<lambda>r. rpr_id r = i) (t_properties (cl_db c))")
  case Nil
  with assms show thesis
    by (simp add: updatePropertyReturning_def selectProperties_def updateProperties_def requireSingleRow_def comp_simps
        andThen_def bnd_def)
next
  case (Cons r rs)
  then have "r \<in> set (filter (\<lambda>r. rpr_id r = i) (t_properties (cl_db c)))" by simp
  then have "r \<in> set (t_properties (cl_db c))" "rpr_id r = i" by simp_all
  with Cons assms show thesis
    by (intro that [of r]) (auto simp: updatePropertyReturning_def selectProperties_def updateProperties_def
        requireSingleRow_def comp_simps andThen_def bnd_def ofSum_def split: sum.splits)
qed

section \<open>The operations\<close>

lemma readsOnly_definitionOf: "readsOnly (getRelationDefinitionByPropertyId i)"
  by (auto simp: getRelationDefinitionByPropertyId_def firstDefinition_def intro!: reads_intros)

lemma readsOnly_propertyGuards:
  "readsOnly (getProperty i)" "readsOnly (getPropertyForUpdate i)" "readsOnly (requireProperty i)"
  "readsOnly (requirePropertyForUpdate i)" "readsOnly (assertDatabaseSchemaUnlocked databaseId)"
  "readsOnly (assertPropertySchemaMutable property)"
  by (auto simp: getPropertyForUpdate_def getProperty_def firstProperty_def requireProperty_def requirePropertyForUpdate_def
      assertDatabaseSchemaUnlocked_def assertPropertySchemaMutable_def intro!: reads_intros)

lemma keeps_updateProperties:
  assumes "\<And>r. rpr_id (f r) = rpr_id r \<and> rpr_database_id (f r) = rpr_database_id r \<and> rpr_key (f r) = rpr_key r \<and>
      rpr_type (f r) = rpr_type r \<and> rpr_config (f r) = rpr_config r"
  shows "keeps (onDb (schemaOk but)) (updateProperties i f)"
  unfolding updateProperties_def
  by (rule keeps_onDb_statement, rule schemaOk_update [OF _ order_refl]) (use assms in auto)

lemma keeps_rename: "keeps (onDb (schemaOk but)) (renamePropertyRow i name)"
  unfolding renamePropertyRow_def updatePropertyReturning_def selectProperties_def
  by (intro keeps_intros readsOnly_keeps [OF readsOnly_propertyGuards(3)] readsOnly_keeps [OF readsOnly_requireSingleRow]
      keeps_updateProperties) simp

lemma keeps_lock: "keeps (onDb (schemaOk but)) (setPropertyLocked i locked)"
  unfolding setPropertyLocked_def by (rule keeps_updateProperties) simp

lemma createProperty_InrE:
  assumes "createProperty newId input c = Inr (property, c')"
  obtains "c' = c\<lparr>cl_db := (cl_db c)\<lparr>t_properties := t_properties (cl_db c) @ [insertedProperty newId input]\<rparr>\<rparr>"
    and "newId \<notin> rpr_id ` set (t_properties (cl_db c))"
    and "\<not> (\<exists>x \<in> set (t_properties (cl_db c)). rpr_database_id x = cp_databaseId input \<and> rpr_key x = cp_key input)"
    and "mapPropertyRow (insertedProperty newId input) = Inr property"
proof -
  have reads: "readsOnly (assertDatabaseSchemaUnlocked (cp_databaseId input))" by (rule readsOnly_propertyGuards)
  obtain database where "assertDatabaseSchemaUnlocked (cp_databaseId input) c = Inr (database, c)"
    using assms unfolding createProperty_def by (elim bnd_readsOnly_InrE [OF _ reads]) (rule that)
  note unlocked = bnd_Inr [where m = "assertDatabaseSchemaUnlocked (cp_databaseId input)" and s = c, OF this]
  from assms [unfolded createProperty_def unlocked] show thesis
    by (intro that) (auto simp: comp_simps andThen_def bnd_def ofSum_def requireSingleRow_def split: if_splits sum.splits)
qed

lemma createProperty_ok:
  assumes "createProperty newId input c = Inr (property, c')" and "schemaOk but (cl_db c)"
  shows "schemaOk but (cl_db c') \<and> pr_id property = newId \<and> rowOf property (cl_db c') \<and> pr_type property = cp_type input"
  using assms(1)
proof (cases rule: createProperty_InrE)
  case 1
  have "schemaOk but ((cl_db c)\<lparr>t_properties := t_properties (cl_db c) @ [insertedProperty newId input]\<rparr>)"
    by (rule schemaOk_append [OF assms(2)]) (use 1 in \<open>auto simp: insertedProperty_def\<close>)
  moreover have "propertyTypeName (pr_type property) = propertyTypeName (cp_type input)"
    using mappedProperty(5) [OF 1(4)] by (simp add: insertedProperty_def)
  then have "pr_type property = cp_type input" using typeName_iff by (metis option.inject)
  ultimately show ?thesis
    using 1 mappedProperty(1) [OF 1(4)] by (auto simp: rowOf_def insertedProperty_def)
qed

text \<open>A new configuration: a rollup's dependency is out of step until it is applied.\<close>

lemma updatePropertyConfigRow_ok:
  assumes "updatePropertyConfigRow i config c = Inr (property, c')" and "schemaOk but (cl_db c)"
  shows "schemaOk (if pr_type property = PtRollup then insert i but else but) (cl_db c') \<and> pr_id property = i \<and>
    rowOf property (cl_db c')"
proof -
  from assms(1) obtain property0 where
      "updatePropertyReturning i (\<lambda>r. r\<lparr>rpr_config := config\<rparr>) c = Inr (property, c')"
    unfolding updatePropertyConfigRow_def
    by (elim bnd_readsOnly_InrE [OF _ readsOnly_propertyGuards(4)] andThen_readsOnly_InrE [OF _ readsOnly_propertyGuards(6)]
        bnd_readsOnly_InrE [OF _ readsOnly_ofSum])
  then obtain r where r: "r \<in> set (t_properties (cl_db c))" "rpr_id r = i" "mapPropertyRow (r\<lparr>rpr_config := config\<rparr>) = Inr property"
      and c': "c' = c\<lparr>cl_db := (cl_db c)\<lparr>t_properties := map (\<lambda>r. if rpr_id r = i then r\<lparr>rpr_config := config\<rparr> else r)
        (t_properties (cl_db c))\<rparr>\<rparr>" by (rule updateReturning_InrE)
  have ty: "rpr_type r = propertyTypeName (pr_type property)" using mappedProperty(5) [OF r(3)] by simp
  have db: "cl_db c' = (cl_db c)\<lparr>t_properties := map (\<lambda>r. if rpr_id r = i then r\<lparr>rpr_config := config\<rparr> else r)
        (t_properties (cl_db c))\<rparr>" by (simp add: c')
  have "schemaOk (if pr_type property = PtRollup then insert i but else but) (cl_db c')"
    unfolding db
  proof (rule schemaOk_update [OF assms(2)])
    fix x assume x: "x \<in> set (t_properties (cl_db c))" "rpr_id x = i" "rpr_type x = ''rollup''"
      "i \<notin> (if pr_type property = PtRollup then insert i but else but)"
    with schemaOk_same_row [OF assms(2) x(1) r(1)] r(2) ty have "pr_type property = PtRollup" by (simp add: typeName_simps)
    with x(4) show "rpr_config (x\<lparr>rpr_config := config\<rparr>) = rpr_config x" by simp
  qed auto
  moreover have "rowOf property (cl_db c')" using r c' by (auto simp: rowOf_def image_iff)
  ultimately show ?thesis using mappedProperty(1) [OF r(3)] r(2) by simp
qed

text \<open>Applying a rollup's configuration writes a dependency that holds.\<close>

lemma validate_source:
  assumes "validateRollupConfig raw own target = Inr v"
  shows "parseRollupConfig raw = Inr (vr_config v)" and "vr_relationProperty v \<in> set own"
    and "case vr_targetProperty v of None \<Rightarrow> rc_aggregation (vr_config v) \<in> set NO_TARGET
      | Some t \<Rightarrow> t \<in> set target \<and> assertAggregationCompatibleWithType (rc_aggregation (vr_config v)) (pr_type t) = Inr ()"
  using assms
  by (auto simp: validateRollupConfig_def assertAggregationCompatibleWithType_def find_Some_iff
      split: sum.splits option.splits if_splits)

lemma listed_row:
  assumes "listPropertiesByDatabase databaseId c = Inr (properties, c')" and "property \<in> set properties"
  obtains r where "r \<in> set (t_properties (cl_db c))" and "rpr_database_id r = databaseId" and "mapPropertyRow r = Inr property"
proof -
  from assms(2) have "Inr property \<in> set (map Inr properties)" by simp
  then have "Inr property \<in> set (map mapPropertyRow (sort_key rpr_key (filter (\<lambda>r. rpr_database_id r = databaseId)
      (t_properties (cl_db c)))))" unfolding listProperties_rows [OF assms(1)] .
  with that show thesis by auto
qed

lemma schemaOk_upsert:
  assumes "upsertRollupDependency input c = Inr (u, c')" and "schemaOk (insert (rdp_rollupPropertyId input) but) (cl_db c)"
    and "dependencyOk (t_properties (cl_db c)) \<lparr>rud_rollup_property_id = rdp_rollupPropertyId input,
      rud_relation_definition_id = rdp_relationDefinitionId input, rud_source_database_id = rdp_sourceDatabaseId input,
      rud_source_property_key = rdp_sourcePropertyKey input\<rparr>"
  shows "schemaOk but (cl_db c')"
proof -
  let ?row = "\<lparr>rud_rollup_property_id = rdp_rollupPropertyId input,
      rud_relation_definition_id = rdp_relationDefinitionId input, rud_source_database_id = rdp_sourceDatabaseId input,
      rud_source_property_key = rdp_sourcePropertyKey input\<rparr>"
  from assms(1) have c': "t_properties (cl_db c') = t_properties (cl_db c)"
      "t_relation_definitions (cl_db c') = t_relation_definitions (cl_db c)"
      "\<forall>dep \<in> set (t_rollup_dependencies (cl_db c')). dep = ?row \<or>
         (dep \<in> set (t_rollup_dependencies (cl_db c)) \<and> rud_rollup_property_id dep \<noteq> rdp_rollupPropertyId input)"
      and def: "rdp_relationDefinitionId input \<in> rrd_id ` set (t_relation_definitions (cl_db c))"
    by (auto simp: upsertRollupDependency_def Let_def comp_simps image_iff split: if_splits) metis
  show ?thesis
    unfolding schemaOk_def c'(1,2)
  proof (intro conjI ballI impI)
    show "distinct (map rpr_id (t_properties (cl_db c)))"
      "distinct (map (\<lambda>r. (rpr_database_id r, rpr_key r)) (t_properties (cl_db c)))"
      using schemaOk_distinct [OF assms(2)] .
    fix def' assume "def' \<in> set (t_relation_definitions (cl_db c))"
    then show "sidesOk (t_properties (cl_db c)) def'" by (rule schemaOk_sides [OF assms(2)])
  next
    fix dep assume "dep \<in> set (t_rollup_dependencies (cl_db c'))"
    with c'(3) consider "dep = ?row" | "dep \<in> set (t_rollup_dependencies (cl_db c))"
        "rud_rollup_property_id dep \<noteq> rdp_rollupPropertyId input" by blast
    note cases = this
    from cases show "rud_relation_definition_id dep \<in> rrd_id ` set (t_relation_definitions (cl_db c))"
      by cases (use def in simp, metis schemaOk_definition [OF assms(2)] imageI)
    assume "rud_rollup_property_id dep \<notin> but"
    with cases show "dependencyOk (t_properties (cl_db c)) dep"
      by cases (use assms(3) in simp, use schemaOk_dependency [OF assms(2)] in simp)
  qed
qed

lemma applyRollupConfig_InrE:
  assumes "applyRollupConfig property c = Inr (u, c')"
  obtains own target v T and reldef :: RelationDefinitionRow where "listPropertiesByDatabase (pr_databaseId property) c = Inr (own, c)"
    and "listPropertiesByDatabase T c = Inr (target, c)" and "validateRollupConfig (pr_config property) own target = Inr v"
    and "upsertRollupDependency \<lparr>rdp_rollupPropertyId = pr_id property, rdp_relationDefinitionId = rd_id reldef,
        rdp_sourceDatabaseId = T, rdp_sourcePropertyKey = map_option pr_key (vr_targetProperty v)\<rparr> c = Inr (u, c')"
proof -
  obtain own where own: "listPropertiesByDatabase (pr_databaseId property) c = Inr (own, c)"
    using assms unfolding applyRollupConfig_def by (elim bnd_readsOnly_InrE [OF _ readsOnly_properties(1)]) (rule that)
  define T where "T = (case (case asStr (map_of (pr_config property) ''relationPropertyKey'') of
      None \<Rightarrow> None | Some key \<Rightarrow> find (\<lambda>p. pr_key p = key) own) of
      None \<Rightarrow> None | Some p \<Rightarrow> asStr (map_of (pr_config p) ''targetDatabaseId''))"
  have "readsOnly (if truthy T then listPropertiesByDatabase (the T) else return [])" by (intro reads_intros readsOnly_properties)
  note reads = bnd_readsOnly_InrE [OF _ this] bnd_readsOnly_InrE [OF _ readsOnly_ofSum]
    bnd_readsOnly_InrE [OF _ readsOnly_definitionOf]
  from assms [unfolded applyRollupConfig_def Let_def bnd_Inr [where m = "listPropertiesByDatabase (pr_databaseId property)", OF own],
      folded T_def]
  obtain target v and found :: "RelationDefinitionRow option" where "(if truthy T then listPropertiesByDatabase (the T) else return []) c = Inr (target, c)"
      and "ofSum (validateRollupConfig (pr_config property) own target) c = Inr (v, c)"
      and "(case found of None \<Rightarrow> throw (ValidationError (Some ''relationPropertyKey''))
        | Some reldef \<Rightarrow> if \<not> truthy T then throw (ValidationError (Some ''relationPropertyKey''))
            else upsertRollupDependency
                   \<lparr>rdp_rollupPropertyId = pr_id property, rdp_relationDefinitionId = rd_id reldef,
                    rdp_sourceDatabaseId = the T,
                    rdp_sourcePropertyKey = map_option pr_key (vr_targetProperty v)\<rparr>) c = Inr (u, c')"
    by (elim reads) (rule that)
  with own show thesis
    by (cases found; cases "validateRollupConfig (pr_config property) own target")
      (auto simp: comp_simps intro: that split: if_splits)
qed

lemma applyRollupConfig_ok:
  assumes "applyRollupConfig property c = Inr (u, c')" and "schemaOk (insert (pr_id property) but) (cl_db c)"
    and "rowOf property (cl_db c)" and "pr_type property = PtRollup"
  shows "schemaOk but (cl_db c')"
  using assms(1)
proof (cases rule: applyRollupConfig_InrE)
  case (1 own target v T reldef)
  note valid = validate_source [OF 1(3)]
  from assms(3) obtain r where r: "r \<in> set (t_properties (cl_db c))" "mapPropertyRow r = Inr property" by (auto simp: rowOf_def)
  let ?row = "\<lparr>rud_rollup_property_id = pr_id property, rud_relation_definition_id = rd_id reldef,
      rud_source_database_id = T, rud_source_property_key = map_option pr_key (vr_targetProperty v)\<rparr>"
  have "sourceOk (t_properties (cl_db c)) ?row (rc_aggregation (vr_config v))"
  proof (cases "vr_targetProperty v")
    case None
    with valid(3) show ?thesis by (simp add: sourceOk_def)
  next
    case (Some t)
    with valid(3) have t: "t \<in> set target" "assertAggregationCompatibleWithType (rc_aggregation (vr_config v)) (pr_type t) = Inr ()"
      by simp_all
    obtain s where s: "s \<in> set (t_properties (cl_db c))" "rpr_database_id s = T" "mapPropertyRow s = Inr t"
      by (rule listed_row [OF 1(2) t(1)])
    have "compatibleSource (rc_aggregation (vr_config v)) (rpr_type s)"
      using mappedProperty(5) [OF s(3)] t(2) by (simp add: compatibleSource_def map_of_typeName)
    with s mappedProperty(3) [OF s(3)] Some show ?thesis by (auto simp: sourceOk_def)
  qed
  moreover have "rpr_id r = pr_id property" "rpr_type r = ''rollup''" "rpr_config r = pr_config property"
    using mappedProperty [OF r(2)] assms(4) by (simp_all add: typeName_simps)
  ultimately have "dependencyOk (t_properties (cl_db c)) ?row"
    using r(1) valid(1) unfolding dependencyOk_def by (intro bexI [of _ r]) auto
  then show ?thesis by (intro schemaOk_upsert [OF 1(4)]) (use assms(2) in simp_all)
qed

section \<open>Retyping and deleting\<close>

lemma keeps_onDbD:
  assumes "keeps (onDb P) m" and "m c = Inr (x, c')" and "P (cl_db c)"
  shows "P (cl_db c')"
  using keepsD [where I = "onDb P", OF assms(1) _ assms(2)] assms(3) by (simp add: onDb_def)

text \<open>What the guard of a retype lets through.\<close>

lemma mapC_readsOnly_Inr:
  assumes "\<And>x. readsOnly (f x)" and "mapC f xs c = Inr (ys, c')" and "x \<in> set xs"
  obtains y where "y \<in> set ys" and "f x c = Inr (y, c)"
  using assms(2,3)
proof (induction xs arbitrary: ys thesis)
  case (Cons a xs)
  from Cons.prems(2) [unfolded mapC.simps] obtain y where a: "f a c = Inr (y, c)"
      and tail: "bnd (mapC f xs) (\<lambda>ys. return (y # ys)) c = Inr (ys, c')"
    by (rule bnd_readsOnly_InrE [OF _ assms(1)])
  from tail obtain ys1 c1 where rest: "mapC f xs c = Inr (ys1, c1)" and ys: "ys = y # ys1" and "c1 = c'"
    by (rule bnd_InrE) (auto simp: comp_simps)
  from this(3) rest have rest: "mapC f xs c = Inr (ys1, c')" by simp
  show ?case
  proof (cases "x = a")
    case True
    with a ys Cons.prems(1) show ?thesis by auto
  next
    case False
    with Cons.prems(3) have "x \<in> set xs" by simp
    from Cons.IH [OF _ rest this] ys Cons.prems(1) show ?thesis by auto
  qed
qed simp

lemma readsOnly_incompatibleRollup: "readsOnly (incompatibleRollup newType dependency)"
  unfolding incompatibleRollup_def
  by (intro reads_intros readsOnly_properties) (auto intro!: reads_intros split: sum.split)

lemma retypeAllowed_compatible:
  assumes "assertSourceRetypeAllowed databaseId key newType c = Inr (u, c')" and "schemaOk but (cl_db c)"
    and "dep \<in> set (t_rollup_dependencies (cl_db c))" and "rud_source_database_id dep = databaseId"
    and "rud_source_property_key dep = Some key" and "p \<in> set (t_properties (cl_db c))"
    and "rpr_id p = rud_rollup_property_id dep" and "parseRollupConfig (rpr_config p) = Inr config"
  shows "compatibleSource (rc_aggregation config) (propertyTypeName newType)"
proof -
  let ?deps = "map mapDependencyRow (filter (\<lambda>r. rud_source_database_id r = databaseId \<and> rud_source_property_key r = Some key)
    (t_rollup_dependencies (cl_db c)))"
  have dep: "mapDependencyRow dep \<in> set ?deps" using assms(3-5) by simp
  then have "?deps \<noteq> []" by (metis empty_iff empty_set)
  with assms(1) obtain incompatible c1 where run: "mapC (incompatibleRollup newType) ?deps c = Inr (incompatible, c1)"
      and none: "concat incompatible = []"
    by (auto simp: assertSourceRetypeAllowed_def findDependenciesBySource_def selectDependencies_def comp_simps
        elim!: bnd_InrE split: if_splits)
  obtain ys where ys: "ys \<in> set incompatible" "incompatibleRollup newType (mapDependencyRow dep) c = Inr (ys, c)"
    by (rule mapC_readsOnly_Inr [OF readsOnly_incompatibleRollup run dep])
  from ys(1) none have "ys = []" by auto
  with ys(2) have run2: "incompatibleRollup newType (mapDependencyRow dep) c = Inr ([], c)" by simp
  obtain found where found: "getProperty (rud_rollup_property_id dep) c = Inr (found, c)"
      and rest: "(case found of None \<Rightarrow> return []
       | Some rollupProperty \<Rightarrow> bnd (ofSum (parseRollupConfig (pr_config rollupProperty))) (\<lambda>config.
         case assertAggregationCompatibleWithType (rc_aggregation config) newType of
           Inl _ \<Rightarrow> return [rdp_rollupPropertyId (mapDependencyRow dep)] | Inr _ \<Rightarrow> return [])) c = Inr ([] :: id list, c)"
    by (rule bnd_readsOnly_InrE [OF run2 [unfolded incompatibleRollup_def] readsOnly_properties(2)])
      (rule that, simp add: mapDependencyRow_def, assumption)
  from found [unfolded getProperty_def] show ?thesis
  proof (cases rule: firstProperty_InrE)
    case none
    with assms(6,7) show ?thesis by auto
  next
    case (some property r)
    from schemaOk_same_row [OF assms(2) some(3) assms(6)] some(4) assms(7) have "r = p" by simp
    with some(5) mappedProperty(4) assms(8) have "parseRollupConfig (pr_config property) = Inr config" by simp
    with rest some(1) show ?thesis
      by (auto simp: comp_simps compatibleSource_def map_of_typeName split: sum.splits)
  qed
qed

lemma readsOnly_retypeAllowed: "readsOnly (assertSourceRetypeAllowed databaseId key newType)"
  unfolding assertSourceRetypeAllowed_def by (intro reads_intros readsOnly_incompatibleRollup readsOnly_dependencies)

lemma readsOnly_deletable: "readsOnly (assertSourceDeletable databaseId key)" "readsOnly (assertRelationDeletable defId)"
  unfolding assertSourceDeletable_def assertRelationDeletable_def by (intro reads_intros readsOnly_dependencies)+

lemma retyped_ok:
  assumes "updatePropertyReturning i (retypedRow newType status config) c = Inr (updated, c')" and "schemaOk but (cl_db c)"
    and "assertSourceRetypeAllowed (rpr_database_id old) (rpr_key old) newType c = Inr (u, c1)"
    and "old \<in> set (t_properties (cl_db c))" and "rpr_id old = i" and "rpr_type old \<notin> {''relation'', ''rollup''}"
  shows "schemaOk but (cl_db c')"
  using assms(1)
proof (cases rule: updateReturning_InrE)
  case (1 r)
  let ?g = "\<lambda>r. if rpr_id r = i then retypedRow newType status config r else r"
  have same: "x = old" if "x \<in> set (t_properties (cl_db c))" "rpr_id x = i" for x
    by (rule schemaOk_same_row [OF assms(2) that(1) assms(4)]) (simp add: that(2) assms(5))
  have "schemaOk but ((cl_db c)\<lparr>t_properties := map ?g (t_properties (cl_db c))\<rparr>)"
  proof (rule schemaOk_map [OF assms(2) order_refl])
    fix dep x p config'
    assume dep: "dep \<in> set (t_rollup_dependencies (cl_db c))" "x \<in> set (t_properties (cl_db c))" "p \<in> set (t_properties (cl_db c))"
      "rpr_id p = rud_rollup_property_id dep" "parseRollupConfig (rpr_config p) = Inr config'"
      "rpr_database_id x = rud_source_database_id dep" "Some (rpr_key x) = rud_source_property_key dep"
      "compatibleSource (rc_aggregation config') (rpr_type x)"
    show "compatibleSource (rc_aggregation config') (rpr_type (?g x))"
    proof (cases "rpr_id x = i")
      case True
      with same [OF dep(2)] have "x = old" by simp
      with dep have "compatibleSource (rc_aggregation config') (propertyTypeName newType)"
        by (intro retypeAllowed_compatible [OF assms(3,2) dep(1) _ _ dep(3-5)]) simp_all
      with True show ?thesis by (simp add: retypedRow_def)
    qed (use dep(8) in simp)
  qed (use same assms(6) in \<open>auto simp: retypedRow_def\<close>)
  with 1(4) show ?thesis by simp
qed

lemma changePropertyType_ok:
  assumes "changePropertyTypeWithClient i newType config c = Inr (property, c')" and "schemaOk but (cl_db c)"
  shows "schemaOk but (cl_db c')"
proof -
  from assms(1) [unfolded changePropertyTypeWithClient_def] obtain found where found: "getPropertyForUpdate i c = Inr (found, c)"
      and rest: "(case found of None \<Rightarrow> throw (ValidationError None) | Some property \<Rightarrow>
        (let oldType = pr_type property in
          if oldType = newType then return property
          else if PtRelation \<in> {oldType, newType} \<or> PtRollup \<in> {oldType, newType}
          then throw (ValidationError (Some ''type''))
          else andThen (assertSourceRetypeAllowed (pr_databaseId property) (pr_key property) newType)
            (if \<not> isConversionSupported oldType newType then throw (ValidationError (Some ''type''))
             else bnd (retypePropertyRow i newType MsPending config) (\<lambda>updated.
                  andThen (enqueuePropertyTypeMigration i oldType) (return updated))))) c = Inr (property, c')"
    by (rule bnd_readsOnly_InrE [OF _ readsOnly_propertyGuards(2)])
  from found [unfolded getPropertyForUpdate_def] show ?thesis
  proof (cases rule: firstProperty_InrE)
    case none
    with rest show ?thesis by (simp add: comp_simps)
  next
    case (some old r)
    show ?thesis
    proof (cases "pr_type old = newType")
      case True
      with rest some(1) assms(2) show ?thesis by (simp add: comp_simps)
    next
      case False
      with rest some(1) have types: "pr_type old \<notin> {PtRelation, PtRollup}"
          and run: "andThen (assertSourceRetypeAllowed (pr_databaseId old) (pr_key old) newType)
            (if \<not> isConversionSupported (pr_type old) newType then throw (ValidationError (Some ''type''))
             else bnd (retypePropertyRow i newType MsPending config) (\<lambda>updated.
                  andThen (enqueuePropertyTypeMigration i (pr_type old)) (return updated))) c = Inr (property, c')"
        by (auto simp: comp_simps Let_def split: if_splits)
      from run obtain u where guard: "assertSourceRetypeAllowed (pr_databaseId old) (pr_key old) newType c = Inr (u, c)"
          and "bnd (retypePropertyRow i newType MsPending config) (\<lambda>updated.
                  andThen (enqueuePropertyTypeMigration i (pr_type old)) (return updated)) c = Inr (property, c')"
        by (rule andThen_readsOnly_InrE [OF _ readsOnly_retypeAllowed]) (auto simp: comp_simps split: if_splits)
      then obtain updated c1 where retype: "retypePropertyRow i newType MsPending config c = Inr (updated, c1)"
          and tail: "andThen (enqueuePropertyTypeMigration i (pr_type old)) (return updated) c1 = Inr (property, c')"
        by (elim bnd_InrE)
      from retype [unfolded retypePropertyRow_def Let_def] obtain config1 where
          "updatePropertyReturning i (retypedRow newType MsPending config1) c = Inr (updated, c1)"
        by (elim bnd_readsOnly_InrE [OF _ readsOnly_propertyGuards(4)] andThen_readsOnly_InrE [OF _ readsOnly_propertyGuards(6)]
            bnd_readsOnly_InrE [OF _ readsOnly_ofSum]) (rule that)
      then have "schemaOk but (cl_db c1)"
        by (rule retyped_ok [OF _ assms(2) guard [unfolded mappedProperty(2,3) [OF some(5)]] some(3) some(4)])
          (use types mappedProperty(5) [OF some(5)] in \<open>auto simp: typeName_simps\<close>)
      moreover have enqueue: "keeps (onDb (schemaOk but)) (andThen (enqueuePropertyTypeMigration i (pr_type old)) (return updated))"
        unfolding enqueuePropertyTypeMigration_def by (intro keeps_intros schema.keeps_enqueueJob)
      ultimately show ?thesis by (intro keeps_onDbD [OF enqueue, OF tail])
    qed
  qed
qed

lemma deletePropertyRow_InrE:
  assumes "deletePropertyRow i c = Inr (u, c')"
  obtains r where "r \<in> set (t_properties (cl_db c))" and "rpr_id r = i"
    and "c' = c\<lparr>cl_db := cascadePropertyDelete i (cl_db c)\<rparr>"
proof -
  from assms [unfolded deletePropertyRow_def] obtain property where found: "requireProperty i c = Inr (property, c)"
      and rest: "andThen (assertPropertySchemaMutable property) (statement (cascadePropertyDelete i)) c = Inr (u, c')"
    by (rule bnd_readsOnly_InrE [OF _ readsOnly_propertyGuards(3)])
  from rest have "statement (cascadePropertyDelete i) c = Inr (u, c')"
    by (rule andThen_readsOnly_InrE [OF _ readsOnly_propertyGuards(6)])
  then have "c' = c\<lparr>cl_db := cascadePropertyDelete i (cl_db c)\<rparr>" by (simp add: comp_simps)
  with requireProperty_InrE [OF disjI1, OF found] that show thesis by metis
qed

lemma deletePropertyRow_ok:
  assumes "deletePropertyRow i c = Inr (u, c')" and "schemaOk but (cl_db c)"
    and "\<And>p. p \<in> set (t_properties (cl_db c)) \<Longrightarrow> rpr_id p = i \<Longrightarrow> rpr_type p \<in> {''relation'', ''rollup''} \<or>
      (\<forall>dep \<in> set (t_rollup_dependencies (cl_db c)).
        \<not> (rud_source_database_id dep = rpr_database_id p \<and> rud_source_property_key dep = Some (rpr_key p)))"
  shows "schemaOk but (cl_db c') \<and> set (t_properties (cl_db c')) \<subseteq> set (t_properties (cl_db c))"
  using assms(1)
proof (cases rule: deletePropertyRow_InrE)
  case (1 r)
  from schemaOk_cascade [OF assms(2) 1(1,2) assms(3) [OF 1(1,2)]] 1(3)
  show ?thesis by (auto simp: cascadePropertyDelete_def Let_def)
qed

lemma deletable_none:
  assumes "assertSourceDeletable databaseId key c = Inr (u, c')" and "dep \<in> set (t_rollup_dependencies (cl_db c))"
  shows "\<not> (rud_source_database_id dep = databaseId \<and> rud_source_property_key dep = Some key)"
  using assms
  by (auto simp: assertSourceDeletable_def findDependenciesBySource_def selectDependencies_def comp_simps filter_empty_conv
      split: if_splits)

lemma definitionOf_InrE:
  assumes "getRelationDefinitionByPropertyId i c = Inr (found, c')"
  obtains "c' = c" and "found = None"
  | r reldef where "c' = c" and "found = Some reldef" and "r \<in> set (t_relation_definitions (cl_db c))"
      and "rd_propertyIdA reldef = rrd_property_id_a r" and "rd_propertyIdB reldef = rrd_property_id_b r" and "sideOf i r"
proof (cases "filter (sideOf i) (t_relation_definitions (cl_db c))")
  case Nil
  with assms show thesis
    by (intro that(1)) (auto simp: getRelationDefinitionByPropertyId_def selectDefinitions_def firstDefinition_def comp_simps
        sideOf_def [abs_def])
next
  case (Cons r rs)
  then have "r \<in> set (filter (sideOf i) (t_relation_definitions (cl_db c)))" by simp
  then have "r \<in> set (t_relation_definitions (cl_db c))" "sideOf i r" by simp_all
  with Cons assms show thesis
    by (cases "mapRelationDefinitionRow r")
      (auto simp: getRelationDefinitionByPropertyId_def selectDefinitions_def firstDefinition_def comp_simps
        sideOf_def [abs_def] mapRelationDefinitionRow_def intro: that(2) split: sum.splits)
qed

lemma pairedDelete_ok:
  assumes "deletePairedProperty databaseId other c = Inr (dbs, c')" and "schemaOk but (cl_db c)"
    and "def \<in> set (t_relation_definitions (cl_db c))" and "sideOf other def"
  shows "schemaOk but (cl_db c') \<and> set (t_properties (cl_db c')) \<subseteq> set (t_properties (cl_db c))"
proof -
  from assms(1) [unfolded deletePairedProperty_def] obtain found :: "PropertyRow option" where
      "(if (case found of Some p \<Rightarrow> pr_locked p | None \<Rightarrow> False) then throw (forbidden None)
        else andThen (deletePropertyRow other)
          (return (case found of Some p \<Rightarrow> [databaseId, pr_databaseId p] | None \<Rightarrow> [databaseId]))) c = Inr (dbs, c')"
    by (rule bnd_readsOnly_InrE [OF _ readsOnly_propertyGuards(1)])
  then obtain u where delete: "deletePropertyRow other c = Inr (u, c')"
    by (auto simp: comp_simps elim: andThen_InrE split: if_splits)
  from schemaOk_sides [OF assms(2,3)] assms(4) obtain p where p: "p \<in> set (t_properties (cl_db c))" "rpr_id p = other"
      "rpr_type p = ''relation''" by (auto simp: sidesOk_def)
  show ?thesis
    by (rule deletePropertyRow_ok [OF delete assms(2)]) (use schemaOk_same_row [OF assms(2) _ p(1)] p in auto)
qed

text \<open>The other side of a relation goes first.\<close>

definition deleteOther :: "id \<Rightarrow> id \<Rightarrow> id list op" where
  "deleteOther i databaseId =
     bnd (getRelationDefinitionByPropertyId i) (\<lambda>def.
     case def of
       None \<Rightarrow> return [databaseId]
     | Some reldef \<Rightarrow>
         andThen (assertRelationDeletable (rd_id reldef))
           (let other = (if rd_propertyIdA reldef = i then rd_propertyIdB reldef else Some (rd_propertyIdA reldef)) in
            if truthy other then deletePairedProperty databaseId (the other) else return [databaseId]))"

lemma deleteOther_ok:
  assumes "deleteOther i databaseId c = Inr (dbs, c')" and "schemaOk but (cl_db c)"
  shows "schemaOk but (cl_db c') \<and> set (t_properties (cl_db c')) \<subseteq> set (t_properties (cl_db c))"
proof -
  from assms(1) [unfolded deleteOther_def] obtain found :: "RelationDefinitionRow option"
    where found: "getRelationDefinitionByPropertyId i c = Inr (found, c)" and rest: "(case found of
       None \<Rightarrow> return [databaseId]
     | Some reldef \<Rightarrow>
         andThen (assertRelationDeletable (rd_id reldef))
           (let other = (if rd_propertyIdA reldef = i then rd_propertyIdB reldef else Some (rd_propertyIdA reldef)) in
            if truthy other then deletePairedProperty databaseId (the other) else return [databaseId])) c = Inr (dbs, c')"
    by (rule bnd_readsOnly_InrE [OF _ readsOnly_definitionOf])
  from found show ?thesis
  proof (cases rule: definitionOf_InrE)
    case 1
    with rest assms(2) show ?thesis by (simp add: comp_simps)
  next
    case (2 r reldef)
    define other where "other = (if rd_propertyIdA reldef = i then rd_propertyIdB reldef else Some (rd_propertyIdA reldef))"
    from rest [unfolded 2(2) option.case Let_def, folded other_def]
    have run: "(if truthy other then deletePairedProperty databaseId (the other) else return [databaseId]) c = Inr (dbs, c')"
      by (rule andThen_readsOnly_InrE [OF _ readsOnly_deletable(2)])
    show ?thesis
    proof (cases "truthy other")
      case True
      then have "sideOf (the other) r" using 2 by (auto simp: other_def sideOf_def truthy_def split: if_splits)
      with True run show ?thesis by (intro pairedDelete_ok [OF _ assms(2) 2(3)]) simp_all
    qed (use run assms(2) in \<open>simp add: comp_simps\<close>)
  qed
qed

lemma propertyDelete_ok:
  assumes "propertyDeleteWithClient i acting c = Inr (property, c')" and "schemaOk but (cl_db c)"
  shows "schemaOk but (cl_db c')"
proof -
  from assms(1) [unfolded propertyDeleteWithClient_def, folded deleteOther_def] obtain found :: "PropertyRow option"
    where found: "getProperty i c = Inr (found, c)" and rest: "(case found of
       None \<Rightarrow> throw NotFoundError
     | Some property \<Rightarrow>
         bnd (if pr_type property = PtRelation
              then deleteOther i (pr_databaseId property)
              else andThen (assertSourceDeletable (pr_databaseId property) (pr_key property))
                     (return [pr_databaseId property])) (\<lambda>invalidated.
         andThen (deletePropertyRow i)
        (andThen (announceSchemas invalidated acting) (return property)))) c = Inr (property, c')"
    by (rule bnd_readsOnly_InrE [OF _ readsOnly_propertyGuards(1)])
  from found [unfolded getProperty_def] show ?thesis
  proof (cases rule: firstProperty_InrE)
    case none
    with rest show ?thesis by (simp add: comp_simps)
  next
    case (some held r)
    note same = schemaOk_same_row [OF assms(2) _ some(3)]
    have ty: "rpr_type r = propertyTypeName (pr_type held)" "rpr_database_id r = pr_databaseId held" "rpr_key r = pr_key held"
      using mappedProperty [OF some(5)] by simp_all
    from rest [unfolded some(1) option.case] obtain dbs c1 where
      first: "(if pr_type held = PtRelation
              then deleteOther i (pr_databaseId held)
              else andThen (assertSourceDeletable (pr_databaseId held) (pr_key held))
                     (return [pr_databaseId held])) c = Inr (dbs, c1)"
      and last: "andThen (deletePropertyRow i) (andThen (announceSchemas dbs acting) (return held)) c1 = Inr (property, c')"
      by (rule bnd_InrE)
    from last obtain u c2 where delete: "deletePropertyRow i c1 = Inr (u, c2)"
        and tail: "andThen (announceSchemas dbs acting) (return held) c2 = Inr (property, c')" by (rule andThen_InrE)
    have "schemaOk but (cl_db c2)"
    proof (cases "pr_type held = PtRelation")
      case True
      have "schemaOk but (cl_db c1) \<and> set (t_properties (cl_db c1)) \<subseteq> set (t_properties (cl_db c))"
        by (rule deleteOther_ok [OF _ assms(2)]) (use first True in simp)
      with same some(4) ty True show ?thesis
        by (intro conjunct1 [OF deletePropertyRow_ok [OF delete]]) (auto simp: typeName_simps)
    next
      case False
      with first have guard: "andThen (assertSourceDeletable (pr_databaseId held) (pr_key held)) (return [pr_databaseId held]) c =
        Inr (dbs, c1)" by simp
      then obtain v where v: "assertSourceDeletable (pr_databaseId held) (pr_key held) c = Inr (v, c)" and "c1 = c"
        by (rule andThen_readsOnly_InrE [OF _ readsOnly_deletable(1)]) (simp add: comp_simps)
      from \<open>c1 = c\<close> delete have delete: "deletePropertyRow i c = Inr (u, c2)" by simp
      show ?thesis
      proof (rule conjunct1 [OF deletePropertyRow_ok [OF delete assms(2)]], rule disjI2, rule ballI)
        fix p dep assume "p \<in> set (t_properties (cl_db c))" "rpr_id p = i" "dep \<in> set (t_rollup_dependencies (cl_db c))"
        with same [of p] some(4) have "p = r" by simp
        with deletable_none [OF v \<open>dep \<in> _\<close>] ty(2,3)
        show "\<not> (rud_source_database_id dep = rpr_database_id p \<and> rud_source_property_key dep = Some (rpr_key p))" by simp
      qed
    qed
    moreover have announce: "keeps (onDb (schemaOk but)) (andThen (announceSchemas dbs acting) (return held))"
      unfolding announceSchemas_def by (intro keeps_intros)
    ultimately show ?thesis by (intro keeps_onDbD [OF announce, OF tail])
  qed
qed

section \<open>Creating properties and relations\<close>

lemma updatePropertyConfig_ok:
  assumes "updatePropertyConfigWithClient i config c = Inr (property, c')" and "schemaOk but (cl_db c)"
  shows "schemaOk but (cl_db c')"
proof -
  from assms(1) [unfolded updatePropertyConfigWithClient_def] obtain updated c1 where
      first: "updatePropertyConfigRow i config c = Inr (updated, c1)"
      and rest: "andThen (whenC (pr_type updated = PtRollup) (andThen (applyRollupConfig updated)
         (enqueueRollupBackfill (pr_id updated)))) (return updated) c1 = Inr (property, c')" by (rule bnd_InrE)
  note one = updatePropertyConfigRow_ok [OF first assms(2)]
  show ?thesis
  proof (cases "pr_type updated = PtRollup")
    case True
    with rest obtain u c2 where applied: "applyRollupConfig updated c1 = Inr (u, c2)"
        and "enqueueRollupBackfill (pr_id updated) c2 = Inr ((), c')"
      by (auto simp: comp_simps elim!: andThen_InrE)
    then show ?thesis
      using applyRollupConfig_ok [OF applied] one True keeps_onDbD [OF schema.keeps_rollupEnqueues(2)] by auto
  qed (use rest one in \<open>simp add: comp_simps andThen_def\<close>)
qed

definition relationRow :: "id \<Rightarrow> db \<Rightarrow> bool" where
  "relationRow i d \<longleftrightarrow> (\<exists>p \<in> set (t_properties d). rpr_id p = i \<and> rpr_type p = ''relation'')"

lemma createProperty_relation:
  assumes "createProperty newId input c = Inr (property, c')" and "schemaOk but (cl_db c)" and "cp_type input = PtRelation"
  shows "schemaOk but (cl_db c') \<and> pr_id property = newId \<and> relationRow newId (cl_db c') \<and>
    (\<forall>j. relationRow j (cl_db c) \<longrightarrow> relationRow j (cl_db c'))"
  using createProperty_ok [OF assms(1,2)] assms(1)
  by (auto elim!: createProperty_InrE simp: relationRow_def insertedProperty_def assms(3) typeName_simps)

lemma createRelationDefinition_ok:
  assumes "createRelationDefinition newId a b cardinality c = Inr (reldef, c')" and "schemaOk but (cl_db c)"
    and "relationRow a (cl_db c)" and "\<And>i. b = Some i \<Longrightarrow> relationRow i (cl_db c)"
  shows "schemaOk but (cl_db c') \<and> t_properties (cl_db c') = t_properties (cl_db c)"
proof -
  let ?row = "\<lparr>rrd_id = newId, rrd_property_id_a = a, rrd_property_id_b = b,
    rrd_cardinality = cardinalityName (case cardinality of None \<Rightarrow> ManyToMany | Some x \<Rightarrow> x)\<rparr>"
  from assms(1) have "cl_db c' = (cl_db c)\<lparr>t_relation_definitions := t_relation_definitions (cl_db c) @ [?row]\<rparr>"
    by (auto simp: createRelationDefinition_def Let_def comp_simps andThen_def bnd_def requireSingleRow_def ofSum_def
        split: if_splits sum.splits)
  moreover have "sidesOk (t_properties (cl_db c)) ?row"
    using assms(3,4) by (auto simp: sidesOk_def sideOf_def relationRow_def)
  ultimately show ?thesis using schemaOk_addDefinition [OF assms(2)] by simp
qed

lemma updateRelation_ok:
  assumes "updatePropertyConfigRow i config c = Inr (property, c')" and "schemaOk but (cl_db c)" and "relationRow i (cl_db c)"
  shows "schemaOk but (cl_db c') \<and> (\<forall>j. relationRow j (cl_db c) \<longrightarrow> relationRow j (cl_db c'))"
proof -
  note one = updatePropertyConfigRow_ok [OF assms(1,2)]
  from assms(1) obtain property0 where
      "updatePropertyReturning i (\<lambda>r. r\<lparr>rpr_config := config\<rparr>) c = Inr (property, c')"
    unfolding updatePropertyConfigRow_def
    by (elim bnd_readsOnly_InrE [OF _ readsOnly_propertyGuards(4)] andThen_readsOnly_InrE [OF _ readsOnly_propertyGuards(6)]
        bnd_readsOnly_InrE [OF _ readsOnly_ofSum])
  then show ?thesis
  proof (cases rule: updateReturning_InrE)
    case (1 r)
    from assms(3) obtain p where "p \<in> set (t_properties (cl_db c))" "rpr_id p = i" "rpr_type p = ''relation''"
      by (auto simp: relationRow_def)
    with schemaOk_same_row [OF assms(2) 1(1)] 1(2) have "rpr_type r = ''relation''" by auto
    with mappedProperty(5) [OF 1(3)] have "propertyTypeName (pr_type property) = ''relation''" by simp
    then have "pr_type property = PtRelation" by (simp add: typeName_simps)
    with one have "schemaOk but (cl_db c')" by simp
    moreover have "relationRow j (cl_db c')" if "relationRow j (cl_db c)" for j
    proof -
      from that obtain p where "p \<in> set (t_properties (cl_db c))" "rpr_id p = j" "rpr_type p = ''relation''"
        by (auto simp: relationRow_def)
      then show ?thesis
        unfolding relationRow_def 1(4) by (intro bexI [of _ "if rpr_id p = i then p\<lparr>rpr_config := config\<rparr> else p"]) auto
    qed
    ultimately show ?thesis by blast
  qed
qed

lemma keeps_lockSide: "keeps (onDb (schemaOk but)) (lockSide locked property)"
  unfolding lockSide_def by (intro keeps_intros keeps_lock)

text \<open>What follows the two property rows: the definition, the configurations, the locks.\<close>

definition relationTail :: "id \<Rightarrow> CreateRelationPropertyInput \<Rightarrow> PropertyRow \<Rightarrow> PropertyRow option \<Rightarrow>
    (PropertyRow \<times> PropertyRow option) op" where
  "relationTail idDef input property other =
     bnd (createRelationDefinition idDef (pr_id property) (map_option pr_id other) (crp_cardinality input)) (\<lambda>reldef.
     bnd (updatePropertyConfigRow (pr_id property) (relationConfig (rd_id reldef) (crp_targetDatabaseId input)))
       (\<lambda>finalProperty.
     bnd (case other of None \<Rightarrow> return None
          | Some p \<Rightarrow> bnd (updatePropertyConfigRow (pr_id p)
                (relationConfig (rd_id reldef) (crp_sourceDatabaseId input))) (\<lambda>p'. return (Some p')))
       (\<lambda>finalInverse.
     bnd (lockSide (crp_locked input) finalProperty) (\<lambda>resultProperty.
     bnd (case finalInverse of None \<Rightarrow> return None
          | Some p \<Rightarrow> bnd (lockSide (case crp_inverse input of None \<Rightarrow> None | Some paired \<Rightarrow> rsi_locked paired) p)
              (\<lambda>p'. return (Some p'))) (\<lambda>resultInverse.
     return (resultProperty, resultInverse))))))"

lemma relationTail_ok:
  assumes "relationTail idDef input property other c = Inr (result, c')" and "schemaOk but (cl_db c)"
    and "relationRow (pr_id property) (cl_db c)" and "\<And>p. other = Some p \<Longrightarrow> relationRow (pr_id p) (cl_db c)"
  shows "schemaOk but (cl_db c')"
proof -
  from assms(1) [unfolded relationTail_def] obtain reldef c1 finalProperty c2 finalInverse c3 where
      made: "createRelationDefinition idDef (pr_id property) (map_option pr_id other) (crp_cardinality input) c = Inr (reldef, c1)"
      and own: "updatePropertyConfigRow (pr_id property) (relationConfig (rd_id reldef) (crp_targetDatabaseId input)) c1 =
        Inr (finalProperty, c2)"
      and paired: "(case other of None \<Rightarrow> return None
          | Some p \<Rightarrow> bnd (updatePropertyConfigRow (pr_id p)
                (relationConfig (rd_id reldef) (crp_sourceDatabaseId input))) (\<lambda>p'. return (Some p'))) c2 = Inr (finalInverse, c3)"
      and locks: "bnd (lockSide (crp_locked input) finalProperty) (\<lambda>resultProperty.
     bnd (case finalInverse of None \<Rightarrow> return None
          | Some p \<Rightarrow> bnd (lockSide (case crp_inverse input of None \<Rightarrow> None | Some paired \<Rightarrow> rsi_locked paired) p)
              (\<lambda>p'. return (Some p'))) (\<lambda>resultInverse.
     return (resultProperty, resultInverse))) c3 = Inr (result, c')"
    by - (erule bnd_InrE, erule bnd_InrE, erule bnd_InrE, rule that)
  from createRelationDefinition_ok [OF made assms(2,3)] assms(4)
  have one: "schemaOk but (cl_db c1)" "t_properties (cl_db c1) = t_properties (cl_db c)" by auto
  have "relationRow (pr_id property) (cl_db c1)" using assms(3) one(2) by (simp add: relationRow_def)
  note two = updateRelation_ok [OF own one(1) this]
  have "schemaOk but (cl_db c3)"
  proof (cases other)
    case None
    with paired two show ?thesis by (simp add: comp_simps)
  next
    case (Some p)
    with paired obtain p' where upd: "updatePropertyConfigRow (pr_id p)
        (relationConfig (rd_id reldef) (crp_sourceDatabaseId input)) c2 = Inr (p', c3)"
      by (auto simp: comp_simps elim!: bnd_InrE)
    have "relationRow (pr_id p) (cl_db c1)" using assms(4) [OF Some] one(2) by (simp add: relationRow_def)
    with two updateRelation_ok [OF upd] show ?thesis by blast
  qed
  moreover have keep: "keeps (onDb (schemaOk but)) (bnd (lockSide (crp_locked input) finalProperty) (\<lambda>resultProperty.
     bnd (case finalInverse of None \<Rightarrow> return None
          | Some p \<Rightarrow> bnd (lockSide (case crp_inverse input of None \<Rightarrow> None | Some paired \<Rightarrow> rsi_locked paired) p)
              (\<lambda>p'. return (Some p'))) (\<lambda>resultInverse.
     return (resultProperty, resultInverse))))"
    by (intro keeps_intros keeps_lockSide)
  ultimately show ?thesis by (intro keeps_onDbD [OF keep, OF locks])
qed

lemma createRelationProperty_ok:
  assumes "createRelationPropertyWithClient idA idB idDef input context registry c = Inr (result, c')" and "schemaOk but (cl_db c)"
  shows "schemaOk but (cl_db c')"
proof -
  let ?pair = "crp_inverse input"
  have reads: "readsOnly (case ?pair of None \<Rightarrow> return () | Some paired \<Rightarrow> ofSum (assertNoComputedKeyCollision registry (rsi_key paired)))"
    "readsOnly (assertSide own ownerProcess context field)"
    "readsOnly (case ?pair of None \<Rightarrow> return () | Some paired \<Rightarrow> assertSide (rsi_owner paired) (rsi_ownerProcess paired) context ''inverse'')"
    for own ownerProcess field
    by (auto simp: assertSide_def Let_def intro!: reads_intros)
  from assms(1) [unfolded createRelationPropertyWithClient_def, folded relationTail_def]
  obtain target :: "DatabaseRow option" where
      "(case target of
         None \<Rightarrow> throw (ValidationError (Some ''targetDatabaseId''))
       | Some _ \<Rightarrow>
           bnd (createProperty idA (relationSide (crp_sourceDatabaseId input) (crp_key input) (crp_name input)
                (crp_owner input) (crp_ownerProcess input))) (\<lambda>property.
           bnd (case ?pair of None \<Rightarrow> return None
              | Some paired \<Rightarrow>
                  bnd (createProperty idB (relationSide (crp_targetDatabaseId input) (rsi_key paired)
                         (rsi_name paired) (rsi_owner paired) (rsi_ownerProcess paired))) (\<lambda>p.
                  return (Some p))) (\<lambda>other.
           relationTail idDef input property other))) c = Inr (result, c')"
    by (elim andThen_readsOnly_InrE [OF _ readsOnly_ofSum] andThen_readsOnly_InrE [OF _ reads(1)]
        andThen_readsOnly_InrE [OF _ reads(2)] andThen_readsOnly_InrE [OF _ reads(3)]
        bnd_readsOnly_InrE [OF _ readsOnly_databases(1)]) (rule that)
  then obtain property other c1 c2 where
      first: "createProperty idA (relationSide (crp_sourceDatabaseId input) (crp_key input) (crp_name input)
                (crp_owner input) (crp_ownerProcess input)) c = Inr (property, c1)"
      and second: "(case ?pair of None \<Rightarrow> return None
              | Some paired \<Rightarrow>
                  bnd (createProperty idB (relationSide (crp_targetDatabaseId input) (rsi_key paired)
                         (rsi_name paired) (rsi_owner paired) (rsi_ownerProcess paired))) (\<lambda>p.
                  return (Some p))) c1 = Inr (other, c2)"
      and tail: "relationTail idDef input property other c2 = Inr (result, c')"
    by (cases target) (auto simp: comp_simps elim!: bnd_InrE)
  from createProperty_relation [OF first assms(2)]
  have one: "schemaOk but (cl_db c1)" "relationRow (pr_id property) (cl_db c1)" by (simp_all add: relationSide_def)
  have "schemaOk but (cl_db c2) \<and> relationRow (pr_id property) (cl_db c2) \<and>
      (\<forall>p. other = Some p \<longrightarrow> relationRow (pr_id p) (cl_db c2))"
  proof (cases ?pair)
    case None
    with second one show ?thesis by (simp add: comp_simps)
  next
    case (Some paired)
    with second obtain p where "createProperty idB (relationSide (crp_targetDatabaseId input) (rsi_key paired)
        (rsi_name paired) (rsi_owner paired) (rsi_ownerProcess paired)) c1 = Inr (p, c2)" and "other = Some p"
      by (auto simp: comp_simps elim!: bnd_InrE)
    with createProperty_relation [OF this(1) one(1)] one(2) show ?thesis by (simp add: relationSide_def)
  qed
  then show ?thesis by (intro relationTail_ok [OF tail]) auto
qed

lemma createPropertyTx_ok:
  assumes "createPropertyTx registry newId input acting c = Inr (property, c')" and "schemaOk but (cl_db c)"
  shows "schemaOk but (cl_db c')"
proof (cases "cp_type input = PtRollup")
  case False
  with assms(1) obtain c1 where made: "createProperty newId input c = Inr (property, c1)"
      and "cl_db c' = cl_db c1"
    unfolding createPropertyTx_def announceProperty_def
    by (elim andThen_readsOnly_InrE [OF _ readsOnly_ofSum]) (auto simp: comp_simps runAfterCommit_def elim!: bnd_InrE andThen_InrE)
  with createProperty_ok [OF made assms(2)] show ?thesis by simp
next
  case True
  from assms(1) True obtain held c1 u c2 v c3 where made: "createProperty newId input c = Inr (held, c1)"
      and applied: "applyRollupConfig held c1 = Inr (u, c2)" and enqueued: "enqueueRollupBackfill (pr_id held) c2 = Inr (v, c3)"
      and "cl_db c' = cl_db c3"
    unfolding createPropertyTx_def announceProperty_def
    by (elim andThen_readsOnly_InrE [OF _ readsOnly_ofSum])
      (auto simp: comp_simps runAfterCommit_def elim!: bnd_InrE andThen_InrE dest!: readsOnlyD [OF readsOnly_propertyGuards(1)]
        split: option.splits)
  note one = createProperty_ok [OF made assms(2)]
  then have "schemaOk (insert (pr_id held) but) (cl_db c1)" by (auto intro: schemaOk_mono)
  then have "schemaOk but (cl_db c2)" by (rule applyRollupConfig_ok [OF applied]) (use one True in simp_all)
  then have "schemaOk but (cl_db c3)" by (rule keeps_onDbD [OF schema.keeps_rollupEnqueues(2), OF enqueued])
  with \<open>cl_db c' = cl_db c3\<close> show ?thesis by simp
qed

lemma updateProperty_ok:
  assumes "updatePropertyWithClient i input c = Inr (result, c')" and "schemaOk but (cl_db c)"
  shows "schemaOk but (cl_db c')"
proof -
  from assms(1) [unfolded updatePropertyWithClient_def] obtain held :: PropertyRow where
    "bnd (case up_name input of None \<Rightarrow> return held | Some name \<Rightarrow> renamePropertyRow i name) (\<lambda>property.
       if up_type input \<noteq> None \<and> up_type input \<noteq> Some (pr_type property)
       then bnd (changePropertyTypeWithClient i (the (up_type input)) (up_config input)) (\<lambda>updated. return (updated, True))
       else (case up_config input of
               None \<Rightarrow> return (property, False)
             | Some config \<Rightarrow> bnd (updatePropertyConfigWithClient i config) (\<lambda>updated. return (updated, False)))) c = Inr (result, c')"
    by (elim bnd_readsOnly_InrE [OF _ readsOnly_propertyGuards(2)]) (auto simp: comp_simps split: option.splits if_splits)
  then obtain property c1 where
      first: "(case up_name input of None \<Rightarrow> return held | Some name \<Rightarrow> renamePropertyRow i name) c = Inr (property, c1)"
      and rest: "(if up_type input \<noteq> None \<and> up_type input \<noteq> Some (pr_type property)
       then bnd (changePropertyTypeWithClient i (the (up_type input)) (up_config input)) (\<lambda>updated. return (updated, True))
       else (case up_config input of
               None \<Rightarrow> return (property, False)
             | Some config \<Rightarrow> bnd (updatePropertyConfigWithClient i config) (\<lambda>updated. return (updated, False)))) c1 = Inr (result, c')"
    by (rule bnd_InrE)
  have keep: "keeps (onDb (schemaOk but)) (case up_name input of None \<Rightarrow> return held | Some name \<Rightarrow> renamePropertyRow i name)"
    by (intro keeps_intros keeps_rename)
  from keeps_onDbD [OF keep, OF first assms(2)] have one: "schemaOk but (cl_db c1)" .
  from rest consider "c' = c1" | updated ty config where "changePropertyTypeWithClient i ty config c1 = Inr (updated, c')"
    | updated config where "updatePropertyConfigWithClient i config c1 = Inr (updated, c')"
    by (auto simp: comp_simps elim!: bnd_InrE split: if_splits option.splits)
  then show ?thesis using one by cases (auto dest: changePropertyType_ok updatePropertyConfig_ok)
qed

lemma dropDatabase_ok:
  assumes "dropDatabaseWithPartition databaseId c = Inr (u, c')" and "schemaOk but (cl_db c)"
  shows "schemaOk but (cl_db c')"
proof (rule schemaOk_remove [OF assms(2)])
  let ?d = "cl_db c"
  let ?gone = "map rpr_id (filter (\<lambda>p. rpr_database_id p = databaseId) (t_properties ?d))"
  let ?goneDef = "\<lambda>r. rrd_property_id_a r \<in> set ?gone \<or> (case rrd_property_id_b r of None \<Rightarrow> False | Some b \<Rightarrow> b \<in> set ?gone)"
  let ?defs = "map rrd_id (filter ?goneDef (t_relation_definitions ?d))"
  from assms(1) obtain d1 where db: "cl_db c' = cascadeDatabaseDelete databaseId d1"
      and d1: "t_properties d1 = t_properties ?d" "t_relation_definitions d1 = t_relation_definitions ?d"
        "t_rollup_dependencies d1 = filter (\<lambda>r. rud_source_database_id r \<noteq> databaseId) (t_rollup_dependencies ?d)"
    by (auto simp: dropDatabaseWithPartition_def deleteRollupDependenciesBySourceDatabase_def dropItemsPartition_def
        andThen_def bnd_def comp_simps requireAffectedRows_def split: if_splits)
  show "t_properties (cl_db c') = filter (\<lambda>p. rpr_database_id p \<noteq> databaseId) (t_properties ?d)"
    "t_relation_definitions (cl_db c') = filter (\<lambda>r. \<not> ?goneDef r) (t_relation_definitions ?d)"
    by (simp_all add: db cascadeDatabaseDelete_def Let_def d1 del: set_map)
  show "t_rollup_dependencies (cl_db c') = filter (\<lambda>r. rud_source_database_id r \<noteq> databaseId \<and>
        rud_rollup_property_id r \<notin> set ?gone \<and> rud_relation_definition_id r \<notin> set ?defs) (t_rollup_dependencies ?d)"
    by (simp add: db cascadeDatabaseDelete_def Let_def d1 conj_ac del: set_map)
  show "rpr_database_id p \<noteq> databaseId" if "\<not> ?goneDef def" "sideOf i def" "p \<in> set (t_properties ?d)" "rpr_id p = i" for def i p
    using that by (auto simp: sideOf_def)
  show "rpr_database_id p \<noteq> databaseId" if "rud_source_database_id dep \<noteq> databaseId \<and>
      rud_rollup_property_id dep \<notin> set ?gone \<and> rud_relation_definition_id dep \<notin> set ?defs" "p \<in> set (t_properties ?d)"
      "rpr_id p = rud_rollup_property_id dep" for dep p
  proof
    assume "rpr_database_id p = databaseId"
    with that(2) have "rpr_id p \<in> set ?gone" by simp
    with that(1,3) show False by simp
  qed
qed auto

end
