(* ===== verification/SchemaProps.thy ===== *)
theory SchemaProps
  imports SchemaInvariant
begin

text \<open>
  What a rollup depends on stays there: the invariant over every sequence of transactions.
\<close>

section \<open>Every change of the schema\<close>

definition discard :: "'a op \<Rightarrow> unit op" where
  "discard m = bnd m (\<lambda>_. return ())"

text \<open>
  The transactions that change the schema, and any other one: it leaves the three tables alone.
\<close>

inductive schemaTx :: "unit op \<Rightarrow> bool" where
  create: "schemaTx (discard (createPropertyTx registry newId input acting))"
| createRelation: "schemaTx (discard (createRelationPropertyTx idA idB idDef relation registry acting))"
| rename: "schemaTx (discard (renamePropertyTx propertyId name acting))"
| updateConfig: "schemaTx (discard (updatePropertyConfigTx propertyId config acting))"
| changeType: "schemaTx (discard (changePropertyTypeTx propertyId newType acting))"
| update: "schemaTx (discard (updatePropertyTx propertyId patch acting))"
| updateWithDatabase: "schemaTx (discard (updatePropertyWithDatabaseTx propertyId patch acting))"
| delete: "schemaTx (discard (deletePropertyTx propertyId acting))"
| lock: "schemaTx (setPropertyLocked propertyId locked)"
| status: "schemaTx (setPropertyMigrationStatus propertyId status)"
| dropped: "schemaTx (markPropertyMigrationDroppedValues propertyId)"
| settle: "schemaTx (settlePropertyMigrationStatus propertyId)"
| drop: "schemaTx (dropDatabaseWithPartition databaseId)"
| elsewhere: "(\<And>c x c'. fn c = Inr (x, c') \<Longrightarrow> t_properties (cl_db c') = t_properties (cl_db c) \<and>
    t_relation_definitions (cl_db c') = t_relation_definitions (cl_db c) \<and>
    t_rollup_dependencies (cl_db c') = t_rollup_dependencies (cl_db c)) \<Longrightarrow> schemaTx fn"

lemma keeps_onDbI:
  assumes "\<And>c x c'. m c = Inr (x, c') \<Longrightarrow> P (cl_db c) \<Longrightarrow> P (cl_db c')"
  shows "keeps (onDb P) m"
  using assms by (auto simp: keeps_def onDb_def)

lemma keeps_discard: "keeps I m \<Longrightarrow> keeps I (discard m)"
  unfolding discard_def by (intro keeps_intros)

lemma keeps_announced: "keeps (onDb P) m \<Longrightarrow> keeps (onDb P) (announceProperty acting m)"
  unfolding announceProperty_def by (intro keeps_intros)

lemma keeps_schemaOps:
  "keeps (onDb (schemaOk but)) (createPropertyTx registry newId input acting)"
  "keeps (onDb (schemaOk but)) (createRelationPropertyWithClient idA idB idDef relation context registry)"
  "keeps (onDb (schemaOk but)) (updatePropertyConfigWithClient i config)"
  "keeps (onDb (schemaOk but)) (changePropertyTypeWithClient i ty changed)"
  "keeps (onDb (schemaOk but)) (updatePropertyWithClient i patch)"
  "keeps (onDb (schemaOk but)) (propertyDeleteWithClient i acting)"
  "keeps (onDb (schemaOk but)) (dropDatabaseWithPartition databaseId)"
  by (rule keeps_onDbI, erule createPropertyTx_ok createRelationProperty_ok updatePropertyConfig_ok changePropertyType_ok
      updateProperty_ok propertyDelete_ok dropDatabase_ok, assumption)+

lemma schemaTx_keeps:
  assumes "schemaTx fn"
  shows "keeps (onDb (schemaOk but)) fn"
  using assms
proof cases
  case elsewhere
  then show ?thesis by (intro keeps_onDbI) (auto simp: schemaOk_def)
qed (auto simp: renamePropertyTx_def updatePropertyConfigTx_def changePropertyTypeTx_def updatePropertyTx_def
    updatePropertyWithDatabaseTx_def deletePropertyTx_def createRelationPropertyTx_def announceSchemas_def
    setPropertyMigrationStatus_def markPropertyMigrationDroppedValues_def settlePropertyMigrationStatus_def
    intro!: keeps_discard keeps_announced keeps_schemaOps keeps_rename keeps_lock keeps_updateProperties keeps_intros
      readsOnly_keeps [OF readsOnly_databases(1)])

lemma runAll_keeps:
  assumes "\<And>env fn. (env, fn) \<in> set txs \<Longrightarrow> keeps (onDb P) fn" and "P (w_db w)"
  shows "P (w_db (runAll p txs w))"
  using assms by (induction p txs w rule: runAll.induct) (auto intro: withTransaction_keeps)

text \<open>
  C8: start from a tenant without properties and run any sequence of
  transactions, each creating, renaming, reconfiguring, retyping or deleting a property, creating a
  relation with or without an inverse side, dropping a database, or changing something else. Every
  row of \<open>rollup_dependencies\<close> then names a rollup property that is still a rollup and whose
  configuration parses, a relation definition that exists, and, when the aggregation reads a property,
  a property of the source database with that key whose type the aggregation can read. A transaction
  that would break this is refused, whatever order the others came in.
\<close>

theorem rollup_sources_exist:
  assumes "\<And>env fn. (env, fn) \<in> set txs \<Longrightarrow> schemaTx fn"
    and "t_properties (w_db w) = []" and "t_relation_definitions (w_db w) = []" and "t_rollup_dependencies (w_db w) = []"
    and "d = w_db (runAll deliverable txs w)" and "dep \<in> set (t_rollup_dependencies d)"
  shows "dependencyOk (t_properties d) dep \<and> rud_relation_definition_id dep \<in> rrd_id ` set (t_relation_definitions d)"
proof -
  have "schemaOk {} (w_db w)" using assms(2-4) by (simp add: schemaOk_def)
  then have ok: "schemaOk {} d"
    unfolding assms(5) by (rule runAll_keeps [where P = "schemaOk {}", rotated]) (rule schemaTx_keeps [OF assms(1)])
  have "dependencyOk (t_properties d) dep" by (rule schemaOk_dependency [OF ok assms(6)]) simp
  moreover obtain def where "def \<in> set (t_relation_definitions d)" "rud_relation_definition_id dep = rrd_id def"
    by (rule schemaOk_definition [OF ok assms(6)])
  ultimately show ?thesis by simp
qed

section \<open>An instance\<close>

text \<open>A relation, the number it leads to, a rollup over it, and the refused deletion of the number.\<close>

definition schemaWorld :: world where
  "schemaWorld = \<lparr>w_db = emptyDb\<lparr>t_databases := [exampleDatabase ''d1'' None, exampleDatabase ''d2'' None]\<rparr>,
     w_parked = [], w_notified = []\<rparr>"

definition schemaInput :: "string \<Rightarrow> string \<Rightarrow> PropertyType \<Rightarrow> obj option \<Rightarrow> CreatePropertyInput" where
  "schemaInput databaseId key ty config =
     \<lparr>cp_databaseId = databaseId, cp_key = key, cp_name = Some key, cp_type = ty, cp_config = config, cp_locked = None,
      cp_owner = None, cp_ownerProcess = None\<rparr>"

definition schemaTxs :: "(txenv \<times> unit op) list" where
  "schemaTxs =
     [(exampleTx, discard (createRelationPropertyTx ''p1'' ''p2'' ''f1''
         \<lparr>crp_sourceDatabaseId = ''d1'', crp_key = ''links'', crp_name = Some ''Links'', crp_targetDatabaseId = ''d2'',
          crp_cardinality = None, crp_owner = None, crp_ownerProcess = None, crp_locked = None, crp_inverse = None\<rparr> [] None)),
      (exampleTx, discard (createPropertyTx [] ''p3'' (schemaInput ''d2'' ''size'' PtNumber None) None)),
      (exampleTx, discard (createPropertyTx [] ''p4'' (schemaInput ''d1'' ''total'' PtRollup
         (Some [(''relationPropertyKey'', JStr ''links''), (''aggregation'', JStr ''sum''), (''targetPropertyKey'', JStr ''size'')]))
         None)),
      (exampleTx, discard (deletePropertyTx ''p3'' None))]"

lemma schemaTxs_run:
  "t_rollup_dependencies (w_db (runAll (\<lambda>_. True) schemaTxs schemaWorld)) =
     [\<lparr>rud_rollup_property_id = ''p4'', rud_relation_definition_id = ''f1'', rud_source_database_id = ''d2'',
       rud_source_property_key = Some ''size''\<rparr>]"
  "map rpr_id (t_properties (w_db (runAll (\<lambda>_. True) schemaTxs schemaWorld))) = [''p1'', ''p3'', ''p4'']"
  by code_simp+

theorem rollup_sources_exist_witness:
  "dependencyOk (t_properties (w_db (runAll (\<lambda>_. True) schemaTxs schemaWorld)))
     \<lparr>rud_rollup_property_id = ''p4'', rud_relation_definition_id = ''f1'', rud_source_database_id = ''d2'',
      rud_source_property_key = Some ''size''\<rparr> \<and>
   map rpr_id (t_properties (w_db (runAll (\<lambda>_. True) schemaTxs schemaWorld))) = [''p1'', ''p3'', ''p4'']"
proof -
  have "schemaTx fn" if "(env, fn) \<in> set schemaTxs" for env fn
    using that by (auto simp: schemaTxs_def intro: schemaTx.intros)
  from rollup_sources_exist [OF this _ _ _ refl, where w = schemaWorld and deliverable = "\<lambda>_. True" and txs = schemaTxs]
  show ?thesis using schemaTxs_run by (simp add: schemaWorld_def emptyDb_def)
qed

end
