(* ===== verification/PropertyMigration.thy ===== *)
theory PropertyMigration
  imports PropertyWrites
begin

text \<open>
  The job that converts every item's value after a property was retyped
  (\<open>migrationJob/propertyTypeMigration.ts\<close>, \<open>itemBatch.ts\<close>) and the item writes it makes
  (\<open>chokePoint/itemMigrationWrites.ts\<close>). JavaScript's number and date texts are the parameter
  \<open>js\<close>: \<open>Number(s)\<close> where it is finite, \<open>String(n)\<close>, \<open>Date.parse(s)\<close> where it is not
  \<open>NaN\<close>, and \<open>toISOString\<close> of a time value. Characters are below 256. A run may die between two of its transactions: it is given
  the environments of the batches it lives to run.
\<close>

record jsText =
  js_number :: "string \<Rightarrow> rat option"
  js_numberText :: "rat \<Rightarrow> string"
  js_dateParse :: "string \<Rightarrow> int option"
  js_isoText :: "int \<Rightarrow> string"

section \<open>The converters\<close>

fun dropDigits :: "nat \<Rightarrow> string \<Rightarrow> string option" where
  "dropDigits 0 s = Some s"
| "dropDigits (Suc n) [] = None"
| "dropDigits (Suc n) (c # s) = (if isDigit c then dropDigits n s else None)"

fun dropLit :: "char \<Rightarrow> string \<Rightarrow> string option" where
  "dropLit x [] = None"
| "dropLit x (c # s) = (if c = x then Some s else None)"

definition andDigits :: "char \<Rightarrow> nat \<Rightarrow> string \<Rightarrow> string option" where
  "andDigits x n s = Option.bind (dropLit x s) (dropDigits n)"

definition isoDay :: "string \<Rightarrow> string option" where
  "isoDay s = Option.bind (dropDigits 4 s) (\<lambda>s. Option.bind (andDigits CHR ''-'' 2 s) (andDigits CHR ''-'' 2))"

definition isoOffset :: "string \<Rightarrow> bool" where
  "isoOffset s \<longleftrightarrow> s = ''Z'' \<or>
     (\<exists>sign \<in> {CHR ''+'', CHR ''-''}. Option.bind (andDigits sign 2 s) (andDigits CHR '':'' 2) = Some [])"

text \<open>\<open>^\d{4}-\d{2}-\d{2}(T\d{2}:\d{2}(:\d{2}(\.\d{1,3})?)?(Z|[+-]\d{2}:\d{2}))?$\<close>\<close>

definition ISO_8601_DATE :: "string \<Rightarrow> bool" where
  "ISO_8601_DATE s =
     (case isoDay s of
        None \<Rightarrow> False
      | Some rest \<Rightarrow> rest = [] \<or>
          (case Option.bind (andDigits CHR ''T'' 2 rest) (andDigits CHR '':'' 2) of
             None \<Rightarrow> False
           | Some r1 \<Rightarrow> isoOffset r1 \<or>
               (case andDigits CHR '':'' 2 r1 of
                  None \<Rightarrow> False
                | Some r2 \<Rightarrow> isoOffset r2 \<or>
                    (\<exists>n \<in> {1, 2, 3}. case andDigits CHR ''.'' n r2 of None \<Rightarrow> False | Some r3 \<Rightarrow> isoOffset r3))))"

text \<open>\<open>^\d{4}-\d{2}-\d{2}T\d{2}:\d{2}:\d{2}\.\d{3}Z$\<close>\<close>

definition CONVERTED_DATE_SHAPE :: "string \<Rightarrow> bool" where
  "CONVERTED_DATE_SHAPE s \<longleftrightarrow>
     Option.bind (isoDay s) (\<lambda>r. Option.bind (andDigits CHR ''T'' 2 r) (\<lambda>r.
     Option.bind (andDigits CHR '':'' 2 r) (\<lambda>r. Option.bind (andDigits CHR '':'' 2 r) (andDigits CHR ''.'' 3)))) =
     Some ''Z''"

text \<open>\<open>value.trim() === ""\<close>: the white space and line ends of the language.\<close>

definition jsBlank :: "string \<Rightarrow> bool" where
  "jsBlank s \<longleftrightarrow> list_all (\<lambda>c. (of_char c :: nat) \<in> {9, 10, 11, 12, 13, 32, 160}) s"

text \<open>The value of a conversion; \<open>None\<close> is \<open>ok: false\<close>.\<close>

definition textToNumber :: "jsText \<Rightarrow> json \<Rightarrow> json option" where
  "textToNumber js v =
     (case v of JStr s \<Rightarrow> if jsBlank s then None else map_option JNum (js_number js s) | _ \<Rightarrow> None)"

definition textToDate :: "jsText \<Rightarrow> json \<Rightarrow> json option" where
  "textToDate js v =
     (case v of
        JStr s \<Rightarrow> if \<not> ISO_8601_DATE s then None else map_option (\<lambda>t. JStr (js_isoText js t)) (js_dateParse js s)
      | _ \<Rightarrow> None)"

definition numberToText :: "jsText \<Rightarrow> json \<Rightarrow> json option" where
  "numberToText js v = (case v of JNum n \<Rightarrow> Some (JStr (js_numberText js n)) | _ \<Rightarrow> None)"

definition dateToText :: "jsText \<Rightarrow> json \<Rightarrow> json option" where
  "dateToText js v = (case v of JStr s \<Rightarrow> Some (JStr s) | _ \<Rightarrow> None)"

definition CONVERTERS :: "((PropertyType \<times> PropertyType) \<times> (jsText \<Rightarrow> json \<Rightarrow> json option)) list" where
  "CONVERTERS =
     [((PtText, PtNumber), textToNumber), ((PtText, PtDate), textToDate),
      ((PtNumber, PtText), numberToText), ((PtDate, PtText), dateToText)]"

definition convertPropertyValue :: "jsText \<Rightarrow> PropertyType \<Rightarrow> PropertyType \<Rightarrow> json \<Rightarrow> json option" where
  "convertPropertyValue js from to v =
     (if from = to then Some v
      else case map_of CONVERTERS (from, to) of None \<Rightarrow> None | Some converter \<Rightarrow> converter js v)"

definition isAlreadyTargetType :: "PropertyType \<Rightarrow> json \<Rightarrow> bool" where
  "isAlreadyTargetType ty v =
     (case ty of
        PtNumber \<Rightarrow> (case v of JNum _ \<Rightarrow> True | _ \<Rightarrow> False)
      | PtText \<Rightarrow> (case v of JStr _ \<Rightarrow> True | _ \<Rightarrow> False)
      | PtDate \<Rightarrow> (case v of JStr s \<Rightarrow> CONVERTED_DATE_SHAPE s | _ \<Rightarrow> False)
      | _ \<Rightarrow> False)"

section \<open>Item writes of a migration\<close>

definition lockItemBatch :: "id \<Rightarrow> id option \<Rightarrow> nat \<Rightarrow> ItemDbRow list op" where
  "lockItemBatch databaseId afterId pageSize =
     bnd (selectItems (\<lambda>r. rit_database_id r = databaseId \<and>
            (case afterId of None \<Rightarrow> True | Some a \<Rightarrow> rit_id r > a))) (\<lambda>rows.
     return (take pageSize (sort_key rit_id rows)))"

datatype propertyChange = SetValue json | RemoveValue

definition changedProperties :: "string \<Rightarrow> propertyChange \<Rightarrow> obj \<Rightarrow> obj" where
  "changedProperties key change properties =
     (case change of
        SetValue v \<Rightarrow> setProp key v properties
      | RemoveValue \<Rightarrow> filter (\<lambda>(k, _). k \<noteq> key) properties)"

text \<open>A JSON value always has a text, so the first check of the source cannot fail here.\<close>

definition migrateItemPropertyWithClient :: "id \<Rightarrow> id \<Rightarrow> string \<Rightarrow> propertyChange \<Rightarrow> unit op" where
  "migrateItemPropertyWithClient databaseId itemId key change =
     bnd (gets cl_now) (\<lambda>now.
     bnd (updateItemsReturning (isItem databaseId itemId)
            (\<lambda>r. r\<lparr>rit_properties := changedProperties key change (rit_properties r), rit_updated_at := now\<rparr>)) (\<lambda>rows.
     bnd (requireAffectedRows (length rows) ''property type migration'') (\<lambda>_. return ())))"

section \<open>The job\<close>

definition migrateItem :: "jsText \<Rightarrow> PropertyRow \<Rightarrow> PropertyType \<Rightarrow> ItemDbRow \<Rightarrow> unit op" where
  "migrateItem js property fromType row =
     (case map_of (rit_properties row) (pr_key property) of
        None \<Rightarrow> return ()
      | Some oldValue \<Rightarrow>
          if fromType \<noteq> pr_type property \<and> isAlreadyTargetType (pr_type property) oldValue then return ()
          else (case convertPropertyValue js fromType (pr_type property) oldValue of
                  Some v \<Rightarrow>
                    migrateItemPropertyWithClient (pr_databaseId property) (rit_id row) (pr_key property) (SetValue v)
                | None \<Rightarrow>
                    andThen (markPropertyMigrationDroppedValues (pr_id property))
                      (migrateItemPropertyWithClient (pr_databaseId property) (rit_id row) (pr_key property) RemoveValue)))"

definition migrationBatch ::
  "jsText \<Rightarrow> PropertyRow \<Rightarrow> PropertyType \<Rightarrow> nat \<Rightarrow> id option \<Rightarrow> ItemDbRow list op" where
  "migrationBatch js property fromType pageSize cursor =
     bnd (lockItemBatch (pr_databaseId property) cursor pageSize) (\<lambda>batch.
     andThen (forEach batch (migrateItem js property fromType)) (return batch))"

text \<open>The loop: \<open>Inr True\<close> when it ended, \<open>Inr False\<close> when the process died before.\<close>

fun migratePages ::
  "(InvalidationEvent \<Rightarrow> bool) \<Rightarrow> jsText \<Rightarrow> PropertyRow \<Rightarrow> PropertyType \<Rightarrow> nat \<Rightarrow> txenv list \<Rightarrow> id option \<Rightarrow>
   world \<Rightarrow> (error + bool) \<times> world" where
  "migratePages p js property fromType pageSize [] cursor w = (Inr False, w)"
| "migratePages p js property fromType pageSize (env # envs) cursor w =
     (case withTransaction env p (migrationBatch js property fromType pageSize cursor) w of
        (Inl err, w') \<Rightarrow> (Inl err, w')
      | (Inr rows, w') \<Rightarrow>
          if rows = [] \<or> length rows < pageSize then (Inr True, w')
          else migratePages p js property fromType pageSize envs (Some (rit_id (last rows))) w')"

definition MIGRATION_PAGE_SIZE :: nat where
  "MIGRATION_PAGE_SIZE = 500"

text \<open>
  Statements on a client outside a transaction commit one by one; the environment of each is an
  argument. \<open>None\<close> is a property deleted since the job was enqueued.
\<close>

record migrationEnv =
  me_deliverable :: "InvalidationEvent \<Rightarrow> bool"
  me_bootstrap :: txenv
  me_batches :: "txenv list"
  me_settle :: txenv
  me_enqueue :: txenv

definition startMigration :: "id \<Rightarrow> PropertyRow option op" where
  "startMigration propertyId =
     bnd (getProperty propertyId) (\<lambda>found.
     case found of
       None \<Rightarrow> return None
     | Some property \<Rightarrow>
         andThen (setPropertyMigrationStatus propertyId MsRunning) (return (Some property)))"

definition backfillDependents :: "PropertyRow \<Rightarrow> unit op" where
  "backfillDependents property =
     bnd (findDependenciesBySource (pr_databaseId property) (pr_key property)) (\<lambda>dependents.
     forEach dependents (\<lambda>dependency. enqueueRollupBackfill (rdp_rollupPropertyId dependency)))"

definition runPropertyTypeMigrationJob ::
  "migrationEnv \<Rightarrow> jsText \<Rightarrow> id \<Rightarrow> PropertyType \<Rightarrow> world \<Rightarrow> (error + bool) \<times> world" where
  "runPropertyTypeMigrationJob me js propertyId fromType w =
     (case withTransaction (me_bootstrap me) (me_deliverable me) (startMigration propertyId) w of
        (Inl err, w1) \<Rightarrow> (Inl err, w1)
      | (Inr None, w1) \<Rightarrow> (Inr True, w1)
      | (Inr (Some property), w1) \<Rightarrow>
          (case migratePages (me_deliverable me) js property fromType MIGRATION_PAGE_SIZE (me_batches me) None w1 of
             (Inl err, w2) \<Rightarrow> (Inl err, w2)
           | (Inr False, w2) \<Rightarrow> (Inr False, w2)
           | (Inr True, w2) \<Rightarrow>
               (case withTransaction (me_settle me) (me_deliverable me) (settlePropertyMigrationStatus propertyId) w2 of
                  (Inl err, w3) \<Rightarrow> (Inl err, w3)
                | (Inr _, w3) \<Rightarrow>
                    (case withTransaction (me_enqueue me) (me_deliverable me) (backfillDependents property) w3 of
                       (Inl err, w4) \<Rightarrow> (Inl err, w4) | (Inr _, w4) \<Rightarrow> (Inr True, w4)))))"

definition handlePropertyTypeMigrationTask ::
  "migrationEnv \<Rightarrow> txenv \<Rightarrow> jsText \<Rightarrow> id \<Rightarrow> PropertyType \<Rightarrow> bool \<Rightarrow> world \<Rightarrow> (error + bool) \<times> world" where
  "handlePropertyTypeMigrationTask me settleEnv js propertyId fromType isFinalAttempt w =
     (case runPropertyTypeMigrationJob me js propertyId fromType w of
        (Inr done, w1) \<Rightarrow> (Inr done, w1)
      | (Inl err, w1) \<Rightarrow>
          (Inl err,
           if isFinalAttempt
           then snd (withTransaction settleEnv (me_deliverable me)
             (andThen (markPropertyMigrationDroppedValues propertyId) (settlePropertyMigrationStatus propertyId)) w1)
           else w1))"

end
