(* ===== verification/MigrationEnds.thy ===== *)
theory MigrationEnds
  imports PropertyMigration StoreFacts "HOL-Library.Multiset"
begin

text \<open>
  A run of the type migration whose transactions commit comes to its end: no step of it throws, and
  one batch per page of items, with one more for the short page, is enough.
\<close>

section \<open>One transaction\<close>

definition itemKeys :: "db \<Rightarrow> (id \<times> id) list" where
  "itemKeys d = map (\<lambda>r. (rit_database_id r, rit_id r)) (t_items d)"

lemma commits_Inr:
  assumes "willCommit env"
    and "\<And>scope. enforceTenantScope (tx_scope env) (tx_mode env) = Inr scope \<Longrightarrow>
      \<exists>c. fn (beginTx env scope w) = Inr (x, c) \<and> Q (cl_db c)"
  shows "\<exists>w'. withTransaction env p fn w = (Inr x, w') \<and> Q (w_db w')"
proof -
  from assms(1) obtain scope where scope: "enforceTenantScope (tx_scope env) (tx_mode env) = Inr scope"
    by (cases "enforceTenantScope (tx_scope env) (tx_mode env)") (auto simp: willCommit_def)
  with assms(2) obtain c where "fn (beginTx env scope w) = Inr (x, c)" "Q (cl_db c)" by blast
  with scope assms(1) show ?thesis by (auto simp: withTransaction_def willCommit_def)
qed

lemma migrateItem_ends:
  assumes "(pr_databaseId property, rit_id x) \<in> set (itemKeys (cl_db c))"
  shows "\<exists>c'. migrateItem js property from x c = Inr ((), c') \<and> itemKeys (cl_db c') = itemKeys (cl_db c)"
proof -
  from assms have found: "filter (isItem (pr_databaseId property) (rit_id x)) (t_items (cl_db c)) \<noteq> []"
    by (auto simp: itemKeys_def isItem_def filter_empty_conv)
  have keys: "itemKeys (d\<lparr>t_items := map (\<lambda>r. if P r then r\<lparr>rit_properties := f r, rit_updated_at := now\<rparr> else r) (t_items d)\<rparr>) =
      itemKeys d" for d P f now
    by (simp add: itemKeys_def)
  have wrote: "\<exists>c'. migrateItemPropertyWithClient (pr_databaseId property) (rit_id x) (pr_key property) change c0 = Inr ((), c') \<and>
      itemKeys (cl_db c') = itemKeys (cl_db c0)" if "t_items (cl_db c0) = t_items (cl_db c)" for change c0
    using found that keys
    by (simp add: migrateItemPropertyWithClient_def updateItemsReturning_def requireAffectedRows_def comp_simps andThen_def bnd_def
        itemKeys_def)
  show ?thesis
    using wrote [of c] wrote [of "c\<lparr>cl_db := (cl_db c)\<lparr>t_properties := ps\<rparr>\<rparr>" for ps]
    by (auto simp: migrateItem_def markPropertyMigrationDroppedValues_def updateProperties_def comp_simps andThen_def bnd_def
        itemKeys_def split: option.split)
qed

lemma migrateItems_end:
  "\<forall>x \<in> set rows. (pr_databaseId property, rit_id x) \<in> set (itemKeys (cl_db c)) \<Longrightarrow>
   \<exists>c'. forEach rows (migrateItem js property from) c = Inr ((), c') \<and> itemKeys (cl_db c') = itemKeys (cl_db c)"
proof (induction rows arbitrary: c)
  case (Cons x rows)
  then obtain c1 where x: "migrateItem js property from x c = Inr ((), c1)" "itemKeys (cl_db c1) = itemKeys (cl_db c)"
    using migrateItem_ends [of property x c js "from"] by auto
  from Cons.IH [of c1] Cons.prems x(2)
  obtain c2 where "forEach rows (migrateItem js property from) c1 = Inr ((), c2)" "itemKeys (cl_db c2) = itemKeys (cl_db c1)"
    by auto
  with x show ?case by (simp add: andThen_def bnd_def)
qed (simp add: comp_simps)

definition pageRows :: "id \<Rightarrow> id option \<Rightarrow> nat \<Rightarrow> db \<Rightarrow> ItemDbRow list" where
  "pageRows databaseId cursor n d = take n (sort_key rit_id (filter (\<lambda>r. rit_database_id r = databaseId \<and>
     (case cursor of None \<Rightarrow> True | Some a \<Rightarrow> rit_id r > a)) (t_items d)))"

lemma migrationBatch_ends:
  "\<exists>c'. migrationBatch js property from n cursor c = Inr (pageRows (pr_databaseId property) cursor n (cl_db c), c') \<and>
     itemKeys (cl_db c') = itemKeys (cl_db c)"
proof -
  have "\<forall>x \<in> set (pageRows (pr_databaseId property) cursor n (cl_db c)). (pr_databaseId property, rit_id x) \<in> set (itemKeys (cl_db c))"
    by (force simp: pageRows_def itemKeys_def dest: in_set_takeD)
  from migrateItems_end [OF this, of js "from"] show ?thesis
    by (auto simp: migrationBatch_def lockItemBatch_def selectItems_def pageRows_def comp_simps andThen_def bnd_def)
qed

section \<open>The pages\<close>

definition itemsLeft :: "id \<Rightarrow> id option \<Rightarrow> db \<Rightarrow> nat" where
  "itemsLeft databaseId cursor d = length (filter (\<lambda>(a, i). a = databaseId \<and>
     (case cursor of None \<Rightarrow> True | Some a \<Rightarrow> i > a)) (itemKeys d))"

lemma take_upTo_last:
  assumes "sorted (map f xs)" and "x \<in> set (take n xs)"
  shows "f x \<le> f (last (take n xs))"
proof -
  from assms(1) have "sorted (map f (take n xs))" by (simp add: take_map [symmetric] sorted_wrt_take)
  moreover from assms(2) have "take n xs = butlast (take n xs) @ [last (take n xs)]" by (metis append_butlast_last_id empty_iff empty_set)
  ultimately have "\<forall>y \<in> set (butlast (take n xs)). f y \<le> f (last (take n xs))"
    by (metis (no_types, lifting) list.set_intros(1) map_append set_map sorted_append image_eqI list.map(2))
  moreover from \<open>take n xs = _\<close> assms(2) have "x \<in> set (butlast (take n xs)) \<or> x = last (take n xs)"
    by (metis Un_iff empty_iff insert_iff list.set(1,2) set_append)
  ultimately show ?thesis by auto
qed

lemma itemsLeft_next:
  assumes "length (pageRows databaseId cursor n d) = n" and "0 < n"
  shows "itemsLeft databaseId (Some (rit_id (last (pageRows databaseId cursor n d)))) d + n \<le> itemsLeft databaseId cursor d"
proof -
  let ?P = "\<lambda>r. rit_database_id r = databaseId \<and> (case cursor of None \<Rightarrow> True | Some a \<Rightarrow> rit_id r > a)"
  let ?S = "sort_key rit_id (filter ?P (t_items d))"
  let ?last = "rit_id (last (take n ?S))"
  have page: "pageRows databaseId cursor n d = take n ?S" by (simp add: pageRows_def)
  have nonempty: "take n ?S \<noteq> []"
  proof
    assume "take n ?S = []"
    with assms page show False by simp
  qed
  have "last (take n ?S) \<in> set ?S" by (rule in_set_takeD [OF last_in_set [OF nonempty]])
  then have after: "case cursor of None \<Rightarrow> True | Some a \<Rightarrow> ?last > a" by simp
  have "itemsLeft databaseId (Some ?last) d = length (filter (\<lambda>r. rit_id r > ?last) (filter ?P (t_items d)))"
    unfolding itemsLeft_def itemKeys_def filter_map length_map comp_def filter_filter
    by (rule arg_cong [where f = length], rule filter_cong) (use after in \<open>auto split: option.splits\<close>)
  also have "\<dots> = length (filter (\<lambda>r. rit_id r > ?last) ?S)"
    by (simp only: size_mset [symmetric] mset_filter mset_sort)
  also have "\<dots> = length (filter (\<lambda>r. rit_id r > ?last) (take n ?S @ drop n ?S))" by simp
  also have "filter (\<lambda>r. rit_id r > ?last) (take n ?S) = []"
    using take_upTo_last [of rit_id ?S _ n] by (auto simp: filter_empty_conv not_less)
  then have "length (filter (\<lambda>r. rit_id r > ?last) (take n ?S @ drop n ?S)) \<le> length (drop n ?S)"
    by (simp only: filter_append append_Nil length_filter_le)
  finally have "itemsLeft databaseId (Some ?last) d + n \<le> length ?S" using assms(1) page by simp
  also have "length ?S = itemsLeft databaseId cursor d"
    by (simp add: itemsLeft_def itemKeys_def filter_map comp_def)
  finally show ?thesis by (simp add: page)
qed

lemma migratePages_end:
  assumes "0 < n" and "\<forall>env \<in> set envs. willCommit env" and "itemsLeft (pr_databaseId property) cursor (w_db w) < n * length envs"
  shows "\<exists>w'. migratePages p js property from n envs cursor w = (Inr True, w')"
  using assms(2,3)
proof (induction envs arbitrary: cursor w)
  case (Cons env envs)
  let ?rows = "pageRows (pr_databaseId property) cursor n (w_db w)"
  from Cons.prems(1) have "willCommit env" by simp
  then have "\<exists>w'. withTransaction env p (migrationBatch js property from n cursor) w = (Inr ?rows, w') \<and>
      itemKeys (w_db w') = itemKeys (w_db w)"
  proof (rule commits_Inr)
    fix scope
    show "\<exists>c. migrationBatch js property from n cursor (beginTx env scope w) = Inr (?rows, c) \<and> itemKeys (cl_db c) = itemKeys (w_db w)"
      using migrationBatch_ends [of js property "from" n cursor "beginTx env scope w"] by (simp add: beginTx_def)
  qed
  then obtain w1 where tx: "withTransaction env p (migrationBatch js property from n cursor) w = (Inr ?rows, w1)"
      and keys: "itemKeys (w_db w1) = itemKeys (w_db w)" by blast
  show ?case
  proof (cases "?rows = [] \<or> length ?rows < n")
    case True
    with tx show ?thesis by simp
  next
    case False
    then have full: "length ?rows = n" by (auto simp: pageRows_def)
    have "itemsLeft (pr_databaseId property) (Some (rit_id (last ?rows))) (w_db w1) =
        itemsLeft (pr_databaseId property) (Some (rit_id (last ?rows))) (w_db w)"
      by (simp add: itemsLeft_def keys)
    with itemsLeft_next [OF full assms(1)] Cons.prems(2)
    have "itemsLeft (pr_databaseId property) (Some (rit_id (last ?rows))) (w_db w1) < n * length envs" by simp
    with Cons.IH [of "Some (rit_id (last ?rows))" w1] Cons.prems(1) tx False show ?thesis by simp
  qed
qed simp

section \<open>The whole job\<close>

text \<open>A client whose scope lets jobs be enqueued: every one a transaction was let in with.\<close>

definition scopeOk :: "client \<Rightarrow> bool" where
  "scopeOk c \<longleftrightarrow> cl_scope c \<noteq> None \<or> \<not> isl (enforceTenantScope None (cl_mode c))"

lemma scopeOk_begin:
  "enforceTenantScope (tx_scope env) (tx_mode env) = Inr scope \<Longrightarrow> scopeOk (beginTx env scope w)"
  by (cases "tx_scope env") (auto simp: scopeOk_def beginTx_def enforceTenantScope_def split: option.splits if_splits)

lemma enqueueJob_ends:
  assumes "scopeOk c"
  shows "\<exists>c'. enqueueJob ident payload jobKey attempts queue c = Inr ((), c') \<and> scopeOk c'"
  using assms
  by (cases "cl_scope c"; cases "enforceTenantScope None (cl_mode c)")
    (auto simp: enqueueJob_def enqueueJobMode_def scopeOk_def comp_simps)

lemma backfills_end:
  "scopeOk c \<Longrightarrow> \<exists>c'. forEach ds (\<lambda>d. enqueueRollupBackfill (f d)) c = Inr ((), c')"
proof (induction ds arbitrary: c)
  case (Cons d ds)
  obtain c1 where "enqueueRollupBackfill (f d) c = Inr ((), c1)" "scopeOk c1"
    using enqueueJob_ends [OF Cons.prems] unfolding enqueueRollupBackfill_def by (simp add: comp_simps) blast
  with Cons.IH [of c1] show ?case by (simp add: andThen_def bnd_def)
qed (simp add: comp_simps)

lemma backfillDependents_ends: "scopeOk c \<Longrightarrow> \<exists>c'. backfillDependents property c = Inr ((), c')"
  using backfills_end [of c "map mapDependencyRow _" rdp_rollupPropertyId]
  by (auto simp: backfillDependents_def findDependenciesBySource_def selectDependencies_def comp_simps)

definition readable :: "id \<Rightarrow> db \<Rightarrow> bool" where
  "readable propertyId d \<longleftrightarrow> (\<exists>r \<in> set (t_properties d). rpr_id r = propertyId) \<and>
     (\<forall>r \<in> set (t_properties d). rpr_id r = propertyId \<longrightarrow> \<not> isl (mapPropertyRow r))"

lemma startMigration_ends:
  assumes "readable propertyId d"
  obtains property where "\<And>c. cl_db c = d \<Longrightarrow>
    \<exists>c'. startMigration propertyId c = Inr (Some property, c') \<and> itemKeys (cl_db c') = itemKeys d"
proof (cases "filter (\<lambda>r. rpr_id r = propertyId) (t_properties d)")
  case Nil
  with assms show thesis by (auto simp: readable_def filter_empty_conv)
next
  case (Cons r rs)
  then have "r \<in> set (filter (\<lambda>r. rpr_id r = propertyId) (t_properties d))" by simp
  with assms obtain property where "mapPropertyRow r = Inr property"
    by (cases "mapPropertyRow r") (auto simp: readable_def)
  with Cons show thesis
    by (intro that [of property]) (auto simp: startMigration_def getProperty_def selectProperties_def firstProperty_def
        setPropertyMigrationStatus_def updateProperties_def comp_simps andThen_def bnd_def itemKeys_def)
qed

definition willCommitAll :: "migrationEnv \<Rightarrow> bool" where
  "willCommitAll me \<longleftrightarrow> (\<forall>env \<in> {me_bootstrap me, me_settle me, me_enqueue me} \<union> set (me_batches me). willCommit env)"

lemma job_ends:
  assumes "readable propertyId (w_db w)" and "willCommitAll me"
    and "length (t_items (w_db w)) < MIGRATION_PAGE_SIZE * length (me_batches me)"
  shows "\<exists>w'. runPropertyTypeMigrationJob me js propertyId from w = (Inr True, w')"
proof -
  note commits = assms(2) [unfolded willCommitAll_def]
  obtain property where start: "\<And>c. cl_db c = w_db w \<Longrightarrow>
      \<exists>c'. startMigration propertyId c = Inr (Some property, c') \<and> itemKeys (cl_db c') = itemKeys (w_db w)"
    by (rule startMigration_ends [OF assms(1)]) blast
  have "\<exists>w1. withTransaction (me_bootstrap me) (me_deliverable me) (startMigration propertyId) w = (Inr (Some property), w1) \<and>
      itemKeys (w_db w1) = itemKeys (w_db w)"
    by (rule commits_Inr) (use commits in simp, rule start, simp add: beginTx_def)
  then obtain w1 where w1: "withTransaction (me_bootstrap me) (me_deliverable me) (startMigration propertyId) w = (Inr (Some property), w1)"
      and keys: "itemKeys (w_db w1) = itemKeys (w_db w)" by blast
  have "itemsLeft (pr_databaseId property) None (w_db w1) \<le> length (t_items (w_db w))"
    unfolding itemsLeft_def keys by (rule order_trans [OF length_filter_le]) (simp add: itemKeys_def)
  with assms(3) obtain w2 where w2: "migratePages (me_deliverable me) js property from MIGRATION_PAGE_SIZE (me_batches me) None w1 =
      (Inr True, w2)"
    using migratePages_end [of MIGRATION_PAGE_SIZE "me_batches me" property None w1] commits
    by (fastforce simp: MIGRATION_PAGE_SIZE_def)
  have "\<exists>w3. withTransaction (me_settle me) (me_deliverable me) (settlePropertyMigrationStatus propertyId) w2 = (Inr (), w3) \<and> True"
    by (rule commits_Inr) (use commits in \<open>auto simp: settlePropertyMigrationStatus_def updateProperties_def comp_simps\<close>)
  then obtain w3 where w3: "withTransaction (me_settle me) (me_deliverable me) (settlePropertyMigrationStatus propertyId) w2 = (Inr (), w3)"
    by blast
  have "\<exists>w4. withTransaction (me_enqueue me) (me_deliverable me) (backfillDependents property) w3 = (Inr (), w4) \<and> True"
    by (rule commits_Inr) (use commits backfillDependents_ends scopeOk_begin in auto)
  then show ?thesis using w1 w2 w3 by (auto simp: runPropertyTypeMigrationJob_def)
qed

end
