(* ===== verification/MigrationProps.thy ===== *)
theory MigrationProps
  imports MigrationEnds
begin

text \<open>
  A type migration converts every item once, however often its run dies and is retried.
\<close>

section \<open>One item\<close>

definition migrated :: "jsText \<Rightarrow> PropertyType \<Rightarrow> PropertyType \<Rightarrow> string \<Rightarrow> obj \<Rightarrow> obj" where
  "migrated js from to key properties =
     (case map_of properties key of
        None \<Rightarrow> properties
      | Some v \<Rightarrow>
          if from \<noteq> to \<and> isAlreadyTargetType to v then properties
          else (case convertPropertyValue js from to v of
                  Some v' \<Rightarrow> changedProperties key (SetValue v') properties
                | None \<Rightarrow> changedProperties key RemoveValue properties))"

definition dropsValue :: "jsText \<Rightarrow> PropertyType \<Rightarrow> PropertyType \<Rightarrow> string \<Rightarrow> obj \<Rightarrow> bool" where
  "dropsValue js from to key properties \<longleftrightarrow>
     (case map_of properties key of
        None \<Rightarrow> False
      | Some v \<Rightarrow> \<not> (from \<noteq> to \<and> isAlreadyTargetType to v) \<and> convertPropertyValue js from to v = None)"

text \<open>What a conversion of this value gives is recognised as converted.\<close>

definition recognised :: "jsText \<Rightarrow> PropertyType \<Rightarrow> PropertyType \<Rightarrow> string \<Rightarrow> obj \<Rightarrow> bool" where
  "recognised js from to key properties \<longleftrightarrow>
     (case map_of properties key of
        None \<Rightarrow> True
      | Some v \<Rightarrow> (case convertPropertyValue js from to v of
            None \<Rightarrow> True | Some v' \<Rightarrow> from = to \<or> isAlreadyTargetType to v'))"

lemma map_of_removed: "map_of (filter (\<lambda>(k, _). k \<noteq> key) m) key = None"
  by (auto simp: map_of_eq_None_iff)

lemma setProp_same: "map_of m key = Some v \<Longrightarrow> setProp key v m = m"
  by (induction m) (auto simp: setProp_def)

lemma migrated_again:
  assumes "recognised js from to key properties"
  shows "migrated js from to key (migrated js from to key properties) = migrated js from to key properties"
    and "\<not> dropsValue js from to key (migrated js from to key properties)"
  using assms
  by (auto simp: migrated_def dropsValue_def recognised_def changedProperties_def convertPropertyValue_def map_of_removed
      setProp_same split: option.splits if_splits)

section \<open>How far a migration is\<close>

text \<open>
  The tables after the items \<open>done\<close> of database \<open>databaseId\<close> were converted: their properties, and
  the flag of the property. The time stamps of items and the status of the property are free.
\<close>

definition itemView :: "ItemDbRow \<Rightarrow> id \<times> id \<times> obj" where
  "itemView r = (rit_database_id r, rit_id r, rit_properties r)"

definition propertyView :: "PropertyDbRow \<Rightarrow> PropertyDbRow" where
  "propertyView r = r\<lparr>rpr_migration_status := ''''\<rparr>"

definition convertedView ::
  "jsText \<Rightarrow> PropertyDbRow \<Rightarrow> PropertyType \<Rightarrow> PropertyType \<Rightarrow> id set \<Rightarrow> ItemDbRow \<Rightarrow> id \<times> id \<times> obj" where
  "convertedView js row from to ids r =
     (rit_database_id r, rit_id r,
      if rit_database_id r = rpr_database_id row \<and> rit_id r \<in> ids
      then migrated js from to (rpr_key row) (rit_properties r) else rit_properties r)"

definition droppedSome ::
  "jsText \<Rightarrow> PropertyDbRow \<Rightarrow> PropertyType \<Rightarrow> PropertyType \<Rightarrow> id set \<Rightarrow> ItemDbRow list \<Rightarrow> bool" where
  "droppedSome js row from to ids items \<longleftrightarrow>
     (\<exists>r \<in> set items. rit_database_id r = rpr_database_id row \<and> rit_id r \<in> ids \<and>
        dropsValue js from to (rpr_key row) (rit_properties r))"

definition progress ::
  "jsText \<Rightarrow> PropertyDbRow \<Rightarrow> PropertyType \<Rightarrow> PropertyType \<Rightarrow> db \<Rightarrow> id set \<Rightarrow> db \<Rightarrow> bool" where
  "progress js row from to d0 ids d \<longleftrightarrow>
     map itemView (t_items d) = map (convertedView js row from to ids) (t_items d0) \<and>
     map propertyView (t_properties d) = map (\<lambda>r. if rpr_id r = rpr_id row
        then propertyView r\<lparr>rpr_migration_dropped_values :=
               rpr_migration_dropped_values r \<or> droppedSome js row from to ids (t_items d0)\<rparr>
        else propertyView r) (t_properties d0)"

text \<open>What a migration starts from.\<close>

definition migratable :: "jsText \<Rightarrow> PropertyDbRow \<Rightarrow> PropertyType \<Rightarrow> PropertyType \<Rightarrow> db \<Rightarrow> bool" where
  "migratable js row from to d \<longleftrightarrow>
     distinct (map (\<lambda>r. (rit_database_id r, rit_id r)) (t_items d)) \<and>
     distinct (map rpr_id (t_properties d)) \<and> row \<in> set (t_properties d) \<and>
     map_of PROPERTY_TYPES (rpr_type row) = Some to \<and>
     (\<forall>r \<in> set (t_items d). rit_database_id r = rpr_database_id row \<longrightarrow>
        recognised js from to (rpr_key row) (rit_properties r))"

lemma progress_start: "progress js row from to d {} d"
  by (simp add: progress_def convertedView_def itemView_def droppedSome_def propertyView_def)

lemma progress_keys:
  assumes "progress js row from to d0 ids d"
  shows "map (\<lambda>r. (rit_database_id r, rit_id r)) (t_items d) = map (\<lambda>r. (rit_database_id r, rit_id r)) (t_items d0)"
  using arg_cong [OF conjunct1 [OF assms [unfolded progress_def]], of "map (\<lambda>(a, b, c). (a, b))"]
  by (simp add: comp_def itemView_def convertedView_def)

text \<open>The item a current row is of.\<close>

lemma progress_item:
  assumes "progress js row from to d0 ids d" and "x \<in> set (t_items d)"
  obtains x0 where "x0 \<in> set (t_items d0)" and "itemView x = convertedView js row from to ids x0"
proof -
  from assms(2) have "itemView x \<in> set (map itemView (t_items d))" by simp
  then have "itemView x \<in> set (map (convertedView js row from to ids) (t_items d0))"
    using assms(1) by (simp only: progress_def)
  then show thesis using that by auto
qed

definition isPropertyOf :: "PropertyDbRow \<Rightarrow> PropertyType \<Rightarrow> PropertyRow \<Rightarrow> bool" where
  "isPropertyOf row to property \<longleftrightarrow> pr_id property = rpr_id row \<and> pr_databaseId property = rpr_database_id row \<and>
     pr_key property = rpr_key row \<and> pr_type property = to"

lemma migrateItem_cases:
  assumes "migrateItem js property from x c = Inr (u, c')" and "isPropertyOf row to property"
  obtains (kept) "c' = c" and "migrated js from to (rpr_key row) (rit_properties x) = rit_properties x"
      and "\<not> dropsValue js from to (rpr_key row) (rit_properties x)"
  | (written) change now where
      "migrated js from to (rpr_key row) (rit_properties x) = changedProperties (rpr_key row) change (rit_properties x)"
      and "t_items (cl_db c') = map (\<lambda>r. if isItem (rpr_database_id row) (rit_id x) r
        then r\<lparr>rit_properties := changedProperties (rpr_key row) change (rit_properties r), rit_updated_at := now\<rparr> else r)
          (t_items (cl_db c))"
      and "t_properties (cl_db c') = map (\<lambda>r. if rpr_id r = rpr_id row \<and> dropsValue js from to (rpr_key row) (rit_properties x)
        then r\<lparr>rpr_migration_dropped_values := True\<rparr> else r) (t_properties (cl_db c))"
proof -
  note unfold = migrateItem_def migrateItemPropertyWithClient_def updateItemsReturning_def requireAffectedRows_def
    markPropertyMigrationDroppedValues_def updateProperties_def comp_simps andThen_def bnd_def
  note f = assms [unfolded isPropertyOf_def]
  consider (none) "map_of (rit_properties x) (rpr_key row) = None"
    | (already) v where "map_of (rit_properties x) (rpr_key row) = Some v" "from \<noteq> to" "isAlreadyTargetType to v"
    | (converts) v v' where "map_of (rit_properties x) (rpr_key row) = Some v" "\<not> (from \<noteq> to \<and> isAlreadyTargetType to v)"
        "convertPropertyValue js from to v = Some v'"
    | (drops) v where "map_of (rit_properties x) (rpr_key row) = Some v" "\<not> (from \<noteq> to \<and> isAlreadyTargetType to v)"
        "convertPropertyValue js from to v = None"
    by (cases "map_of (rit_properties x) (rpr_key row)") auto
  then show thesis
  proof cases
    case none
    with f show thesis by (intro kept) (auto simp: unfold migrated_def dropsValue_def)
  next
    case already
    with f show thesis by (intro kept) (auto simp: unfold migrated_def dropsValue_def)
  next
    case converts
    with f show thesis
      by (intro written [of "SetValue v'" "cl_now c"]) (auto simp: unfold migrated_def dropsValue_def split: if_splits)
  next
    case drops
    with f show thesis
      by (intro written [of RemoveValue "cl_now c"]) (auto simp: unfold migrated_def dropsValue_def split: if_splits)
  qed
qed

lemma migrateItem_effect:
  assumes "migrateItem js property from x c = Inr (u, c')" and "isPropertyOf row to property"
    and "\<forall>r \<in> set (t_items (cl_db c)). isItem (rpr_database_id row) (rit_id x) r \<longrightarrow> r = x"
  shows "map itemView (t_items (cl_db c')) = map (\<lambda>r. if isItem (rpr_database_id row) (rit_id x) r
      then (rit_database_id r, rit_id r, migrated js from to (rpr_key row) (rit_properties r)) else itemView r) (t_items (cl_db c)) \<and>
    map propertyView (t_properties (cl_db c')) =
      map (\<lambda>r. if rpr_id r = rpr_id row \<and> dropsValue js from to (rpr_key row) (rit_properties x)
        then propertyView r\<lparr>rpr_migration_dropped_values := True\<rparr> else propertyView r) (t_properties (cl_db c)) \<and>
    (\<forall>y \<in> set (t_items (cl_db c)). \<not> isItem (rpr_database_id row) (rit_id x) y \<longrightarrow> y \<in> set (t_items (cl_db c')))"
    (is "?items \<and> ?properties \<and> ?others")
  using assms(1,2)
proof (cases rule: migrateItem_cases)
  case kept
  with assms(3) have ?items by (auto simp: itemView_def)
  moreover from kept have ?properties ?others by simp_all
  ultimately show ?thesis by simp
next
  case (written change now)
  with assms(3) have ?items by (auto simp: itemView_def)
  moreover from written(3) have ?properties by (auto simp: propertyView_def)
  moreover from written(2) have ?others by (auto simp: image_iff)
  ultimately show ?thesis by simp
qed

lemma item_unique:
  assumes "distinct (map (\<lambda>r. (rit_database_id r, rit_id r)) items)" and "x \<in> set items" and "y \<in> set items"
    and "rit_database_id y = rit_database_id x" and "rit_id y = rit_id x"
  shows "y = x"
  using assms by (auto simp: distinct_map inj_on_def)

text \<open>One more item converted: first what the views say, then the invariant.\<close>

lemma converted_one_more:
  assumes "map itemView items = map (convertedView js row from to ids) items0"
    and "\<forall>r \<in> set items0. rit_database_id r = rpr_database_id row \<longrightarrow> recognised js from to (rpr_key row) (rit_properties r)"
    and "map itemView items' = map (\<lambda>r. if isItem (rpr_database_id row) i r
      then (rit_database_id r, rit_id r, migrated js from to (rpr_key row) (rit_properties r)) else itemView r) items"
  shows "map itemView items' = map (convertedView js row from to (insert i ids)) items0"
proof -
  let ?h = "\<lambda>(a, b, q). (a, b, if a = rpr_database_id row \<and> b = i then migrated js from to (rpr_key row) q else q)"
  have "map itemView items' = map ?h (map itemView items)"
    using assms(3) by (auto simp: itemView_def isItem_def)
  also have "\<dots> = map ?h (map (convertedView js row from to ids) items0)" by (simp only: assms(1))
  also have "\<dots> = map (convertedView js row from to (insert i ids)) items0"
    using assms(2) migrated_again(1) by (auto simp: convertedView_def)
  finally show ?thesis .
qed

lemma dropped_one_more:
  assumes "migratable js row from to d0" and "x0 \<in> set (t_items d0)" and "rit_database_id x0 = rpr_database_id row"
    and "itemView x = convertedView js row from to ids x0"
  shows "droppedSome js row from to (insert (rit_id x0) ids) (t_items d0) \<longleftrightarrow>
      droppedSome js row from to ids (t_items d0) \<or> dropsValue js from to (rpr_key row) (rit_properties x)"
proof (cases "rit_id x0 \<in> ids")
  case True
  have "recognised js from to (rpr_key row) (rit_properties x0)" using assms(1-3) by (simp add: migratable_def)
  moreover from True have "insert (rit_id x0) ids = ids" by auto
  ultimately show ?thesis
    using True assms(3,4) migrated_again(2) by (auto simp: itemView_def convertedView_def)
next
  case False
  with assms(4) have "rit_properties x = rit_properties x0" by (simp add: itemView_def convertedView_def)
  moreover have "r = x0" if "r \<in> set (t_items d0)" "rit_database_id r = rpr_database_id row" "rit_id r = rit_id x0" for r
    using item_unique [of "t_items d0" x0 r] assms(1-3) that by (simp add: migratable_def)
  ultimately show ?thesis using assms(2,3) by (auto simp: droppedSome_def)
qed

lemma flagged_one_more:
  assumes "map propertyView ps = map (\<lambda>r. if rpr_id r = i
      then propertyView r\<lparr>rpr_migration_dropped_values := rpr_migration_dropped_values r \<or> b\<rparr> else propertyView r) ps0"
    and "map propertyView ps' = map (\<lambda>r. if rpr_id r = i \<and> b1
      then propertyView r\<lparr>rpr_migration_dropped_values := True\<rparr> else propertyView r) ps"
    and "b' = (b \<or> b1)"
  shows "map propertyView ps' = map (\<lambda>r. if rpr_id r = i
      then propertyView r\<lparr>rpr_migration_dropped_values := rpr_migration_dropped_values r \<or> b'\<rparr> else propertyView r) ps0"
proof -
  let ?g = "\<lambda>r. if rpr_id r = i \<and> b1 then r\<lparr>rpr_migration_dropped_values := True\<rparr> else r"
  have "map propertyView ps' = map ?g (map propertyView ps)"
    using assms(2) by (auto simp: propertyView_def)
  also have "\<dots> = map ?g (map (\<lambda>r. if rpr_id r = i
      then propertyView r\<lparr>rpr_migration_dropped_values := rpr_migration_dropped_values r \<or> b\<rparr> else propertyView r) ps0)"
    by (simp only: assms(1))
  also have "\<dots> = map (\<lambda>r. if rpr_id r = i
      then propertyView r\<lparr>rpr_migration_dropped_values := rpr_migration_dropped_values r \<or> b'\<rparr> else propertyView r) ps0"
    using assms(3) by (auto simp: propertyView_def)
  finally show ?thesis .
qed

lemma progress_migrateItem:
  assumes "migratable js row from to d0" and "progress js row from to d0 ids (cl_db c)" and "isPropertyOf row to property"
    and "x \<in> set (t_items (cl_db c))" and "rit_database_id x = rpr_database_id row"
    and "migrateItem js property from x c = Inr (u, c')"
  shows "progress js row from to d0 (insert (rit_id x) ids) (cl_db c') \<and>
    (\<forall>y \<in> set (t_items (cl_db c)). \<not> isItem (rpr_database_id row) (rit_id x) y \<longrightarrow> y \<in> set (t_items (cl_db c')))"
proof -
  have "distinct (map (\<lambda>r. (rit_database_id r, rit_id r)) (t_items (cl_db c)))"
    using assms(1) progress_keys [OF assms(2)] by (simp add: migratable_def)
  then have "\<forall>r \<in> set (t_items (cl_db c)). isItem (rpr_database_id row) (rit_id x) r \<longrightarrow> r = x"
    using item_unique [of "t_items (cl_db c)" x] assms(4,5) by (simp add: isItem_def)
  note step = migrateItem_effect [OF assms(6,3) this]
  have rec: "\<forall>r \<in> set (t_items d0). rit_database_id r = rpr_database_id row \<longrightarrow>
      recognised js from to (rpr_key row) (rit_properties r)"
    using assms(1) by (simp add: migratable_def)
  obtain x0 where x0: "x0 \<in> set (t_items d0)" "itemView x = convertedView js row from to ids x0"
    by (rule progress_item [OF assms(2,4)])
  then have id0: "rit_database_id x0 = rpr_database_id row" "rit_id x0 = rit_id x"
    using assms(5) by (auto simp: itemView_def convertedView_def)
  note view = assms(2) [unfolded progress_def]
  have "map itemView (t_items (cl_db c')) = map (convertedView js row from to (insert (rit_id x) ids)) (t_items d0)"
    by (rule converted_one_more [OF conjunct1 [OF view] rec conjunct1 [OF step]])
  moreover have "map propertyView (t_properties (cl_db c')) = map (\<lambda>r. if rpr_id r = rpr_id row
        then propertyView r\<lparr>rpr_migration_dropped_values :=
               rpr_migration_dropped_values r \<or> droppedSome js row from to (insert (rit_id x) ids) (t_items d0)\<rparr>
        else propertyView r) (t_properties d0)"
    by (rule flagged_one_more [OF conjunct2 [OF view] conjunct1 [OF conjunct2 [OF step]]])
      (rule dropped_one_more [OF assms(1) x0(1) id0(1) x0(2), unfolded id0(2)])
  ultimately show ?thesis using step by (simp add: progress_def)
qed

section \<open>Batches and pages\<close>

lemma progress_rows:
  assumes "migratable js row from to d0" and "isPropertyOf row to property"
  shows "forEach rows (migrateItem js property from) c = Inr (u, c') \<Longrightarrow> progress js row from to d0 ids (cl_db c) \<Longrightarrow>
    distinct (map rit_id rows) \<Longrightarrow> set rows \<subseteq> set (t_items (cl_db c)) \<Longrightarrow>
    \<forall>x \<in> set rows. rit_database_id x = rpr_database_id row \<Longrightarrow>
    progress js row from to d0 (ids \<union> rit_id ` set rows) (cl_db c')"
proof (induction rows arbitrary: ids c)
  case (Cons x rows)
  from Cons.prems(1) obtain u1 c1 where x: "migrateItem js property from x c = Inr (u1, c1)"
      and rest: "forEach rows (migrateItem js property from) c1 = Inr (u, c')"
    by (auto elim: andThen_InrE)
  have step: "progress js row from to d0 (insert (rit_id x) ids) (cl_db c1) \<and>
      (\<forall>y \<in> set (t_items (cl_db c)). \<not> isItem (rpr_database_id row) (rit_id x) y \<longrightarrow> y \<in> set (t_items (cl_db c1)))"
    by (rule progress_migrateItem [OF assms(1) Cons.prems(2) assms(2) _ _ x]) (use Cons.prems in auto)
  moreover have "set rows \<subseteq> set (t_items (cl_db c1))"
  proof
    fix y assume y: "y \<in> set rows"
    with Cons.prems(3) have "rit_id y \<noteq> rit_id x" by (auto simp: image_iff)
    then have "\<not> isItem (rpr_database_id row) (rit_id x) y" by (simp add: isItem_def)
    with step y Cons.prems(4) show "y \<in> set (t_items (cl_db c1))" by auto
  qed
  ultimately have "progress js row from to d0 (insert (rit_id x) ids \<union> rit_id ` set rows) (cl_db c')"
    using Cons.prems(3,5) by (intro Cons.IH [OF rest]) auto
  then show ?case by simp
qed (simp add: comp_simps)

lemma distinct_pageRows:
  assumes "distinct (map (\<lambda>r. (rit_database_id r, rit_id r)) (t_items d))"
  shows "distinct (map rit_id (pageRows databaseId cursor n d))"
proof -
  let ?rows = "sort_key rit_id (filter (\<lambda>r. rit_database_id r = databaseId \<and>
     (case cursor of None \<Rightarrow> True | Some a \<Rightarrow> rit_id r > a)) (t_items d))"
  from assms have "inj_on rit_id (set ?rows)" "distinct ?rows" by (auto simp: distinct_map inj_on_def)
  then have "distinct (map rit_id ?rows)" by (simp add: distinct_map)
  then show ?thesis unfolding pageRows_def take_map [symmetric] by (rule distinct_take)
qed

lemma progress_batch:
  assumes "migratable js row from to d0" and "isPropertyOf row to property" and "progress js row from to d0 ids (cl_db c)"
    and "migrationBatch js property from n cursor c = Inr (rows, c')"
  shows "progress js row from to d0 (ids \<union> rit_id ` set rows) (cl_db c')"
    and "rows = pageRows (rpr_database_id row) cursor n (cl_db c)"
proof -
  from assms(2,4) obtain u where run: "forEach (pageRows (rpr_database_id row) cursor n (cl_db c)) (migrateItem js property from) c = Inr (u, c')"
      and rows: "rows = pageRows (rpr_database_id row) cursor n (cl_db c)"
    by (auto simp: migrationBatch_def lockItemBatch_def selectItems_def pageRows_def isPropertyOf_def comp_simps
        andThen_def bnd_def split: sum.splits prod.splits)
  show "rows = pageRows (rpr_database_id row) cursor n (cl_db c)" by (rule rows)
  have "distinct (map rit_id rows)"
    unfolding rows by (rule distinct_pageRows) (use assms(1) progress_keys [OF assms(3)] in \<open>simp add: migratable_def\<close>)
  moreover have "set rows \<subseteq> set (t_items (cl_db c))" "\<forall>x \<in> set rows. rit_database_id x = rpr_database_id row"
    unfolding rows pageRows_def by (auto dest: in_set_takeD)
  ultimately show "progress js row from to d0 (ids \<union> rit_id ` set rows) (cl_db c')"
    using progress_rows [OF assms(1,2) run [folded rows] assms(3)] by simp
qed

text \<open>A page holds every row up to its last one; a short page holds all that are left.\<close>

definition coversUpTo :: "id \<Rightarrow> id option \<Rightarrow> id set \<Rightarrow> db \<Rightarrow> bool" where
  "coversUpTo databaseId cursor ids d \<longleftrightarrow> (\<forall>r \<in> set (t_items d). rit_database_id r = databaseId \<longrightarrow>
     (case cursor of None \<Rightarrow> False | Some a \<Rightarrow> rit_id r \<le> a) \<longrightarrow> rit_id r \<in> ids)"

lemma pageRows_all:
  assumes "length (pageRows databaseId cursor n d) < n" and "r \<in> set (t_items d)" and "rit_database_id r = databaseId"
    and "case cursor of None \<Rightarrow> True | Some a \<Rightarrow> rit_id r > a"
  shows "r \<in> set (pageRows databaseId cursor n d)"
  using assms by (auto simp: pageRows_def)

lemma sorted_take_upTo:
  assumes "sorted (map f xs)" and "x \<in> set xs" and "take n xs \<noteq> []" and "f x \<le> f (last (take n xs))" and "inj_on f (set xs)"
  shows "x \<in> set (take n xs)"
proof (rule ccontr)
  assume not: "x \<notin> set (take n xs)"
  with assms(2) have "x \<in> set (drop n xs)" by (metis append_take_drop_id in_set_conv_decomp set_append Un_iff)
  moreover have "sorted (map f (take n xs) @ map f (drop n xs))"
    using assms(1) by (metis append_take_drop_id map_append)
  ultimately have "f (last (take n xs)) \<le> f x"
    using assms(3) by (auto simp: sorted_append)
  with assms(4) have "f x = f (last (take n xs))" by simp
  moreover have "last (take n xs) \<in> set xs" using assms(3) by (metis in_set_takeD last_in_set)
  ultimately have "x = last (take n xs)" using assms(2,5) by (auto simp: inj_on_def)
  with not assms(3) show False by simp
qed

lemma pageRows_upTo:
  assumes "distinct (map (\<lambda>r. (rit_database_id r, rit_id r)) (t_items d))"
    and "pageRows databaseId cursor n d \<noteq> []" and "r \<in> set (t_items d)" and "rit_database_id r = databaseId"
    and "case cursor of None \<Rightarrow> True | Some a \<Rightarrow> rit_id r > a" and "rit_id r \<le> rit_id (last (pageRows databaseId cursor n d))"
  shows "r \<in> set (pageRows databaseId cursor n d)"
  using assms(2,6) unfolding pageRows_def
  by (intro sorted_take_upTo [where f = rit_id])
    (use assms(1,3-5) in \<open>auto simp: distinct_map inj_on_def\<close>)

lemma coversUpTo_next:
  assumes "distinct (map (\<lambda>r. (rit_database_id r, rit_id r)) (t_items d))" and "coversUpTo databaseId cursor ids d"
    and "pageRows databaseId cursor n d \<noteq> []"
  shows "coversUpTo databaseId (Some (rit_id (last (pageRows databaseId cursor n d))))
    (ids \<union> rit_id ` set (pageRows databaseId cursor n d)) d"
  unfolding coversUpTo_def
proof (intro ballI impI)
  fix r assume r: "r \<in> set (t_items d)" "rit_database_id r = databaseId"
    and upTo: "case Some (rit_id (last (pageRows databaseId cursor n d))) of None \<Rightarrow> False | Some a \<Rightarrow> rit_id r \<le> a"
  show "rit_id r \<in> ids \<union> rit_id ` set (pageRows databaseId cursor n d)"
  proof (cases "case cursor of None \<Rightarrow> True | Some a \<Rightarrow> rit_id r > a")
    case True
    from pageRows_upTo [OF assms(1,3) r this] upTo show ?thesis by simp
  next
    case False
    then have "case cursor of None \<Rightarrow> False | Some a \<Rightarrow> rit_id r \<le> a" by (auto split: option.splits)
    with assms(2) r show ?thesis by (simp add: coversUpTo_def)
  qed
qed

lemma coversUpTo_end:
  assumes "coversUpTo databaseId cursor ids d" and "length (pageRows databaseId cursor n d) < n"
    and "r \<in> set (t_items d)" and "rit_database_id r = databaseId"
  shows "rit_id r \<in> ids \<union> rit_id ` set (pageRows databaseId cursor n d)"
proof (cases "case cursor of None \<Rightarrow> True | Some a \<Rightarrow> rit_id r > a")
  case True
  from pageRows_all [OF assms(2-4) this] show ?thesis by simp
next
  case False
  then have "case cursor of None \<Rightarrow> False | Some a \<Rightarrow> rit_id r \<le> a" by (auto split: option.splits)
  with assms(1,3,4) show ?thesis by (simp add: coversUpTo_def)
qed

text \<open>Every item of the database is converted.\<close>

definition allDone :: "id \<Rightarrow> id set \<Rightarrow> db \<Rightarrow> bool" where
  "allDone databaseId ids d \<longleftrightarrow> (\<forall>r \<in> set (t_items d). rit_database_id r = databaseId \<longrightarrow> rit_id r \<in> ids)"

lemma sameKeys_items:
  assumes "map (\<lambda>r. (rit_database_id r, rit_id r)) xs = map (\<lambda>r. (rit_database_id r, rit_id r)) ys" and "x \<in> set xs"
  obtains y where "y \<in> set ys" and "rit_database_id y = rit_database_id x" and "rit_id y = rit_id x"
proof -
  from assms(2) have "(rit_database_id x, rit_id x) \<in> set (map (\<lambda>r. (rit_database_id r, rit_id r)) ys)"
    unfolding assms(1) [symmetric] by auto
  with that show thesis by auto
qed

lemma coversUpTo_same:
  assumes "map (\<lambda>r. (rit_database_id r, rit_id r)) (t_items d) = map (\<lambda>r. (rit_database_id r, rit_id r)) (t_items d')"
    and "coversUpTo databaseId cursor ids d'"
  shows "coversUpTo databaseId cursor ids d"
  unfolding coversUpTo_def
proof (intro ballI impI)
  fix r assume r: "r \<in> set (t_items d)" "rit_database_id r = databaseId"
    "case cursor of None \<Rightarrow> False | Some a \<Rightarrow> rit_id r \<le> a"
  obtain r' where "r' \<in> set (t_items d')" "rit_database_id r' = rit_database_id r" "rit_id r' = rit_id r"
    by (rule sameKeys_items [OF assms(1) r(1)])
  with assms(2) r(2,3) show "rit_id r \<in> ids" unfolding coversUpTo_def by metis
qed

lemma progress_page:
  assumes "migratable js row from to d0" and "isPropertyOf row to property" and "0 < n"
    and "progress js row from to d0 ids (w_db w)"
    and "withTransaction env p (migrationBatch js property from n cursor) w = (Inr rows, w1)"
    and "coversUpTo (rpr_database_id row) cursor ids (w_db w)"
  shows "if rows = [] \<or> length rows < n then allDone (rpr_database_id row) (ids \<union> rit_id ` set rows) d0
    else coversUpTo (rpr_database_id row) (Some (rit_id (last rows))) (ids \<union> rit_id ` set rows) (w_db w1)"
proof -
  obtain scope c where run: "migrationBatch js property from n cursor (beginTx env scope w) = Inr (rows, c)"
      and w1: "w_db w1 = cl_db c" using assms(5) by (elim withTransaction_InrE)
  have "progress js row from to d0 ids (cl_db (beginTx env scope w))" using assms(4) by (simp add: beginTx_def)
  note batch = progress_batch [OF assms(1,2) this run]
  have rows: "rows = pageRows (rpr_database_id row) cursor n (w_db w)" using batch(2) by (simp add: beginTx_def)
  show ?thesis
  proof (cases "rows = [] \<or> length rows < n")
    case True
    then have short: "length (pageRows (rpr_database_id row) cursor n (w_db w)) < n" using assms(3) by (auto simp: rows)
    have "rit_id r \<in> ids \<union> rit_id ` set rows"
      if r: "r \<in> set (t_items d0)" "rit_database_id r = rpr_database_id row" for r
    proof -
      obtain r' where r': "r' \<in> set (t_items (w_db w))" "rit_database_id r' = rit_database_id r" "rit_id r' = rit_id r"
        by (rule sameKeys_items [OF progress_keys [OF assms(4), symmetric] r(1)])
      from coversUpTo_end [OF assms(6) short r'(1)] r r' show ?thesis by (simp add: rows)
    qed
    with True show ?thesis by (simp add: allDone_def)
  next
    case False
    have "distinct (map (\<lambda>r. (rit_database_id r, rit_id r)) (t_items (w_db w)))"
      using assms(1) progress_keys [OF assms(4)] by (simp add: migratable_def)
    moreover have "map (\<lambda>r. (rit_database_id r, rit_id r)) (t_items (w_db w1)) = map (\<lambda>r. (rit_database_id r, rit_id r)) (t_items (w_db w))"
      using progress_keys [OF batch(1)] progress_keys [OF assms(4)] w1 by simp
    ultimately show ?thesis
      using coversUpTo_same coversUpTo_next [OF _ assms(6), of n] False by (simp add: rows)
  qed
qed

lemma progress_pages:
  assumes "migratable js row from to d0" and "isPropertyOf row to property" and "0 < n"
  shows "migratePages p js property from n envs cursor w = (res, w') \<Longrightarrow> progress js row from to d0 ids (w_db w) \<Longrightarrow>
    \<exists>ids'. progress js row from to d0 ids' (w_db w') \<and>
      (res = Inr True \<longrightarrow> coversUpTo (rpr_database_id row) cursor ids (w_db w) \<longrightarrow> allDone (rpr_database_id row) ids' d0)"
proof (induction envs arbitrary: cursor ids w)
  case (Cons env envs)
  obtain r w1 where tx: "withTransaction env p (migrationBatch js property from n cursor) w = (r, w1)" by fastforce
  show ?case
  proof (cases r)
    case (Inl err)
    with tx Cons.prems withTransaction_Inl_db show ?thesis by fastforce
  next
    case (Inr rows)
    note tx = tx [unfolded Inr]
    obtain scope c where run: "migrationBatch js property from n cursor (beginTx env scope w) = Inr (rows, c)"
        and w1: "w_db w1 = cl_db c" using tx by (elim withTransaction_InrE)
    have "progress js row from to d0 ids (cl_db (beginTx env scope w))" using Cons.prems(2) by (simp add: beginTx_def)
    from progress_batch(1) [OF assms(1,2) this run] w1
    have next_ok: "progress js row from to d0 (ids \<union> rit_id ` set rows) (w_db w1)" by simp
    note page = progress_page [OF assms Cons.prems(2) tx]
    show ?thesis
    proof (cases "rows = [] \<or> length rows < n")
      case True
      with Cons.prems(1) tx next_ok page show ?thesis by auto
    next
      case False
      with Cons.prems(1) tx have "migratePages p js property from n envs (Some (rit_id (last rows))) w1 = (res, w')" by simp
      from Cons.IH [OF this next_ok] page False show ?thesis by auto
    qed
  qed
qed auto

section \<open>The whole job\<close>

definition settledStatus :: "id \<Rightarrow> db \<Rightarrow> bool" where
  "settledStatus propertyId d \<longleftrightarrow> (\<forall>r \<in> set (t_properties d). rpr_id r = propertyId \<longrightarrow>
     rpr_migration_status r = (if rpr_migration_dropped_values r then ''partial'' else ''done''))"

definition settledProgress ::
  "jsText \<Rightarrow> PropertyDbRow \<Rightarrow> PropertyType \<Rightarrow> PropertyType \<Rightarrow> db \<Rightarrow> id set \<Rightarrow> db \<Rightarrow> bool" where
  "settledProgress js row from to d0 ids d \<longleftrightarrow> progress js row from to d0 ids d \<and> settledStatus (rpr_id row) d"

interpretation settled: quiet "settledProgress js row from to d0 ids" for js row "from" to d0 ids
  by unfold_locales (simp_all add: settledProgress_def progress_def settledStatus_def)

lemma backfill_settled: "keeps (onDb (settledProgress js row from to d0 ids)) (backfillDependents property)"
  unfolding backfillDependents_def
  by (intro keeps_intros settled.keeps_rollupEnqueues readsOnly_keeps readsOnly_dependencies)

lemma progress_updateProperties:
  assumes "\<And>r. propertyView (f r) = propertyView r"
  shows "keeps (onDb (progress js row from to d0 ids)) (updateProperties propertyId f)"
  unfolding updateProperties_def
proof (rule keeps_onDb_statement)
  fix d assume *: "progress js row from to d0 ids d"
  have "map propertyView (map (\<lambda>r. if rpr_id r = propertyId then f r else r) (t_properties d)) = map propertyView (t_properties d)"
    using assms by simp
  with * show "progress js row from to d0 ids (d\<lparr>t_properties := map (\<lambda>r. if rpr_id r = propertyId then f r else r) (t_properties d)\<rparr>)"
    by (simp only: progress_def) simp
qed

lemma progress_property:
  assumes "migratable js row from to d0" and "progress js row from to d0 ids d"
    and "r \<in> set (t_properties d)" and "rpr_id r = rpr_id row"
  shows "propertyView r = propertyView row\<lparr>rpr_migration_dropped_values :=
    rpr_migration_dropped_values row \<or> droppedSome js row from to ids (t_items d0)\<rparr>"
proof -
  let ?F = "\<lambda>r. if rpr_id r = rpr_id row then propertyView r\<lparr>rpr_migration_dropped_values :=
      rpr_migration_dropped_values r \<or> droppedSome js row from to ids (t_items d0)\<rparr> else propertyView r"
  have "propertyView r \<in> set (map propertyView (t_properties d))" using assms(3) by simp
  then have "propertyView r \<in> set (map ?F (t_properties d0))"
    unfolding conjunct2 [OF assms(2) [unfolded progress_def]] .
  then obtain r0 where r0: "r0 \<in> set (t_properties d0)" and view: "propertyView r = ?F r0"
    unfolding set_map by (elim imageE)
  have id: "rpr_id (propertyView x) = rpr_id x" for x by (simp add: propertyView_def)
  have "rpr_id (?F r0) = rpr_id r0" by (cases "rpr_id r0 = rpr_id row") (simp_all add: id)
  moreover have "rpr_id (?F r0) = rpr_id row" unfolding view [symmetric] id by (rule assms(4))
  ultimately have "rpr_id r0 = rpr_id row" by (rule trans [OF sym])
  moreover have "inj_on rpr_id (set (t_properties d0))" "row \<in> set (t_properties d0)"
    using assms(1) by (simp_all add: migratable_def distinct_map)
  ultimately have "r0 = row" using r0 by (metis inj_onD)
  then show ?thesis unfolding view by simp
qed

lemma startMigration_progress:
  assumes "migratable js row from to d0" and "progress js row from to d0 ids (cl_db c)"
    and "startMigration (rpr_id row) c = Inr (found, c')"
  shows "progress js row from to d0 ids (cl_db c')" and "\<And>property. found = Some property \<Longrightarrow> isPropertyOf row to property"
proof -
  have "keeps (onDb (progress js row from to d0 ids)) (startMigration (rpr_id row))"
    unfolding startMigration_def setPropertyMigrationStatus_def
    by (intro keeps_intros readsOnly_keeps readsOnly_properties progress_updateProperties) (simp add: propertyView_def)
  with assms(2,3) show "progress js row from to d0 ids (cl_db c')" by (auto simp: onDb_def dest: keepsD)
  fix property assume "found = Some property"
  with assms(3) obtain r rs where first: "filter (\<lambda>r. rpr_id r = rpr_id row) (t_properties (cl_db c)) = r # rs"
      and mapped: "mapPropertyRow r = Inr property"
    by (auto simp: startMigration_def getProperty_def firstProperty_def selectProperties_def setPropertyMigrationStatus_def
        updateProperties_def comp_simps andThen_def bnd_def ofSum_def split: sum.splits list.splits)
  then have "r \<in> set (filter (\<lambda>r. rpr_id r = rpr_id row) (t_properties (cl_db c)))" by simp
  then have r: "rpr_id r = rpr_id row" "r \<in> set (t_properties (cl_db c))" by auto
  note view = progress_property [OF assms(1,2) r(2,1)]
  have "rpr_database_id r = rpr_database_id row" "rpr_key r = rpr_key row" "rpr_type r = rpr_type row"
    using arg_cong [OF view, of rpr_database_id] arg_cong [OF view, of rpr_key] arg_cong [OF view, of rpr_type]
    by (simp_all add: propertyView_def)
  with mapped r(1) assms(1) show "isPropertyOf row to property"
    by (auto simp: mapPropertyRow_def isPropertyOf_def assertKnownValue_def migratable_def split: option.splits)
qed

lemma settle_progress:
  assumes "progress js row from to d0 ids (cl_db c)" and "settlePropertyMigrationStatus (rpr_id row) c = Inr (u, c')"
  shows "settledProgress js row from to d0 ids (cl_db c')"
proof -
  have "keeps (onDb (progress js row from to d0 ids)) (settlePropertyMigrationStatus (rpr_id row))"
    unfolding settlePropertyMigrationStatus_def by (rule progress_updateProperties) (simp add: propertyView_def)
  with assms have "progress js row from to d0 ids (cl_db c')" by (auto simp: onDb_def dest: keepsD)
  with assms(2) show ?thesis
    by (auto simp: settledProgress_def settledStatus_def settlePropertyMigrationStatus_def updateProperties_def comp_simps)
qed

lemma startMigration_found:
  assumes "migratable js row from to d0" and "progress js row from to d0 ids (cl_db c)"
    and "startMigration (rpr_id row) c = Inr (found, c')"
  shows "found \<noteq> None"
proof -
  from assms(1) have "rpr_id row \<in> set (map rpr_id (t_properties d0))" by (simp add: migratable_def)
  also have "map rpr_id (t_properties d0) = map rpr_id (t_properties (cl_db c))"
    using arg_cong [OF conjunct2 [OF assms(2) [unfolded progress_def]], of "map rpr_id"]
    by (simp add: propertyView_def comp_def if_distrib cong: if_cong)
  finally have "filter (\<lambda>r. rpr_id r = rpr_id row) (t_properties (cl_db c)) \<noteq> []" by (auto simp: filter_empty_conv)
  with assms(3) show ?thesis
    by (auto simp: startMigration_def getProperty_def firstProperty_def selectProperties_def setPropertyMigrationStatus_def
        updateProperties_def comp_simps andThen_def bnd_def ofSum_def split: sum.splits list.splits)
qed

lemma finish_job:
  assumes "progress js row from to d0 ids (w_db w)"
    and "(case withTransaction env p (settlePropertyMigrationStatus (rpr_id row)) w of
          (Inl err, w3) \<Rightarrow> (Inl err, w3)
        | (Inr _, w3) \<Rightarrow> (case withTransaction env' p (backfillDependents property) w3 of
            (Inl err, w4) \<Rightarrow> (Inl err, w4) | (Inr _, w4) \<Rightarrow> (Inr True, w4))) = (res :: error + bool, w')"
  shows "progress js row from to d0 ids (w_db w') \<and> (res = Inr True \<longrightarrow> settledStatus (rpr_id row) (w_db w'))"
proof (cases "withTransaction env p (settlePropertyMigrationStatus (rpr_id row)) w")
  case (Pair r w3)
  show ?thesis
  proof (cases r)
    case (Inl err)
    with Pair assms withTransaction_Inl_db show ?thesis by fastforce
  next
    case (Inr u)
    from Pair [unfolded Inr] obtain scope c where "settlePropertyMigrationStatus (rpr_id row) (beginTx env scope w) = Inr (u, c)"
        and w3: "w_db w3 = cl_db c" by (elim withTransaction_InrE)
    with settle_progress [of js row "from" to d0 ids "beginTx env scope w"] assms(1)
    have settled: "settledProgress js row from to d0 ids (w_db w3)" by (simp add: beginTx_def)
    obtain r4 w4 where last: "withTransaction env' p (backfillDependents property) w3 = (r4, w4)" by fastforce
    from withTransaction_keeps [OF backfill_settled settled, of env' p property] last
    have "settledProgress js row from to d0 ids (w_db w4)" by simp
    moreover have "w' = w4" using assms(2) Pair Inr last by (auto split: sum.splits)
    ultimately show ?thesis by (simp add: settledProgress_def)
  qed
qed

lemma progress_job:
  assumes "migratable js row from to d0" and "progress js row from to d0 ids (w_db w)"
    and "runPropertyTypeMigrationJob me js (rpr_id row) from w = (res, w')"
  shows "\<exists>ids'. progress js row from to d0 ids' (w_db w') \<and>
    (res = Inr True \<longrightarrow> allDone (rpr_database_id row) ids' d0 \<and> settledStatus (rpr_id row) (w_db w'))"
proof (cases "withTransaction (me_bootstrap me) (me_deliverable me) (startMigration (rpr_id row)) w")
  case (Pair r w1)
  show ?thesis
  proof (cases r)
    case (Inl err)
    with Pair assms(2,3) withTransaction_Inl_db show ?thesis by (fastforce simp: runPropertyTypeMigrationJob_def)
  next
    case (Inr found)
    from Pair [unfolded Inr] obtain scope c where "startMigration (rpr_id row) (beginTx (me_bootstrap me) scope w) = Inr (found, c)"
        and w1: "w_db w1 = cl_db c" by (elim withTransaction_InrE)
    note start = assms(1) _ this(1)
    have "progress js row from to d0 ids (cl_db (beginTx (me_bootstrap me) scope w))" using assms(2) by (simp add: beginTx_def)
    note started = startMigration_progress [OF start(1) this start(3)] startMigration_found [OF start(1) this start(3)]
    then obtain property where found: "found = Some property" and own: "isPropertyOf row to property" by auto
    obtain res2 w2 where pages: "migratePages (me_deliverable me) js property from MIGRATION_PAGE_SIZE (me_batches me) None w1 = (res2, w2)"
      by fastforce
    have "progress js row from to d0 ids (w_db w1)" using started(1) w1 by simp
    from progress_pages [OF assms(1) own _ pages this] obtain ids' where ids': "progress js row from to d0 ids' (w_db w2)"
        "res2 = Inr True \<Longrightarrow> allDone (rpr_database_id row) ids' d0"
      by (auto simp: MIGRATION_PAGE_SIZE_def coversUpTo_def)
    show ?thesis
    proof (cases "res2 = Inr True")
      case False
      with assms(3) Pair Inr found pages ids' show ?thesis
        by (auto simp: runPropertyTypeMigrationJob_def split: sum.splits bool.splits)
    next
      case True
      with assms(3) Pair Inr found pages
      have "(case withTransaction (me_settle me) (me_deliverable me) (settlePropertyMigrationStatus (rpr_id row)) w2 of
          (Inl err, w3) \<Rightarrow> (Inl err, w3)
        | (Inr _, w3) \<Rightarrow> (case withTransaction (me_enqueue me) (me_deliverable me) (backfillDependents property) w3 of
            (Inl err, w4) \<Rightarrow> (Inl err, w4) | (Inr _, w4) \<Rightarrow> (Inr True, w4))) = (res, w')"
        by (simp add: runPropertyTypeMigrationJob_def)
      from finish_job [OF ids'(1) this] ids'(2) [OF True] show ?thesis by auto
    qed
  qed
qed

text \<open>Runs of the job that end, fail or die anywhere.\<close>

definition migrationRun :: "jsText \<Rightarrow> id \<Rightarrow> PropertyType \<Rightarrow> world \<Rightarrow> world \<Rightarrow> bool" where
  "migrationRun js propertyId from w w' \<longleftrightarrow> (\<exists>me res. runPropertyTypeMigrationJob me js propertyId from w = (res, w'))"

lemma progress_runs:
  assumes "(migrationRun js (rpr_id row) from)\<^sup>*\<^sup>* w0 w" and "migratable js row from to (w_db w0)"
  shows "\<exists>ids. progress js row from to (w_db w0) ids (w_db w)"
  using assms(1)
proof (induction rule: rtranclp_induct)
  case (step w w')
  then show ?case using progress_job [OF assms(2)] unfolding migrationRun_def by blast
qed (use progress_start in blast)

text \<open>Every item holds its converted value.\<close>

definition convertedItems :: "jsText \<Rightarrow> PropertyDbRow \<Rightarrow> PropertyType \<Rightarrow> PropertyType \<Rightarrow> db \<Rightarrow> (id \<times> id \<times> obj) list" where
  "convertedItems js row from to d = map (\<lambda>r. (rit_database_id r, rit_id r,
     if rit_database_id r = rpr_database_id row then migrated js from to (rpr_key row) (rit_properties r)
     else rit_properties r)) (t_items d)"

definition someDropped :: "jsText \<Rightarrow> PropertyDbRow \<Rightarrow> PropertyType \<Rightarrow> PropertyType \<Rightarrow> db \<Rightarrow> bool" where
  "someDropped js row from to d \<longleftrightarrow> (\<exists>r \<in> set (t_items d). rit_database_id r = rpr_database_id row \<and>
     dropsValue js from to (rpr_key row) (rit_properties r))"

lemma runs_result:
  assumes "migratable js row from to (w_db w0)" and "(migrationRun js (rpr_id row) from)\<^sup>*\<^sup>* w0 w1"
    and "runPropertyTypeMigrationJob me js (rpr_id row) from w1 = (Inr True, w2)"
  shows "map itemView (t_items (w_db w2)) = convertedItems js row from to (w_db w0)"
    and "r \<in> set (t_properties (w_db w2)) \<Longrightarrow> rpr_id r = rpr_id row \<Longrightarrow> rpr_migration_status r =
      (if rpr_migration_dropped_values row \<or> someDropped js row from to (w_db w0) then ''partial'' else ''done'')"
proof -
  obtain ids where "progress js row from to (w_db w0) ids (w_db w1)" using progress_runs [OF assms(2,1)] by blast
  from progress_job [OF assms(1) this assms(3)]
  obtain ids' where p: "progress js row from to (w_db w0) ids' (w_db w2)" and all: "allDone (rpr_database_id row) ids' (w_db w0)"
      and settled: "settledStatus (rpr_id row) (w_db w2)" by blast
  from all have "map (convertedView js row from to ids') (t_items (w_db w0)) = convertedItems js row from to (w_db w0)"
    by (auto simp: convertedView_def convertedItems_def allDone_def)
  with p show "map itemView (t_items (w_db w2)) = convertedItems js row from to (w_db w0)" by (simp add: progress_def)
  have dropped: "droppedSome js row from to ids' (t_items (w_db w0)) \<longleftrightarrow> someDropped js row from to (w_db w0)"
    using all by (auto simp: droppedSome_def someDropped_def allDone_def)
  assume r: "r \<in> set (t_properties (w_db w2))" "rpr_id r = rpr_id row"
  from arg_cong [OF progress_property [OF assms(1) p r], of rpr_migration_dropped_values]
  have "rpr_migration_dropped_values r \<longleftrightarrow> rpr_migration_dropped_values row \<or> someDropped js row from to (w_db w0)"
    by (simp add: dropped propertyView_def)
  with settled r show "rpr_migration_status r =
      (if rpr_migration_dropped_values row \<or> someDropped js row from to (w_db w0) then ''partial'' else ''done'')"
    by (simp add: settledStatus_def)
qed


text \<open>
  C32: a text shaped like the output of \<open>toISOString\<close> that is no date is not
  discarded by a change from text to date: it stays as the value of a date property, and the
  migration ends as \<open>done\<close> if it is the only value.
\<close>

theorem unparsable_date_kept:
  assumes "migratable js row PtText PtDate (w_db w)" and "t_items (w_db w) = [item]"
    and "rit_database_id item = rpr_database_id row" and "map_of (rit_properties item) (rpr_key row) = Some (JStr s)"
    and "CONVERTED_DATE_SHAPE s" and "js_dateParse js s = None" and "\<not> rpr_migration_dropped_values row"
    and "runPropertyTypeMigrationJob me js (rpr_id row) PtText w = (Inr True, w')"
    and "r \<in> set (t_properties (w_db w'))" and "rpr_id r = rpr_id row"
  shows "convertPropertyValue js PtText PtDate (JStr s) = None \<and> map itemView (t_items (w_db w')) = [itemView item] \<and>
    rpr_migration_status r = ''done''"
proof -
  note result = runs_result [OF assms(1) rtranclp.rtrancl_refl assms(8)]
  have "convertPropertyValue js PtText PtDate (JStr s) = None"
    using assms(6) by (simp add: convertPropertyValue_def CONVERTERS_def textToDate_def)
  moreover have "convertedItems js row PtText PtDate (w_db w) = [itemView item]"
    using assms(2-5) by (simp add: convertedItems_def migrated_def isAlreadyTargetType_def itemView_def)
  moreover have "\<not> someDropped js row PtText PtDate (w_db w)"
    using assms(2-5) by (simp add: someDropped_def dropsValue_def isAlreadyTargetType_def)
  ultimately show ?thesis using result(1) result(2) [OF assms(9,10)] assms(7) by simp
qed

section \<open>Concrete instances\<close>

definition exampleJs :: jsText where
  "exampleJs = \<lparr>js_number = (\<lambda>s. if s = ''12'' then Some 12 else None), js_numberText = (\<lambda>_. ''12''),
     js_dateParse = (\<lambda>_. None), js_isoText = (\<lambda>_. ''1970-01-01T00:00:00.000Z'')\<rparr>"

definition retypedProperty :: "string \<Rightarrow> PropertyDbRow" where
  "retypedProperty ty = exampleProperty ''p'' ''d1'' ''n'' ty [] ''user''"

definition retypedWorld :: "string \<Rightarrow> ItemDbRow list \<Rightarrow> world" where
  "retypedWorld ty items = \<lparr>w_db = emptyDb\<lparr>t_properties := [retypedProperty ty], t_items := items\<rparr>,
     w_parked = [], w_notified = []\<rparr>"

definition retypedItems :: "ItemDbRow list" where
  "retypedItems = [exampleItem ''d1'' ''i1'' [(''n'', JStr ''12'')] None, exampleItem ''d1'' ''i2'' [(''n'', JStr ''x'')] None,
     exampleItem ''d2'' ''i1'' [(''n'', JStr ''12'')] None]"

definition exampleRun :: "txenv list \<Rightarrow> migrationEnv" where
  "exampleRun envs = \<lparr>me_deliverable = (\<lambda>_. True), me_bootstrap = exampleTx, me_batches = envs, me_settle = exampleTx,
     me_enqueue = exampleTx\<rparr>"

text \<open>A run that dies before its first batch, and the retry.\<close>

definition diedWorld :: world where
  "diedWorld = snd (runPropertyTypeMigrationJob (exampleRun []) exampleJs ''p'' PtText (retypedWorld ''number'' retypedItems))"

definition convertedWorld :: world where
  "convertedWorld = snd (runPropertyTypeMigrationJob (exampleRun [exampleTx]) exampleJs ''p'' PtText diedWorld)"

lemma converted_eval:
  "runPropertyTypeMigrationJob (exampleRun [exampleTx]) exampleJs ''p'' PtText diedWorld = (Inr True, convertedWorld)"
  "convertedItems exampleJs (retypedProperty ''number'') PtText PtNumber (w_db (retypedWorld ''number'' retypedItems)) =
     [(''d1'', ''i1'', [(''n'', JNum 12)]), (''d1'', ''i2'', []), (''d2'', ''i1'', [(''n'', JStr ''12'')])]"
  by code_simp+

lemma diedWorld_run: "(migrationRun exampleJs ''p'' PtText)\<^sup>*\<^sup>* (retypedWorld ''number'' retypedItems) diedWorld"
proof -
  have "migrationRun exampleJs ''p'' PtText (retypedWorld ''number'' retypedItems) diedWorld"
    unfolding migrationRun_def diedWorld_def by (metis prod.collapse)
  then show ?thesis by blast
qed

lemma diedWorld_readable: "readable ''p'' (w_db diedWorld)"
  by code_simp

lemma retyped_migratable:
  "migratable exampleJs (retypedProperty ''number'') PtText PtNumber (w_db (retypedWorld ''number'' retypedItems))"
  by code_simp


definition badDateItem :: ItemDbRow where
  "badDateItem = exampleItem ''d1'' ''i1'' [(''n'', JStr ''2024-13-45T99:99:99.999Z'')] None"

definition badDateWorld :: world where
  "badDateWorld = snd (runPropertyTypeMigrationJob (exampleRun [exampleTx]) exampleJs ''p'' PtText
     (retypedWorld ''date'' [badDateItem]))"

definition badDateProperty :: PropertyDbRow where
  "badDateProperty = (retypedProperty ''date'')\<lparr>rpr_migration_status := ''done''\<rparr>"

lemma badDate_eval:
  "runPropertyTypeMigrationJob (exampleRun [exampleTx]) exampleJs ''p'' PtText (retypedWorld ''date'' [badDateItem]) =
     (Inr True, badDateWorld)"
  "t_properties (w_db badDateWorld) = [badDateProperty]"
  "migratable exampleJs (retypedProperty ''date'') PtText PtDate (w_db (retypedWorld ''date'' [badDateItem]))"
  "CONVERTED_DATE_SHAPE ''2024-13-45T99:99:99.999Z''"
  by code_simp+

theorem unparsable_date_kept_witness:
  "map itemView (t_items (w_db badDateWorld)) = [(''d1'', ''i1'', [(''n'', JStr ''2024-13-45T99:99:99.999Z'')])]"
proof -
  have p: "rpr_id (retypedProperty ''date'') = ''p''" by (simp add: retypedProperty_def exampleProperty_def)
  have "convertPropertyValue exampleJs PtText PtDate (JStr ''2024-13-45T99:99:99.999Z'') = None \<and>
      map itemView (t_items (w_db badDateWorld)) = [itemView badDateItem] \<and> rpr_migration_status badDateProperty = ''done''"
    by (rule unparsable_date_kept [OF badDate_eval(3), unfolded p, OF _ _ _ badDate_eval(4) _ _ badDate_eval(1)])
      (simp_all add: badDate_eval(2) retypedWorld_def badDateItem_def exampleItem_def retypedProperty_def
        exampleProperty_def exampleJs_def badDateProperty_def)
  then show ?thesis by (simp add: itemView_def badDateItem_def exampleItem_def)
qed

end
