(* ===== verification/Filters.thy ===== *)
theory Filters
  imports JsonParsers RelationsStore
begin

text \<open>
  Filter trees (\<open>views/filterTree.ts\<close>), their compilation to SQL text and bound parameters
  (\<open>views/filterCompiler.ts\<close>), and what the compiler knows of a database's properties
  (\<open>views/filterProperties.ts\<close>). The compiler takes the parameters bound so far and answers the
  text with the parameters after it, as the array the source pushes on. Two library functions are
  parameters: zod's \<open>z.uuid()\<close> check and JavaScript's text of a number.
\<close>

section \<open>Filter trees\<close>

datatype scalarValue = ScStr string | ScNum rat | ScBool bool

datatype scalarOp = OpEquals | OpNotEquals
datatype textOp = OpContains | OpNotContains | OpStartsWith | OpEndsWith
datatype emptyOp = OpIsEmpty | OpIsNotEmpty
datatype dateOp = OpBefore | OpAfter | OpOnOrBefore | OpOnOrAfter
datatype relationOp = OpRelationContains | OpRelationNotContains

text \<open>One constructor for each member of the source's union.\<close>

datatype FilterCondition =
    ScalarCondition scalarOp string scalarValue
  | TextCondition textOp string string
  | EmptyCondition emptyOp string
  | DateCondition dateOp string string
  | DateRangeCondition string string string
  | InCondition string "string list"
  | RelationCondition relationOp string string
  | RelationPathCondition string string string

datatype FilterNode =
    ConditionNode FilterCondition
  | AndNode "FilterNode list"
  | OrNode "FilterNode list"
  | NotNode FilterNode

definition SCALAR_OPS :: "(string \<times> scalarOp) list" where
  "SCALAR_OPS = [(''equals'', OpEquals), (''not_equals'', OpNotEquals)]"

definition TEXT_OPS :: "(string \<times> textOp) list" where
  "TEXT_OPS = [(''contains'', OpContains), (''not_contains'', OpNotContains),
     (''starts_with'', OpStartsWith), (''ends_with'', OpEndsWith)]"

definition EMPTY_OPS :: "(string \<times> emptyOp) list" where
  "EMPTY_OPS = [(''is_empty'', OpIsEmpty), (''is_not_empty'', OpIsNotEmpty)]"

definition DATE_OPS :: "(string \<times> dateOp) list" where
  "DATE_OPS = [(''before'', OpBefore), (''after'', OpAfter), (''on_or_before'', OpOnOrBefore),
     (''on_or_after'', OpOnOrAfter)]"

definition RELATION_OPS :: "(string \<times> relationOp) list" where
  "RELATION_OPS = [(''relation_contains'', OpRelationContains), (''relation_not_contains'', OpRelationNotContains)]"

definition strValue :: "json \<Rightarrow> string option" where
  "strValue v = (case v of JStr s \<Rightarrow> Some s | _ \<Rightarrow> None)"

definition scalarSchema :: "json \<Rightarrow> scalarValue option" where
  "scalarSchema v =
     (case v of JStr s \<Rightarrow> Some (ScStr s) | JNum q \<Rightarrow> Some (ScNum q) | JBool b \<Rightarrow> Some (ScBool b) | _ \<Rightarrow> None)"

definition nonEmpty :: "'a list \<Rightarrow> 'a list option" where
  "nonEmpty xs = (if xs = [] then None else Some xs)"

definition uuidSchema :: "(string \<Rightarrow> bool) \<Rightarrow> json \<Rightarrow> string option" where
  "uuidSchema zodUuid v = (case v of JStr s \<Rightarrow> if zodUuid s then Some s else None | _ \<Rightarrow> None)"

definition rangeSchema :: "json \<Rightarrow> (string \<times> string) option" where
  "rangeSchema = object (\<lambda>m.
     Option.bind (required m ''from'' strValue) (\<lambda>f.
     Option.bind (required m ''to'' strValue) (\<lambda>t. Some (f, t))))"

definition pathSchema :: "json \<Rightarrow> (string \<times> string) option" where
  "pathSchema v =
     (case v of
        JArr [a, b] \<Rightarrow> Option.bind (strMin1 a) (\<lambda>k1. Option.bind (strMin1 b) (\<lambda>k2. Some (k1, k2)))
      | _ \<Rightarrow> None)"

text \<open>\<open>withProperty m c\<close>: the object's property key, a non-empty string, handed to \<open>c\<close>.\<close>

definition withProperty :: "obj \<Rightarrow> (string \<Rightarrow> 'a option) \<Rightarrow> 'a option" where
  "withProperty m c = Option.bind (required m ''property'' strMin1) c"

definition filterConditionSchema :: "(string \<Rightarrow> bool) \<Rightarrow> string \<Rightarrow> obj \<Rightarrow> FilterCondition option" where
  "filterConditionSchema zodUuid ty m =
     (case map_of SCALAR_OPS ty of
        Some operator \<Rightarrow> withProperty m (\<lambda>p.
          map_option (ScalarCondition operator p) (required m ''value'' scalarSchema))
      | None \<Rightarrow>
     (case map_of TEXT_OPS ty of
        Some operator \<Rightarrow> withProperty m (\<lambda>p.
          map_option (TextCondition operator p) (required m ''value'' strValue))
      | None \<Rightarrow>
     (case map_of EMPTY_OPS ty of
        Some operator \<Rightarrow> withProperty m (\<lambda>p. Some (EmptyCondition operator p))
      | None \<Rightarrow>
     (case map_of DATE_OPS ty of
        Some operator \<Rightarrow> withProperty m (\<lambda>p.
          map_option (DateCondition operator p) (required m ''value'' strValue))
      | None \<Rightarrow>
     (case map_of RELATION_OPS ty of
        Some operator \<Rightarrow> withProperty m (\<lambda>p.
          map_option (RelationCondition operator p) (required m ''value'' (uuidSchema zodUuid)))
      | None \<Rightarrow>
     (if ty = ''date_range'' then withProperty m (\<lambda>p.
        map_option (\<lambda>(f, t). DateRangeCondition p f t) (required m ''value'' rangeSchema))
      else if ty = ''in'' then withProperty m (\<lambda>p.
        map_option (InCondition p) (Option.bind (required m ''value'' (arrayOf strValue)) nonEmpty))
      else if ty = ''relation_path_contains'' \<and> set (keysOf m) \<subseteq> {''type'', ''path'', ''value''}
      then Option.bind (required m ''path'' pathSchema) (\<lambda>(k1, k2).
        map_option (RelationPathCondition k1 k2) (required m ''value'' (uuidSchema zodUuid)))
      else None))))))"

function filterNodeSchema :: "(string \<Rightarrow> bool) \<Rightarrow> json \<Rightarrow> FilterNode option" where
  "filterNodeSchema zodUuid (JObj m) =
     (case asStr (map_of m ''type'') of
        None \<Rightarrow> None
      | Some ty \<Rightarrow>
          if ty = ''and'' \<or> ty = ''or''
          then (case map_of m ''nodes'' of
                  Some (JArr vs) \<Rightarrow>
                    map_option (if ty = ''and'' then AndNode else OrNode)
                      (Option.bind (allSome (map (filterNodeSchema zodUuid) vs)) nonEmpty)
                | _ \<Rightarrow> None)
          else if ty = ''not''
          then (case map_of m ''node'' of
                  None \<Rightarrow> None
                | Some v \<Rightarrow> map_option NotNode (filterNodeSchema zodUuid v))
          else map_option ConditionNode (filterConditionSchema zodUuid ty m))"
| "filterNodeSchema zodUuid JNull = None"
| "filterNodeSchema zodUuid (JBool b) = None"
| "filterNodeSchema zodUuid (JNum q) = None"
| "filterNodeSchema zodUuid (JStr s) = None"
| "filterNodeSchema zodUuid (JArr vs) = None"
  by pat_completeness auto

termination
  by (relation "measure (size \<circ> snd)") (auto dest!: size_field size_element simp del: json.size)

definition parseFilterNode :: "(string \<Rightarrow> bool) \<Rightarrow> json \<Rightarrow> error + FilterNode" where
  "parseFilterNode zodUuid raw =
     (case filterNodeSchema zodUuid raw of
        None \<Rightarrow> Inl (ValidationError (Some ''filter'')) | Some node \<Rightarrow> Inr node)"

section \<open>What the compiler knows of a property\<close>

datatype edgeSide = SideA | SideB

record RelationTarget =
  rt_definitionId :: "id option"
  rt_side :: "edgeSide option"

record FilterProperty =
  fp_type :: PropertyType
  fp_relation :: RelationTarget
  fp_targetDatabaseId :: "id option"
  fp_targetRelationProperties :: "(string \<times> RelationTarget) list option"

type_synonym FilterProperties = "(string \<times> FilterProperty) list"

definition noRelation :: RelationTarget where
  "noRelation = \<lparr>rt_definitionId = None, rt_side = None\<rparr>"

text \<open>
  A row of the join of the targets' relation properties with the definitions that name them, on
  either side: one row per such definition, one row without a definition when there is none.
\<close>

definition targetRows :: "id list \<Rightarrow> db \<Rightarrow> (id \<times> string \<times> RelationTarget) list" where
  "targetRows databaseIds d =
     concat (map (\<lambda>p.
       let defs = filter (\<lambda>r. rrd_property_id_a r = rpr_id p \<or> rrd_property_id_b r = Some (rpr_id p))
             (t_relation_definitions d) in
       if defs = [] then [(rpr_database_id p, rpr_key p, noRelation)]
       else map (\<lambda>r. (rpr_database_id p, rpr_key p,
              \<lparr>rt_definitionId = Some (rrd_id r),
               rt_side = Some (if rrd_property_id_a r = rpr_id p then SideA else SideB)\<rparr>)) defs)
       (filter (\<lambda>p. rpr_database_id p \<in> set databaseIds \<and> rpr_type p = ''relation'') (t_properties d)))"

definition targetRelations :: "(id \<times> string \<times> RelationTarget) list \<Rightarrow> id \<Rightarrow> (string \<times> RelationTarget) list option" where
  "targetRelations rows databaseId =
     (let own = filter (\<lambda>row. fst row = databaseId) rows in
      if own = [] then None else Some (fold (\<lambda>(_, key, target). AList.update key target) own []))"

definition targetIdOf :: "(string \<Rightarrow> bool) \<Rightarrow> PropertyRow \<Rightarrow> id option" where
  "targetIdOf zodUuid property =
     (if pr_type property = PtRelation
      then Option.bind (map_of (pr_config property) ''targetDatabaseId'') (uuidSchema zodUuid) else None)"

definition filterPropertyOf ::
  "(string \<Rightarrow> bool) \<Rightarrow> (id \<times> RelationDefinitionRow) list \<Rightarrow> (id \<times> string \<times> RelationTarget) list \<Rightarrow>
   PropertyRow \<Rightarrow> FilterProperty" where
  "filterPropertyOf zodUuid definitions rows property =
     (if pr_type property \<noteq> PtRelation
      then \<lparr>fp_type = pr_type property, fp_relation = noRelation, fp_targetDatabaseId = None,
            fp_targetRelationProperties = None\<rparr>
      else
        \<lparr>fp_type = PtRelation,
         fp_relation = (case map_of definitions (pr_id property) of
             None \<Rightarrow> noRelation
           | Some definition \<Rightarrow> \<lparr>rt_definitionId = Some (rd_id definition),
               rt_side = Some (if rd_propertyIdA definition = pr_id property then SideA else SideB)\<rparr>),
         fp_targetDatabaseId = targetIdOf zodUuid property,
         fp_targetRelationProperties = (case targetIdOf zodUuid property of
             None \<Rightarrow> targetRelations rows '''' | Some databaseId \<Rightarrow> targetRelations rows databaseId)\<rparr>)"

definition buildFilterProperties :: "(string \<Rightarrow> bool) \<Rightarrow> PropertyRow list \<Rightarrow> FilterProperties op" where
  "buildFilterProperties zodUuid properties =
     bnd (getRelationDefinitionsByPropertyIds
            (map pr_id (filter (\<lambda>p. pr_type p = PtRelation) properties))) (\<lambda>definitions.
     let targets = List.map_filter (targetIdOf zodUuid) properties in
     bnd (if targets = [] then return [] else query (targetRows (jsSet targets))) (\<lambda>rows.
     return (fold (\<lambda>p. AList.update (pr_key p) (filterPropertyOf zodUuid definitions rows p)) properties [])))"

section \<open>Compilation\<close>

text \<open>A bound parameter: a text, a JSON value bound as its text, or an array of texts.\<close>

datatype sqlParam = TextParam string | JsonParam json | TextsParam "string list" | NumParam nat

definition dollar :: "nat \<Rightarrow> string" where
  "dollar n = CHR ''$'' # natText n"

text \<open>\<open>params.push(v)\<close> with the placeholder of the pushed value.\<close>

definition ref :: "sqlParam list \<Rightarrow> string" where
  "ref params = dollar (length params)"

fun joinWith :: "string \<Rightarrow> string list \<Rightarrow> string" where
  "joinWith sep [] = []"
| "joinWith sep [x] = x"
| "joinWith sep (x # y # xs) = x @ sep @ joinWith sep (y # xs)"

definition ownSide :: "edgeSide \<Rightarrow> string" where
  "ownSide side = (case side of SideA \<Rightarrow> ''item_a'' | SideB \<Rightarrow> ''item_b'')"

definition targetSide :: "edgeSide \<Rightarrow> string" where
  "targetSide side = (case side of SideA \<Rightarrow> ''item_b'' | SideB \<Rightarrow> ''item_a'')"

type_synonym compiled = "error + string \<times> sqlParam list"

definition compileRelationCondition ::
  "relationOp \<Rightarrow> string \<Rightarrow> string \<Rightarrow> FilterProperty \<Rightarrow> sqlParam list \<Rightarrow> compiled" where
  "compileRelationCondition operator key value property params =
     (case rt_side (fp_relation property) of
        Some side \<Rightarrow>
          if \<not> truthy (rt_definitionId (fp_relation property)) then Inl (ValidationError (Some key))
          else
            let params1 = params @ [TextParam (the (rt_definitionId (fp_relation property)))];
                params2 = params1 @ [TextParam value];
                existsSql = ''EXISTS (SELECT 1 FROM item_relations r WHERE r.relation_definition_id = ''
                  @ ref params1 @ '' AND r.'' @ ownSide side @ '' = items.id AND r.'' @ targetSide side
                  @ '' = '' @ ref params2 @ ''::uuid)''
            in Inr (case operator of
                      OpRelationContains \<Rightarrow> existsSql
                    | OpRelationNotContains \<Rightarrow> ''(NOT '' @ existsSql @ '')'', params2)
      | None \<Rightarrow> Inl (ValidationError (Some key)))"

definition relationPathSql ::
  "edgeSide \<Rightarrow> edgeSide \<Rightarrow> string \<Rightarrow> string \<Rightarrow> string \<Rightarrow> string \<Rightarrow> string" where
  "relationPathSql side1 side2 firstRef databaseRef secondRef valueRef =
     joinWith [CHR 0x0A]
       [''EXISTS ('',
        ''    SELECT 1 FROM item_relations path_first'',
        ''    CROSS JOIN LATERAL ('',
        ''      SELECT intermediate.id FROM items intermediate'',
        ''      WHERE intermediate.database_id = '' @ databaseRef @ ''::uuid'',
        ''        AND intermediate.id = path_first.'' @ targetSide side1,
        ''        AND intermediate.deleted_at IS NULL'',
        ''      OFFSET 0'',
        ''    ) path_intermediate'',
        ''    WHERE path_first.relation_definition_id = '' @ firstRef,
        ''      AND path_first.'' @ ownSide side1 @ '' = items.id'',
        ''      AND EXISTS ('',
        ''        SELECT 1 FROM item_relations path_second'',
        ''        WHERE path_second.relation_definition_id = '' @ secondRef,
        ''          AND path_second.'' @ ownSide side2 @ '' = path_intermediate.id'',
        ''          AND path_second.'' @ targetSide side2 @ '' = '' @ valueRef @ ''::uuid'',
        ''      )'',
        ''  )'']"

definition compileRelationPathCondition ::
  "string \<Rightarrow> string \<Rightarrow> string \<Rightarrow> FilterProperties \<Rightarrow> sqlParam list \<Rightarrow> compiled" where
  "compileRelationPathCondition key1 key2 value properties params =
     (let firstProperty = map_of properties key1;
          second = Option.bind firstProperty (\<lambda>f.
            Option.bind (fp_targetRelationProperties f) (\<lambda>m. map_of m key2));
          unresolved = Inl (ValidationError (Some ''filter'')) in
      case (firstProperty, second) of
        (Some f, Some s) \<Rightarrow>
          (case (rt_side (fp_relation f), rt_side s) of
             (Some side1, Some side2) \<Rightarrow>
               if fp_type f \<noteq> PtRelation \<or> \<not> truthy (rt_definitionId (fp_relation f))
                  \<or> \<not> truthy (fp_targetDatabaseId f) \<or> \<not> truthy (rt_definitionId s)
               then unresolved
               else
                 let params1 = params @ [TextParam (the (rt_definitionId (fp_relation f)))];
                     params2 = params1 @ [TextParam (the (fp_targetDatabaseId f))];
                     params3 = params2 @ [TextParam (the (rt_definitionId s))];
                     params4 = params3 @ [TextParam value]
                 in Inr (relationPathSql side1 side2 (ref params1) (ref params2) (ref params3) (ref params4), params4)
           | _ \<Rightarrow> unresolved)
      | _ \<Rightarrow> unresolved)"

text \<open>The escape character before each of \<open>\\<close>, \<open>%\<close> and \<open>_\<close>.\<close>

definition escapeLikePattern :: "string \<Rightarrow> string" where
  "escapeLikePattern value =
     concat (map (\<lambda>c. if c \<in> {CHR 92, CHR ''%'', CHR ''_''} then [CHR 92, c] else [c]) value)"

definition scalarText :: "(rat \<Rightarrow> string) \<Rightarrow> scalarValue \<Rightarrow> string" where
  "scalarText numText value =
     (case value of ScStr s \<Rightarrow> s | ScNum q \<Rightarrow> numText q | ScBool b \<Rightarrow> if b then ''true'' else ''false'')"

definition conditionKey :: "FilterCondition \<Rightarrow> string" where
  "conditionKey condition =
     (case condition of
        ScalarCondition _ p _ \<Rightarrow> p | TextCondition _ p _ \<Rightarrow> p | EmptyCondition _ p \<Rightarrow> p
      | DateCondition _ p _ \<Rightarrow> p | DateRangeCondition p _ _ \<Rightarrow> p | InCondition p _ \<Rightarrow> p
      | RelationCondition _ p _ \<Rightarrow> p | RelationPathCondition p _ _ \<Rightarrow> p)"

definition isRelationCondition :: "FilterCondition \<Rightarrow> bool" where
  "isRelationCondition condition = (case condition of RelationCondition _ _ _ \<Rightarrow> True | _ \<Rightarrow> False)"

text \<open>\<open>' ESCAPE '\''\<close>, and the two quotes of the empty SQL text.\<close>

definition escapeClause :: string where
  "escapeClause = '' ESCAPE '' @ [CHR 39, CHR 92, CHR 39]"

definition emptyText :: string where
  "emptyText = [CHR 39, CHR 39]"

definition quoted :: "string \<Rightarrow> string" where
  "quoted s = [CHR 39] @ s @ [CHR 39]"

definition likePattern :: "textOp \<Rightarrow> string \<Rightarrow> string" where
  "likePattern operator value =
     (case operator of
        OpStartsWith \<Rightarrow> escapeLikePattern value @ ''%''
      | OpEndsWith \<Rightarrow> ''%'' @ escapeLikePattern value
      | _ \<Rightarrow> ''%'' @ escapeLikePattern value @ ''%'')"

definition dateComparison :: "dateOp \<Rightarrow> string" where
  "dateComparison operator =
     (case operator of OpBefore \<Rightarrow> ''<'' | OpAfter \<Rightarrow> ''>'' | OpOnOrBefore \<Rightarrow> ''<='' | OpOnOrAfter \<Rightarrow> ''>='')"

text \<open>The conditions on a value: \<open>keyed\<close> are the parameters with the property key pushed last.\<close>

definition compileValueCondition ::
  "(rat \<Rightarrow> string) \<Rightarrow> FilterCondition \<Rightarrow> PropertyType \<Rightarrow> sqlParam list \<Rightarrow> string \<times> sqlParam list" where
  "compileValueCondition numText condition ty keyed =
     (let column = (if ty = PtRollup then ''computed'' else ''properties'');
          textField = column @ '' ->> '' @ ref keyed;
          jsonField = column @ '' -> '' @ ref keyed;
          isMultiSelect = (ty = PtMultiSelect);
          nullJson = quoted ''null'' @ ''::jsonb'';
          emptyJson = quoted ''[]'' @ ''::jsonb'' in
      case condition of
        ScalarCondition operator _ value \<Rightarrow>
          let ps = keyed @ [TextParam (scalarText numText value)] in
          (case operator of
             OpEquals \<Rightarrow> (textField @ '' = '' @ ref ps, ps)
           | OpNotEquals \<Rightarrow> (''('' @ textField @ '' IS DISTINCT FROM '' @ ref ps @ '')'', ps))
      | TextCondition operator _ value \<Rightarrow>
          let ps = keyed @ [TextParam (likePattern operator value)] in
          (if operator = OpNotContains
           then (''('' @ textField @ '' IS NULL OR '' @ textField @ '' NOT ILIKE '' @ ref ps @ escapeClause @ '')'', ps)
           else (textField @ '' ILIKE '' @ ref ps @ escapeClause, ps))
      | EmptyCondition operator _ \<Rightarrow>
          (case operator of
             OpIsEmpty \<Rightarrow>
               (if isMultiSelect
                then ''('' @ jsonField @ '' IS NULL OR '' @ jsonField @ '' = '' @ nullJson @ '' OR '' @ jsonField
                       @ '' = '' @ emptyJson @ '')''
                else ''('' @ textField @ '' IS NULL OR '' @ textField @ '' = '' @ emptyText @ '')'', keyed)
           | OpIsNotEmpty \<Rightarrow>
               (if isMultiSelect
                then ''('' @ jsonField @ '' IS NOT NULL AND '' @ jsonField @ '' != '' @ nullJson @ '' AND ''
                       @ jsonField @ '' != '' @ emptyJson @ '')''
                else ''('' @ textField @ '' IS NOT NULL AND '' @ textField @ '' != '' @ emptyText @ '')'', keyed))
      | DateCondition operator _ value \<Rightarrow>
          let ps = keyed @ [TextParam value] in
          (''('' @ textField @ '')::timestamptz '' @ dateComparison operator @ '' '' @ ref ps @ ''::timestamptz'', ps)
      | DateRangeCondition _ f t \<Rightarrow>
          let ps1 = keyed @ [TextParam f]; ps2 = ps1 @ [TextParam t] in
          (''('' @ textField @ '')::timestamptz BETWEEN '' @ ref ps1 @ ''::timestamptz AND '' @ ref ps2
             @ ''::timestamptz'', ps2)
      | InCondition _ values \<Rightarrow>
          let ps = keyed @ [TextsParam values] in
          (if isMultiSelect then jsonField @ '' ?| '' @ ref ps @ ''::text[]''
           else textField @ '' = ANY('' @ ref ps @ ''::text[])'', ps)
      | _ \<Rightarrow> (textField, keyed))"

definition compileCondition ::
  "(rat \<Rightarrow> string) \<Rightarrow> FilterCondition \<Rightarrow> FilterProperties \<Rightarrow> sqlParam list \<Rightarrow> compiled" where
  "compileCondition numText condition properties params =
     (case condition of
        RelationPathCondition k1 k2 value \<Rightarrow> compileRelationPathCondition k1 k2 value properties params
      | _ \<Rightarrow>
          (let key = conditionKey condition in
           case map_of properties key of
             None \<Rightarrow> Inl (ValidationError (Some key))
           | Some property \<Rightarrow>
               if isRelationCondition condition \<noteq> (fp_type property = PtRelation)
               then Inl (ValidationError (Some key))
               else (case condition of
                       RelationCondition operator _ value \<Rightarrow>
                         compileRelationCondition operator key value property params
                     | _ \<Rightarrow> Inr (compileValueCondition numText condition (fp_type property)
                                  (params @ [TextParam key])))))"

fun compileFilterNode ::
  "(rat \<Rightarrow> string) \<Rightarrow> FilterNode \<Rightarrow> FilterProperties \<Rightarrow> sqlParam list \<Rightarrow> compiled"
and compileFilterNodes ::
  "(rat \<Rightarrow> string) \<Rightarrow> FilterNode list \<Rightarrow> FilterProperties \<Rightarrow> sqlParam list \<Rightarrow> error + string list \<times> sqlParam list" where
  "compileFilterNode numText (ConditionNode condition) properties params =
     compileCondition numText condition properties params"
| "compileFilterNode numText (AndNode nodes) properties params =
     map_sum id (\<lambda>(texts, ps). (''('' @ joinWith '' AND '' texts @ '')'', ps))
       (compileFilterNodes numText nodes properties params)"
| "compileFilterNode numText (OrNode nodes) properties params =
     map_sum id (\<lambda>(texts, ps). (''('' @ joinWith '' OR '' texts @ '')'', ps))
       (compileFilterNodes numText nodes properties params)"
| "compileFilterNode numText (NotNode node) properties params =
     map_sum id (\<lambda>(text, ps). (''(NOT '' @ text @ '')'', ps)) (compileFilterNode numText node properties params)"
| "compileFilterNodes numText [] properties params = Inr ([], params)"
| "compileFilterNodes numText (node # nodes) properties params =
     (case compileFilterNode numText node properties params of
        Inl e \<Rightarrow> Inl e
      | Inr (text, ps) \<Rightarrow>
          map_sum id (\<lambda>(texts, ps'). (text # texts, ps')) (compileFilterNodes numText nodes properties ps))"

end
