(* ===== verification/Sorts.thy ===== *)
theory Sorts
  imports Filters Rollup
begin

text \<open>
  Sort specifications (\<open>views/sortSpec.ts\<close>) and their compilation (\<open>views/sortCompiler.ts\<close>) to
  the \<open>ORDER BY\<close> clauses of a query and to the predicate that resumes it after a row. The SQL is
  built as a list of clauses or tests, which is rendered to the text the source returns and which
  is also given its meaning on a row: the values and orders of Postgres are modelled, its casts
  and its collation are the parameter \<open>postgres\<close>.
\<close>

section \<open>Sort specifications\<close>

datatype sortDirection = Asc | Desc

record SortSpec =
  so_property :: string
  so_direction :: sortDirection

definition DIRECTIONS :: "(string \<times> sortDirection) list" where
  "DIRECTIONS = [(''asc'', Asc), (''desc'', Desc)]"

definition sortSpecSchema :: "json \<Rightarrow> SortSpec option" where
  "sortSpecSchema = object (\<lambda>m.
     Option.bind (required m ''property'' strMin1) (\<lambda>p.
     Option.bind (required m ''direction'' (enum DIRECTIONS)) (\<lambda>d.
     Some \<lparr>so_property = p, so_direction = d\<rparr>)))"

definition sortConfigSchema :: "json \<Rightarrow> SortSpec list option" where
  "sortConfigSchema = arrayOf sortSpecSchema"

section \<open>Compilation\<close>

datatype sortCast = CastNumeric | CastTimestamptz | CastNone

definition castSql :: "sortCast \<Rightarrow> string" where
  "castSql c = (case c of CastNumeric \<Rightarrow> ''::numeric'' | CastTimestamptz \<Rightarrow> ''::timestamptz'' | CastNone \<Rightarrow> '''')"

type_synonym SortProperties = "(string \<times> PropertyRow) list"

definition sortKeyCast :: "PropertyRow \<Rightarrow> error + sortCast" where
  "sortKeyCast property =
     (if pr_type property = PtRollup
      then (case parseRollupConfig (pr_config property) of
              Inl e \<Rightarrow> Inl e
            | Inr config \<Rightarrow>
                Inr (if rc_aggregation config \<in> {AggEarliest, AggLatest} then CastTimestamptz else CastNumeric))
      else Inr (case pr_type property of
                  PtNumber \<Rightarrow> CastNumeric | PtDate \<Rightarrow> CastTimestamptz | _ \<Rightarrow> CastNone))"

definition lookupSortProperty :: "SortSpec \<Rightarrow> SortProperties \<Rightarrow> error + PropertyRow" where
  "lookupSortProperty spec properties =
     (case map_of properties (so_property spec) of
        None \<Rightarrow> Inl (ValidationError (Some (so_property spec))) | Some property \<Rightarrow> Inr property)"

text \<open>\<open>(column ->> $key)::cast\<close>: whether the column is \<open>computed\<close>, the key's placeholder, the cast.\<close>

record keyExpr =
  ke_computed :: bool
  ke_key :: nat
  ke_cast :: sortCast

definition keyExprSql :: "keyExpr \<Rightarrow> string" where
  "keyExprSql e =
     ''('' @ (if ke_computed e then ''computed'' else ''properties'') @ '' ->> '' @ dollar (ke_key e) @ '')''
       @ castSql (ke_cast e)"

definition sortKeyExpression :: "SortSpec \<Rightarrow> PropertyRow \<Rightarrow> sqlParam list \<Rightarrow> error + keyExpr \<times> sqlParam list" where
  "sortKeyExpression spec property params =
     (let ps = params @ [TextParam (so_property spec)] in
      map_sum id (\<lambda>c. (\<lparr>ke_computed = (pr_type property = PtRollup), ke_key = length ps, ke_cast = c\<rparr>, ps))
        (sortKeyCast property))"

text \<open>The clauses of \<open>compileSort\<close>: a key expression and its direction, each \<open>NULLS LAST\<close>.\<close>

fun sortClauses ::
  "SortSpec list \<Rightarrow> SortProperties \<Rightarrow> sqlParam list \<Rightarrow> error + (keyExpr \<times> sortDirection) list \<times> sqlParam list" where
  "sortClauses [] properties params = Inr ([], params)"
| "sortClauses (spec # sorts) properties params =
     (case lookupSortProperty spec properties of
        Inl e \<Rightarrow> Inl e
      | Inr property \<Rightarrow>
          (case sortKeyExpression spec property params of
             Inl e \<Rightarrow> Inl e
           | Inr (expr, ps) \<Rightarrow>
               map_sum id (\<lambda>(clauses, ps'). ((expr, so_direction spec) # clauses, ps'))
                 (sortClauses sorts properties ps)))"

definition clauseSql :: "keyExpr \<times> sortDirection \<Rightarrow> string" where
  "clauseSql clause =
     keyExprSql (fst clause) @ (case snd clause of Asc \<Rightarrow> '' ASC'' | Desc \<Rightarrow> '' DESC'') @ '' NULLS LAST''"

definition compileSort :: "SortSpec list \<Rightarrow> SortProperties \<Rightarrow> sqlParam list \<Rightarrow> compiled" where
  "compileSort sorts properties params =
     map_sum id (\<lambda>(clauses, ps). (joinWith '', '' (map clauseSql clauses), ps)) (sortClauses sorts properties params)"

text \<open>
  The tests of a keyset predicate. A bound cursor value is \<open>($n::jsonb #>> '{}')::cast\<close>: its
  placeholder, under the cast of the expression it is compared with.
\<close>

datatype keysetTest =
    TestFalse
  | TestIsNull keyExpr
  | TestSame keyExpr nat
  | TestAfter keyExpr sortDirection nat
  | TestIdAfter nat

definition boundSql :: "keyExpr \<Rightarrow> nat \<Rightarrow> string" where
  "boundSql e n = ''('' @ dollar n @ ''::jsonb #>> '' @ quoted ''{}'' @ '')'' @ castSql (ke_cast e)"

definition testSql :: "keysetTest \<Rightarrow> string" where
  "testSql t =
     (case t of
        TestFalse \<Rightarrow> ''FALSE''
      | TestIsNull e \<Rightarrow> keyExprSql e @ '' IS NULL''
      | TestSame e n \<Rightarrow> keyExprSql e @ '' = '' @ boundSql e n
      | TestAfter e d n \<Rightarrow>
          ''('' @ keyExprSql e @ (case d of Asc \<Rightarrow> '' > '' | Desc \<Rightarrow> '' < '') @ boundSql e n @ '' OR ''
            @ keyExprSql e @ '' IS NULL)''
      | TestIdAfter n \<Rightarrow> ''id > '' @ dollar n)"

text \<open>The keys of \<open>compileSortKeyset\<close>: the \<open>after\<close> and the \<open>same\<close> test of each sort.\<close>

fun keysetKeys ::
  "SortSpec list \<Rightarrow> SortProperties \<Rightarrow> json list \<Rightarrow> sqlParam list \<Rightarrow>
   error + (keysetTest \<times> keysetTest) list \<times> sqlParam list" where
  "keysetKeys [] properties values params = Inr ([], params)"
| "keysetKeys (spec # sorts) properties values params =
     (case lookupSortProperty spec properties of
        Inl e \<Rightarrow> Inl e
      | Inr property \<Rightarrow>
          (case sortKeyExpression spec property params of
             Inl e \<Rightarrow> Inl e
           | Inr (expr, ps) \<Rightarrow>
               (let value = (case values of [] \<Rightarrow> JNull | v # _ \<Rightarrow> v);
                    ps1 = (if value = JNull then ps else ps @ [JsonParam value]);
                    key = (if value = JNull then (TestFalse, TestIsNull expr)
                           else (TestAfter expr (so_direction spec) (length ps1), TestSame expr (length ps1)))
                in map_sum id (\<lambda>(keys, ps'). (key # keys, ps')) (keysetKeys sorts properties (tl values) ps1))))"

definition keysetBranches :: "(keysetTest \<times> keysetTest) list \<Rightarrow> keysetTest \<Rightarrow> keysetTest list list" where
  "keysetBranches keys idAfter =
     map (\<lambda>i. map snd (take i keys) @ [fst (keys ! i)]) [0..<length keys] @ [map snd keys @ [idAfter]]"

definition sortKeyset ::
  "SortSpec list \<Rightarrow> SortProperties \<Rightarrow> json list \<times> id \<Rightarrow> sqlParam list \<Rightarrow>
   error + keysetTest list list \<times> sqlParam list" where
  "sortKeyset sorts properties cursor params =
     map_sum id (\<lambda>(keys, ps).
         let ps' = ps @ [TextParam (snd cursor)] in (keysetBranches keys (TestIdAfter (length ps')), ps'))
       (keysetKeys sorts properties (fst cursor) params)"

definition compileSortKeyset ::
  "SortSpec list \<Rightarrow> SortProperties \<Rightarrow> json list \<times> id \<Rightarrow> sqlParam list \<Rightarrow> compiled" where
  "compileSortKeyset sorts properties cursor params =
     map_sum id (\<lambda>(branches, ps).
         (''('' @ joinWith '' OR '' (map (\<lambda>b. ''('' @ joinWith '' AND '' (map testSql b) @ '')'') branches) @ '')'', ps))
       (sortKeyset sorts properties cursor params)"

end
