(* ===== verification/ViewConfig.thy ===== *)
theory ViewConfig
  imports Sorts
begin

text \<open>
  View configurations (\<open>views/viewConfig.ts\<close>): the parsed configuration, the JSON it is stored as,
  and the projection of an item's properties. Parsing keeps what the schema names, drops unknown
  keys inside filters and sorts, and keeps every other key of the object as it is. What is stored
  reads back as what was parsed.
\<close>

section \<open>Parsing\<close>

text \<open>\<open>z.record(z.string(), p)\<close>.\<close>

definition recordOf :: "(json \<Rightarrow> 'a option) \<Rightarrow> json \<Rightarrow> (string \<times> 'a) list option" where
  "recordOf p = object (\<lambda>m. allSome (map (\<lambda>(k, v). map_option (Pair k) (p v)) m))"

definition numValue :: "json \<Rightarrow> rat option" where
  "numValue v = (case v of JNum q \<Rightarrow> Some q | _ \<Rightarrow> None)"

definition manualLiteral :: "json \<Rightarrow> unit option" where
  "manualLiteral v = (if v = JStr ''manual'' then Some () else None)"

record ViewConfig =
  vc_propertyOrder :: "string list option"
  vc_visibility :: "(string \<times> bool) list option"
  vc_widths :: "(string \<times> rat) list option"
  vc_filter :: "FilterNode option"
  vc_sort :: "SortSpec list option"
  vc_groupBy :: "string option"
  vc_membership :: "unit option"
  vc_catchall :: obj

definition CONFIG_KEYS :: "string list" where
  "CONFIG_KEYS =
     [''propertyOrder'', ''visibility'', ''widths'', ''filter'', ''sort'', ''groupBy'', ''membership'']"

definition viewConfigSchema :: "(string \<Rightarrow> bool) \<Rightarrow> obj \<Rightarrow> ViewConfig option" where
  "viewConfigSchema zodUuid raw =
     Option.bind (optional raw ''propertyOrder'' (arrayOf strValue)) (\<lambda>propertyOrder.
     Option.bind (optional raw ''visibility'' (recordOf boolean)) (\<lambda>visibility.
     Option.bind (optional raw ''widths'' (recordOf numValue)) (\<lambda>widths.
     Option.bind (optional raw ''filter'' (filterNodeSchema zodUuid)) (\<lambda>filterNode.
     Option.bind (optional raw ''sort'' (arrayOf sortSpecSchema)) (\<lambda>sorts.
     Option.bind (optional raw ''groupBy'' strValue) (\<lambda>groupBy.
     Option.bind (optional raw ''membership'' manualLiteral) (\<lambda>membership.
     Some \<lparr>vc_propertyOrder = propertyOrder, vc_visibility = visibility, vc_widths = widths,
           vc_filter = filterNode, vc_sort = sorts, vc_groupBy = groupBy, vc_membership = membership,
           vc_catchall = filter (\<lambda>(k, _). k \<notin> set CONFIG_KEYS) raw\<rparr>)))))))"

definition parseViewConfig :: "(string \<Rightarrow> bool) \<Rightarrow> obj \<Rightarrow> error + ViewConfig" where
  "parseViewConfig zodUuid raw =
     (case viewConfigSchema zodUuid raw of
        None \<Rightarrow> Inl (ValidationError (Some ''config'')) | Some config \<Rightarrow> Inr config)"

section \<open>The stored JSON\<close>

definition scalarJson :: "scalarValue \<Rightarrow> json" where
  "scalarJson v = (case v of ScStr s \<Rightarrow> JStr s | ScNum q \<Rightarrow> JNum q | ScBool b \<Rightarrow> JBool b)"

definition opName :: "(string \<times> 'a) list \<Rightarrow> 'a \<Rightarrow> json" where
  "opName ops x = JStr (case find (\<lambda>p. snd p = x) ops of None \<Rightarrow> '''' | Some p \<Rightarrow> fst p)"

definition conditionJson :: "FilterCondition \<Rightarrow> obj" where
  "conditionJson condition =
     (case condition of
        ScalarCondition operator p v \<Rightarrow>
          [(''type'', opName SCALAR_OPS operator), (''property'', JStr p), (''value'', scalarJson v)]
      | TextCondition operator p v \<Rightarrow>
          [(''type'', opName TEXT_OPS operator), (''property'', JStr p), (''value'', JStr v)]
      | EmptyCondition operator p \<Rightarrow> [(''type'', opName EMPTY_OPS operator), (''property'', JStr p)]
      | DateCondition operator p v \<Rightarrow>
          [(''type'', opName DATE_OPS operator), (''property'', JStr p), (''value'', JStr v)]
      | DateRangeCondition p f t \<Rightarrow>
          [(''type'', JStr ''date_range''), (''property'', JStr p),
           (''value'', JObj [(''from'', JStr f), (''to'', JStr t)])]
      | InCondition p vs \<Rightarrow>
          [(''type'', JStr ''in''), (''property'', JStr p), (''value'', JArr (map JStr vs))]
      | RelationCondition operator p v \<Rightarrow>
          [(''type'', opName RELATION_OPS operator), (''property'', JStr p), (''value'', JStr v)]
      | RelationPathCondition k1 k2 v \<Rightarrow>
          [(''type'', JStr ''relation_path_contains''), (''path'', JArr [JStr k1, JStr k2]), (''value'', JStr v)])"

fun filterJson :: "FilterNode \<Rightarrow> json" where
  "filterJson (ConditionNode condition) = JObj (conditionJson condition)"
| "filterJson (AndNode nodes) = JObj [(''type'', JStr ''and''), (''nodes'', JArr (map filterJson nodes))]"
| "filterJson (OrNode nodes) = JObj [(''type'', JStr ''or''), (''nodes'', JArr (map filterJson nodes))]"
| "filterJson (NotNode node) = JObj [(''type'', JStr ''not''), (''node'', filterJson node)]"

definition sortSpecJson :: "SortSpec \<Rightarrow> json" where
  "sortSpecJson spec =
     JObj [(''property'', JStr (so_property spec)), (''direction'', opName DIRECTIONS (so_direction spec))]"

definition optionalField :: "string \<Rightarrow> ('a \<Rightarrow> json) \<Rightarrow> 'a option \<Rightarrow> obj" where
  "optionalField k f v = (case v of None \<Rightarrow> [] | Some x \<Rightarrow> [(k, f x)])"

text \<open>\<open>JSON.stringify(config)\<close>: the named keys in the schema's order, then the others.\<close>

definition viewConfigJson :: "ViewConfig \<Rightarrow> obj" where
  "viewConfigJson config =
     optionalField ''propertyOrder'' (JArr \<circ> map JStr) (vc_propertyOrder config)
     @ optionalField ''visibility'' (JObj \<circ> map (\<lambda>(k, b). (k, JBool b))) (vc_visibility config)
     @ optionalField ''widths'' (JObj \<circ> map (\<lambda>(k, q). (k, JNum q))) (vc_widths config)
     @ optionalField ''filter'' filterJson (vc_filter config)
     @ optionalField ''sort'' (JArr \<circ> map sortSpecJson) (vc_sort config)
     @ optionalField ''groupBy'' JStr (vc_groupBy config)
     @ optionalField ''membership'' (\<lambda>_. JStr ''manual'') (vc_membership config)
     @ vc_catchall config"

section \<open>Projection\<close>

text \<open>
  \<open>Object.keys\<close> of the properties in their order; each key of \<open>ordered\<close> is assigned in turn, so a
  key named twice stays where it was first.
\<close>

definition projectProperties :: "obj \<Rightarrow> ViewConfig \<Rightarrow> obj" where
  "projectProperties properties config =
     (let visible = (case vc_visibility config of
            None \<Rightarrow> keysOf properties
          | Some visibility \<Rightarrow> filter (\<lambda>key. map_of visibility key \<noteq> Some False) (keysOf properties));
          ordered = (case vc_propertyOrder config of
            None \<Rightarrow> visible
          | Some order \<Rightarrow> filter (\<lambda>key. key \<in> set visible) order @ filter (\<lambda>key. key \<notin> set order) visible)
      in fold (\<lambda>key m. setProp key (the (map_of properties key)) m) ordered [])"

section \<open>What is stored reads back\<close>

lemma allSome_list_all2: "(allSome (map f xs) = Some ys) = list_all2 (\<lambda>x y. f x = Some y) xs ys"
  by (induction xs arbitrary: ys) (auto simp: list_all2_Cons1 split: option.splits)

lemma allSome_inverse: "\<forall>y \<in> set ys. f (g y) = Some y \<Longrightarrow> allSome (map (f \<circ> g) ys) = Some ys"
  by (induction ys) auto

text \<open>The conditions that parsing can answer.\<close>

definition validCondition :: "(string \<Rightarrow> bool) \<Rightarrow> FilterCondition \<Rightarrow> bool" where
  "validCondition zodUuid condition =
     (case condition of
        InCondition p vs \<Rightarrow> p \<noteq> '''' \<and> vs \<noteq> []
      | RelationCondition _ p v \<Rightarrow> p \<noteq> '''' \<and> zodUuid v
      | RelationPathCondition k1 k2 v \<Rightarrow> k1 \<noteq> '''' \<and> k2 \<noteq> '''' \<and> zodUuid v
      | _ \<Rightarrow> conditionKey condition \<noteq> '''')"

lemma strMin1_Some [simp]: "strMin1 v = Some s \<longleftrightarrow> v = JStr s \<and> s \<noteq> ''''"
  by (auto simp: strMin1_def split: json.splits)

lemma uuidSchema_Some [simp]: "uuidSchema z v = Some s \<longleftrightarrow> v = JStr s \<and> z s"
  by (auto simp: uuidSchema_def split: json.splits)

lemma required_Some: "required m k p = Some x \<longleftrightarrow> (\<exists>v. map_of m k = Some v \<and> p v = Some x)"
  by (auto simp: required_def split: option.splits)

lemma withProperty_Some:
  "withProperty m c = Some x \<longleftrightarrow> (\<exists>p. map_of m ''property'' = Some (JStr p) \<and> p \<noteq> '''' \<and> c p = Some x)"
  by (auto simp: withProperty_def required_Some bind_eq_Some_conv)

lemma pathSchema_Some: "pathSchema v = Some (a, b) \<Longrightarrow> a \<noteq> '''' \<and> b \<noteq> ''''"
  by (auto simp: pathSchema_def bind_eq_Some_conv split: json.split_asm list.split_asm)

lemma schema_valid: "filterConditionSchema z ty m = Some c \<Longrightarrow> validCondition z c"
  by (auto simp: filterConditionSchema_def withProperty_Some required_Some bind_eq_Some_conv validCondition_def
      conditionKey_def nonEmpty_def split: option.splits if_splits prod.splits dest: pathSchema_Some)

lemmas condition_parsing = filterConditionSchema_def conditionJson_def asStr_def opName_def withProperty_def
  required_def validCondition_def conditionKey_def SCALAR_OPS_def TEXT_OPS_def EMPTY_OPS_def DATE_OPS_def RELATION_OPS_def

lemma valid_condition_reads: "validCondition z c \<Longrightarrow> filterNodeSchema z (JObj (conditionJson c)) = Some (ConditionNode c)"
proof (cases c)
  case (ScalarCondition operator p v)
  then show "validCondition z c \<Longrightarrow> ?thesis"
    by (cases operator; cases v) (simp_all add: condition_parsing scalarSchema_def scalarJson_def strMin1_def)
next
  case (TextCondition operator p v)
  then show "validCondition z c \<Longrightarrow> ?thesis"
    by (cases operator) (simp_all add: condition_parsing strValue_def strMin1_def)
next
  case (EmptyCondition operator p)
  then show "validCondition z c \<Longrightarrow> ?thesis"
    by (cases operator) (simp_all add: condition_parsing strMin1_def)
next
  case (DateCondition operator p v)
  then show "validCondition z c \<Longrightarrow> ?thesis"
    by (cases operator) (simp_all add: condition_parsing strValue_def strMin1_def)
next
  case (DateRangeCondition p f t)
  then show "validCondition z c \<Longrightarrow> ?thesis"
    by (simp add: condition_parsing strValue_def strMin1_def rangeSchema_def object_def)
next
  case (InCondition p vs)
  have "allSome (map (strValue \<circ> JStr) vs) = Some vs"
    by (rule allSome_inverse) (simp add: strValue_def)
  with InCondition show "validCondition z c \<Longrightarrow> ?thesis"
    by (simp add: condition_parsing strMin1_def arrayOf_def nonEmpty_def)
next
  case (RelationCondition operator p v)
  then show "validCondition z c \<Longrightarrow> ?thesis"
    by (cases operator) (simp_all add: condition_parsing strMin1_def uuidSchema_def)
next
  case (RelationPathCondition k1 k2 v)
  then show "validCondition z c \<Longrightarrow> ?thesis"
    by (simp add: condition_parsing strMin1_def uuidSchema_def pathSchema_def keysOf_def)
qed

lemma filter_reads_back: "filterNodeSchema z v = Some n \<Longrightarrow> filterNodeSchema z (filterJson n) = Some n"
proof (induction z v arbitrary: n rule: filterNodeSchema.induct)
  case (1 z m)
  from "1.prems" obtain ty where ty: "asStr (map_of m ''type'') = Some ty" by (auto split: option.splits)
  consider (nodes) "ty = ''and'' \<or> ty = ''or''" | (neg) "ty = ''not''" | (leaf) "ty \<noteq> ''and''" "ty \<noteq> ''or''" "ty \<noteq> ''not''"
    by blast
  then show ?case
  proof cases
    case nodes
    define C where "C = (if ty = ''and'' then AndNode else OrNode)"
    have eq: "filterNodeSchema z (JObj m) = (case map_of m ''nodes'' of
        Some (JArr vs) \<Rightarrow> map_option C (Option.bind (allSome (map (filterNodeSchema z) vs)) nonEmpty) | _ \<Rightarrow> None)"
      using ty nodes by (auto simp: C_def split: option.split json.split)
    from "1.prems"[unfolded eq] obtain vs where vs: "map_of m ''nodes'' = Some (JArr vs)"
        "map_option C (Option.bind (allSome (map (filterNodeSchema z) vs)) nonEmpty) = Some n"
      by (simp del: map_option_eq_Some split: option.split_asm json.split_asm)
    from vs(2) obtain ns where b: "Option.bind (allSome (map (filterNodeSchema z) vs)) nonEmpty = Some ns" and C: "n = C ns"
      by (cases "Option.bind (allSome (map (filterNodeSchema z) vs)) nonEmpty") auto
    from b obtain ns' where ns': "allSome (map (filterNodeSchema z) vs) = Some ns'" "nonEmpty ns' = Some ns"
      by (cases "allSome (map (filterNodeSchema z) vs)") auto
    from ns'(2) have "ns' = ns" by (simp add: nonEmpty_def split: if_split_asm)
    with ns' C have ns: "allSome (map (filterNodeSchema z) vs) = Some ns" "nonEmpty ns = Some ns" "n = C ns" by simp_all
    note n = vs(1) ns(1)[unfolded allSome_list_all2]
    have "\<forall>k \<in> set ns. filterNodeSchema z (filterJson k) = Some k"
      using list_all2_in2 [OF n(2)] "1.IH"(1) [OF ty nodes n(1) refl] by blast
    then have "allSome (map (filterNodeSchema z \<circ> filterJson) ns) = Some ns" by (rule allSome_inverse)
    with ns(2,3) nodes show ?thesis by (auto simp: asStr_def C_def)
  next
    case neg
    with "1.prems" ty obtain v k where n: "map_of m ''node'' = Some v" "filterNodeSchema z v = Some k" "n = NotNode k"
      by (auto split: option.splits)
    from "1.IH"(2) [OF ty _ neg n(1,2)] neg n(3) show ?thesis by (simp add: asStr_def)
  next
    case leaf
    with "1.prems" ty obtain c where "filterConditionSchema z ty m = Some c" "n = ConditionNode c"
      by auto
    then show ?thesis by (simp only: filterJson.simps valid_condition_reads schema_valid)
  qed
qed auto

lemma sortSpec_reads_back: "sortSpecSchema v = Some s \<Longrightarrow> sortSpecSchema (sortSpecJson s) = Some s"
proof -
  assume "sortSpecSchema v = Some s"
  then have "so_property s \<noteq> ''''"
    by (cases v) (auto simp: sortSpecSchema_def object_def required_Some bind_eq_Some_conv)
  then show ?thesis
    by (cases "so_direction s")
       (simp_all add: sortSpecSchema_def sortSpecJson_def object_def required_def opName_def DIRECTIONS_def strMin1_def enum_def)
qed

lemma list_reads_back:
  assumes "arrayOf p v = Some xs" "\<And>v x. p v = Some x \<Longrightarrow> p (g x) = Some x"
  shows "arrayOf p (JArr (map g xs)) = Some xs"
proof -
  from assms(1) obtain vs where "list_all2 (\<lambda>v x. p v = Some x) vs xs"
    by (auto simp: arrayOf_def allSome_list_all2 split: json.splits)
  then have "\<forall>x \<in> set xs. p (g x) = Some x"
    using list_all2_in2 [of "\<lambda>v x. p v = Some x" vs xs] assms(2) by blast
  from allSome_inverse [of xs p g, OF this] show ?thesis by (simp add: arrayOf_def)
qed

lemma record_reads_back:
  assumes "\<And>x. p (g x) = Some x"
  shows "recordOf p (JObj (map (\<lambda>(k, x). (k, g x)) m)) = Some m"
proof -
  have "\<forall>y \<in> set m. map_option (Pair (fst y)) (p (g (snd y))) = Some y" by (simp add: assms)
  from allSome_inverse [where f = "\<lambda>(k, v). map_option (Pair k) (p v)" and g = "\<lambda>(k, x). (k, g x)", of m]
  show ?thesis by (auto simp: recordOf_def object_def comp_def split_beta assms)
qed

definition reads :: "(json \<Rightarrow> 'a option) \<Rightarrow> ('a \<Rightarrow> json) \<Rightarrow> 'a option \<Rightarrow> bool" where
  "reads p g v \<longleftrightarrow> (case v of None \<Rightarrow> True | Some x \<Rightarrow> p (g x) = Some x)"

lemma optionalField_absent: "map_of (optionalField k g v @ rest) j = (if j = k \<and> v \<noteq> None then map_option g v else map_of rest j)"
  by (auto simp: optionalField_def split: option.splits)

lemma optional_reads:
  "reads p g v \<Longrightarrow> map_of m k = map_option g v \<Longrightarrow> optional m k p = Some v"
  by (auto simp: reads_def optional_def split: option.splits)

lemma optional_reads_parsed:
  "optional m k p = Some v \<Longrightarrow> (\<And>w x. p w = Some x \<Longrightarrow> p (g x) = Some x) \<Longrightarrow> reads p g v"
  by (auto simp: optional_def reads_def split: option.splits)

lemma config_fields:
  assumes "\<And>k. k \<in> set CONFIG_KEYS \<Longrightarrow> map_of (vc_catchall c) k = None"
  shows "map_of (viewConfigJson c) ''propertyOrder'' = map_option (JArr \<circ> map JStr) (vc_propertyOrder c)"
    and "map_of (viewConfigJson c) ''visibility'' = map_option (JObj \<circ> map (\<lambda>(k, b). (k, JBool b))) (vc_visibility c)"
    and "map_of (viewConfigJson c) ''widths'' = map_option (JObj \<circ> map (\<lambda>(k, q). (k, JNum q))) (vc_widths c)"
    and "map_of (viewConfigJson c) ''filter'' = map_option filterJson (vc_filter c)"
    and "map_of (viewConfigJson c) ''sort'' = map_option (JArr \<circ> map sortSpecJson) (vc_sort c)"
    and "map_of (viewConfigJson c) ''groupBy'' = map_option JStr (vc_groupBy c)"
    and "map_of (viewConfigJson c) ''membership'' = map_option (\<lambda>_. JStr ''manual'') (vc_membership c)"
proof -
  have none: "map_of (vc_catchall c) ''propertyOrder'' = None"
      "map_of (vc_catchall c) ''visibility'' = None"
      "map_of (vc_catchall c) ''widths'' = None"
      "map_of (vc_catchall c) ''filter'' = None"
      "map_of (vc_catchall c) ''sort'' = None"
      "map_of (vc_catchall c) ''groupBy'' = None"
      "map_of (vc_catchall c) ''membership'' = None"
    by (rule assms, simp add: CONFIG_KEYS_def)+
  show "map_of (viewConfigJson c) ''propertyOrder'' = map_option (JArr \<circ> map JStr) (vc_propertyOrder c)"
    and "map_of (viewConfigJson c) ''visibility'' = map_option (JObj \<circ> map (\<lambda>(k, b). (k, JBool b))) (vc_visibility c)"
    and "map_of (viewConfigJson c) ''widths'' = map_option (JObj \<circ> map (\<lambda>(k, q). (k, JNum q))) (vc_widths c)"
    and "map_of (viewConfigJson c) ''filter'' = map_option filterJson (vc_filter c)"
    and "map_of (viewConfigJson c) ''sort'' = map_option (JArr \<circ> map sortSpecJson) (vc_sort c)"
    and "map_of (viewConfigJson c) ''groupBy'' = map_option JStr (vc_groupBy c)"
    and "map_of (viewConfigJson c) ''membership'' = map_option (\<lambda>_. JStr ''manual'') (vc_membership c)"
    by (cases "vc_membership c", simp_all add: viewConfigJson_def optionalField_absent none del: map_of_append)+
qed

lemma named_field_dropped: "k \<in> set CONFIG_KEYS \<Longrightarrow> filter (\<lambda>(k, _). k \<notin> set CONFIG_KEYS) (optionalField k f x) = []"
  by (simp add: optionalField_def split: option.split)

lemma config_catchall:
  assumes "\<And>k v. (k, v) \<in> set (vc_catchall c) \<Longrightarrow> k \<notin> set CONFIG_KEYS"
  shows "filter (\<lambda>(k, _). k \<notin> set CONFIG_KEYS) (viewConfigJson c) = vc_catchall c"
proof -
  have "filter (\<lambda>(k, _). k \<notin> set CONFIG_KEYS) (vc_catchall c) = vc_catchall c"
    using assms by (auto intro!: filter_True)
  moreover have "''propertyOrder'' \<in> set CONFIG_KEYS" "''visibility'' \<in> set CONFIG_KEYS" "''widths'' \<in> set CONFIG_KEYS"
    "''filter'' \<in> set CONFIG_KEYS" "''sort'' \<in> set CONFIG_KEYS" "''groupBy'' \<in> set CONFIG_KEYS"
    "''membership'' \<in> set CONFIG_KEYS"
    by (simp_all add: CONFIG_KEYS_def)
  ultimately show ?thesis
    unfolding viewConfigJson_def filter_append by (simp only: named_field_dropped append_Nil)
qed

text \<open>
  C25: a parsed view configuration, stored as JSON, reads back as the same
  configuration: no later read of the stored view can fail on it.
\<close>

theorem view_config_reads_back:
  assumes "parseViewConfig zodUuid raw = Inr config"
  shows "parseViewConfig zodUuid (viewConfigJson config) = Inr config"
proof -
  from assms have s: "viewConfigSchema zodUuid raw = Some config"
    by (simp add: parseViewConfig_def split: option.splits)
  then have ca: "vc_catchall config = filter (\<lambda>(k, _). k \<notin> set CONFIG_KEYS) raw"
    by (auto simp: viewConfigSchema_def bind_eq_Some_conv)
  then have c: "map_of (vc_catchall config) k = None" if "k \<in> set CONFIG_KEYS" for k
    using that by (auto simp: map_of_eq_None_iff)
  have k: "k \<notin> set CONFIG_KEYS" if "(k, v) \<in> set (vc_catchall config)" for k v
    using that ca by auto
  have str: "arrayOf strValue (JArr (map JStr xs)) = Some xs" for xs
    using allSome_inverse [of xs strValue JStr] by (simp add: arrayOf_def strValue_def)
  have vis: "recordOf boolean (JObj (map (\<lambda>(k, b). (k, JBool b)) m)) = Some m" for m
    by (rule record_reads_back) (simp add: boolean_def)
  have wid: "recordOf numValue (JObj (map (\<lambda>(k, q). (k, JNum q)) m)) = Some m" for m
    by (rule record_reads_back) (simp add: numValue_def)
  from s have p: "reads (filterNodeSchema zodUuid) filterJson (vc_filter config)"
      "reads (arrayOf sortSpecSchema) (JArr \<circ> map sortSpecJson) (vc_sort config)"
    using filter_reads_back list_reads_back [of sortSpecSchema _ _ sortSpecJson] sortSpec_reads_back
    by (auto simp: viewConfigSchema_def bind_eq_Some_conv elim!: optional_reads_parsed)
  have rest: "reads (arrayOf strValue) (JArr \<circ> map JStr) (vc_propertyOrder config)"
      "reads (recordOf boolean) (JObj \<circ> map (\<lambda>(k, b). (k, JBool b))) (vc_visibility config)"
      "reads (recordOf numValue) (JObj \<circ> map (\<lambda>(k, q). (k, JNum q))) (vc_widths config)"
      "reads strValue JStr (vc_groupBy config)" "reads manualLiteral (\<lambda>_. JStr ''manual'') (vc_membership config)"
    by (auto simp: reads_def str vis wid strValue_def manualLiteral_def split: option.splits)
  note f = config_fields [of config, OF c]
  have "viewConfigSchema zodUuid (viewConfigJson config) = Some config"
    unfolding viewConfigSchema_def
    by (simp add: optional_reads [OF rest(1) f(1)] optional_reads [OF rest(2) f(2)] optional_reads [OF rest(3) f(3)]
        optional_reads [OF p(1) f(4)] optional_reads [OF p(2) f(5)] optional_reads [OF rest(4) f(6)]
        optional_reads [OF rest(5) f(7)] config_catchall [OF k])
  then show ?thesis by (simp add: parseViewConfig_def)
qed

lemma view_config_reads_back_witness:
  "\<exists>config. parseViewConfig (\<lambda>_. True)
      [(''filter'', JObj [(''type'', JStr ''is_empty''), (''property'', JStr ''p''), (''note'', JNull)]),
       (''sort'', JArr [JObj [(''property'', JStr ''p''), (''direction'', JStr ''desc'')]]), (''icon'', JStr ''x'')]
      = Inr config
    \<and> parseViewConfig (\<lambda>_. True) (viewConfigJson config) = Inr config
    \<and> viewConfigJson config =
      [(''filter'', JObj [(''type'', JStr ''is_empty''), (''property'', JStr ''p'')]),
       (''sort'', JArr [JObj [(''property'', JStr ''p''), (''direction'', JStr ''desc'')]]), (''icon'', JStr ''x'')]"
proof -
  let ?raw = "[(''filter'', JObj [(''type'', JStr ''is_empty''), (''property'', JStr ''p''), (''note'', JNull)]),
       (''sort'', JArr [JObj [(''property'', JStr ''p''), (''direction'', JStr ''desc'')]]), (''icon'', JStr ''x'')]"
  let ?c = "\<lparr>vc_propertyOrder = None, vc_visibility = None, vc_widths = None,
      vc_filter = Some (ConditionNode (EmptyCondition OpIsEmpty ''p'')),
      vc_sort = Some [\<lparr>so_property = ''p'', so_direction = Desc\<rparr>], vc_groupBy = None, vc_membership = None,
      vc_catchall = [(''icon'', JStr ''x'')]\<rparr>"
  have "parseViewConfig (\<lambda>_. True) ?raw = Inr ?c" by code_simp
  from view_config_reads_back [OF this] this show ?thesis
    by (auto simp: viewConfigJson_def optionalField_def conditionJson_def opName_def EMPTY_OPS_def
        sortSpecJson_def DIRECTIONS_def)
qed

end
