(* ===== verification/Views.thy ===== *)
theory Views
  imports ViewConfig ItemReads
begin

text \<open>
  Views and the members of curated views: the registry of view types
  (\<open>chokePoint/viewTypeRegistry.ts\<close>), the stores \<open>viewsStore.ts\<close> and \<open>viewItemsStore.ts\<close> and the
  operations of \<open>viewOps.ts\<close>. A view type's schema and service are a module's functions and come
  with its registration; \<open>zodUuid\<close> is zod's \<open>z.uuid()\<close> check.
\<close>

section \<open>View types\<close>

definition BUILTIN_VIEW_TYPES :: "string list" where
  "BUILTIN_VIEW_TYPES = [''table'', ''board'', ''calendar'', ''list'']"

record ViewTypeDefinition =
  vt_configSchema :: "(obj \<Rightarrow> bool) option"
  vt_validateConfig :: "(obj \<Rightarrow> error + unit) option"
  vt_databaseIds :: "string list"
  vt_itemIds :: "string list"
  vt_clientComponent :: "string option"

type_synonym ViewTypeRegistry = "(string \<times> ViewTypeDefinition) list"

definition createViewTypeRegistry :: ViewTypeRegistry where
  "createViewTypeRegistry = []"

definition isBuiltinViewType :: "string \<Rightarrow> bool" where
  "isBuiltinViewType ty \<longleftrightarrow> ty \<in> set BUILTIN_VIEW_TYPES"

definition isKnownViewType :: "ViewTypeRegistry \<Rightarrow> string \<Rightarrow> bool" where
  "isKnownViewType registry ty \<longleftrightarrow> isBuiltinViewType ty \<or> map_of registry ty \<noteq> None"

definition registerViewType :: "ViewTypeRegistry \<Rightarrow> string \<Rightarrow> ViewTypeDefinition \<Rightarrow> error + ViewTypeRegistry" where
  "registerViewType registry ty d =
     (if isBuiltinViewType ty then Inl (PlainError ''built-in view type'') else Inr (AList.update ty d registry))"

section \<open>The views store\<close>

definition CREATED_BY_VALUES :: "(string \<times> CreatedBy) list" where
  "CREATED_BY_VALUES = [(''user'', ByUser), (''ai_agent'', ByAiAgent), (''system'', BySystem)]"

fun createdByName :: "CreatedBy \<Rightarrow> string" where
  "createdByName ByUser = ''user''"
| "createdByName ByAiAgent = ''ai_agent''"
| "createdByName BySystem = ''system''"

definition mapViewRow :: "ViewDbRow \<Rightarrow> error + ViewRow" where
  "mapViewRow row =
     map_sum id (\<lambda>createdBy.
         \<lparr>vw_id = rvw_id row, vw_databaseId = rvw_database_id row, vw_type = rvw_type row,
          vw_name = rvw_name row, vw_config = rvw_config row, vw_isDefault = rvw_is_default row,
          vw_ownerModuleId = rvw_owner_module_id row, vw_createdBy = createdBy,
          vw_creatorProjectItemId = rvw_creator_project_item_id row\<rparr>)
       (assertKnownValue CREATED_BY_VALUES (rvw_created_by row) ''view created_by'')"

text \<open>Postgres names the violated constraint of \<open>views\<close> beside the code; both are the text here.\<close>

definition uniqueViolation :: "string \<Rightarrow> error" where
  "uniqueViolation c = DbError (''23505 '' @ c)"

definition isUniqueViolation :: "error \<Rightarrow> string \<Rightarrow> bool" where
  "isUniqueViolation err c \<longleftrightarrow> err = uniqueViolation c"

definition viewReference :: "string \<Rightarrow> error" where
  "viewReference field = ValidationError (Some (''config.'' @ field))"

definition validateViewTypeConfig :: "string \<Rightarrow> ViewConfig \<Rightarrow> ViewTypeRegistry \<Rightarrow> unit op" where
  "validateViewTypeConfig ty config registry =
     (case map_of registry ty of
        None \<Rightarrow> return ()
      | Some d \<Rightarrow>
          let stored = viewConfigJson config;
              stringField = (\<lambda>field. asStr (map_of stored field)) in
          bnd (case vt_configSchema d of
                 None \<Rightarrow> return ()
               | Some schema \<Rightarrow> if schema stored then return () else throw (ValidationError (Some ''config''))) (\<lambda>_.
          bnd (case vt_validateConfig d of None \<Rightarrow> return () | Some validate \<Rightarrow> ofSum (validate stored)) (\<lambda>_.
          bnd (forEach (vt_databaseIds d) (\<lambda>field.
                 case stringField field of
                   None \<Rightarrow> return ()
                 | Some s \<Rightarrow> bnd (getDatabase s) (\<lambda>found.
                     if found = None then throw (viewReference field) else return ()))) (\<lambda>_.
          forEach (vt_itemIds d) (\<lambda>field.
            case stringField field of
              None \<Rightarrow> return ()
            | Some s \<Rightarrow> bnd (getItemsByIds [s]) (\<lambda>found.
                if found = [] then throw (viewReference field) else return ()))))))"

record CreateViewInput =
  cv_databaseId :: "id option"
  cv_type :: string
  cv_name :: string
  cv_config :: "obj option"
  cv_isDefault :: "bool option"
  cv_ownerModuleId :: "string option"
  cv_createdBy :: "CreatedBy option"
  cv_creatorProjectItemId :: "id option"

text \<open>The unique index and the check of \<open>views\<close> on a row that is to be stored.\<close>

definition defaultTaken :: "ViewDbRow \<Rightarrow> ViewDbRow list \<Rightarrow> bool" where
  "defaultTaken row views \<longleftrightarrow>
     rvw_is_default row \<and> rvw_database_id row \<noteq> None \<and>
     (\<exists>v \<in> set views. rvw_id v \<noteq> rvw_id row \<and> rvw_is_default v \<and> rvw_database_id v = rvw_database_id row)"

definition curatedHasNoDatabase :: "ViewDbRow \<Rightarrow> bool" where
  "curatedHasNoDatabase row \<longleftrightarrow>
     (rvw_database_id row = None) = (map_of (rvw_config row) ''membership'' = Some (JStr ''manual''))"

definition VIEWS_ONE_DEFAULT :: string where
  "VIEWS_ONE_DEFAULT = ''views_one_default_per_db''"

definition insertViewRow :: "ViewDbRow \<Rightarrow> ViewDbRow list op" where
  "insertViewRow row =
     bnd (query id) (\<lambda>d.
     if \<not> curatedHasNoDatabase row then throw (DbError ''23514'')
     else if \<exists>v \<in> set (t_views d). rvw_id v = rvw_id row then throw (uniqueViolation ''views_pkey'')
     else if defaultTaken row (t_views d) then throw (uniqueViolation VIEWS_ONE_DEFAULT)
     else if rvw_database_id row \<noteq> None \<and> the (rvw_database_id row) \<notin> rdb_id ` set (t_databases d)
     then throw (DbError ''23503'')
     else andThen (statement (\<lambda>d. d\<lparr>t_views := t_views d @ [row]\<rparr>)) (return [row]))"

definition storedView :: "ViewDbRow list op \<Rightarrow> ViewRow op" where
  "storedView m =
     catchC (bnd m (\<lambda>rows. bnd (requireSingleRow rows ''views row'') (\<lambda>row. ofSum (mapViewRow row))))
       (\<lambda>e. throw (if isUniqueViolation e VIEWS_ONE_DEFAULT then ConflictError (Some ''isDefault'') else e))"

definition createView ::
  "(string \<Rightarrow> bool) \<Rightarrow> id \<Rightarrow> CreateViewInput \<Rightarrow> ViewTypeRegistry \<Rightarrow> ViewRow op" where
  "createView zodUuid newId input registry =
     (let createdBy = (case cv_createdBy input of None \<Rightarrow> ByUser | Some c \<Rightarrow> c) in
      if createdBy = ByAiAgent \<and> cv_isDefault input = Some True
      then throw (ForbiddenError ''owner_violation'' (Some ''isDefault''))
      else if \<not> isKnownViewType registry (cv_type input) then throw (ValidationError (Some ''type''))
      else if truthy (cv_ownerModuleId input) \<and> isBuiltinViewType (cv_type input)
      then throw (ValidationError (Some ''ownerModuleId''))
      else
        bnd (ofSum (parseViewConfig zodUuid (case cv_config input of None \<Rightarrow> [] | Some c \<Rightarrow> c))) (\<lambda>config.
        let isCurated = (vc_membership config \<noteq> None) in
        if isCurated \<and> truthy (cv_databaseId input) then throw (ValidationError (Some ''databaseId''))
        else if \<not> isCurated \<and> \<not> truthy (cv_databaseId input) then throw (ValidationError (Some ''databaseId''))
        else
          bnd (if truthy (cv_databaseId input)
               then bnd (getDatabase (the (cv_databaseId input))) (\<lambda>database.
                      if database = None then throw NotFoundError else return ())
               else return ()) (\<lambda>_.
          bnd (validateViewTypeConfig (cv_type input) config registry) (\<lambda>_.
          storedView (insertViewRow
            \<lparr>rvw_id = newId, rvw_database_id = cv_databaseId input, rvw_type = cv_type input,
             rvw_name = cv_name input, rvw_config = viewConfigJson config,
             rvw_is_default = (cv_isDefault input = Some True), rvw_owner_module_id = cv_ownerModuleId input,
             rvw_created_by = createdByName createdBy,
             rvw_creator_project_item_id = cv_creatorProjectItemId input\<rparr>)))))"

definition selectViews :: "(ViewDbRow \<Rightarrow> bool) \<Rightarrow> ViewDbRow list op" where
  "selectViews p = query (\<lambda>d. filter p (t_views d))"

definition getView :: "id \<Rightarrow> ViewRow option op" where
  "getView viewId =
     bnd (selectViews (\<lambda>r. rvw_id r = viewId)) (\<lambda>rows.
     case rows of [] \<Rightarrow> return None | row # _ \<Rightarrow> bnd (ofSum (mapViewRow row)) (\<lambda>v. return (Some v)))"

definition requireView :: "id \<Rightarrow> ViewRow op" where
  "requireView viewId =
     bnd (getView viewId) (\<lambda>found. case found of None \<Rightarrow> throw NotFoundError | Some view \<Rightarrow> return view)"

definition listViewsByDatabase :: "id \<Rightarrow> ViewRow list op" where
  "listViewsByDatabase databaseId =
     bnd (selectViews (\<lambda>r. rvw_database_id r = Some databaseId)) (\<lambda>rows.
     mapC (\<lambda>row. ofSum (mapViewRow row)) (sort_key rvw_name rows))"

definition listCuratedViews :: "ViewRow list op" where
  "listCuratedViews =
     bnd (selectViews (\<lambda>r. rvw_database_id r = None)) (\<lambda>rows.
     mapC (\<lambda>row. ofSum (mapViewRow row)) (sort_key rvw_name rows))"

record PatchViewInput =
  pv_name :: "string option"
  pv_config :: "obj option"
  pv_isDefault :: "bool option"
  pv_createdBy :: "CreatedBy option"
  pv_creatorProjectItemId :: "id option option"

text \<open>The row after the \<open>SET\<close> list, which names the columns the patch gives.\<close>

definition patchedRow :: "PatchViewInput \<Rightarrow> ViewConfig option \<Rightarrow> ViewDbRow \<Rightarrow> ViewDbRow" where
  "patchedRow patch nextConfig row =
     row\<lparr>rvw_name := (case pv_name patch of None \<Rightarrow> rvw_name row | Some n \<Rightarrow> n),
         rvw_config := (case nextConfig of None \<Rightarrow> rvw_config row | Some c \<Rightarrow> viewConfigJson c),
         rvw_is_default := (case pv_isDefault patch of None \<Rightarrow> rvw_is_default row | Some b \<Rightarrow> b),
         rvw_created_by := (case pv_createdBy patch of None \<Rightarrow> rvw_created_by row | Some c \<Rightarrow> createdByName c),
         rvw_creator_project_item_id := (case pv_creatorProjectItemId patch of
             None \<Rightarrow> rvw_creator_project_item_id row | Some c \<Rightarrow> c)\<rparr>"

definition updateViewRow :: "id \<Rightarrow> (ViewDbRow \<Rightarrow> ViewDbRow) \<Rightarrow> ViewDbRow list op" where
  "updateViewRow viewId f =
     bnd (query t_views) (\<lambda>views.
     let rows = map f (filter (\<lambda>r. rvw_id r = viewId) views) in
     if \<exists>r \<in> set rows. \<not> curatedHasNoDatabase r then throw (DbError ''23514'')
     else if \<exists>r \<in> set rows. defaultTaken r views then throw (uniqueViolation VIEWS_ONE_DEFAULT)
     else andThen (statement (\<lambda>d. d\<lparr>t_views := map (\<lambda>r. if rvw_id r = viewId then f r else r) (t_views d)\<rparr>))
            (return rows))"

definition patchView ::
  "(string \<Rightarrow> bool) \<Rightarrow> id \<Rightarrow> PatchViewInput \<Rightarrow> ViewTypeRegistry \<Rightarrow> ViewRow op" where
  "patchView zodUuid viewId patch registry =
     bnd (requireView viewId) (\<lambda>view.
     bnd (case pv_config patch of
            None \<Rightarrow> return None
          | Some config \<Rightarrow>
              bnd (ofSum (parseViewConfig zodUuid (spread (vw_config view) config))) (\<lambda>nextConfig.
              if (vw_databaseId view = None) \<noteq> (vc_membership nextConfig \<noteq> None)
              then throw (ValidationError (Some ''config.membership''))
              else bnd (validateViewTypeConfig (vw_type view) nextConfig registry) (\<lambda>_.
                   return (Some nextConfig)))) (\<lambda>nextConfig.
     if pv_name patch = None \<and> nextConfig = None \<and> pv_isDefault patch = None \<and> pv_createdBy patch = None
        \<and> pv_creatorProjectItemId patch = None
     then return view
     else storedView (updateViewRow viewId (patchedRow patch nextConfig))))"

text \<open>The members of a deleted view go with it (\<open>ON DELETE CASCADE\<close>).\<close>

definition deleteView :: "id \<Rightarrow> unit op" where
  "deleteView viewId =
     statement (\<lambda>d. d\<lparr>t_views := filter (\<lambda>r. rvw_id r \<noteq> viewId) (t_views d),
                       t_view_items := filter (\<lambda>r. rvi_view_id r \<noteq> viewId) (t_view_items d)\<rparr>)"

section \<open>The members of a curated view\<close>

definition mapViewItemRow :: "ViewItemDbRow \<Rightarrow> ViewItemRow" where
  "mapViewItemRow row =
     \<lparr>vir_viewId = rvi_view_id row, vir_itemId = rvi_item_id row, vir_position = rvi_position row\<rparr>"

definition selectViewItems :: "(ViewItemDbRow \<Rightarrow> bool) \<Rightarrow> ViewItemDbRow list op" where
  "selectViewItems p = query (\<lambda>d. filter p (t_view_items d))"

definition isMember :: "id \<Rightarrow> id \<Rightarrow> ViewItemDbRow \<Rightarrow> bool" where
  "isMember viewId itemId row \<longleftrightarrow> rvi_view_id row = viewId \<and> rvi_item_id row = itemId"

definition listViewItems :: "id \<Rightarrow> ViewItemRow list op" where
  "listViewItems viewId =
     bnd (selectViewItems (\<lambda>r. rvi_view_id r = viewId)) (\<lambda>rows.
     return (map mapViewItemRow (sort_key rvi_position rows)))"

definition listLiveViewItemsAfter :: "id \<Rightarrow> int option \<Rightarrow> nat \<Rightarrow> ViewItemRow list op" where
  "listLiveViewItemsAfter viewId afterPosition limit =
     bnd visibleDatabaseIds (\<lambda>databaseIds.
     bnd (query (\<lambda>d. concat (map (\<lambda>m. map (\<lambda>_. m)
            (filter (\<lambda>i. rit_id i = rvi_item_id m \<and> rit_database_id i \<in> set databaseIds \<and> rit_deleted_at i = None)
              (t_items d)))
            (filter (\<lambda>m. rvi_view_id m = viewId \<and>
                (case afterPosition of None \<Rightarrow> True | Some p \<Rightarrow> rvi_position m > p)) (t_view_items d))))) (\<lambda>rows.
     return (map mapViewItemRow (take limit (sort_key rvi_position rows)))))"

text \<open>\<open>position\<close> is a Postgres \<open>integer\<close>: a value outside it is the error 22003.\<close>

definition int4 :: "int \<Rightarrow> bool" where
  "int4 p \<longleftrightarrow> - 2147483648 \<le> p \<and> p \<le> 2147483647"

definition requireInt4 :: "int \<Rightarrow> unit op" where
  "requireInt4 p = (if int4 p then return () else throw (DbError ''22003''))"

text \<open>\<open>UPDATE view_items SET position = position + delta WHERE view_id = $1 AND ...\<close>.\<close>

definition shiftedRow :: "id \<Rightarrow> (int \<Rightarrow> bool) \<Rightarrow> int \<Rightarrow> ViewItemDbRow \<Rightarrow> ViewItemDbRow" where
  "shiftedRow viewId window delta r =
     (if rvi_view_id r = viewId \<and> window (rvi_position r) then r\<lparr>rvi_position := rvi_position r + delta\<rparr> else r)"

definition shiftPositions :: "id \<Rightarrow> (int \<Rightarrow> bool) \<Rightarrow> int \<Rightarrow> unit op" where
  "shiftPositions viewId window delta =
     bnd (query t_view_items) (\<lambda>rows.
     if \<exists>r \<in> set rows. rvi_view_id r = viewId \<and> window (rvi_position r) \<and> \<not> int4 (rvi_position r + delta)
     then throw (DbError ''22003'')
     else statement (\<lambda>d. d\<lparr>t_view_items := map (shiftedRow viewId window delta) (t_view_items d)\<rparr>))"

definition setPosition :: "id \<Rightarrow> id \<Rightarrow> int \<Rightarrow> ViewItemDbRow list op" where
  "setPosition viewId itemId position =
     bnd (selectViewItems (isMember viewId itemId)) (\<lambda>rows.
     andThen (statement (\<lambda>d. d\<lparr>t_view_items :=
         map (\<lambda>r. if isMember viewId itemId r then r\<lparr>rvi_position := position\<rparr> else r) (t_view_items d)\<rparr>))
       (return (map (\<lambda>r. r\<lparr>rvi_position := position\<rparr>) rows)))"

definition reorderViewItem :: "id \<Rightarrow> id \<Rightarrow> int \<Rightarrow> ViewItemRow op" where
  "reorderViewItem viewId itemId position =
     bnd (selectViewItems (isMember viewId itemId)) (\<lambda>currentRows.
     case currentRows of
       [] \<Rightarrow> throw (ValidationError (Some ''itemId''))
     | current # _ \<Rightarrow>
         bnd (requireInt4 position) (\<lambda>_.
         bnd (if position > rvi_position current
              then shiftPositions viewId (\<lambda>p. p > rvi_position current \<and> p \<le> position) (-1)
              else if position < rvi_position current
              then shiftPositions viewId (\<lambda>p. p \<ge> position \<and> p < rvi_position current) 1
              else return ()) (\<lambda>_.
         bnd (setPosition viewId itemId position) (\<lambda>rows.
         bnd (requireSingleRow rows ''view_items row'') (\<lambda>row.
         return (mapViewItemRow row))))))"

definition nextPosition :: "id \<Rightarrow> ViewItemDbRow list \<Rightarrow> int" where
  "nextPosition viewId rows =
     (case map rvi_position (filter (\<lambda>r. rvi_view_id r = viewId) rows) of
        [] \<Rightarrow> 0 | p # ps \<Rightarrow> fold max ps p + 1)"

definition insertViewItem :: "ViewItemDbRow \<Rightarrow> ViewItemDbRow list op" where
  "insertViewItem row =
     bnd (query id) (\<lambda>d.
     if \<not> int4 (rvi_position row) then throw (DbError ''22003'')
     else if \<exists>r \<in> set (t_view_items d). isMember (rvi_view_id row) (rvi_item_id row) r then throw (DbError ''23505'')
     else if rvi_view_id row \<notin> rvw_id ` set (t_views d) then throw (DbError ''23503'')
     else andThen (statement (\<lambda>d. d\<lparr>t_view_items := t_view_items d @ [row]\<rparr>)) (return [row]))"

definition addViewItem :: "id \<Rightarrow> id \<Rightarrow> int option \<Rightarrow> ViewItemRow op" where
  "addViewItem viewId itemId position =
     bnd (selectViewItems (isMember viewId itemId)) (\<lambda>existingRows.
     case existingRows of
       existing # _ \<Rightarrow>
         (case position of
            None \<Rightarrow> return \<lparr>vir_viewId = viewId, vir_itemId = itemId, vir_position = rvi_position existing\<rparr>
          | Some p \<Rightarrow> reorderViewItem viewId itemId p)
     | [] \<Rightarrow>
         bnd (case position of
                None \<Rightarrow> query (\<lambda>d. nextPosition viewId (t_view_items d))
              | Some p \<Rightarrow>
                  bnd (requireInt4 p) (\<lambda>_. bnd (shiftPositions viewId (\<lambda>q. q \<ge> p) 1) (\<lambda>_. return p))) (\<lambda>pos.
         bnd (insertViewItem \<lparr>rvi_view_id = viewId, rvi_item_id = itemId, rvi_position = pos\<rparr>) (\<lambda>rows.
         bnd (requireSingleRow rows ''view_items row'') (\<lambda>row.
         return (mapViewItemRow row)))))"

definition removeViewItem :: "id \<Rightarrow> id \<Rightarrow> bool op" where
  "removeViewItem viewId itemId =
     bnd (selectViewItems (isMember viewId itemId)) (\<lambda>rows.
     andThen (statement (\<lambda>d. d\<lparr>t_view_items := filter (\<lambda>r. \<not> isMember viewId itemId r) (t_view_items d)\<rparr>))
       (return (rows \<noteq> [])))"

section \<open>The operations\<close>

definition assertItemExists :: "id \<Rightarrow> unit op" where
  "assertItemExists itemId =
     bnd (getItemsByIds [itemId]) (\<lambda>items. if items = [] then throw NotFoundError else return ())"

definition adoptIfUserWrite :: "(string \<Rightarrow> bool) \<Rightarrow> ViewRow \<Rightarrow> Actor \<Rightarrow> ViewTypeRegistry \<Rightarrow> unit op" where
  "adoptIfUserWrite zodUuid view actor registry =
     (if ac_type actor = ByUser \<and> vw_createdBy view = ByAiAgent
      then bnd (patchView zodUuid (vw_id view)
             \<lparr>pv_name = None, pv_config = None, pv_isDefault = None, pv_createdBy = Some ByUser,
              pv_creatorProjectItemId = Some None\<rparr> registry) (\<lambda>_. return ())
      else return ())"

definition announceView :: "id option \<Rightarrow> ViewRow \<Rightarrow> ViewRow op" where
  "announceView actingUserId view =
     (case vw_databaseId view of
        None \<Rightarrow> return view
      | Some databaseId \<Rightarrow> andThen (runAfterCommit (InvSchema databaseId actingUserId)) (return view))"

definition viewDeleteWithClient :: "id \<Rightarrow> Actor \<Rightarrow> id option \<Rightarrow> ViewRow op" where
  "viewDeleteWithClient viewId actor actingUserId =
     bnd (assertAuthenticatedAgentIdentity actor) (\<lambda>_.
     bnd (getView viewId) (\<lambda>found.
     case found of
       None \<Rightarrow> throw NotFoundError
     | Some view \<Rightarrow>
         bnd (ofSum (assertViewWritable view actor)) (\<lambda>_.
         bnd (deleteView viewId) (\<lambda>_. announceView actingUserId view))))"

definition createViewTx ::
  "(string \<Rightarrow> bool) \<Rightarrow> ViewTypeRegistry \<Rightarrow> id \<Rightarrow> CreateViewInput \<Rightarrow> Actor \<Rightarrow> id option \<Rightarrow> ViewRow op" where
  "createViewTx zodUuid registry newId input actor actingUserId =
     bnd (assertAuthenticatedAgentIdentity actor) (\<lambda>_.
     bnd (createView zodUuid newId
            (input\<lparr>cv_createdBy := Some (ac_type actor),
                   cv_creatorProjectItemId := (if ac_type actor = ByAiAgent then ac_agentProjectItemId actor else None)\<rparr>)
            registry) (announceView actingUserId))"

record PatchViewRequest =
  pq_id :: id
  pq_actor :: Actor
  pq_name :: "string option"
  pq_config :: "obj option"
  pq_isDefault :: "bool option"
  pq_actingUserId :: "id option"

definition patchViewTx :: "(string \<Rightarrow> bool) \<Rightarrow> ViewTypeRegistry \<Rightarrow> PatchViewRequest \<Rightarrow> ViewRow op" where
  "patchViewTx zodUuid registry input =
     bnd (assertAuthenticatedAgentIdentity (pq_actor input)) (\<lambda>_.
     bnd (requireView (pq_id input)) (\<lambda>view.
     bnd (ofSum (assertViewWritable view (pq_actor input))) (\<lambda>_.
     if ac_type (pq_actor input) = ByAiAgent \<and> pq_isDefault input \<noteq> None
     then throw (ForbiddenError ''owner_violation'' (Some ''isDefault''))
     else
       bnd (adoptIfUserWrite zodUuid view (pq_actor input) registry) (\<lambda>_.
       bnd (patchView zodUuid (pq_id input)
              \<lparr>pv_name = pq_name input, pv_config = pq_config input, pv_isDefault = pq_isDefault input,
               pv_createdBy = None, pv_creatorProjectItemId = None\<rparr> registry)
           (announceView (pq_actingUserId input))))))"

text \<open>The guards the writes of curated membership share, up to the adoption; \<open>check\<close> runs before it.\<close>

definition curatedWrite ::
  "(string \<Rightarrow> bool) \<Rightarrow> ViewTypeRegistry \<Rightarrow> id \<Rightarrow> Actor \<Rightarrow> unit op \<Rightarrow> 'a op \<Rightarrow> 'a op" where
  "curatedWrite zodUuid registry viewId actor check m =
     bnd (assertAuthenticatedAgentIdentity actor) (\<lambda>_.
     bnd (requireView viewId) (\<lambda>view.
     if vw_databaseId view \<noteq> None then throw (ValidationError (Some ''viewId''))
     else bnd (ofSum (assertViewWritable view actor)) (\<lambda>_.
          bnd check (\<lambda>_.
          bnd (adoptIfUserWrite zodUuid view actor registry) (\<lambda>_. m)))))"

definition addViewItemTx ::
  "(string \<Rightarrow> bool) \<Rightarrow> ViewTypeRegistry \<Rightarrow> id \<Rightarrow> id \<Rightarrow> int option \<Rightarrow> Actor \<Rightarrow> ViewItemRow op" where
  "addViewItemTx zodUuid registry viewId itemId position actor =
     curatedWrite zodUuid registry viewId actor (assertItemExists itemId) (addViewItem viewId itemId position)"

definition removeViewItemTx :: "(string \<Rightarrow> bool) \<Rightarrow> ViewTypeRegistry \<Rightarrow> id \<Rightarrow> id \<Rightarrow> Actor \<Rightarrow> unit op" where
  "removeViewItemTx zodUuid registry viewId itemId actor =
     curatedWrite zodUuid registry viewId actor (return ())
       (bnd (removeViewItem viewId itemId) (\<lambda>removed. if removed then return () else throw NotFoundError))"

definition reorderViewItemTx ::
  "(string \<Rightarrow> bool) \<Rightarrow> ViewTypeRegistry \<Rightarrow> id \<Rightarrow> id \<Rightarrow> int \<Rightarrow> Actor \<Rightarrow> ViewItemRow op" where
  "reorderViewItemTx zodUuid registry viewId itemId position actor =
     curatedWrite zodUuid registry viewId actor (return ()) (reorderViewItem viewId itemId position)"

definition getViewTx :: "id \<Rightarrow> ViewRow option op" where
  "getViewTx viewId = getView viewId"

definition listViewsByDatabaseTx :: "id \<Rightarrow> ViewRow list op" where
  "listViewsByDatabaseTx databaseId = listViewsByDatabase databaseId"

definition listCuratedViewsTx :: "ViewRow list op" where
  "listCuratedViewsTx = listCuratedViews"

definition deleteViewTx :: "id \<Rightarrow> Actor \<Rightarrow> id option \<Rightarrow> ViewRow op" where
  "deleteViewTx viewId actor actingUserId = viewDeleteWithClient viewId actor actingUserId"

definition listViewItemsTx :: "id \<Rightarrow> ViewItemRow list op" where
  "listViewItemsTx viewId = listViewItems viewId"

end
