(* ===== verification/ViewProps.thy ===== *)
theory ViewProps
  imports Views "HOL-Library.Multiset"
begin

text \<open>
  The members of curated views. Positions are integers with gaps that inserts and moves shift; what
  they stand for is a list. The theory shows that each write of the membership is the list
  operation its name says, whoever makes it, and that no two members of a view ever share a
  position.
\<close>

section \<open>Ordered members\<close>

definition viewRows :: "db \<Rightarrow> id \<Rightarrow> ViewItemDbRow list" where
  "viewRows d viewId = filter (\<lambda>r. rvi_view_id r = viewId) (t_view_items d)"

definition placed :: "db \<Rightarrow> id \<Rightarrow> ViewItemDbRow list" where
  "placed d viewId = sort_key rvi_position (viewRows d viewId)"

definition memberOrder :: "db \<Rightarrow> id \<Rightarrow> id list" where
  "memberOrder d viewId = map rvi_item_id (placed d viewId)"

definition membersWhere :: "(int \<Rightarrow> bool) \<Rightarrow> db \<Rightarrow> id \<Rightarrow> id list" where
  "membersWhere P d viewId = map rvi_item_id (filter (\<lambda>r. P (rvi_position r)) (placed d viewId))"

text \<open>No two members of a view share an item or a position.\<close>

definition placesOk :: "db \<Rightarrow> bool" where
  "placesOk d \<longleftrightarrow>
     distinct (map (\<lambda>r. (rvi_view_id r, rvi_position r)) (t_view_items d)) \<and>
     distinct (map (\<lambda>r. (rvi_view_id r, rvi_item_id r)) (t_view_items d))"

lemma distinct_per_view:
  "distinct (map (\<lambda>r. (rvi_view_id r, f r)) rows) \<longleftrightarrow> (\<forall>v. distinct (map f (filter (\<lambda>r. rvi_view_id r = v) rows)))"
proof (induction rows)
  case (Cons r rows)
  have "(rvi_view_id r, f r) \<in> (\<lambda>r. (rvi_view_id r, f r)) ` set rows
        \<longleftrightarrow> f r \<in> f ` set (filter (\<lambda>q. rvi_view_id q = rvi_view_id r) rows)"
    by (auto simp: image_iff) metis
  with Cons show ?case by auto
qed simp

lemma placesOk_iff:
  "placesOk d \<longleftrightarrow> (\<forall>v. distinct (map rvi_position (viewRows d v)) \<and> distinct (map rvi_item_id (viewRows d v)))"
  by (auto simp: placesOk_def distinct_per_view viewRows_def)

lemma increasing_is_sorted:
  assumes "mset T = mset rs" "sorted_wrt (<) (map f T)"
  shows "sort_key f rs = T \<and> distinct (map f rs)"
proof -
  from assms(2) have s: "sorted (map f T)" "distinct (map f T)"
    by (simp_all add: strict_sorted_iff)
  have "distinct (map f rs) = distinct (map f T)"
    by (rule mset_eq_imp_distinct_iff) (simp add: assms(1))
  moreover have "set T = set rs" using assms(1) mset_eq_setD by blast
  with s(2) have "inj_on f (set rs)" by (simp add: distinct_map)
  ultimately show ?thesis
    using sort_key_inj_key_eq [OF assms(1)[symmetric]] s by auto
qed

lemma mset_split: "mset (filter P xs) + mset (filter (\<lambda>x. \<not> P x) xs) = mset xs"
  by (induction xs) auto

lemma placed_increasing: "placesOk d \<Longrightarrow> sorted_wrt (<) (map rvi_position (placed d v))"
  by (simp add: placed_def strict_sorted_iff placesOk_iff distinct_map)

lemma mset_placed: "mset (placed d v) = mset (viewRows d v)"
  by (simp add: placed_def)

lemma set_placed: "set (placed d v) = set (viewRows d v)"
  by (simp add: placed_def)

section \<open>Shifted positions\<close>

lemma memberOrder_from:
  assumes "mset T = mset (viewRows d v)" "sorted_wrt (<) (map rvi_position T)"
  shows "memberOrder d v = map rvi_item_id T" "distinct (map rvi_position (viewRows d v))"
  using increasing_is_sorted [OF assms] by (simp_all add: memberOrder_def placed_def)

text \<open>A member appended after all others.\<close>

lemma nextPosition_above:
  "r \<in> set rows \<Longrightarrow> rvi_view_id r = v \<Longrightarrow> rvi_position r < nextPosition v rows"
proof -
  assume r: "r \<in> set rows" "rvi_view_id r = v"
  have above: "x \<le> fold max ps (p :: int)" if "x = p \<or> x \<in> set ps" for x p ps
    using that Max_ge [of "set (p # ps)" x] by (auto simp flip: Max.set_eq_fold)
  from r have "rvi_position r \<in> set (map rvi_position (filter (\<lambda>r. rvi_view_id r = v) rows))" by auto
  then show ?thesis
    by (cases "map rvi_position (filter (\<lambda>r. rvi_view_id r = v) rows)")
       (auto simp: nextPosition_def intro: above le_imp_less_Suc)
qed

lemma append_order:
  assumes "placesOk d" and rows: "viewRows d' v = viewRows d v @ [new]"
    and "\<forall>r \<in> set (viewRows d v). rvi_position r < rvi_position new"
  shows "memberOrder d' v = memberOrder d v @ [rvi_item_id new] \<and> distinct (map rvi_position (viewRows d' v))"
proof -
  let ?T = "placed d v @ [new]"
  have "mset ?T = mset (viewRows d' v)" by (simp add: rows mset_placed)
  moreover have "sorted_wrt (<) (map rvi_position ?T)"
    using placed_increasing [OF assms(1), of v] assms(3) by (simp add: sorted_wrt_append set_placed)
  ultimately show ?thesis using memberOrder_from [of ?T d' v] by (simp add: memberOrder_def)
qed

text \<open>A member at a position, the ones from there on moved up by one.\<close>

lemma insert_order:
  assumes ok: "placesOk d" and rows: "viewRows d' v = map (shiftedRow v (\<lambda>q. q \<ge> rvi_position new) 1) (viewRows d v) @ [new]"
  shows "memberOrder d' v = membersWhere (\<lambda>q. q < rvi_position new) d v @ rvi_item_id new
           # membersWhere (\<lambda>q. q \<ge> rvi_position new) d v \<and> distinct (map rvi_position (viewRows d' v))"
proof -
  let ?g = "shiftedRow v (\<lambda>q. q \<ge> rvi_position new) 1"
  let ?A = "filter (\<lambda>r. rvi_position r < rvi_position new) (placed d v)"
  let ?B = "filter (\<lambda>r. rvi_position r \<ge> rvi_position new) (placed d v)"
  let ?T = "map ?g ?A @ [new] @ map ?g ?B"
  have view: "rvi_view_id r = v" if "r \<in> set (placed d v)" for r
    using that by (auto simp: set_placed viewRows_def)
  have "mset (?A @ ?B) = mset (viewRows d v)"
    by (simp add: mset_split not_less [symmetric] mset_placed)
  then have "mset ?T = mset (viewRows d' v)"
    unfolding rows by (simp flip: image_mset_union)
  moreover have A: "map rvi_position (map ?g ?A) = map rvi_position ?A" and B: "map rvi_position (map ?g ?B) = map (\<lambda>r. rvi_position r + 1) ?B"
    using view by (auto simp: shiftedRow_def)
  have "sorted_wrt (\<lambda>r r'. rvi_position r < rvi_position r') (placed d v)"
    using placed_increasing [OF ok] by (simp add: sorted_wrt_map)
  then have "sorted_wrt (<) (map rvi_position ?T)"
    unfolding map_append A B by (auto simp: sorted_wrt_append sorted_wrt_map sorted_wrt_filter add1_zle_eq)
  moreover have "map rvi_item_id ?T = membersWhere (\<lambda>q. q < rvi_position new) d v @ rvi_item_id new
           # membersWhere (\<lambda>q. q \<ge> rvi_position new) d v"
    by (auto simp: membersWhere_def shiftedRow_def)
  ultimately show ?thesis using memberOrder_from [of ?T d' v] by simp
qed

text \<open>A member moved to a position: the rows after a shift of the others and its own update.\<close>

definition movedRow :: "id \<Rightarrow> id \<Rightarrow> (int \<Rightarrow> bool) \<Rightarrow> int \<Rightarrow> int \<Rightarrow> ViewItemDbRow \<Rightarrow> ViewItemDbRow" where
  "movedRow viewId itemId window delta position r =
     (if isMember viewId itemId r then r\<lparr>rvi_position := position\<rparr> else shiftedRow viewId window delta r)"

lemma shiftedRow_item: "rvi_item_id (shiftedRow v w delta r) = rvi_item_id r"
  by (simp add: shiftedRow_def)

lemma movedRow_item: "rvi_item_id (movedRow v x w delta p r) = rvi_item_id r"
  by (simp add: movedRow_def shiftedRow_def)

lemma move_order:
  assumes ok: "placesOk d" and rows: "viewRows d' v = map (movedRow v x w delta p) (viewRows d v)"
    and cur: "cur \<in> set (viewRows d v)" "rvi_item_id cur = x"
    and below: "\<And>q. q \<noteq> rvi_position cur \<Longrightarrow> P q \<Longrightarrow> (if w q then q + delta else q) < p"
    and above: "\<And>q. q \<noteq> rvi_position cur \<Longrightarrow> \<not> P q \<Longrightarrow> p < (if w q then q + delta else q)"
    and mono: "\<And>q q'. q \<noteq> rvi_position cur \<Longrightarrow> q' \<noteq> rvi_position cur \<Longrightarrow> q < q' \<Longrightarrow>
                 (if w q then q + delta else q) < (if w q' then q' + delta else q')"
  shows "memberOrder d' v = removeAll x (membersWhere P d v) @ x # removeAll x (membersWhere (\<lambda>q. \<not> P q) d v)
         \<and> distinct (map rvi_position (viewRows d' v))"
proof -
  let ?g = "movedRow v x w delta p"
  let ?rest = "filter (\<lambda>r. rvi_item_id r \<noteq> x) (placed d v)"
  let ?A = "filter (\<lambda>r. P (rvi_position r)) ?rest" and ?B = "filter (\<lambda>r. \<not> P (rvi_position r)) ?rest"
  let ?T = "map ?g (?A @ [cur] @ ?B)"
  have view: "rvi_view_id r = v" if "r \<in> set (placed d v)" for r
    using that by (auto simp: set_placed viewRows_def)
  have items: "distinct (map rvi_item_id (placed d v))" and inc: "sorted_wrt (<) (map rvi_position (placed d v))"
    using ok placed_increasing [OF ok] mset_eq_imp_distinct_iff [of "map rvi_item_id (placed d v)" "map rvi_item_id (viewRows d v)"]
    by (simp_all add: placesOk_iff mset_placed)
  have curp: "cur \<in> set (placed d v)" using cur by (simp add: set_placed)
  have "filter (\<lambda>r. rvi_item_id r = rvi_item_id cur \<and> True) (placed d v) = [cur]"
    using filter_by_key [OF items curp, of "\<lambda>_. True"] by simp
  then have "mset (?A @ [cur] @ ?B) = mset (placed d v)"
    using mset_split [of "\<lambda>r. P (rvi_position r)" ?rest] mset_split [of "\<lambda>r. rvi_item_id r = x" "placed d v"] cur(2)
    by simp
  then have "mset ?T = mset (viewRows d' v)"
    unfolding rows mset_map mset_placed by simp
  moreover have g: "rvi_position (?g r) = (if w (rvi_position r) then rvi_position r + delta else rvi_position r)"
      "rvi_item_id (?g r) = rvi_item_id r" if "r \<in> set ?rest" for r
    using that view by (auto simp: movedRow_def shiftedRow_def isMember_def)
  have gc: "rvi_position (?g cur) = p" "rvi_item_id (?g cur) = x"
    using cur view [OF curp] by (auto simp: movedRow_def isMember_def)
  have other: "rvi_position r \<noteq> rvi_position cur" if "r \<in> set ?rest" for r
    using that curp cur(2) inc by (auto simp: strict_sorted_iff distinct_map inj_on_def)
  have inc': "sorted_wrt (\<lambda>r r'. rvi_position (?g r) < rvi_position (?g r')) ?rest"
  proof (rule sorted_wrt_mono_rel)
    show "sorted_wrt (\<lambda>r r'. rvi_position r < rvi_position r') ?rest"
      using inc by (simp add: sorted_wrt_map sorted_wrt_filter)
    fix r r' assume "r \<in> set ?rest" "r' \<in> set ?rest" "rvi_position r < rvi_position r'"
    then show "rvi_position (?g r) < rvi_position (?g r')"
      unfolding g(1) [OF \<open>r \<in> set ?rest\<close>] g(1) [OF \<open>r' \<in> set ?rest\<close>] by (intro mono other)
  qed
  have lo: "\<forall>r \<in> set ?A. rvi_position (?g r) < p"
    using below [OF other] by (auto simp: g)
  have hi: "\<forall>r \<in> set ?B. p < rvi_position (?g r)"
    using above [OF other] by (auto simp: g)
  have "sorted_wrt (\<lambda>r r'. rvi_position (?g r) < rvi_position (?g r')) (?A @ [cur] @ ?B)"
    unfolding sorted_wrt_append using sorted_wrt_filter [OF inc'] lo hi gc
    by (auto intro: less_trans [of _ p] simp del: filter_filter)
  then have "sorted_wrt (<) (map rvi_position ?T)" by (simp only: sorted_wrt_map)
  moreover have "map rvi_item_id ?T = removeAll x (membersWhere P d v) @ x # removeAll x (membersWhere (\<lambda>q. \<not> P q) d v)"
    using gc(2) by (simp add: membersWhere_def removeAll_filter_not_eq filter_map comp_def conj_commute
        movedRow_item eq_commute [of x])
  ultimately show ?thesis
    using memberOrder_from [of ?T d' v] \<open>mset ?T = mset (viewRows d' v)\<close> by simp
qed

section \<open>Writes of the membership\<close>

datatype memberCommand = AddMember id "int option" | MoveMember id int | DropMember id

definition runMember ::
  "(string \<Rightarrow> bool) \<Rightarrow> ViewTypeRegistry \<Rightarrow> id \<Rightarrow> Actor \<Rightarrow> memberCommand \<Rightarrow> unit op" where
  "runMember zodUuid registry viewId actor cmd =
     (case cmd of
        AddMember i p \<Rightarrow> bnd (addViewItemTx zodUuid registry viewId i p actor) (\<lambda>_. return ())
      | MoveMember i p \<Rightarrow> bnd (reorderViewItemTx zodUuid registry viewId i p actor) (\<lambda>_. return ())
      | DropMember i \<Rightarrow> removeViewItemTx zodUuid registry viewId i actor)"

text \<open>The list operations: a move up goes behind the members at the new position, a move down before them.\<close>

definition positionOf :: "db \<Rightarrow> id \<Rightarrow> id \<Rightarrow> int" where
  "positionOf d viewId itemId = (case filter (isMember viewId itemId) (t_view_items d) of [] \<Rightarrow> 0 | r # _ \<Rightarrow> rvi_position r)"

definition moveSpec :: "db \<Rightarrow> id \<Rightarrow> id \<Rightarrow> int \<Rightarrow> id list" where
  "moveSpec d v x p =
     (if p > positionOf d v x
      then removeAll x (membersWhere (\<lambda>q. q \<le> p) d v) @ x # removeAll x (membersWhere (\<lambda>q. q > p) d v)
      else removeAll x (membersWhere (\<lambda>q. q < p) d v) @ x # removeAll x (membersWhere (\<lambda>q. q \<ge> p) d v))"

definition memberSpec :: "db \<Rightarrow> id \<Rightarrow> memberCommand \<Rightarrow> id list" where
  "memberSpec d v cmd =
     (case cmd of
        AddMember x None \<Rightarrow> if x \<in> set (memberOrder d v) then memberOrder d v else memberOrder d v @ [x]
      | AddMember x (Some p) \<Rightarrow>
          if x \<in> set (memberOrder d v) then moveSpec d v x p
          else membersWhere (\<lambda>q. q < p) d v @ x # membersWhere (\<lambda>q. q \<ge> p) d v
      | MoveMember x p \<Rightarrow> moveSpec d v x p
      | DropMember x \<Rightarrow> removeAll x (memberOrder d v))"

lemma member_iff: "x \<in> set (memberOrder d v) \<longleftrightarrow> filter (isMember v x) (t_view_items d) \<noteq> []"
  by (auto simp: memberOrder_def set_placed viewRows_def isMember_def filter_empty_conv)

text \<open>What one write does to the rows of the table.\<close>

lemma shiftPositions_rows:
  "shiftPositions v w delta c = Inr (u, c') \<Longrightarrow>
   t_view_items (cl_db c') = map (shiftedRow v w delta) (t_view_items (cl_db c)) \<and> t_views (cl_db c') = t_views (cl_db c)"
  by (auto simp: shiftPositions_def comp_simps split: if_splits)

lemma setPosition_rows:
  "setPosition v x p c = Inr (u, c') \<Longrightarrow>
   t_view_items (cl_db c') = map (\<lambda>r. if isMember v x r then r\<lparr>rvi_position := p\<rparr> else r) (t_view_items (cl_db c))"
  by (auto simp: setPosition_def selectViewItems_def statement_def comp_simps andThen_def)

lemma shiftedRow_same [simp]:
  "isMember v x (shiftedRow u w delta r) = isMember v x r"
  by (simp add: shiftedRow_def isMember_def)

lemma reorder_rows:
  assumes "reorderViewItem v x p c = Inr (u, c')"
  shows "\<exists>cur w delta. cur \<in> set (t_view_items (cl_db c)) \<and> isMember v x cur \<and>
    rvi_position cur = positionOf (cl_db c) v x \<and>
    t_view_items (cl_db c') = map (movedRow v x w delta p) (t_view_items (cl_db c)) \<and>
    (p > rvi_position cur \<longrightarrow> w = (\<lambda>q. q > rvi_position cur \<and> q \<le> p) \<and> delta = -1) \<and>
    (p \<le> rvi_position cur \<longrightarrow> w = (\<lambda>q. q \<ge> p \<and> q < rvi_position cur) \<and> delta = 1)"
proof -
  from assms obtain cur rest where f: "filter (isMember v x) (t_view_items (cl_db c)) = cur # rest"
    by (auto simp: reorderViewItem_def selectViewItems_def comp_simps split: list.splits)
  then have m: "cur \<in> set (t_view_items (cl_db c))" "isMember v x cur"
    by (auto simp: filter_eq_Cons_iff)
  define w where "w = (if p > rvi_position cur then \<lambda>q. q > rvi_position cur \<and> q \<le> p else (\<lambda>q. q \<ge> p \<and> q < rvi_position cur))"
  define delta where "delta = (if p > rvi_position cur then -1 else 1 :: int)"
  from assms f obtain u1 c1 u2 where s: "(if p > rvi_position cur
              then shiftPositions v (\<lambda>q. q > rvi_position cur \<and> q \<le> p) (-1)
              else if p < rvi_position cur
              then shiftPositions v (\<lambda>q. q \<ge> p \<and> q < rvi_position cur) 1
              else return ()) c = Inr (u1, c1)" "setPosition v x p c1 = Inr (u2, c')"
    by (auto simp: reorderViewItem_def selectViewItems_def requireInt4_def requireSingleRow_def comp_simps
        elim!: bnd_InrE split: list.splits if_splits)
  have "t_view_items (cl_db c1) = map (shiftedRow v w delta) (t_view_items (cl_db c))"
  proof (cases "p = rvi_position cur")
    case True
    then have "\<not> w q" for q by (simp add: w_def)
    with True s(1) show ?thesis by (simp add: comp_simps shiftedRow_def map_idI)
  next
    case False
    with s(1) show ?thesis by (auto simp: w_def delta_def dest: shiftPositions_rows split: if_splits)
  qed
  with setPosition_rows [OF s(2)] have "t_view_items (cl_db c') = map (movedRow v x w delta p) (t_view_items (cl_db c))"
    by (auto simp: movedRow_def shiftedRow_def isMember_def)
  with m f show ?thesis
    by (intro exI [of _ cur] exI [of _ w] exI [of _ delta]) (auto simp: w_def delta_def positionOf_def)
qed

text \<open>A write that turns the members of one view into a list and leaves the other views alone.\<close>

definition becomes :: "db \<Rightarrow> id \<Rightarrow> id list \<Rightarrow> db \<Rightarrow> bool" where
  "becomes d v xs d' \<longleftrightarrow>
     placesOk d' \<and> memberOrder d' v = xs \<and> (\<forall>w. w \<noteq> v \<longrightarrow> memberOrder d' w = memberOrder d w)"

lemma becomesI:
  assumes "placesOk d" and "\<And>w. w \<noteq> v \<Longrightarrow> viewRows d' w = viewRows d w"
    and "memberOrder d' v = xs \<and> distinct (map rvi_position (viewRows d' v))"
    and "distinct (map rvi_item_id (viewRows d' v))"
  shows "becomes d v xs d'"
proof -
  have "distinct (map rvi_position (viewRows d' w)) \<and> distinct (map rvi_item_id (viewRows d' w))" for w
    using assms by (cases "w = v") (auto simp: placesOk_iff)
  then show ?thesis using assms(2,3) by (auto simp: becomes_def placesOk_iff memberOrder_def placed_def)
qed

lemma becomes_same: "placesOk d \<Longrightarrow> t_view_items d' = t_view_items d \<Longrightarrow> becomes d v (memberOrder d v) d'"
  by (simp add: becomes_def placesOk_def memberOrder_def placed_def viewRows_def)

lemma mapped_rows:
  assumes "t_view_items d' = map g (t_view_items d)" "\<And>r. rvi_view_id (g r) = rvi_view_id r"
    and "\<And>r. rvi_view_id r \<noteq> v \<Longrightarrow> g r = r"
  shows "viewRows d' v = map g (viewRows d v)" "w \<noteq> v \<Longrightarrow> viewRows d' w = viewRows d w"
proof -
  show "viewRows d' v = map g (viewRows d v)"
    using assms(1,2) by (simp add: viewRows_def filter_map comp_def)
  have "map g (filter (\<lambda>r. rvi_view_id r = w) rs) = filter (\<lambda>r. rvi_view_id r = w) rs" if "w \<noteq> v" for rs
    using assms(3) that by (auto intro!: map_idI)
  then show "viewRows d' w = viewRows d w" if "w \<noteq> v"
    using assms(1,2) that by (simp add: viewRows_def filter_map comp_def)
qed

lemma reorder_becomes:
  assumes "placesOk (cl_db c)" "reorderViewItem v x p c = Inr (u, c')"
  shows "becomes (cl_db c) v (moveSpec (cl_db c) v x p) (cl_db c')"
proof -
  obtain cur w delta where r: "cur \<in> set (t_view_items (cl_db c))" "isMember v x cur"
      "rvi_position cur = positionOf (cl_db c) v x"
      "t_view_items (cl_db c') = map (movedRow v x w delta p) (t_view_items (cl_db c))"
    and up: "p > rvi_position cur \<Longrightarrow> w = (\<lambda>q. q > rvi_position cur \<and> q \<le> p) \<and> delta = -1"
    and down: "p \<le> rvi_position cur \<Longrightarrow> w = (\<lambda>q. q \<ge> p \<and> q < rvi_position cur) \<and> delta = 1"
    using reorder_rows [OF assms(2)] by blast
  have cur: "cur \<in> set (viewRows (cl_db c) v)" "rvi_item_id cur = x"
    using r(1,2) by (auto simp: viewRows_def isMember_def)
  note m = mapped_rows [OF r(4), of v]
  have rows: "viewRows (cl_db c') v = map (movedRow v x w delta p) (viewRows (cl_db c) v)"
      "\<And>u. u \<noteq> v \<Longrightarrow> viewRows (cl_db c') u = viewRows (cl_db c) u"
    by (auto intro!: m simp: movedRow_def shiftedRow_def isMember_def)
  have "memberOrder (cl_db c') v = moveSpec (cl_db c) v x p \<and> distinct (map rvi_position (viewRows (cl_db c') v))"
  proof (cases "p > rvi_position cur")
    case True
    with move_order [OF assms(1) rows(1) cur, of "\<lambda>q. q \<le> p"] up show ?thesis
      by (auto simp: moveSpec_def not_le simp flip: r(3))
  next
    case False
    with move_order [OF assms(1) rows(1) cur, of "\<lambda>q. q < p"] down show ?thesis
      by (auto simp: moveSpec_def not_less simp flip: r(3))
  qed
  moreover have "distinct (map rvi_item_id (viewRows (cl_db c') v))"
    using assms(1) by (simp add: rows(1) comp_def movedRow_item placesOk_iff)
  ultimately show ?thesis by (intro becomesI [OF assms(1)] rows(2))
qed

lemma insertViewItem_rows:
  "insertViewItem row c = Inr (rows, c') \<Longrightarrow>
   t_view_items (cl_db c') = t_view_items (cl_db c) @ [row] \<and> rows = [row]"
  by (auto simp: insertViewItem_def statement_def comp_simps andThen_def split: if_splits)

lemma add_becomes:
  assumes ok: "placesOk (cl_db c)" and run: "addViewItem v x position c = Inr (u, c')"
  shows "becomes (cl_db c) v (memberSpec (cl_db c) v (AddMember x position)) (cl_db c')"
proof (cases "x \<in> set (memberOrder (cl_db c) v)")
  case True
  then obtain r rs where "filter (isMember v x) (t_view_items (cl_db c)) = r # rs"
    by (auto simp: member_iff neq_Nil_conv)
  with run True ok show ?thesis
    by (cases position)
       (auto simp: addViewItem_def selectViewItems_def memberSpec_def comp_simps becomes_same reorder_becomes)
next
  case False
  then have none: "filter (isMember v x) (t_view_items (cl_db c)) = []" by (simp add: member_iff)
  let ?d = "cl_db c" and ?d' = "cl_db c'"
  have fresh: "x \<notin> rvi_item_id ` set (viewRows ?d v)" "distinct (map rvi_item_id (viewRows ?d v))"
    using none ok by (auto simp: viewRows_def isMember_def filter_empty_conv placesOk_iff)
  show ?thesis
  proof (cases position)
    case None
    let ?new = "\<lparr>rvi_view_id = v, rvi_item_id = x, rvi_position = nextPosition v (t_view_items ?d)\<rparr>"
    from run none None have "t_view_items ?d' = t_view_items ?d @ [?new]"
      by (auto simp: addViewItem_def selectViewItems_def requireSingleRow_def comp_simps
          elim!: bnd_InrE dest!: insertViewItem_rows)
    then have rows: "viewRows ?d' v = viewRows ?d v @ [?new]" "\<And>w. w \<noteq> v \<Longrightarrow> viewRows ?d' w = viewRows ?d w"
      by (auto simp: viewRows_def)
    have "\<forall>r \<in> set (viewRows ?d v). rvi_position r < rvi_position ?new"
      using nextPosition_above by (auto simp: viewRows_def)
    from becomesI [OF ok rows(2) append_order [OF ok rows(1) this]] fresh None False show ?thesis
      by (simp add: rows(1) memberSpec_def)
  next
    case (Some p)
    let ?new = "\<lparr>rvi_view_id = v, rvi_item_id = x, rvi_position = p\<rparr>"
    let ?g = "shiftedRow v (\<lambda>q. q \<ge> rvi_position ?new) 1"
    from run none Some have "t_view_items ?d' = map ?g (t_view_items ?d) @ [?new]"
      by (auto simp: addViewItem_def selectViewItems_def requireSingleRow_def requireInt4_def comp_simps
          elim!: bnd_InrE dest!: insertViewItem_rows shiftPositions_rows split: if_splits)
    then have "viewRows ?d' w = filter (\<lambda>r. rvi_view_id r = w) (map ?g (t_view_items ?d)) @ (if w = v then [?new] else [])" for w
      by (simp add: viewRows_def)
    moreover note mapped_rows [of "?d\<lparr>t_view_items := map ?g (t_view_items ?d)\<rparr>" ?g ?d v]
    ultimately have rows: "viewRows ?d' v = map ?g (viewRows ?d v) @ [?new]" "\<And>w. w \<noteq> v \<Longrightarrow> viewRows ?d' w = viewRows ?d w"
      by (auto simp: viewRows_def shiftedRow_def)
    from becomesI [OF ok rows(2) insert_order [OF ok rows(1)]] fresh Some False show ?thesis
      by (simp add: rows(1) memberSpec_def comp_def shiftedRow_item)
  qed
qed

lemma remove_becomes:
  assumes ok: "placesOk (cl_db c)" and run: "removeViewItem v x c = Inr (u, c')"
  shows "becomes (cl_db c) v (removeAll x (memberOrder (cl_db c) v)) (cl_db c')"
proof -
  from run have t: "t_view_items (cl_db c') = filter (\<lambda>r. \<not> isMember v x r) (t_view_items (cl_db c))"
    by (auto simp: removeViewItem_def selectViewItems_def statement_def comp_simps andThen_def)
  have rows: "viewRows (cl_db c') v = filter (\<lambda>r. rvi_item_id r \<noteq> x) (viewRows (cl_db c) v)"
      "\<And>w. w \<noteq> v \<Longrightarrow> viewRows (cl_db c') w = viewRows (cl_db c) w"
    by (auto simp: viewRows_def t isMember_def intro!: filter_cong)
  have "memberOrder (cl_db c') v = removeAll x (memberOrder (cl_db c) v)"
    by (simp add: memberOrder_def placed_def rows(1) filter_sort [symmetric] removeAll_filter_not_eq filter_map comp_def
        eq_commute [of x])
  then show ?thesis
    using ok by (intro becomesI [OF ok rows(2)]) (auto simp: rows(1) placesOk_iff distinct_map_filter)
qed

section \<open>The operations\<close>

lemma readsOnly_identity: "readsOnly (assertAuthenticatedAgentIdentity actor)"
  by (auto simp: assertAuthenticatedAgentIdentity_def getDatabaseByModuleId_def selectDatabases_def getItemById_def
      selectItems_def Let_def intro!: reads_intros)

lemma readsOnly_requireView: "readsOnly (requireView v)"
  by (auto simp: requireView_def getView_def selectViews_def intro!: reads_intros)

lemma readsOnly_assertItemExists: "readsOnly (assertItemExists i)"
  by (auto simp: assertItemExists_def getItemsByIds_def visibleDatabaseIds_def selectItems_def intro!: reads_intros)

lemma updateViewRow_members:
  "updateViewRow v f c = Inr (rows, c') \<Longrightarrow> t_view_items (cl_db c') = t_view_items (cl_db c)"
  by (auto simp: updateViewRow_def statement_def andThen_def comp_simps Let_def split: if_splits)

lemma storedView_members:
  assumes "storedView (updateViewRow v f) c = Inr (view, c')"
  shows "t_view_items (cl_db c') = t_view_items (cl_db c)"
proof -
  let ?m = "bnd (updateViewRow v f) (\<lambda>rows. bnd (requireSingleRow rows ''views row'') (\<lambda>row. ofSum (mapViewRow row)))"
  from assms have "?m c = Inr (view, c')"
    by (auto simp: storedView_def catchC_def comp_simps split: sum.splits)
  then obtain rows c1 where "updateViewRow v f c = Inr (rows, c1)"
      "bnd (requireSingleRow rows ''views row'') (\<lambda>row. ofSum (mapViewRow row)) c1 = Inr (view, c')"
    by (rule bnd_InrE)
  moreover have "readsOnly (bnd (requireSingleRow rows ''views row'') (\<lambda>row. ofSum (mapViewRow row)))"
    by (intro reads_intros)
  ultimately show ?thesis by (auto dest: updateViewRow_members readsOnlyD)
qed

lemma adopt_members:
  assumes "adoptIfUserWrite z view actor registry c = Inr (u, c')"
  shows "t_view_items (cl_db c') = t_view_items (cl_db c)"
proof (cases "ac_type actor = ByUser \<and> vw_createdBy view = ByAiAgent")
  case True
  with assms show ?thesis
    by (auto simp: adoptIfUserWrite_def patchView_def comp_simps elim!: bnd_InrE
        dest!: storedView_members readsOnlyD [OF readsOnly_requireView])
next
  case False
  with assms show ?thesis by (auto simp: adoptIfUserWrite_def comp_simps)
qed

lemma curatedWrite_run:
  assumes "curatedWrite z registry v actor check m c = Inr (y, c')" "readsOnly check"
  shows "\<exists>c1. t_view_items (cl_db c1) = t_view_items (cl_db c) \<and> m c1 = Inr (y, c')"
  using assms(1) unfolding curatedWrite_def
  by (elim bnd_InrE)
     (auto split: if_splits simp: comp_simps elim!: bnd_InrE
       dest!: readsOnlyD [OF readsOnly_identity] readsOnlyD [OF readsOnly_requireView] readsOnlyD [OF readsOnly_ofSum]
         readsOnlyD [OF assms(2)] adopt_members)

lemma spec_cong:
  assumes "t_view_items d = t_view_items d'"
  shows "memberSpec d v cmd = memberSpec d' v cmd" "placesOk d = placesOk d'" "becomes d v xs e = becomes d' v xs e"
proof -
  have rows: "viewRows d = viewRows d'" by (simp add: viewRows_def assms fun_eq_iff)
  then have "memberOrder d = memberOrder d'" "membersWhere = (\<lambda>P e. membersWhere P e) \<and> (\<forall>P. membersWhere P d = membersWhere P d')"
    by (auto simp: memberOrder_def membersWhere_def placed_def fun_eq_iff)
  moreover have "positionOf d = positionOf d'" by (simp add: positionOf_def assms fun_eq_iff)
  ultimately show "memberSpec d v cmd = memberSpec d' v cmd" "placesOk d = placesOk d'" "becomes d v xs e = becomes d' v xs e"
    by (auto simp: memberSpec_def moveSpec_def placesOk_def becomes_def assms split: memberCommand.split option.split)
qed

lemma guarded_becomes:
  assumes "placesOk (cl_db c)" "curatedWrite z registry v actor check m c = Inr (y, c')" "readsOnly check"
    and e: "\<And>c1. placesOk (cl_db c1) \<Longrightarrow> m c1 = Inr (y, c') \<Longrightarrow>
              becomes (cl_db c1) v (memberSpec (cl_db c1) v cmd) (cl_db c')"
  shows "becomes (cl_db c) v (memberSpec (cl_db c) v cmd) (cl_db c')"
proof -
  from curatedWrite_run [OF assms(2,3)] obtain c1
    where c1: "t_view_items (cl_db c1) = t_view_items (cl_db c)" "m c1 = Inr (y, c')" by auto
  from e [OF _ c1(2)] assms(1) spec_cong [OF c1(1)] show ?thesis by simp
qed

text \<open>
  C11: adding, moving and removing a member of a curated view, with
  all guards and the adoption before it, turns the view's ordered members into the list the
  operation means (append, insert before the first member at or after the position, move behind or
  before, remove), keeps every position of every view unique, and leaves the members of the other
  views as they are.
\<close>

theorem curated_writes_are_list_operations:
  assumes "placesOk (cl_db c)" and "runMember zodUuid registry viewId actor cmd c = Inr (r, c')"
  shows "placesOk (cl_db c')
    \<and> memberOrder (cl_db c') viewId = memberSpec (cl_db c) viewId cmd
    \<and> (\<forall>other. other \<noteq> viewId \<longrightarrow> memberOrder (cl_db c') other = memberOrder (cl_db c) other)"
proof -
  have "becomes (cl_db c) viewId (memberSpec (cl_db c) viewId cmd) (cl_db c')"
  proof (cases cmd)
    case (AddMember i p)
    with assms(2) obtain y where "addViewItemTx zodUuid registry viewId i p actor c = Inr (y, c')"
      by (auto simp: runMember_def comp_simps elim!: bnd_InrE)
    then show ?thesis
      unfolding addViewItemTx_def AddMember
      by (rule guarded_becomes [OF assms(1)]) (auto intro: readsOnly_assertItemExists add_becomes)
  next
    case (MoveMember i p)
    with assms(2) obtain y where "reorderViewItemTx zodUuid registry viewId i p actor c = Inr (y, c')"
      by (auto simp: runMember_def comp_simps elim!: bnd_InrE)
    then show ?thesis
      unfolding reorderViewItemTx_def MoveMember
      by (rule guarded_becomes [OF assms(1)]) (auto simp: memberSpec_def intro: readsOnly_return reorder_becomes)
  next
    case (DropMember i)
    with assms(2) have "removeViewItemTx zodUuid registry viewId i actor c = Inr (r, c')"
      by (simp add: runMember_def)
    then show ?thesis
      unfolding removeViewItemTx_def DropMember
      by (rule guarded_becomes [OF assms(1)])
         (auto simp: memberSpec_def comp_simps elim!: bnd_InrE intro: readsOnly_return remove_becomes split: if_splits)
  qed
  then show ?thesis by (simp add: becomes_def)
qed

definition exampleMembers :: client where
  "exampleMembers = exampleClient\<lparr>cl_db := emptyDb\<lparr>
     t_views := [\<lparr>rvw_id = ''v'', rvw_database_id = None, rvw_type = ''list'', rvw_name = ''n'',
       rvw_config = [(''membership'', JStr ''manual'')], rvw_is_default = False, rvw_owner_module_id = None,
       rvw_created_by = ''user'', rvw_creator_project_item_id = None\<rparr>],
     t_view_items := [\<lparr>rvi_view_id = ''v'', rvi_item_id = ''a'', rvi_position = 0\<rparr>,
       \<lparr>rvi_view_id = ''w'', rvi_item_id = ''a'', rvi_position = 0\<rparr>,
       \<lparr>rvi_view_id = ''v'', rvi_item_id = ''b'', rvi_position = 1\<rparr>,
       \<lparr>rvi_view_id = ''v'', rvi_item_id = ''c'', rvi_position = 5\<rparr>]\<rparr>\<rparr>"

lemma curated_writes_are_list_operations_witness:
  "\<exists>r c'. runMember (\<lambda>_. True) [] ''v'' \<lparr>ac_type = ByUser, ac_agentProjectItemId = None\<rparr> (MoveMember ''c'' 0)
      exampleMembers = Inr (r, c')
    \<and> placesOk (cl_db c') \<and> memberOrder (cl_db c') ''v'' = [''c'', ''a'', ''b''] \<and> memberOrder (cl_db c') ''w'' = [''a'']"
proof -
  let ?run = "runMember (\<lambda>_. True) [] ''v'' \<lparr>ac_type = ByUser, ac_agentProjectItemId = None\<rparr> (MoveMember ''c'' 0) exampleMembers"
  have "(case ?run of Inl _ \<Rightarrow> False | Inr _ \<Rightarrow> True) \<and> placesOk (cl_db exampleMembers)
    \<and> memberSpec (cl_db exampleMembers) ''v'' (MoveMember ''c'' 0) = [''c'', ''a'', ''b'']
    \<and> memberOrder (cl_db exampleMembers) ''w'' = [''a'']"
    by code_simp
  then obtain r c' where run: "?run = Inr (r, c')" and m: "placesOk (cl_db exampleMembers)"
    "memberSpec (cl_db exampleMembers) ''v'' (MoveMember ''c'' 0) = [''c'', ''a'', ''b'']"
    "memberOrder (cl_db exampleMembers) ''w'' = [''a'']"
    by (auto split: sum.splits)
  from curated_writes_are_list_operations [OF m(1) run] run m(2,3) show ?thesis by auto
qed

end
