(* ===== verification/SortOrder.thy ===== *)
theory SortOrder
  imports Sorts
begin

text \<open>
  What compiled sorts mean in Postgres: the values of a sort key with their orders, \<open>NULLS LAST\<close>
  in both directions, and the truth of a keyset test on a row. A keyset predicate then holds of
  exactly the rows that come after the cursor's row in the order.
\<close>

section \<open>Values and their orders\<close>

text \<open>A \<open>numeric\<close>: \<open>NaN\<close> sorts after every number, as Postgres documents.\<close>

datatype pgNumeric = NegInfinity | Number rat | PosInfinity | NotANumber

definition numericRank :: "pgNumeric \<Rightarrow> nat \<times> rat" where
  "numericRank n = (case n of NegInfinity \<Rightarrow> (0, 0) | Number q \<Rightarrow> (1, q) | PosInfinity \<Rightarrow> (2, 0) | NotANumber \<Rightarrow> (3, 0))"

lemma numericRank_inj: "fst (numericRank a) = fst (numericRank b) \<Longrightarrow> snd (numericRank a) = snd (numericRank b) \<Longrightarrow> a = b"
  by (cases a; cases b) (auto simp: numericRank_def)

instantiation pgNumeric :: linorder
begin

definition less_eq_pgNumeric :: "pgNumeric \<Rightarrow> pgNumeric \<Rightarrow> bool" where
  "less_eq_pgNumeric a b \<longleftrightarrow>
     fst (numericRank a) < fst (numericRank b) \<or>
     (fst (numericRank a) = fst (numericRank b) \<and> snd (numericRank a) \<le> snd (numericRank b))"

definition less_pgNumeric :: "pgNumeric \<Rightarrow> pgNumeric \<Rightarrow> bool" where
  "less_pgNumeric a b \<longleftrightarrow> a \<le> b \<and> \<not> b \<le> (a :: pgNumeric)"

instance
  by standard (auto simp: less_eq_pgNumeric_def less_pgNumeric_def intro: numericRank_inj)

end

text \<open>A value of a sort key after its cast; texts are compared by their collation keys.\<close>

datatype sortVal = NumVal pgNumeric | TimeVal int | TextVal string

instantiation sortVal :: linorder
begin

definition less_eq_sortVal :: "sortVal \<Rightarrow> sortVal \<Rightarrow> bool" where
  "less_eq_sortVal a b =
     (case (a, b) of
        (NumVal x, NumVal y) \<Rightarrow> x \<le> y
      | (NumVal _, _) \<Rightarrow> True
      | (TimeVal x, TimeVal y) \<Rightarrow> x \<le> y
      | (TimeVal _, TextVal _) \<Rightarrow> True
      | (TextVal x, TextVal y) \<Rightarrow> x \<le> y
      | _ \<Rightarrow> False)"

definition less_sortVal :: "sortVal \<Rightarrow> sortVal \<Rightarrow> bool" where
  "less_sortVal a b \<longleftrightarrow> a \<le> b \<and> \<not> b \<le> (a :: sortVal)"

instance
  by standard (auto simp: less_eq_sortVal_def less_sortVal_def split: sortVal.splits)

end

text \<open>A key of a row under one clause: ascending, descending, or null, which comes last.\<close>

datatype orderKey = AscKey sortVal | DescKey sortVal | NullKey

instantiation orderKey :: linorder
begin

definition less_eq_orderKey :: "orderKey \<Rightarrow> orderKey \<Rightarrow> bool" where
  "less_eq_orderKey a b =
     (case (a, b) of
        (AscKey x, AscKey y) \<Rightarrow> x \<le> y
      | (AscKey _, _) \<Rightarrow> True
      | (DescKey x, DescKey y) \<Rightarrow> y \<le> x
      | (DescKey _, NullKey) \<Rightarrow> True
      | (NullKey, NullKey) \<Rightarrow> True
      | _ \<Rightarrow> False)"

definition less_orderKey :: "orderKey \<Rightarrow> orderKey \<Rightarrow> bool" where
  "less_orderKey a b \<longleftrightarrow> a \<le> b \<and> \<not> b \<le> (a :: orderKey)"

instance
  by standard (auto simp: less_eq_orderKey_def less_orderKey_def split: orderKey.splits)

end

definition orderKeyOf :: "sortDirection \<Rightarrow> sortVal option \<Rightarrow> orderKey" where
  "orderKeyOf direction v =
     (case v of None \<Rightarrow> NullKey | Some x \<Rightarrow> (case direction of Asc \<Rightarrow> AscKey x | Desc \<Rightarrow> DescKey x))"

section \<open>Evaluation\<close>

text \<open>
  What Postgres supplies: the text of a JSON value other than a string, the two casts (\<open>None\<close> an
  error), the key a text is collated by, and the truth of a compiled filter on a row.
\<close>

record postgres =
  pg_jsonText :: "json \<Rightarrow> string"
  pg_numeric :: "string \<Rightarrow> pgNumeric option"
  pg_timestamptz :: "string \<Rightarrow> int option"
  pg_collate :: "string \<Rightarrow> string"
  pg_filter :: "string \<Rightarrow> sqlParam list \<Rightarrow> ItemDbRow \<Rightarrow> bool"

text \<open>\<open>->>\<close> and \<open>#>> '{}'\<close>: the text of a value, null for a JSON null and for no value.\<close>

definition jsonbText :: "postgres \<Rightarrow> json option \<Rightarrow> string option" where
  "jsonbText pg v =
     (case v of
        None \<Rightarrow> None
      | Some JNull \<Rightarrow> None
      | Some (JStr s) \<Rightarrow> Some s
      | Some w \<Rightarrow> Some (pg_jsonText pg w))"

definition castText :: "postgres \<Rightarrow> sortCast \<Rightarrow> string \<Rightarrow> sortVal option" where
  "castText pg c s =
     (case c of
        CastNumeric \<Rightarrow> map_option NumVal (pg_numeric pg s)
      | CastTimestamptz \<Rightarrow> map_option TimeVal (pg_timestamptz pg s)
      | CastNone \<Rightarrow> Some (TextVal (pg_collate pg s)))"

definition textParam :: "sqlParam list \<Rightarrow> nat \<Rightarrow> string" where
  "textParam params n = (case params ! (n - 1) of TextParam s \<Rightarrow> s | _ \<Rightarrow> '''')"

definition jsonParam :: "sqlParam list \<Rightarrow> nat \<Rightarrow> json" where
  "jsonParam params n = (case params ! (n - 1) of JsonParam v \<Rightarrow> v | _ \<Rightarrow> JNull)"

text \<open>The text of a key expression on a row, and its value; a text that cannot be cast is no value.\<close>

definition keyText :: "postgres \<Rightarrow> sqlParam list \<Rightarrow> ItemDbRow \<Rightarrow> keyExpr \<Rightarrow> string option" where
  "keyText pg params row e =
     jsonbText pg (map_of (if ke_computed e then rit_computed row else rit_properties row) (textParam params (ke_key e)))"

definition keyValue :: "postgres \<Rightarrow> sqlParam list \<Rightarrow> ItemDbRow \<Rightarrow> keyExpr \<Rightarrow> sortVal option" where
  "keyValue pg params row e = Option.bind (keyText pg params row e) (castText pg (ke_cast e))"

definition castFails :: "postgres \<Rightarrow> sqlParam list \<Rightarrow> (keyExpr \<times> sortDirection) list \<Rightarrow> ItemDbRow \<Rightarrow> bool" where
  "castFails pg params clauses row \<longleftrightarrow>
     (\<exists>(e, _) \<in> set clauses. \<exists>s. keyText pg params row e = Some s \<and> castText pg (ke_cast e) s = None)"

definition boundValue :: "postgres \<Rightarrow> sqlParam list \<Rightarrow> keyExpr \<Rightarrow> nat \<Rightarrow> sortVal option" where
  "boundValue pg params e n = Option.bind (jsonbText pg (Some (jsonParam params n))) (castText pg (ke_cast e))"

definition orderKeys :: "postgres \<Rightarrow> sqlParam list \<Rightarrow> (keyExpr \<times> sortDirection) list \<Rightarrow> ItemDbRow \<Rightarrow> orderKey list" where
  "orderKeys pg params clauses row = map (\<lambda>(e, d). orderKeyOf d (keyValue pg params row e)) clauses"

text \<open>A test is true when Postgres finds it true: a comparison with null is not.\<close>

definition testHolds :: "postgres \<Rightarrow> sqlParam list \<Rightarrow> ItemDbRow \<Rightarrow> keysetTest \<Rightarrow> bool" where
  "testHolds pg params row t =
     (case t of
        TestFalse \<Rightarrow> False
      | TestIsNull e \<Rightarrow> keyText pg params row e = None
      | TestSame e n \<Rightarrow> keyValue pg params row e \<noteq> None \<and> keyValue pg params row e = boundValue pg params e n
      | TestAfter e d n \<Rightarrow>
          keyText pg params row e = None \<or>
          (case (keyValue pg params row e, boundValue pg params e n) of
             (Some x, Some y) \<Rightarrow> (case d of Asc \<Rightarrow> x > y | Desc \<Rightarrow> x < y)
           | _ \<Rightarrow> False)
      | TestIdAfter n \<Rightarrow> rit_id row > textParam params n)"

definition keysetHolds :: "postgres \<Rightarrow> sqlParam list \<Rightarrow> keysetTest list list \<Rightarrow> ItemDbRow \<Rightarrow> bool" where
  "keysetHolds pg params branches row \<longleftrightarrow> list_ex (list_all (testHolds pg params row)) branches"

section \<open>The keys of a row and of a cursor\<close>

text \<open>The value a sort has on a row, read without the placeholders, and the value of a cursor.\<close>

definition specCast :: "SortProperties \<Rightarrow> SortSpec \<Rightarrow> sortCast" where
  "specCast properties spec =
     (case lookupSortProperty spec properties of
        Inl _ \<Rightarrow> CastNone
      | Inr p \<Rightarrow> (case sortKeyCast p of Inl _ \<Rightarrow> CastNone | Inr c \<Rightarrow> c))"

definition specJson :: "SortProperties \<Rightarrow> ItemDbRow \<Rightarrow> SortSpec \<Rightarrow> json option" where
  "specJson properties row spec =
     map_of (case lookupSortProperty spec properties of
               Inr p \<Rightarrow> if pr_type p = PtRollup then rit_computed row else rit_properties row
             | Inl _ \<Rightarrow> rit_properties row) (so_property spec)"

definition valueKey :: "postgres \<Rightarrow> SortProperties \<Rightarrow> SortSpec \<Rightarrow> json option \<Rightarrow> orderKey" where
  "valueKey pg properties spec v =
     orderKeyOf (so_direction spec) (Option.bind (jsonbText pg v) (castText pg (specCast properties spec)))"

definition castable :: "postgres \<Rightarrow> SortProperties \<Rightarrow> SortSpec \<Rightarrow> json option \<Rightarrow> bool" where
  "castable pg properties spec v \<longleftrightarrow>
     (case jsonbText pg v of None \<Rightarrow> True | Some s \<Rightarrow> castText pg (specCast properties spec) s \<noteq> None)"

lemma sortKeyExpression_Inr:
  assumes "lookupSortProperty spec props = Inr p" "sortKeyExpression spec p params = Inr (e, ps)"
  shows "ps = params @ [TextParam (so_property spec)]" "ke_key e = length ps" "ke_cast e = specCast props spec"
    and "ke_computed e \<longleftrightarrow> pr_type p = PtRollup"
  using assms by (auto simp: sortKeyExpression_def specCast_def Let_def map_sum_def split: sum.splits)

lemma keyText_spec:
  assumes "lookupSortProperty spec props = Inr p" "sortKeyExpression spec p params = Inr (e, ps)"
    and "all = ps @ rest"
  shows "keyText pg all row e = jsonbText pg (specJson props row spec)"
  using sortKeyExpression_Inr [OF assms(1,2)] assms(1,3)
  by (auto simp: keyText_def specJson_def textParam_def nth_append)

lemma keyValue_spec:
  assumes "lookupSortProperty spec props = Inr p" "sortKeyExpression spec p params = Inr (e, ps)"
    and "all = ps @ rest"
  shows "orderKeyOf (so_direction spec) (keyValue pg all row e) = valueKey pg props spec (specJson props row spec)"
  using keyText_spec [OF assms] sortKeyExpression_Inr(3) [OF assms(1,2)]
  by (simp add: keyValue_def valueKey_def)

lemma sortClauses_extends:
  "sortClauses sorts props params = Inr (clauses, ps) \<Longrightarrow> \<exists>rest. ps = params @ rest"
proof (induction sorts arbitrary: params clauses)
  case (Cons spec sorts)
  then show ?case
    by (fastforce simp: map_sum_def sortKeyExpression_def Let_def split: sum.splits)
qed simp

lemma sortClauses_keys:
  "sortClauses sorts props params = Inr (clauses, ps) \<Longrightarrow>
   orderKeys pg (ps @ rest) clauses row = map (\<lambda>spec. valueKey pg props spec (specJson props row spec)) sorts"
proof (induction sorts arbitrary: params clauses)
  case (Cons spec sorts)
  from Cons.prems obtain p e ps1 cs where p: "lookupSortProperty spec props = Inr p"
      "sortKeyExpression spec p params = Inr (e, ps1)"
      "sortClauses sorts props ps1 = Inr (cs, ps)" "clauses = (e, so_direction spec) # cs"
    by (auto simp: map_sum_def split: sum.splits)
  from sortClauses_extends [OF p(3)] obtain m where "ps @ rest = ps1 @ m @ rest" by auto
  from keyValue_spec [OF p(1,2) this] Cons.IH [OF p(3)] p(4) show ?case
    by (simp add: orderKeys_def)
qed (simp add: orderKeys_def)

lemma sortClauses_castable:
  "sortClauses sorts props params = Inr (clauses, ps) \<Longrightarrow>
   castFails pg (ps @ rest) clauses row = (\<not> list_all (\<lambda>spec. castable pg props spec (specJson props row spec)) sorts)"
proof (induction sorts arbitrary: params clauses)
  case (Cons spec sorts)
  from Cons.prems obtain p e ps1 cs where p: "lookupSortProperty spec props = Inr p"
      "sortKeyExpression spec p params = Inr (e, ps1)"
      "sortClauses sorts props ps1 = Inr (cs, ps)" "clauses = (e, so_direction spec) # cs"
    by (auto simp: map_sum_def split: sum.splits)
  from sortClauses_extends [OF p(3)] obtain m where "ps @ rest = ps1 @ m @ rest" by auto
  from keyText_spec [OF p(1,2) this] sortKeyExpression_Inr(3) [OF p(1,2)] Cons.IH [OF p(3)] p(4) show ?case
    by (auto simp: castFails_def castable_def split: option.splits)
qed (simp add: castFails_def)

text \<open>The keyset tests of one sort, on a row whose value can be cast.\<close>

lemma specText_value:
  "castable pg props spec v \<Longrightarrow>
   (jsonbText pg v = None) = (Option.bind (jsonbText pg v) (castText pg (specCast props spec)) = None)"
  by (auto simp: castable_def split: option.splits)

lemma value_tests:
  assumes p: "lookupSortProperty spec props = Inr p" and e: "sortKeyExpression spec p params = Inr (e, ps)"
    and v: "v \<noteq> JNull" and all: "all = ps @ JsonParam v # rest"
    and row: "castable pg props spec (specJson props row spec)" and cv: "castable pg props spec (Some v)"
  shows "testHolds pg all row (TestAfter e (so_direction spec) (Suc (length ps)))
           = (valueKey pg props spec (Some v) < valueKey pg props spec (specJson props row spec))"
    and "testHolds pg all row (TestSame e (Suc (length ps)))
           = (valueKey pg props spec (Some v) = valueKey pg props spec (specJson props row spec))"
proof -
  let ?v = "Option.bind (jsonbText pg (Some v)) (castText pg (specCast props spec))"
  let ?r = "Option.bind (jsonbText pg (specJson props row spec)) (castText pg (specCast props spec))"
  have ke: "ke_cast e = specCast props spec" by (rule sortKeyExpression_Inr(3) [OF p e])
  have kt: "keyText pg all row e = jsonbText pg (specJson props row spec)"
    by (rule keyText_spec [OF p e all])
  have kv: "keyValue pg all row e = ?r" by (simp add: keyValue_def kt ke)
  have bv: "boundValue pg all e (Suc (length ps)) = ?v"
    by (simp add: boundValue_def ke jsonParam_def all nth_append)
  have "jsonbText pg (Some v) \<noteq> None" using v by (cases v) (auto simp: jsonbText_def)
  with specText_value [OF cv] obtain y where y: "?v = Some y" by auto
  note none = specText_value [OF row]
  show "testHolds pg all row (TestAfter e (so_direction spec) (Suc (length ps)))
           = (valueKey pg props spec (Some v) < valueKey pg props spec (specJson props row spec))"
    using none y
    by (cases ?r; cases "so_direction spec")
       (auto simp: testHolds_def kt kv bv valueKey_def orderKeyOf_def less_orderKey_def less_eq_orderKey_def)
  show "testHolds pg all row (TestSame e (Suc (length ps)))
           = (valueKey pg props spec (Some v) = valueKey pg props spec (specJson props row spec))"
    using y
    by (cases ?r; cases "so_direction spec") (auto simp: testHolds_def kv bv valueKey_def orderKeyOf_def)
qed

lemma null_tests:
  assumes p: "lookupSortProperty spec props = Inr p" and e: "sortKeyExpression spec p params = Inr (e, ps)"
    and all: "all = ps @ rest" and row: "castable pg props spec (specJson props row spec)"
  shows "testHolds pg all row TestFalse
           = (valueKey pg props spec (Some JNull) < valueKey pg props spec (specJson props row spec))"
    and "testHolds pg all row (TestIsNull e)
           = (valueKey pg props spec (Some JNull) = valueKey pg props spec (specJson props row spec))"
proof -
  let ?r = "Option.bind (jsonbText pg (specJson props row spec)) (castText pg (specCast props spec))"
  have kt: "keyText pg all row e = jsonbText pg (specJson props row spec)"
    by (rule keyText_spec [OF p e all])
  note none = specText_value [OF row]
  show "testHolds pg all row TestFalse
           = (valueKey pg props spec (Some JNull) < valueKey pg props spec (specJson props row spec))"
    by (cases ?r; cases "so_direction spec")
       (auto simp: testHolds_def valueKey_def orderKeyOf_def jsonbText_def less_orderKey_def less_eq_orderKey_def)
  show "testHolds pg all row (TestIsNull e)
           = (valueKey pg props spec (Some JNull) = valueKey pg props spec (specJson props row spec))"
    using none
    by (cases ?r; cases "so_direction spec")
       (auto simp: testHolds_def kt valueKey_def orderKeyOf_def jsonbText_def)
qed

text \<open>The disjunction of prefixes is the lexicographic order, the id breaking ties.\<close>

lemma keysetBranches_Cons:
  "keysetBranches (k # keys) t = [fst k] # map ((#) (snd k)) (keysetBranches keys t)"
proof -
  have "map (\<lambda>i. map snd (take i (k # keys)) @ [fst ((k # keys) ! i)]) [0..<Suc (length keys)]
        = [fst k] # map (\<lambda>i. snd k # map snd (take i keys) @ [fst (keys ! i)]) [0..<length keys]"
    by (simp add: map_upt_Suc del: upt_Suc)
  then show ?thesis by (simp add: keysetBranches_def del: upt_Suc)
qed

lemma keysetHolds_Cons:
  "keysetHolds pg all (keysetBranches (k # keys) t) row \<longleftrightarrow>
   testHolds pg all row (fst k) \<or> (testHolds pg all row (snd k) \<and> keysetHolds pg all (keysetBranches keys t) row)"
  by (auto simp: keysetHolds_def keysetBranches_Cons list_ex_iff list_all_iff)

lemma keysetHolds_Nil: "keysetHolds pg all (keysetBranches [] t) row \<longleftrightarrow> testHolds pg all row t"
  by (simp add: keysetHolds_def keysetBranches_def)

lemma keysetKeys_extends:
  "keysetKeys sorts props values params = Inr (keys, ps) \<Longrightarrow> \<exists>rest. ps = params @ rest"
proof (induction sorts arbitrary: "values" params keys)
  case (Cons spec sorts)
  then show ?case
    by (fastforce simp: map_sum_def sortKeyExpression_def Let_def split: sum.splits if_splits)
qed simp

definition rowKeys :: "postgres \<Rightarrow> SortProperties \<Rightarrow> SortSpec list \<Rightarrow> ItemDbRow \<Rightarrow> orderKey list" where
  "rowKeys pg properties sorts row = map (\<lambda>spec. valueKey pg properties spec (specJson properties row spec)) sorts"

definition cursorKeys :: "postgres \<Rightarrow> SortProperties \<Rightarrow> SortSpec list \<Rightarrow> json list \<Rightarrow> orderKey list" where
  "cursorKeys pg properties sorts values = map2 (\<lambda>spec v. valueKey pg properties spec (Some v)) sorts values"

definition rowCastable :: "postgres \<Rightarrow> SortProperties \<Rightarrow> SortSpec list \<Rightarrow> ItemDbRow \<Rightarrow> bool" where
  "rowCastable pg properties sorts row = list_all (\<lambda>spec. castable pg properties spec (specJson properties row spec)) sorts"

definition cursorCastable :: "postgres \<Rightarrow> SortProperties \<Rightarrow> SortSpec list \<Rightarrow> json list \<Rightarrow> bool" where
  "cursorCastable pg properties sorts values = list_all2 (\<lambda>spec v. castable pg properties spec (Some v)) sorts values"

lemma keyset_tests:
  assumes "keysetKeys sorts props values params = Inr (keys, ps)" "all = ps @ rest"
    and "rowCastable pg props sorts row" "cursorCastable pg props sorts values"
  shows "keysetHolds pg all (keysetBranches keys t) row \<longleftrightarrow>
      cursorKeys pg props sorts values < rowKeys pg props sorts row \<or>
      (cursorKeys pg props sorts values = rowKeys pg props sorts row \<and> testHolds pg all row t)"
  using assms
proof (induction sorts arbitrary: "values" params keys)
  case Nil
  then show ?case by (simp add: cursorKeys_def rowKeys_def keysetHolds_Nil)
next
  case (Cons spec sorts)
  from Cons.prems(4) obtain v vs where v: "values = v # vs" "castable pg props spec (Some v)" "cursorCastable pg props sorts vs"
    by (cases "values") (auto simp: cursorCastable_def)
  from Cons.prems(3) have row: "castable pg props spec (specJson props row spec)" "rowCastable pg props sorts row"
    by (auto simp: rowCastable_def)
  define ps2 where "ps2 qs = (if v = JNull then qs else qs @ [JsonParam v])" for qs :: "sqlParam list"
  from Cons.prems(1) v(1) obtain p e ps1 ks where k: "lookupSortProperty spec props = Inr p"
      "sortKeyExpression spec p params = Inr (e, ps1)" "keysetKeys sorts props vs (ps2 ps1) = Inr (ks, ps)"
      "keys = (if v = JNull then (TestFalse, TestIsNull e)
               else (TestAfter e (so_direction spec) (length (ps2 ps1)), TestSame e (length (ps2 ps1)))) # ks"
    by (auto simp: map_sum_def Let_def ps2_def split: sum.splits if_splits)
  from keysetKeys_extends [OF k(3)] Cons.prems(2) obtain m where all: "all = ps2 ps1 @ m" by auto
  have "testHolds pg all row (fst (hd keys)) = (valueKey pg props spec (Some v) < valueKey pg props spec (specJson props row spec))
      \<and> testHolds pg all row (snd (hd keys)) = (valueKey pg props spec (Some v) = valueKey pg props spec (specJson props row spec))"
  proof (cases "v = JNull")
    case True
    with null_tests [OF k(1,2) _ row(1)] all k(4) show ?thesis by (simp add: ps2_def)
  next
    case False
    with value_tests [OF k(1,2) False _ row(1) v(2)] all k(4) show ?thesis by (simp add: ps2_def)
  qed
  moreover note Cons.IH [OF k(3) Cons.prems(2) row(2) v(3)]
  ultimately show ?case
    using k(4) v(1) by (auto simp: keysetHolds_Cons cursorKeys_def rowKeys_def)
qed

text \<open>The keyset predicate: the rows that come strictly after the cursor, in the order and then by id.\<close>

lemma sortKeyset_after:
  assumes "sortKeyset sorts props (values, cid) params = Inr (branches, ps)" "all = ps @ rest"
    and "rowCastable pg props sorts row" "cursorCastable pg props sorts values"
  shows "keysetHolds pg all branches row \<longleftrightarrow>
      cursorKeys pg props sorts values < rowKeys pg props sorts row \<or>
      (cursorKeys pg props sorts values = rowKeys pg props sorts row \<and> cid < rit_id row)"
proof -
  from assms(1) obtain keys qs where k: "keysetKeys sorts props values params = Inr (keys, qs)"
      "branches = keysetBranches keys (TestIdAfter (Suc (length qs)))" "ps = qs @ [TextParam cid]"
    by (auto simp: sortKeyset_def map_sum_def Let_def split: sum.splits)
  have "testHolds pg all row (TestIdAfter (Suc (length qs))) = (cid < rit_id row)"
    using assms(2) k(3) by (simp add: testHolds_def textParam_def nth_append)
  moreover have "all = qs @ TextParam cid # rest" using assms(2) k(3) by simp
  ultimately show ?thesis
    using keyset_tests [OF k(1) _ assms(3,4)] k(2) by simp
qed

end
