(* ===== verification/ViewQuery.thy ===== *)
theory ViewQuery
  imports SortOrder Views
begin

text \<open>
  Queries of databases and views (\<open>views/viewQuery.ts\<close>, \<open>chokePoint/viewQueryOps.ts\<close>): the one
  engine that filters, sorts and pages the items of a database, the cursors of its pages, the
  paging of curated views, and the validation of a request's raw input. What JavaScript and
  Postgres supply is the environment: the casts and collation, the text of a number, the
  base64url coding of a cursor's JSON, \<open>Date.parse\<close> and \<open>Number\<close>.
\<close>

record queryEnv =
  qe_pg :: postgres
  qe_zodUuid :: "string \<Rightarrow> bool"
  qe_numText :: "rat \<Rightarrow> string"
  qe_encode :: "json \<Rightarrow> string"
  qe_decode :: "string \<Rightarrow> json option"
  qe_dateParses :: "string \<Rightarrow> bool"
  qe_toNumber :: "string \<Rightarrow> rat option"

record QueryViewOptions =
  qo_limit :: "nat option"
  qo_cursor :: "string option"
  qo_includeDeleted :: bool

type_synonym QueryViewResult = "ItemRow list \<times> string option"

definition invalidCursor :: error where
  "invalidCursor = ValidationError (Some ''cursor'')"

definition buildSortSpecs :: "ViewConfig \<Rightarrow> SortSpec list" where
  "buildSortSpecs config =
     (let specs = (case vc_sort config of None \<Rightarrow> [] | Some s \<Rightarrow> s) in
      if truthy (vc_groupBy config)
      then \<lparr>so_property = the (vc_groupBy config), so_direction = Asc\<rparr> # specs else specs)"

section \<open>The cursor of a sorted page\<close>

text \<open>The value a sort has on an item, as the cursor carries it.\<close>

definition sortValue :: "SortProperties \<Rightarrow> ItemRow \<Rightarrow> SortSpec \<Rightarrow> json" where
  "sortValue properties item spec =
     (let source = (case map_of properties (so_property spec) of
            Some p \<Rightarrow> if pr_type p = PtRollup then it_computed item else it_properties item
          | None \<Rightarrow> it_properties item)
      in case map_of source (so_property spec) of None \<Rightarrow> JNull | Some v \<Rightarrow> v)"

definition cursorPayload :: "SortSpec list \<Rightarrow> SortProperties \<Rightarrow> ItemRow \<Rightarrow> json" where
  "cursorPayload sortSpecs properties item =
     JObj [(''v'', JArr (map (sortValue properties item) sortSpecs)), (''id'', JStr (it_id item))]"

definition encodeSortCursor :: "queryEnv \<Rightarrow> SortSpec list \<Rightarrow> SortProperties \<Rightarrow> ItemRow \<Rightarrow> string" where
  "encodeSortCursor env sortSpecs properties item = qe_encode env (cursorPayload sortSpecs properties item)"

text \<open>\<open>/^\s*[-+]?(\d+(\.\d*)?|\.\d+)([eE][-+]?\d+)?\s*$/\<close>.\<close>

definition isWhite :: "char \<Rightarrow> bool" where
  "isWhite c \<longleftrightarrow> c \<in> {CHR 9, CHR 10, CHR 11, CHR 12, CHR 13, CHR 32, CHR 160}"

definition dropSign :: "string \<Rightarrow> string" where
  "dropSign s = (case s of c # r \<Rightarrow> if c = CHR ''-'' \<or> c = CHR ''+'' then r else s | [] \<Rightarrow> s)"

definition afterMantissa :: "string \<Rightarrow> string option" where
  "afterMantissa s =
     (let r = dropWhile isDigit s in
      if takeWhile isDigit s \<noteq> []
      then Some (if take 1 r = ''.'' then dropWhile isDigit (tl r) else r)
      else if take 1 r = ''.'' \<and> takeWhile isDigit (tl r) \<noteq> [] then Some (dropWhile isDigit (tl r)) else None)"

definition afterExponent :: "string \<Rightarrow> string option" where
  "afterExponent s =
     (case s of
        c # r \<Rightarrow>
          if c = CHR ''e'' \<or> c = CHR ''E''
          then (let d = dropSign r in
                if takeWhile isDigit d = [] then None else Some (dropWhile isDigit d))
          else Some s
      | [] \<Rightarrow> Some [])"

definition NUMERIC_TEXT_RE :: "string \<Rightarrow> bool" where
  "NUMERIC_TEXT_RE s =
     (case Option.bind (afterMantissa (dropSign (dropWhile isWhite s))) afterExponent of
        None \<Rightarrow> False | Some r \<Rightarrow> list_all isWhite r)"

definition castableTo :: "queryEnv \<Rightarrow> sortCast \<Rightarrow> json \<Rightarrow> bool" where
  "castableTo env c v =
     (if v = JNull then True
      else case c of
        CastNumeric \<Rightarrow> (case v of JNum _ \<Rightarrow> True | JStr s \<Rightarrow> NUMERIC_TEXT_RE s | _ \<Rightarrow> False)
      | CastTimestamptz \<Rightarrow> (case v of JStr s \<Rightarrow> qe_dateParses env s | _ \<Rightarrow> False)
      | CastNone \<Rightarrow> True)"

text \<open>\<open>sortSpecs.every(...)\<close>: stops at the first value that cannot be cast.\<close>

fun everyCastable :: "queryEnv \<Rightarrow> SortProperties \<Rightarrow> SortSpec list \<Rightarrow> json list \<Rightarrow> error + bool" where
  "everyCastable env properties (spec # specs) (v # vs) =
     (case map_of properties (so_property spec) of
        None \<Rightarrow> everyCastable env properties specs vs
      | Some p \<Rightarrow>
          (case sortKeyCast p of
             Inl e \<Rightarrow> Inl e
           | Inr c \<Rightarrow> if castableTo env c v then everyCastable env properties specs vs else Inr False))"
| "everyCastable env properties _ _ = Inr True"

definition decodeSortCursor ::
  "queryEnv \<Rightarrow> string \<Rightarrow> SortSpec list \<Rightarrow> SortProperties \<Rightarrow> error + json list \<times> id" where
  "decodeSortCursor env raw sortSpecs properties =
     (case qe_decode env raw of
        Some (JObj payload) \<Rightarrow>
          (case (map_of payload ''v'', map_of payload ''id'') of
             (Some (JArr vs), Some (JStr i)) \<Rightarrow>
               if length vs \<noteq> length sortSpecs \<or> \<not> isUuid i then Inl invalidCursor
               else (case everyCastable env properties sortSpecs vs of
                       Inl e \<Rightarrow> Inl e
                     | Inr ok \<Rightarrow> if ok then Inr (vs, i) else Inl invalidCursor)
           | _ \<Rightarrow> Inl invalidCursor)
      | _ \<Rightarrow> Inl invalidCursor)"

section \<open>The engine\<close>

text \<open>
  The query \<open>listItems\<close> builds for these options: filter text, order clauses and keyset tests, in
  the order in which they push their parameters.
\<close>

record builtQuery =
  bq_filter :: "string option"
  bq_order :: "(keyExpr \<times> sortDirection) list"
  bq_after :: "keysetTest list list option"
  bq_params :: "sqlParam list"

definition filterPart ::
  "queryEnv \<Rightarrow> id \<Rightarrow> FilterNode option \<Rightarrow> FilterProperties \<Rightarrow> error + string option \<times> sqlParam list" where
  "filterPart env databaseId filterNode filterProperties =
     (case filterNode of
        None \<Rightarrow> Inr (None, [TextParam databaseId])
      | Some node \<Rightarrow> map_sum id (\<lambda>(s, ps). (Some s, ps))
          (compileFilterNode (qe_numText env) node filterProperties [TextParam databaseId]))"

definition buildQuery ::
  "queryEnv \<Rightarrow> id \<Rightarrow> FilterNode option \<Rightarrow> FilterProperties \<Rightarrow> SortSpec list \<Rightarrow> SortProperties \<Rightarrow>
   (json list \<times> id) option \<Rightarrow> error + builtQuery" where
  "buildQuery env databaseId filterNode filterProperties sortSpecs sortProperties sortCursor =
     (case filterPart env databaseId filterNode filterProperties of
        Inl e \<Rightarrow> Inl e
      | Inr (filterSql, params1) \<Rightarrow>
          (case sortClauses sortSpecs sortProperties params1 of
             Inl e \<Rightarrow> Inl e
           | Inr (clauses, params2) \<Rightarrow>
               (case sortCursor of
                  None \<Rightarrow> Inr \<lparr>bq_filter = filterSql, bq_order = clauses, bq_after = None, bq_params = params2\<rparr>
                | Some cursor \<Rightarrow>
                    map_sum id (\<lambda>(branches, params3).
                        \<lparr>bq_filter = filterSql, bq_order = clauses, bq_after = Some branches, bq_params = params3\<rparr>)
                      (sortKeyset sortSpecs sortProperties cursor params2))))"

definition propertiesByKey :: "PropertyRow list \<Rightarrow> SortProperties" where
  "propertiesByKey properties = fold (\<lambda>p. AList.update (pr_key p) p) properties []"

text \<open>A row the query reads: in the database, live unless deleted ones are wanted, past the filter.\<close>

definition queried :: "queryEnv \<Rightarrow> id \<Rightarrow> bool \<Rightarrow> builtQuery \<Rightarrow> ItemDbRow \<Rightarrow> bool" where
  "queried env databaseId includeDeleted q row \<longleftrightarrow>
     rit_database_id row = databaseId \<and> (includeDeleted \<or> rit_deleted_at row = None) \<and>
     (case bq_filter q of None \<Rightarrow> True | Some s \<Rightarrow> pg_filter (qe_pg env) s (bq_params q) row)"

definition sortCursorOf ::
  "queryEnv \<Rightarrow> SortSpec list \<Rightarrow> SortProperties \<Rightarrow> string option \<Rightarrow> (json list \<times> id) option op" where
  "sortCursorOf env sortSpecs sortProperties cursor =
     (case cursor of
        None \<Rightarrow> return None
      | Some raw \<Rightarrow>
          if sortSpecs = [] then return None
          else bnd (ofSum (decodeSortCursor env raw sortSpecs sortProperties)) (\<lambda>c. return (Some c)))"

text \<open>The options of the \<open>listItems\<close> call, its SQL already built.\<close>

definition listOptions ::
  "queryEnv \<Rightarrow> SortSpec list \<Rightarrow> SortProperties \<Rightarrow> QueryViewOptions \<Rightarrow> builtQuery \<Rightarrow> orderKey list ListItemsOptions" where
  "listOptions env sortSpecs sortProperties options q =
     (let sorted = (sortSpecs \<noteq> []); pg = qe_pg env in
      \<lparr>lo_limit = qo_limit options,
       lo_cursor = (if sorted then None else qo_cursor options),
       lo_includeDeleted = qo_includeDeleted options,
       lo_filter = map_option (\<lambda>s. pg_filter pg s (bq_params q)) (bq_filter q),
       lo_orderBy = (if sorted then Some (orderKeys pg (bq_params q) (bq_order q)) else None),
       lo_keyset =
         (if sorted
          then Some (map_option (keysetHolds pg (bq_params q)) (bq_after q),
                     encodeSortCursor env sortSpecs sortProperties)
          else None)\<rparr>)"

text \<open>Postgres fails the query when a row it reads has a sort key that cannot be cast.\<close>

definition anyCastFails :: "queryEnv \<Rightarrow> id \<Rightarrow> bool \<Rightarrow> builtQuery \<Rightarrow> db \<Rightarrow> bool" where
  "anyCastFails env databaseId includeDeleted q d \<longleftrightarrow>
     (\<exists>r \<in> set (t_items d). queried env databaseId includeDeleted q r
        \<and> castFails (qe_pg env) (bq_params q) (bq_order q) r)"

definition queryItemsCore ::
  "queryEnv \<Rightarrow> id \<Rightarrow> FilterNode option \<Rightarrow> SortSpec list \<Rightarrow> QueryViewOptions \<Rightarrow> QueryViewResult op" where
  "queryItemsCore env databaseId filterNode sortSpecs options =
     bnd (listPropertiesByDatabase databaseId) (\<lambda>properties.
     let sortProperties = propertiesByKey properties in
     bnd (if filterNode = None then return [] else buildFilterProperties (qe_zodUuid env) properties) (\<lambda>filterProperties.
     bnd (sortCursorOf env sortSpecs sortProperties (qo_cursor options)) (\<lambda>sortCursor.
     bnd (ofSum (buildQuery env databaseId filterNode filterProperties sortSpecs sortProperties sortCursor)) (\<lambda>q.
     bnd (query (anyCastFails env databaseId (qo_includeDeleted options) q)) (\<lambda>fails.
     if fails then throw (DbError ''22P02'')
     else listItems databaseId (listOptions env sortSpecs sortProperties options q))))))"

section \<open>Views\<close>

definition projected :: "ViewConfig \<Rightarrow> QueryViewResult \<Rightarrow> QueryViewResult" where
  "projected config r =
     (map (\<lambda>item. item\<lparr>it_properties := projectProperties (it_properties item) config\<rparr>) (fst r), snd r)"

definition queryFilteredView :: "queryEnv \<Rightarrow> id \<Rightarrow> ViewConfig \<Rightarrow> QueryViewOptions \<Rightarrow> QueryViewResult op" where
  "queryFilteredView env databaseId config options =
     bnd (queryItemsCore env databaseId (vc_filter config) (buildSortSpecs config) options) (\<lambda>r.
     return (projected config r))"

definition intText :: "int \<Rightarrow> string" where
  "intText p = (if p < 0 then CHR ''-'' # natText (nat (- p)) else natText (nat p))"

text \<open>A cursor is bound as a Postgres \<open>integer\<close> where live members are read.\<close>

definition livePosition :: "rat option \<Rightarrow> int option op" where
  "livePosition q =
     (case q of
        None \<Rightarrow> return None
      | Some r \<Rightarrow> if of_int \<lfloor>r\<rfloor> \<noteq> r then throw (DbError ''22P02'')
                   else bnd (requireInt4 \<lfloor>r\<rfloor>) (\<lambda>_. return (Some \<lfloor>r\<rfloor>)))"

definition queryCuratedView :: "queryEnv \<Rightarrow> ViewRow \<Rightarrow> QueryViewOptions \<Rightarrow> QueryViewResult op" where
  "queryCuratedView env view options =
     (let limit = min (case qo_limit options of None \<Rightarrow> 50 | Some n \<Rightarrow> n) 200 in
      bnd (case qo_cursor options of
             None \<Rightarrow> return None
           | Some cursor \<Rightarrow> (case qe_toNumber env cursor of
                 None \<Rightarrow> throw invalidCursor | Some q \<Rightarrow> return (Some q))) (\<lambda>cursorPosition.
      bnd (if qo_includeDeleted options
           then bnd (listViewItems (vw_id view)) (\<lambda>members.
                return (case cursorPosition of
                    None \<Rightarrow> members
                  | Some q \<Rightarrow> filter (\<lambda>m. of_int (vir_position m) > q) members))
           else bnd (livePosition cursorPosition) (\<lambda>p. listLiveViewItemsAfter (vw_id view) p (limit + 1))) (\<lambda>afterCursor.
      let hasMore = length afterCursor > limit; page = take limit afterCursor in
      bnd ((if qo_includeDeleted options then getItemsByIdsIncludingDeleted else getItemsByIds)
             (map vir_itemId page)) (\<lambda>found.
      let itemsById = map_of (rev (map (\<lambda>i. (it_id i, i)) found)) in
      return (List.map_filter (\<lambda>m. itemsById (vir_itemId m)) page,
              if hasMore \<and> page \<noteq> [] then Some (intText (vir_position (last page))) else None)))))"

definition queryView :: "queryEnv \<Rightarrow> id \<Rightarrow> QueryViewOptions \<Rightarrow> QueryViewResult op" where
  "queryView env viewId options =
     bnd (getView viewId) (\<lambda>found.
     case found of
       None \<Rightarrow> throw NotFoundError
     | Some view \<Rightarrow>
         (case vw_databaseId view of
            None \<Rightarrow> queryCuratedView env view options
          | Some databaseId \<Rightarrow>
              bnd (ofSum (parseViewConfig (qe_zodUuid env) (vw_config view))) (\<lambda>config.
              queryFilteredView env databaseId config options)))"

section \<open>Raw requests\<close>

text \<open>A request's fields, \<open>None\<close> when undefined; the database and the view query share them.\<close>

record DatabaseQueryInput =
  dq_filter :: "json option"
  dq_sort :: "json option"
  dq_cursor :: "json option"
  dq_limit :: "json option"
  dq_inTrash :: "json option"

definition parseSortConfigInput :: "json \<Rightarrow> error + SortSpec list" where
  "parseSortConfigInput raw =
     (case sortConfigSchema raw of None \<Rightarrow> Inl (ValidationError (Some ''sort'')) | Some s \<Rightarrow> Inr s)"

definition parseLimitInput :: "json option \<Rightarrow> error + nat option" where
  "parseLimitInput raw =
     (case raw of
        None \<Rightarrow> Inr None
      | Some (JNum q) \<Rightarrow>
          if of_int \<lfloor>q\<rfloor> = q \<and> q > 0 then Inr (Some (nat \<lfloor>q\<rfloor>)) else Inl (ValidationError (Some ''limit''))
      | Some _ \<Rightarrow> Inl (ValidationError (Some ''limit'')))"

definition parseCursorInput :: "json option \<Rightarrow> bool \<Rightarrow> error + string option" where
  "parseCursorInput raw usedForIdPaging =
     (case raw of
        None \<Rightarrow> Inr None
      | Some (JStr s) \<Rightarrow>
          if s = '''' \<or> (usedForIdPaging \<and> \<not> isUuid s) then Inl invalidCursor else Inr (Some s)
      | Some _ \<Rightarrow> Inl invalidCursor)"

definition parseInTrashInput :: "json option \<Rightarrow> error + bool" where
  "parseInTrashInput raw =
     (case raw of None \<Rightarrow> Inr False | Some (JBool b) \<Rightarrow> Inr b | Some _ \<Rightarrow> Inl (ValidationError (Some ''inTrash'')))"

definition parsedFilter :: "queryEnv \<Rightarrow> json option \<Rightarrow> FilterNode option \<Rightarrow> FilterNode option op" where
  "parsedFilter env raw stored =
     (case raw of
        None \<Rightarrow> return stored
      | Some v \<Rightarrow> bnd (ofSum (parseFilterNode (qe_zodUuid env) v)) (\<lambda>node. return (Some node)))"

definition parsedSort :: "json option \<Rightarrow> SortSpec list \<Rightarrow> SortSpec list op" where
  "parsedSort raw stored = (case raw of None \<Rightarrow> return stored | Some v \<Rightarrow> ofSum (parseSortConfigInput v))"

definition queryDatabaseItems :: "queryEnv \<Rightarrow> id \<Rightarrow> DatabaseQueryInput \<Rightarrow> QueryViewResult op" where
  "queryDatabaseItems env databaseId input =
     bnd (parsedFilter env (dq_filter input) None) (\<lambda>filterNode.
     bnd (parsedSort (dq_sort input) []) (\<lambda>sortSpecs.
     bnd (ofSum (parseLimitInput (dq_limit input))) (\<lambda>limit.
     bnd (ofSum (parseCursorInput (dq_cursor input) (sortSpecs = []))) (\<lambda>cursor.
     bnd (ofSum (parseInTrashInput (dq_inTrash input))) (\<lambda>includeDeleted.
     queryItemsCore env databaseId filterNode sortSpecs
       \<lparr>qo_limit = limit, qo_cursor = cursor, qo_includeDeleted = includeDeleted\<rparr>)))))"

definition queryViewItems :: "queryEnv \<Rightarrow> id \<Rightarrow> DatabaseQueryInput \<Rightarrow> QueryViewResult op" where
  "queryViewItems env viewId input =
     bnd (requireView viewId) (\<lambda>view.
     bnd (ofSum (parseLimitInput (dq_limit input))) (\<lambda>limit.
     bnd (ofSum (parseInTrashInput (dq_inTrash input))) (\<lambda>includeDeleted.
     case vw_databaseId view of
       None \<Rightarrow>
         if dq_filter input \<noteq> None \<or> dq_sort input \<noteq> None then throw (ValidationError (Some ''filter''))
         else bnd (ofSum (parseCursorInput (dq_cursor input) False)) (\<lambda>cursor.
              queryCuratedView env view
                \<lparr>qo_limit = limit, qo_cursor = cursor, qo_includeDeleted = includeDeleted\<rparr>)
     | Some databaseId \<Rightarrow>
         bnd (ofSum (parseViewConfig (qe_zodUuid env) (vw_config view))) (\<lambda>config.
         bnd (parsedFilter env (dq_filter input) (vc_filter config)) (\<lambda>filterNode.
         bnd (parsedSort (dq_sort input) (buildSortSpecs config)) (\<lambda>sortSpecs.
         bnd (ofSum (parseCursorInput (dq_cursor input) (sortSpecs = []))) (\<lambda>cursor.
         bnd (queryItemsCore env databaseId filterNode sortSpecs
                \<lparr>qo_limit = limit, qo_cursor = cursor, qo_includeDeleted = includeDeleted\<rparr>) (\<lambda>r.
         return (projected config r)))))))))"

end
