(* ===== verification/FilterProps.thy ===== *)
theory FilterProps
  imports Filters RollupRecompute
begin

text \<open>
  What holds of compiled filters: which filters compile, that the placeholders of the text are
  exactly the parameters bound for it, and that the text is decided by the shape of the filter
  alone, never by a value or a key that stands in it.
\<close>

section \<open>The placeholders of a text\<close>

text \<open>The numbers after the dollar signs of an SQL text, in order.\<close>

fun placeholders :: "string \<Rightarrow> nat list" where
  "placeholders [] = []"
| "placeholders (c # s) =
     (if c = CHR ''$'' then digitsValue (takeWhile isDigit s) # placeholders s else placeholders s)"

text \<open>A text before which a placeholder ends: it is empty or does not begin with a digit.\<close>

definition ends :: "string \<Rightarrow> bool" where
  "ends s \<longleftrightarrow> (case s of [] \<Rightarrow> True | c # _ \<Rightarrow> \<not> isDigit c)"

lemma ends_simps [simp]: "ends []" "ends (c # s) \<longleftrightarrow> \<not> isDigit c"
  by (auto simp: ends_def)

lemma digit_not_dollar [simp]: "\<not> isDigit (CHR ''$'')"
  by (simp add: isDigit_def)

lemma takeWhile_ends: "ends t \<Longrightarrow> takeWhile isDigit (s @ t) = takeWhile isDigit s"
  by (induction s) (auto split: list.splits simp: ends_def)

lemma placeholders_append: "ends t \<Longrightarrow> placeholders (s @ t) = placeholders s @ placeholders t"
  by (induction s) (auto simp: takeWhile_ends)

lemma placeholders_literal: "CHR ''$'' \<notin> set l \<Longrightarrow> placeholders (l @ s) = placeholders s"
  by (induction l) auto

lemma placeholders_none: "CHR ''$'' \<notin> set l \<Longrightarrow> placeholders l = []"
  by (induction l) auto

lemma digitChar_digit: "d < 10 \<Longrightarrow> isDigit (digitChar d) \<and> digitVal (digitChar d) = d"
proof -
  assume "d < 10"
  then have "d = 0 \<or> d = 1 \<or> d = 2 \<or> d = 3 \<or> d = 4 \<or> d = 5 \<or> d = 6 \<or> d = 7 \<or> d = 8 \<or> d = 9" by arith
  then show ?thesis
    by (elim disjE) (simp_all add: isDigit_def digitVal_def digitChar_def)
qed

lemma natText_digits: "list_all isDigit (natText n) \<and> digitsValue (natText n) = n"
proof (induction n rule: natText.induct)
  case (1 n)
  show ?case
  proof (cases "n < 10")
    case True
    then show ?thesis
      using digitChar_digit [of n] by (simp add: natText.simps [of n] digitsValue_def)
  next
    case False
    then show ?thesis
      using 1 digitChar_digit [of "n mod 10"]
      by (subst natText.simps, subst natText.simps) (simp add: digitsValue_def digitChar_def)
  qed
qed

lemma placeholders_dollar: "ends s \<Longrightarrow> placeholders (dollar n @ s) = n # placeholders s"
proof -
  assume e: "ends s"
  have d: "list_all isDigit (natText n)" "digitsValue (natText n) = n"
    using natText_digits by auto
  have "CHR ''$'' \<notin> set (natText n)"
    using d(1) digit_not_dollar by (auto simp: list_all_iff)
  moreover have "takeWhile isDigit (natText n @ s) = natText n"
    using d(1) takeWhile_eq_all_conv [of isDigit "natText n"]
    by (simp only: takeWhile_ends [OF e]) (simp add: list_all_iff)
  ultimately show ?thesis
    using d(2) by (simp add: dollar_def placeholders_literal)
qed

lemma placeholders_dollar_last: "placeholders (dollar n) = [n]"
  using placeholders_dollar [of "[]" n] by simp

section \<open>Filters that compile\<close>

text \<open>A relation target a relation condition or a path step can be compiled over.\<close>

definition resolvable :: "RelationTarget \<Rightarrow> bool" where
  "resolvable target \<longleftrightarrow> truthy (rt_definitionId target) \<and> rt_side target \<noteq> None"

text \<open>
  A condition on a relation names a relation property with a definition, a path names two of them
  with a target database between, and any other condition names a property that is no relation.
\<close>

definition conditionTyped :: "FilterProperties \<Rightarrow> FilterCondition \<Rightarrow> bool" where
  "conditionTyped properties condition =
     (case condition of
        RelationPathCondition k1 k2 _ \<Rightarrow>
          (case map_of properties k1 of
             None \<Rightarrow> False
           | Some f \<Rightarrow> fp_type f = PtRelation \<and> resolvable (fp_relation f) \<and> truthy (fp_targetDatabaseId f)
               \<and> (case Option.bind (fp_targetRelationProperties f) (\<lambda>m. map_of m k2) of
                    None \<Rightarrow> False | Some s \<Rightarrow> resolvable s))
      | RelationCondition _ k _ \<Rightarrow>
          (case map_of properties k of
             None \<Rightarrow> False | Some f \<Rightarrow> fp_type f = PtRelation \<and> resolvable (fp_relation f))
      | _ \<Rightarrow>
          (case map_of properties (conditionKey condition) of
             None \<Rightarrow> False | Some f \<Rightarrow> fp_type f \<noteq> PtRelation))"

fun filterTyped :: "FilterProperties \<Rightarrow> FilterNode \<Rightarrow> bool" where
  "filterTyped properties (ConditionNode condition) = conditionTyped properties condition"
| "filterTyped properties (AndNode nodes) = list_all (filterTyped properties) nodes"
| "filterTyped properties (OrNode nodes) = list_all (filterTyped properties) nodes"
| "filterTyped properties (NotNode node) = filterTyped properties node"

text \<open>What a compilation over \<open>n\<close> parameters answers when it does: the text refers to exactly the parameters it added.\<close>

definition closedText :: "sqlParam list \<Rightarrow> string \<times> sqlParam list \<Rightarrow> bool" where
  "closedText params r \<longleftrightarrow>
     (\<exists>new. snd r = params @ new \<and> set (placeholders (fst r)) = {length params <.. length params + length new})"

lemma relation_condition_compiles:
  assumes "rt_side (fp_relation f) = Some side" "truthy (rt_definitionId (fp_relation f))"
  shows "\<exists>r. compileRelationCondition operator key value f params = Inr r \<and> closedText params r"
  using assms
  by (cases operator)
     (auto simp: compileRelationCondition_def closedText_def ref_def ownSide_def targetSide_def
       placeholders_dollar Let_def isDigit_def split: edgeSide.splits)

text \<open>Texts that are joined: each ends at the separator, which does not begin with a digit.\<close>

lemma joined_placeholders:
  assumes "CHR ''$'' \<notin> set sep" "ends sep" "sep \<noteq> []"
  shows "placeholders (joinWith sep texts) = concat (map placeholders texts)"
  using assms
proof (induction sep texts rule: joinWith.induct)
  case (3 sep x y xs)
  then have "ends (sep @ joinWith sep (y # xs))" by (cases sep) auto
  with 3 show ?case by (simp add: placeholders_append placeholders_literal)
qed auto

lemma path_text_placeholders:
  "placeholders (relationPathSql side1 side2 (dollar a) (dollar b) (dollar c) (dollar d)) = [b, a, c, d]"
  unfolding relationPathSql_def
  by (subst joined_placeholders; cases side1; cases side2)
     (simp_all add: targetSide_def ownSide_def placeholders_dollar placeholders_dollar_last isDigit_def)

lemma path_condition_compiles:
  assumes "map_of props k1 = Some f" "Option.bind (fp_targetRelationProperties f) (\<lambda>m. map_of m k2) = Some s"
    and "fp_type f = PtRelation" "truthy (fp_targetDatabaseId f)" "resolvable (fp_relation f)" "resolvable s"
  shows "\<exists>r. compileRelationPathCondition k1 k2 value props params = Inr r \<and> closedText params r"
  using assms
  by (auto simp: compileRelationPathCondition_def closedText_def ref_def resolvable_def Let_def path_text_placeholders)

lemma value_condition_closed:
  assumes "\<not> isRelationCondition condition" "\<And>k1 k2 v. condition \<noteq> RelationPathCondition k1 k2 v"
  shows "closedText params (compileValueCondition numText condition ty (params @ [TextParam key]))"
proof -
  show ?thesis
  proof (cases condition)
    case (ScalarCondition operator p v)
    then show ?thesis
      by (cases operator; cases "ty = PtRollup")
         (auto simp: compileValueCondition_def closedText_def ref_def Let_def placeholders_dollar placeholders_dollar_last isDigit_def)
  next
    case (TextCondition operator p v)
    then show ?thesis
      by (cases "operator = OpNotContains"; cases "ty = PtRollup")
         (auto simp: compileValueCondition_def closedText_def ref_def Let_def placeholders_dollar escapeClause_def isDigit_def)
  next
    case (EmptyCondition operator p)
    then show ?thesis
      by (cases operator; cases "ty = PtRollup"; cases "ty = PtMultiSelect")
         (auto simp: compileValueCondition_def closedText_def ref_def Let_def placeholders_dollar quoted_def emptyText_def isDigit_def)
  next
    case (DateCondition operator p v)
    then show ?thesis
      by (cases operator; cases "ty = PtRollup")
         (auto simp: compileValueCondition_def closedText_def ref_def Let_def placeholders_dollar dateComparison_def isDigit_def)
  next
    case (DateRangeCondition p f t)
    then show ?thesis
      by (cases "ty = PtRollup")
         (auto simp: compileValueCondition_def closedText_def ref_def Let_def placeholders_dollar isDigit_def)
  next
    case (InCondition p vs)
    then show ?thesis
      by (cases "ty = PtRollup"; cases "ty = PtMultiSelect")
         (auto simp: compileValueCondition_def closedText_def ref_def Let_def placeholders_dollar isDigit_def)
  qed (use assms in \<open>auto simp: isRelationCondition_def\<close>)
qed

text \<open>What a compilation answers: a closed text when the filter is typed, else a validation error.\<close>

definition compilesIf :: "bool \<Rightarrow> sqlParam list \<Rightarrow> compiled \<Rightarrow> bool" where
  "compilesIf typed params result \<longleftrightarrow>
     (if typed then \<exists>r. result = Inr r \<and> closedText params r
      else \<exists>f. result = Inl (ValidationError f))"

lemma relation_condition_fails:
  "\<not> resolvable (fp_relation f) \<Longrightarrow>
   compileRelationCondition operator key value f params = Inl (ValidationError (Some key))"
  by (auto simp: compileRelationCondition_def resolvable_def split: option.splits)

lemma path_condition_fails:
  "\<not> conditionTyped props (RelationPathCondition k1 k2 value) \<Longrightarrow>
   compileRelationPathCondition k1 k2 value props params = Inl (ValidationError (Some ''filter''))"
  by (auto simp: compileRelationPathCondition_def conditionTyped_def resolvable_def Let_def split: option.splits)

lemma condition_compiles: "compilesIf (conditionTyped props c) params (compileCondition numText c props params)"
proof (cases c)
  case (RelationPathCondition k1 k2 v)
  show ?thesis
  proof (cases "conditionTyped props c")
    case True
    then obtain f s where fs: "map_of props k1 = Some f"
        "Option.bind (fp_targetRelationProperties f) (\<lambda>m. map_of m k2) = Some s" "fp_type f = PtRelation"
        "resolvable (fp_relation f)" "truthy (fp_targetDatabaseId f)" "resolvable s"
      unfolding conditionTyped_def RelationPathCondition by (auto split: option.splits)
    from path_condition_compiles [OF fs(1,2,3,5,4,6)] True show ?thesis
      by (simp add: compilesIf_def compileCondition_def RelationPathCondition)
  qed (simp add: compilesIf_def compileCondition_def RelationPathCondition path_condition_fails)
next
  case (RelationCondition operator k v)
  show ?thesis
  proof (cases "\<exists>f. map_of props k = Some f \<and> fp_type f = PtRelation \<and> resolvable (fp_relation f)")
    case True
    then obtain f where f: "map_of props k = Some f" "fp_type f = PtRelation" "resolvable (fp_relation f)" by auto
    then obtain side where "rt_side (fp_relation f) = Some side" "truthy (rt_definitionId (fp_relation f))"
      by (auto simp: resolvable_def)
    from relation_condition_compiles [OF this] f show ?thesis
      by (simp add: compilesIf_def compileCondition_def conditionTyped_def isRelationCondition_def
          conditionKey_def RelationCondition)
  next
    case False
    then show ?thesis
      by (auto simp: compilesIf_def compileCondition_def conditionTyped_def isRelationCondition_def
          conditionKey_def RelationCondition relation_condition_fails split: option.splits)
  qed
qed (use value_condition_closed [of c] in \<open>auto simp: compilesIf_def compileCondition_def conditionTyped_def
      isRelationCondition_def conditionKey_def simp del: split_paired_Ex split: option.splits\<close>)

definition closedTexts :: "sqlParam list \<Rightarrow> string list \<times> sqlParam list \<Rightarrow> bool" where
  "closedTexts params r \<longleftrightarrow>
     (\<exists>new. snd r = params @ new \<and>
        set (concat (map placeholders (fst r))) = {length params <.. length params + length new})"

lemma closed_wrap:
  assumes "closedText params (text, ps)" "CHR ''$'' \<notin> set before" "CHR ''$'' \<notin> set after" "ends after"
  shows "closedText params (before @ text @ after, ps)"
  using assms by (simp add: closedText_def placeholders_literal placeholders_append placeholders_none)

lemma closed_join:
  assumes "closedTexts params (texts, ps)" "CHR ''$'' \<notin> set sep" "ends sep" "sep \<noteq> []"
  shows "closedText params (''('' @ joinWith sep texts @ '')'', ps)"
  using assms
  by (simp add: closedText_def closedTexts_def joined_placeholders placeholders_append isDigit_def)

lemma closed_cons:
  assumes "closedText params (text, ps)" "closedTexts ps (texts, ps')"
  shows "closedTexts params (text # texts, ps')"
proof -
  from assms obtain new new' where n: "ps = params @ new" "ps' = params @ new @ new'"
      "set (placeholders text) = {length params <.. length params + length new}"
      "set (concat (map placeholders texts)) = {length ps <.. length ps + length new'}"
    by (auto simp: closedText_def closedTexts_def)
  then have "set (concat (map placeholders (text # texts))) = {length params <.. length params + length (new @ new')}"
    by auto
  with n(2) show ?thesis unfolding closedTexts_def by auto
qed

definition compilesAllIf :: "bool \<Rightarrow> sqlParam list \<Rightarrow> error + string list \<times> sqlParam list \<Rightarrow> bool" where
  "compilesAllIf typed params result \<longleftrightarrow>
     (if typed then \<exists>r. result = Inr r \<and> closedTexts params r
      else \<exists>f. result = Inl (ValidationError f))"

lemma nodes_compile:
  "compilesIf (filterTyped props node) params (compileFilterNode numText node props params)"
  "compilesAllIf (list_all (filterTyped props) nodes) params (compileFilterNodes numText nodes props params)"
proof (induction numText node props params and numText nodes props params
    rule: compileFilterNode_compileFilterNodes.induct)
  case (1 numText condition props params)
  then show ?case using condition_compiles by simp
next
  case (2 numText nodes props params)
  then show ?case
    using closed_join [of params _ _ "'' AND ''"]
    by (auto simp: compilesIf_def compilesAllIf_def isDigit_def split: if_splits)
next
  case (3 numText nodes props params)
  then show ?case
    using closed_join [of params _ _ "'' OR ''"]
    by (auto simp: compilesIf_def compilesAllIf_def isDigit_def split: if_splits)
next
  case (4 numText node props params)
  then show ?case
    using closed_wrap [of params _ _ "''(NOT ''" "'')''"]
    by (auto simp: compilesIf_def isDigit_def split: if_splits)
next
  case (5 numText props params)
  then show ?case by (simp add: compilesAllIf_def closedTexts_def)
next
  case (6 numText node nodes props params)
  show ?case
  proof (cases "filterTyped props node")
    case False
    with 6(1) show ?thesis by (auto simp: compilesIf_def compilesAllIf_def)
  next
    case True
    with 6(1) obtain t ps where h: "compileFilterNode numText node props params = Inr (t, ps)"
        "closedText params (t, ps)"
      by (auto simp: compilesIf_def)
    from 6(2) [OF h(1) refl] True h show ?thesis
      by (auto simp: compilesAllIf_def intro: closed_cons split: if_splits)
  qed
qed

text \<open>
  C13: a filter tree compiles exactly when it is well typed for the
  database's properties (every relation condition on a resolvable relation property, every other
  condition on a property that is no relation). It then keeps the parameters bound before, and the
  placeholders of its SQL text are exactly the parameters it added; otherwise it is a validation
  error.
\<close>

theorem filter_compiles_iff_typed:
  "if filterTyped properties node
   then \<exists>text new. compileFilterNode numText node properties params = Inr (text, params @ new)
          \<and> set (placeholders text) = {length params <.. length params + length new}
   else \<exists>f. compileFilterNode numText node properties params = Inl (ValidationError f)"
  using nodes_compile(1) [of properties node params numText]
  by (auto simp: compilesIf_def closedText_def split: if_splits)

lemma filter_compilation_example:
  "let text = \<lparr>fp_type = PtText, fp_relation = noRelation, fp_targetDatabaseId = None,
          fp_targetRelationProperties = None\<rparr>;
       node = AndNode [ConditionNode (ScalarCondition OpEquals ''name'' (ScStr ''x'')),
                       NotNode (ConditionNode (EmptyCondition OpIsEmpty ''name''))];
       sql = ''(properties ->> $2 = $3 AND (NOT (properties ->> $4 IS NULL OR properties ->> $4 = '' @ emptyText @ '')))'' in
   filterTyped [(''name'', text)] node
   \<and> compileFilterNode (\<lambda>_. ''0'') node [(''name'', text)] [TextParam ''db'']
     = Inr (sql, [TextParam ''db'', TextParam ''name'', TextParam ''x'', TextParam ''name''])
   \<and> placeholders sql = [2, 3, 4, 4]
   \<and> compileFilterNode (\<lambda>_. ''0'') (ConditionNode (RelationCondition OpRelationContains ''name'' ''i'')) [(''name'', text)] []
     = Inl (ValidationError (Some ''name''))"
  by code_simp

section \<open>The text is the filter's shape\<close>

text \<open>
  The shape of a filter: its operators and structure, with each property key replaced by which
  column and form the property has (the side of its relation, for a relation) and each value
  dropped.
\<close>

definition columnShape :: "FilterProperties \<Rightarrow> string \<Rightarrow> string" where
  "columnShape properties key =
     (case map_of properties key of
        None \<Rightarrow> ''''
      | Some f \<Rightarrow> if fp_type f = PtRollup then ''computed''
                  else if fp_type f = PtMultiSelect then ''multi_select'' else ''properties'')"

definition sideShape :: "RelationTarget option \<Rightarrow> string" where
  "sideShape target =
     (case Option.bind target rt_side of None \<Rightarrow> '''' | Some SideA \<Rightarrow> ''a'' | Some SideB \<Rightarrow> ''b'')"

definition conditionShape :: "FilterProperties \<Rightarrow> FilterCondition \<Rightarrow> FilterCondition" where
  "conditionShape properties condition =
     (case condition of
        ScalarCondition operator p _ \<Rightarrow> ScalarCondition operator (columnShape properties p) (ScBool True)
      | TextCondition operator p _ \<Rightarrow> TextCondition operator (columnShape properties p) ''''
      | EmptyCondition operator p \<Rightarrow> EmptyCondition operator (columnShape properties p)
      | DateCondition operator p _ \<Rightarrow> DateCondition operator (columnShape properties p) ''''
      | DateRangeCondition p _ _ \<Rightarrow> DateRangeCondition (columnShape properties p) '''' ''''
      | InCondition p _ \<Rightarrow> InCondition (columnShape properties p) []
      | RelationCondition operator p _ \<Rightarrow>
          RelationCondition operator (sideShape (map_option fp_relation (map_of properties p))) ''''
      | RelationPathCondition k1 k2 _ \<Rightarrow>
          (let f = map_of properties k1 in
           RelationPathCondition (sideShape (map_option fp_relation f))
             (sideShape (Option.bind f (\<lambda>f. Option.bind (fp_targetRelationProperties f) (\<lambda>m. map_of m k2)))) ''''))"

fun filterShape :: "FilterProperties \<Rightarrow> FilterNode \<Rightarrow> FilterNode" where
  "filterShape properties (ConditionNode condition) = ConditionNode (conditionShape properties condition)"
| "filterShape properties (AndNode nodes) = AndNode (map (filterShape properties) nodes)"
| "filterShape properties (OrNode nodes) = OrNode (map (filterShape properties) nodes)"
| "filterShape properties (NotNode node) = NotNode (filterShape properties node)"

lemma ref_cong: "length ps = length ps' \<Longrightarrow> ref ps = ref ps'"
  by (simp add: ref_def)

lemma sideShape_eq: "sideShape (Some x) = sideShape (Some y) \<Longrightarrow> rt_side x = rt_side y"
  by (auto simp: sideShape_def split: option.splits edgeSide.splits)

lemma relation_condition_shape:
  assumes "compileRelationCondition op k v f ps = Inr (t, qs)" "compileRelationCondition op k' v' f' ps' = Inr (t', qs')"
    and "sideShape (Some (fp_relation f)) = sideShape (Some (fp_relation f'))" "length ps = length ps'"
  shows "t = t' \<and> length qs = length qs'"
  using assms(1,2,4) sideShape_eq [OF assms(3)]
  by (cases op) (auto simp: compileRelationCondition_def Let_def ref_def split: option.splits if_splits)

lemma path_condition_shape:
  assumes "compileRelationPathCondition k1 k2 v props ps = Inr (t, qs)"
    and "compileRelationPathCondition k1' k2' v' props' ps' = Inr (t', qs')"
    and "conditionShape props (RelationPathCondition k1 k2 v) = conditionShape props' (RelationPathCondition k1' k2' v')"
    and "length ps = length ps'"
  shows "t = t' \<and> length qs = length qs'"
proof -
  from assms(1) obtain f s a b where f: "map_of props k1 = Some f" "rt_side (fp_relation f) = Some a" "rt_side s = Some b"
      "Option.bind (Some f) (\<lambda>f. Option.bind (fp_targetRelationProperties f) (\<lambda>m. map_of m k2)) = Some s"
    by (auto simp: compileRelationPathCondition_def Let_def split: option.splits if_splits)
  from assms(2) obtain f' s' a' b' where f': "map_of props' k1' = Some f'" "rt_side (fp_relation f') = Some a'" "rt_side s' = Some b'"
      "Option.bind (Some f') (\<lambda>f. Option.bind (fp_targetRelationProperties f) (\<lambda>m. map_of m k2')) = Some s'"
    by (auto simp: compileRelationPathCondition_def Let_def split: option.splits if_splits)
  from assms(3) have "a = a'" "b = b'"
    using f f' by (auto simp: conditionShape_def Let_def dest!: sideShape_eq)
  then show ?thesis
    using assms(1,2,4) f f'
    by (auto simp: compileRelationPathCondition_def Let_def ref_def split: if_splits)
qed

lemma value_condition_shape:
  assumes "conditionShape props c = conditionShape props' c'" "length ps = length ps'"
    and "map_of props (conditionKey c) = Some f" "map_of props' (conditionKey c') = Some f'"
    and "\<not> isRelationCondition c" "\<And>k1 k2 v. c \<noteq> RelationPathCondition k1 k2 v"
    and "compileValueCondition numText c (fp_type f) ps = (t, qs)"
    and "compileValueCondition numText' c' (fp_type f') ps' = (t', qs')"
  shows "t = t' \<and> length qs = length qs'"
proof -
  have "columnShape props (conditionKey c) = columnShape props' (conditionKey c')"
    using assms(1,5,6)
    by (cases c; cases c') (auto simp: conditionShape_def conditionKey_def isRelationCondition_def Let_def)
  then have ty: "(fp_type f = PtRollup) = (fp_type f' = PtRollup)" "(fp_type f = PtMultiSelect) = (fp_type f' = PtMultiSelect)"
    using assms(3,4) by (auto simp: columnShape_def split: if_splits)
  show ?thesis
    using assms(1,2,5,6,7,8) ty
    by (cases c; cases c')
       (auto simp: conditionShape_def conditionKey_def isRelationCondition_def compileValueCondition_def Let_def ref_def
         split: scalarOp.splits emptyOp.splits if_splits)
qed

lemma conditionShape_kind:
  "conditionShape props c = conditionShape props' c' \<Longrightarrow>
   isRelationCondition c = isRelationCondition c' \<and>
   ((\<exists>k1 k2 v. c = RelationPathCondition k1 k2 v) = (\<exists>k1 k2 v. c' = RelationPathCondition k1 k2 v))"
  by (cases c; cases c') (auto simp: conditionShape_def isRelationCondition_def Let_def)

lemma condition_shape:
  assumes sh: "conditionShape props c = conditionShape props' c'" and len: "length ps = length ps'"
    and c: "compileCondition numText c props ps = Inr (t, qs)"
    and c': "compileCondition numText' c' props' ps' = Inr (t', qs')"
  shows "t = t' \<and> length qs = length qs'"
proof (cases "isRelationCondition c \<or> (\<exists>k1 k2 v. c = RelationPathCondition k1 k2 v)")
  case True
  then consider (rel) op k v where "c = RelationCondition op k v" | (path) k1 k2 v where "c = RelationPathCondition k1 k2 v"
    by (auto simp: isRelationCondition_def split: FilterCondition.splits)
  then show ?thesis
  proof cases
    case rel
    with sh obtain k' v' where rel': "c' = RelationCondition op k' v'"
      by (cases c') (auto simp: conditionShape_def Let_def)
    from c rel obtain f where f: "map_of props k = Some f" "compileRelationCondition op k v f ps = Inr (t, qs)"
      by (auto simp: compileCondition_def conditionKey_def isRelationCondition_def split: option.splits if_splits)
    from c' rel' obtain f' where f': "map_of props' k' = Some f'" "compileRelationCondition op k' v' f' ps' = Inr (t', qs')"
      by (auto simp: compileCondition_def conditionKey_def isRelationCondition_def split: option.splits if_splits)
    from relation_condition_shape [OF f(2) f'(2) _ len] sh rel rel' f(1) f'(1) show ?thesis
      by (simp add: conditionShape_def)
  next
    case path
    with sh obtain k1' k2' v' where path': "c' = RelationPathCondition k1' k2' v'"
      by (cases c') (auto simp: conditionShape_def Let_def)
    from path_condition_shape [OF _ _ sh [unfolded path path'] len] c c' path path' show ?thesis
      by (auto simp: compileCondition_def)
  qed
next
  case False
  with conditionShape_kind [OF sh] have F: "\<not> isRelationCondition c'" "\<And>k1 k2 v. c' \<noteq> RelationPathCondition k1 k2 v"
    by auto
  from c False obtain f where f: "map_of props (conditionKey c) = Some f"
      "compileValueCondition numText c (fp_type f) (ps @ [TextParam (conditionKey c)]) = (t, qs)"
    by (cases c) (auto simp: compileCondition_def isRelationCondition_def Let_def split: option.splits if_splits)
  from c' F obtain f' where f': "map_of props' (conditionKey c') = Some f'"
      "compileValueCondition numText' c' (fp_type f') (ps' @ [TextParam (conditionKey c')]) = (t', qs')"
    by (cases c') (auto simp: compileCondition_def isRelationCondition_def Let_def split: option.splits if_splits)
  from value_condition_shape [OF sh _ f(1) f'(1) _ _ f(2) f'(2)] len False show ?thesis by simp
qed

lemma nodes_shape:
  "compileFilterNode numText node props ps = Inr r \<Longrightarrow>
   compileFilterNode numText' node' props' ps' = Inr r' \<Longrightarrow>
   filterShape props node = filterShape props' node' \<Longrightarrow> length ps = length ps' \<Longrightarrow>
   fst r = fst r' \<and> length (snd r) = length (snd r')"
  "compileFilterNodes numText nodes props ps = Inr rs \<Longrightarrow>
   compileFilterNodes numText' nodes' props' ps' = Inr rs' \<Longrightarrow>
   map (filterShape props) nodes = map (filterShape props') nodes' \<Longrightarrow> length ps = length ps' \<Longrightarrow>
   fst rs = fst rs' \<and> length (snd rs) = length (snd rs')"
proof (induction numText node props ps and numText nodes props ps arbitrary: node' ps' r r' and nodes' ps' rs rs'
    rule: compileFilterNode_compileFilterNodes.induct)
  case (1 numText condition props params)
  then show ?case
    by (cases node'; cases r; cases r') (auto dest: condition_shape)
next
  case (2 numText nodes props params)
  from "2.prems"(1) obtain ts qs where ts: "compileFilterNodes numText nodes props params = Inr (ts, qs)"
      "r = (''('' @ joinWith '' AND '' ts @ '')'', qs)"
    by (auto simp: map_sum_def split: sum.splits)
  from "2.prems"(3) obtain nodes' where n: "node' = AndNode nodes'" "map (filterShape props) nodes = map (filterShape props') nodes'"
    by (cases node') auto
  with "2.prems"(2) obtain ts' qs' where ts': "compileFilterNodes numText' nodes' props' ps' = Inr (ts', qs')"
      "r' = (''('' @ joinWith '' AND '' ts' @ '')'', qs')"
    by (auto simp: map_sum_def split: sum.splits)
  from "2.IH" [OF ts(1) ts'(1) n(2) "2.prems"(4)] ts(2) ts'(2) show ?case by simp
next
  case (3 numText nodes props params)
  from "3.prems"(1) obtain ts qs where ts: "compileFilterNodes numText nodes props params = Inr (ts, qs)"
      "r = (''('' @ joinWith '' OR '' ts @ '')'', qs)"
    by (auto simp: map_sum_def split: sum.splits)
  from "3.prems"(3) obtain nodes' where n: "node' = OrNode nodes'" "map (filterShape props) nodes = map (filterShape props') nodes'"
    by (cases node') auto
  with "3.prems"(2) obtain ts' qs' where ts': "compileFilterNodes numText' nodes' props' ps' = Inr (ts', qs')"
      "r' = (''('' @ joinWith '' OR '' ts' @ '')'', qs')"
    by (auto simp: map_sum_def split: sum.splits)
  from "3.IH" [OF ts(1) ts'(1) n(2) "3.prems"(4)] ts(2) ts'(2) show ?case by simp
next
  case (4 numText node props params)
  from "4.prems"(1) obtain t qs where t: "compileFilterNode numText node props params = Inr (t, qs)"
      "r = (''(NOT '' @ t @ '')'', qs)"
    by (auto simp: map_sum_def split: sum.splits)
  from "4.prems"(3) obtain node1 where n: "node' = NotNode node1" "filterShape props node = filterShape props' node1"
    by (cases node') auto
  with "4.prems"(2) obtain t' qs' where t': "compileFilterNode numText' node1 props' ps' = Inr (t', qs')"
      "r' = (''(NOT '' @ t' @ '')'', qs')"
    by (auto simp: map_sum_def split: sum.splits)
  from "4.IH" [OF t(1) t'(1) n(2) "4.prems"(4)] t(2) t'(2) show ?case by simp
next
  case (5 numText props params)
  then show ?case by auto
next
  case (6 numText node nodes props params)
  from "6.prems"(3) obtain node1 nodes1 where n: "nodes' = node1 # nodes1"
      "filterShape props node = filterShape props' node1" "map (filterShape props) nodes = map (filterShape props') nodes1"
    by (cases nodes') auto
  from "6.prems"(1) obtain t qs ts us where t: "compileFilterNode numText node props params = Inr (t, qs)"
      "compileFilterNodes numText nodes props qs = Inr (ts, us)" "rs = (t # ts, us)"
    by (auto simp: map_sum_def split: sum.splits)
  from "6.prems"(2) n(1) obtain t' qs' ts' us' where t': "compileFilterNode numText' node1 props' ps' = Inr (t', qs')"
      "compileFilterNodes numText' nodes1 props' qs' = Inr (ts', us')" "rs' = (t' # ts', us')"
    by (auto simp: map_sum_def split: sum.splits)
  from "6.IH"(1) [OF t(1) t'(1) n(2) "6.prems"(4)] have one: "t = t'" "length qs = length qs'" by auto
  from "6.IH"(2) [OF t(1) refl t(2) t'(2) n(3) one(2)] one t(3) t'(3) show ?case by simp
qed

text \<open>
  C12: the SQL text of a compiled filter depends on the filter's shape alone.
  Two filters of one shape, whatever their values, their property keys, the ids of their relations
  and the parameters bound before them, compile to the same text over as many parameters: no value
  and no key reaches the text.
\<close>

theorem filter_text_is_shape:
  assumes "compileFilterNode numText node properties params = Inr (text, ps)"
    and "compileFilterNode numText' node' properties' params' = Inr (text', ps')"
    and "filterShape properties node = filterShape properties' node'" "length params = length params'"
  shows "text = text' \<and> length ps = length ps'"
  using nodes_shape(1) [OF assms] by simp

lemma filter_text_is_shape_witness:
  "let property = \<lparr>fp_type = PtText, fp_relation = noRelation, fp_targetDatabaseId = None,
          fp_targetRelationProperties = None\<rparr>;
       one = compileFilterNode (\<lambda>_. ''0'') (ConditionNode (ScalarCondition OpEquals ''a'' (ScStr ''x'')))
               [(''a'', property)] [];
       two = compileFilterNode (\<lambda>_. ''7'') (ConditionNode (ScalarCondition OpEquals ''b$9'' (ScNum 7)))
               [(''b$9'', property\<lparr>fp_type := PtNumber\<rparr>)] []
   in \<exists>t ps ps'. one = Inr (t, ps) \<and> two = Inr (t, ps') \<and> length ps = length ps'"
proof -
  let ?p = "\<lparr>fp_type = PtText, fp_relation = noRelation, fp_targetDatabaseId = None,
          fp_targetRelationProperties = None\<rparr>"
  let ?one = "compileFilterNode (\<lambda>_. ''0'') (ConditionNode (ScalarCondition OpEquals ''a'' (ScStr ''x''))) [(''a'', ?p)] []"
  let ?two = "compileFilterNode (\<lambda>_. ''7'') (ConditionNode (ScalarCondition OpEquals ''b$9'' (ScNum 7)))
               [(''b$9'', ?p\<lparr>fp_type := PtNumber\<rparr>)] []"
  have "\<exists>r. ?one = Inr r" "\<exists>r. ?two = Inr r"
    by (simp_all add: compileCondition_def conditionKey_def isRelationCondition_def Let_def del: split_paired_Ex)
  then obtain t ps t' ps' where c: "?one = Inr (t, ps)" "?two = Inr (t', ps')" by auto
  have "t = t' \<and> length ps = length ps'"
    by (rule filter_text_is_shape [OF c]) (simp_all add: conditionShape_def columnShape_def)
  with c show ?thesis by (auto simp: Let_def)
qed

end
