(* ===== verification/PagingProps.thy ===== *)
theory PagingProps
  imports ViewQuery FilterProps StoreFacts
begin

text \<open>
  Paging. A client that asks for page after page with the cursors it is given sees what one
  unpaged query would have answered: every matching item once, in the order of the query. The
  proof goes from the SQL the compilers build (its filter, its order and its keyset predicate) to
  the rows it selects.
\<close>

section \<open>The unpaged query and the pages\<close>

text \<open>The rows a query is about: in the database, live unless deleted ones are wanted, past the filter.\<close>

definition wanted ::
  "queryEnv \<Rightarrow> id \<Rightarrow> FilterNode option \<Rightarrow> FilterProperties \<Rightarrow> bool \<Rightarrow> ItemDbRow \<Rightarrow> bool" where
  "wanted env databaseId filterNode filterProperties includeDeleted row \<longleftrightarrow>
     rit_database_id row = databaseId \<and> (includeDeleted \<or> rit_deleted_at row = None) \<and>
     (case filterNode of
        None \<Rightarrow> True
      | Some node \<Rightarrow>
          (case compileFilterNode (qe_numText env) node filterProperties [TextParam databaseId] of
             Inl _ \<Rightarrow> False | Inr (s, ps) \<Rightarrow> pg_filter (qe_pg env) s ps row))"

definition filterPropertiesFor :: "queryEnv \<Rightarrow> FilterNode option \<Rightarrow> PropertyRow list \<Rightarrow> FilterProperties op" where
  "filterPropertiesFor env filterNode properties =
     (if filterNode = None then return [] else buildFilterProperties (qe_zodUuid env) properties)"

definition inOrder :: "postgres \<Rightarrow> SortProperties \<Rightarrow> SortSpec list \<Rightarrow> ItemDbRow list \<Rightarrow> ItemDbRow list" where
  "inOrder pg properties sortSpecs rows = sort_key (rowKeys pg properties sortSpecs) (sort_key rit_id rows)"

definition unpagedQuery :: "queryEnv \<Rightarrow> id \<Rightarrow> FilterNode option \<Rightarrow> SortSpec list \<Rightarrow> bool \<Rightarrow> ItemRow list op" where
  "unpagedQuery env databaseId filterNode sortSpecs includeDeleted =
     bnd (listPropertiesByDatabase databaseId) (\<lambda>properties.
     bnd (filterPropertiesFor env filterNode properties) (\<lambda>filterProperties.
     bnd (selectItems (wanted env databaseId filterNode filterProperties includeDeleted)) (\<lambda>rows.
     return (map mapItemRow (inOrder (qe_pg env) (propertiesByKey properties) sortSpecs rows)))))"

text \<open>A client's loop: the items of the pages from a cursor on, at most so many pages.\<close>

fun allPages ::
  "nat \<Rightarrow> queryEnv \<Rightarrow> id \<Rightarrow> FilterNode option \<Rightarrow> SortSpec list \<Rightarrow> bool \<Rightarrow> nat \<Rightarrow> string option \<Rightarrow> ItemRow list op" where
  "allPages 0 env databaseId filterNode sortSpecs includeDeleted limit cursor = throw (PlainError ''more pages'')"
| "allPages (Suc n) env databaseId filterNode sortSpecs includeDeleted limit cursor =
     bnd (queryItemsCore env databaseId filterNode sortSpecs
            \<lparr>qo_limit = Some limit, qo_cursor = cursor, qo_includeDeleted = includeDeleted\<rparr>) (\<lambda>(items, nextCursor).
     case nextCursor of
       None \<Rightarrow> return items
     | Some c \<Rightarrow>
         bnd (allPages n env databaseId filterNode sortSpecs includeDeleted limit (Some c)) (\<lambda>rest.
         return (items @ rest)))"

text \<open>A filter's SQL is read with the parameters its placeholders name, whatever follows them.\<close>

definition readsPlaceholders :: "postgres \<Rightarrow> bool" where
  "readsPlaceholders pg \<longleftrightarrow>
     (\<forall>s ps qs row. (\<forall>n \<in> set (placeholders s). n \<le> length ps) \<longrightarrow> pg_filter pg s (ps @ qs) row = pg_filter pg s ps row)"

text \<open>A cursor made for this row is read back as it was, and its values pass the check on cursors.\<close>

definition resumable :: "queryEnv \<Rightarrow> SortSpec list \<Rightarrow> SortProperties \<Rightarrow> ItemDbRow \<Rightarrow> bool" where
  "resumable env sortSpecs properties row \<longleftrightarrow>
     isUuid (rit_id row) \<and>
     qe_decode env (encodeSortCursor env sortSpecs properties (mapItemRow row))
       = Some (cursorPayload sortSpecs properties (mapItemRow row)) \<and>
     everyCastable env properties sortSpecs (map (sortValue properties (mapItemRow row)) sortSpecs) = Inr True"

section \<open>The built query\<close>

lemma filter_prefix:
  assumes "compileFilterNode numText node props params = Inr (s, ps)"
  shows "\<forall>n \<in> set (placeholders s). n \<le> length ps"
  using nodes_compile(1) [of props node params numText] assms
  by (auto simp: compilesIf_def closedText_def split: if_splits)

lemma keysetKeys_succeed:
  "sortClauses sorts props params = Inr r \<Longrightarrow> \<exists>r'. keysetKeys sorts props vs params' = Inr r'"
proof (induction sorts arbitrary: params params' vs r)
  case (Cons spec sorts)
  from Cons.prems obtain p e ps cs where p: "lookupSortProperty spec props = Inr p"
      "sortKeyExpression spec p params = Inr (e, ps)" "sortClauses sorts props ps = Inr cs"
    by (auto simp: map_sum_def split: sum.splits)
  then obtain e' ps' where e: "sortKeyExpression spec p params' = Inr (e', ps')"
    by (auto simp: sortKeyExpression_def Let_def map_sum_def split: sum.splits)
  have "\<exists>r'. keysetKeys sorts props (tl vs) q = Inr r'" for q by (rule Cons.IH [OF p(3)])
  then obtain f where "\<And>q. keysetKeys sorts props (tl vs) q = Inr (f q)" by metis
  with p(1) e show ?case by (auto simp: Let_def split_beta)
qed simp

lemma build_parts:
  assumes q: "buildQuery env db node fp sorts props cur = Inr q"
  shows "\<exists>f ps1 cs ps2. filterPart env db node fp = Inr (f, ps1) \<and> sortClauses sorts props ps1 = Inr (cs, ps2)"
proof -
  obtain f ps1 where f: "filterPart env db node fp = Inr (f, ps1)"
    using q by (cases "filterPart env db node fp") (auto simp: buildQuery_def)
  obtain cs ps2 where cs: "sortClauses sorts props ps1 = Inr (cs, ps2)"
  proof (cases "sortClauses sorts props ps1")
    case (Inl e)
    with q f show ?thesis by (simp add: buildQuery_def)
  next
    case (Inr r)
    with that show ?thesis by (cases r) blast
  qed
  with f show ?thesis by blast
qed

text \<open>What the query of one page means, in terms of the rows alone.\<close>

lemma build_meaning:
  assumes q: "buildQuery env db node fp sorts props cur = Inr q" and rp: "readsPlaceholders (qe_pg env)"
  shows "queried env db incl q row = wanted env db node fp incl row"
    and "orderKeys (qe_pg env) (bq_params q) (bq_order q) row = rowKeys (qe_pg env) props sorts row"
    and "castFails (qe_pg env) (bq_params q) (bq_order q) row = (\<not> rowCastable (qe_pg env) props sorts row)"
    and "cur = None \<Longrightarrow> bq_after q = None"
    and "cur = Some (vs, i) \<Longrightarrow> rowCastable (qe_pg env) props sorts row \<Longrightarrow> cursorCastable (qe_pg env) props sorts vs \<Longrightarrow>
      \<exists>b. bq_after q = Some b \<and> keysetHolds (qe_pg env) (bq_params q) b row =
        (cursorKeys (qe_pg env) props sorts vs < rowKeys (qe_pg env) props sorts row \<or>
         (cursorKeys (qe_pg env) props sorts vs = rowKeys (qe_pg env) props sorts row \<and> i < rit_id row))"
proof -
  from build_parts [OF q] obtain f ps1 cs ps2
    where f: "filterPart env db node fp = Inr (f, ps1)" and cs: "sortClauses sorts props ps1 = Inr (cs, ps2)" by blast
  from sortClauses_extends [OF cs] obtain m2 where m2: "ps2 = ps1 @ m2" by auto
  obtain m3 where m3: "bq_params q = ps2 @ m3" "bq_filter q = f" "bq_order q = cs"
    and after: "cur = None \<Longrightarrow> bq_after q = None"
      "\<And>c. cur = Some c \<Longrightarrow> \<exists>b. bq_after q = Some b \<and> sortKeyset sorts props c ps2 = Inr (b, bq_params q)"
  proof (cases cur)
    case None
    with q f cs that [of "[]"] show ?thesis by (auto simp: buildQuery_def)
  next
    case (Some c)
    with q f cs obtain b ps3 where b: "sortKeyset sorts props c ps2 = Inr (b, ps3)"
        "q = \<lparr>bq_filter = f, bq_order = cs, bq_after = Some b, bq_params = ps3\<rparr>"
      by (cases "sortKeyset sorts props c ps2") (auto simp: buildQuery_def)
    from b(1) obtain m where "ps3 = ps2 @ m"
      by (auto simp: sortKeyset_def map_sum_def Let_def dest!: keysetKeys_extends split: sum.splits)
    with Some b that [of m] show ?thesis by auto
  qed
  have "pg_filter (qe_pg env) s (bq_params q) row = pg_filter (qe_pg env) s ps1 row" if "f = Some s" for s
  proof -
    from f that obtain n where "compileFilterNode (qe_numText env) n fp [TextParam db] = Inr (s, ps1)"
      by (auto simp: filterPart_def map_sum_def split: option.splits sum.splits)
    from filter_prefix [OF this] rp show ?thesis
      unfolding readsPlaceholders_def m3(1) m2 append_assoc by blast
  qed
  with f show "queried env db incl q row = wanted env db node fp incl row"
    by (auto simp: queried_def wanted_def m3 filterPart_def map_sum_def split: option.splits sum.splits)
  show "orderKeys (qe_pg env) (bq_params q) (bq_order q) row = rowKeys (qe_pg env) props sorts row"
    using sortClauses_keys [OF cs] by (simp add: m3 rowKeys_def)
  show "castFails (qe_pg env) (bq_params q) (bq_order q) row = (\<not> rowCastable (qe_pg env) props sorts row)"
    using sortClauses_castable [OF cs] by (simp add: m3 rowCastable_def)
  show "cur = None \<Longrightarrow> bq_after q = None" by (rule after(1))
  assume c: "cur = Some (vs, i)" "rowCastable (qe_pg env) props sorts row" "cursorCastable (qe_pg env) props sorts vs"
  from after(2) [OF c(1)] sortKeyset_after [OF _ _ c(2,3), where rest = "[]"]
  show "\<exists>b. bq_after q = Some b \<and> keysetHolds (qe_pg env) (bq_params q) b row =
        (cursorKeys (qe_pg env) props sorts vs < rowKeys (qe_pg env) props sorts row \<or>
         (cursorKeys (qe_pg env) props sorts vs = rowKeys (qe_pg env) props sorts row \<and> i < rit_id row))"
    by fastforce
qed

lemma build_again:
  assumes "buildQuery env db node fp sorts props None = Inr q"
  shows "\<exists>q'. buildQuery env db node fp sorts props cur = Inr q'"
proof (cases cur)
  case (Some c)
  from build_parts [OF assms] obtain f ps1 cs ps2
    where f: "filterPart env db node fp = Inr (f, ps1)" and cs: "sortClauses sorts props ps1 = Inr (cs, ps2)" by blast
  from keysetKeys_succeed [OF cs, of "fst c" ps2] obtain r where "sortKeyset sorts props c ps2 = Inr r"
    by (auto simp: sortKeyset_def Let_def)
  with f cs Some show ?thesis by (cases r) (simp add: buildQuery_def)
qed (use assms in auto)

section \<open>The order of the rows\<close>

definition comesAfter :: "(ItemDbRow \<Rightarrow> 'k :: linorder) \<Rightarrow> ItemDbRow \<Rightarrow> ItemDbRow \<Rightarrow> bool" where
  "comesAfter keys a b \<longleftrightarrow> keys a < keys b \<or> (keys a = keys b \<and> rit_id a < rit_id b)"

lemma ties_strict:
  assumes "sorted (map keys S)" "\<And>k. sorted_wrt (\<lambda>a b. rit_id a < rit_id b) (filter (\<lambda>r. keys r = k) S)"
  shows "sorted_wrt (comesAfter keys) S"
  using assms
proof (induction S)
  case (Cons a S)
  have "sorted_wrt (\<lambda>a b. rit_id a < rit_id b) (filter (\<lambda>r. keys r = k) S)" for k
    using Cons.prems(2) [of k] by (auto split: if_splits)
  with Cons have "sorted_wrt (comesAfter keys) S" by simp
  moreover have "comesAfter keys a b" if "b \<in> set S" for b
    using Cons.prems(1) Cons.prems(2) [of "keys a"] that by (auto simp: comesAfter_def order.order_iff_strict)
  ultimately show ?case by simp
qed simp

lemma inOrder_strict:
  assumes "distinct (map rit_id rows)"
  shows "sorted_wrt (comesAfter (rowKeys pg props sorts)) (inOrder pg props sorts rows)"
proof (rule ties_strict)
  show "sorted (map (rowKeys pg props sorts) (inOrder pg props sorts rows))"
    by (simp add: inOrder_def)
  fix k
  have "distinct (map rit_id (sort_key rit_id rows))"
    using assms by (simp add: distinct_map)
  then have "sorted_wrt (<) (map rit_id (sort_key rit_id rows))" by (simp add: strict_sorted_iff)
  then have "sorted_wrt (\<lambda>a b. rit_id a < rit_id b) (filter (\<lambda>r. rowKeys pg props sorts r = k) (sort_key rit_id rows))"
    by (simp add: sorted_wrt_map sorted_wrt_filter)
  then show "sorted_wrt (\<lambda>a b. rit_id a < rit_id b) (filter (\<lambda>r. rowKeys pg props sorts r = k) (inOrder pg props sorts rows))"
    by (simp add: inOrder_def sort_key_stable)
qed

lemma comesAfter_trans: "comesAfter keys a b \<Longrightarrow> comesAfter keys b c \<Longrightarrow> comesAfter keys a c"
  by (auto simp: comesAfter_def)

lemma comesAfter_asym: "comesAfter keys a b \<Longrightarrow> \<not> comesAfter keys b a"
  by (auto simp: comesAfter_def)

text \<open>In a strict order, the rows after the \<open>k\<close>-th are the rest of the list.\<close>

lemma rows_after:
  assumes "sorted_wrt (comesAfter keys) S" "0 < k" "k \<le> length S"
  shows "filter (comesAfter keys (S ! (k - 1))) S = drop k S"
proof -
  have nth: "comesAfter keys (S ! i) (S ! j)" if "i < j" "j < length S" for i j
    using assms(1) that by (simp add: sorted_wrt_iff_nth_less)
  have "\<not> comesAfter keys (S ! (k - 1)) r" if r: "r \<in> set (take k S)" for r
  proof -
    from r obtain i where i: "i < k" "r = S ! i" using assms(3) by (auto simp: in_set_conv_nth)
    show ?thesis
    proof (cases "i = k - 1")
      case True
      with i show ?thesis by (auto simp: comesAfter_def)
    next
      case False
      then have "i < k - 1" "k - 1 < length S" using i assms by linarith+
      with i nth show ?thesis by (auto dest: comesAfter_asym)
    qed
  qed
  moreover have "comesAfter keys (S ! (k - 1)) r" if "r \<in> set (drop k S)" for r
    using that nth [of "k - 1"] assms(2) by (auto simp: in_set_conv_nth)
  ultimately have "filter (comesAfter keys (S ! (k - 1))) (take k S) = []"
      "filter (comesAfter keys (S ! (k - 1))) (drop k S) = drop k S"
    by (auto simp: filter_empty_conv filter_id_conv)
  then show ?thesis
    using filter_append [of "comesAfter keys (S ! (k - 1))" "take k S" "drop k S"] by simp
qed

section \<open>Cursors\<close>

lemma sortValue_text:
  "jsonbText pg (Some (sortValue props (mapItemRow row) spec)) = jsonbText pg (specJson props row spec)"
  by (auto simp: sortValue_def specJson_def lookupSortProperty_def mapItemRow_def jsonbText_def split: option.splits)

lemma cursor_of_row:
  "cursorKeys pg props sorts (map (sortValue props (mapItemRow row)) sorts) = rowKeys pg props sorts row"
  "cursorCastable pg props sorts (map (sortValue props (mapItemRow row)) sorts) = rowCastable pg props sorts row"
proof -
  show "cursorKeys pg props sorts (map (sortValue props (mapItemRow row)) sorts) = rowKeys pg props sorts row"
    by (induction sorts) (simp_all add: cursorKeys_def rowKeys_def valueKey_def sortValue_text)
  show "cursorCastable pg props sorts (map (sortValue props (mapItemRow row)) sorts) = rowCastable pg props sorts row"
    by (induction sorts) (simp_all add: cursorCastable_def rowCastable_def castable_def sortValue_text)
qed

lemma cursor_decodes:
  "resumable env sorts props row \<Longrightarrow>
   decodeSortCursor env (encodeSortCursor env sorts props (mapItemRow row)) sorts props
     = Inr (map (sortValue props (mapItemRow row)) sorts, rit_id row)"
  by (simp add: resumable_def decodeSortCursor_def cursorPayload_def mapItemRow_def)

section \<open>One page\<close>

text \<open>The cursor a page ends with: an id, or the composite cursor of a sorted query.\<close>

definition pageCursor :: "queryEnv \<Rightarrow> SortSpec list \<Rightarrow> SortProperties \<Rightarrow> ItemDbRow \<Rightarrow> string" where
  "pageCursor env sortSpecs properties row =
     (if sortSpecs = [] then rit_id row else encodeSortCursor env sortSpecs properties (mapItemRow row))"

text \<open>What a paging client meets: the query can be built, its rows be cast and resumed after, ids are unique.\<close>

definition pageable ::
  "queryEnv \<Rightarrow> id \<Rightarrow> FilterNode option \<Rightarrow> SortSpec list \<Rightarrow> bool \<Rightarrow> PropertyRow list \<Rightarrow> FilterProperties \<Rightarrow> ItemDbRow list \<Rightarrow> bool" where
  "pageable env db node sorts incl props fp items \<longleftrightarrow>
     readsPlaceholders (qe_pg env) \<and>
     (\<exists>q. buildQuery env db node fp sorts (propertiesByKey props) None = Inr q) \<and>
     distinct (map (\<lambda>r. (rit_database_id r, rit_id r)) items) \<and>
     (\<forall>r \<in> set items. wanted env db node fp incl r \<longrightarrow>
        rowCastable (qe_pg env) (propertiesByKey props) sorts r \<and> resumable env sorts (propertiesByKey props) r)"

definition pagedRows ::
  "queryEnv \<Rightarrow> id \<Rightarrow> FilterNode option \<Rightarrow> SortSpec list \<Rightarrow> bool \<Rightarrow> PropertyRow list \<Rightarrow> FilterProperties \<Rightarrow> ItemDbRow list \<Rightarrow> ItemDbRow list" where
  "pagedRows env db node sorts incl props fp items =
     inOrder (qe_pg env) (propertiesByKey props) sorts (filter (wanted env db node fp incl) items)"

lemma pagedRows_set: "set (pagedRows env db node sorts incl props fp items) = {r \<in> set items. wanted env db node fp incl r}"
  by (auto simp: pagedRows_def inOrder_def)

lemma pagedRows_strict:
  assumes "pageable env db node sorts incl props fp items"
  shows "sorted_wrt (comesAfter (rowKeys (qe_pg env) (propertiesByKey props) sorts))
           (pagedRows env db node sorts incl props fp items)"
proof -
  have "distinct (map rit_id (filter (wanted env db node fp incl) items))"
    using assms by (auto simp: pageable_def distinct_map inj_on_def wanted_def)
  then show ?thesis unfolding pagedRows_def by (rule inOrder_strict)
qed

lemma inOrder_filter:
  "inOrder pg props sorts (filter P rows) = filter P (inOrder pg props sorts rows)"
  by (simp add: inOrder_def filter_sort)

lemma resumed_rows:
  assumes p: "pageable env db node sorts incl props fp items"
    and S: "S = pagedRows env db node sorts incl props fp items" and k: "0 < k" "k \<le> length S"
    and P: "\<And>r. r \<in> set S \<Longrightarrow> P r = comesAfter (rowKeys (qe_pg env) (propertiesByKey props) sorts) (S ! (k - 1)) r"
  shows "inOrder (qe_pg env) (propertiesByKey props) sorts (filter (\<lambda>r. wanted env db node fp incl r \<and> P r) items) = drop k S"
proof -
  have "inOrder (qe_pg env) (propertiesByKey props) sorts (filter (\<lambda>r. wanted env db node fp incl r \<and> P r) items) = filter P S"
    by (simp add: S pagedRows_def conj_commute flip: inOrder_filter)
  also have "\<dots> = filter (comesAfter (rowKeys (qe_pg env) (propertiesByKey props) sorts) (S ! (k - 1))) S"
    by (rule filter_cong) (simp_all add: P)
  also have "\<dots> = drop k S"
    using rows_after [OF pagedRows_strict [OF p, folded S] k] .
  finally show ?thesis .
qed

definition pageOf :: "(ItemDbRow \<Rightarrow> string) \<Rightarrow> nat \<Rightarrow> ItemDbRow list \<Rightarrow> QueryViewResult" where
  "pageOf cursorOf limit rows =
     (map mapItemRow (take limit rows), if length rows > limit then Some (cursorOf (rows ! (limit - 1))) else None)"

text \<open>What \<open>listItems\<close> answers, once the rows it selects are known in their order.\<close>

lemma listItems_page:
  assumes "0 < l" "lo_limit opts = Some l"
    and "\<And>r. (rit_database_id r = db \<and> (lo_includeDeleted opts \<or> rit_deleted_at r = None)
          \<and> (case lo_filter opts of None \<Rightarrow> True | Some p \<Rightarrow> p r)) = wanted env db node fp incl r"
    and "\<And>r. r \<in> set (t_items (cl_db c)) \<Longrightarrow> wanted env db node fp incl r \<Longrightarrow> (case lo_keyset opts of
              Some (afterSql, _) \<Rightarrow> (case afterSql of None \<Rightarrow> True | Some p \<Rightarrow> p r)
            | None \<Rightarrow> (case lo_cursor opts of
                  None \<Rightarrow> True | Some cursor \<Rightarrow> if cursor = '''' then True else rit_id r > cursor)) = P r"
    and "(case lo_orderBy opts of None \<Rightarrow> sort_key rit_id rows | Some rank \<Rightarrow> sort_key rank (sort_key rit_id rows)) = D"
    and "rows = filter (\<lambda>r. wanted env db node fp incl r \<and> P r) (t_items (cl_db c))"
    and "\<And>r. r \<in> set D \<Longrightarrow> (case lo_keyset opts of Some (_, enc) \<Rightarrow> enc (mapItemRow r) | None \<Rightarrow> rit_id r) = cur r"
  shows "listItems db opts c = Inr (pageOf cur (min l 200) D, c)"
proof -
  let ?l = "min l 200"
  have sel: "filter (\<lambda>r. rit_database_id r = db \<and> (lo_includeDeleted opts \<or> rit_deleted_at r = None)
      \<and> (case lo_filter opts of None \<Rightarrow> (\<lambda>_. True) | Some p \<Rightarrow> p) r
      \<and> (case lo_keyset opts of
              Some (afterSql, _) \<Rightarrow> (case afterSql of None \<Rightarrow> (\<lambda>_. True) | Some p \<Rightarrow> p)
            | None \<Rightarrow> (case lo_cursor opts of
                  None \<Rightarrow> (\<lambda>_. True)
                | Some cursor \<Rightarrow> if cursor = '''' then (\<lambda>_. True) else (\<lambda>r. rit_id r > cursor))) r)
      (t_items (cl_db c)) = rows"
    unfolding assms(6)
  proof (rule filter_cong [OF refl])
    fix r assume r: "r \<in> set (t_items (cl_db c))"
    have f: "(case lo_filter opts of None \<Rightarrow> (\<lambda>_. True) | Some p \<Rightarrow> p) r = (case lo_filter opts of None \<Rightarrow> True | Some p \<Rightarrow> p r)"
      by (simp split: option.splits)
    have a: "(case lo_keyset opts of
              Some (afterSql, _) \<Rightarrow> (case afterSql of None \<Rightarrow> (\<lambda>_. True) | Some p \<Rightarrow> p)
            | None \<Rightarrow> (case lo_cursor opts of
                  None \<Rightarrow> (\<lambda>_. True)
                | Some cursor \<Rightarrow> if cursor = '''' then (\<lambda>_. True) else (\<lambda>r. rit_id r > cursor))) r
      = (case lo_keyset opts of
              Some (afterSql, _) \<Rightarrow> (case afterSql of None \<Rightarrow> True | Some p \<Rightarrow> p r)
            | None \<Rightarrow> (case lo_cursor opts of
                  None \<Rightarrow> True | Some cursor \<Rightarrow> if cursor = '''' then True else rit_id r > cursor))"
      by (auto split: option.splits prod.splits)
    show "(rit_database_id r = db \<and> (lo_includeDeleted opts \<or> rit_deleted_at r = None)
      \<and> (case lo_filter opts of None \<Rightarrow> (\<lambda>_. True) | Some p \<Rightarrow> p) r
      \<and> (case lo_keyset opts of
              Some (afterSql, _) \<Rightarrow> (case afterSql of None \<Rightarrow> (\<lambda>_. True) | Some p \<Rightarrow> p)
            | None \<Rightarrow> (case lo_cursor opts of
                  None \<Rightarrow> (\<lambda>_. True)
                | Some cursor \<Rightarrow> if cursor = '''' then (\<lambda>_. True) else (\<lambda>r. rit_id r > cursor))) r)
      = (wanted env db node fp incl r \<and> P r)"
      unfolding f a using assms(3) [of r] assms(4) [OF r] by argo
  qed
  have last: "last (map mapItemRow (take ?l D)) = mapItemRow (D ! (?l - 1))" "D ! (?l - 1) \<in> set D" if len: "length D > ?l"
  proof -
    have pos: "0 < ?l" using assms(1) by simp
    from len have n: "length (take ?l D) = ?l" by simp
    with pos have ne: "take ?l D \<noteq> []" by fastforce
    from last_conv_nth [OF ne] have "last (take ?l D) = D ! (?l - 1)"
      unfolding n using pos by (simp only: nth_take diff_less zero_less_one)
    with last_map [OF ne, of mapItemRow] show "last (map mapItemRow (take ?l D)) = mapItemRow (D ! (?l - 1))"
      by (simp only:)
    show "D ! (?l - 1) \<in> set D" using len pos by (intro nth_mem) linarith
  qed
  have d: "(case lo_orderBy opts of None \<Rightarrow> sort_key rit_id rows | Some rank \<Rightarrow> sort_key rank (sort_key rit_id rows)) = D"
    by (rule assms(5))
  have "mapItemRow r = mapItemRow r \<and> it_id (mapItemRow r) = rit_id r" for r by (simp add: mapItemRow_def)
  then show ?thesis
    unfolding listItems_def Let_def assms(2) option.case selectItems_def bnd_query_apply return_apply sel d pageOf_def
    using last assms(1) assms(7) [OF last(2)]
    by (auto simp: min_def not_less split: option.splits prod.splits)
qed

lemma core_page:
  assumes props: "listPropertiesByDatabase db c = Inr (props, c)" and fp: "filterPropertiesFor env node props c = Inr (fp, c)"
    and p: "pageable env db node sorts incl props fp (t_items (cl_db c))"
    and S: "S = pagedRows env db node sorts incl props fp (t_items (cl_db c))"
    and k: "k \<le> length S" and l: "0 < l"
    and cursor: "cursor = (if k = 0 then None else Some (pageCursor env sorts (propertiesByKey props) (S ! (k - 1))))"
  shows "queryItemsCore env db node sorts \<lparr>qo_limit = Some l, qo_cursor = cursor, qo_includeDeleted = incl\<rparr> c
         = Inr (pageOf (pageCursor env sorts (propertiesByKey props)) (min l 200) (drop k S), c)"
proof -
  let ?P = "propertiesByKey props" and ?pg = "qe_pg env"
  let ?row = "S ! (k - 1)"
  let ?vs = "map (sortValue ?P (mapItemRow ?row)) sorts"
  define cur where "cur = (if k = 0 \<or> sorts = [] then None else Some (?vs, rit_id ?row))"
  have row: "?row \<in> set S" if "k \<noteq> 0" using that k by (intro nth_mem) linarith
  have good: "rowCastable ?pg ?P sorts r" "resumable env sorts ?P r" if "r \<in> set S" for r
    using that p by (auto simp: S pagedRows_set pageable_def)
  have rp: "readsPlaceholders ?pg" using p by (simp add: pageable_def)
  from p build_again obtain q where q: "buildQuery env db node fp sorts ?P cur = Inr q"
    unfolding pageable_def by blast
  note means = build_meaning [OF q rp]
  let ?o = "\<lparr>qo_limit = Some l, qo_cursor = cursor, qo_includeDeleted = incl\<rparr>"
  have dec: "sortCursorOf env sorts ?P cursor c = Inr (cur, c)"
    using cursor_decodes [OF good(2) [OF row]] by (auto simp: sortCursorOf_def cursor cur_def pageCursor_def comp_simps)
  have nofail: "\<not> anyCastFails env db incl q (cl_db c)"
    using p by (auto simp: anyCastFails_def means(1,3) pageable_def)
  define P where "P r = (k = 0 \<or> comesAfter (rowKeys ?pg ?P sorts) ?row r)" for r
  let ?opts = "listOptions env sorts ?P ?o q"
  have "listItems db ?opts c = Inr (pageOf (pageCursor env sorts ?P) (min l 200) (drop k S), c)"
  proof (rule listItems_page [OF l, where incl = incl and node = node and fp = fp and env = env and P = P
          and rows = "filter (\<lambda>r. wanted env db node fp incl r \<and> P r) (t_items (cl_db c))"])
    show "(rit_database_id r = db \<and> (lo_includeDeleted ?opts \<or> rit_deleted_at r = None)
          \<and> (case lo_filter ?opts of None \<Rightarrow> True | Some p \<Rightarrow> p r)) = wanted env db node fp incl r" for r
      unfolding means(1) [symmetric] by (simp add: queried_def listOptions_def Let_def split: option.split)
    have "inOrder ?pg ?P sorts (filter (\<lambda>r. wanted env db node fp incl r \<and> P r) (t_items (cl_db c))) = drop k S"
    proof (cases "k = 0")
      case True
      then show ?thesis by (simp add: P_def S pagedRows_def)
    next
      case False
      then show ?thesis by (intro resumed_rows [OF p S _ k]) (simp_all add: P_def)
    qed
    moreover have "orderKeys ?pg (bq_params q) (bq_order q) = rowKeys ?pg ?P sorts" by (rule ext) (rule means(2))
    moreover have "rowKeys ?pg ?P [] = (\<lambda>_. [])" by (simp add: rowKeys_def fun_eq_iff)
    ultimately show "(case lo_orderBy ?opts of
        None \<Rightarrow> sort_key rit_id (filter (\<lambda>r. wanted env db node fp incl r \<and> P r) (t_items (cl_db c)))
      | Some rank \<Rightarrow> sort_key rank (sort_key rit_id (filter (\<lambda>r. wanted env db node fp incl r \<and> P r) (t_items (cl_db c)))))
      = drop k S"
      by (cases "sorts = []") (simp_all add: inOrder_def sort_key_const listOptions_def Let_def)
  next
    fix r assume r: "r \<in> set (t_items (cl_db c))" "wanted env db node fp incl r"
    then have rS: "r \<in> set S" by (simp add: S pagedRows_set)
    show "(case lo_keyset ?opts of
              Some (afterSql, _) \<Rightarrow> (case afterSql of None \<Rightarrow> True | Some p \<Rightarrow> p r)
            | None \<Rightarrow> (case lo_cursor ?opts of
                  None \<Rightarrow> True | Some cursor \<Rightarrow> if cursor = '''' then True else rit_id r > cursor)) = P r"
    proof (cases "k = 0")
      case True
      with means(4) show ?thesis by (simp add: cur_def P_def cursor listOptions_def Let_def)
    next
      case False
      show ?thesis
      proof (cases "sorts = []")
        case True
        have "rit_id ?row \<noteq> ''''" using good(2) [OF row [OF False]] by (auto simp: resumable_def isUuid_def)
        with True False show ?thesis by (simp add: P_def cursor pageCursor_def comesAfter_def rowKeys_def listOptions_def Let_def)
      next
        case ns: False
        from means(5) [of ?vs "rit_id ?row" r] good(1) [OF rS] good(1) [OF row [OF False]] ns False show ?thesis
          by (auto simp: cur_def P_def comesAfter_def cursor_of_row listOptions_def Let_def)
      qed
    qed
  qed (auto simp: pageCursor_def mapItemRow_def listOptions_def Let_def)
  with nofail props fp dec q show ?thesis
    by (simp add: queryItemsCore_def filterPropertiesFor_def Let_def bnd_Inr bnd_query_apply comp_simps)
qed

section \<open>All pages\<close>

lemma pages_from:
  assumes props: "listPropertiesByDatabase db c = Inr (props, c)" and fp: "filterPropertiesFor env node props c = Inr (fp, c)"
    and p: "pageable env db node sorts incl props fp (t_items (cl_db c))"
    and S: "S = pagedRows env db node sorts incl props fp (t_items (cl_db c))" and l: "0 < l"
    and k: "k \<le> length S" "length S - k < n"
    and cursor: "cursor = (if k = 0 then None else Some (pageCursor env sorts (propertiesByKey props) (S ! (k - 1))))"
  shows "allPages n env db node sorts incl l cursor c = Inr (map mapItemRow (drop k S), c)"
  using k cursor
proof (induction n arbitrary: k cursor)
  case (Suc n)
  let ?m = "min l 200"
  note page = core_page [OF props fp p S Suc.prems(1) l Suc.prems(3)]
  show ?case
  proof (cases "length (drop k S) > ?m")
    case False
    then have "take ?m (drop k S) = drop k S" by (intro take_all) linarith
    with False show ?thesis by (simp add: bnd_Inr page pageOf_def comp_simps del: length_drop)
  next
    case True
    have nth: "drop k S ! (?m - 1) = S ! (k + ?m - 1)" using True l by (simp add: nth_append)
    have rest: "allPages n env db node sorts incl l
          (Some (pageCursor env sorts (propertiesByKey props) (drop k S ! (?m - 1)))) c
        = Inr (map mapItemRow (drop (k + ?m) S), c)"
      unfolding nth by (rule Suc.IH) (use True l Suc.prems(2) in auto)
    have "map mapItemRow (take ?m (drop k S)) @ map mapItemRow (drop (k + ?m) S) = map mapItemRow (drop k S)"
      using append_take_drop_id [of ?m "drop k S"] by (metis add.commute drop_drop map_append)
    with True rest show ?thesis
      by (simp add: bnd_Inr page pageOf_def comp_simps del: length_drop nth_drop)
  qed
qed simp

lemma readsOnly_buildFilterProperties: "readsOnly (buildFilterProperties z props)"
  by (auto simp: buildFilterProperties_def getRelationDefinitionsByPropertyIds_def Let_def intro!: reads_intros)

lemma readsOnly_filterPropertiesFor: "readsOnly (filterPropertiesFor env node props)"
  by (auto simp: filterPropertiesFor_def intro!: reads_intros readsOnly_buildFilterProperties)

text \<open>Paging is possible on a client: its properties can be read and what they give is pageable.\<close>

definition pagingPossible :: "queryEnv \<Rightarrow> id \<Rightarrow> FilterNode option \<Rightarrow> SortSpec list \<Rightarrow> bool \<Rightarrow> client \<Rightarrow> bool" where
  "pagingPossible env db node sorts incl c \<longleftrightarrow>
     (case listPropertiesByDatabase db c of
        Inl _ \<Rightarrow> False
      | Inr (props, _) \<Rightarrow>
          (case filterPropertiesFor env node props c of
             Inl _ \<Rightarrow> False
           | Inr (fp, _) \<Rightarrow> pageable env db node sorts incl props fp (t_items (cl_db c))))"

text \<open>
  C10: a client that follows the cursors, from no cursor on and with any
  positive limit, gets exactly the items of the unpaged query in its order, each once and none
  left out, and the last page comes: as many pages as there are items, and one, are enough. This
  holds for a query paged by id and for a sorted one paged by its composite cursor, whatever ties
  and nulls its keys have.
\<close>

theorem paging_is_the_unpaged_query:
  assumes "pagingPossible env databaseId filterNode sortSpecs includeDeleted c" and "0 < limit"
  shows "\<exists>items.
     allPages (Suc (length (t_items (cl_db c)))) env databaseId filterNode sortSpecs includeDeleted limit None c
       = Inr (items, c)
     \<and> unpagedQuery env databaseId filterNode sortSpecs includeDeleted c = Inr (items, c)
     \<and> distinct (map it_id items)"
proof -
  let ?rows = "t_items (cl_db c)"
  from assms(1) obtain props c1 fp c2 where e: "listPropertiesByDatabase databaseId c = Inr (props, c1)"
      "filterPropertiesFor env filterNode props c = Inr (fp, c2)"
    and p: "pageable env databaseId filterNode sortSpecs includeDeleted props fp ?rows"
    by (auto simp: pagingPossible_def split: sum.splits)
  have props: "listPropertiesByDatabase databaseId c = Inr (props, c)"
    using e(1) readsOnlyD [OF readsOnly_properties(1) e(1)] by simp
  have fp: "filterPropertiesFor env filterNode props c = Inr (fp, c)"
    using e(2) readsOnlyD [OF readsOnly_filterPropertiesFor e(2)] by simp
  define S where "S = pagedRows env databaseId filterNode sortSpecs includeDeleted props fp ?rows"
  have "length S = length (filter (wanted env databaseId filterNode fp includeDeleted) ?rows)"
    by (simp add: S_def pagedRows_def inOrder_def)
  then have "length S - 0 < Suc (length ?rows)" using length_filter_le [of _ ?rows] by (simp add: le_imp_less_Suc)
  from pages_from [OF props fp p S_def assms(2) _ this]
  have "allPages (Suc (length ?rows)) env databaseId filterNode sortSpecs includeDeleted limit None c
      = Inr (map mapItemRow S, c)" by simp
  moreover have "unpagedQuery env databaseId filterNode sortSpecs includeDeleted c = Inr (map mapItemRow S, c)"
    using props fp by (simp add: unpagedQuery_def bnd_Inr selectItems_def bnd_query_apply comp_simps S_def pagedRows_def)
  moreover have "distinct (map it_id (map mapItemRow S))"
  proof -
    have "it_id \<circ> mapItemRow = rit_id" by (simp add: fun_eq_iff mapItemRow_def)
    moreover have "distinct (map rit_id (filter (wanted env databaseId filterNode fp includeDeleted) ?rows))"
      using p by (auto simp: pageable_def distinct_map inj_on_def wanted_def)
    ultimately show ?thesis by (simp add: S_def pagedRows_def inOrder_def distinct_map)
  qed
  ultimately show ?thesis by blast
qed

text \<open>Three items sorted by a number, descending; one has no value and comes last.\<close>

definition exampleId :: "char \<Rightarrow> string" where
  "exampleId c = ''00000000-0000-4000-8000-00000000000'' @ [c]"

definition examplePostgres :: postgres where
  "examplePostgres =
     \<lparr>pg_jsonText = (\<lambda>v. case v of JNum q \<Rightarrow> if q = 1 then ''1'' else ''2'' | _ \<Rightarrow> ''''),
      pg_numeric = (\<lambda>s. if s = ''1'' then Some (Number 1) else if s = ''2'' then Some (Number 2) else None),
      pg_timestamptz = (\<lambda>_. None), pg_collate = id, pg_filter = (\<lambda>_ _ row. rit_database_id row = ''d1'')\<rparr>"

definition examplePaged :: client where
  "examplePaged = exampleClient\<lparr>cl_db := emptyDb\<lparr>
     t_properties := [exampleProperty ''p1'' ''d1'' ''size'' ''number'' [] ''user''],
     t_items :=
       [exampleItem ''d1'' (exampleId CHR ''a'') [(''size'', JNum 1)] None,
        exampleItem ''d1'' (exampleId CHR ''b'') [] None,
        exampleItem ''d1'' (exampleId CHR ''c'') [(''size'', JNum 2)] None,
        exampleItem ''d2'' (exampleId CHR ''d'') [(''size'', JNum 2)] None]\<rparr>\<rparr>"

definition exampleSorts :: "SortSpec list" where
  "exampleSorts = [\<lparr>so_property = ''size'', so_direction = Desc\<rparr>]"

text \<open>A coding of cursors that is right for these items: the last digit of the item's id names its payload.\<close>

definition exampleEnv :: queryEnv where
  "exampleEnv =
     \<lparr>qe_pg = examplePostgres, qe_zodUuid = isUuid, qe_numText = (\<lambda>_. ''0''),
      qe_encode = (\<lambda>v. case v of JObj [_, (_, JStr i)] \<Rightarrow> i | _ \<Rightarrow> ''''),
      qe_decode = (\<lambda>s. map_of
         [(exampleId CHR ''a'', JObj [(''v'', JArr [JNum 1]), (''id'', JStr (exampleId CHR ''a''))]),
          (exampleId CHR ''b'', JObj [(''v'', JArr [JNull]), (''id'', JStr (exampleId CHR ''b''))]),
          (exampleId CHR ''c'', JObj [(''v'', JArr [JNum 2]), (''id'', JStr (exampleId CHR ''c''))])] s),
      qe_dateParses = (\<lambda>_. False), qe_toNumber = (\<lambda>_. None)\<rparr>"

definition nameFilter :: "FilterNode option" where
  "nameFilter = Some (NotNode (ConditionNode (ScalarCondition OpEquals ''size'' (ScNum 9))))"

definition buildable :: "queryEnv \<Rightarrow> id \<Rightarrow> FilterNode option \<Rightarrow> FilterProperties \<Rightarrow> SortSpec list \<Rightarrow> SortProperties \<Rightarrow> bool" where
  "buildable env db node fp sorts props \<longleftrightarrow> \<not> isl (buildQuery env db node fp sorts props None)"

text \<open>The checkable part of \<open>pageable\<close>.\<close>

lemma pageable_check:
  assumes "readsPlaceholders (qe_pg env)"
    and "case listPropertiesByDatabase db c of
        Inl _ \<Rightarrow> False
      | Inr (props, _) \<Rightarrow>
          (case filterPropertiesFor env node props c of
             Inl _ \<Rightarrow> False
           | Inr (fp, _) \<Rightarrow>
               buildable env db node fp sorts (propertiesByKey props) \<and>
               distinct (map (\<lambda>r. (rit_database_id r, rit_id r)) (t_items (cl_db c))) \<and>
               list_all (\<lambda>r. wanted env db node fp incl r \<longrightarrow>
                  rowCastable (qe_pg env) (propertiesByKey props) sorts r \<and> resumable env sorts (propertiesByKey props) r)
                 (t_items (cl_db c)))"
  shows "pagingPossible env db node sorts incl c"
  using assms
  by (auto simp: pagingPossible_def pageable_def buildable_def list_all_iff isl_def split: sum.splits prod.splits)
     (metis sum.exhaust_sel)

lemma paging_is_the_unpaged_query_witness:
  "\<exists>items. allPages 5 exampleEnv ''d1'' nameFilter exampleSorts False 1 None examplePaged = Inr (items, examplePaged)
     \<and> map it_id items = [exampleId CHR ''c'', exampleId CHR ''a'', exampleId CHR ''b'']"
proof -
  have rp: "readsPlaceholders (qe_pg exampleEnv)"
    by (simp add: readsPlaceholders_def exampleEnv_def examplePostgres_def)
  have "pagingPossible exampleEnv ''d1'' nameFilter exampleSorts False examplePaged"
    by (rule pageable_check [OF rp]) code_simp
  from paging_is_the_unpaged_query [OF this, of 1] obtain items where i:
      "allPages (Suc (length (t_items (cl_db examplePaged)))) exampleEnv ''d1'' nameFilter exampleSorts False 1 None examplePaged
        = Inr (items, examplePaged)"
      "unpagedQuery exampleEnv ''d1'' nameFilter exampleSorts False examplePaged = Inr (items, examplePaged)"
    by auto
  have "Suc (length (t_items (cl_db examplePaged))) = 5" by (simp add: examplePaged_def)
  moreover have "(case unpagedQuery exampleEnv ''d1'' nameFilter exampleSorts False examplePaged of
      Inl _ \<Rightarrow> [] | Inr (items, _) \<Rightarrow> map it_id items) = [exampleId CHR ''c'', exampleId CHR ''a'', exampleId CHR ''b'']"
    by code_simp
  ultimately show ?thesis using i by simp
qed

text \<open>
  A number cell may hold the text \<open>NaN\<close>, which Postgres casts and sorts. The cursor of a page that
  ends on its row is refused, though it was made for exactly this sort.
\<close>

lemma nan_cursor_refused:
  assumes "map_of properties (so_property spec) = Some p" "pr_type p = PtNumber"
    and "map_of (it_properties item) (so_property spec) = Some (JStr ''NaN'')"
    and "qe_decode env (encodeSortCursor env [spec] properties item) = Some (cursorPayload [spec] properties item)"
  shows "decodeSortCursor env (encodeSortCursor env [spec] properties item) [spec] properties = Inl invalidCursor"
proof -
  have "\<not> NUMERIC_TEXT_RE ''NaN''" by code_simp
  with assms show ?thesis
    by (simp add: decodeSortCursor_def cursorPayload_def sortValue_def sortKeyCast_def castableTo_def)
qed

end
