(* ===== verification/Spec2Isabelle.thy ===== *)
theory Spec2Isabelle
  imports ItemReads UpdateProps ModuleRegistry ClientIpThrottle ImapLimiter SegmentMerge
    ConversationProps ApprovalProps HeartbeatProps SchemaProps MigrationProps
    ViewProps PagingProps
begin

text \<open>
  A verification development for Semprec, a personal life-organization system whose core is a
  Postgres-backed data layer behind one API choke point. The sources meant below are under
  \<open>src/backend/packages\<close> and \<open>src/backend/services\<close>.

  \<^bold>\<open>How the model reads.\<close> An \<open>async\<close> function that runs on one database client is a function
  from its arguments and a \<open>client\<close> to an error or a value, and the client it left behind
  (\<open>op\<close> of theory Transactions, built from \<open>Prelude\<close>): the client carries the tables as the
  transaction sees them, the callbacks registered for after the commit and the invalidation
  events parked until then. \<open>withTransaction\<close> turns such a function into one on the world
  outside. Thrown errors are values of \<open>error\<close>. A table is a list of rows; SQL statements are
  the operations on that list which the statement text says. What the process supplies (hooks
  of other modules, the clock, Luxon's calendar, generated ids) is an argument.

  \<^bold>\<open>Theories and what they model.\<close>
    \<^item> \<open>Prelude\<close>: state-and-error computations and their invariant rules, JSON values.
    \<^item> \<open>Errors\<close>: \<open>data/src/errors.ts\<close>. \<open>Tables\<close>: \<open>data/src/types.ts\<close> and the row types
      of the stores. \<open>Transactions\<close>: \<open>db/pool.ts\<close>, \<open>realtimeHook.ts\<close>,
      \<open>shared/tenantScope.ts\<close>, \<open>queue/index.ts\<close>.
    \<^item> \<open>ItemsStore\<close>, \<open>DatabasesStore\<close>, \<open>PropertiesStore\<close>, \<open>RelationsStore\<close>: the
      stores of \<open>chokePoint/\<close>, one function each, and the cardinality trigger of migration 13.
    \<^item> \<open>Scheduler\<close>: \<open>scheduler/rule.ts\<close>, \<open>nextFireAt.ts\<close> and what the choke point calls of
      \<open>schedulerStore.ts\<close>. \<open>HeartbeatStore\<close>: the rest of that store, the sweep and its
      occurrences included. \<open>HeartbeatFire\<close>: \<open>sweep.ts\<close>, \<open>actions.ts\<close>,
      \<open>itemRelationFilter.ts\<close>.
    \<^item> \<open>Rollup\<close>, \<open>RollupRecompute\<close>: \<open>rollup/\<close>. \<open>Hooks\<close>: the hook registries and the
      guards of a relation edge.
    \<^item> \<open>RelationOps\<close>, \<open>ItemWrites\<close>, \<open>ItemTrash\<close>, \<open>ItemReads\<close>: the operations of the
      choke point (\<open>relationOps.ts\<close>, \<open>itemWrites.ts\<close>, \<open>itemTrash.ts\<close>, \<open>itemReads.ts\<close>,
      \<open>databaseOps.ts\<close>, \<open>authorization.ts\<close>) and the trash sweep.
    \<^item> \<open>PropertyWrites\<close>: the writes of \<open>propertiesStore.ts\<close>, \<open>propertyOps.ts\<close> and
      \<open>relationPropertyOps.ts\<close>. \<open>PropertyMigration\<close>: \<open>migrationJob/propertyTypeMigration.ts\<close>,
      \<open>itemBatch.ts\<close>, \<open>itemMigrationWrites.ts\<close>.
    \<^item> \<open>JsonParsers\<close>: the zod combinators the schemas below are written with.
      \<open>Filters\<close>: \<open>data/src/views/filterTree.ts\<close>, \<open>filterProperties.ts\<close>, \<open>filterCompiler.ts\<close>.
      \<open>Sorts\<close>: \<open>sortSpec.ts\<close>, \<open>sortCompiler.ts\<close>; \<open>SortOrder\<close> says what the compiled clauses
      mean in Postgres. \<open>ViewConfig\<close>: \<open>viewConfig.ts\<close>. \<open>Views\<close>: \<open>chokePoint/viewTypeRegistry.ts\<close>,
      \<open>viewsStore.ts\<close>, \<open>viewItemsStore.ts\<close>, \<open>viewOps.ts\<close>. \<open>ViewQuery\<close>: \<open>views/viewQuery.ts\<close> and
      the filtered, sorted and paged \<open>listItems\<close> it runs.
    \<^item> \<open>ModuleManifest\<close>, \<open>ModuleRegistry\<close>: \<open>module-registry/src\<close>.
    \<^item> \<open>IpAddress\<close>, \<open>ClientIpThrottle\<close>: \<open>semprec-api/src/clientIpThrottle.ts\<close>.
    \<^item> \<open>ImapLimiter\<close>: \<open>data/src/mail/imapConnectionLimiter.ts\<close>.
    \<^item> \<open>SegmentMerge\<close>: chunking and merging of \<open>semprec-transcribe\<close>.
    \<^item> \<open>AgentRuns\<close>: \<open>data/src/agentRuns/agentRunsStore.ts\<close> with the user and notification
      functions it calls. \<open>AgentEvents\<close>: \<open>agentRunEventsStore.ts\<close> and
      \<open>agent-runtime/src/startupRepair.ts\<close>.
    \<^item> \<open>Conversation\<close>: \<open>agent-runtime/src/conversationReconstruction.ts\<close> and the conversion of
      a history to provider messages (\<open>semprec-agents/src/piConversationHistory.ts\<close>).
    \<^item> \<open>Approvals\<close>: \<open>data/src/mcp/approvalRequestsStore.ts\<close>, \<open>approvalDecisionAction.ts\<close> and
      the grant check. \<open>ApprovalExecution\<close>: \<open>approvalRequestExecution.ts\<close>, a delivery being a
      value that says where it is and one step of it one transaction, so that deliveries
      interleave, die and meet decisions (the step relation \<open>execStep\<close>).
    \<^item> \<open>JsMap\<close>: the JavaScript \<open>Map\<close> as an interface and its association-list model.

  \<^bold>\<open>What the lemmas show.\<close>
    \<^item> \<open>StoreFacts\<close>: which operations only read, and the locale \<open>quiet\<close> of a predicate on the
      tables that scheduling cannot break, with the frame lemmas of the shared steps proved once.
      Each invariant below is an interpretation of it.
    \<^item> \<open>ChokeInvariant\<close>, \<open>ChokeSteps\<close>: the consistency of the tables as an invariant of every
      operation, and of every sequence of operations.
    \<^item> \<open>CreateProps\<close>, \<open>UpdateProps\<close>: retries, write protection, version checks.
    \<^item> \<open>ConversationProps\<close>: what a rebuilt history is, when none can be rebuilt, checkpoints, and
      what the startup repair reaches.
    \<^item> \<open>ApprovalProps\<close>: tool calls happen at most once and only as approved, by an invariant over
      the claims the deliveries hold; outcomes are final; a delivery ends; dead claims are settled.
    \<^item> \<open>HeartbeatProps\<close>: one occurrence per due time and one job per generation of it, by an
      invariant over sweeps, fires and edits; stale and repeated fires; schedules move forward.
    \<^item> \<open>SchemaInvariant\<close>, \<open>SchemaProps\<close>: what a rollup reads stays there, over every sequence
      of schema changes.
    \<^item> \<open>MigrationEnds\<close>, \<open>MigrationProps\<close>: a type migration ends, and converts every item once
      however often it died before.
    \<^item> \<open>FilterProps\<close>: which filters compile, and that no text of a request reaches the SQL.
      \<open>ViewProps\<close>: the writes of a curated view are the list operations on its members.
      \<open>PagingProps\<close>: the pages of a sorted query, read cursor by cursor, are the whole query.
      The tests of a cursor are evaluated in the record \<open>postgres\<close> of the casts and the text
      collation the compiled SQL relies on.
    \<^item> The component theories hold their own properties: the isolation of failed transactions,
      atomic module loading, the throttle's bound, the limiter's bound and order, the
      properties of merged transcripts.

  \<^bold>\<open>Bounds and fuel.\<close> The subtree walk, the backfill and the trash sweep are loops whose end
  depends on the tables; they are given fuel, which their theories relate to the tables' size. A
  type migration is given the environments of its batches, which \<open>MigrationEnds\<close> counts.
  Timestamps are integers (microseconds in the database, milliseconds in JavaScript), numbers
  in JSON are exact rationals.

  \<^bold>\<open>Not modelled.\<close> The Postgres server (isolation between overlapping transactions is not: a
  transaction runs alone), the errors it raises while it
  evaluates a filter, the drivers, full-text search, the CRDT library, mail and AI
  transports, HTTP routing, the web and mobile clients, deployment.
\<close>

end
